(* ===== verification/Prelude.thy ===== *)
theory Prelude imports Main "HOL-Library.AList" "HOL-Library.Char_ord" begin

text \<open>
  Shared vocabulary of the development: the JavaScript string and array operations the
  sources use, as executable functions on \<^typ>\<open>string\<close>, with the lemmas every
  component needs.

  A \<^typ>\<open>char\<close> stands for one UTF-16 code unit in the Latin-1 range (U+0000 to U+00FF);
  code units above it do not occur in the model.  A JavaScript \<open>Record\<close> is an association
  list read with \<^const>\<open>map_of\<close> and written with \<^const>\<open>AList.update\<close> (an existing key is
  overwritten in place, a new one goes to the end); the names every object inherits from
  \<open>Object.prototype\<close> are not modelled as keys.
\<close>

section \<open>Collections of rules\<close>

named_theorems js_simps \<open>unfolding rules of the string and array operations\<close>
named_theorems guard_dests \<open>what an operation that succeeded has checked\<close>
named_theorems frame_simps \<open>parts of a state an operation leaves alone\<close>

text \<open>Lookups stay lookups: the distribution would turn them into memberships.\<close>

declare map_of_eq_Some_iff [simp del] Some_eq_map_of_iff [simp del]

section \<open>Characters\<close>

definition in_range :: "nat \<Rightarrow> nat \<Rightarrow> char \<Rightarrow> bool" where
  "in_range lo hi c \<longleftrightarrow> lo \<le> of_char c \<and> of_char c \<le> hi"

definition is_digit :: "char \<Rightarrow> bool" where
  "is_digit = in_range 48 57"

definition is_ws :: "char \<Rightarrow> bool" where
  "is_ws c \<longleftrightarrow> in_range 9 13 c \<or> of_char c = (32::nat) \<or> of_char c = (160::nat)"

definition is_upper :: "char \<Rightarrow> bool" where
  "is_upper c \<longleftrightarrow> in_range 65 90 c \<or> (in_range 192 222 c \<and> of_char c \<noteq> (215::nat))"

definition lower_char :: "char \<Rightarrow> char" where
  "lower_char c = (if is_upper c then char_of (of_char c + (32::nat)) else c)"

definition upper_ascii_char :: "char \<Rightarrow> char" where
  "upper_ascii_char c = (if in_range 97 122 c then char_of (of_char c - (32::nat)) else c)"

lemma of_char_of_nat_small: "n < 256 \<Longrightarrow> of_char (char_of (n::nat)) = n"
  by simp

lemma lower_char_not_upper [simp]: "\<not> is_upper (lower_char c)"
  by (auto simp: lower_char_def is_upper_def in_range_def of_char_of_nat_small)

lemma lower_char_idem [simp]: "lower_char (lower_char c) = lower_char c"
  using lower_char_not_upper [of c] by (simp add: lower_char_def [of "lower_char c"])

section \<open>String operations\<close>

definition to_lower :: "string \<Rightarrow> string" where
  "to_lower s = map lower_char s"

definition to_upper :: "string \<Rightarrow> string" where
  "to_upper s = map upper_ascii_char s"

definition starts_with :: "string \<Rightarrow> string \<Rightarrow> bool" where
  "starts_with s p \<longleftrightarrow> take (length p) s = p"

definition ends_with :: "string \<Rightarrow> string \<Rightarrow> bool" where
  "ends_with s p \<longleftrightarrow> drop (length s - length p) s = p"

fun str_includes :: "string \<Rightarrow> string \<Rightarrow> bool" where
  "str_includes [] p = (p = [])"
| "str_includes (c # s) p = (starts_with (c # s) p \<or> str_includes s p)"

fun index_of :: "string \<Rightarrow> string \<Rightarrow> nat option" where
  "index_of [] p = (if p = [] then Some 0 else None)"
| "index_of (c # s) p = (if starts_with (c # s) p then Some 0 else map_option Suc (index_of s p))"

fun last_index_of :: "char \<Rightarrow> string \<Rightarrow> nat option" where
  "last_index_of d [] = None"
| "last_index_of d (c # s) =
     (case last_index_of d s of Some i \<Rightarrow> Some (Suc i) | None \<Rightarrow> if c = d then Some 0 else None)"

text \<open>\<open>s.split(c)\<close> for a separator of one character: never empty.\<close>

fun split_on :: "char \<Rightarrow> string \<Rightarrow> string list" where
  "split_on d [] = [[]]"
| "split_on d (c # s) =
     (if c = d then [] # split_on d s
      else (case split_on d s of [] \<Rightarrow> [[c]] | w # ws \<Rightarrow> (c # w) # ws))"

fun join :: "string \<Rightarrow> string list \<Rightarrow> string" where
  "join sep [] = []"
| "join sep [w] = w"
| "join sep (w # v # ws) = w @ sep @ join sep (v # ws)"

definition trim_start :: "string \<Rightarrow> string" where
  "trim_start s = dropWhile is_ws s"

definition trim_end :: "string \<Rightarrow> string" where
  "trim_end s = rev (dropWhile is_ws (rev s))"

definition trim :: "string \<Rightarrow> string" where
  "trim s = trim_end (trim_start s)"

definition replace_char :: "char \<Rightarrow> string \<Rightarrow> string \<Rightarrow> string" where
  "replace_char d r s = concat (map (\<lambda>c. if c = d then r else [c]) s)"

definition strip_trailing :: "char \<Rightarrow> string \<Rightarrow> string" where
  "strip_trailing d s = rev (dropWhile (\<lambda>c. c = d) (rev s))"

fun pad_start :: "nat \<Rightarrow> char \<Rightarrow> string \<Rightarrow> string" where
  "pad_start n c s = replicate (n - length s) c @ s"

definition opt_len :: "nat \<Rightarrow> nat \<Rightarrow> string option \<Rightarrow> bool" where
  "opt_len lo hi s = (case s of None \<Rightarrow> True | Some v \<Rightarrow> lo \<le> length v \<and> length v \<le> hi)"

definition truthy :: "string option \<Rightarrow> bool" where
  "truthy o' \<longleftrightarrow> (case o' of None \<Rightarrow> False | Some s \<Rightarrow> s \<noteq> [])"

text \<open>\<open>[...new Set(xs)]\<close>: the first occurrence of every value, in order.\<close>

fun uniq_acc :: "'a list \<Rightarrow> 'a list \<Rightarrow> 'a list" where
  "uniq_acc seen [] = []"
| "uniq_acc seen (x # xs) =
     (if x \<in> set seen then uniq_acc seen xs else x # uniq_acc (x # seen) xs)"

definition uniq :: "'a list \<Rightarrow> 'a list" where
  "uniq xs = uniq_acc [] xs"

section \<open>Numbers and text\<close>

definition digit_char :: "nat \<Rightarrow> char" where
  "digit_char d = char_of (48 + d)"

definition digit_val :: "char \<Rightarrow> nat" where
  "digit_val c = of_char c - 48"

fun nat_str :: "nat \<Rightarrow> string" where
  "nat_str n = (if n < 10 then [digit_char n] else nat_str (n div 10) @ [digit_char (n mod 10)])"

declare nat_str.simps [simp del]

definition int_str :: "int \<Rightarrow> string" where
  "int_str i = (if i < 0 then CHR ''-'' # nat_str (nat (- i)) else nat_str (nat i))"

definition digits_val :: "string \<Rightarrow> nat" where
  "digits_val s = foldl (\<lambda>a c. 10 * a + digit_val c) 0 s"

definition all_digits :: "string \<Rightarrow> bool" where
  "all_digits s \<longleftrightarrow> s \<noteq> [] \<and> list_all is_digit s"

section \<open>Lemmas: prefixes, suffixes, search\<close>

lemma starts_with_append [simp]: "starts_with (p @ s) p"
  by (simp add: starts_with_def)

lemma starts_with_iff: "starts_with s p \<longleftrightarrow> (\<exists>t. s = p @ t)"
  by (metis append_take_drop_id starts_with_append starts_with_def)

lemma starts_with_nil [simp]: "starts_with s []"
  by (simp add: starts_with_def)

lemma ends_with_iff: "ends_with s p \<longleftrightarrow> (\<exists>t. s = t @ p)"
proof
  assume "ends_with s p"
  then show "\<exists>t. s = t @ p"
    by (metis append_take_drop_id ends_with_def)
next
  assume "\<exists>t. s = t @ p"
  then show "ends_with s p" by (auto simp: ends_with_def)
qed

lemma str_includes_iff: "str_includes s p \<longleftrightarrow> (\<exists>a b. s = a @ p @ b)"
proof (induction s)
  case Nil
  then show ?case by auto
next
  case (Cons c s)
  have "(\<exists>a b. c # s = a @ p @ b) \<longleftrightarrow> (\<exists>b. c # s = p @ b) \<or> (\<exists>a b. s = a @ p @ b)"
    by (metis append_Cons append_Nil list.inject neq_Nil_conv)
  then show ?case using Cons by (simp add: starts_with_iff)
qed

lemma str_includes_char: "str_includes s [c] \<longleftrightarrow> c \<in> set s"
  by (auto simp: str_includes_iff in_set_conv_decomp)

lemma index_of_Some:
  "index_of s p = Some i \<Longrightarrow> s = take i s @ p @ drop (i + length p) s \<and> i + length p \<le> length s"
proof (induction s arbitrary: i)
  case Nil
  then show ?case by (auto split: if_splits)
next
  case (Cons c s)
  show ?case
  proof (cases "starts_with (c # s) p")
    case True
    then obtain t where t: "c # s = p @ t" by (auto simp: starts_with_iff)
    have "length p \<le> length (c # s)" unfolding t by simp
    moreover from True Cons.prems have "i = 0" by simp
    ultimately show ?thesis using t by simp
  next
    case False
    with Cons.prems obtain j where "index_of s p = Some j" "i = Suc j" by auto
    with Cons.IH show ?thesis by fastforce
  qed
qed

lemma index_of_None: "index_of s p = None \<longleftrightarrow> \<not> str_includes s p"
  by (induction s) auto

section \<open>Lemmas: splitting and joining\<close>

lemma split_on_neq_Nil [simp]: "split_on d s \<noteq> []"
  by (induction s) (auto split: list.splits)

lemma split_on_no_sep: "w \<in> set (split_on d s) \<Longrightarrow> d \<notin> set w"
  by (induction s arbitrary: w) (auto split: list.splits if_splits)

lemma split_on_id: "d \<notin> set s \<Longrightarrow> split_on d s = [s]"
  by (induction s) auto

lemma join_Cons: "ws \<noteq> [] \<Longrightarrow> join sep (w # ws) = w @ sep @ join sep ws"
  by (cases ws) auto

lemma join_split_on [simp]: "join [d] (split_on d s) = s"
proof (induction s)
  case Nil
  then show ?case by simp
next
  case (Cons c s)
  obtain w ws where sp: "split_on d s = w # ws" by (meson split_on_neq_Nil neq_Nil_conv)
  show ?case
  proof (cases "c = d")
    case True
    then show ?thesis using Cons by (simp add: join_Cons)
  next
    case False
    have "join [d] ((c # w) # ws) = c # join [d] (w # ws)" by (cases ws) auto
    with False sp Cons show ?thesis by simp
  qed
qed

lemma split_on_append_sep: "d \<notin> set w \<Longrightarrow> split_on d (w @ d # s) = w # split_on d s"
  by (induction w) auto

lemma split_on_join:
  assumes "ws \<noteq> []" and "\<forall>w \<in> set ws. d \<notin> set w"
  shows "split_on d (join [d] ws) = ws"
  using assms
proof (induction ws rule: induct_list012)
  case 1
  then show ?case by simp
next
  case (2 x)
  then show ?case by (simp add: split_on_id)
next
  case (3 x y zs)
  then show ?case by (simp add: split_on_append_sep)
qed

lemma set_split_on: "w \<in> set (split_on d s) \<Longrightarrow> set w \<subseteq> set s"
  by (induction s arbitrary: w) (fastforce split: list.splits if_splits)+

lemma last_sep_inject:
  assumes b: "d \<notin> set b" and b': "d \<notin> set b'" and e: "a @ d # b = a' @ d # b'"
  shows "a = a' \<and> b = b'"
proof -
  have tw: "d \<notin> set w \<Longrightarrow> takeWhile (\<lambda>c. c \<noteq> d) (rev w @ d # rev v) = rev w" for v w
    by (induction w rule: rev_induct) auto
  from e have "rev b @ d # rev a = rev b' @ d # rev a'"
    by (metis append.assoc append_Cons append_Nil rev.simps(2) rev_append)
  with tw [OF b, of a] tw [OF b', of a'] have "rev b = rev b'" by simp
  then show ?thesis using e by simp
qed

section \<open>Lemmas: trimming and case\<close>

lemma dropWhile_idem_ws [simp]: "dropWhile P (dropWhile P s) = dropWhile P s"
  by (induction s) auto

lemma trim_end_start_comm: "trim_start (trim_end (trim_start s)) = trim_end (trim_start s)"
proof -
  have aux: "trim_start t = t \<Longrightarrow> trim_start (trim_end t) = trim_end t" for t
  proof (cases t)
    case (Cons c u)
    assume "trim_start t = t"
    with Cons have c: "\<not> is_ws c"
      by (metis dropWhile.simps(2) hd_dropWhile list.sel(1) list.simps(3) trim_start_def)
    have "trim_end t = c # trim_end u"
      using c Cons by (simp add: trim_end_def dropWhile_append)
    with c show ?thesis by (simp add: trim_start_def)
  qed (simp add: trim_end_def trim_start_def)
  show ?thesis by (rule aux) (simp add: trim_start_def)
qed

lemma trim_idem [simp]: "trim (trim s) = trim s"
  by (simp add: trim_def trim_end_start_comm) (simp add: trim_end_def)

lemma set_trim: "set (trim s) \<subseteq> set s"
  by (auto simp: trim_def trim_end_def trim_start_def dest!: set_dropWhileD)

lemma to_lower_idem [simp]: "to_lower (to_lower s) = to_lower s"
  by (simp add: to_lower_def)

lemma length_to_lower [simp]: "length (to_lower s) = length s"
  by (simp add: to_lower_def)

lemma to_lower_append [simp]: "to_lower (a @ b) = to_lower a @ to_lower b"
  by (simp add: to_lower_def)

section \<open>Lemmas: duplicates\<close>

lemma set_uniq_acc: "set (uniq_acc seen xs) = set xs - set seen"
  by (induction seen xs rule: uniq_acc.induct) auto

lemma distinct_uniq_acc: "distinct (uniq_acc seen xs)"
  by (induction seen xs rule: uniq_acc.induct) (auto simp: set_uniq_acc)

lemma set_uniq [simp]: "set (uniq xs) = set xs"
  by (simp add: uniq_def set_uniq_acc)

lemma distinct_uniq [simp]: "distinct (uniq xs)"
  by (simp add: uniq_def distinct_uniq_acc)

lemma uniq_acc_distinct: "distinct xs \<Longrightarrow> set xs \<inter> set seen = {} \<Longrightarrow> uniq_acc seen xs = xs"
  by (induction seen xs rule: uniq_acc.induct) auto

lemma uniq_id: "distinct xs \<Longrightarrow> uniq xs = xs"
  by (simp add: uniq_def uniq_acc_distinct)

lemma uniq_Nil [simp]: "uniq xs = [] \<longleftrightarrow> xs = []"
  by (metis set_empty set_uniq)

section \<open>Lemmas: decimal numbers\<close>

lemma of_char_digit_char: "d < 10 \<Longrightarrow> of_char (digit_char d) = 48 + d"
  by (simp add: digit_char_def)

lemma digit_val_digit_char [simp]: "d < 10 \<Longrightarrow> digit_val (digit_char d) = d"
  by (simp add: digit_val_def of_char_digit_char)

lemma is_digit_digit_char [simp]: "d < 10 \<Longrightarrow> is_digit (digit_char d)"
  by (simp add: is_digit_def in_range_def of_char_digit_char)

lemma digits_val_snoc: "digits_val (s @ [c]) = 10 * digits_val s + digit_val c"
  by (simp add: digits_val_def)

lemma digits_val_nat_str [simp]: "digits_val (nat_str n) = n"
proof (induction n rule: nat_str.induct)
  case (1 n)
  show ?case
  proof (cases "n < 10")
    case True
    then show ?thesis by (simp add: nat_str.simps [of n] digits_val_def)
  next
    case False
    with 1 show ?thesis by (simp add: nat_str.simps [of n] digits_val_snoc)
  qed
qed

lemma nat_str_digits: "list_all is_digit (nat_str n)"
proof (induction n rule: nat_str.induct)
  case (1 n)
  then show ?case by (cases "n < 10") (simp_all add: nat_str.simps [of n])
qed

lemma nat_str_neq_Nil [simp]: "nat_str n \<noteq> []"
  by (subst nat_str.simps) simp

lemma all_digits_nat_str [simp]: "all_digits (nat_str n)"
  by (simp add: all_digits_def nat_str_digits)

lemma nat_str_inject [simp]: "nat_str m = nat_str n \<longleftrightarrow> m = n"
  by (metis digits_val_nat_str)

lemma digit_not_char: "is_digit c \<Longrightarrow> of_char d < (48::nat) \<or> 57 < (of_char d :: nat) \<Longrightarrow> c \<noteq> d"
  by (auto simp: is_digit_def in_range_def)

lemma nat_str_no_char: "of_char d < (48::nat) \<or> 57 < (of_char d :: nat) \<Longrightarrow> d \<notin> set (nat_str n)"
  using nat_str_digits [of n] by (auto simp: list_all_iff is_digit_def in_range_def)

lemma int_str_inject [simp]: "int_str i = int_str j \<longleftrightarrow> i = j"
proof -
  have m: "CHR ''-'' \<notin> set (nat_str n)" for n by (rule nat_str_no_char) simp
  have "CHR ''-'' # s \<noteq> nat_str n" for s n using m [of n] by (metis list.set_intros(1))
  then show ?thesis
    by (auto simp: int_str_def eq_nat_nat_iff dest: sym)
qed

lemma int_str_no_colon: "CHR '':'' \<notin> set (int_str i)"
  by (auto simp: int_str_def nat_str_no_char)

section \<open>Lemmas: association lists\<close>

lemma map_of_filter_snd:
  assumes "distinct (map fst b)"
  shows "map_of (filter (\<lambda>e. P (snd e)) b) k = (case map_of b k of None \<Rightarrow> None | Some v \<Rightarrow> if P v then Some v else None)"
  using assms
proof (induction b)
  case Nil
  then show ?case by simp
next
  case (Cons e b)
  have "fst e \<notin> fst ` set b \<Longrightarrow> map_of b (fst e) = None" by (simp add: map_of_eq_None_iff)
  with Cons show ?case by (cases e) (auto split: option.splits)
qed

end
