(* ===== verification/Permissions.thy ===== *)
theory Permissions imports Prelude begin

text \<open>
  The permission model of \<^verbatim>\<open>lib/permissions.ts\<close>: the catalog of actions, the coarse names
  older databases still hold, the expansion and sanitising of a stored permission list, and
  the decision \<open>userHasPermission\<close> that combines a role with per-host and per-guest
  overrides.  A JavaScript \<open>Set\<close> is the list of its elements in insertion order
  (\<^const>\<open>uniq\<close>).
\<close>

section \<open>Catalog\<close>

definition PERMISSIONS :: "string list" where
  "PERMISSIONS = [
   ''hosts.view'', ''hosts.create'', ''hosts.update'', ''hosts.credentials'',
   ''hosts.delete'', ''hosts.reboot'', ''hosts.shutdown'', ''hosts.console'',
   ''vm.view'', ''vm.create'', ''vm.config'', ''vm.delete'',
   ''vm.start'', ''vm.shutdown'', ''vm.force-stop'', ''vm.reboot'',
   ''vm.reset'', ''vm.pause'', ''vm.resume'', ''vm.console'',
   ''vm.files.read'', ''vm.files.write'', ''vm.snapshot.create'', ''vm.snapshot.delete'',
   ''vm.snapshot.rollback'', ''vm.clone'', ''vm.migrate'', ''lxc.view'',
   ''lxc.create'', ''lxc.config'', ''lxc.delete'', ''lxc.start'',
   ''lxc.shutdown'', ''lxc.force-stop'', ''lxc.reboot'', ''lxc.console'',
   ''lxc.files.read'', ''lxc.files.write'', ''lxc.snapshot.create'', ''lxc.snapshot.delete'',
   ''lxc.snapshot.rollback'', ''lxc.clone'', ''lxc.migrate'', ''storage.view'',
   ''storage.delete'', ''zfs.view'', ''backup.view'', ''backup.run'',
   ''backup.restore'', ''backup.delete'', ''backup.job.create'', ''backup.job.update'',
   ''backup.job.delete'', ''updates.view'', ''updates.check'', ''updates.upgrade'',
   ''proxora.update'', ''users.view'', ''users.create'', ''users.update'',
   ''users.delete'', ''roles.view'', ''roles.create'', ''roles.update'',
   ''roles.delete'', ''audit.view'', ''tasks.view'', ''tasks.cancel'',
   ''settings.view'', ''settings.update'', ''peers.manage'', ''notifications.view'',
   ''notifications.create'', ''notifications.update'', ''notifications.delete'']"

definition ALL_PERMISSIONS :: "string list" where
  "ALL_PERMISSIONS = PERMISSIONS"

datatype permission_group = G_hosts | G_vm | G_lxc | G_storage | G_backup | G_updates | G_access | G_system

text \<open>A row of the catalog: the permission and its group; the German and English labels are
  display text and left out.\<close>

type_synonym permission_meta = "string \<times> permission_group"

definition PERMISSION_CATALOG :: "permission_meta list" where
  "PERMISSION_CATALOG = [
   (''hosts.view'', G_hosts), (''hosts.create'', G_hosts), (''hosts.update'', G_hosts),
   (''hosts.credentials'', G_hosts), (''hosts.delete'', G_hosts), (''hosts.reboot'', G_hosts),
   (''hosts.shutdown'', G_hosts), (''hosts.console'', G_hosts), (''vm.view'', G_vm),
   (''vm.create'', G_vm), (''vm.config'', G_vm), (''vm.delete'', G_vm),
   (''vm.start'', G_vm), (''vm.shutdown'', G_vm), (''vm.force-stop'', G_vm),
   (''vm.reboot'', G_vm), (''vm.reset'', G_vm), (''vm.pause'', G_vm),
   (''vm.resume'', G_vm), (''vm.console'', G_vm), (''vm.files.read'', G_vm),
   (''vm.files.write'', G_vm), (''vm.snapshot.create'', G_vm), (''vm.snapshot.delete'', G_vm),
   (''vm.snapshot.rollback'', G_vm), (''vm.clone'', G_vm), (''vm.migrate'', G_vm),
   (''lxc.view'', G_lxc), (''lxc.create'', G_lxc), (''lxc.config'', G_lxc),
   (''lxc.delete'', G_lxc), (''lxc.start'', G_lxc), (''lxc.shutdown'', G_lxc),
   (''lxc.force-stop'', G_lxc), (''lxc.reboot'', G_lxc), (''lxc.console'', G_lxc),
   (''lxc.files.read'', G_lxc), (''lxc.files.write'', G_lxc), (''lxc.snapshot.create'', G_lxc),
   (''lxc.snapshot.delete'', G_lxc), (''lxc.snapshot.rollback'', G_lxc), (''lxc.clone'', G_lxc),
   (''lxc.migrate'', G_lxc), (''storage.view'', G_storage), (''storage.delete'', G_storage),
   (''zfs.view'', G_storage), (''backup.view'', G_backup), (''backup.run'', G_backup),
   (''backup.restore'', G_backup), (''backup.delete'', G_backup), (''backup.job.create'', G_backup),
   (''backup.job.update'', G_backup), (''backup.job.delete'', G_backup), (''updates.view'', G_updates),
   (''updates.check'', G_updates), (''updates.upgrade'', G_updates), (''proxora.update'', G_updates),
   (''users.view'', G_access), (''users.create'', G_access), (''users.update'', G_access),
   (''users.delete'', G_access), (''roles.view'', G_access), (''roles.create'', G_access),
   (''roles.update'', G_access), (''roles.delete'', G_access), (''audit.view'', G_system),
   (''tasks.view'', G_system), (''tasks.cancel'', G_system), (''settings.view'', G_system),
   (''settings.update'', G_system), (''peers.manage'', G_system), (''notifications.view'', G_system),
   (''notifications.create'', G_system), (''notifications.update'', G_system), (''notifications.delete'', G_system)]"

definition LEGACY_PERMISSION_ALIASES :: "(string \<times> string list) list" where
  "LEGACY_PERMISSION_ALIASES = [
   (''hosts.edit'', [''hosts.update'', ''hosts.credentials'']),
   (''vm.edit'', [''vm.config'']),
   (''vm.files'', [''vm.files.read'', ''vm.files.write'']),
   (''vm.stop'', [''vm.force-stop'', ''vm.shutdown'', ''vm.reboot'', ''vm.reset'', ''vm.pause'', ''vm.resume'']),
   (''vm.snapshot'', [''vm.snapshot.create'', ''vm.snapshot.delete'', ''vm.snapshot.rollback'']),
   (''lxc.edit'', [''lxc.config'']),
   (''lxc.files'', [''lxc.files.read'', ''lxc.files.write'']),
   (''lxc.stop'', [''lxc.force-stop'', ''lxc.shutdown'', ''lxc.reboot'']),
   (''lxc.snapshot'', [''lxc.snapshot.create'', ''lxc.snapshot.delete'', ''lxc.snapshot.rollback'']),
   (''storage.manage'', [''storage.view'', ''storage.delete'']),
   (''zfs.manage'', [''zfs.view'']),
   (''backup.manage'', [''backup.run'', ''backup.restore'', ''backup.delete'', ''backup.job.create'', ''backup.job.update'', ''backup.job.delete'']),
   (''updates.execute'', [''updates.check'', ''updates.upgrade'', ''proxora.update'']),
   (''users.manage'', [''users.create'', ''users.update'', ''users.delete'']),
   (''roles.manage'', [''roles.create'', ''roles.update'', ''roles.delete'']),
   (''settings.manage'', [''settings.update'', ''notifications.view'', ''notifications.create'', ''notifications.update'', ''notifications.delete''])]"

section \<open>Expanding and sanitising a stored list\<close>

definition legacy_alias :: "string \<Rightarrow> string list" where
  "legacy_alias raw = (case map_of LEGACY_PERMISSION_ALIASES raw of None \<Rightarrow> [] | Some extra \<Rightarrow> extra)"

definition expandPermissions :: "string list option \<Rightarrow> string list" where
  "expandPermissions granted =
     (case granted of None \<Rightarrow> []
      | Some gs \<Rightarrow> uniq (concat (map (\<lambda>raw. raw # legacy_alias raw) gs)))"

definition isPermission :: "string \<Rightarrow> bool" where
  "isPermission value \<longleftrightarrow> value \<in> set PERMISSIONS"

definition sanitizePermissions :: "string list \<Rightarrow> string list" where
  "sanitizePermissions values =
     (let expanded = expandPermissions (Some values) in filter (\<lambda>p. p \<in> set expanded) ALL_PERMISSIONS)"

definition hasPermission :: "string list option \<Rightarrow> string \<Rightarrow> bool" where
  "hasPermission granted required \<longleftrightarrow> required \<in> set (expandPermissions granted)"

definition hasAnyPermission :: "string list option \<Rightarrow> string list \<Rightarrow> bool" where
  "hasAnyPermission granted required =
     (let expanded = expandPermissions granted in list_ex (\<lambda>p. p \<in> set expanded) required)"

section \<open>Which permissions attach to a host or a guest\<close>

definition HOST_SCOPED_GROUP_IDS :: "permission_group list" where
  "HOST_SCOPED_GROUP_IDS = [G_hosts, G_vm, G_lxc, G_storage, G_backup, G_updates]"

definition isHostScopedPermission :: "string \<Rightarrow> bool" where
  "isHostScopedPermission pid =
     (if pid = ''hosts.create'' \<or> pid = ''proxora.update'' then False
      else if pid = ''tasks.view'' \<or> pid = ''tasks.cancel'' then True
      else (case map_of PERMISSION_CATALOG pid of
              None \<Rightarrow> False | Some g \<Rightarrow> g \<in> set HOST_SCOPED_GROUP_IDS))"

definition hostGrantCatalog :: "permission_meta list" where
  "hostGrantCatalog = filter (\<lambda>p. isHostScopedPermission (fst p)) PERMISSION_CATALOG"

definition hostScopedFromRole :: "string list option \<Rightarrow> string list" where
  "hostScopedFromRole granted = filter (hasPermission granted) (map fst hostGrantCatalog)"

datatype guest_kind = VM | LXC

primrec kind_str :: "guest_kind \<Rightarrow> string" where
  "kind_str VM = ''vm''"
| "kind_str LXC = ''lxc''"

primrec kind_group :: "guest_kind \<Rightarrow> permission_group" where
  "kind_group VM = G_vm"
| "kind_group LXC = G_lxc"

definition isGuestActionPermission :: "string \<Rightarrow> bool" where
  "isGuestActionPermission pid =
     (if pid = ''vm.create'' \<or> pid = ''lxc.create'' then False
      else starts_with pid ''vm.'' \<or> starts_with pid ''lxc.'')"

definition guestGrantCatalog :: "guest_kind \<Rightarrow> permission_meta list" where
  "guestGrantCatalog kind =
     filter (\<lambda>p. snd p = kind_group kind \<and> isGuestActionPermission (fst p)) PERMISSION_CATALOG"

definition guestScopedFromRole :: "guest_kind \<Rightarrow> string list option \<Rightarrow> string list" where
  "guestScopedFromRole kind granted = filter (hasPermission granted) (map fst (guestGrantCatalog kind))"

text \<open>\<open>out\<close> is a Set that only grows, read at the end through \<open>has\<close>.\<close>

definition normalizeGuestPermissions :: "guest_kind \<Rightarrow> string list \<Rightarrow> string list" where
  "normalizeGuestPermissions kind granted =
     (let allowed = map fst (guestGrantCatalog kind);
          out0 = filter (\<lambda>p. p \<in> set allowed) (sanitizePermissions granted);
          out1 = List.insert (if kind = VM then ''vm.view'' else ''lxc.view'') out0;
          out2 = (if (if kind = VM then ''vm.files.write'' else ''lxc.files.write'') \<in> set out1
                  then List.insert (if kind = VM then ''vm.files.read'' else ''lxc.files.read'') out1
                  else out1)
      in filter (\<lambda>p. p \<in> set out2) ALL_PERMISSIONS)"

definition filesOnlyGuestPermissions :: "guest_kind \<Rightarrow> string list" where
  "filesOnlyGuestPermissions kind =
     normalizeGuestPermissions kind
       [kind_str kind @ ''.view'', kind_str kind @ ''.files.read'', kind_str kind @ ''.files.write'']"

datatype file_access = FileRead | FileWrite

primrec access_str :: "file_access \<Rightarrow> string" where
  "access_str FileRead = ''read''"
| "access_str FileWrite = ''write''"

definition guestFilePermission :: "guest_kind \<Rightarrow> file_access \<Rightarrow> string" where
  "guestFilePermission kind access = kind_str kind @ ''.files.'' @ access_str access"

section \<open>The decision\<close>

record guest_ref =
  refHostId :: string
  refKind :: guest_kind
  refVmid :: int

type_synonym grants = "(string \<times> string list option) list"

record permission_holder =
  rolePermissions :: "string list option"
  hostPermissions :: "grants option"
  guestPermissions :: "grants option"

definition guestPermissionKey :: "guest_ref \<Rightarrow> string" where
  "guestPermissionKey g = refHostId g @ '':'' @ kind_str (refKind g) @ '':'' @ int_str (refVmid g)"

text \<open>\<open>record?.[key]\<close>, kept only when truthy: an array is, \<open>null\<close> and \<open>undefined\<close> are not.\<close>

definition override_of :: "grants option \<Rightarrow> string \<Rightarrow> string list option" where
  "override_of recs key =
     (case recs of None \<Rightarrow> None
      | Some al \<Rightarrow> (case map_of al key of None \<Rightarrow> None | Some v \<Rightarrow> v))"

text \<open>\<open>Object.values(record).some(...)\<close>.\<close>

definition some_override_has :: "grants \<Rightarrow> string \<Rightarrow> bool" where
  "some_override_has recs required =
     list_ex (\<lambda>kv. case snd kv of None \<Rightarrow> False | Some granted \<Rightarrow> hasPermission (Some granted) required) recs"

definition userHasPermission ::
  "permission_holder option \<Rightarrow> string \<Rightarrow> string option \<Rightarrow> guest_ref option \<Rightarrow> bool" where
  "userHasPermission holder required hostId guest =
     (let role = Option.bind holder rolePermissions;
          hosts = Option.bind holder hostPermissions;
          guests = Option.bind holder guestPermissions;
          guestOverride =
            (case guest of None \<Rightarrow> None
             | Some g \<Rightarrow> if isGuestActionPermission required
                        then override_of guests (guestPermissionKey g) else None)
      in if \<not> isHostScopedPermission required then hasPermission role required
         else (case guestOverride of Some granted \<Rightarrow> hasPermission (Some granted) required
           | None \<Rightarrow>
             if truthy hostId
             then (case override_of hosts (the hostId) of
                     Some granted \<Rightarrow> hasPermission (Some granted) required
                   | None \<Rightarrow> hasPermission role required)
             else if hasPermission role required then True
             else if (case hosts of None \<Rightarrow> False | Some hs \<Rightarrow> some_override_has hs required) then True
             else (case guests of None \<Rightarrow> False | Some gs \<Rightarrow> some_override_has gs required)))"

definition userHasAnyPermission ::
  "permission_holder option \<Rightarrow> string list \<Rightarrow> string option \<Rightarrow> guest_ref option \<Rightarrow> bool" where
  "userHasAnyPermission holder required hostId guest =
     list_ex (\<lambda>p. userHasPermission holder p hostId guest) required"

section \<open>Role presets and actions\<close>

definition INVENTORY_VIEW_PERMISSIONS :: "string list" where
  "INVENTORY_VIEW_PERMISSIONS = [''hosts.view'', ''vm.view'', ''lxc.view'']"

definition NOTHING_PERMISSIONS :: "string list" where
  "NOTHING_PERMISSIONS = [
   ''vm.view'', ''vm.start'', ''vm.shutdown'', ''vm.force-stop'',
   ''vm.reboot'', ''vm.console'', ''vm.files.read'', ''vm.files.write'',
   ''lxc.view'', ''lxc.start'', ''lxc.shutdown'', ''lxc.force-stop'',
   ''lxc.reboot'', ''lxc.console'', ''lxc.files.read'', ''lxc.files.write'']"

record role_preset =
  presetName :: string
  presetDescription :: string
  presetPermissions :: "string list"

definition ROLE_PRESETS :: "(string \<times> role_preset) list" where
  "ROLE_PRESETS = [
   (''super-admin'', \<lparr>presetName = ''Super Admin'', 
      presetDescription = ''Full access to every feature, host and setting.'', presetPermissions = ALL_PERMISSIONS\<rparr>),
   (''administrator'', \<lparr>presetName = ''Administrator'', 
      presetDescription = ''Manage hosts, virtual machines, storage and updates.'', presetPermissions =
      filter (\<lambda>p. \<not> starts_with p ''users.'' \<and> \<not> starts_with p ''roles.'' \<and>
                 p \<noteq> ''settings.update'' \<and> p \<noteq> ''proxora.update'' \<and>
                 \<not> starts_with p ''notifications.'') ALL_PERMISSIONS\<rparr>),
   (''operator'', \<lparr>presetName = ''Operator'', 
      presetDescription = ''Start, stop and open consoles for VMs and containers.'', presetPermissions = [
      ''hosts.view'', ''hosts.console'', ''vm.view'', ''vm.start'',
      ''vm.shutdown'', ''vm.force-stop'', ''vm.reboot'', ''vm.console'',
      ''vm.files.read'', ''vm.files.write'', ''lxc.view'', ''lxc.start'',
      ''lxc.shutdown'', ''lxc.force-stop'', ''lxc.reboot'', ''lxc.console'',
      ''lxc.files.read'', ''lxc.files.write'', ''storage.view'', ''zfs.view'',
      ''backup.view'', ''tasks.view'', ''tasks.cancel'', ''updates.view'']\<rparr>),
   (''viewer'', \<lparr>presetName = ''Viewer'', 
      presetDescription = ''Read-only access to hosts and guests.'', presetPermissions = [
      ''hosts.view'', ''vm.view'', ''lxc.view'', ''storage.view'',
      ''zfs.view'', ''backup.view'', ''tasks.view'', ''updates.view'',
      ''audit.view'', ''settings.view'', ''notifications.view'']\<rparr>),
   (''nothing'', \<lparr>presetName = ''Nothing'', 
      presetDescription = ''Only the VMs and containers assigned to the user. No host inventory, storage, or backups.'', presetPermissions = NOTHING_PERMISSIONS\<rparr>)]"

definition permissionForGuestAction :: "guest_kind \<Rightarrow> string \<Rightarrow> string" where
  "permissionForGuestAction kind action =
     (let prefix = (if kind = VM then ''vm'' else ''lxc'') in
      if action = ''start'' \<or> action = ''sendkey'' \<or> action = ''nudge-cd-boot'' then prefix @ ''.start''
      else if action = ''stop'' then prefix @ ''.force-stop''
      else if action = ''shutdown'' then prefix @ ''.shutdown''
      else if action = ''reboot'' then prefix @ ''.reboot''
      else if action = ''reset'' then ''vm.reset''
      else if action = ''pause'' then ''vm.pause''
      else if action = ''resume'' then ''vm.resume''
      else if action = ''delete'' then prefix @ ''.delete''
      else if action = ''clone'' then prefix @ ''.clone''
      else if action = ''migrate'' then prefix @ ''.migrate''
      else if action = ''snapshot'' then prefix @ ''.snapshot.create''
      else if action = ''snapshot-delete'' then prefix @ ''.snapshot.delete''
      else if action = ''snapshot-rollback'' then prefix @ ''.snapshot.rollback''
      else if action = ''config'' \<or> action = ''resize'' then prefix @ ''.config''
      else prefix @ ''.view'')"

definition backupPermissionForAction :: "string \<Rightarrow> string" where
  "backupPermissionForAction action =
     (if action = ''create-job'' then ''backup.job.create''
      else if action = ''update-job'' then ''backup.job.update''
      else if action = ''delete-job'' then ''backup.job.delete''
      else if action = ''run'' \<or> action = ''run-job'' then ''backup.run''
      else if action = ''restore'' then ''backup.restore''
      else if action = ''delete-file'' \<or> action = ''cleanup-orphans'' then ''backup.delete''
      else ''backup.view'')"

section \<open>Facts about the tables\<close>

lemma catalog_ids: "map fst PERMISSION_CATALOG = PERMISSIONS"
  by (simp add: PERMISSION_CATALOG_def PERMISSIONS_def)

lemma distinct_PERMISSIONS: "distinct PERMISSIONS"
  by code_simp

lemma legacy_keys_not_permissions: "list_all (\<lambda>kv. fst kv \<notin> set PERMISSIONS) LEGACY_PERMISSION_ALIASES"
  by code_simp

lemma legacy_targets_permissions: "list_all (\<lambda>kv. list_all isPermission (snd kv)) LEGACY_PERMISSION_ALIASES"
  by code_simp

lemma legacy_alias_permission: "isPermission p \<Longrightarrow> legacy_alias p = []"
  using legacy_keys_not_permissions
  by (force simp: legacy_alias_def isPermission_def list_all_iff split: option.splits dest: map_of_SomeD)

lemma legacy_alias_target: "p \<in> set (legacy_alias raw) \<Longrightarrow> isPermission p"
proof -
  assume "p \<in> set (legacy_alias raw)"
  then obtain extra where "(raw, extra) \<in> set LEGACY_PERMISSION_ALIASES" "p \<in> set extra"
    by (cases "map_of LEGACY_PERMISSION_ALIASES raw") (auto simp: legacy_alias_def dest: map_of_SomeD)
  with legacy_targets_permissions show ?thesis by (force simp: list_all_iff)
qed

section \<open>Expansion and sanitising\<close>

lemma hasPermission_None [simp]: "\<not> hasPermission None p"
  by (simp add: hasPermission_def expandPermissions_def)

lemma hasPermission_Some:
  "hasPermission (Some gs) p \<longleftrightarrow> (\<exists>raw \<in> set gs. p = raw \<or> p \<in> set (legacy_alias raw))"
  by (auto simp: hasPermission_def expandPermissions_def)

lemma hasPermission_mono:
  "set gs \<subseteq> set hs \<Longrightarrow> hasPermission (Some gs) p \<Longrightarrow> hasPermission (Some hs) p"
  by (auto simp: hasPermission_Some)

lemma set_sanitizePermissions:
  "set (sanitizePermissions xs) = {p. isPermission p \<and> hasPermission (Some xs) p}"
  by (auto simp: sanitizePermissions_def hasPermission_def isPermission_def ALL_PERMISSIONS_def)

lemma hasPermission_of_permissions:
  assumes "\<forall>q \<in> set ps. isPermission q"
  shows "hasPermission (Some ps) p \<longleftrightarrow> p \<in> set ps"
  using assms legacy_alias_permission by (auto simp: hasPermission_Some)

lemma hasPermission_sanitize_iff:
  "hasPermission (Some (sanitizePermissions xs)) p \<longleftrightarrow> isPermission p \<and> hasPermission (Some xs) p"
  by (subst hasPermission_of_permissions) (auto simp: set_sanitizePermissions)

lemma distinct_sanitizePermissions: "distinct (sanitizePermissions xs)"
  by (simp add: sanitizePermissions_def ALL_PERMISSIONS_def distinct_PERMISSIONS)

lemma sanitize_cong:
  assumes "\<And>p. isPermission p \<Longrightarrow> hasPermission (Some xs) p = hasPermission (Some ys) p"
  shows "sanitizePermissions xs = sanitizePermissions ys"
  using assms
  by (auto simp: sanitizePermissions_def hasPermission_def isPermission_def ALL_PERMISSIONS_def intro!: filter_cong)

lemma sanitize_idem: "sanitizePermissions (sanitizePermissions xs) = sanitizePermissions xs"
  by (rule sanitize_cong) (simp add: hasPermission_sanitize_iff)

section \<open>Keys and overrides\<close>

lemma colon_kind: "CHR '':'' \<notin> set (kind_str k)"
  by (cases k) simp_all

lemma kind_str_inject [simp]: "kind_str k = kind_str l \<longleftrightarrow> k = l"
  by (cases k; cases l) simp_all

lemma guestPermissionKey_inject:
  "guestPermissionKey g = guestPermissionKey h \<longleftrightarrow>
     refHostId g = refHostId h \<and> refKind g = refKind h \<and> refVmid g = refVmid h"
proof
  assume "guestPermissionKey g = guestPermissionKey h"
  then have e: "(refHostId g @ '':'' @ kind_str (refKind g)) @ CHR '':'' # int_str (refVmid g)
      = (refHostId h @ '':'' @ kind_str (refKind h)) @ CHR '':'' # int_str (refVmid h)"
    by (simp add: guestPermissionKey_def)
  then have v: "refHostId g @ CHR '':'' # kind_str (refKind g) = refHostId h @ CHR '':'' # kind_str (refKind h)"
    and i: "int_str (refVmid g) = int_str (refVmid h)"
    using last_sep_inject [OF int_str_no_colon int_str_no_colon e] by simp_all
  show "refHostId g = refHostId h \<and> refKind g = refKind h \<and> refVmid g = refVmid h"
    using last_sep_inject [OF colon_kind colon_kind v] i by simp
qed (simp add: guestPermissionKey_def)

lemma override_of_some: "override_of recs key = Some granted \<Longrightarrow> \<exists>al. recs = Some al \<and> (key, Some granted) \<in> set al"
  by (auto simp: override_of_def split: option.splits dest: map_of_SomeD)

lemma some_override_hasI:
  "(key, Some granted) \<in> set recs \<Longrightarrow> hasPermission (Some granted) p \<Longrightarrow> some_override_has recs p"
  by (force simp: some_override_has_def list_ex_iff)


lemma hasPermission_known: "hasPermission (Some (sanitizePermissions xs)) p \<Longrightarrow> isPermission p"
  by (simp add: hasPermission_sanitize_iff)

lemma override_of_update_other:
  "k \<noteq> key \<Longrightarrow> override_of (Some (AList.update k v al)) key = override_of (Some al) key"
  by (simp add: override_of_def update_conv')

lemma set_normalizeGuestPermissions:
  "set (normalizeGuestPermissions kind xs) =
     (let asked = {p \<in> set (map fst (guestGrantCatalog kind)). isPermission p \<and> hasPermission (Some xs) p};
          viewing = insert (kind_str kind @ ''.view'') asked
      in {p. isPermission p} \<inter>
         (if kind_str kind @ ''.files.write'' \<in> viewing
          then insert (kind_str kind @ ''.files.read'') viewing else viewing))"
  by (cases kind)
    (auto simp: normalizeGuestPermissions_def Let_def set_sanitizePermissions isPermission_def ALL_PERMISSIONS_def)

lemma guest_kind_permissions:
  "isPermission (kind_str kind @ ''.view'')" "isPermission (kind_str kind @ ''.files.read'')"
  "isPermission (kind_str kind @ ''.files.write'')"
  by (induct kind; code_simp)+

lemma guest_kind_catalog:
  "kind_str kind @ ''.view'' \<in> set (map fst (guestGrantCatalog kind))"
  "kind_str kind @ ''.files.read'' \<in> set (map fst (guestGrantCatalog kind))"
  "kind_str kind @ ''.files.write'' \<in> set (map fst (guestGrantCatalog kind))"
  by (induct kind; code_simp)+

lemma guest_actions_host_scoped:
  "list_all (\<lambda>p. isGuestActionPermission p \<longrightarrow> isHostScopedPermission p) PERMISSIONS"
  by code_simp

lemma unknown_not_host_scoped: "isHostScopedPermission p \<Longrightarrow> isPermission p"
proof -
  assume h: "isHostScopedPermission p"
  have t: "isPermission ''tasks.view''" "isPermission ''tasks.cancel''" by code_simp+
  show ?thesis
  proof (cases "p = ''tasks.view'' \<or> p = ''tasks.cancel''")
    case True
    with t show ?thesis by auto
  next
    case False
    with h obtain g where "map_of PERMISSION_CATALOG p = Some g"
      by (auto simp: isHostScopedPermission_def split: if_splits option.splits)
    then have "p \<in> set (map fst PERMISSION_CATALOG)" by (force dest: map_of_SomeD)
    then show ?thesis by (simp only: catalog_ids isPermission_def)
  qed
qed

lemma userHasPermission_unscoped:
  assumes "userHasPermission (Some h) p hostId guest"
  shows "userHasPermission (Some h) p None None"
proof (cases "isHostScopedPermission p")
  case False
  with assms show ?thesis by (simp add: userHasPermission_def)
next
  case True
  have "hasPermission (rolePermissions h) p
      \<or> (\<exists>hs. hostPermissions h = Some hs \<and> some_override_has hs p)
      \<or> (\<exists>gs. guestPermissions h = Some gs \<and> some_override_has gs p)"
    using assms True
    by (auto simp: userHasPermission_def Let_def split: option.splits if_splits
        dest!: override_of_some intro: some_override_hasI)
  with True show ?thesis
    by (auto simp: userHasPermission_def truthy_def split: option.splits)
qed

section \<open>Properties\<close>

text \<open>
  Sanitising a stored permission list is idempotent, yields no duplicates, and keeps
  exactly the catalogued permissions the list grants, aliases of older releases included.
\<close>

theorem sanitizePermissions_spec:
  "sanitizePermissions (sanitizePermissions xs) = sanitizePermissions xs
   \<and> distinct (sanitizePermissions xs)
   \<and> (\<forall>p. hasPermission (Some (sanitizePermissions xs)) p \<longleftrightarrow> isPermission p \<and> hasPermission (Some xs) p)"
  by (simp add: sanitize_idem distinct_sanitizePermissions hasPermission_sanitize_iff)


definition demo_guest :: "string \<Rightarrow> int \<Rightarrow> guest_ref" where
  "demo_guest host vmid = \<lparr>refHostId = host, refKind = VM, refVmid = vmid\<rparr>"

definition demo_holder :: permission_holder where
  "demo_holder = \<lparr>rolePermissions = Some [''vm.view''], hostPermissions = None,
     guestPermissions = Some [(''a:vm:5'', Some [''vm.start''])]\<rparr>"


text \<open>
  The check without a host is a sound pre-filter: whatever is granted on some host or
  guest, by the role or by an override, also passes the check that names no host.
\<close>

theorem scoped_grant_passes_unscoped:
  assumes "userHasPermission (Some h) p hostId guest"
  shows "userHasPermission (Some h) p None None"
  using assms by (rule userHasPermission_unscoped)

theorem scoped_grant_passes_unscoped_witness:
  "userHasPermission (Some demo_holder) ''vm.start'' (Some ''a'') (Some (demo_guest ''a'' 5))
   \<and> userHasPermission (Some demo_holder) ''vm.start'' None None"
proof -
  have h: "userHasPermission (Some demo_holder) ''vm.start'' (Some ''a'') (Some (demo_guest ''a'' 5))"
    by code_simp
  show ?thesis using h scoped_grant_passes_unscoped [OF h] by blast
qed

text \<open>
  A normalised per-guest grant holds the guest's own catalogued permissions that were
  asked for, always the view permission, and read access whenever it holds write access to
  files; nothing else, so a grant on a VM can never carry a container, host or user permission.
\<close>

theorem normalizeGuestPermissions_spec:
  "set (normalizeGuestPermissions kind xs) =
     {p \<in> set (map fst (guestGrantCatalog kind)).
        isPermission p \<and>
        (hasPermission (Some xs) p \<or> p = kind_str kind @ ''.view''
         \<or> (p = kind_str kind @ ''.files.read'' \<and> hasPermission (Some xs) (kind_str kind @ ''.files.write'')))}"
  using guest_kind_permissions [of kind] guest_kind_catalog [of kind]
  by (auto simp: set_normalizeGuestPermissions Let_def)

end
