(* ===== verification/GuestScope.thy ===== *)
theory GuestScope imports Permissions begin

text \<open>
  Where a user may act: \<^verbatim>\<open>lib/guest-scope.ts\<close>.  Host rows and guest rows of the database are
  folded into an access scope (\<open>null\<close>, here \<open>None\<close>, means no restriction), which the
  checks \<open>canAccessHost\<close>, \<open>canAccessGuest\<close> and \<open>filterGuestsForUser\<close> read.
  A \<open>GuestScope\<close> of the source is a \<^typ>\<open>guest_ref\<close>.
\<close>

section \<open>Rows and scopes\<close>

record host_access_grant =
  haHostId :: string
  haPermissions :: "string list option"
  haOverride :: bool

record guest_access_grant =
  gaHostId :: string
  gaKind :: string
  gaVmid :: int
  gaPermissions :: "string list option"
  gaOverride :: bool

record access_scope =
  allowedHostIds :: "string list option"
  allowedGuests :: "guest_ref list option"

record session_scope = access_scope +
  scopeHostPermissions :: "grants option"
  scopeGuestPermissions :: "grants option"

definition parseGuestKind :: "string \<Rightarrow> guest_kind option" where
  "parseGuestKind value =
     (if value = ''vm'' then Some VM else if value = ''lxc'' then Some LXC else None)"

definition guestScopeKey :: "guest_ref \<Rightarrow> string" where
  "guestScopeKey scope = refHostId scope @ '':'' @ kind_str (refKind scope) @ '':'' @ int_str (refVmid scope)"

text \<open>\<open>row.override ? [...(row.permissions ?? [])] : null\<close>.\<close>

definition override_value :: "bool \<Rightarrow> string list option \<Rightarrow> string list option" where
  "override_value ov perms = (if ov then Some (case perms of None \<Rightarrow> [] | Some ps \<Rightarrow> ps) else None)"

definition guest_of_row :: "guest_access_grant \<Rightarrow> guest_ref list" where
  "guest_of_row row =
     (case parseGuestKind (gaKind row) of None \<Rightarrow> []
      | Some kind \<Rightarrow> [\<lparr>refHostId = gaHostId row, refKind = kind, refVmid = gaVmid row\<rparr>])"

definition nonempty_or_null :: "'a list \<Rightarrow> 'a list option" where
  "nonempty_or_null xs = (if xs = [] then None else Some xs)"

fun add_host_rows :: "grants \<Rightarrow> host_access_grant list \<Rightarrow> grants" where
  "add_host_rows recs [] = recs"
| "add_host_rows recs (row # rows) =
     add_host_rows (AList.update (haHostId row) (override_value (haOverride row) (haPermissions row)) recs) rows"

fun add_guest_hosts :: "grants \<Rightarrow> string list \<Rightarrow> grants" where
  "add_guest_hosts recs [] = recs"
| "add_guest_hosts recs (hostId # hs) =
     add_guest_hosts (if map_of recs hostId = None then AList.update hostId None recs else recs) hs"

fun add_guest_rows :: "grants \<Rightarrow> guest_access_grant list \<Rightarrow> grants" where
  "add_guest_rows recs [] = recs"
| "add_guest_rows recs (row # rows) =
     add_guest_rows
       (case guest_of_row row of [] \<Rightarrow> recs
        | g # _ \<Rightarrow> AList.update (guestScopeKey g) (override_value (gaOverride row) (gaPermissions row)) recs)
       rows"

definition sessionScopeFromGrants :: "host_access_grant list \<Rightarrow> guest_access_grant list \<Rightarrow> session_scope" where
  "sessionScopeFromGrants hostAccess guestAccess =
     (let guests = concat (map guest_of_row guestAccess);
          hostFromAccess = map haHostId hostAccess;
          hostFromGuests = map refHostId guests;
          hosts = (if hostFromAccess \<noteq> [] then Some (uniq hostFromAccess)
                   else if hostFromGuests \<noteq> [] then Some (uniq hostFromGuests) else None);
          hostPerms = add_guest_hosts (add_host_rows [] hostAccess) hostFromGuests;
          guestPerms = add_guest_rows [] guestAccess
      in \<lparr>allowedHostIds = hosts, allowedGuests = nonempty_or_null guests,
          scopeHostPermissions = nonempty_or_null hostPerms,
          scopeGuestPermissions = nonempty_or_null guestPerms\<rparr>)"

definition lockHostsWithoutHostView :: "string list option \<Rightarrow> bool \<Rightarrow> string list option" where
  "lockHostsWithoutHostView hosts hasHostView =
     (if hosts = None \<and> \<not> hasHostView then Some [] else hosts)"

section \<open>Checks\<close>

definition canAccessHost :: "('a access_scope_scheme) \<Rightarrow> string \<Rightarrow> bool" where
  "canAccessHost user hostId =
     (case allowedHostIds user of None \<Rightarrow> True | Some hs \<Rightarrow> hostId \<in> set hs)"

definition canAccessGuest :: "('a access_scope_scheme) \<Rightarrow> string \<Rightarrow> guest_kind \<Rightarrow> int \<Rightarrow> bool" where
  "canAccessGuest user hostId kind vmid =
     (if \<not> canAccessHost user hostId then False
      else (case allowedGuests user of None \<Rightarrow> True
        | Some gs \<Rightarrow> list_ex (\<lambda>g. refHostId g = hostId \<and> refKind g = kind \<and> refVmid g = vmid) gs))"

definition filterGuestsForUser ::
  "('a access_scope_scheme) \<Rightarrow> string \<Rightarrow> guest_kind \<Rightarrow> ('b \<Rightarrow> int) \<Rightarrow> 'b list \<Rightarrow> 'b list" where
  "filterGuestsForUser user hostId kind vmid_of items =
     (if \<not> canAccessHost user hostId then []
      else (case allowedGuests user of None \<Rightarrow> items
        | Some gs \<Rightarrow>
           (let allowed = map refVmid (filter (\<lambda>g. refHostId g = hostId \<and> refKind g = kind) gs)
            in filter (\<lambda>item. vmid_of item \<in> set allowed) items)))"

section \<open>Lemmas\<close>

lemma guestScopeKey_eq: "guestScopeKey = guestPermissionKey"
  by (rule ext) (simp add: guestScopeKey_def guestPermissionKey_def)

lemma set_guests:
  "g \<in> set (concat (map guest_of_row rows)) \<longleftrightarrow>
     (\<exists>row \<in> set rows. parseGuestKind (gaKind row) = Some (refKind g)
        \<and> gaHostId row = refHostId g \<and> gaVmid row = refVmid g)"
  by (cases g) (force simp: guest_of_row_def split: option.splits)

lemma hosts_of_guests:
  "refHostId ` set (concat (map guest_of_row rows)) =
     gaHostId ` set (filter (\<lambda>r. parseGuestKind (gaKind r) \<noteq> None) rows)"
  by (induction rows) (auto simp: guest_of_row_def split: option.splits)

lemma list_ex_guest:
  "list_ex (\<lambda>g. refHostId g = h \<and> refKind g = k \<and> refVmid g = v) gs \<longleftrightarrow>
     \<lparr>refHostId = h, refKind = k, refVmid = v\<rparr> \<in> set gs"
proof (induction gs)
  case Nil
  then show ?case by simp
next
  case (Cons g gs)
  then show ?case by (cases g) auto
qed

lemma scope_access:
  "canAccessGuest \<lparr>allowedHostIds = lockHostsWithoutHostView
       (if ha \<noteq> [] then Some (uniq ha)
        else if map refHostId gs \<noteq> [] then Some (uniq (map refHostId gs)) else None) view,
     allowedGuests = nonempty_or_null gs\<rparr> h k v \<longleftrightarrow>
   (if ha \<noteq> [] then h \<in> set ha else if gs \<noteq> [] then h \<in> refHostId ` set gs else view)
   \<and> (gs = [] \<or> \<lparr>refHostId = h, refKind = k, refVmid = v\<rparr> \<in> set gs)"
  by (simp add: canAccessGuest_def canAccessHost_def lockHostsWithoutHostView_def nonempty_or_null_def
      list_ex_guest)

lemma canAccessGuest_host: "canAccessGuest user h k v \<Longrightarrow> canAccessHost user h"
  by (simp add: canAccessGuest_def split: if_splits)

lemma map_of_add_host_rows_other:
  "h \<notin> haHostId ` set rows \<Longrightarrow> map_of (add_host_rows recs rows) h = map_of recs h"
  by (induction recs rows rule: add_host_rows.induct) (auto simp: update_conv')

lemma map_of_add_host_rows:
  "distinct (map haHostId rows) \<Longrightarrow> row \<in> set rows \<Longrightarrow>
     map_of (add_host_rows recs rows) (haHostId row) = Some (override_value (haOverride row) (haPermissions row))"
proof (induction recs rows rule: add_host_rows.induct)
  case (1 recs)
  then show ?case by simp
next
  case (2 recs r rows)
  then show ?case by (auto simp: map_of_add_host_rows_other update_conv')
qed

lemma override_add_guest_hosts:
  "override_of (Some (add_guest_hosts recs hs)) h = override_of (Some recs) h"
  by (induction recs hs rule: add_guest_hosts.induct) (auto simp: override_of_def update_conv')

lemma override_nonempty_or_null: "override_of (nonempty_or_null recs) h = override_of (Some recs) h"
  by (simp add: nonempty_or_null_def override_of_def)

lemma add_guest_rows_snoc:
  "add_guest_rows recs (rows @ [row]) =
     (case guest_of_row row of [] \<Rightarrow> add_guest_rows recs rows
      | g # _ \<Rightarrow> AList.update (guestScopeKey g) (override_value (gaOverride row) (gaPermissions row))
                 (add_guest_rows recs rows))"
  by (induction recs rows rule: add_guest_rows.induct) (auto split: list.splits)

section \<open>Properties\<close>

text \<open>
  Listing guests and checking one guest agree: the list a user gets for a host and kind,
  computed with a set of VMIDs, holds exactly the items the single-guest check admits, in order.
\<close>

theorem filterGuestsForUser_eq_check:
  "filterGuestsForUser user h k vmid_of items = filter (\<lambda>item. canAccessGuest user h k (vmid_of item)) items"
proof (cases "allowedGuests user")
  case None
  then show ?thesis by (simp add: filterGuestsForUser_def canAccessGuest_def)
next
  case (Some gs)
  have "vmid_of item \<in> refVmid ` set (filter (\<lambda>g. refHostId g = h \<and> refKind g = k) gs) \<longleftrightarrow>
      list_ex (\<lambda>g. refHostId g = h \<and> refKind g = k \<and> refVmid g = vmid_of item) gs" for item
    by (force simp: list_ex_iff image_iff)
  with Some show ?thesis by (simp add: filterGuestsForUser_def canAccessGuest_def Let_def)
qed

text \<open>
  The scope computed from the database rows means what the authorization document says:
  a guest is reachable iff its host is (listed by a host row, or, without host rows, by a guest
  row, or no row of either sort exists and the role may see hosts), and, as soon as one valid
  guest row exists, the guest itself is one of the rows.
\<close>

theorem access_scope_spec:
  "canAccessGuest \<lparr>allowedHostIds = lockHostsWithoutHostView
                      (allowedHostIds (sessionScopeFromGrants hostRows guestRows)) view,
                   allowedGuests = allowedGuests (sessionScopeFromGrants hostRows guestRows)\<rparr> h k v \<longleftrightarrow>
   (let valid = filter (\<lambda>r. parseGuestKind (gaKind r) \<noteq> None) guestRows in
      (if hostRows \<noteq> [] then h \<in> haHostId ` set hostRows
       else if valid \<noteq> [] then h \<in> gaHostId ` set valid
       else view)
      \<and> (valid = [] \<or> (\<exists>r \<in> set guestRows. parseGuestKind (gaKind r) = Some k \<and> gaHostId r = h \<and> gaVmid r = v)))"
proof -
  define gs where "gs = concat (map guest_of_row guestRows)"
  define valid where "valid = filter (\<lambda>r. parseGuestKind (gaKind r) \<noteq> None) guestRows"
  have empty: "gs = [] \<longleftrightarrow> valid = []"
    by (auto simp: gs_def valid_def filter_empty_conv guest_of_row_def split: option.splits)
  have "refHostId ` set gs = gaHostId ` set valid"
    unfolding gs_def valid_def by (rule hosts_of_guests)
  then have hosts: "h \<in> refHostId ` set gs \<longleftrightarrow> h \<in> gaHostId ` set valid" by simp
  have guest: "\<lparr>refHostId = h, refKind = k, refVmid = v\<rparr> \<in> set gs \<longleftrightarrow>
      (\<exists>r \<in> set guestRows. parseGuestKind (gaKind r) = Some k \<and> gaHostId r = h \<and> gaVmid r = v)"
    by (simp only: gs_def set_guests guest_ref.simps)
  have scope: "allowedHostIds (sessionScopeFromGrants hostRows guestRows) =
      (if map haHostId hostRows \<noteq> [] then Some (uniq (map haHostId hostRows))
       else if map refHostId gs \<noteq> [] then Some (uniq (map refHostId gs)) else None)"
    "allowedGuests (sessionScopeFromGrants hostRows guestRows) = nonempty_or_null gs"
    by (simp_all only: sessionScopeFromGrants_def Let_def access_scope.simps gs_def)
  show ?thesis
    unfolding scope scope_access guest valid_def [symmetric] Let_def
    using empty hosts by (cases "hostRows = []"; cases "valid = []") simp_all
qed

end
