(* ===== verification/RateLimit.thy ===== *)
theory RateLimit imports Prelude begin

text \<open>
  The in-memory rate limiter of \<^verbatim>\<open>server/http/rate-limit.ts\<close>: one module-level map from a key
  to a bucket.  Time is milliseconds as an integer and enters every call as \<open>Date.now()\<close> does.
\<close>

record bucket =
  bucketCount :: nat
  resetAt :: int

type_synonym buckets = "(string \<times> bucket) list"

definition prune :: "int \<Rightarrow> buckets \<Rightarrow> buckets" where
  "prune now buckets =
     (if length buckets < 256 then buckets
      else filter (\<lambda>entry. \<not> resetAt (snd entry) < now) buckets)"

definition rateLimit :: "string \<Rightarrow> nat \<Rightarrow> int \<Rightarrow> int \<Rightarrow> buckets \<Rightarrow> bool \<times> buckets" where
  "rateLimit key limit windowMs now buckets0 =
     (let buckets = prune now buckets0 in
      case map_of buckets key of
        None \<Rightarrow> (True, AList.update key \<lparr>bucketCount = 1, resetAt = now + windowMs\<rparr> buckets)
      | Some current \<Rightarrow>
          if resetAt current < now
          then (True, AList.update key \<lparr>bucketCount = 1, resetAt = now + windowMs\<rparr> buckets)
          else if limit \<le> bucketCount current then (False, buckets)
          else (True, AList.update key (current\<lparr>bucketCount := bucketCount current + 1\<rparr>) buckets))"

definition rateLimitOrThrow :: "string \<Rightarrow> nat \<Rightarrow> int \<Rightarrow> int \<Rightarrow> buckets \<Rightarrow> (nat + unit) \<times> buckets" where
  "rateLimitOrThrow key limit windowMs now buckets =
     (case rateLimit key limit windowMs now buckets of
        (ok, b) \<Rightarrow> (if ok then Inr () else Inl 429, b))"

text \<open>
  A run of requests: each has its own key, limit, window and time.  \<open>admitted k\<close> counts the
  requests under key \<open>k\<close> that were let through.
\<close>

record request =
  reqKey :: string
  reqLimit :: nat
  reqWindow :: int
  reqTime :: int

fun admitted :: "string \<Rightarrow> buckets \<Rightarrow> request list \<Rightarrow> nat" where
  "admitted k b [] = 0"
| "admitted k b (r # rs) =
     (case rateLimit (reqKey r) (reqLimit r) (reqWindow r) (reqTime r) b of
        (ok, b') \<Rightarrow> (if ok \<and> reqKey r = k then 1 else 0) + admitted k b' rs)"

section \<open>Lemmas\<close>

lemma distinct_prune: "distinct (map fst b) \<Longrightarrow> distinct (map fst (prune now b))"
  by (simp add: prune_def distinct_map_filter)

lemma prune_live:
  "distinct (map fst b) \<Longrightarrow> map_of b k = Some e \<Longrightarrow> now \<le> resetAt e \<Longrightarrow> map_of (prune now b) k = Some e"
  by (simp add: prune_def map_of_filter_snd [where P = "\<lambda>v. \<not> resetAt v < now"])

lemma prune_some:
  "distinct (map fst b) \<Longrightarrow> map_of (prune now b) k = Some e \<Longrightarrow> map_of b k = Some e"
  by (auto simp: prune_def map_of_filter_snd [where P = "\<lambda>v. \<not> resetAt v < now"] split: if_splits option.splits)

lemma distinct_rateLimit:
  "distinct (map fst b) \<Longrightarrow> distinct (map fst (snd (rateLimit k l w t b)))"
  by (auto simp: rateLimit_def Let_def distinct_prune distinct_update split: option.splits)

lemma rateLimit_other:
  "k \<noteq> key \<Longrightarrow> map_of (snd (rateLimit k l w t b)) key = map_of (prune t b) key"
  by (auto simp: rateLimit_def Let_def update_conv' split: option.splits)

lemma rateLimit_live:
  assumes "distinct (map fst b)" "map_of b k = Some e" "t \<le> resetAt e"
  shows "rateLimit k l w t b =
    (if l \<le> bucketCount e then (False, prune t b)
     else (True, AList.update k (e\<lparr>bucketCount := bucketCount e + 1\<rparr>) (prune t b)))"
  using assms by (simp add: rateLimit_def prune_live Let_def)

text \<open>While a bucket is live, it admits no more than what is left of its limit.\<close>

lemma admitted_live:
  assumes "distinct (map fst b)" "map_of b k = Some e"
    and "\<forall>r \<in> set rs. reqTime r \<le> resetAt e \<and> (reqKey r = k \<longrightarrow> reqLimit r = l)"
  shows "admitted k b rs \<le> l - bucketCount e"
  using assms
proof (induction rs arbitrary: b e)
  case Nil
  then show ?case by simp
next
  case (Cons r rs)
  have tr: "reqTime r \<le> resetAt e" and lr: "reqKey r = k \<Longrightarrow> reqLimit r = l" using Cons.prems by auto
  let ?b' = "snd (rateLimit (reqKey r) (reqLimit r) (reqWindow r) (reqTime r) b)"
  have d: "distinct (map fst ?b')" using Cons.prems(1) by (rule distinct_rateLimit)
  show ?case
  proof (cases "reqKey r = k")
    case False
    then have "map_of ?b' k = Some e" using Cons.prems(1,2) tr by (simp add: rateLimit_other prune_live)
    with Cons.IH [OF d this] Cons.prems(3) False show ?thesis by (auto simp: case_prod_beta)
  next
    case True
    note step = rateLimit_live [OF Cons.prems(1,2) tr, of l "reqWindow r"]
    show ?thesis
    proof (cases "l \<le> bucketCount e")
      case full: True
      with step True lr have b': "?b' = prune (reqTime r) b" by simp
      have "map_of ?b' k = Some e" unfolding b' using Cons.prems(1,2) tr by (rule prune_live)
      with Cons.IH [OF d this] Cons.prems(3) step True lr full show ?thesis by (auto simp: b')
    next
      case free: False
      let ?e' = "e\<lparr>bucketCount := bucketCount e + 1\<rparr>"
      from free step True lr have b': "?b' = AList.update k ?e' (prune (reqTime r) b)" by simp
      have m: "map_of ?b' k = Some ?e'" unfolding b' by (simp add: update_conv')
      have "admitted k ?b' rs \<le> l - (bucketCount e + 1)"
        using Cons.IH [OF d m] Cons.prems(3) by simp
      with step True lr free show ?thesis by (simp add: b')
    qed
  qed
qed

lemma rateLimit_opens:
  assumes "distinct (map fst b)" "\<And>e. map_of b k = Some e \<Longrightarrow> resetAt e < t"
  shows "fst (rateLimit k l w t b)
    \<and> map_of (snd (rateLimit k l w t b)) k = Some \<lparr>bucketCount = 1, resetAt = t + w\<rparr>"
  using assms
  by (auto simp: rateLimit_def Let_def update_conv' split: option.splits dest: prune_some)

text \<open>From any state: the rest of a live bucket, then one fresh bucket that outlives the run.\<close>

lemma admitted_window:
  assumes "distinct (map fst b)" "1 \<le> l" "\<And>e. map_of b k = Some e \<Longrightarrow> 1 \<le> bucketCount e"
    and "sorted (map reqTime rs)"
    and "\<forall>r \<in> set rs. s \<le> reqTime r \<and> reqTime r \<le> s + w \<and> (reqKey r = k \<longrightarrow> reqLimit r = l \<and> reqWindow r = w)"
  shows "admitted k b rs \<le> (case map_of b k of None \<Rightarrow> l
      | Some e \<Rightarrow> (l - bucketCount e) + l)"
  using assms
proof (induction rs arbitrary: b)
  case Nil
  then show ?case by simp
next
  case (Cons r rs)
  let ?call = "rateLimit (reqKey r) (reqLimit r) (reqWindow r) (reqTime r) b"
  let ?b' = "snd ?call"
  have d: "distinct (map fst ?b')" using Cons.prems(1) by (rule distinct_rateLimit)
  have srt: "sorted (map reqTime rs)" and le: "\<forall>q \<in> set rs. reqTime r \<le> reqTime q" using Cons.prems(4) by auto
  have rest: "\<forall>q \<in> set rs. s \<le> reqTime q \<and> reqTime q \<le> s + w \<and> (reqKey q = k \<longrightarrow> reqLimit q = l \<and> reqWindow q = w)"
    using Cons.prems(5) by simp
  show ?case
  proof (cases "reqKey r = k")
    case False
    have m: "map_of ?b' k = map_of (prune (reqTime r) b) k" using False by (simp add: rateLimit_other)
    have c: "map_of ?b' k = Some e \<Longrightarrow> map_of b k = Some e" for e
      unfolding m using Cons.prems(1) by (rule prune_some)
    have "admitted k ?b' rs \<le> (case map_of ?b' k of None \<Rightarrow> l | Some e \<Rightarrow> (l - bucketCount e) + l)"
      using d Cons.prems(2,3) c srt rest by (intro Cons.IH) auto
    also have "\<dots> \<le> (case map_of b k of None \<Rightarrow> l | Some e \<Rightarrow> (l - bucketCount e) + l)"
      using c by (auto split: option.splits)
    finally show ?thesis using False by (simp add: case_prod_beta)
  next
    case True
    with Cons.prems(5) have lim: "reqLimit r = l" "reqWindow r = w" by auto
    show ?thesis
    proof (cases "\<exists>e. map_of b k = Some e \<and> reqTime r \<le> resetAt e")
      case True
      then obtain e where e: "map_of b k = Some e" "reqTime r \<le> resetAt e" by blast
      note step = rateLimit_live [OF Cons.prems(1) e, of l w]
      show ?thesis
      proof (cases "l \<le> bucketCount e")
        case full: True
        have b': "?b' = prune (reqTime r) b" using step \<open>reqKey r = k\<close> lim full by simp
        have m: "map_of ?b' k = Some e" unfolding b' using Cons.prems(1) e by (rule prune_live)
        have "admitted k ?b' rs \<le> (l - bucketCount e) + l"
          using Cons.IH [OF d Cons.prems(2) _ srt rest] m Cons.prems(3) e by simp
        then show ?thesis using step \<open>reqKey r = k\<close> lim full e by (simp add: b')
      next
        case free: False
        let ?e' = "e\<lparr>bucketCount := bucketCount e + 1\<rparr>"
        have b': "?b' = AList.update k ?e' (prune (reqTime r) b)" using step \<open>reqKey r = k\<close> lim free by simp
        have m: "map_of ?b' k = Some ?e'" unfolding b' by (simp add: update_conv')
        have "admitted k ?b' rs \<le> (l - (bucketCount e + 1)) + l"
          using Cons.IH [OF d Cons.prems(2) _ srt rest] m by simp
        then show ?thesis using step \<open>reqKey r = k\<close> lim free e by (simp add: b')
      qed
    next
      case False
      let ?e' = "\<lparr>bucketCount = 1, resetAt = reqTime r + w\<rparr>"
      have o: "fst ?call \<and> map_of ?b' k = Some ?e'"
        using rateLimit_opens [of b k "reqTime r" l w] Cons.prems(1) False \<open>reqKey r = k\<close> lim by force
      have "\<forall>q \<in> set rs. reqTime q \<le> resetAt ?e' \<and> (reqKey q = k \<longrightarrow> reqLimit q = l)"
        using rest Cons.prems(5) le by force
      then have "admitted k ?b' rs \<le> l - 1" using admitted_live [OF d] o by fastforce
      then have "admitted k b (r # rs) \<le> l"
        using o \<open>reqKey r = k\<close> Cons.prems(2) by (auto simp: case_prod_beta)
      then show ?thesis by (auto split: option.splits)
    qed
  qed
qed

text \<open>Reachable states: the map starts empty and changes through \<^const>\<open>rateLimit\<close> only.\<close>

inductive limiter_reachable :: "buckets \<Rightarrow> bool" where
  start: "limiter_reachable []"
| call: "limiter_reachable b \<Longrightarrow> limiter_reachable (snd (rateLimit key limit windowMs now b))"

lemma reachable_inv: "limiter_reachable b \<Longrightarrow> distinct (map fst b) \<and> (\<forall>k e. map_of b k = Some e \<longrightarrow> 1 \<le> bucketCount e)"
proof (induction rule: limiter_reachable.induct)
  case start
  then show ?case by simp
next
  case (call b key limit windowMs now)
  then have d: "distinct (map fst b)" and c: "\<And>k e. map_of b k = Some e \<Longrightarrow> 1 \<le> bucketCount e" by auto
  have "map_of (snd (rateLimit key limit windowMs now b)) k = Some e \<Longrightarrow> 1 \<le> bucketCount e" for k e
    by (auto simp: rateLimit_def Let_def update_conv' split: option.splits if_splits
        dest!: prune_some [OF d] c)
  with d show ?case by (simp add: distinct_rateLimit)
qed

section \<open>Properties\<close>

text \<open>
  C2: Whatever other keys do, and from any state the limiter can be in, the requests of one key
  that fall into a stretch of time no longer than its window are admitted at most twice the
  limit (the tail of one bucket and one full bucket), so login attempts are bounded.
\<close>

theorem rateLimit_window_bound:
  assumes "limiter_reachable b" and "1 \<le> l" and "sorted (map reqTime rs)"
    and "\<forall>r \<in> set rs. s \<le> reqTime r \<and> reqTime r \<le> s + w \<and> (reqKey r = k \<longrightarrow> reqLimit r = l \<and> reqWindow r = w)"
  shows "admitted k b rs \<le> 2 * l"
proof -
  have "admitted k b rs \<le> (case map_of b k of None \<Rightarrow> l | Some e \<Rightarrow> (l - bucketCount e) + l)"
    using reachable_inv [OF assms(1)] assms(2-4) by (intro admitted_window) auto
  then show ?thesis by (auto split: option.splits)
qed

theorem rateLimit_window_bound_witness:
  "admitted ''login:1.2.3.4'' []
     (replicate 20 \<lparr>reqKey = ''login:1.2.3.4'', reqLimit = 8, reqWindow = 900000, reqTime = 5\<rparr>) \<le> 16"
proof -
  have "admitted ''login:1.2.3.4'' []
     (replicate 20 \<lparr>reqKey = ''login:1.2.3.4'', reqLimit = 8, reqWindow = 900000, reqTime = 5\<rparr>) \<le> 2 * 8"
    by (rule rateLimit_window_bound [where s = 0 and w = 900000]) (auto intro: limiter_reachable.start)
  then show ?thesis by simp
qed

text \<open>
  A fresh key is admitted exactly as often as its limit allows while its bucket is live:
  of n requests in one window the first \<open>limit\<close> pass and all others are refused.
\<close>

theorem rateLimit_fresh_key:
  assumes "1 \<le> l" and "0 \<le> w"
  shows "admitted k [] (replicate n \<lparr>reqKey = k, reqLimit = l, reqWindow = w, reqTime = t\<rparr>) = min n l"
proof (cases n)
  case 0
  then show ?thesis by simp
next
  case (Suc m)
  let ?r = "\<lparr>reqKey = k, reqLimit = l, reqWindow = w, reqTime = t\<rparr>"
  have live: "c \<le> l \<Longrightarrow> admitted k [(k, \<lparr>bucketCount = c, resetAt = t + w\<rparr>)] (replicate m ?r) = min m (l - c)" for c
  proof (induction m arbitrary: c)
    case (Suc m)
    then show ?case using assms(2) by (cases "l \<le> c") (auto simp: rateLimit_def prune_def)
  qed simp
  show ?thesis using live [of 1] assms(1) Suc by (simp add: rateLimit_def prune_def)
qed

theorem rateLimit_fresh_key_witness:
  "admitted ''k'' [] (replicate 5 \<lparr>reqKey = ''k'', reqLimit = 3, reqWindow = 10, reqTime = 0\<rparr>) = 3"
  using rateLimit_fresh_key [of 3 10 "''k''" 5 0] by simp

end
