(* ===== verification/Rx.thy ===== *)
theory Rx imports Prelude begin

text \<open>
  The part of the language's regular expressions the sources use in \<open>test\<close>: character
  classes, sequence, alternation, optional and repeated parts, and the anchors.  A pattern
  is matched with derivatives; \<open>rx_test\<close> is proved equal to membership in the language of
  the pattern, so the engine itself is not part of what has to be believed.
\<close>

datatype rx_class =
    Chr char
  | Digit
  | Space
  | NotChr char
  | Among string
  | AnyChr

primrec class_has :: "rx_class \<Rightarrow> char \<Rightarrow> bool" where
  "class_has (Chr d) c = (c = d)"
| "class_has Digit c = is_digit c"
| "class_has Space c = is_ws c"
| "class_has (NotChr d) c = (c \<noteq> d)"
| "class_has (Among ds) c = (c \<in> set ds)"
| "class_has AnyChr c = True"

datatype rx =
    Fail
  | Eps
  | Cls rx_class
  | Cat rx rx
  | Or rx rx
  | Rep rx

section \<open>The language of a pattern\<close>

inductive in_rx :: "rx \<Rightarrow> string \<Rightarrow> bool" where
  eps: "in_rx Eps []"
| cls: "class_has k c \<Longrightarrow> in_rx (Cls k) [c]"
| cat: "in_rx r s \<Longrightarrow> in_rx q t \<Longrightarrow> in_rx (Cat r q) (s @ t)"
| or1: "in_rx r s \<Longrightarrow> in_rx (Or r q) s"
| or2: "in_rx q s \<Longrightarrow> in_rx (Or r q) s"
| rep0: "in_rx (Rep r) []"
| rep1: "in_rx r s \<Longrightarrow> in_rx (Rep r) t \<Longrightarrow> in_rx (Rep r) (s @ t)"

inductive_cases in_FailE [elim!]: "in_rx Fail s"
inductive_cases in_EpsE [elim!]: "in_rx Eps s"
inductive_cases in_ClsE [elim!]: "in_rx (Cls k) s"
inductive_cases in_CatE [elim!]: "in_rx (Cat r q) s"
inductive_cases in_OrE [elim!]: "in_rx (Or r q) s"

declare in_rx.intros [intro]

section \<open>The matcher\<close>

primrec nullable :: "rx \<Rightarrow> bool" where
  "nullable Fail = False"
| "nullable Eps = True"
| "nullable (Cls k) = False"
| "nullable (Cat r q) = (nullable r \<and> nullable q)"
| "nullable (Or r q) = (nullable r \<or> nullable q)"
| "nullable (Rep r) = True"

fun mk_cat :: "rx \<Rightarrow> rx \<Rightarrow> rx" where
  "mk_cat Fail q = Fail"
| "mk_cat Eps q = q"
| "mk_cat r Fail = Fail"
| "mk_cat r q = Cat r q"

fun mk_or :: "rx \<Rightarrow> rx \<Rightarrow> rx" where
  "mk_or Fail q = q"
| "mk_or r Fail = r"
| "mk_or r q = (if r = q then r else Or r q)"

primrec deriv :: "char \<Rightarrow> rx \<Rightarrow> rx" where
  "deriv c Fail = Fail"
| "deriv c Eps = Fail"
| "deriv c (Cls k) = (if class_has k c then Eps else Fail)"
| "deriv c (Cat r q) =
     (if nullable r then mk_or (mk_cat (deriv c r) q) (deriv c q) else mk_cat (deriv c r) q)"
| "deriv c (Or r q) = mk_or (deriv c r) (deriv c q)"
| "deriv c (Rep r) = mk_cat (deriv c r) (Rep r)"

fun rx_full :: "rx \<Rightarrow> string \<Rightarrow> bool" where
  "rx_full r [] = nullable r"
| "rx_full r (c # s) = rx_full (deriv c r) s"

text \<open>\<open>/r/.test(s)\<close>, \<open>/r$/.test(s)\<close> and \<open>/^r/.test(s)\<close>.\<close>

definition any_text :: rx where
  "any_text = Rep (Cls AnyChr)"

definition rx_test :: "rx \<Rightarrow> string \<Rightarrow> bool" where
  "rx_test r s = rx_full (Cat any_text (Cat r any_text)) s"

definition rx_test_end :: "rx \<Rightarrow> string \<Rightarrow> bool" where
  "rx_test_end r s = rx_full (Cat any_text r) s"

definition rx_test_start :: "rx \<Rightarrow> string \<Rightarrow> bool" where
  "rx_test_start r s = rx_full (Cat r any_text) s"

section \<open>Building patterns\<close>

fun lit :: "string \<Rightarrow> rx" where
  "lit [] = Eps"
| "lit [c] = Cls (Chr c)"
| "lit (c # d # s) = Cat (Cls (Chr c)) (lit (d # s))"

fun seqs :: "rx list \<Rightarrow> rx" where
  "seqs [] = Eps"
| "seqs [r] = r"
| "seqs (r # q # rs) = Cat r (seqs (q # rs))"

fun alts :: "rx list \<Rightarrow> rx" where
  "alts [] = Fail"
| "alts [r] = r"
| "alts (r # q # rs) = Or r (alts (q # rs))"

definition plus :: "rx \<Rightarrow> rx" where
  "plus r = Cat r (Rep r)"

definition opt :: "rx \<Rightarrow> rx" where
  "opt r = Or Eps r"

section \<open>The matcher decides the language\<close>

lemma nullable_iff: "nullable r \<longleftrightarrow> in_rx r []"
proof (induction r)
  case (Cat r q)
  then show ?case by (auto intro: in_rx.cat [of r "[]" q "[]", simplified])
qed auto

lemma in_mk_cat: "in_rx (mk_cat r q) s \<longleftrightarrow> in_rx (Cat r q) s"
proof (induction r q rule: mk_cat.induct)
  case (2 q)
  then show ?case by (auto intro: in_rx.cat [of Eps "[]" q, simplified])
qed auto

lemma in_mk_or: "in_rx (mk_or r q) s \<longleftrightarrow> in_rx (Or r q) s"
  by (induction r q rule: mk_or.induct) auto

lemma in_Rep_Cons: "in_rx (Rep r) (c # s) \<longleftrightarrow> (\<exists>a b. s = a @ b \<and> in_rx r (c # a) \<and> in_rx (Rep r) b)"
proof
  have "in_rx q w \<Longrightarrow> q = Rep r \<Longrightarrow> w = c # s \<Longrightarrow> \<exists>a b. s = a @ b \<and> in_rx r (c # a) \<and> in_rx (Rep r) b" for q w
  proof (induction arbitrary: s rule: in_rx.induct)
    case (rep1 p u t)
    then show ?case by (cases u) auto
  qed auto
  then show "in_rx (Rep r) (c # s) \<Longrightarrow> \<exists>a b. s = a @ b \<and> in_rx r (c # a) \<and> in_rx (Rep r) b" by blast
next
  assume "\<exists>a b. s = a @ b \<and> in_rx r (c # a) \<and> in_rx (Rep r) b"
  then show "in_rx (Rep r) (c # s)" using in_rx.rep1 by fastforce
qed

lemma in_Cat_Cons:
  "in_rx (Cat r q) (c # s) \<longleftrightarrow>
     (\<exists>a b. s = a @ b \<and> in_rx r (c # a) \<and> in_rx q b) \<or> (in_rx r [] \<and> in_rx q (c # s))"
proof
  assume "in_rx (Cat r q) (c # s)"
  then obtain u t where "c # s = u @ t" "in_rx r u" "in_rx q t" by auto
  then show "(\<exists>a b. s = a @ b \<and> in_rx r (c # a) \<and> in_rx q b) \<or> (in_rx r [] \<and> in_rx q (c # s))"
    by (cases u) auto
next
  assume "(\<exists>a b. s = a @ b \<and> in_rx r (c # a) \<and> in_rx q b) \<or> (in_rx r [] \<and> in_rx q (c # s))"
  then show "in_rx (Cat r q) (c # s)"
    by (metis append_Cons append_Nil in_rx.cat)
qed

lemma in_deriv: "in_rx (deriv c r) s \<longleftrightarrow> in_rx r (c # s)"
proof (induction r arbitrary: s)
  case (Cat r q)
  have c: "in_rx (mk_cat (deriv c r) q) s \<longleftrightarrow> (\<exists>a b. s = a @ b \<and> in_rx r (c # a) \<and> in_rx q b)"
    using Cat by (auto simp: in_mk_cat)
  show ?case using Cat c by (auto simp: in_mk_or in_Cat_Cons nullable_iff)
next
  case (Rep r)
  then show ?case by (auto simp: in_mk_cat in_Rep_Cons)
next
  case (Or r q)
  then show ?case by (auto simp: in_mk_or)
qed auto

lemma rx_full_iff: "rx_full r s \<longleftrightarrow> in_rx r s"
  by (induction r s rule: rx_full.induct) (auto simp: nullable_iff in_deriv)

lemma in_any_text [simp]: "in_rx any_text s"
proof (induction s)
  case Nil
  then show ?case by (auto simp: any_text_def)
next
  case (Cons c s)
  have "in_rx (Cls AnyChr) [c]" by (auto intro: in_rx.cls)
  from in_rx.rep1 [OF this, of s] Cons show ?case by (simp add: any_text_def)
qed

lemma rx_test_iff: "rx_test r s \<longleftrightarrow> (\<exists>a m b. s = a @ m @ b \<and> in_rx r m)"
proof -
  have "in_rx (Cat any_text (Cat r any_text)) s \<longleftrightarrow> (\<exists>a m b. s = a @ m @ b \<and> in_rx r m)"
    by (auto intro!: in_rx.cat)
  then show ?thesis by (simp add: rx_test_def rx_full_iff)
qed

lemma rx_test_end_iff: "rx_test_end r s \<longleftrightarrow> (\<exists>a m. s = a @ m \<and> in_rx r m)"
  by (auto simp: rx_test_end_def rx_full_iff)

lemma rx_test_start_iff: "rx_test_start r s \<longleftrightarrow> (\<exists>m b. s = m @ b \<and> in_rx r m)"
  by (auto simp: rx_test_start_def rx_full_iff)

lemma in_lit_iff: "in_rx (lit w) s \<longleftrightarrow> s = w"
proof (induction w arbitrary: s rule: lit.induct)
  case (3 c d w)
  have "in_rx (lit (c # d # w)) s \<longleftrightarrow> (\<exists>t. s = c # t \<and> in_rx (lit (d # w)) t)"
  proof
    assume "\<exists>t. s = c # t \<and> in_rx (lit (d # w)) t"
    then obtain t where t: "s = [c] @ t" "in_rx (lit (d # w)) t" by auto
    have "in_rx (Cls (Chr c)) [c]" by (auto intro: in_rx.cls)
    from in_rx.cat [OF this t(2)] t(1) show "in_rx (lit (c # d # w)) s" by simp
  qed auto
  with 3 show ?case by auto
qed (auto intro: in_rx.cls)

lemma rx_test_lit: "rx_test (lit w) s \<longleftrightarrow> str_includes s w"
  by (simp add: rx_test_iff in_lit_iff str_includes_iff)

lemma rx_test_end_lit: "rx_test_end (lit w) s \<longleftrightarrow> ends_with s w"
  by (simp add: rx_test_end_iff in_lit_iff ends_with_iff)

end
