(* ===== verification/JsNumber.thy ===== *)
theory JsNumber imports Complex_Main Prelude begin

text \<open>
  JavaScript numbers as the sources use them: \<open>NaN\<close>, the infinities and finite values.  A
  finite value is an exact rational, so the rounding of IEEE doubles is not modelled; every
  integer below 2 to the 53 is exact in both.  \<open>toNumber\<close> is \<open>Number(s)\<close> on a string.
\<close>

datatype jsnum = NaN | PosInf | NegInf | Fin rat

definition of_int_num :: "int \<Rightarrow> jsnum" where
  "of_int_num i = Fin (of_int i)"

primrec isFiniteNum :: "jsnum \<Rightarrow> bool" where
  "isFiniteNum NaN = False"
| "isFiniteNum PosInf = False"
| "isFiniteNum NegInf = False"
| "isFiniteNum (Fin r) = True"

primrec isIntegerNum :: "jsnum \<Rightarrow> bool" where
  "isIntegerNum NaN = False"
| "isIntegerNum PosInf = False"
| "isIntegerNum NegInf = False"
| "isIntegerNum (Fin r) = (of_int \<lfloor>r\<rfloor> = r)"

primrec num_int :: "jsnum \<Rightarrow> int" where
  "num_int NaN = 0"
| "num_int PosInf = 0"
| "num_int NegInf = 0"
| "num_int (Fin r) = \<lfloor>r\<rfloor>"

text \<open>\<open>x < c\<close> and \<open>x > c\<close> for a finite constant: false on \<open>NaN\<close>.\<close>

primrec num_less :: "jsnum \<Rightarrow> rat \<Rightarrow> bool" where
  "num_less NaN c = False"
| "num_less PosInf c = False"
| "num_less NegInf c = True"
| "num_less (Fin r) c = (r < c)"

primrec num_greater :: "jsnum \<Rightarrow> rat \<Rightarrow> bool" where
  "num_greater NaN c = False"
| "num_greater PosInf c = True"
| "num_greater NegInf c = False"
| "num_greater (Fin r) c = (c < r)"

text \<open>\<open>Math.round\<close> rounds a half up.\<close>

definition js_round :: "rat \<Rightarrow> int" where
  "js_round r = \<lfloor>r + 1/2\<rfloor>"

section \<open>Reading a number\<close>

text \<open>An optional exponent: the empty text, or \<open>e\<close>, an optional sign and digits.\<close>

definition exp_value :: "string \<Rightarrow> int option" where
  "exp_value s =
     (case s of [] \<Rightarrow> Some 0
      | c # t \<Rightarrow>
        if c = CHR ''e'' \<or> c = CHR ''E'' then
          (case t of [] \<Rightarrow> None
           | d # u \<Rightarrow>
             if d = CHR ''-'' then (if all_digits u then Some (- int (digits_val u)) else None)
             else if d = CHR ''+'' then (if all_digits u then Some (int (digits_val u)) else None)
             else if all_digits t then Some (int (digits_val t)) else None)
        else None)"

definition pow10 :: "int \<Rightarrow> rat" where
  "pow10 e = (if 0 \<le> e then 10 ^ nat e else 1 / 10 ^ nat (- e))"

text \<open>An unsigned decimal literal: digits, optional fraction, optional exponent.\<close>

definition decimal_value :: "string \<Rightarrow> rat option" where
  "decimal_value s =
     (let ip = takeWhile is_digit s; r1 = dropWhile is_digit s in
      if r1 = [] then (if ip = [] then None else Some (of_nat (digits_val ip)))
      else
        (let dot = (hd r1 = CHR ''.'');
             fp = (if dot then takeWhile is_digit (tl r1) else []);
             r2 = (if dot then dropWhile is_digit (tl r1) else r1)
         in if ip = [] \<and> fp = [] then None
            else map_option (\<lambda>e. (of_nat (digits_val ip) + of_nat (digits_val fp) / 10 ^ length fp) * pow10 e)
                   (exp_value r2)))"

definition hex_val :: "char \<Rightarrow> nat option" where
  "hex_val c =
     (if is_digit c then Some (of_char c - 48)
      else if in_range 97 102 c then Some (of_char c - 87)
      else if in_range 65 70 c then Some (of_char c - 55) else None)"

fun radix_value :: "nat \<Rightarrow> nat \<Rightarrow> string \<Rightarrow> nat option" where
  "radix_value r a [] = Some a"
| "radix_value r a (c # s) =
     (case hex_val c of None \<Rightarrow> None
      | Some v \<Rightarrow> if v < r then radix_value r (r * a + v) s else None)"

definition radix_prefix :: "string \<Rightarrow> nat option" where
  "radix_prefix s =
     (let p = to_lower (take 2 s) in
      if p = ''0x'' then Some 16 else if p = ''0o'' then Some 8 else if p = ''0b'' then Some 2 else None)"

definition toNumber :: "string \<Rightarrow> jsnum" where
  "toNumber s =
     (let t = trim s in
      if t = [] then Fin 0
      else case radix_prefix t of
        Some r \<Rightarrow> (if drop 2 t = [] then NaN
                   else case radix_value r 0 (drop 2 t) of None \<Rightarrow> NaN | Some v \<Rightarrow> Fin (of_nat v))
      | None \<Rightarrow>
        (let neg = (hd t = CHR ''-''); signed = (neg \<or> hd t = CHR ''+''); u = (if signed then tl t else t) in
         if u = ''Infinity'' then (if neg then NegInf else PosInf)
         else case decimal_value u of None \<Rightarrow> NaN | Some r \<Rightarrow> Fin (if neg then - r else r)))"

section \<open>Lemmas\<close>

lemma digit_bounds: "is_digit c \<Longrightarrow> 48 \<le> (of_char c :: nat) \<and> (of_char c :: nat) \<le> 57"
  by (simp add: is_digit_def in_range_def)

lemma is_digit_not_ws: "is_digit c \<Longrightarrow> \<not> is_ws c"
  by (auto simp: is_digit_def is_ws_def in_range_def)

lemma trim_no_ws: "list_all (\<lambda>c. \<not> is_ws c) s \<Longrightarrow> trim s = s"
proof -
  assume h: "list_all (\<lambda>c. \<not> is_ws c) s"
  have d: "list_all (\<lambda>c. \<not> is_ws c) t \<Longrightarrow> dropWhile is_ws t = t" for t by (cases t) auto
  from h have "list_all (\<lambda>c. \<not> is_ws c) (rev s)" by simp
  with d [OF h] d [of "rev s"] show ?thesis by (simp add: trim_def trim_end_def trim_start_def)
qed

lemma trim_all_digits: "all_digits s \<Longrightarrow> trim s = s"
  by (rule trim_no_ws) (auto simp: all_digits_def list_all_iff dest: is_digit_not_ws)

lemma all_digits_no_radix:
  assumes "all_digits s"
  shows "radix_prefix s = None"
proof -
  have low: "is_digit c \<Longrightarrow> lower_char c = c" for c
    by (auto simp: lower_char_def is_upper_def is_digit_def in_range_def)
  have "d \<notin> set (to_lower (take 2 s))" if "\<not> is_digit d" for d
    using assms that low set_take_subset [of 2 s] by (auto simp: to_lower_def all_digits_def list_all_iff)
  from this [of "CHR ''x''"] this [of "CHR ''o''"] this [of "CHR ''b''"]
  show ?thesis by (auto simp: radix_prefix_def Let_def is_digit_def in_range_def)
qed

lemma toNumber_digits: "all_digits s \<Longrightarrow> toNumber s = of_int_num (int (digits_val s))"
proof -
  assume h: "all_digits s"
  then obtain c t where s: "s = c # t" and c: "is_digit c" by (cases s) (auto simp: all_digits_def)
  from h have tw: "takeWhile is_digit s = s" "dropWhile is_digit s = []"
    by (auto simp: all_digits_def list_all_iff takeWhile_eq_all_conv dropWhile_eq_Nil_conv)
  have nc: "c \<noteq> CHR ''-''" "c \<noteq> CHR ''+''" "c \<noteq> CHR ''I''"
    using c by (auto simp: is_digit_def in_range_def)
  with s tw h have "decimal_value s = Some (of_nat (digits_val s))" by (simp add: decimal_value_def)
  with nc s h show ?thesis
    by (simp add: toNumber_def trim_all_digits all_digits_no_radix of_int_num_def)
qed

lemma toNumber_nat_str [simp]: "toNumber (nat_str n) = of_int_num (int n)"
  by (simp add: toNumber_digits)

lemma of_int_num_simps [simp]:
  "isIntegerNum (of_int_num i)" "isFiniteNum (of_int_num i)" "num_int (of_int_num i) = i"
  "num_less (of_int_num i) (of_int c) \<longleftrightarrow> i < c" "num_greater (of_int_num i) (of_int c) \<longleftrightarrow> c < i"
  by (simp_all add: of_int_num_def)

end
