(* ===== verification/JsValue.thy ===== *)
theory JsValue imports JsNumber begin

text \<open>
  Values of the type \<open>unknown\<close> that arrive as JSON or from the database: \<open>null\<close>, \<open>undefined\<close>,
  booleans, numbers, strings, arrays and plain objects, with the conversions the sources apply
  to them (\<open>String\<close>, \<open>Number\<close>, truthiness, \<open>??\<close>, property access).
\<close>

datatype js =
    JUndef
  | JNull
  | JBool bool
  | JNum jsnum
  | JStr string
  | JArr "js list"
  | JObj "(string \<times> js) list"

type_synonym js_record = "(string \<times> js) list"

definition nullish :: "js \<Rightarrow> bool" where
  "nullish v \<longleftrightarrow> v = JUndef \<or> v = JNull"

text \<open>\<open>a ?? b\<close>.\<close>

definition js_or :: "js \<Rightarrow> js \<Rightarrow> js" where
  "js_or a b = (if nullish a then b else a)"

definition get_prop :: "js_record \<Rightarrow> string \<Rightarrow> js" where
  "get_prop r k = (case map_of r k of None \<Rightarrow> JUndef | Some v \<Rightarrow> v)"

text \<open>A property when it is a text.\<close>

definition str_field :: "js_record \<Rightarrow> string \<Rightarrow> string option" where
  "str_field r k = (case get_prop r k of JStr s \<Rightarrow> Some s | _ \<Rightarrow> None)"

fun js_truthy :: "js \<Rightarrow> bool" where
  "js_truthy JUndef = False"
| "js_truthy JNull = False"
| "js_truthy (JBool b) = b"
| "js_truthy (JNum n) = (n \<noteq> NaN \<and> n \<noteq> Fin 0)"
| "js_truthy (JStr s) = (s \<noteq> [])"
| "js_truthy (JArr xs) = True"
| "js_truthy (JObj r) = True"

fun js_is_object :: "js \<Rightarrow> bool" where
  "js_is_object (JArr xs) = True"
| "js_is_object (JObj r) = True"
| "js_is_object _ = False"

text \<open>
  \<open>String(n)\<close>: integers below 1e21 and terminating decimals of at most 20 places, which is what
  a number read from decimal text prints as; smaller or larger magnitudes would switch to
  exponent notation and are not modelled.
\<close>

fun decimal_places :: "nat \<Rightarrow> rat \<Rightarrow> string" where
  "decimal_places 0 r = []"
| "decimal_places (Suc k) r =
     (if r = 0 then [] else digit_char (nat \<lfloor>10 * r\<rfloor>) # decimal_places k (10 * r - of_int \<lfloor>10 * r\<rfloor>))"

definition rat_str :: "rat \<Rightarrow> string" where
  "rat_str r =
     (let a = \<bar>r\<bar>; ip = \<lfloor>a\<rfloor>; fp = decimal_places 20 (a - of_int ip) in
      (if r < 0 then ''-'' else []) @ nat_str (nat ip) @ (if fp = [] then [] else ''.'' @ fp))"

primrec num_str :: "jsnum \<Rightarrow> string" where
  "num_str NaN = ''NaN''"
| "num_str PosInf = ''Infinity''"
| "num_str NegInf = ''-Infinity''"
| "num_str (Fin r) = rat_str r"

fun js_string :: "js \<Rightarrow> string" where
  "js_string JUndef = ''undefined''"
| "js_string JNull = ''null''"
| "js_string (JBool b) = (if b then ''true'' else ''false'')"
| "js_string (JNum n) = num_str n"
| "js_string (JStr s) = s"
| "js_string (JArr xs) = join '','' (map (\<lambda>v. if nullish v then [] else js_string v) xs)"
| "js_string (JObj r) = ''[object Object]''"

fun js_number :: "js \<Rightarrow> jsnum" where
  "js_number JUndef = NaN"
| "js_number JNull = Fin 0"
| "js_number (JBool b) = Fin (if b then 1 else 0)"
| "js_number (JNum n) = n"
| "js_number (JStr s) = toNumber s"
| "js_number (JArr xs) = toNumber (js_string (JArr xs))"
| "js_number (JObj r) = NaN"

lemma decimal_places_0 [simp]: "decimal_places k 0 = []"
  by (cases k) simp_all

lemma rat_str_nat: "rat_str (of_nat n) = nat_str n"
  by (simp add: rat_str_def)

lemma rat_str_of_int: "rat_str (of_int i) = int_str i"
  by (cases "i < 0") (simp_all add: rat_str_def int_str_def Let_def flip: of_int_abs)

lemma num_str_of_int [simp]: "num_str (of_int_num i) = int_str i"
  by (simp add: of_int_num_def rat_str_of_int)

end
