(* ===== verification/FederationAccess.thy ===== *)
theory FederationAccess imports Permissions Rx JsValue begin

text \<open>
  What a peer installation may do with a host shared to it: \<^verbatim>\<open>lib/federation-access.ts\<close>.  The
  owner grants a level or an explicit permission list; every proxied Proxmox call is mapped
  to the permission it needs by its method and path.
\<close>

section \<open>Levels and the permissions behind them\<close>

datatype share_level = ViewLevel | ControlLevel | CreateLevel

record federation_extra =
  exQuery :: "(string \<times> string) list option"
  exBody :: "js_record option"

primrec RANK :: "share_level \<Rightarrow> nat" where
  "RANK ViewLevel = 1"
| "RANK ControlLevel = 2"
| "RANK CreateLevel = 3"

definition shareRank :: "share_level \<Rightarrow> nat" where
  "shareRank level = RANK level"

text \<open>The levels are ordered by their rank.\<close>

instantiation share_level :: linorder
begin

definition less_eq_share_level :: "share_level \<Rightarrow> share_level \<Rightarrow> bool" where
  "less_eq_share_level a b \<longleftrightarrow> RANK a \<le> RANK b"

definition less_share_level :: "share_level \<Rightarrow> share_level \<Rightarrow> bool" where
  "less_share_level a b \<longleftrightarrow> RANK a < RANK b"

instance
proof
  fix a b :: share_level
  show "a \<le> b \<Longrightarrow> b \<le> a \<Longrightarrow> a = b"
    by (cases a; cases b) (simp_all add: less_eq_share_level_def)
qed (auto simp: less_eq_share_level_def less_share_level_def)

end

text \<open>\<open>None\<close> is the \<open>"deny"\<close> of the source.\<close>

definition shareAllows :: "share_level \<Rightarrow> share_level option \<Rightarrow> bool" where
  "shareAllows granted needed = (case needed of None \<Rightarrow> False | Some n \<Rightarrow> RANK n \<le> RANK granted)"

lemma shareAllows_order: "shareAllows granted (Some needed) \<longleftrightarrow> needed \<le> granted" "\<not> shareAllows granted None"
  by (simp_all add: shareAllows_def less_eq_share_level_def)

lemma shareAllows_mono: "a \<le> b \<Longrightarrow> shareAllows a needed \<Longrightarrow> shareAllows b needed"
  by (cases needed) (auto simp: shareAllows_order)

definition parseShareLevel :: "string option \<Rightarrow> share_level option" where
  "parseShareLevel value =
     (let v = to_lower (case value of None \<Rightarrow> [] | Some s \<Rightarrow> s) in
      if v = ''view'' then Some ViewLevel
      else if v = ''control'' then Some ControlLevel
      else if v = ''create'' then Some CreateLevel else None)"

definition SHARE_VIEW :: "string list" where
  "SHARE_VIEW = [''hosts.view'', ''vm.view'', ''lxc.view'', ''storage.view'', ''zfs.view'',
     ''backup.view'', ''updates.view'', ''tasks.view'']"

definition SHARE_CREATE_ONLY :: "string list" where
  "SHARE_CREATE_ONLY = [''vm.create'', ''vm.clone'', ''lxc.create'', ''lxc.clone'']"

definition SHARE_DEFAULT_DENY :: "string list" where
  "SHARE_DEFAULT_DENY = [''hosts.console'', ''hosts.delete'', ''hosts.credentials'', ''updates.check'',
     ''updates.upgrade'']"

definition permissionsForShareLevel :: "share_level \<Rightarrow> string list" where
  "permissionsForShareLevel level =
     (let catalog = map fst hostGrantCatalog in
      if level = ViewLevel then filter (\<lambda>p. p \<in> set catalog) SHARE_VIEW
      else (let denied = SHARE_DEFAULT_DENY @ (if level = ControlLevel then SHARE_CREATE_ONLY else [])
            in filter (\<lambda>p. p \<notin> set denied) catalog))"

definition shareLevelFromPermissions :: "string list \<Rightarrow> share_level" where
  "shareLevelFromPermissions permissions =
     (let perms = sanitizePermissions permissions in
      if list_ex (\<lambda>p. hasPermission (Some perms) p) SHARE_CREATE_ONLY then CreateLevel
      else (let view = permissionsForShareLevel ViewLevel in
            if list_ex (\<lambda>p. p \<notin> set view) perms then ControlLevel else ViewLevel))"

definition effectiveSharePermissions :: "share_level \<Rightarrow> string list option \<Rightarrow> string list" where
  "effectiveSharePermissions level permissions =
     (case permissions of
        Some (p # ps) \<Rightarrow> filter (\<lambda>q. list_ex (\<lambda>m. fst m = q) hostGrantCatalog) (sanitizePermissions (p # ps))
      | _ \<Rightarrow> permissionsForShareLevel level)"

text \<open>\<open>Permission | Permission[] | "deny"\<close>.\<close>

datatype needed = One string | Many "string list" | Deny

definition shareHasPermission :: "share_level \<Rightarrow> string list option \<Rightarrow> string list \<Rightarrow> bool" where
  "shareHasPermission level permissions needed =
     hasAnyPermission (Some (effectiveSharePermissions level permissions)) needed"

record peer_host =
  phOrigin :: "string option"
  phShareLevel :: "string option"
  phSharePermissions :: "string list option"

definition peerHostAllowsPermission :: "peer_host \<Rightarrow> string list \<Rightarrow> bool" where
  "peerHostAllowsPermission host needed =
     (if phOrigin host \<noteq> Some ''PEER'' then True
      else (let level = (case parseShareLevel (phShareLevel host) of None \<Rightarrow> ViewLevel | Some l \<Rightarrow> l)
            in shareHasPermission level (phSharePermissions host) needed))"

section \<open>The permission a proxied call needs\<close>

definition query_get :: "(string \<times> string) list option \<Rightarrow> string \<Rightarrow> js" where
  "query_get q k = (case Option.bind q (\<lambda>al. map_of al k) of None \<Rightarrow> JUndef | Some s \<Rightarrow> JStr s)"

definition extraCmd :: "federation_extra option \<Rightarrow> string" where
  "extraCmd extra =
     (let fromBody = (case Option.bind extra exBody of None \<Rightarrow> JUndef
                      | Some b \<Rightarrow> js_or (get_prop b ''cmd'') (get_prop b ''command''));
          q = Option.bind extra exQuery;
          fromQuery = js_or (query_get q ''cmd'') (query_get q ''command'')
      in to_lower (js_string (js_or (js_or fromBody fromQuery) (JStr []))))"

definition seg :: rx where
  "seg = plus (Cls (NotChr CHR ''/''))"

definition node_route :: "string \<Rightarrow> string \<Rightarrow> bool" where
  "node_route lower suffix = rx_test_end (seqs [lit ''/nodes/'', seg, lit suffix]) lower"

definition guest_path :: "string \<Rightarrow> bool" where
  "guest_path lower = rx_test (seqs [lit ''/'', Or (lit ''qemu'') (lit ''lxc''), lit ''/'']) lower"

definition guestActionPermission :: "guest_kind \<Rightarrow> string \<Rightarrow> string \<Rightarrow> string" where
  "guestActionPermission kind m lower =
     (let prefix = kind_str kind in
      if ends_with lower ''/status/start'' then prefix @ ''.start''
      else if ends_with lower ''/status/stop'' then prefix @ ''.force-stop''
      else if ends_with lower ''/status/shutdown'' then prefix @ ''.shutdown''
      else if ends_with lower ''/status/reboot'' then prefix @ ''.reboot''
      else if ends_with lower ''/status/reset'' then ''vm.reset''
      else if ends_with lower ''/status/suspend'' then ''vm.pause''
      else if ends_with lower ''/status/resume'' then ''vm.resume''
      else if ends_with lower ''/clone'' then prefix @ ''.clone''
      else if ends_with lower ''/migrate'' then prefix @ ''.migrate''
      else if ends_with lower ''/termproxy'' \<or> ends_with lower ''/vncproxy'' \<or> ends_with lower ''/vncwebsocket''
        then prefix @ ''.console''
      else if rx_test_end (seqs [lit ''/snapshot/'', seg, lit ''/rollback'']) lower
        then prefix @ ''.snapshot.rollback''
      else if str_includes lower ''/snapshot/'' \<or> ends_with lower ''/snapshot'' then
        (if m = ''DELETE'' then prefix @ ''.snapshot.delete''
         else if m = ''POST'' then prefix @ ''.snapshot.create''
         else prefix @ ''.view'')
      else if m = ''DELETE'' then prefix @ ''.delete''
      else if m = ''PUT'' \<or> m = ''POST'' then prefix @ ''.config''
      else prefix @ ''.view'')"

definition path_only :: "string \<Rightarrow> string" where
  "path_only path = hd (split_on CHR ''?'' path)"

text \<open>The branches of the source in its order, in groups of related paths; a group that does
  not decide passes on (\<open>None\<close>).\<close>

definition fed_node :: "string \<Rightarrow> string \<Rightarrow> federation_extra option \<Rightarrow> needed option" where
  "fed_node m lower extra =
     (if node_route lower ''/status/stopall'' \<or> node_route lower ''/startall'' then Some Deny
      else if str_includes lower ''/apt/'' then
        (if m = ''GET'' \<or> m = ''HEAD'' then Some (One ''updates.view'')
         else if m = ''POST'' \<and> ends_with lower ''/apt/update'' then Some (One ''updates.check'')
         else Some Deny)
      else if node_route lower ''/status'' \<and> m = ''POST'' \<and> \<not> guest_path lower then
        (let cmd = extraCmd extra in
         if cmd = ''reboot'' then Some (One ''hosts.reboot'')
         else if cmd = ''shutdown'' then Some (One ''hosts.shutdown'')
         else Some Deny)
      else if node_route lower ''/status/reboot'' then
        Some (One (if m = ''POST'' then ''hosts.reboot'' else ''hosts.view''))
      else if node_route lower ''/status/shutdown'' then
        Some (One (if m = ''POST'' then ''hosts.shutdown'' else ''hosts.view''))
      else if node_route lower ''/termproxy'' \<and> \<not> guest_path lower then
        Some (One (if extraCmd extra = ''upgrade'' then ''updates.upgrade'' else ''hosts.console''))
      else if node_route lower ''/vncshell'' \<and> \<not> guest_path lower then Some (One ''hosts.console'')
      else if node_route lower ''/vncwebsocket'' \<and> \<not> guest_path lower then
        Some (Many [''hosts.console'', ''updates.upgrade''])
      else None)"

definition fed_guest :: "string \<Rightarrow> string \<Rightarrow> needed option" where
  "fed_guest m lower =
     (if m = ''POST'' \<and> node_route lower ''/qemu'' then Some (One ''vm.create'')
      else if m = ''POST'' \<and> node_route lower ''/lxc'' then Some (One ''lxc.create'')
      else if str_includes lower ''/qemu/'' \<or> node_route lower ''/qemu'' then
        Some (One (if m = ''GET'' \<or> m = ''HEAD'' then ''vm.view'' else guestActionPermission VM m lower))
      else if str_includes lower ''/lxc/'' \<or> node_route lower ''/lxc'' then
        Some (One (if m = ''GET'' \<or> m = ''HEAD'' then ''lxc.view'' else guestActionPermission LXC m lower))
      else None)"

definition fed_backup :: "string \<Rightarrow> string \<Rightarrow> needed option" where
  "fed_backup m lower =
     (if str_includes lower ''/storage/'' \<and> (str_includes lower ''backup'' \<or> str_includes lower ''vzdump'')
         \<and> m \<in> set [''GET'', ''HEAD'', ''DELETE'', ''POST''] then
        (if m = ''GET'' \<or> m = ''HEAD'' then Some (One ''backup.view'')
         else if m = ''DELETE'' then Some (One ''backup.delete'')
         else if str_includes lower ''restore'' then Some (One ''backup.restore'')
         else Some (One ''backup.run''))
      else if str_includes lower ''vzdump'' \<and> m \<in> set [''GET'', ''HEAD'', ''POST''] then
        (if m = ''POST'' then Some (One ''backup.run'') else Some (One ''backup.view''))
      else None)"

definition fed_rest :: "string \<Rightarrow> string \<Rightarrow> needed" where
  "fed_rest m lower =
     (if str_includes lower ''/storage/'' \<and> m \<in> set [''GET'', ''HEAD'', ''DELETE''] then
        (if m = ''DELETE'' then One ''storage.delete'' else One ''storage.view'')
      else if str_includes lower ''/disks/'' \<or> str_includes lower ''/zfs'' then One ''zfs.view''
      else if str_includes lower ''/tasks'' then
        (if m = ''DELETE'' \<or> (ends_with lower ''/status'' \<and> m = ''POST'') then One ''tasks.cancel''
         else One ''tasks.view'')
      else if m = ''GET'' \<or> m = ''HEAD'' then One ''hosts.view''
      else Deny)"

definition federationPermission :: "string \<Rightarrow> string \<Rightarrow> federation_extra option \<Rightarrow> needed" where
  "federationPermission meth path extra =
     (let m = to_upper meth; lower = to_lower (path_only path) in
      case fed_node m lower extra of Some n \<Rightarrow> n
      | None \<Rightarrow> (case fed_guest m lower of Some n \<Rightarrow> n
        | None \<Rightarrow> (case fed_backup m lower of Some n \<Rightarrow> n
          | None \<Rightarrow> fed_rest m lower)))"

primrec needed_list :: "needed \<Rightarrow> string list" where
  "needed_list (One p) = [p]"
| "needed_list (Many ps) = ps"
| "needed_list Deny = []"

definition federationActionLevel :: "string \<Rightarrow> string \<Rightarrow> federation_extra option \<Rightarrow> share_level option" where
  "federationActionLevel meth path extra =
     (let needed = federationPermission meth path extra in
      if needed = Deny then None
      else (let ps = needed_list needed in
        if list_ex (\<lambda>p. p \<in> set SHARE_CREATE_ONLY) ps then Some CreateLevel
        else if list_all (\<lambda>p. p \<in> set SHARE_VIEW) ps then Some ViewLevel
        else if list_ex (\<lambda>p. p \<in> set SHARE_DEFAULT_DENY) ps then None
        else Some ControlLevel))"

section \<open>Lemmas\<close>

lemma in_hostGrantCatalog: "p \<in> set (map fst hostGrantCatalog) \<longleftrightarrow> isHostScopedPermission p"
proof
  assume h: "isHostScopedPermission p"
  then have "p \<in> set (map fst PERMISSION_CATALOG)"
    using unknown_not_host_scoped by (simp only: catalog_ids isPermission_def)
  with h show "p \<in> set (map fst hostGrantCatalog)" by (auto simp: hostGrantCatalog_def)
qed (auto simp: hostGrantCatalog_def)

lemma hostGrantCatalog_permission: "p \<in> set (map fst hostGrantCatalog) \<Longrightarrow> isPermission p"
  by (simp only: in_hostGrantCatalog unknown_not_host_scoped)

lemma share_view_scoped: "list_all isHostScopedPermission SHARE_VIEW"
  by code_simp

lemma set_permissionsForShareLevel:
  "set (permissionsForShareLevel level) =
     (case level of
        ViewLevel \<Rightarrow> set SHARE_VIEW
      | ControlLevel \<Rightarrow> {p. isHostScopedPermission p \<and> p \<notin> set SHARE_DEFAULT_DENY \<and> p \<notin> set SHARE_CREATE_ONLY}
      | CreateLevel \<Rightarrow> {p. isHostScopedPermission p \<and> p \<notin> set SHARE_DEFAULT_DENY})"
  using share_view_scoped in_hostGrantCatalog
  by (cases level) (auto simp: permissionsForShareLevel_def Let_def list_all_iff simp del: set_map)

lemma shareLevelFromPermissions_iff:
  assumes "\<forall>p \<in> set ps. isPermission p"
  shows "shareLevelFromPermissions ps =
    (if \<exists>p \<in> set SHARE_CREATE_ONLY. p \<in> set ps then CreateLevel
     else if \<exists>p \<in> set ps. p \<notin> set SHARE_VIEW then ControlLevel else ViewLevel)"
proof -
  have s: "set (sanitizePermissions ps) = set ps"
    using assms by (auto simp: set_sanitizePermissions hasPermission_of_permissions)
  have "hasPermission (Some (sanitizePermissions ps)) p \<longleftrightarrow> p \<in> set ps" for p
    using assms by (auto simp: hasPermission_sanitize_iff hasPermission_of_permissions)
  then show ?thesis
    by (simp add: shareLevelFromPermissions_def Let_def list_ex_iff s set_permissionsForShareLevel)
qed

lemma list_ex_hostGrantCatalog: "list_ex (\<lambda>m. fst m = q) hostGrantCatalog \<longleftrightarrow> isHostScopedPermission q"
proof -
  have "list_ex (\<lambda>m. fst m = q) hostGrantCatalog \<longleftrightarrow> q \<in> set (map fst hostGrantCatalog)"
    by (auto simp: list_ex_iff)
  then show ?thesis by (simp only: in_hostGrantCatalog)
qed

lemma permissionsForShareLevel_scoped: "p \<in> set (permissionsForShareLevel level) \<Longrightarrow> isHostScopedPermission p"
  using share_view_scoped by (cases level) (auto simp: set_permissionsForShareLevel list_all_iff)

lemma set_effectiveSharePermissions:
  "set (effectiveSharePermissions level permissions) =
     (if permissions = None \<or> permissions = Some [] then set (permissionsForShareLevel level)
      else {p. isHostScopedPermission p \<and> hasPermission permissions p})"
  using unknown_not_host_scoped
  by (cases "the permissions"; cases permissions)
    (auto simp: effectiveSharePermissions_def list_ex_hostGrantCatalog set_sanitizePermissions)

lemma effective_scoped: "p \<in> set (effectiveSharePermissions level permissions) \<Longrightarrow> isHostScopedPermission p"
  by (auto simp: set_effectiveSharePermissions permissionsForShareLevel_scoped split: if_splits)

lemma shareHasPermission_iff:
  "shareHasPermission level permissions needed \<longleftrightarrow>
     (\<exists>p \<in> set needed. p \<in> set (effectiveSharePermissions level permissions))"
proof -
  have "p \<in> set (expandPermissions (Some (effectiveSharePermissions level permissions))) \<longleftrightarrow>
      p \<in> set (effectiveSharePermissions level permissions)" for p
    using hasPermission_of_permissions [of "effectiveSharePermissions level permissions" p]
      effective_scoped unknown_not_host_scoped by (simp add: hasPermission_def)
  then show ?thesis
    by (simp add: shareHasPermission_def hasAnyPermission_def list_ex_iff)
qed

text \<open>No \<open>POST\<close>, \<open>PUT\<close> or \<open>DELETE\<close> on a guest asks for a view permission, snapshots set aside.\<close>

lemma not_view:
  "''vm.start'' \<notin> set SHARE_VIEW"
  "''vm.force-stop'' \<notin> set SHARE_VIEW"
  "''vm.shutdown'' \<notin> set SHARE_VIEW"
  "''vm.reboot'' \<notin> set SHARE_VIEW"
  "''vm.clone'' \<notin> set SHARE_VIEW"
  "''vm.migrate'' \<notin> set SHARE_VIEW"
  "''vm.console'' \<notin> set SHARE_VIEW"
  "''vm.snapshot.rollback'' \<notin> set SHARE_VIEW"
  "''vm.snapshot.delete'' \<notin> set SHARE_VIEW"
  "''vm.snapshot.create'' \<notin> set SHARE_VIEW"
  "''vm.delete'' \<notin> set SHARE_VIEW"
  "''vm.config'' \<notin> set SHARE_VIEW"
  "''vm.create'' \<notin> set SHARE_VIEW"
  "''lxc.start'' \<notin> set SHARE_VIEW"
  "''lxc.force-stop'' \<notin> set SHARE_VIEW"
  "''lxc.shutdown'' \<notin> set SHARE_VIEW"
  "''lxc.reboot'' \<notin> set SHARE_VIEW"
  "''lxc.clone'' \<notin> set SHARE_VIEW"
  "''lxc.migrate'' \<notin> set SHARE_VIEW"
  "''lxc.console'' \<notin> set SHARE_VIEW"
  "''lxc.snapshot.rollback'' \<notin> set SHARE_VIEW"
  "''lxc.snapshot.delete'' \<notin> set SHARE_VIEW"
  "''lxc.snapshot.create'' \<notin> set SHARE_VIEW"
  "''lxc.delete'' \<notin> set SHARE_VIEW"
  "''lxc.config'' \<notin> set SHARE_VIEW"
  "''lxc.create'' \<notin> set SHARE_VIEW"
  "''vm.reset'' \<notin> set SHARE_VIEW"
  "''vm.pause'' \<notin> set SHARE_VIEW"
  "''vm.resume'' \<notin> set SHARE_VIEW"
  "''hosts.reboot'' \<notin> set SHARE_VIEW"
  "''hosts.shutdown'' \<notin> set SHARE_VIEW"
  "''hosts.console'' \<notin> set SHARE_VIEW"
  "''updates.check'' \<notin> set SHARE_VIEW"
  "''updates.upgrade'' \<notin> set SHARE_VIEW"
  "''backup.run'' \<notin> set SHARE_VIEW"
  "''backup.restore'' \<notin> set SHARE_VIEW"
  "''backup.delete'' \<notin> set SHARE_VIEW"
  "''storage.delete'' \<notin> set SHARE_VIEW"
  "''tasks.cancel'' \<notin> set SHARE_VIEW"
  by code_simp+

lemma guestAction_post: "guestActionPermission kind ''POST'' lower \<notin> set SHARE_VIEW"
  by (cases kind) (simp_all add: guestActionPermission_def Let_def not_view)

lemma guestAction_delete: "guestActionPermission kind ''DELETE'' lower \<notin> set SHARE_VIEW"
  by (cases kind) (simp_all add: guestActionPermission_def Let_def not_view)

lemma guestAction_put:
  "\<not> (str_includes lower ''/snapshot/'' \<or> ends_with lower ''/snapshot'') \<Longrightarrow>
     guestActionPermission kind ''PUT'' lower \<notin> set SHARE_VIEW"
  by (cases kind) (simp_all add: guestActionPermission_def Let_def not_view)

lemma guestAction_not_view:
  assumes "m = ''POST'' \<or> m = ''PUT'' \<or> m = ''DELETE''"
    and "guestActionPermission kind m lower \<in> set SHARE_VIEW"
  shows "m = ''PUT'' \<and> (str_includes lower ''/snapshot/'' \<or> ends_with lower ''/snapshot'')"
  using assms guestAction_post guestAction_delete guestAction_put by metis

lemma fed_node_view:
  "m = ''POST'' \<or> m = ''PUT'' \<or> m = ''DELETE'' \<Longrightarrow> fed_node m lower extra = Some (One p) \<Longrightarrow> p \<in> set SHARE_VIEW \<Longrightarrow>
     m \<noteq> ''POST'' \<and> (node_route lower ''/status/reboot'' \<or> node_route lower ''/status/shutdown'')"
  by (elim disjE) (auto simp: fed_node_def Let_def not_view split: if_splits)

lemma fed_guest_view:
  assumes "m = ''POST'' \<or> m = ''PUT'' \<or> m = ''DELETE''" "fed_guest m lower = Some (One p)" "p \<in> set SHARE_VIEW"
  shows "m = ''PUT'' \<and> (str_includes lower ''/snapshot/'' \<or> ends_with lower ''/snapshot'')"
proof -
  have g: "m \<noteq> ''GET''" "m \<noteq> ''HEAD''" using assms(1) by auto
  have "p = ''vm.create'' \<or> p = ''lxc.create'' \<or> p = guestActionPermission VM m lower
      \<or> p = guestActionPermission LXC m lower"
    using assms(2) g unfolding fed_guest_def by (simp split: if_splits)
  with assms(1,3) not_view guestAction_not_view show ?thesis by metis
qed

lemma fed_backup_view:
  "m = ''POST'' \<or> m = ''PUT'' \<or> m = ''DELETE'' \<Longrightarrow> fed_backup m lower = Some n \<Longrightarrow> p \<in> set SHARE_VIEW \<Longrightarrow> n \<noteq> One p"
  by (elim disjE) (auto simp: fed_backup_def not_view split: if_splits)

lemma fed_rest_view:
  "m = ''POST'' \<or> m = ''PUT'' \<or> m = ''DELETE'' \<Longrightarrow> fed_rest m lower = One p \<Longrightarrow> p \<in> set SHARE_VIEW \<Longrightarrow>
     str_includes lower ''/disks/'' \<or> str_includes lower ''/zfs'' \<or> (str_includes lower ''/tasks'' \<and> m \<noteq> ''DELETE'')"
  by (elim disjE) (auto simp: fed_rest_def not_view split: if_splits)

lemma zfs_path:
  assumes "list_all (\<lambda>s. \<not> node_route l s) [''/status/stopall'', ''/startall'', ''/status'', ''/status/reboot'',
      ''/status/shutdown'', ''/termproxy'', ''/vncshell'', ''/vncwebsocket'', ''/qemu'', ''/lxc'']"
    and "list_all (\<lambda>s. \<not> str_includes l s) [''/apt/'', ''/qemu/'', ''/lxc/'', ''/storage/'', ''vzdump'']"
    and "str_includes l ''/zfs''" and "to_lower (path_only path) = l"
  shows "federationPermission meth path extra = One ''zfs.view''"
proof -
  have "fed_node m l extra = None" for m using assms(1,2) by (simp add: fed_node_def)
  moreover have "fed_guest m l = None" for m using assms(1,2) by (simp add: fed_guest_def)
  moreover have "fed_backup m l = None" for m using assms(1,2) by (simp add: fed_backup_def)
  moreover have "fed_rest m l = One ''zfs.view''" for m using assms(2,3) by (simp add: fed_rest_def)
  ultimately show ?thesis using assms(4) by (simp add: federationPermission_def)
qed

section \<open>Properties\<close>

text \<open>
  The share ladder: each level grants what the level below grants, the level is recovered
  from the permissions it stands for, and no level grants the host console, host deletion, host
  credentials or package upgrades.
\<close>

theorem share_ladder:
  "set (permissionsForShareLevel ViewLevel) \<subseteq> set (permissionsForShareLevel ControlLevel)
   \<and> set (permissionsForShareLevel ControlLevel) \<subseteq> set (permissionsForShareLevel CreateLevel)
   \<and> shareLevelFromPermissions (permissionsForShareLevel level) = level
   \<and> set (permissionsForShareLevel level) \<inter> set SHARE_DEFAULT_DENY = {}"
proof -
  have v: "list_all (\<lambda>p. p \<notin> set SHARE_DEFAULT_DENY \<and> p \<notin> set SHARE_CREATE_ONLY) SHARE_VIEW" by code_simp
  have c: "isHostScopedPermission ''vm.create''" "isHostScopedPermission ''vm.start''" by code_simp+
  have m: "''vm.create'' \<in> set SHARE_CREATE_ONLY" "''vm.create'' \<notin> set SHARE_DEFAULT_DENY"
    "''vm.start'' \<notin> set SHARE_DEFAULT_DENY" "''vm.start'' \<notin> set SHARE_CREATE_ONLY" "''vm.start'' \<notin> set SHARE_VIEW"
    by code_simp+
  have "\<forall>p \<in> set (permissionsForShareLevel level). isPermission p"
    using permissionsForShareLevel_scoped unknown_not_host_scoped by blast
  then have "shareLevelFromPermissions (permissionsForShareLevel level) = level"
    using v c m
    by (cases level) (auto simp: shareLevelFromPermissions_iff set_permissionsForShareLevel list_all_iff)
  then show ?thesis
    using v share_view_scoped by (cases level) (auto simp: set_permissionsForShareLevel list_all_iff)
qed

text \<open>
  An explicit share list is a ceiling: a peer holds a permission exactly when the list
  grants it and it is one that attaches to a host, whatever level is stored beside the list.
\<close>

theorem explicit_share_ceiling:
  assumes "ps \<noteq> []"
  shows "shareHasPermission level (Some ps) [p] \<longleftrightarrow> hasPermission (Some ps) p \<and> isHostScopedPermission p"
  using assms by (auto simp: shareHasPermission_iff set_effectiveSharePermissions)

theorem explicit_share_ceiling_witness:
  "shareHasPermission CreateLevel (Some [''vm.stop'']) [''vm.force-stop'']
   \<and> \<not> shareHasPermission CreateLevel (Some [''vm.stop'']) [''vm.create'']"
proof -
  have "hasPermission (Some [''vm.stop'']) ''vm.force-stop'' \<and> isHostScopedPermission ''vm.force-stop''"
    "\<not> hasPermission (Some [''vm.stop'']) ''vm.create''" by code_simp+
  then show ?thesis
    using explicit_share_ceiling [of "[''vm.stop'']" CreateLevel] by simp
qed

text \<open>
  When a changing call (\<open>POST\<close>, \<open>PUT\<close>, \<open>DELETE\<close>) is admitted by a view permission alone,
  its path is one of a short list: disks or ZFS, the task list, a node's reboot or shutdown
  address under a verb other than \<open>POST\<close>, or a snapshot under \<open>PUT\<close>.  Everything else that
  changes a host needs more than the view level.
\<close>

theorem changing_calls_needing_only_view:
  assumes "to_upper meth = ''POST'' \<or> to_upper meth = ''PUT'' \<or> to_upper meth = ''DELETE''"
    and "federationPermission meth path extra = One p" and "p \<in> set SHARE_VIEW"
  shows "let lower = to_lower (path_only path); m = to_upper meth in
     str_includes lower ''/disks/'' \<or> str_includes lower ''/zfs''
     \<or> (str_includes lower ''/tasks'' \<and> m \<noteq> ''DELETE'')
     \<or> (m \<noteq> ''POST'' \<and> (node_route lower ''/status/reboot'' \<or> node_route lower ''/status/shutdown''))
     \<or> (m = ''PUT'' \<and> (str_includes lower ''/snapshot/'' \<or> ends_with lower ''/snapshot''))"
proof -
  define m where "m = to_upper meth"
  define lower where "lower = to_lower (path_only path)"
  have m: "m = ''POST'' \<or> m = ''PUT'' \<or> m = ''DELETE''" using assms(1) by (simp add: m_def)
  have "(case fed_node m lower extra of Some n \<Rightarrow> n | None \<Rightarrow>
      (case fed_guest m lower of Some n \<Rightarrow> n | None \<Rightarrow>
        (case fed_backup m lower of Some n \<Rightarrow> n | None \<Rightarrow> fed_rest m lower))) = One p"
    using assms(2) unfolding federationPermission_def Let_def m_def lower_def .
  then have "fed_node m lower extra = Some (One p) \<or> fed_guest m lower = Some (One p)
      \<or> fed_backup m lower = Some (One p) \<or> fed_rest m lower = One p"
    by (auto split: option.splits)
  then show ?thesis
    unfolding Let_def m_def [symmetric] lower_def [symmetric]
    using fed_node_view [OF m _ assms(3)] fed_guest_view [OF m _ assms(3)]
      fed_backup_view [OF m _ assms(3)] fed_rest_view [OF m _ assms(3)] by blast
qed

theorem changing_calls_needing_only_view_witness:
  "federationPermission ''delete'' ''/nodes/pve/disks/zfs/tank'' None = One ''zfs.view''
   \<and> str_includes ''/nodes/pve/disks/zfs/tank'' ''/disks/''"
proof -
  have e: "federationPermission ''delete'' ''/nodes/pve/disks/zfs/tank'' None = One ''zfs.view''" by code_simp
  have m: "to_upper ''delete'' = ''DELETE''" by code_simp
  have v: "''zfs.view'' \<in> set SHARE_VIEW" by code_simp
  have s: "str_includes ''/nodes/pve/disks/zfs/tank'' ''/disks/''" by code_simp
  from changing_calls_needing_only_view [OF _ e v] m e s show ?thesis by simp
qed

text \<open>
  The ZFS branch ignores the method: creating a pool (\<open>POST .../disks/zfs\<close>) or destroying
  one (\<open>DELETE\<close>) asks for \<open>zfs.view\<close> only, which the lowest share level grants; and since the
  test is a substring test, so does any address that carries \<open>/zfs\<close> behind a \<open>#\<close>.
\<close>

theorem zfs_branch_ignores_method:
  "federationPermission meth ''/nodes/pve/disks/zfs/tank'' extra = One ''zfs.view''
   \<and> federationPermission meth ''/access/users#/zfs'' extra = One ''zfs.view''
   \<and> shareHasPermission ViewLevel None [''zfs.view'']"
proof -
  have a: "federationPermission meth ''/nodes/pve/disks/zfs/tank'' extra = One ''zfs.view''"
    by (rule zfs_path [where l = "''/nodes/pve/disks/zfs/tank''"]) code_simp+
  have b: "federationPermission meth ''/access/users#/zfs'' extra = One ''zfs.view''"
    by (rule zfs_path [where l = "''/access/users#/zfs''"]) code_simp+
  have "''zfs.view'' \<in> set SHARE_VIEW" by code_simp
  with a b show ?thesis
    by (simp add: shareHasPermission_iff set_effectiveSharePermissions set_permissionsForShareLevel)
qed

end
