(* ===== verification/UriCodec.thy ===== *)
theory UriCodec imports JsNumber begin

text \<open>
  \<open>encodeURIComponent\<close> and \<open>decodeURIComponent\<close> of the language on Latin-1 text: a code unit
  from U+0080 to U+00FF is two UTF-8 bytes.  \<open>None\<close> stands for the \<open>URIError\<close> of a malformed
  escape; an escape of a character above U+00FF is outside the model and also \<open>None\<close>.
\<close>

definition uri_unreserved :: "char \<Rightarrow> bool" where
  "uri_unreserved c \<longleftrightarrow> in_range 65 90 c \<or> in_range 97 122 c \<or> is_digit c \<or> c \<in> set ''-_.!~*'' \<or> c = CHR 0x27
     \<or> c = CHR ''('' \<or> c = CHR '')''"

definition hex_digit :: "nat \<Rightarrow> char" where
  "hex_digit n = (if n < 10 then char_of (48 + n) else char_of (55 + n))"

definition pct_byte :: "nat \<Rightarrow> string" where
  "pct_byte n = [CHR 0x25, hex_digit (n div 16), hex_digit (n mod 16)]"

definition encode_char :: "char \<Rightarrow> string" where
  "encode_char c =
     (if uri_unreserved c then [c]
      else if of_char c < (128::nat) then pct_byte (of_char c)
      else pct_byte (192 + of_char c div 64) @ pct_byte (128 + of_char c mod 64))"

definition encodeURIComponent :: "string \<Rightarrow> string" where
  "encodeURIComponent s = concat (map encode_char s)"

definition hex_pair :: "char \<Rightarrow> char \<Rightarrow> nat option" where
  "hex_pair a b =
     (case hex_val a of None \<Rightarrow> None
      | Some h \<Rightarrow> (case hex_val b of None \<Rightarrow> None | Some l \<Rightarrow> Some (16 * h + l)))"

fun decodeURIComponent :: "string \<Rightarrow> string option" where
  "decodeURIComponent [] = Some []"
| "decodeURIComponent (c # s) =
     (if c \<noteq> CHR 0x25 then map_option (Cons c) (decodeURIComponent s)
      else (case s of
        a # b # t \<Rightarrow>
          (case hex_pair a b of None \<Rightarrow> None
           | Some n \<Rightarrow>
              if n < 128 then map_option (Cons (char_of n)) (decodeURIComponent t)
              else if n = 194 \<or> n = 195 then
                (case t of
                   p # x # y # u \<Rightarrow>
                     (case hex_pair x y of None \<Rightarrow> None
                      | Some m \<Rightarrow>
                         if p = CHR 0x25 \<and> 128 \<le> m \<and> m < 192
                         then map_option (Cons (char_of ((n - 192) * 64 + (m - 128)))) (decodeURIComponent u)
                         else None)
                 | _ \<Rightarrow> None)
              else None)
      | _ \<Rightarrow> None))"

section \<open>Lemmas\<close>

lemma hex_val_hex_digit: "n < 16 \<Longrightarrow> hex_val (hex_digit n) = Some n"
  by (auto simp: hex_val_def hex_digit_def is_digit_def in_range_def)

lemma hex_pair_pct: "n < 256 \<Longrightarrow> hex_pair (hex_digit (n div 16)) (hex_digit (n mod 16)) = Some n"
  by (simp add: hex_pair_def hex_val_hex_digit)

lemma hex_digit_unreserved: "n < 16 \<Longrightarrow> uri_unreserved (hex_digit n)"
  by (auto simp: uri_unreserved_def hex_digit_def is_digit_def in_range_def)

lemma set_pct_byte: "n < 256 \<Longrightarrow> c \<in> set (pct_byte n) \<Longrightarrow> c = CHR 0x25 \<or> uri_unreserved c"
proof -
  assume "n < 256" and c: "c \<in> set (pct_byte n)"
  then have "n div 16 < 16" by arith
  then show ?thesis
    using c hex_digit_unreserved [of "n div 16"] hex_digit_unreserved [of "n mod 16"]
    by (auto simp: pct_byte_def)
qed

lemma set_encode_char: "c \<in> set (encode_char d) \<Longrightarrow> c = CHR 0x25 \<or> uri_unreserved c"
proof -
  have "(of_char d :: nat) < 256" by simp
  then have "192 + of_char d div 64 < (256::nat)" "128 + of_char d mod 64 < (256::nat)" by arith+
  then show "c \<in> set (encode_char d) \<Longrightarrow> ?thesis"
    using set_pct_byte [of "192 + of_char d div 64" c] set_pct_byte [of "128 + of_char d mod 64" c]
      set_pct_byte [of "of_char d" c]
    by (auto simp: encode_char_def split: if_splits)
qed

lemma decode_encode_char: "decodeURIComponent (encode_char c @ s) = map_option (Cons c) (decodeURIComponent s)"
proof -
  let ?n = "of_char c :: nat"
  have lt: "?n < 256" by simp
  show ?thesis
  proof (cases "uri_unreserved c")
    case True
    then have "c \<noteq> CHR 0x25" by (auto simp: uri_unreserved_def is_digit_def in_range_def)
    with True show ?thesis by (simp add: encode_char_def)
  next
    case False
    show ?thesis
    proof (cases "?n < 128")
      case True
      with False show ?thesis by (simp add: encode_char_def pct_byte_def hex_pair_pct)
    next
      case ge: False
      have h: "192 + ?n div 64 = 194 \<or> 192 + ?n div 64 = 195" using ge lt by arith
      have "192 + ?n div 64 < 256" and "128 + ?n mod 64 < 256" using h by auto
      note hp = hex_pair_pct [OF this(1)] hex_pair_pct [OF this(2)]
      have v: "(192 + ?n div 64 - 192) * 64 + (128 + ?n mod 64 - 128) = ?n" by simp
      have "\<not> 192 + ?n div 64 < 128" by simp
      with False ge h hp v show ?thesis
        by (simp add: encode_char_def pct_byte_def del: hex_pair_def)
    qed
  qed
qed

lemma decode_encode: "decodeURIComponent (encodeURIComponent s) = Some s"
  by (induction s) (simp_all add: encodeURIComponent_def decode_encode_char)

lemma encode_inject: "encodeURIComponent s = encodeURIComponent t \<longleftrightarrow> s = t"
  by (metis decode_encode option.inject)

lemma encode_no_special:
  assumes "\<not> uri_unreserved d" "d \<noteq> CHR 0x25"
  shows "d \<notin> set (encodeURIComponent s)"
  using assms set_encode_char by (auto simp: encodeURIComponent_def)

end
