(* ===== verification/HttpGuard.thy ===== *)
theory HttpGuard imports GuestScope UriCodec JsNumber begin

text \<open>
  Errors and the gate every API route passes: \<^verbatim>\<open>lib/errors.ts\<close>, \<^verbatim>\<open>server/http/respond.ts\<close>
  and \<^verbatim>\<open>server/http/api-route.ts\<close>.  The URL parser of the platform is the parameter
  \<open>new_url\<close> (\<open>None\<close> is its \<open>TypeError\<close>); requests carry their headers with lower-case names.
\<close>

section \<open>Errors\<close>

text \<open>\<open>AppError\<close> with status, message and code; a \<open>ZodError\<close> with its issue messages; the error
  of the rate limiter, which only carries status 429; anything else that is thrown.\<close>

datatype js_error =
    AppError nat string string
  | ZodError "string list"
  | StatusError nat
  | OtherError string

definition UnauthorizedError :: "string \<Rightarrow> js_error" where
  "UnauthorizedError message = AppError 401 message ''UNAUTHORIZED''"

definition ForbiddenError :: "string \<Rightarrow> js_error" where
  "ForbiddenError message = AppError 403 message ''FORBIDDEN''"

definition NotFoundError :: "string \<Rightarrow> js_error" where
  "NotFoundError message = AppError 404 message ''NOT_FOUND''"

definition ValidationError :: "string \<Rightarrow> js_error" where
  "ValidationError message = AppError 400 message ''VALIDATION_ERROR''"

definition ConflictError :: "string \<Rightarrow> js_error" where
  "ConflictError message = AppError 409 message ''CONFLICT''"

definition ProxmoxApiError :: "string \<Rightarrow> nat \<Rightarrow> js_error" where
  "ProxmoxApiError message status = AppError status message ''PROXMOX_API_ERROR''"

definition HostUnreachableError :: "string \<Rightarrow> string \<Rightarrow> js_error" where
  "HostUnreachableError hostName reason =
     (let detail = (if trim reason \<noteq> [] then '': '' @ take 240 (trim reason) else [])
      in AppError 503 (''Unable to connect to '' @ hostName @ detail) ''HOST_UNREACHABLE'')"

text \<open>The class test \<open>instanceof HostUnreachableError\<close> reads the code, which no other class uses.\<close>

definition isHostTransportFailure :: "js_error \<Rightarrow> bool" where
  "isHostTransportFailure err =
     (case err of
        AppError status message code \<Rightarrow>
          (if code = ''HOST_UNREACHABLE'' then True
           else if code = ''PROXMOX_API_ERROR'' then status = 503
           else False)
      | _ \<Rightarrow> True)"

record response =
  resStatus :: nat
  resCode :: string
  resBody :: string

definition handleRouteError :: "js_error \<Rightarrow> response" where
  "handleRouteError err =
     (case err of
        ZodError issues \<Rightarrow>
          (let m = join [CHR '' '', CHR 0xB7, CHR '' ''] issues in
           \<lparr>resStatus = 400, resCode = ''VALIDATION_ERROR'', resBody = (if m = [] then ''Validation failed'' else m)\<rparr>)
      | AppError status message code \<Rightarrow> \<lparr>resStatus = status, resCode = code, resBody = message\<rparr>
      | StatusError status \<Rightarrow>
          (if status = 429 then \<lparr>resStatus = 429, resCode = ''RATE_LIMITED'', resBody = ''Too many requests''\<rparr>
           else \<lparr>resStatus = 500, resCode = ''INTERNAL_ERROR'', resBody = ''Internal server error''\<rparr>)
      | OtherError m \<Rightarrow> \<lparr>resStatus = 500, resCode = ''INTERNAL_ERROR'', resBody = ''Internal server error''\<rparr>)"

section \<open>Origin check\<close>

record url =
  urlOrigin :: string
  urlHost :: string

record http_request =
  rqMethod :: string
  rqHeaders :: "(string \<times> string) list"
  rqPathname :: string

record app_env =
  APP_URL :: "string option"
  APP_ALLOWED_ORIGINS :: "string option"

definition header :: "http_request \<Rightarrow> string \<Rightarrow> string option" where
  "header request name = map_of (rqHeaders request) name"

definition headerHost :: "http_request \<Rightarrow> string option" where
  "headerHost request =
     (let forwarded = map_option (\<lambda>h. trim (hd (split_on CHR '','' h))) (header request ''x-forwarded-host'');
          host = (if truthy forwarded then forwarded else header request ''host'')
      in if truthy host then map_option to_lower host else None)"

definition originHost :: "(string \<Rightarrow> url option) \<Rightarrow> string \<Rightarrow> string option" where
  "originHost new_url origin = map_option (\<lambda>u. to_lower (urlHost u)) (new_url origin)"

definition originMatchesEntry :: "(string \<Rightarrow> url option) \<Rightarrow> string \<Rightarrow> string \<Rightarrow> bool" where
  "originMatchesEntry new_url origin entry =
     (let trimmed = trim entry in
      if trimmed = [] then False
      else (case (if str_includes trimmed ''://'' then new_url trimmed else new_url (''http://'' @ trimmed)) of
              None \<Rightarrow> False
            | Some parsed \<Rightarrow>
                (case new_url origin of None \<Rightarrow> False
                 | Some o' \<Rightarrow> urlOrigin o' = urlOrigin parsed \<or> urlHost o' = urlHost parsed)))"

definition isAllowedOrigin :: "(string \<Rightarrow> url option) \<Rightarrow> app_env \<Rightarrow> http_request \<Rightarrow> string \<Rightarrow> bool" where
  "isAllowedOrigin new_url env request origin =
     (let requestHost = headerHost request; fromOrigin = originHost new_url origin in
      if truthy requestHost \<and> truthy fromOrigin \<and> requestHost = fromOrigin then True
      else list_ex (originMatchesEntry new_url origin)
             ((case APP_URL env of None \<Rightarrow> [] | Some u \<Rightarrow> u)
              # split_on CHR '','' (case APP_ALLOWED_ORIGINS env of None \<Rightarrow> [] | Some s \<Rightarrow> s)))"

definition originFromReferer :: "(string \<Rightarrow> url option) \<Rightarrow> string \<Rightarrow> string option" where
  "originFromReferer new_url referer = map_option urlOrigin (new_url referer)"

definition csrfDenied :: js_error where
  "csrfDenied = AppError 403 ''Invalid origin'' ''CSRF''"

definition assertSameOrigin :: "(string \<Rightarrow> url option) \<Rightarrow> app_env \<Rightarrow> http_request \<Rightarrow> js_error + unit" where
  "assertSameOrigin new_url env request =
     (if rqMethod request = ''GET'' \<or> rqMethod request = ''HEAD'' \<or> rqMethod request = ''OPTIONS'' then Inr ()
      else let origin = header request ''origin'' in
        if truthy origin
        then (if isAllowedOrigin new_url env request (the origin) then Inr () else Inl csrfDenied)
        else let fetchSite = map_option to_lower (header request ''sec-fetch-site'') in
          if fetchSite = Some ''cross-site'' then Inl csrfDenied
          else if fetchSite = Some ''same-origin'' \<or> fetchSite = Some ''same-site'' \<or> fetchSite = Some ''none'' then Inr ()
          else let referer = header request ''referer'' in
            if truthy referer
            then (case originFromReferer new_url (the referer) of
                    None \<Rightarrow> Inl csrfDenied
                  | Some r \<Rightarrow> if r = [] \<or> \<not> isAllowedOrigin new_url env request r then Inl csrfDenied else Inr ())
            else Inr ())"

section \<open>The host and guest a path names\<close>

text \<open>Path segments after \<open>/api/hosts/\<close>; \<open>[^/]+\<close> is the longest run without a slash.\<close>

definition after_hosts :: "string \<Rightarrow> string option" where
  "after_hosts pathname =
     (if starts_with pathname ''/api/hosts/'' then Some (drop 11 pathname) else None)"

definition param :: "(string \<times> string) list \<Rightarrow> string \<Rightarrow> string option" where
  "param params name = map_of params name"

text \<open>\<open>params.id ?? decodeURIComponent(raw)\<close>; a malformed escape throws.\<close>

definition id_or_decoded :: "(string \<times> string) list \<Rightarrow> string \<Rightarrow> js_error + string" where
  "id_or_decoded params raw =
     (case param params ''id'' of Some i \<Rightarrow> Inr i
      | None \<Rightarrow> (case decodeURIComponent raw of None \<Rightarrow> Inl (OtherError ''URI malformed'') | Some s \<Rightarrow> Inr s))"

definition hostIdFromApiPath :: "string \<Rightarrow> (string \<times> string) list \<Rightarrow> js_error + string option" where
  "hostIdFromApiPath pathname params =
     (case after_hosts pathname of None \<Rightarrow> Inr None
      | Some rest \<Rightarrow>
          (let raw = hd (split_on CHR ''/'' rest) in
           if raw = [] \<or> raw = ''test'' then Inr None
           else map_sum id Some (id_or_decoded params raw)))"

definition guestRefFromApiPath :: "string \<Rightarrow> (string \<times> string) list \<Rightarrow> js_error + guest_ref option" where
  "guestRefFromApiPath pathname params =
     (case map_option (split_on CHR ''/'') (after_hosts pathname) of
        Some (host # kind # node # vm # _) \<Rightarrow>
          (if host \<noteq> [] \<and> (kind = ''vms'' \<or> kind = ''lxc'') \<and> node \<noteq> [] \<and> vm \<noteq> []
           then (case id_or_decoded params host of Inl e \<Rightarrow> Inl e
             | Inr hostId \<Rightarrow>
               (let vmid = toNumber (case param params ''vmid'' of Some v \<Rightarrow> v | None \<Rightarrow> vm) in
                if hostId = [] \<or> \<not> isIntegerNum vmid \<or> num_less vmid 1 then Inr None
                else Inr (Some \<lparr>refHostId = hostId, refKind = (if kind = ''lxc'' then LXC else VM),
                                refVmid = num_int vmid\<rparr>)))
           else Inr None)
      | _ \<Rightarrow> Inr None)"

section \<open>The route wrapper\<close>

text \<open>
  \<open>apiRoute\<close> over an arbitrary server state \<open>'st\<close>: \<open>session_of\<close> is \<open>requireSession\<close>'s lookup
  (it may drop an expired session from the state), \<open>holder_of\<close> reads the permissions of the
  session's user, and the handler runs last.  A thrown error becomes its response.
\<close>

definition apiRoute ::
  "(string \<Rightarrow> url option) \<Rightarrow> app_env \<Rightarrow> ('st \<Rightarrow> 'sess option \<times> 'st) \<Rightarrow> ('sess \<Rightarrow> permission_holder) \<Rightarrow>
   string list option \<Rightarrow> (http_request \<Rightarrow> 'sess \<Rightarrow> (string \<times> string) list \<Rightarrow> 'st \<Rightarrow> (js_error + response) \<times> 'st) \<Rightarrow>
   http_request \<Rightarrow> (string \<times> string) list \<Rightarrow> 'st \<Rightarrow> response \<times> 'st" where
  "apiRoute new_url env session_of holder_of permission handler request params st =
     (case assertSameOrigin new_url env request of
        Inl e \<Rightarrow> (handleRouteError e, st)
      | Inr _ \<Rightarrow>
          (case session_of st of
             (None, st1) \<Rightarrow> (handleRouteError (UnauthorizedError ''Authentication required''), st1)
           | (Some session, st1) \<Rightarrow>
               (let gate =
                  (case permission of None \<Rightarrow> Inr ()
                   | Some needed \<Rightarrow>
                     (case hostIdFromApiPath (rqPathname request) params of Inl e \<Rightarrow> Inl e
                      | Inr hostId \<Rightarrow>
                        (case guestRefFromApiPath (rqPathname request) params of Inl e \<Rightarrow> Inl e
                         | Inr guest \<Rightarrow>
                           if userHasAnyPermission (Some (holder_of session)) needed hostId guest then Inr ()
                           else Inl (ForbiddenError ''You do not have permission to perform this action''))))
                in case gate of Inl e \<Rightarrow> (handleRouteError e, st1)
                   | Inr _ \<Rightarrow>
                     (case handler request session params st1 of
                        (Inl e, st2) \<Rightarrow> (handleRouteError e, st2)
                      | (Inr r, st2) \<Rightarrow> (r, st2)))))"

section \<open>Lemmas\<close>

lemma assertSameOrigin_origin [guard_dests]:
  assumes "assertSameOrigin new_url env request = Inr ()" "header request ''origin'' = Some origin" "origin \<noteq> []"
    and "rqMethod request \<notin> {''GET'', ''HEAD'', ''OPTIONS''}"
  shows "isAllowedOrigin new_url env request origin"
  using assms by (auto simp: assertSameOrigin_def truthy_def Let_def split: if_splits)

lemma csrf_error: "assertSameOrigin new_url env request = Inl e \<Longrightarrow> e = csrfDenied"
  by (auto simp: assertSameOrigin_def Let_def split: if_splits option.splits)

lemma id_error: "id_or_decoded params raw = Inl e \<Longrightarrow> e = OtherError ''URI malformed''"
  by (auto simp: id_or_decoded_def split: option.splits)

lemma hostId_error: "hostIdFromApiPath pathname params = Inl e \<Longrightarrow> e = OtherError ''URI malformed''"
  by (cases "after_hosts pathname")
    (auto simp: hostIdFromApiPath_def Let_def map_sum_def dest: id_error split: if_splits sum.splits)

lemma guestRef_error: "guestRefFromApiPath pathname params = Inl e \<Longrightarrow> e = OtherError ''URI malformed''"
  by (auto simp: guestRefFromApiPath_def Let_def dest: id_error
      split: if_splits sum.splits option.splits list.splits)

lemma userHasAnyPermission_sub:
  "userHasAnyPermission holder ps h g \<longleftrightarrow> (\<exists>p \<in> set ps. userHasPermission holder p h g)"
  by (simp add: userHasAnyPermission_def list_ex_iff)

section \<open>Properties\<close>


definition demo_url :: "string \<Rightarrow> url option" where
  "demo_url s = (if starts_with s ''http://'' then Some \<lparr>urlOrigin = s, urlHost = drop 7 s\<rparr> else None)"

definition demo_request :: http_request where
  "demo_request = \<lparr>rqMethod = ''POST'', rqHeaders = [(''host'', ''pm.lan''), (''origin'', ''http://pm.lan'')],
     rqPathname = ''/api/hosts/h1/vms/pve/105''\<rparr>"

definition demo_env :: app_env where
  "demo_env = \<lparr>APP_URL = None, APP_ALLOWED_ORIGINS = None\<rparr>"



end
