(* ===== verification/Totp.thy ===== *)
theory Totp imports Prelude "HOL-Library.Word" HttpGuard begin

text \<open>
  Two-factor codes: \<^verbatim>\<open>lib/totp.ts\<close> (base32, HOTP, TOTP) and \<^verbatim>\<open>lib/recovery-codes.ts\<close>.
  The bit buffers of the base32 loops are 32-bit words, as the shift operators of the language
  make them, so the bits that fall off the top are modelled.  HMAC-SHA1 and SHA-256 are
  parameters.
\<close>

unbundle bit_operations_syntax

section \<open>Base32\<close>

definition BASE32 :: string where
  "BASE32 = ''ABCDEFGHIJKLMNOPQRSTUVWXYZ234567''"

definition STEP_SECONDS :: nat where
  "STEP_SECONDS = 30"

definition DIGITS :: nat where
  "DIGITS = 6"

definition b32_char :: "32 word \<Rightarrow> char" where
  "b32_char i = BASE32 ! unat i"

text \<open>The inner \<open>while (bits >= 5)\<close>: the characters it appends and the bits that stay.\<close>

function drain5 :: "nat \<Rightarrow> 32 word \<Rightarrow> string \<times> nat" where
  "drain5 bits value =
     (if 5 \<le> bits
      then (case drain5 (bits - 5) value of
              (s, rest) \<Rightarrow> (b32_char (drop_bit (bits - 5) value AND 31) # s, rest))
      else ([], bits))"
  by pat_completeness auto
termination
  by (relation "measure fst") auto

declare drain5.simps [simp del]

fun encode_loop :: "nat \<Rightarrow> 32 word \<Rightarrow> 8 word list \<Rightarrow> string" where
  "encode_loop bits value [] = (if 0 < bits then [b32_char (push_bit (5 - bits) value AND 31)] else [])"
| "encode_loop bits value (byte # bytes) =
     (let value' = push_bit 8 value OR ucast byte in
      case drain5 (bits + 8) value' of (s, bits') \<Rightarrow> s @ encode_loop bits' value' bytes)"

definition encodeBase32 :: "8 word list \<Rightarrow> string" where
  "encodeBase32 bytes = encode_loop 0 0 bytes"

text \<open>\<open>toUpperCase\<close> on Latin-1: sharp s becomes two letters; the two letters whose upper case lies
  above U+00FF stay as they are, which no alphabet here contains either way.\<close>

definition upper_char :: "char \<Rightarrow> string" where
  "upper_char c =
     (if in_range 97 122 c \<or> (in_range 224 254 c \<and> of_char c \<noteq> (247::nat)) then [char_of (of_char c - (32::nat))]
      else if of_char c = (223::nat) then ''SS'' else [c])"

definition upper_case :: "string \<Rightarrow> string" where
  "upper_case s = concat (map upper_char s)"

fun index_of_char :: "string \<Rightarrow> char \<Rightarrow> nat option" where
  "index_of_char [] d = None"
| "index_of_char (c # s) d = (if c = d then Some 0 else map_option Suc (index_of_char s d))"

fun decode_loop :: "nat \<Rightarrow> 32 word \<Rightarrow> string \<Rightarrow> 8 word list option" where
  "decode_loop bits value [] = Some []"
| "decode_loop bits value (ch # cs) =
     (case index_of_char BASE32 ch of None \<Rightarrow> None
      | Some idx \<Rightarrow>
          (let value' = push_bit 5 value OR word_of_nat idx; bits' = bits + 5 in
           if 8 \<le> bits'
           then map_option (Cons (ucast (drop_bit (bits' - 8) value' AND 255))) (decode_loop (bits' - 8) value' cs)
           else decode_loop bits' value' cs))"

definition decodeBase32 :: "string \<Rightarrow> 8 word list option" where
  "decodeBase32 input =
     decode_loop 0 0
       (filter (\<lambda>c. \<not> is_ws c \<and> c \<noteq> CHR ''-'') (strip_trailing CHR ''='' (upper_case input)))"

section \<open>One-time codes\<close>

definition byte_at :: "8 word list \<Rightarrow> nat \<Rightarrow> 32 word" where
  "byte_at bs i = (if i < length bs then ucast (bs ! i) else 0)"

definition counter_bytes :: "nat \<Rightarrow> 8 word list" where
  "counter_bytes counter = map (\<lambda>i. word_of_nat (counter div 256 ^ (7 - i))) [0..<8]"

definition hotp :: "(8 word list \<Rightarrow> 8 word list \<Rightarrow> 8 word list) \<Rightarrow> 8 word list \<Rightarrow> nat \<Rightarrow> nat \<Rightarrow> string" where
  "hotp hmac_sha1 key counter digits =
     (let hmac = hmac_sha1 key (counter_bytes counter);
          offset = unat (byte_at hmac (length hmac - 1) AND 15);
          bin = push_bit 24 (byte_at hmac offset AND 127) OR push_bit 16 (byte_at hmac (offset + 1) AND 255)
                OR push_bit 8 (byte_at hmac (offset + 2) AND 255) OR (byte_at hmac (offset + 3) AND 255)
      in pad_start digits CHR ''0'' (nat_str (unat bin mod 10 ^ digits)))"

text \<open>\<open>Math.floor(timeMs / 1000 / step)\<close>; a time before 1970 makes \<open>BigInt\<close> writing throw.\<close>

definition totp_counter :: "int \<Rightarrow> int" where
  "totp_counter timeMs = timeMs div (1000 * int STEP_SECONDS)"

definition totpCode ::
  "(8 word list \<Rightarrow> 8 word list \<Rightarrow> 8 word list) \<Rightarrow> string \<Rightarrow> int \<Rightarrow> js_error + string" where
  "totpCode hmac_sha1 secret timeMs =
     (case decodeBase32 secret of None \<Rightarrow> Inl (OtherError ''Invalid base32 secret'')
      | Some key \<Rightarrow>
          if totp_counter timeMs < 0 then Inl (OtherError ''RangeError'')
          else Inr (hotp hmac_sha1 key (nat (totp_counter timeMs)) DIGITS))"

fun try_offsets ::
  "(8 word list \<Rightarrow> 8 word list \<Rightarrow> 8 word list) \<Rightarrow> string \<Rightarrow> string \<Rightarrow> int \<Rightarrow> int list \<Rightarrow> js_error + bool" where
  "try_offsets hmac secret expected timeMs [] = Inr False"
| "try_offsets hmac secret expected timeMs (i # is) =
     (case totpCode hmac secret (timeMs + i * int STEP_SECONDS * 1000) of Inl e \<Rightarrow> Inl e
      | Inr candidate \<Rightarrow> if candidate = expected then Inr True else try_offsets hmac secret expected timeMs is)"

definition verifyTotp ::
  "(8 word list \<Rightarrow> 8 word list \<Rightarrow> 8 word list) \<Rightarrow> string \<Rightarrow> string \<Rightarrow> int \<Rightarrow> int \<Rightarrow> js_error + bool" where
  "verifyTotp hmac secret code window timeMs =
     (let trimmed = filter (\<lambda>c. \<not> is_ws c) code in
      if \<not> (length trimmed = 6 \<and> list_all is_digit trimmed) then Inr False
      else try_offsets hmac secret trimmed timeMs [- window..window])"

section \<open>Recovery codes\<close>

definition RECOVERY_ALPHABET :: string where
  "RECOVERY_ALPHABET = ''ABCDEFGHJKLMNPQRSTUVWXYZ23456789''"

definition CODE_LEN :: nat where
  "CODE_LEN = 8"

text \<open>One round of \<open>generateRecoveryCodes\<close>: eight random bytes to the text of a code.\<close>

definition recovery_code_of_bytes :: "8 word list \<Rightarrow> string" where
  "recovery_code_of_bytes bytes =
     (let raw = map (\<lambda>b. RECOVERY_ALPHABET ! (unat b mod length RECOVERY_ALPHABET)) (take CODE_LEN bytes)
      in take 4 raw @ ''-'' @ drop 4 raw)"

text \<open>The loop draws until the set holds \<open>count\<close> codes; the stream of draws is the argument and
  \<open>None\<close> means it was used up before.\<close>

fun generateRecoveryCodes :: "nat \<Rightarrow> string list \<Rightarrow> 8 word list list \<Rightarrow> string list option" where
  "generateRecoveryCodes count codes draws =
     (if count \<le> length codes then Some codes
      else (case draws of [] \<Rightarrow> None
        | d # ds \<Rightarrow>
            (let c = recovery_code_of_bytes d in
             generateRecoveryCodes count (if c \<in> set codes then codes else codes @ [c]) ds)))"

declare generateRecoveryCodes.simps [simp del]

definition is_upper_alnum :: "char \<Rightarrow> bool" where
  "is_upper_alnum c \<longleftrightarrow> in_range 65 90 c \<or> is_digit c"

definition normalizeRecoveryCode :: "string \<Rightarrow> string" where
  "normalizeRecoveryCode value = filter is_upper_alnum (upper_case value)"

definition hashRecoveryCode :: "(string \<Rightarrow> string) \<Rightarrow> string \<Rightarrow> string" where
  "hashRecoveryCode sha256 code = sha256 (normalizeRecoveryCode code)"

definition hashRecoveryCodes :: "(string \<Rightarrow> string) \<Rightarrow> string list \<Rightarrow> string list" where
  "hashRecoveryCodes sha256 codes = map (hashRecoveryCode sha256) codes"

text \<open>The first index whose hash equals the wanted one is removed.\<close>

definition consumeRecoveryCode :: "(string \<Rightarrow> string) \<Rightarrow> string list \<Rightarrow> string \<Rightarrow> string list option" where
  "consumeRecoveryCode sha256 hashes code =
     (let want = hashRecoveryCode sha256 code in
      if want \<in> set hashes then Some (remove1 want hashes) else None)"

definition looksLikeRecoveryCode :: "string \<Rightarrow> bool" where
  "looksLikeRecoveryCode value =
     (let normalized = normalizeRecoveryCode value in
      length normalized = CODE_LEN \<and> normalized \<noteq> [] \<and> list_all is_upper_alnum normalized)"

section \<open>Lemmas: base32 over natural numbers\<close>

text \<open>The same loops with the pending bits as a number below \<open>2 ^ bits\<close>.\<close>

definition nchar :: "nat \<Rightarrow> char" where
  "nchar i = BASE32 ! i"

fun nenc :: "nat \<Rightarrow> nat \<Rightarrow> nat list \<Rightarrow> nat list" where
  "nenc bits r [] = (if 0 < bits then [r * 2 ^ (5 - bits)] else [])"
| "nenc bits r (b # bs) =
     (let x = r * 256 + b in
      if bits < 2 then x div 2 ^ (bits + 3) # nenc (bits + 3) (x mod 2 ^ (bits + 3)) bs
      else x div 2 ^ (bits + 3) # (x div 2 ^ (bits - 2)) mod 32 # nenc (bits - 2) (x mod 2 ^ (bits - 2)) bs)"

fun ndec :: "nat \<Rightarrow> nat \<Rightarrow> nat list \<Rightarrow> nat list" where
  "ndec bits r [] = []"
| "ndec bits r (c # cs) =
     (let x = r * 32 + c in
      if 3 \<le> bits then x div 2 ^ (bits - 3) # ndec (bits - 3) (x mod 2 ^ (bits - 3)) cs
      else ndec (bits + 5) x cs)"

lemma split_at:
  fixes k a l :: nat
  assumes "l < k"
  shows "(k * a + l) div k = a" "(k * a + l) mod k = l"
  using assms by simp_all

lemma ndec_nenc:
  assumes "\<forall>b \<in> set bs. b < 256" "bits < 5" "r < 2 ^ bits" "q < 2 ^ (8 - bits)"
  shows "(bits = 0 \<longrightarrow> ndec 0 0 (nenc 0 0 bs) = bs)
     \<and> (0 < bits \<longrightarrow> ndec (8 - bits) q (nenc bits r bs) = (q * 2 ^ bits + r) # bs)"
  using assms
proof (induction bs arbitrary: bits r q)
  case Nil
  then have "bits = 0 \<or> bits = 1 \<or> bits = 2 \<or> bits = 3 \<or> bits = 4" by arith
  with Nil show ?case by (elim disjE) simp_all
next
  case (Cons b bs)
  have IH: "bits' < 5 \<Longrightarrow> 0 < bits' \<Longrightarrow> r' < 2 ^ bits' \<Longrightarrow> q' < 2 ^ (8 - bits') \<Longrightarrow>
      ndec (8 - bits') q' (nenc bits' r' bs) = (q' * 2 ^ bits' + r') # bs" for bits' r' q'
    using Cons.IH Cons.prems(1) by simp
  have IH0: "ndec 0 0 (nenc 0 0 bs) = bs"
    using Cons.IH [of 0 0 0] Cons.prems(1) by simp
  have b: "b < 256" using Cons.prems(1) by simp
  consider "bits = 0" | "bits = 1" | "bits = 2" | "bits = 3" | "bits = 4" using Cons.prems(2) by arith
  then show ?case
  proof cases
    case 1
    have "b div 8 < 32" "b mod 8 < 8" using b by auto
    with IH [of 3 "b mod 8" "b div 8"] 1 show ?thesis by simp
  next
    case 2
    define h l where "h = b div 16" and "l = b mod 16"
    have hl: "b = 16 * h + l" "h < 16" "l < 16" using b by (auto simp: h_def l_def)
    have x: "r * 256 + b = 16 * (16 * r + h) + l" by (simp add: hl(1))
    have y: "q * 32 + (16 * r + h) = 16 * (2 * q + r) + h" by simp
    have e1: "(q * 32 + (16 * r + h)) div 16 = q * 2 + r" and e2: "(q * 32 + (16 * r + h)) mod 16 = h"
      unfolding y using split_at [OF hl(2), of "2 * q + r"] by simp_all
    have "nenc bits r (b # bs) = (16 * r + h) # nenc 4 l bs"
      unfolding nenc.simps Let_def x using 2 split_at [OF hl(3), of "16 * r + h"] by simp
    with e1 e2 IH [of 4 l h] hl 2 show ?thesis by (simp add: Let_def)
  next
    case 3
    define h l where "h = b div 32" and "l = b mod 32"
    have hl: "b = 32 * h + l" "h < 8" "l < 32" using b by (auto simp: h_def l_def)
    have x: "r * 256 + b = 32 * (8 * r + h) + l" by (simp add: hl(1))
    have y: "q * 32 + (8 * r + h) = 8 * (4 * q + r) + h" by simp
    have e1: "(q * 32 + (8 * r + h)) div 8 = q * 4 + r" and e2: "(q * 32 + (8 * r + h)) mod 8 = h"
      unfolding y using split_at [OF hl(2), of "4 * q + r"] by simp_all
    have "nenc bits r (b # bs) = (8 * r + h) # l # nenc 0 0 bs"
      unfolding nenc.simps Let_def x using 3 split_at [OF hl(3), of "8 * r + h"] by simp
    with e1 e2 IH0 hl 3 show ?thesis by (simp add: Let_def)
  next
    case 4
    define h m l where "h = b div 64" and "m = b div 2 mod 32" and "l = b mod 2"
    have m: "b div 2 = 32 * h + m" using div_mult2_eq [of b 2 32] by (simp add: h_def m_def)
    have l: "b = 2 * (b div 2) + l" by (simp add: l_def)
    have hl: "b = 2 * (32 * h + m) + l" "h < 4" "m < 32" "l < 2" using b m l by (auto simp: h_def m_def l_def)
    have x: "r * 256 + b = 2 * (32 * (4 * r + h) + m) + l" by (simp add: hl(1))
    have x': "r * 256 + b = 64 * (4 * r + h) + (2 * m + l)" by (simp add: hl(1))
    have ml: "2 * m + l < 64" using hl(3,4) by simp
    have y: "q * 32 + (4 * r + h) = 4 * (8 * q + r) + h" by simp
    have e1: "(q * 32 + (4 * r + h)) div 4 = q * 8 + r" and e2: "(q * 32 + (4 * r + h)) mod 4 = h"
      unfolding y using split_at [OF hl(2), of "8 * q + r"] by simp_all
    have d1: "(r * 256 + b) div 64 = 4 * r + h"
      unfolding x' by (rule split_at(1) [OF ml])
    have d2: "(r * 256 + b) div 2 mod 32 = m"
      unfolding x split_at(1) [OF hl(4)] by (rule split_at(2) [OF hl(3)])
    have d3: "(r * 256 + b) mod 2 = l"
      unfolding x by (rule split_at(2) [OF hl(4)])
    have "nenc bits r (b # bs) = (4 * r + h) # m # nenc 1 l bs"
      using 4 d1 d2 d3 by (simp add: Let_def)
    with e1 e2 IH [of 1 l "h * 32 + m"] hl 4 show ?thesis by (simp add: Let_def)
  next
    case 5
    define h m l where "h = b div 128" and "m = b div 4 mod 32" and "l = b mod 4"
    have m: "b div 4 = 32 * h + m" using div_mult2_eq [of b 4 32] by (simp add: h_def m_def)
    have l: "b = 4 * (b div 4) + l" by (simp add: l_def)
    have hl: "b = 4 * (32 * h + m) + l" "h < 2" "m < 32" "l < 4" using b m l by (auto simp: h_def m_def l_def)
    have x: "r * 256 + b = 4 * (32 * (2 * r + h) + m) + l" by (simp add: hl(1))
    have x': "r * 256 + b = 128 * (2 * r + h) + (4 * m + l)" by (simp add: hl(1))
    have ml: "4 * m + l < 128" using hl(3,4) by simp
    have y: "q * 32 + (2 * r + h) = 2 * (16 * q + r) + h" by simp
    have e1: "(q * 32 + (2 * r + h)) div 2 = q * 16 + r" and e2: "(q * 32 + (2 * r + h)) mod 2 = h"
      unfolding y using split_at [OF hl(2), of "16 * q + r"] by simp_all
    have d1: "(r * 256 + b) div 128 = 2 * r + h"
      unfolding x' by (rule split_at(1) [OF ml])
    have d2: "(r * 256 + b) div 4 mod 32 = m"
      unfolding x split_at(1) [OF hl(4)] by (rule split_at(2) [OF hl(3)])
    have d3: "(r * 256 + b) mod 4 = l"
      unfolding x by (rule split_at(2) [OF hl(4)])
    have "nenc bits r (b # bs) = (2 * r + h) # m # nenc 2 l bs"
      using 5 d1 d2 d3 by (simp add: Let_def)
    with e1 e2 IH [of 2 l "h * 32 + m"] hl 5 show ?thesis by (simp add: Let_def)
  qed
qed

section \<open>Lemmas: the word loops compute the same digits\<close>

definition low :: "nat \<Rightarrow> 32 word \<Rightarrow> nat" where
  "low n v = take_bit n (unat v)"

lemma low_less: "low n v < 2 ^ n"
  by (simp add: low_def)

lemma low_mod: "m \<le> n \<Longrightarrow> low m v = low n v mod 2 ^ m"
  by (simp add: low_def take_bit_eq_mod [symmetric] min_def)

lemma low_shift_in:
  assumes "n + k \<le> 32" "unat x < 2 ^ k"
  shows "low (n + k) (push_bit k v OR x) = low n v * 2 ^ k + unat x"
proof -
  have x: "take_bit k (unat x) = unat x"
    using assms(2) by (simp add: take_bit_nat_eq_self)
  have bx: "bit (unat x) i \<Longrightarrow> i < k" for i
    by (metis x bit_take_bit_iff)
  have bx': "bit x i \<Longrightarrow> i < k" for i
    using bx [of i] by (simp add: bit_simps bit_imp_le_length)
  have "low (n + k) (push_bit k v OR x) = push_bit k (take_bit n (unat v)) OR unat x"
    unfolding low_def using assms(1) bx
    by (auto simp: bit_eq_iff bit_simps unsigned_or_eq unsigned_push_bit_eq dest: bx')
  also have "\<dots> = push_bit k (take_bit n (unat v)) + unat x"
    by (rule disjunctive_add_eq_or [symmetric]) (auto simp: bit_eq_iff bit_simps dest!: bx')
  also have "\<dots> = low n v * 2 ^ k + unat x"
    by (simp add: low_def push_bit_eq_mult)
  finally show ?thesis .
qed

lemma unat_less: "unat (w :: 'a::len word) < 2 ^ LENGTH('a)"
  by (rule unsigned_less)

lemma mask_and_drop:
  assumes "d + m \<le> 32"
  shows "unat (drop_bit d (v :: 32 word) AND mask m) = low (d + m) v div 2 ^ d"
proof -
  have u: "take_bit 32 (unat v) = unat v"
    by (rule take_bit_nat_eq_self) (use unat_less [of v] in simp)
  have "unat (drop_bit d v AND mask m) = take_bit m (drop_bit d (unat v))"
    by (simp add: take_bit_eq_mask [symmetric] unsigned_take_bit_eq unsigned_drop_bit_eq u)
  also have "\<dots> = drop_bit d (take_bit (d + m) (unat v))"
    by (simp add: drop_bit_take_bit)
  finally show ?thesis by (simp add: low_def drop_bit_eq_div)
qed

lemma mask5: "(31 :: 32 word) = mask 5" and mask8: "(255 :: 32 word) = mask 8"
  by (simp_all add: mask_eq_exp_minus_1)

lemma b32_char_drop: "d + 5 \<le> 32 \<Longrightarrow> b32_char (drop_bit d v AND 31) = nchar (low (d + 5) v div 2 ^ d)"
  unfolding b32_char_def nchar_def mask5 by (simp add: mask_and_drop)

lemma encode_loop_nenc:
  assumes "bits < 5"
  shows "encode_loop bits val bs = map nchar (nenc bits (low bits val) (map unat bs))"
  using assms
proof (induction bs arbitrary: bits val)
  case Nil
  have "push_bit (5 - bits) val OR 0 = push_bit (5 - bits) val" by simp
  then have "low 5 (push_bit (5 - bits) val) = low bits val * 2 ^ (5 - bits)"
    using low_shift_in [of bits "5 - bits" "0 :: 32 word" val] Nil by simp
  with b32_char_drop [of 0 "push_bit (5 - bits) val"] show ?case by simp
next
  case (Cons b bs)
  define v where "v = push_bit 8 val OR (ucast b :: 32 word)"
  define x where "x = low bits val * 256 + unat b"
  have "unat (ucast b :: 32 word) = unat b"
    by (simp add: unsigned_ucast_eq take_bit_nat_eq_self less_trans [OF unat_less [of b]])
  moreover have "unat b < 256" using unat_less [of b] by simp
  ultimately have v: "low (bits + 8) v = x"
    using low_shift_in [of bits 8 "ucast b :: 32 word" val] Cons.prems by (simp add: v_def x_def)
  have lo: "low m v = x mod 2 ^ m" if "m \<le> bits + 8" for m
    using low_mod [OF that, of v] v by simp
  have c1: "b32_char (drop_bit (bits + 3) v AND 31) = nchar (x div 2 ^ (bits + 3))"
    using b32_char_drop [of "bits + 3" v] v Cons.prems by (simp add: add.commute)
  show ?case
  proof (cases "bits < 2")
    case True
    then have "drain5 (bits + 8) v = ([b32_char (drop_bit (bits + 3) v AND 31)], bits + 3)"
      by (simp add: drain5.simps [of "bits + 8"] drain5.simps [of "bits + 3"] add.commute)
    with True Cons.IH [of "bits + 3" v] c1 lo [of "bits + 3"] show ?thesis
      by (simp add: v_def [symmetric] x_def [symmetric] Let_def)
  next
    case False
    have c2: "b32_char (drop_bit (bits - 2) v AND 31) = nchar (x div 2 ^ (bits - 2) mod 32)"
    proof -
      have "low (bits + 3) v div 2 ^ (bits - 2) = x div 2 ^ (bits - 2) mod 32"
        using False lo [of "bits + 3"] div_exp_mod_exp_eq [of x "bits - 2" 5] by (simp add: add.commute)
      then show ?thesis using b32_char_drop [of "bits - 2" v] False Cons.prems by (simp add: add.commute)
    qed
    from False Cons.prems have "bits = 2 \<or> bits = 3 \<or> bits = 4" by arith
    then have "drain5 (bits + 8) v
        = ([b32_char (drop_bit (bits + 3) v AND 31), b32_char (drop_bit (bits - 2) v AND 31)], bits - 2)"
      by (elim disjE) (simp_all add: drain5.simps)
    with False Cons.prems Cons.IH [of "bits - 2" v] c1 c2 lo [of "bits - 2"] show ?thesis
      by (simp add: v_def [symmetric] x_def [symmetric] Let_def)
  qed
qed

lemma index_of_char_nth: "distinct s \<Longrightarrow> i < length s \<Longrightarrow> index_of_char s (s ! i) = Some i"
  by (induction s arbitrary: i) (auto simp: nth_Cons split: nat.splits)

lemma index_of_nchar: "i < 32 \<Longrightarrow> index_of_char BASE32 (nchar i) = Some i"
  unfolding nchar_def by (rule index_of_char_nth) (simp_all add: BASE32_def)

lemma decode_loop_ndec:
  assumes "bits < 8" "\<forall>c \<in> set cs. c < 32"
  shows "decode_loop bits val (map nchar cs) = Some (map word_of_nat (ndec bits (low bits val) cs))"
  using assms
proof (induction cs arbitrary: bits val)
  case Nil
  then show ?case by simp
next
  case (Cons c cs)
  define v where "v = push_bit 5 val OR (word_of_nat c :: 32 word)"
  define x where "x = low bits val * 32 + c"
  have c: "c < 32" using Cons.prems by simp
  then have "unat (word_of_nat c :: 32 word) = c"
    by (simp add: unsigned_of_nat take_bit_nat_eq_self)
  then have v: "low (bits + 5) v = x"
    using low_shift_in [of bits 5 "word_of_nat c :: 32 word" val] Cons.prems c by (simp add: v_def x_def)
  show ?case
  proof (cases "3 \<le> bits")
    case True
    have "unat (drop_bit (bits - 3) v AND 255) = x div 2 ^ (bits - 3)"
      using mask_and_drop [of "bits - 3" 8 v] True Cons.prems v by (simp add: mask8 add.commute)
    then have byte: "(ucast (drop_bit (bits - 3) v AND 255) :: 8 word) = word_of_nat (x div 2 ^ (bits - 3))"
      by (metis of_nat_unat)
    have "low (bits - 3) v = x mod 2 ^ (bits - 3)"
      using low_mod [of "bits - 3" "bits + 5" v] v by simp
    with True Cons c byte show ?thesis
      by (simp add: index_of_nchar v_def [symmetric] x_def [symmetric] Let_def)
  next
    case False
    with Cons c v show ?thesis
      by (simp add: index_of_nchar v_def [symmetric] x_def [symmetric] Let_def)
  qed
qed

section \<open>Properties\<close>

lemma nenc_less:
  "\<forall>b \<in> set bs. b < 256 \<Longrightarrow> bits < 5 \<Longrightarrow> r < 2 ^ bits \<Longrightarrow> \<forall>c \<in> set (nenc bits r bs). c < 32"
proof (induction bs arbitrary: bits r)
  case Nil
  then have "r * 2 ^ (5 - bits) < 2 ^ bits * 2 ^ (5 - bits)" by simp
  then show ?case using Nil by (simp add: power_add [symmetric])
next
  case (Cons b bs)
  have "r * 256 + b < 2 ^ bits * 256"
    using Cons.prems(1,3) by simp
  then have "(r * 256 + b) div 2 ^ (bits + 3) < 32"
    by (intro less_mult_imp_div_less) (simp add: power_add)
  moreover have sm: "\<forall>c \<in> set (nenc n (x mod 2 ^ n) bs). c < 32" if "n < 5" for n x
    using Cons.IH [of n "x mod 2 ^ n"] Cons.prems(1) that by simp
  moreover have "bits < 2 \<longrightarrow> (\<forall>c \<in> set (nenc (bits + 3) (x mod 2 ^ (bits + 3)) bs). c < 32)" for x
    by (intro impI sm) simp
  moreover have "\<forall>c \<in> set (nenc (bits - 2) (x mod 2 ^ (bits - 2)) bs). c < 32" for x
    by (rule sm) (use Cons.prems(2) in simp)
  ultimately show ?case by (simp add: Let_def)
qed

lemma strip_trailing_id: "d \<notin> set s \<Longrightarrow> strip_trailing d s = s"
  unfolding strip_trailing_def by (cases "rev s") (auto simp: rev_swap)

lemma b32_plain:
  "list_all (\<lambda>c. upper_char c = [c] \<and> \<not> is_ws c \<and> c \<noteq> CHR ''-'' \<and> c \<noteq> CHR ''='') BASE32"
  by (simp add: BASE32_def upper_char_def in_range_def is_ws_def)

lemma nchar_plain:
  "i < 32 \<Longrightarrow> upper_char (nchar i) = [nchar i] \<and> \<not> is_ws (nchar i) \<and> nchar i \<noteq> CHR ''-'' \<and> nchar i \<noteq> CHR ''=''"
proof -
  assume "i < 32"
  then have "nchar i \<in> set BASE32" unfolding nchar_def by (intro nth_mem) (simp add: BASE32_def)
  with b32_plain show ?thesis by (simp only: list_all_iff) blast
qed

lemma upper_case_b32: "\<forall>c \<in> set cs. c < 32 \<Longrightarrow> upper_case (map nchar cs) = map nchar cs"
  by (induction cs) (simp_all add: upper_case_def nchar_plain)

text \<open>
  A secret printed in base32 reads back as the same bytes: \<open>decodeBase32\<close> inverts \<open>encodeBase32\<close>
  on every byte string, although both push their pending bits through a 32-bit integer whose upper
  bits are lost, and the last character is padded with zero bits.
\<close>

theorem base32_round_trip: "decodeBase32 (encodeBase32 bs) = Some bs"
proof -
  let ?cs = "nenc 0 0 (map unat bs)"
  have bytes: "\<forall>b \<in> set (map unat bs). b < 256"
    using unat_less [where 'a = 8] by simp
  then have small: "\<forall>c \<in> set ?cs. c < 32"
    by (rule nenc_less) simp_all
  have "low 0 0 = 0" by (simp add: low_def)
  then have enc: "encodeBase32 bs = map nchar ?cs"
    by (simp add: encodeBase32_def encode_loop_nenc)
  have "strip_trailing CHR ''='' (map nchar ?cs) = map nchar ?cs"
    by (rule strip_trailing_id) (use small nchar_plain in force)
  moreover have "filter (\<lambda>c. \<not> is_ws c \<and> c \<noteq> CHR ''-'') (map nchar ?cs) = map nchar ?cs"
    using small nchar_plain by (auto simp: filter_id_conv)
  moreover have "ndec 0 0 ?cs = map unat bs"
    using ndec_nenc [OF bytes, of 0 0 0] by simp
  ultimately show ?thesis
    using small by (simp add: decodeBase32_def enc upper_case_b32 decode_loop_ndec \<open>low 0 0 = 0\<close> comp_def)
qed

text \<open>A code matches when it is the code of one of the tried steps.\<close>

lemma try_offsets_iff:
  "try_offsets hmac secret expected timeMs is = Inr True \<Longrightarrow>
     \<exists>i \<in> set is. totpCode hmac secret (timeMs + i * int STEP_SECONDS * 1000) = Inr expected"
  by (induction "is") (auto split: sum.splits if_splits)

lemma try_offsets_complete:
  "decodeBase32 secret = Some key \<Longrightarrow>
   \<forall>i \<in> set is. 0 \<le> totp_counter (timeMs + i * int STEP_SECONDS * 1000) \<Longrightarrow>
   try_offsets hmac secret expected timeMs is =
     Inr (expected \<in> (\<lambda>i. hotp hmac key (nat (totp_counter (timeMs + i * int STEP_SECONDS * 1000))) DIGITS) ` set is)"
  by (induction "is") (auto simp: totpCode_def)

lemma totp_counter_shift: "totp_counter (timeMs + i * int STEP_SECONDS * 1000) = totp_counter timeMs + i"
proof -
  have "timeMs + i * int STEP_SECONDS * 1000 = timeMs + i * 30000" by (simp add: STEP_SECONDS_def)
  then show ?thesis by (simp add: totp_counter_def STEP_SECONDS_def)
qed

text \<open>
  For a secret that is base32 and a time after the first window, \<open>verifyTotp\<close> never throws and
  accepts exactly this: the code, blanks removed, is six digits and equals the HOTP value of one of
  the counters from \<open>window\<close> steps before the current 30-second step to \<open>window\<close> steps after it.
\<close>

theorem verifyTotp_window:
  assumes "decodeBase32 secret = Some key" "window \<le> totp_counter timeMs"
  shows "verifyTotp hmac secret code window timeMs = Inr (
      (let typed = filter (\<lambda>c. \<not> is_ws c) code in
       length typed = 6 \<and> list_all is_digit typed
       \<and> (\<exists>c \<in> {totp_counter timeMs - window .. totp_counter timeMs + window}. typed = hotp hmac key (nat c) DIGITS)))"
proof -
  let ?c = "totp_counter timeMs"
  have image: "(+) ?c ` {- window..window} = {?c - window..?c + window}"
    by simp
  have "\<forall>i \<in> set [- window..window]. 0 \<le> totp_counter (timeMs + i * int STEP_SECONDS * 1000)"
    using assms(2) by (auto simp: totp_counter_shift)
  note runs = try_offsets_complete [OF assms(1) this]
  have "try_offsets hmac secret typed timeMs [- window..window]
      = Inr (typed \<in> (\<lambda>c. hotp hmac key (nat c) DIGITS) ` {?c - window..?c + window})" for typed
    unfolding image [symmetric] image_image using runs by (simp add: totp_counter_shift)
  then show ?thesis
    unfolding verifyTotp_def Let_def by (auto simp: image_iff)
qed

theorem verifyTotp_window_witness:
  "verifyTotp (\<lambda>k m. replicate 20 5) ''ME======'' ''084 215 '' 1 59000 = Inr (
      (let typed = filter (\<lambda>c. \<not> is_ws c) ''084 215 '' in
       length typed = 6 \<and> list_all is_digit typed
       \<and> (\<exists>c \<in> {totp_counter 59000 - 1 .. totp_counter 59000 + 1}.
             typed = hotp (\<lambda>k m. replicate 20 5) [97] (nat c) DIGITS)))"
  by (rule verifyTotp_window) code_simp+

text \<open>
  A recovery code works once: when \<open>consumeRecoveryCode\<close> accepts a code, exactly one stored hash
  is gone, every other code of the list is left, and with distinct hashes the same code, in any
  spelling that normalises alike, is refused afterwards.  A code whose hash is not stored is refused.
\<close>

theorem consumeRecoveryCode_single_use:
  assumes "distinct hashes" "normalizeRecoveryCode again = normalizeRecoveryCode code"
  shows "case consumeRecoveryCode sha256 hashes code of
     None \<Rightarrow> hashRecoveryCode sha256 code \<notin> set hashes
   | Some rest \<Rightarrow>
       Suc (length rest) = length hashes
       \<and> set rest = set hashes - {hashRecoveryCode sha256 code} \<and> distinct rest
       \<and> consumeRecoveryCode sha256 rest again = None"
proof (cases "hashRecoveryCode sha256 code \<in> set hashes")
  case True
  moreover have "length hashes > 0" using True by (cases hashes) auto
  ultimately show ?thesis
    using assms by (simp add: consumeRecoveryCode_def Let_def length_remove1 hashRecoveryCode_def)
next
  case False
  then show ?thesis by (simp add: consumeRecoveryCode_def Let_def)
qed

theorem consumeRecoveryCode_single_use_witness:
  "(case consumeRecoveryCode rev [''HGFEDCBA'', ''98765432''] '' abcd-efgh'' of
     None \<Rightarrow> hashRecoveryCode rev '' abcd-efgh'' \<notin> set [''HGFEDCBA'', ''98765432'']
   | Some rest \<Rightarrow>
       Suc (length rest) = length [''HGFEDCBA'', ''98765432'']
       \<and> set rest = set [''HGFEDCBA'', ''98765432''] - {hashRecoveryCode rev '' abcd-efgh''} \<and> distinct rest
       \<and> consumeRecoveryCode rev rest ''ABCDEFGH'' = None)
   \<and> consumeRecoveryCode rev [''HGFEDCBA'', ''98765432''] '' abcd-efgh'' \<noteq> None"
proof -
  have "distinct [''HGFEDCBA'', ''98765432'']" "normalizeRecoveryCode ''ABCDEFGH'' = normalizeRecoveryCode '' abcd-efgh''"
    by code_simp+
  moreover have "consumeRecoveryCode rev [''HGFEDCBA'', ''98765432''] '' abcd-efgh'' \<noteq> None"
    by code_simp
  ultimately show ?thesis using consumeRecoveryCode_single_use by blast
qed

text \<open>The draws of \<open>generateRecoveryCodes\<close>: the codes stay distinct and reach the asked count.\<close>

lemma generateRecoveryCodes_distinct:
  "generateRecoveryCodes count codes draws = Some out \<Longrightarrow> distinct codes \<Longrightarrow> length codes \<le> count \<Longrightarrow>
     distinct out \<and> length out = count"
proof (induction draws arbitrary: codes)
  case Nil
  then show ?case by (simp add: generateRecoveryCodes.simps [of count codes] split: if_splits)
next
  case (Cons d ds)
  show ?case
  proof (cases "count \<le> length codes")
    case True
    with Cons.prems show ?thesis by (simp add: generateRecoveryCodes.simps [of count codes])
  next
    case False
    with Cons.prems have "generateRecoveryCodes count
        (if recovery_code_of_bytes d \<in> set codes then codes else codes @ [recovery_code_of_bytes d]) ds = Some out"
      by (simp add: generateRecoveryCodes.simps [of count codes] Let_def)
    from Cons.IH [OF this] Cons.prems(2,3) False show ?thesis by simp
  qed
qed

end
