(* ===== verification/Tables.thy ===== *)
theory Tables imports Prelude begin

text \<open>
  Tables with unique columns, the shape of every model of \<^verbatim>\<open>prisma/schema.prisma\<close>: what the
  services rely on when they call \<open>findUnique\<close>, \<open>create\<close>, \<open>deleteMany\<close> and \<open>update\<close>.  The
  interface is the locale \<open>unique_table\<close>; the list tables of this theory provide it, and the
  theory of accounts interprets it on its own rows.
\<close>

section \<open>Interface\<close>

text \<open>
  \<open>keys r\<close> lists the values of the unique columns of row \<open>r\<close>, \<open>arity\<close> of them; two rows clash
  when one column agrees.
\<close>

locale unique_table =
  fixes keys :: "'r \<Rightarrow> 'k list"
    and arity :: nat
    and rows :: "'t \<Rightarrow> 'r set"
    and wf :: "'t \<Rightarrow> bool"
    and find_by :: "nat \<Rightarrow> 'k \<Rightarrow> 't \<Rightarrow> 'r option"
    and insert_row :: "'r \<Rightarrow> 't \<Rightarrow> 't option"
    and delete_where :: "('r \<Rightarrow> bool) \<Rightarrow> 't \<Rightarrow> 't"
  assumes find_by_iff: "wf t \<Longrightarrow> i < arity \<Longrightarrow> find_by i k t = Some r \<longleftrightarrow> r \<in> rows t \<and> keys r ! i = k"
    and insert_Some: "insert_row r t = Some t' \<Longrightarrow> rows t' = insert r (rows t)"
    and insert_None: "insert_row r t = None \<longleftrightarrow> (\<exists>r' \<in> rows t. \<exists>i < arity. keys r ! i = keys r' ! i)"
    and insert_wf: "wf t \<Longrightarrow> insert_row r t = Some t' \<Longrightarrow> wf t'"
    and delete_rows: "rows (delete_where P t) = {r \<in> rows t. \<not> P r}"
    and delete_wf: "wf t \<Longrightarrow> wf (delete_where P t)"
begin

lemma find_None: "wf t \<Longrightarrow> i < arity \<Longrightarrow> find_by i k t = None \<longleftrightarrow> (\<forall>r \<in> rows t. keys r ! i \<noteq> k)"
  using find_by_iff [of t i k] by (cases "find_by i k t") auto

lemma find_in: "wf t \<Longrightarrow> i < arity \<Longrightarrow> find_by i k t = Some r \<Longrightarrow> r \<in> rows t"
  by (simp add: find_by_iff)

lemma find_key: "wf t \<Longrightarrow> i < arity \<Longrightarrow> find_by i k t = Some r \<Longrightarrow> keys r ! i = k"
  by (simp add: find_by_iff)

lemma find_member: "wf t \<Longrightarrow> i < arity \<Longrightarrow> r \<in> rows t \<Longrightarrow> find_by i (keys r ! i) t = Some r"
  by (simp add: find_by_iff)

lemma same_key_same_row:
  "wf t \<Longrightarrow> i < arity \<Longrightarrow> r \<in> rows t \<Longrightarrow> r' \<in> rows t \<Longrightarrow> keys r ! i = keys r' ! i \<Longrightarrow> r = r'"
  using find_by_iff [of t i "keys r ! i"] by (metis option.inject)

lemma find_inserted:
  "wf t \<Longrightarrow> i < arity \<Longrightarrow> insert_row r t = Some t' \<Longrightarrow> find_by i (keys r ! i) t' = Some r"
  by (simp add: find_by_iff insert_wf insert_Some)

lemma find_insert_other:
  "wf t \<Longrightarrow> i < arity \<Longrightarrow> insert_row r t = Some t' \<Longrightarrow> keys r ! i \<noteq> k \<Longrightarrow> find_by i k t' = find_by i k t"
proof (cases "find_by i k t")
  case None
  assume a: "wf t" "i < arity" "insert_row r t = Some t'" "keys r ! i \<noteq> k"
  then have "find_by i k t' = None" using None by (auto simp: find_None insert_wf insert_Some)
  with None show ?thesis by (simp only:)
next
  case (Some x)
  assume a: "wf t" "i < arity" "insert_row r t = Some t'" "keys r ! i \<noteq> k"
  then have "find_by i k t' = Some x" using Some by (simp add: find_by_iff insert_wf insert_Some)
  with Some show ?thesis by (simp only:)
qed

lemma find_delete:
  "wf t \<Longrightarrow> i < arity \<Longrightarrow>
     find_by i k (delete_where P t) = (case find_by i k t of None \<Rightarrow> None | Some r \<Rightarrow> if P r then None else Some r)"
proof (cases "find_by i k t")
  case None
  assume "wf t" "i < arity"
  then have "find_by i k (delete_where P t) = None" using None by (auto simp: find_None delete_wf delete_rows)
  with None show ?thesis by (simp only: option.case)
next
  case (Some r)
  assume a: "wf t" "i < arity"
  with Some have r: "r \<in> rows t" "keys r ! i = k" by (auto simp: find_by_iff)
  show ?thesis
  proof (cases "P r")
    case True
    have "r' = r" if "r' \<in> rows t" "keys r' ! i = k" for r'
      using a r that by (auto intro: same_key_same_row)
    with a True have "find_by i k (delete_where P t) = None" by (auto simp: find_None delete_wf delete_rows)
    with Some True show ?thesis by (simp only: option.case if_True)
  next
    case False
    with a r have "find_by i k (delete_where P t) = Some r" by (simp add: find_by_iff delete_wf delete_rows)
    with Some False show ?thesis by (simp only: option.case if_False)
  qed
qed

lemma insert_again: "insert_row r t = Some t' \<Longrightarrow> 0 < arity \<Longrightarrow> insert_row r t' = None"
  by (auto simp: insert_None insert_Some)

end

section \<open>List tables\<close>

definition keys_clash :: "('r \<Rightarrow> 'k list) \<Rightarrow> 'r \<Rightarrow> 'r \<Rightarrow> bool" where
  "keys_clash keys r r' \<longleftrightarrow> list_ex (\<lambda>(a, b). a = b) (zip (keys r) (keys r'))"

definition find_row :: "('r \<Rightarrow> 'k list) \<Rightarrow> nat \<Rightarrow> 'k \<Rightarrow> 'r list \<Rightarrow> 'r option" where
  "find_row keys i k t = find (\<lambda>r. keys r ! i = k) t"

definition add_row :: "('r \<Rightarrow> 'k list) \<Rightarrow> 'r \<Rightarrow> 'r list \<Rightarrow> 'r list option" where
  "add_row keys r t = (if list_ex (keys_clash keys r) t then None else Some (t @ [r]))"

definition drop_rows :: "('r \<Rightarrow> bool) \<Rightarrow> 'r list \<Rightarrow> 'r list" where
  "drop_rows P t = filter (\<lambda>r. \<not> P r) t"

definition change_rows :: "('r \<Rightarrow> bool) \<Rightarrow> ('r \<Rightarrow> 'r) \<Rightarrow> 'r list \<Rightarrow> 'r list" where
  "change_rows P f t = map (\<lambda>r. if P r then f r else r) t"

text \<open>All rows of a \<open>createMany\<close> are added, or none.\<close>

fun add_rows :: "('r \<Rightarrow> 'k list) \<Rightarrow> 'r list \<Rightarrow> 'r list \<Rightarrow> 'r list option" where
  "add_rows keys [] t = Some t"
| "add_rows keys (r # rs) t = (case add_row keys r t of None \<Rightarrow> None | Some t' \<Rightarrow> add_rows keys rs t')"

definition table_wf :: "('r \<Rightarrow> 'k list) \<Rightarrow> 'r list \<Rightarrow> bool" where
  "table_wf keys t \<longleftrightarrow> sorted_wrt (\<lambda>a b. \<not> keys_clash keys a b) t"

lemma keys_clash_iff:
  assumes "\<And>r. length (keys r) = n"
  shows "keys_clash keys r r' \<longleftrightarrow> (\<exists>i < n. keys r ! i = keys r' ! i)"
proof
  assume "keys_clash keys r r'"
  then show "\<exists>i < n. keys r ! i = keys r' ! i"
    unfolding keys_clash_def list_ex_iff by (clarsimp simp: in_set_zip assms) metis
next
  assume "\<exists>i < n. keys r ! i = keys r' ! i"
  then obtain i where "i < n" "keys r ! i = keys r' ! i" by blast
  then have "(keys r ! i, keys r' ! i) \<in> set (zip (keys r) (keys r'))"
    by (auto simp: in_set_zip assms)
  with \<open>keys r ! i = keys r' ! i\<close> show "keys_clash keys r r'"
    by (auto simp: keys_clash_def list_ex_iff)
qed

lemma table_wf_unique:
  assumes n: "\<And>r. length (keys r) = n" and wf: "table_wf keys t"
    and i: "i < n" and r: "r \<in> set t" "r' \<in> set t" "keys r ! i = keys r' ! i"
  shows "r = r'"
  using wf r
proof (induction t)
  case (Cons x t)
  then have no: "\<forall>y \<in> set t. \<not> keys_clash keys x y" and wf': "table_wf keys t"
    by (auto simp: table_wf_def)
  have "keys x ! i \<noteq> keys y ! i" if "y \<in> set t" for y
    using no that i by (auto simp: keys_clash_iff [OF n])
  with Cons wf' show ?case by (metis set_ConsD)
qed simp

lemma find_SomeD': "find P xs = Some x \<Longrightarrow> x \<in> set xs \<and> P x"
  by (induction xs) (auto split: if_splits)

lemma find_complete: "x \<in> set xs \<Longrightarrow> P x \<Longrightarrow> \<exists>y. find P xs = Some y"
  by (induction xs) auto

lemma find_row_iff:
  assumes n: "\<And>r. length (keys r) = n" and wf: "table_wf keys t" and i: "i < n"
  shows "find_row keys i k t = Some r \<longleftrightarrow> r \<in> set t \<and> keys r ! i = k"
proof
  assume "find_row keys i k t = Some r"
  then show "r \<in> set t \<and> keys r ! i = k"
    unfolding find_row_def by (rule find_SomeD')
next
  assume r: "r \<in> set t \<and> keys r ! i = k"
  then obtain r' where r': "find_row keys i k t = Some r'"
    unfolding find_row_def using find_complete [of r t "\<lambda>r. keys r ! i = k"] by blast
  then have "r' \<in> set t \<and> keys r' ! i = k"
    unfolding find_row_def by (rule find_SomeD')
  then have "r' = r" using r table_wf_unique [OF n wf i] by blast
  with r' show "find_row keys i k t = Some r" by simp
qed

lemma add_row_Some: "add_row keys r t = Some t' \<longleftrightarrow> t' = t @ [r] \<and> (\<forall>x \<in> set t. \<not> keys_clash keys r x)"
  by (auto simp: add_row_def list_ex_iff)

lemma keys_clash_sym: "keys_clash keys r r' \<longleftrightarrow> keys_clash keys r' r"
  unfolding keys_clash_def list_ex_iff Bex_def split_paired_Ex in_set_zip by (auto; metis)

lemma add_row_wf: "table_wf keys t \<Longrightarrow> add_row keys r t = Some t' \<Longrightarrow> table_wf keys t'"
  by (auto simp: table_wf_def add_row_Some sorted_wrt_append keys_clash_sym [of keys _ r])

lemma add_rows_wf: "table_wf keys t \<Longrightarrow> add_rows keys rs t = Some t' \<Longrightarrow> table_wf keys t'"
  by (induction rs arbitrary: t) (auto split: option.splits dest: add_row_wf)

lemma add_rows_append: "add_rows keys rs t = Some t' \<Longrightarrow> t' = t @ rs"
proof (induction rs arbitrary: t)
  case (Cons r rs)
  then have "add_rows keys rs (t @ [r]) = Some t'"
    by (auto simp: add_row_Some split: option.splits)
  from Cons.IH [OF this] show ?case by simp
qed simp

lemma drop_rows_wf: "table_wf keys t \<Longrightarrow> table_wf keys (drop_rows P t)"
  by (auto simp: table_wf_def drop_rows_def intro: sorted_wrt_filter)

lemma change_rows_wf:
  assumes "\<And>r. keys (f r) = keys r" "table_wf keys t"
  shows "table_wf keys (change_rows P f t)"
proof -
  have "keys_clash keys (if P a then f a else a) (if P b then f b else b) = keys_clash keys a b" for a b
    by (simp add: keys_clash_def assms(1))
  with assms(2) show ?thesis
    by (simp add: table_wf_def change_rows_def sorted_wrt_map)
qed

lemma set_drop_rows [simp]: "set (drop_rows P t) = {r \<in> set t. \<not> P r}"
  by (auto simp: drop_rows_def)

lemma set_change_rows: "set (change_rows P f t) = (\<lambda>r. if P r then f r else r) ` set t"
  by (simp add: change_rows_def)

lemma change_rows_image: "(\<And>r. g (f r) = g r) \<Longrightarrow> g ` set (change_rows P f t) = g ` set t"
  by (induction t) (auto simp: change_rows_def)

text \<open>Every list table with a fixed number of unique columns provides the interface.\<close>

lemma list_table:
  assumes n: "\<And>r. length (keys r) = n"
  shows "unique_table keys n set (table_wf keys) (find_row keys) (add_row keys) drop_rows"
proof
  show "table_wf keys t \<Longrightarrow> i < n \<Longrightarrow> (find_row keys i k t = Some r) = (r \<in> set t \<and> keys r ! i = k)" for t i k r
    by (rule find_row_iff [OF n])
  show "add_row keys r t = Some t' \<Longrightarrow> set t' = insert r (set t)" for r t t'
    by (auto simp: add_row_Some)
  show "(add_row keys r t = None) = (\<exists>r' \<in> set t. \<exists>i < n. keys r ! i = keys r' ! i)" for r t
    by (auto simp: add_row_def list_ex_iff keys_clash_iff [OF n])
qed (auto intro: add_row_wf drop_rows_wf)

end
