(* ===== verification/Database.thy ===== *)
theory Database imports Tables HttpGuard RateLimit begin

text \<open>
  The rows the account code works on (models \<open>User\<close>, \<open>Role\<close>, \<open>Session\<close>, \<open>UserHostAccess\<close>,
  \<open>UserGuestAccess\<close> and \<open>AuditLog\<close> of \<^verbatim>\<open>prisma/schema.prisma\<close>) and the state of the server
  process beside them.  Every database call of the services is one operation here: unique columns
  and foreign keys refuse a row, deleting a user deletes what belongs to it.
\<close>

section \<open>Rows\<close>

datatype user_status = ACTIVE | DISABLED

record user_row =
  uId :: string
  uUsername :: string
  uEmail :: string
  uPasswordHash :: string
  uStatus :: user_status
  uTotpEnabled :: bool
  uTotpSecret :: "string option"
  uTotpRecoveryHashes :: "string list"
  uLastLoginAt :: "int option"
  uRoleId :: string

record role_row =
  roId :: string
  roName :: string
  roSlug :: string
  roDescription :: string
  roIsSystem :: bool
  roPermissions :: "string list"

record session_row =
  seId :: string
  seUserId :: string
  seTokenHash :: string
  seIp :: "string option"
  seUserAgent :: "string option"
  seExpiresAt :: int

record user_host_access = host_access_grant +
  haUserId :: string

record user_guest_access = guest_access_grant +
  gaUserId :: string

record audit_row =
  auUserId :: "string option"
  auAction :: string
  auTarget :: "string option"
  auSuccess :: bool

text \<open>The database and, last, what the process holds in memory: whether the roles were synchronised
  since it started, and the buckets of the rate limiter.\<close>

record server =
  users :: "user_row list"
  roles :: "role_row list"
  sessions :: "session_row list"
  hostAccess :: "user_host_access list"
  guestAccess :: "user_guest_access list"
  hostIds :: "string list"
  auditLogs :: "audit_row list"
  rolesStarted :: bool
  rateBuckets :: buckets

definition user_keys :: "user_row \<Rightarrow> string list" where
  "user_keys u = [uId u, uUsername u, uEmail u]"

definition role_keys :: "role_row \<Rightarrow> string list" where
  "role_keys r = [roId r, roSlug r]"

definition session_keys :: "session_row \<Rightarrow> string list" where
  "session_keys s = [seId s, seTokenHash s]"

definition host_access_keys :: "user_host_access \<Rightarrow> (string \<times> string) list" where
  "host_access_keys h = [(haUserId h, haHostId h)]"

definition guest_access_keys :: "user_guest_access \<Rightarrow> (string \<times> string \<times> string \<times> int) list" where
  "guest_access_keys g = [(gaUserId g, gaHostId g, gaKind g, gaVmid g)]"

section \<open>The tables provide the interface\<close>

interpretation user_table: unique_table user_keys 3 set "table_wf user_keys" "find_row user_keys" "add_row user_keys" drop_rows
  by (rule list_table) (simp add: user_keys_def)

interpretation role_table: unique_table role_keys 2 set "table_wf role_keys" "find_row role_keys" "add_row role_keys" drop_rows
  by (rule list_table) (simp add: role_keys_def)

interpretation session_table: unique_table session_keys 2 set "table_wf session_keys" "find_row session_keys" "add_row session_keys" drop_rows
  by (rule list_table) (simp add: session_keys_def)

interpretation host_access_table: unique_table host_access_keys 1 set "table_wf host_access_keys" "find_row host_access_keys" "add_row host_access_keys" drop_rows
  by (rule list_table) (simp add: host_access_keys_def)

interpretation guest_access_table: unique_table guest_access_keys 1 set "table_wf guest_access_keys" "find_row guest_access_keys" "add_row guest_access_keys" drop_rows
  by (rule list_table) (simp add: guest_access_keys_def)

section \<open>Database calls\<close>

text \<open>The two errors of the client that matter here.\<close>

definition uniqueViolation :: js_error where
  "uniqueViolation = OtherError ''P2002''"

definition foreignKeyViolation :: js_error where
  "foreignKeyViolation = OtherError ''P2003''"

definition user_by_id :: "string \<Rightarrow> server \<Rightarrow> user_row option" where
  "user_by_id uid st = find_row user_keys 0 uid (users st)"

definition user_by_name :: "string \<Rightarrow> server \<Rightarrow> user_row option" where
  "user_by_name name st = find_row user_keys 1 name (users st)"

definition role_by_id :: "string \<Rightarrow> server \<Rightarrow> role_row option" where
  "role_by_id rid st = find_row role_keys 0 rid (roles st)"

definition role_by_slug :: "string \<Rightarrow> server \<Rightarrow> role_row option" where
  "role_by_slug slug st = find_row role_keys 1 slug (roles st)"

definition session_by_hash :: "string \<Rightarrow> server \<Rightarrow> session_row option" where
  "session_by_hash h st = find_row session_keys 1 h (sessions st)"

definition hosts_of :: "string \<Rightarrow> server \<Rightarrow> host_access_grant list" where
  "hosts_of uid st = map host_access_grant.truncate (filter (\<lambda>h. haUserId h = uid) (hostAccess st))"

definition guests_of :: "string \<Rightarrow> server \<Rightarrow> guest_access_grant list" where
  "guests_of uid st = map guest_access_grant.truncate (filter (\<lambda>g. gaUserId g = uid) (guestAccess st))"

definition create_session_row :: "session_row \<Rightarrow> server \<Rightarrow> (js_error + unit) \<times> server" where
  "create_session_row r st =
     (if user_by_id (seUserId r) st = None then (Inl foreignKeyViolation, st)
      else (case add_row session_keys r (sessions st) of
              None \<Rightarrow> (Inl uniqueViolation, st)
            | Some t \<Rightarrow> (Inr (), st\<lparr>sessions := t\<rparr>)))"

definition delete_sessions :: "(session_row \<Rightarrow> bool) \<Rightarrow> server \<Rightarrow> server" where
  "delete_sessions P st = st\<lparr>sessions := drop_rows P (sessions st)\<rparr>"

definition update_user_row :: "string \<Rightarrow> (user_row \<Rightarrow> user_row) \<Rightarrow> server \<Rightarrow> (js_error + unit) \<times> server" where
  "update_user_row uid f st =
     (let t = change_rows (\<lambda>u. uId u = uid) f (users st) in
      if \<not> table_wf user_keys t then (Inl uniqueViolation, st)
      else if list_ex (\<lambda>u. role_by_id (uRoleId u) st = None) t then (Inl foreignKeyViolation, st)
      else (Inr (), st\<lparr>users := t\<rparr>))"

definition delete_user_row :: "string \<Rightarrow> server \<Rightarrow> server" where
  "delete_user_row uid st = st\<lparr>
     users := drop_rows (\<lambda>u. uId u = uid) (users st),
     sessions := drop_rows (\<lambda>s. seUserId s = uid) (sessions st),
     hostAccess := drop_rows (\<lambda>h. haUserId h = uid) (hostAccess st),
     guestAccess := drop_rows (\<lambda>g. gaUserId g = uid) (guestAccess st),
     auditLogs := map (\<lambda>a. if auUserId a = Some uid then a\<lparr>auUserId := None\<rparr> else a) (auditLogs st)\<rparr>"

definition create_host_rows :: "user_host_access list \<Rightarrow> server \<Rightarrow> (js_error + unit) \<times> server" where
  "create_host_rows rs st =
     (if list_ex (\<lambda>h. haHostId h \<notin> set (hostIds st) \<or> user_by_id (haUserId h) st = None) rs
      then (Inl foreignKeyViolation, st)
      else (case add_rows host_access_keys rs (hostAccess st) of
              None \<Rightarrow> (Inl uniqueViolation, st)
            | Some t \<Rightarrow> (Inr (), st\<lparr>hostAccess := t\<rparr>)))"

definition create_guest_rows :: "user_guest_access list \<Rightarrow> server \<Rightarrow> (js_error + unit) \<times> server" where
  "create_guest_rows rs st =
     (if list_ex (\<lambda>g. gaHostId g \<notin> set (hostIds st) \<or> user_by_id (gaUserId g) st = None) rs
      then (Inl foreignKeyViolation, st)
      else (case add_rows guest_access_keys rs (guestAccess st) of
              None \<Rightarrow> (Inl uniqueViolation, st)
            | Some t \<Rightarrow> (Inr (), st\<lparr>guestAccess := t\<rparr>)))"

text \<open>\<open>user.create\<close> with its nested rows is one transaction: all of it happens or nothing.\<close>

definition create_user_row ::
  "user_row \<Rightarrow> user_host_access list \<Rightarrow> user_guest_access list \<Rightarrow> server \<Rightarrow> (js_error + unit) \<times> server" where
  "create_user_row u hs gs st =
     (if role_by_id (uRoleId u) st = None then (Inl foreignKeyViolation, st)
      else case add_row user_keys u (users st) of
        None \<Rightarrow> (Inl uniqueViolation, st)
      | Some t \<Rightarrow>
          (case create_host_rows hs (st\<lparr>users := t\<rparr>) of
             (Inl e, _) \<Rightarrow> (Inl e, st)
           | (Inr _, st1) \<Rightarrow>
               (case create_guest_rows gs st1 of
                  (Inl e, _) \<Rightarrow> (Inl e, st)
                | (Inr _, st2) \<Rightarrow> (Inr (), st2))))"

definition create_role_row :: "role_row \<Rightarrow> server \<Rightarrow> (js_error + unit) \<times> server" where
  "create_role_row r st =
     (case add_row role_keys r (roles st) of
        None \<Rightarrow> (Inl uniqueViolation, st)
      | Some t \<Rightarrow> (Inr (), st\<lparr>roles := t\<rparr>))"

definition update_role_row :: "string \<Rightarrow> (role_row \<Rightarrow> role_row) \<Rightarrow> server \<Rightarrow> (js_error + unit) \<times> server" where
  "update_role_row rid f st =
     (let t = change_rows (\<lambda>r. roId r = rid) f (roles st) in
      if table_wf role_keys t then (Inr (), st\<lparr>roles := t\<rparr>) else (Inl uniqueViolation, st))"

definition delete_role_row :: "string \<Rightarrow> server \<Rightarrow> (js_error + unit) \<times> server" where
  "delete_role_row rid st =
     (if list_ex (\<lambda>u. uRoleId u = rid) (users st) then (Inl foreignKeyViolation, st)
      else (Inr (), st\<lparr>roles := drop_rows (\<lambda>r. roId r = rid) (roles st)\<rparr>))"

text \<open>\<open>writeAuditLog\<close> catches every error of its insert, so it only ever appends or does nothing.\<close>

definition writeAuditLog :: "audit_row \<Rightarrow> server \<Rightarrow> server" where
  "writeAuditLog entry st =
     (case auUserId entry of
        Some uid \<Rightarrow> (if user_by_id uid st = None then st else st\<lparr>auditLogs := auditLogs st @ [entry]\<rparr>)
      | None \<Rightarrow> st\<lparr>auditLogs := auditLogs st @ [entry]\<rparr>)"

section \<open>Integrity\<close>

text \<open>The invariant the schema keeps: unique columns are unique and no row points nowhere.\<close>

definition server_wf :: "server \<Rightarrow> bool" where
  "server_wf st \<longleftrightarrow>
     table_wf user_keys (users st) \<and> table_wf role_keys (roles st) \<and> table_wf session_keys (sessions st)
     \<and> table_wf host_access_keys (hostAccess st) \<and> table_wf guest_access_keys (guestAccess st)
     \<and> (\<forall>u \<in> set (users st). uRoleId u \<in> roId ` set (roles st))
     \<and> (\<forall>s \<in> set (sessions st). seUserId s \<in> uId ` set (users st))
     \<and> (\<forall>h \<in> set (hostAccess st). haUserId h \<in> uId ` set (users st) \<and> haHostId h \<in> set (hostIds st))
     \<and> (\<forall>g \<in> set (guestAccess st). gaUserId g \<in> uId ` set (users st) \<and> gaHostId g \<in> set (hostIds st))"

lemma server_wfD [guard_dests]:
  assumes "server_wf st"
  shows "table_wf user_keys (users st)" "table_wf role_keys (roles st)" "table_wf session_keys (sessions st)"
    "table_wf host_access_keys (hostAccess st)" "table_wf guest_access_keys (guestAccess st)"
  using assms by (simp_all add: server_wf_def)

lemma user_by_id_iff: "server_wf st \<Longrightarrow> user_by_id uid st = Some u \<longleftrightarrow> u \<in> set (users st) \<and> uId u = uid"
  using user_table.find_by_iff [of "users st" 0] by (simp add: user_by_id_def user_keys_def server_wf_def)

lemma user_by_name_iff: "server_wf st \<Longrightarrow> user_by_name n st = Some u \<longleftrightarrow> u \<in> set (users st) \<and> uUsername u = n"
  using user_table.find_by_iff [of "users st" 1] by (simp add: user_by_name_def user_keys_def server_wf_def)

lemma role_by_id_iff: "server_wf st \<Longrightarrow> role_by_id rid st = Some r \<longleftrightarrow> r \<in> set (roles st) \<and> roId r = rid"
  using role_table.find_by_iff [of "roles st" 0] by (simp add: role_by_id_def role_keys_def server_wf_def)

lemma role_by_slug_iff: "server_wf st \<Longrightarrow> role_by_slug slug st = Some r \<longleftrightarrow> r \<in> set (roles st) \<and> roSlug r = slug"
  using role_table.find_by_iff [of "roles st" 1] by (simp add: role_by_slug_def role_keys_def server_wf_def)

lemma session_by_hash_iff: "server_wf st \<Longrightarrow> session_by_hash h st = Some r \<longleftrightarrow> r \<in> set (sessions st) \<and> seTokenHash r = h"
  using session_table.find_by_iff [of "sessions st" 1] by (simp add: session_by_hash_def session_keys_def server_wf_def)

lemma user_missing: "user_by_id uid st = None \<longleftrightarrow> uid \<notin> uId ` set (users st)"
  by (auto simp: user_by_id_def find_row_def user_keys_def find_None_iff)

lemma role_missing: "role_by_id rid st = None \<longleftrightarrow> rid \<notin> roId ` set (roles st)"
  by (auto simp: role_by_id_def find_row_def role_keys_def find_None_iff)

lemma create_session_wf: "server_wf st \<Longrightarrow> server_wf (snd (create_session_row r st))"
  by (auto simp: create_session_row_def server_wf_def user_missing add_row_Some split: option.splits
      intro: session_table.insert_wf)

lemma delete_sessions_wf: "server_wf st \<Longrightarrow> server_wf (delete_sessions P st)"
  by (auto simp: delete_sessions_def server_wf_def intro: session_table.delete_wf)

lemma update_user_wf:
  assumes "server_wf st" "\<And>u. uId (f u) = uId u"
  shows "server_wf (snd (update_user_row uid f st))"
proof -
  have ids: "uId ` set (change_rows (\<lambda>u. uId u = uid) f (users st)) = uId ` set (users st)"
    by (rule change_rows_image) (rule assms(2))
  show ?thesis
    using assms(1) by (simp add: update_user_row_def Let_def server_wf_def ids list_ex_iff role_missing)
qed

lemma delete_user_wf: "server_wf st \<Longrightarrow> server_wf (delete_user_row uid st)"
  unfolding server_wf_def delete_user_row_def
  by (auto simp: image_iff intro: user_table.delete_wf session_table.delete_wf host_access_table.delete_wf
      guest_access_table.delete_wf)

lemma create_host_rows_wf: "server_wf st \<Longrightarrow> server_wf (snd (create_host_rows rs st))"
proof (cases "add_rows host_access_keys rs (hostAccess st)")
  case (Some t)
  assume wf: "server_wf st"
  then have "table_wf host_access_keys t"
    by (intro add_rows_wf [OF server_wfD(4) Some])
  moreover have "t = hostAccess st @ rs" by (rule add_rows_append [OF Some])
  ultimately show ?thesis
    using wf by (auto simp: create_host_rows_def server_wf_def user_missing list_ex_iff Some)
qed (simp add: create_host_rows_def)

lemma create_guest_rows_wf: "server_wf st \<Longrightarrow> server_wf (snd (create_guest_rows rs st))"
proof (cases "add_rows guest_access_keys rs (guestAccess st)")
  case (Some t)
  assume wf: "server_wf st"
  then have "table_wf guest_access_keys t"
    by (intro add_rows_wf [OF server_wfD(5) Some])
  moreover have "t = guestAccess st @ rs" by (rule add_rows_append [OF Some])
  ultimately show ?thesis
    using wf by (auto simp: create_guest_rows_def server_wf_def user_missing list_ex_iff Some)
qed (simp add: create_guest_rows_def)

lemma create_user_wf:
  assumes "server_wf st"
  shows "server_wf (snd (create_user_row u hs gs st))"
proof (cases "role_by_id (uRoleId u) st = None \<or> add_row user_keys u (users st) = None")
  case True
  with assms show ?thesis by (auto simp: create_user_row_def)
next
  case False
  then obtain t where t: "add_row user_keys u (users st) = Some t" by auto
  with False assms have w0: "server_wf (st\<lparr>users := t\<rparr>)"
    by (auto simp: server_wf_def role_missing add_row_Some intro: user_table.insert_wf)
  obtain r1 st1 where r1: "create_host_rows hs (st\<lparr>users := t\<rparr>) = (r1, st1)" by fastforce
  obtain r2 st2 where r2: "create_guest_rows gs st1 = (r2, st2)" by fastforce
  have "server_wf st2"
    using create_guest_rows_wf [OF create_host_rows_wf [OF w0], of gs hs] by (simp add: r1 r2)
  with False t r1 r2 assms show ?thesis
    by (auto simp: create_user_row_def split: sum.splits)
qed

lemma create_role_wf: "server_wf st \<Longrightarrow> server_wf (snd (create_role_row r st))"
  by (auto simp: create_role_row_def server_wf_def add_row_Some split: option.splits intro: role_table.insert_wf)

lemma update_role_wf:
  assumes "server_wf st" "\<And>r. roId (f r) = roId r"
  shows "server_wf (snd (update_role_row rid f st))"
proof -
  have ids: "roId ` set (change_rows (\<lambda>r. roId r = rid) f (roles st)) = roId ` set (roles st)"
    by (rule change_rows_image) (rule assms(2))
  show ?thesis
    using assms(1) by (simp add: update_role_row_def Let_def server_wf_def ids)
qed

lemma delete_role_wf: "server_wf st \<Longrightarrow> server_wf (snd (delete_role_row rid st))"
  unfolding delete_role_row_def server_wf_def
  by (auto simp: list_ex_iff image_iff role_table.delete_wf) metis

lemma audit_fields [simp]:
  "users (writeAuditLog a st) = users st" "roles (writeAuditLog a st) = roles st"
  "sessions (writeAuditLog a st) = sessions st" "hostAccess (writeAuditLog a st) = hostAccess st"
  "guestAccess (writeAuditLog a st) = guestAccess st" "hostIds (writeAuditLog a st) = hostIds st"
  by (simp_all add: writeAuditLog_def split: option.splits)

lemma audit_wf: "server_wf (writeAuditLog a st) \<longleftrightarrow> server_wf st"
  by (simp add: server_wf_def)

lemmas db_wf_intros = create_session_wf delete_sessions_wf update_user_wf delete_user_wf create_host_rows_wf
  create_guest_rows_wf create_user_wf create_role_wf update_role_wf delete_role_wf

end
