(* ===== verification/Sessions.thy ===== *)
theory Sessions imports Database Totp begin

text \<open>
  Sessions: \<^verbatim>\<open>server/auth/session-core.ts\<close>, \<^verbatim>\<open>server/auth/session.ts\<close> and the role
  synchronisation \<^verbatim>\<open>server/services/role-sync.ts\<close> they start.  Hashing, password hashing and
  encryption are the functions of a \<open>platform\<close>; times are milliseconds.
\<close>

section \<open>Platform and session users\<close>

record platform =
  sha256 :: "string \<Rightarrow> string"
  bcrypt_hash :: "string \<Rightarrow> string"
  bcrypt_compare :: "string \<Rightarrow> string \<Rightarrow> bool"
  hmac_sha1 :: "8 word list \<Rightarrow> 8 word list \<Rightarrow> 8 word list"
  encryptSecret :: "string \<Rightarrow> js_error + string"
  decryptSecret :: "string \<Rightarrow> js_error + string"
  cuid_for_role :: "string \<Rightarrow> string"
  SESSION_DAYS :: "string option"

record session_user = access_scope +
  suId :: string
  suUsername :: string
  suEmail :: string
  suRoleId :: string
  suRoleSlug :: string
  suRoleName :: string
  suRolePermissions :: "string list"
  suHostPermissions :: "grants option"
  suGuestPermissions :: "grants option"

record auth_session =
  asId :: string
  asUser :: session_user
  asExpiresAt :: int

definition holder_of :: "session_user \<Rightarrow> permission_holder" where
  "holder_of user = \<lparr>rolePermissions = Some (suRolePermissions user),
     hostPermissions = suHostPermissions user, guestPermissions = suGuestPermissions user\<rparr>"

definition sanitize_grants :: "grants option \<Rightarrow> grants option" where
  "sanitize_grants = map_option (map (\<lambda>(k, granted). (k, map_option sanitizePermissions granted)))"

definition toSessionUser ::
  "user_row \<Rightarrow> role_row \<Rightarrow> host_access_grant list \<Rightarrow> guest_access_grant list \<Rightarrow> session_user" where
  "toSessionUser user role hostRows guestRows =
     (let scope = sessionScopeFromGrants hostRows guestRows in
      \<lparr>allowedHostIds = lockHostsWithoutHostView (allowedHostIds scope) (hasPermission (Some (roPermissions role)) ''hosts.view''),
       allowedGuests = allowedGuests scope,
       suId = uId user, suUsername = uUsername user, suEmail = uEmail user,
       suRoleId = roId role, suRoleSlug = roSlug role, suRoleName = roName role, suRolePermissions = roPermissions role,
       suHostPermissions = sanitize_grants (scopeHostPermissions scope),
       suGuestPermissions = sanitize_grants (scopeGuestPermissions scope)\<rparr>)"

text \<open>The user row with its relations, as an \<open>include\<close> loads them.\<close>

definition session_user_of :: "user_row \<Rightarrow> server \<Rightarrow> session_user option" where
  "session_user_of u st =
     map_option (\<lambda>role. toSessionUser u role (hosts_of (uId u) st) (guests_of (uId u) st)) (role_by_id (uRoleId u) st)"

section \<open>System roles\<close>

text \<open>One \<open>upsert\<close>; a new row takes the id the database generates.\<close>

definition upsert_preset :: "platform \<Rightarrow> string \<times> role_preset \<Rightarrow> server \<Rightarrow> (js_error + unit) \<times> server" where
  "upsert_preset pf entry st =
     (let slug = fst entry; preset = snd entry in
      case role_by_slug slug st of
        Some role \<Rightarrow>
          update_role_row (roId role) (\<lambda>r. r\<lparr>roName := presetName preset, roDescription := presetDescription preset,
             roPermissions := presetPermissions preset, roIsSystem := True\<rparr>) st
      | None \<Rightarrow>
          create_role_row \<lparr>roId = cuid_for_role pf slug, roName = presetName preset, roSlug = slug,
             roDescription = presetDescription preset, roIsSystem = True, roPermissions = presetPermissions preset\<rparr> st)"

fun syncSystemRoles :: "platform \<Rightarrow> (string \<times> role_preset) list \<Rightarrow> server \<Rightarrow> server" where
  "syncSystemRoles pf [] st = st"
| "syncSystemRoles pf (entry # rest) st =
     (case upsert_preset pf entry st of
        (Inl e, st') \<Rightarrow> st'
      | (Inr _, st') \<Rightarrow> syncSystemRoles pf rest st')"

definition ensureSystemRoles :: "platform \<Rightarrow> server \<Rightarrow> server" where
  "ensureSystemRoles pf st =
     (if rolesStarted st then st else syncSystemRoles pf ROLE_PRESETS (st\<lparr>rolesStarted := True\<rparr>))"

section \<open>Session lifecycle\<close>

definition sessionDays :: "platform \<Rightarrow> rat" where
  "sessionDays pf =
     (case toNumber (case SESSION_DAYS pf of None \<Rightarrow> ''7'' | Some s \<Rightarrow> s) of
        Fin n \<Rightarrow> (if n > 0 then min 365 n else 7)
      | _ \<Rightarrow> 7)"

text \<open>\<open>new Date(...)\<close> drops the fraction of a millisecond.\<close>

definition expires_at :: "platform \<Rightarrow> int \<Rightarrow> int" where
  "expires_at pf now = \<lfloor>of_int now + sessionDays pf * 24 * 60 * 60 * 1000\<rfloor>"

text \<open>\<open>sid\<close> is the id the database gives the row and \<open>token\<close> the random token.\<close>

definition createSession ::
  "platform \<Rightarrow> int \<Rightarrow> string \<Rightarrow> string \<Rightarrow> string \<Rightarrow> string option \<Rightarrow> string option \<Rightarrow> server \<Rightarrow>
   (js_error + string \<times> int) \<times> server" where
  "createSession pf now sid token userId ip userAgent st =
     (let expiresAt = expires_at pf now in
      case create_session_row \<lparr>seId = sid, seUserId = userId, seTokenHash = sha256 pf token,
             seIp = ip, seUserAgent = userAgent, seExpiresAt = expiresAt\<rparr> st of
        (Inl e, st') \<Rightarrow> (Inl e, st')
      | (Inr _, st') \<Rightarrow> (Inr (token, expiresAt), st'))"

definition destroySession :: "platform \<Rightarrow> string \<Rightarrow> server \<Rightarrow> server" where
  "destroySession pf token st = delete_sessions (\<lambda>s. seTokenHash s = sha256 pf token) st"

definition destroyUserSessions :: "string \<Rightarrow> string option \<Rightarrow> server \<Rightarrow> server" where
  "destroyUserSessions userId exceptId st =
     delete_sessions (\<lambda>s. seUserId s = userId \<and> (truthy exceptId \<longrightarrow> Some (seId s) \<noteq> exceptId)) st"

definition getSessionFromToken :: "platform \<Rightarrow> int \<Rightarrow> string option \<Rightarrow> server \<Rightarrow> auth_session option \<times> server" where
  "getSessionFromToken pf now token st =
     (if \<not> truthy token then (None, st)
      else
        (let st1 = ensureSystemRoles pf st in
         case session_by_hash (sha256 pf (the token)) st1 of
           None \<Rightarrow> (None, st1)
         | Some rec \<Rightarrow>
             if seExpiresAt rec < now then (None, delete_sessions (\<lambda>s. seId s = seId rec) st1)
             else (case user_by_id (seUserId rec) st1 of None \<Rightarrow> (None, st1)
               | Some user \<Rightarrow>
                   if uStatus user \<noteq> ACTIVE then (None, delete_sessions (\<lambda>s. seUserId s = seUserId rec) st1)
                   else (case session_user_of user st1 of None \<Rightarrow> (None, st1)
                     | Some su \<Rightarrow> (Some \<lparr>asId = seId rec, asUser = su, asExpiresAt = seExpiresAt rec\<rparr>, st1)))))"

definition assertHostAccess :: "session_user \<Rightarrow> string \<Rightarrow> js_error + unit" where
  "assertHostAccess user hostId =
     (if canAccessHost user hostId then Inr () else Inl (ForbiddenError ''You are not allowed to access this host''))"

definition assertGuestAccess :: "session_user \<Rightarrow> string \<Rightarrow> guest_kind \<Rightarrow> int \<Rightarrow> js_error + unit" where
  "assertGuestAccess user hostId kind vmid =
     (if canAccessGuest user hostId kind vmid then Inr ()
      else Inl (NotFoundError (if kind = VM then ''VM not found'' else ''Container not found'')))"

section \<open>Cookies and request data\<close>

definition cookieSecure :: "string option \<Rightarrow> string option \<Rightarrow> bool" where
  "cookieSecure appUrl override =
     (if override = Some ''true'' then True
      else if override = Some ''false'' then False
      else starts_with (to_lower (trim (case appUrl of None \<Rightarrow> [] | Some u \<Rightarrow> u))) ''https://'')"

definition sessionCookieMaxAgeSeconds :: "int \<Rightarrow> int \<Rightarrow> int" where
  "sessionCookieMaxAgeSeconds expiresAt now = max 0 ((expiresAt - now) div 1000)"

record cookie_options =
  coHttpOnly :: bool
  coSameSite :: string
  coSecure :: bool
  coPath :: string
  coExpires :: int
  coMaxAge :: int

definition sessionCookieOptions :: "string option \<Rightarrow> string option \<Rightarrow> int \<Rightarrow> int \<Rightarrow> cookie_options" where
  "sessionCookieOptions appUrl override now expiresAt =
     \<lparr>coHttpOnly = True, coSameSite = ''lax'', coSecure = cookieSecure appUrl override, coPath = ''/'',
      coExpires = expiresAt, coMaxAge = sessionCookieMaxAgeSeconds expiresAt now\<rparr>"

definition SESSION_COOKIE :: string where
  "SESSION_COOKIE = ''pm_session''"

type_synonym cookies = "(string \<times> string) list"

definition getSession :: "platform \<Rightarrow> int \<Rightarrow> cookies \<Rightarrow> server \<Rightarrow> auth_session option \<times> server" where
  "getSession pf now store st = getSessionFromToken pf now (map_of store SESSION_COOKIE) st"

definition requireSession :: "platform \<Rightarrow> int \<Rightarrow> cookies \<Rightarrow> server \<Rightarrow> (js_error + auth_session) \<times> server" where
  "requireSession pf now store st =
     (case getSession pf now store st of
        (None, st') \<Rightarrow> (Inl (UnauthorizedError ''Authentication required''), st')
      | (Some session, st') \<Rightarrow> (Inr session, st'))"

definition requirePermission ::
  "platform \<Rightarrow> int \<Rightarrow> string \<Rightarrow> cookies \<Rightarrow> server \<Rightarrow> (js_error + auth_session) \<times> server" where
  "requirePermission pf now permission store st =
     (case requireSession pf now store st of
        (Inl e, st') \<Rightarrow> (Inl e, st')
      | (Inr session, st') \<Rightarrow>
          if userHasPermission (Some (holder_of (asUser session))) permission None None then (Inr session, st')
          else (Inl (ForbiddenError ''You do not have permission to perform this action''), st'))"

text \<open>The right-most non-empty entry of \<open>x-forwarded-for\<close>, after \<open>x-real-ip\<close>.\<close>

definition clientIp :: "http_request \<Rightarrow> string option" where
  "clientIp h =
     (let real = map_option trim (header h ''x-real-ip'') in
      if truthy real then real
      else if \<not> truthy (header h ''x-forwarded-for'') then None
      else (case rev (filter (\<lambda>p. p \<noteq> []) (map trim (split_on CHR '','' (the (header h ''x-forwarded-for''))))) of
              [] \<Rightarrow> None | p # _ \<Rightarrow> Some p))"

definition clientUserAgent :: "http_request \<Rightarrow> string option" where
  "clientUserAgent h = header h ''user-agent''"

section \<open>Lemmas\<close>

lemma upsert_fields [simp]:
  "users (snd (upsert_preset pf e st)) = users st" "sessions (snd (upsert_preset pf e st)) = sessions st"
  "hostAccess (snd (upsert_preset pf e st)) = hostAccess st" "guestAccess (snd (upsert_preset pf e st)) = guestAccess st"
  "hostIds (snd (upsert_preset pf e st)) = hostIds st" "rolesStarted (snd (upsert_preset pf e st)) = rolesStarted st"
  by (simp_all add: upsert_preset_def Let_def update_role_row_def create_role_row_def split: option.splits)

lemma sync_fields [simp]:
  "users (syncSystemRoles pf es st) = users st" "sessions (syncSystemRoles pf es st) = sessions st"
  "hostAccess (syncSystemRoles pf es st) = hostAccess st" "guestAccess (syncSystemRoles pf es st) = guestAccess st"
  "hostIds (syncSystemRoles pf es st) = hostIds st" "rolesStarted (syncSystemRoles pf es st) = rolesStarted st"
proof -
  have "users (syncSystemRoles pf es st) = users st \<and> sessions (syncSystemRoles pf es st) = sessions st
    \<and> hostAccess (syncSystemRoles pf es st) = hostAccess st \<and> guestAccess (syncSystemRoles pf es st) = guestAccess st
    \<and> hostIds (syncSystemRoles pf es st) = hostIds st \<and> rolesStarted (syncSystemRoles pf es st) = rolesStarted st"
  proof (induction es arbitrary: st)
    case (Cons e es)
    obtain r st' where u: "upsert_preset pf e st = (r, st')" by (cases "upsert_preset pf e st")
    with upsert_fields [of pf e st] Cons.IH [of st'] show ?case by (simp split: sum.split)
  qed simp
  then show "users (syncSystemRoles pf es st) = users st" "sessions (syncSystemRoles pf es st) = sessions st"
    "hostAccess (syncSystemRoles pf es st) = hostAccess st" "guestAccess (syncSystemRoles pf es st) = guestAccess st"
    "hostIds (syncSystemRoles pf es st) = hostIds st" "rolesStarted (syncSystemRoles pf es st) = rolesStarted st"
    by auto
qed

lemma ensure_fields [simp]:
  "users (ensureSystemRoles pf st) = users st" "sessions (ensureSystemRoles pf st) = sessions st"
  "hostAccess (ensureSystemRoles pf st) = hostAccess st" "guestAccess (ensureSystemRoles pf st) = guestAccess st"
  "hostIds (ensureSystemRoles pf st) = hostIds st"
  by (simp_all add: ensureSystemRoles_def)

lemma scope_ensure [simp]:
  "hosts_of uid (ensureSystemRoles pf st) = hosts_of uid st" "guests_of uid (ensureSystemRoles pf st) = guests_of uid st"
  by (simp_all add: hosts_of_def guests_of_def)

lemma upsert_wf: "server_wf st \<Longrightarrow> server_wf (snd (upsert_preset pf e st))"
  by (auto simp: upsert_preset_def Let_def split: option.splits intro: update_role_wf create_role_wf)

lemma sync_wf: "server_wf st \<Longrightarrow> server_wf (syncSystemRoles pf es st)"
proof (induction es arbitrary: st)
  case (Cons e es)
  obtain r st' where u: "upsert_preset pf e st = (r, st')" by (cases "upsert_preset pf e st")
  with upsert_wf [OF Cons.prems, of pf e] Cons.IH [of st'] show ?case by (simp split: sum.split)
qed simp

lemma started_wf: "server_wf (st\<lparr>rolesStarted := b\<rparr>) \<longleftrightarrow> server_wf st"
  by (simp add: server_wf_def)

lemma ensure_wf: "server_wf st \<Longrightarrow> server_wf (ensureSystemRoles pf st)"
  by (simp add: ensureSystemRoles_def sync_wf started_wf)

lemma destroy_wf: "server_wf st \<Longrightarrow> server_wf (destroySession pf token st)"
  by (simp add: destroySession_def delete_sessions_wf)

lemma destroy_user_wf: "server_wf st \<Longrightarrow> server_wf (destroyUserSessions uid e st)"
  by (simp add: destroyUserSessions_def delete_sessions_wf)

lemma createSession_wf: "server_wf st \<Longrightarrow> server_wf (snd (createSession pf now sid token uid ip ua st))"
  using create_session_wf [of st] by (simp add: createSession_def Let_def split: prod.splits sum.splits) (metis snd_conv)

lemma getSession_wf: "server_wf st \<Longrightarrow> server_wf (snd (getSessionFromToken pf now token st))"
  by (simp add: getSessionFromToken_def Let_def ensure_wf delete_sessions_wf split: option.split)

lemma sessionDays_bounds: "0 < sessionDays pf \<and> sessionDays pf \<le> 365"
  by (auto simp: sessionDays_def split: jsnum.splits)

lemma expires_at_bounds: "now \<le> expires_at pf now \<and> expires_at pf now \<le> now + 365 * 86400000"
proof -
  have "of_int now \<le> (of_int now + sessionDays pf * 24 * 60 * 60 * 1000 :: rat)"
    "(of_int now + sessionDays pf * 24 * 60 * 60 * 1000 :: rat) \<le> of_int (now + 365 * 86400000)"
    using sessionDays_bounds [of pf] by simp_all
  then show ?thesis
    unfolding expires_at_def by (simp add: le_floor_iff floor_le_iff del: of_int_add)
qed

text \<open>The users a database finds for a session, with the role, always exist.\<close>

lemma session_user_of_some:
  assumes "server_wf st" "u \<in> set (users st)"
  shows "\<exists>role. role_by_id (uRoleId u) st = Some role
     \<and> session_user_of u st = Some (toSessionUser u role (hosts_of (uId u) st) (guests_of (uId u) st))"
proof -
  have "uRoleId u \<in> roId ` set (roles st)" using assms by (auto simp: server_wf_def)
  then obtain role where "role_by_id (uRoleId u) st = Some role"
    using role_missing [of "uRoleId u" st] by auto
  then show ?thesis by (simp add: session_user_of_def)
qed

lemma toSessionUser_fields [simp]:
  "suId (toSessionUser u role hs gs) = uId u" "suUsername (toSessionUser u role hs gs) = uUsername u"
  by (simp_all add: toSessionUser_def Let_def)

section \<open>Properties\<close>

text \<open>
  C6: A session token is worth exactly this: the token is not empty, a stored row carries its hash,
  that row has not expired and its user is active; the session then holds the user with the scope
  of the stored access rows.  In every other case the caller gets none and, whatever the reason,
  no row with that hash is left.
\<close>

theorem getSession_exact:
  assumes "server_wf st" "token \<noteq> []"
  shows "case getSessionFromToken pf now (Some token) st of
      (None, st') \<Rightarrow>
        (\<nexists>rec u. rec \<in> set (sessions st) \<and> seTokenHash rec = sha256 pf token \<and> now \<le> seExpiresAt rec
           \<and> u \<in> set (users st) \<and> uId u = seUserId rec \<and> uStatus u = ACTIVE)
        \<and> session_by_hash (sha256 pf token) st' = None \<and> users st' = users st
    | (Some session, st') \<Rightarrow>
        (\<exists>rec u role. rec \<in> set (sessions st) \<and> seTokenHash rec = sha256 pf token \<and> now \<le> seExpiresAt rec
           \<and> u \<in> set (users st) \<and> uId u = seUserId rec \<and> uStatus u = ACTIVE
           \<and> role_by_id (uRoleId u) st' = Some role
           \<and> session = \<lparr>asId = seId rec, asUser = toSessionUser u role (hosts_of (uId u) st) (guests_of (uId u) st),
                asExpiresAt = seExpiresAt rec\<rparr>)
        \<and> st' = ensureSystemRoles pf st"
proof -
  define st1 where "st1 = ensureSystemRoles pf st"
  have wf1: "server_wf st1" unfolding st1_def by (rule ensure_wf [OF assms(1)])
  have same [simp]: "users st1 = users st" "sessions st1 = sessions st"
    "hosts_of uid st1 = hosts_of uid st" "guests_of uid st1 = guests_of uid st" for uid
    by (simp_all add: st1_def)
  note one = session_table.same_key_same_row [OF server_wfD(3) [OF wf1], of 1, simplified session_keys_def, simplified]
  show ?thesis
  proof (cases "session_by_hash (sha256 pf token) st1")
    case None
    then have "\<not> (\<exists>r \<in> set (sessions st). seTokenHash r = sha256 pf token)"
      using session_by_hash_iff [OF wf1, of "sha256 pf token"] by auto
    with None assms(2) show ?thesis
      by (auto simp: getSessionFromToken_def truthy_def st1_def [symmetric] Let_def)
  next
    case (Some rec)
    then have r: "rec \<in> set (sessions st)" "seTokenHash rec = sha256 pf token"
      using session_by_hash_iff [OF wf1] by auto
    then have uniq: "x = rec" if "x \<in> set (sessions st)" "seTokenHash x = sha256 pf token" for x
      using one [of x rec] that by simp
    have gone': "session_by_hash (sha256 pf token) (delete_sessions P st1) = None" if "P rec" for P
      using session_by_hash_iff [OF delete_sessions_wf [OF wf1, of P], of "sha256 pf token"] uniq that
      by (cases "session_by_hash (sha256 pf token) (delete_sessions P st1)") (auto simp: delete_sessions_def)
    obtain u where u: "u \<in> set (users st)" "uId u = seUserId rec"
      using r assms(1) by (force simp: server_wf_def)
    then have u1: "user_by_id (seUserId rec) st1 = Some u"
      using user_by_id_iff [OF wf1] by simp
    have uq: "y = u" if "y \<in> set (users st)" "uId y = seUserId rec" for y
      using user_by_id_iff [OF wf1, of "seUserId rec" y] u1 that by simp
    from session_user_of_some [OF wf1, of u] u obtain role where
      role: "role_by_id (uRoleId u) st1 = Some role"
        "session_user_of u st1 = Some (toSessionUser u role (hosts_of (uId u) st) (guests_of (uId u) st))"
      by auto
    consider "seExpiresAt rec < now" | "\<not> seExpiresAt rec < now" "uStatus u \<noteq> ACTIVE"
      | "\<not> seExpiresAt rec < now" "uStatus u = ACTIVE" by blast
    then show ?thesis
    proof cases
      case 1
      with Some assms(2) gone' uniq show ?thesis
        by (force simp: getSessionFromToken_def truthy_def st1_def [symmetric] Let_def delete_sessions_def)
    next
      case 2
      with Some assms(2) gone' uniq u1 uq show ?thesis
        by (force simp: getSessionFromToken_def truthy_def st1_def [symmetric] Let_def delete_sessions_def)
    next
      case 3
      then have "now \<le> seExpiresAt rec" by simp
      from 3 Some assms(2) u1 role have res: "getSessionFromToken pf now (Some token) st
          = (Some \<lparr>asId = seId rec, asUser = toSessionUser u role (hosts_of (uId u) st) (guests_of (uId u) st),
               asExpiresAt = seExpiresAt rec\<rparr>, st1)"
        by (simp add: getSessionFromToken_def truthy_def st1_def [symmetric] Let_def)
      show ?thesis
        unfolding res prod.case option.case using r u role(1) 3(2) \<open>now \<le> seExpiresAt rec\<close>
        by (intro conjI exI [of _ rec] exI [of _ u] exI [of _ role]) (simp_all add: st1_def)
    qed
  qed
qed

definition demo_platform :: platform where
  "demo_platform = \<lparr>sha256 = rev, bcrypt_hash = (\<lambda>p. ''h'' @ p), bcrypt_compare = (\<lambda>p h. h = ''h'' @ p),
     hmac_sha1 = (\<lambda>k m. replicate 20 5), encryptSecret = (\<lambda>s. Inr (rev s)), decryptSecret = (\<lambda>s. Inr (rev s)),
     cuid_for_role = (\<lambda>slug. slug), SESSION_DAYS = None\<rparr>"

definition demo_server :: server where
  "demo_server = \<lparr>
     users = [\<lparr>uId = ''u1'', uUsername = ''ann'', uEmail = ''ann@lan'', uPasswordHash = ''hpw'', uStatus = ACTIVE,
       uTotpEnabled = False, uTotpSecret = None, uTotpRecoveryHashes = [], uLastLoginAt = None, uRoleId = ''r1''\<rparr>],
     roles = [\<lparr>roId = ''r1'', roName = ''Ops'', roSlug = ''ops'', roDescription = [], roIsSystem = False, roPermissions = [''vm.view'']\<rparr>],
     sessions = [\<lparr>seId = ''s1'', seUserId = ''u1'', seTokenHash = ''abc'', seIp = None, seUserAgent = None, seExpiresAt = 100\<rparr>],
     hostAccess = [\<lparr>haHostId = ''h1'', haPermissions = Some [], haOverride = False, haUserId = ''u1''\<rparr>], guestAccess = [],
     hostIds = [''h1'', ''h2''], auditLogs = [], rolesStarted = True, rateBuckets = []\<rparr>"

lemma demo_server_wf: "server_wf demo_server"
  by (simp add: server_wf_def demo_server_def table_wf_def)

theorem getSession_exact_witness:
  "(case getSessionFromToken demo_platform 50 (Some ''cba'') demo_server of
      (None, st') \<Rightarrow> False
    | (Some session, st') \<Rightarrow> st' = ensureSystemRoles demo_platform demo_server)"
proof -
  have a: "\<exists>s st'. getSessionFromToken demo_platform 50 (Some ''cba'') demo_server = (Some s, st')"
    by (simp add: getSessionFromToken_def truthy_def ensureSystemRoles_def demo_server_def demo_platform_def session_by_hash_def
        find_row_def session_keys_def user_by_id_def user_keys_def session_user_of_def role_by_id_def role_keys_def Let_def)
  have "(''cba'' :: string) \<noteq> []" by simp
  from getSession_exact [OF demo_server_wf this, of demo_platform 50] a show ?thesis by auto
qed

text \<open>
  Login and logout meet: a session created for an active user is found again by its token at any
  later time up to its expiry, with the same row and the same user, expires within 365 days, and is
  worth nothing after it was destroyed.
\<close>

theorem session_round_trip:
  assumes "server_wf st" "token \<noteq> []" "user_by_id uid st = Some u" "uStatus u = ACTIVE"
    and created: "createSession pf now sid token uid ip ua st = (Inr (tok, e), st')"
    and later: "now' \<le> e"
  shows "tok = token \<and> now \<le> e \<and> e \<le> now + 365 * 86400000
     \<and> (\<exists>session. fst (getSessionFromToken pf now' (Some tok) st') = Some session
          \<and> asId session = sid \<and> suId (asUser session) = uid \<and> asExpiresAt session = e)
     \<and> fst (getSessionFromToken pf now'' (Some tok) (destroySession pf tok st')) = None"
proof -
  let ?r = "\<lparr>seId = sid, seUserId = uid, seTokenHash = sha256 pf token, seIp = ip, seUserAgent = ua,
    seExpiresAt = expires_at pf now\<rparr>"
  from created assms(3) obtain t where t: "add_row session_keys ?r (sessions st) = Some t"
    and st': "st' = st\<lparr>sessions := t\<rparr>" and tok: "tok = token" and e: "e = expires_at pf now"
    by (auto simp: createSession_def create_session_row_def Let_def split: option.splits)
  have wf': "server_wf st'"
    using createSession_wf [OF assms(1), of pf now sid token uid ip ua] created by simp
  have u: "u \<in> set (users st')" "uId u = uid"
    using assms(1,3) by (auto simp: user_by_id_iff st')
  have r: "?r \<in> set (sessions st')" using t by (auto simp: st' add_row_Some)
  have only: "x = ?r" if "x \<in> set (sessions st')" "seTokenHash x = sha256 pf token" for x
    using session_table.same_key_same_row [OF server_wfD(3) [OF wf'], of 1 x ?r] r that
    by (simp add: session_keys_def)
  have live: "\<exists>rec v. rec \<in> set (sessions st') \<and> seTokenHash rec = sha256 pf token \<and> now' \<le> seExpiresAt rec
      \<and> v \<in> set (users st') \<and> uId v = seUserId rec \<and> uStatus v = ACTIVE"
    using r u assms(4) later e by (intro exI [of _ ?r] exI [of _ u]) simp
  obtain o2 st2 where run: "getSessionFromToken pf now' (Some token) st' = (o2, st2)" by fastforce
  with getSession_exact [OF wf' assms(2), of pf now'] live have "o2 \<noteq> None" by (cases o2) (simp_all, blast)
  with run obtain session where got: "getSessionFromToken pf now' (Some token) st' = (Some session, st2)" by blast
  with getSession_exact [OF wf' assms(2), of pf now'] obtain rec v where
    v: "rec \<in> set (sessions st')" "seTokenHash rec = sha256 pf token" "v \<in> set (users st')" "uId v = seUserId rec"
      "asId session = seId rec" "suId (asUser session) = uId v" "asExpiresAt session = seExpiresAt rec"
    by auto
  from only [OF v(1,2)] v(4-7) have found: "asId session = sid" "suId (asUser session) = uid" "asExpiresAt session = e"
    by (simp_all add: e)
  have "session_by_hash (sha256 pf token) (destroySession pf token st') = None"
    using session_by_hash_iff [OF destroy_wf [OF wf', of pf token], of "sha256 pf token"]
    by (cases "session_by_hash (sha256 pf token) (destroySession pf token st')")
      (auto simp: destroySession_def delete_sessions_def)
  then have "fst (getSessionFromToken pf now'' (Some token) (destroySession pf token st')) = None"
    by (simp add: getSessionFromToken_def Let_def session_by_hash_def)
  with got found expires_at_bounds [of now pf] show ?thesis by (simp add: tok e)
qed

theorem session_round_trip_witness:
  "\<exists>tok e st'. createSession demo_platform 0 ''s2'' ''xyz'' ''u1'' None None demo_server = (Inr (tok, e), st')
     \<and> tok = ''xyz'' \<and> e = 7 * 86400000
     \<and> (\<exists>session. fst (getSessionFromToken demo_platform 5 (Some tok) st') = Some session \<and> suId (asUser session) = ''u1'')"
proof -
  have "sessionDays demo_platform = 7" by code_simp
  then have e0: "expires_at demo_platform 0 = 7 * 86400000" by (simp add: expires_at_def)
  have h: "sha256 demo_platform ''xyz'' = ''zyx''" by (simp add: demo_platform_def)
  obtain st' where c: "createSession demo_platform 0 ''s2'' ''xyz'' ''u1'' None None demo_server = (Inr (''xyz'', 7 * 86400000), st')"
    by (simp add: createSession_def e0 h create_session_row_def add_row_def keys_clash_def session_keys_def
        demo_server_def user_by_id_def user_keys_def find_row_def Let_def)
  obtain u where "user_by_id ''u1'' demo_server = Some u" "uStatus u = ACTIVE"
    by (simp add: demo_server_def user_by_id_def user_keys_def find_row_def)
  from session_round_trip [OF demo_server_wf _ this c, of 5] c show ?thesis by auto
qed

end
