(* ===== verification/UserService.thy ===== *)
theory UserService imports Sessions begin

text \<open>
  User and role administration: \<^verbatim>\<open>server/services/user-service.ts\<close>.  Inputs are the values the
  schemas let through; the schemas themselves are predicates, with the library's e-mail check as a
  parameter.  Only \<open>create\<close> with nested rows is atomic: the calls of \<open>updateUser\<close> run one by one,
  and what an earlier call did stays when a later one fails.
\<close>

section \<open>Inputs\<close>

record host_grant_input =
  hgHostId :: string
  hgPermissions :: "string list option"

record guest_scope_input =
  gsHostId :: string
  gsKind :: guest_kind
  gsVmid :: int
  gsPermissions :: "string list option"

record create_user_input =
  cuUsername :: string
  cuEmail :: string
  cuPassword :: string
  cuRoleId :: string
  cuHostIds :: "string list option"
  cuHosts :: "host_grant_input list option"
  cuGuests :: "guest_scope_input list option"

record update_user_input =
  uuEmail :: "string option"
  uuPassword :: "string option"
  uuRoleId :: "string option"
  uuStatus :: "user_status option"
  uuHostIds :: "string list option"
  uuHosts :: "host_grant_input list option"
  uuGuests :: "guest_scope_input list option"

record create_role_input =
  crName :: string
  crSlug :: string
  crDescription :: "string option"
  crPermissions :: "string list"

record update_role_input =
  urName :: "string option"
  urSlug :: "string option"
  urDescription :: "string option"
  urPermissions :: "string list option"

definition all_opt :: "('a \<Rightarrow> bool) \<Rightarrow> 'a option \<Rightarrow> bool" where
  "all_opt P x = (case x of None \<Rightarrow> True | Some v \<Rightarrow> P v)"

definition between :: "nat \<Rightarrow> nat \<Rightarrow> string \<Rightarrow> bool" where
  "between lo hi s \<longleftrightarrow> lo \<le> length s \<and> length s \<le> hi"

definition username_char :: "char \<Rightarrow> bool" where
  "username_char c \<longleftrightarrow> in_range 97 122 c \<or> in_range 65 90 c \<or> is_digit c \<or> c = CHR ''.'' \<or> c = CHR ''_'' \<or> c = CHR ''-''"

definition slug_char :: "char \<Rightarrow> bool" where
  "slug_char c \<longleftrightarrow> in_range 97 122 c \<or> is_digit c \<or> c = CHR ''-''"

definition hostGrantSchema :: "host_grant_input \<Rightarrow> bool" where
  "hostGrantSchema h \<longleftrightarrow> hgHostId h \<noteq> []"

definition guestScopeSchema :: "guest_scope_input \<Rightarrow> bool" where
  "guestScopeSchema g \<longleftrightarrow> gsHostId g \<noteq> [] \<and> 0 < gsVmid g"

definition createUserSchema :: "(string \<Rightarrow> bool) \<Rightarrow> create_user_input \<Rightarrow> bool" where
  "createUserSchema is_email i \<longleftrightarrow>
     between 2 40 (cuUsername i) \<and> list_all username_char (cuUsername i) \<and> is_email (cuEmail i)
     \<and> between 10 200 (cuPassword i) \<and> cuRoleId i \<noteq> []
     \<and> all_opt (list_all hostGrantSchema) (cuHosts i) \<and> all_opt (list_all guestScopeSchema) (cuGuests i)"

definition updateUserSchema :: "(string \<Rightarrow> bool) \<Rightarrow> update_user_input \<Rightarrow> bool" where
  "updateUserSchema is_email i \<longleftrightarrow>
     all_opt is_email (uuEmail i) \<and> all_opt (between 10 200) (uuPassword i) \<and> all_opt (\<lambda>r. r \<noteq> []) (uuRoleId i)
     \<and> all_opt (list_all hostGrantSchema) (uuHosts i) \<and> all_opt (list_all guestScopeSchema) (uuGuests i)"

definition createRoleSchema :: "create_role_input \<Rightarrow> bool" where
  "createRoleSchema i \<longleftrightarrow>
     between 2 60 (crName i) \<and> between 2 40 (crSlug i) \<and> list_all slug_char (crSlug i)
     \<and> all_opt (\<lambda>d. length d \<le> 400) (crDescription i)"

text \<open>\<open>createRoleSchema.partial()\<close>.\<close>

definition updateRoleSchema :: "update_role_input \<Rightarrow> bool" where
  "updateRoleSchema i \<longleftrightarrow>
     all_opt (between 2 60) (urName i) \<and> all_opt (\<lambda>s. between 2 40 s \<and> list_all slug_char s) (urSlug i)
     \<and> all_opt (\<lambda>d. length d \<le> 400) (urDescription i)"

section \<open>Rows and answers\<close>

record guest_grant = guest_ref +
  ggPermissions :: "string list option"

definition toGuestGrants :: "guest_access_grant list \<Rightarrow> guest_grant list" where
  "toGuestGrants rows = concat (map (\<lambda>g.
     case parseGuestKind (gaKind g) of None \<Rightarrow> []
     | Some kind \<Rightarrow> [\<lparr>refHostId = gaHostId g, refKind = kind, refVmid = gaVmid g,
         ggPermissions = (if gaOverride g then Some (sanitizePermissions (case gaPermissions g of None \<Rightarrow> [] | Some p \<Rightarrow> p)) else None)\<rparr>]) rows)"

definition guestRowsFromInput :: "guest_scope_input list option \<Rightarrow> guest_access_grant list" where
  "guestRowsFromInput guests = map (\<lambda>g.
     \<lparr>gaHostId = gsHostId g, gaKind = kind_str (gsKind g), gaVmid = gsVmid g,
      gaPermissions = Some (case gsPermissions g of None \<Rightarrow> [] | Some p \<Rightarrow> normalizeGuestPermissions (gsKind g) p),
      gaOverride = (gsPermissions g \<noteq> None)\<rparr>) (case guests of None \<Rightarrow> [] | Some gs \<Rightarrow> gs)"

definition toHostGrants :: "host_access_grant list \<Rightarrow> host_grant_input list" where
  "toHostGrants rows = map (\<lambda>h.
     \<lparr>hgHostId = haHostId h,
      hgPermissions = (if haOverride h then Some (sanitizePermissions (case haPermissions h of None \<Rightarrow> [] | Some p \<Rightarrow> p)) else None)\<rparr>) rows"

definition hostRowsFromInput :: "host_grant_input list option \<Rightarrow> string list option \<Rightarrow> host_access_grant list" where
  "hostRowsFromInput hosts ids =
     (case hosts of
        Some (h # hs) \<Rightarrow> map (\<lambda>h. \<lparr>haHostId = hgHostId h,
             haPermissions = Some (case hgPermissions h of None \<Rightarrow> [] | Some p \<Rightarrow> sanitizePermissions p),
             haOverride = (hgPermissions h \<noteq> None)\<rparr>) (h # hs)
      | _ \<Rightarrow> (case ids of
            Some (i # is) \<Rightarrow> map (\<lambda>hostId. \<lparr>haHostId = hostId, haPermissions = Some [], haOverride = False\<rparr>) (i # is)
          | _ \<Rightarrow> []))"

text \<open>What the API returns for a user: the row without password hash and TOTP secret, every other
  column as it is, and the grants.\<close>

record user_dto =
  dtoId :: string
  dtoUsername :: string
  dtoEmail :: string
  dtoStatus :: user_status
  dtoTotpEnabled :: bool
  dtoTotpRecoveryHashes :: "string list"
  dtoLastLoginAt :: "int option"
  dtoRole :: role_row
  dtoHostIds :: "string list"
  dtoHosts :: "host_grant_input list"
  dtoGuests :: "guest_grant list"

definition withScope :: "user_row \<Rightarrow> role_row \<Rightarrow> host_access_grant list \<Rightarrow> guest_access_grant list \<Rightarrow> user_dto" where
  "withScope u role hs gs =
     (let hosts = toHostGrants hs in
      \<lparr>dtoId = uId u, dtoUsername = uUsername u, dtoEmail = uEmail u, dtoStatus = uStatus u,
       dtoTotpEnabled = uTotpEnabled u, dtoTotpRecoveryHashes = uTotpRecoveryHashes u, dtoLastLoginAt = uLastLoginAt u,
       dtoRole = role, dtoHostIds = map hgHostId hosts, dtoHosts = hosts, dtoGuests = toGuestGrants gs\<rparr>)"

definition user_answer :: "string \<Rightarrow> server \<Rightarrow> js_error + user_dto" where
  "user_answer uid st =
     (case user_by_id uid st of None \<Rightarrow> Inl (OtherError ''P2025'')
      | Some u \<Rightarrow> (case role_by_id (uRoleId u) st of None \<Rightarrow> Inl (OtherError ''P2025'')
          | Some role \<Rightarrow> Inr (withScope u role (hosts_of uid st) (guests_of uid st))))"

section \<open>Users\<close>

definition host_row_for :: "string \<Rightarrow> host_access_grant \<Rightarrow> user_host_access" where
  "host_row_for uid h = host_access_grant.extend h (user_host_access.fields uid)"

definition guest_row_for :: "string \<Rightarrow> guest_access_grant \<Rightarrow> user_guest_access" where
  "guest_row_for uid g = guest_access_grant.extend g (user_guest_access.fields uid)"

text \<open>\<open>uid\<close> is the id the database generates for the new row.\<close>

definition createUser :: "platform \<Rightarrow> string \<Rightarrow> create_user_input \<Rightarrow> server \<Rightarrow> (js_error + user_dto) \<times> server" where
  "createUser pf uid i st =
     (if list_ex (\<lambda>u. uUsername u = cuUsername i \<or> uEmail u = cuEmail i) (users st)
      then (Inl (ConflictError ''Username or email already exists''), st)
      else if role_by_id (cuRoleId i) st = None then (Inl (ValidationError ''Role not found''), st)
      else
        (case create_user_row
            \<lparr>uId = uid, uUsername = cuUsername i, uEmail = cuEmail i, uPasswordHash = bcrypt_hash pf (cuPassword i),
             uStatus = ACTIVE, uTotpEnabled = False, uTotpSecret = None, uTotpRecoveryHashes = [], uLastLoginAt = None,
             uRoleId = cuRoleId i\<rparr>
            (map (host_row_for uid) (hostRowsFromInput (cuHosts i) (cuHostIds i)))
            (map (guest_row_for uid) (guestRowsFromInput (cuGuests i))) st of
           (Inl e, st') \<Rightarrow> (Inl e, st')
         | (Inr _, st') \<Rightarrow> (user_answer uid st', st')))"

definition set_if :: "'a option \<Rightarrow> ('a \<Rightarrow> 'r \<Rightarrow> 'r) \<Rightarrow> 'r \<Rightarrow> 'r" where
  "set_if v f r = (case v of None \<Rightarrow> r | Some x \<Rightarrow> f x r)"

definition nonempty :: "string option \<Rightarrow> string option" where
  "nonempty v = (if truthy v then v else None)"

definition replace_hosts :: "string \<Rightarrow> update_user_input \<Rightarrow> server \<Rightarrow> (js_error + unit) \<times> server" where
  "replace_hosts uid i st =
     (if uuHosts i = None \<and> uuHostIds i = None then (Inr (), st)
      else (let rows = hostRowsFromInput (uuHosts i) (uuHostIds i);
                st1 = st\<lparr>hostAccess := drop_rows (\<lambda>h. haUserId h = uid) (hostAccess st)\<rparr>
            in if rows = [] then (Inr (), st1) else create_host_rows (map (host_row_for uid) rows) st1))"

definition replace_guests :: "string \<Rightarrow> update_user_input \<Rightarrow> server \<Rightarrow> (js_error + unit) \<times> server" where
  "replace_guests uid i st =
     (case uuGuests i of None \<Rightarrow> (Inr (), st)
      | Some gs \<Rightarrow>
          (let st1 = st\<lparr>guestAccess := drop_rows (\<lambda>g. gaUserId g = uid) (guestAccess st)\<rparr>
           in if gs = [] then (Inr (), st1)
              else create_guest_rows (map (guest_row_for uid) (guestRowsFromInput (uuGuests i))) st1))"

definition update_columns :: "platform \<Rightarrow> update_user_input \<Rightarrow> user_row \<Rightarrow> user_row" where
  "update_columns pf i u =
     set_if (nonempty (uuEmail i)) (\<lambda>v r. r\<lparr>uEmail := v\<rparr>)
       (set_if (nonempty (uuRoleId i)) (\<lambda>v r. r\<lparr>uRoleId := v\<rparr>)
         (set_if (uuStatus i) (\<lambda>v r. r\<lparr>uStatus := v\<rparr>)
           (set_if (nonempty (uuPassword i)) (\<lambda>v r. r\<lparr>uPasswordHash := bcrypt_hash pf v\<rparr>) u)))"

definition updateUser :: "platform \<Rightarrow> string \<Rightarrow> update_user_input \<Rightarrow> server \<Rightarrow> (js_error + user_dto) \<times> server" where
  "updateUser pf uid i st =
     (if user_by_id uid st = None then (Inl (NotFoundError ''User not found''), st)
      else case update_user_row uid (update_columns pf i) st of
        (Inl e, st1) \<Rightarrow> (Inl e, st1)
      | (Inr _, st1) \<Rightarrow>
          (let st2 = (if truthy (uuPassword i) \<or> uuStatus i = Some DISABLED then destroyUserSessions uid None st1 else st1) in
           case replace_hosts uid i st2 of
             (Inl e, st3) \<Rightarrow> (Inl e, st3)
           | (Inr _, st3) \<Rightarrow>
               (case replace_guests uid i st3 of
                  (Inl e, st4) \<Rightarrow> (Inl e, st4)
                | (Inr _, st4) \<Rightarrow> (user_answer uid st4, st4))))"

definition deleteUser :: "string \<Rightarrow> string \<Rightarrow> server \<Rightarrow> (js_error + unit) \<times> server" where
  "deleteUser uid actorId st =
     (if uid = actorId then (Inl (ValidationError ''You cannot delete your own account''), st)
      else if user_by_id uid st = None then (Inl (NotFoundError ''User not found''), st)
      else (Inr (), delete_user_row uid st))"

text \<open>\<open>collation\<close> is the sort key of the database's text order.\<close>

definition listUsers :: "(string \<Rightarrow> 'k::linorder) \<Rightarrow> server \<Rightarrow> user_dto list" where
  "listUsers collation st =
     concat (map (\<lambda>u. case role_by_id (uRoleId u) st of None \<Rightarrow> []
         | Some role \<Rightarrow> [withScope u role (hosts_of (uId u) st) (guests_of (uId u) st)])
       (sort_key (\<lambda>u. collation (uUsername u)) (users st)))"

section \<open>Roles\<close>

definition listRoles :: "(string \<Rightarrow> 'k::linorder) \<Rightarrow> server \<Rightarrow> (role_row \<times> nat) list" where
  "listRoles collation st = map (\<lambda>r. (r, length (filter (\<lambda>u. uRoleId u = roId r) (users st)))) (sort_key (\<lambda>r. collation (roName r)) (roles st))"

definition createRole :: "string \<Rightarrow> create_role_input \<Rightarrow> server \<Rightarrow> (js_error + role_row) \<times> server" where
  "createRole rid i st =
     (let row = \<lparr>roId = rid, roName = crName i, roSlug = crSlug i,
          roDescription = (case crDescription i of None \<Rightarrow> [] | Some d \<Rightarrow> d),
          roIsSystem = False, roPermissions = sanitizePermissions (crPermissions i)\<rparr> in
      case create_role_row row st of
        (Inl e, st') \<Rightarrow> (Inl e, st')
      | (Inr _, st') \<Rightarrow> (Inr row, st'))"

definition role_columns :: "update_role_input \<Rightarrow> role_row \<Rightarrow> role_row" where
  "role_columns i r =
     set_if (urName i) (\<lambda>v r. r\<lparr>roName := v\<rparr>)
       (set_if (urDescription i) (\<lambda>v r. r\<lparr>roDescription := v\<rparr>)
         (set_if (urPermissions i) (\<lambda>v r. r\<lparr>roPermissions := sanitizePermissions v\<rparr>) r))"

definition updateRole :: "string \<Rightarrow> update_role_input \<Rightarrow> server \<Rightarrow> (js_error + role_row) \<times> server" where
  "updateRole rid i st =
     (case role_by_id rid st of None \<Rightarrow> (Inl (NotFoundError ''Role not found''), st)
      | Some role \<Rightarrow>
          if roIsSystem role \<and> truthy (urSlug i) \<and> urSlug i \<noteq> Some (roSlug role)
          then (Inl (ValidationError ''System roles cannot be renamed''), st)
          else (case update_role_row rid (role_columns i) st of
                  (Inl e, st') \<Rightarrow> (Inl e, st')
                | (Inr _, st') \<Rightarrow> (Inr (role_columns i role), st')))"

definition deleteRole :: "string \<Rightarrow> server \<Rightarrow> (js_error + unit) \<times> server" where
  "deleteRole rid st =
     (case role_by_id rid st of None \<Rightarrow> (Inl (NotFoundError ''Role not found''), st)
      | Some role \<Rightarrow>
          if roIsSystem role then (Inl (ValidationError ''System roles cannot be deleted''), st)
          else if 0 < length (filter (\<lambda>u. uRoleId u = rid) (users st))
          then (Inl (ValidationError ''Role is still assigned to users''), st)
          else delete_role_row rid st)"

section \<open>What every operation keeps\<close>

definition system_roles :: "server \<Rightarrow> (string \<times> string) set" where
  "system_roles st = (\<lambda>r. (roId r, roSlug r)) ` {r \<in> set (roles st). roIsSystem r}"

definition keeps :: "server \<Rightarrow> server \<Rightarrow> bool" where
  "keeps st st' \<longleftrightarrow> server_wf st \<longrightarrow> server_wf st' \<and> system_roles st \<subseteq> system_roles st' \<and> hostIds st' = hostIds st"

named_theorems keeps_rules

lemma keeps_refl [keeps_rules]: "keeps st st"
  by (simp add: keeps_def)

lemma keeps_trans: "keeps a b \<Longrightarrow> keeps b c \<Longrightarrow> keeps a c"
  by (auto simp: keeps_def)

lemma keeps_same_roles:
  assumes "server_wf st \<Longrightarrow> server_wf st'" "roles st' = roles st" "hostIds st' = hostIds st"
  shows "keeps st st'"
  using assms by (simp add: keeps_def system_roles_def)

lemma keeps_audit [keeps_rules]: "keeps st (writeAuditLog a st)"
  by (rule keeps_same_roles) (simp_all add: audit_wf)

lemma keeps_delete_sessions [keeps_rules]: "keeps st (delete_sessions P st)"
  by (rule keeps_same_roles) (simp add: delete_sessions_wf, simp_all add: delete_sessions_def)

lemma keeps_create_session:
  assumes "create_session_row r st = (res, st')"
  shows "keeps st st'"
proof (rule keeps_same_roles)
  show "server_wf st \<Longrightarrow> server_wf st'" using create_session_wf [of st r] assms by simp
qed (use assms in \<open>auto simp: create_session_row_def split: if_splits option.splits\<close>)

lemma keeps_update_user:
  assumes "update_user_row uid f st = (res, st')" "\<And>u. uId (f u) = uId u"
  shows "keeps st st'"
proof (rule keeps_same_roles)
  show "server_wf st \<Longrightarrow> server_wf st'" using update_user_wf [of st f uid] assms by simp
qed (use assms(1) in \<open>auto simp: update_user_row_def Let_def split: if_splits\<close>)

lemma keeps_host_rows:
  assumes "create_host_rows rs st = (res, st')"
  shows "keeps st st'"
proof (rule keeps_same_roles)
  show "server_wf st \<Longrightarrow> server_wf st'" using create_host_rows_wf [of st rs] assms by simp
qed (use assms in \<open>auto simp: create_host_rows_def split: if_splits option.splits\<close>)

lemma keeps_guest_rows:
  assumes "create_guest_rows rs st = (res, st')"
  shows "keeps st st'"
proof (rule keeps_same_roles)
  show "server_wf st \<Longrightarrow> server_wf st'" using create_guest_rows_wf [of st rs] assms by simp
qed (use assms in \<open>auto simp: create_guest_rows_def split: if_splits option.splits\<close>)

lemma create_rows_fields:
  "create_host_rows rs st = (res, st') \<Longrightarrow> roles st' = roles st \<and> hostIds st' = hostIds st \<and> sessions st' = sessions st
     \<and> users st' = users st \<and> guestAccess st' = guestAccess st"
  "create_guest_rows gs st = (res, st') \<Longrightarrow> roles st' = roles st \<and> hostIds st' = hostIds st \<and> sessions st' = sessions st
     \<and> users st' = users st \<and> hostAccess st' = hostAccess st"
  by (auto simp: create_host_rows_def create_guest_rows_def split: if_splits option.splits)

lemma create_user_row_fields:
  assumes "create_user_row u hs gs st = (res, st')"
  shows "roles st' = roles st \<and> hostIds st' = hostIds st \<and> sessions st' = sessions st"
  using assms
  by (auto simp: create_user_row_def split: if_splits option.splits prod.splits sum.splits dest!: create_rows_fields)

lemma keeps_create_user:
  assumes "create_user_row u hs gs st = (res, st')"
  shows "keeps st st'"
proof (rule keeps_same_roles)
  show "server_wf st \<Longrightarrow> server_wf st'" using create_user_wf [of st u hs gs] assms by simp
qed (use create_user_row_fields [OF assms] in auto)

lemma keeps_delete_user [keeps_rules]: "keeps st (delete_user_row uid st)"
  by (rule keeps_same_roles) (simp add: delete_user_wf, simp_all add: delete_user_row_def)

lemma keeps_create_role:
  assumes "create_role_row r st = (res, st')"
  shows "keeps st st'"
proof -
  have "server_wf st \<Longrightarrow> server_wf st'" using create_role_wf [of st r] assms by simp
  with assms show ?thesis
    by (auto simp: keeps_def create_role_row_def system_roles_def add_row_Some split: option.splits)
qed

text \<open>An update keeps id, slug and a set system mark; a delete only takes roles that are not system roles.\<close>

lemma keeps_update_role:
  assumes "update_role_row rid f st = (res, st')"
    and "\<And>r. roId (f r) = roId r" "\<And>r. roSlug (f r) = roSlug r" "\<And>r. roIsSystem r \<Longrightarrow> roIsSystem (f r)"
  shows "keeps st st'"
proof -
  have "server_wf st \<Longrightarrow> server_wf st'" using update_role_wf [of st f rid] assms(1,2) by simp
  moreover have "(roId r, roSlug r) \<in> (\<lambda>r. (roId r, roSlug r)) ` {r \<in> set (change_rows P f t). roIsSystem r}"
    if "r \<in> set t" "roIsSystem r" for r P t
    using that assms(2-4) by (intro image_eqI [where x = "if P r then f r else r"]) (auto simp: set_change_rows)
  ultimately show ?thesis
    using assms(1) by (auto simp: keeps_def update_role_row_def system_roles_def Let_def split: if_splits)
qed

lemma update_columns_id: "uId (update_columns pf i u) = uId u"
  by (simp add: update_columns_def set_if_def split: option.split)

lemma drop_access_wf:
  "server_wf st \<Longrightarrow> server_wf (st\<lparr>hostAccess := drop_rows P (hostAccess st)\<rparr>)"
  "server_wf st \<Longrightarrow> server_wf (st\<lparr>guestAccess := drop_rows Q (guestAccess st)\<rparr>)"
  by (auto simp: server_wf_def intro: host_access_table.delete_wf guest_access_table.delete_wf)

lemma keeps_drop_access [keeps_rules]:
  "keeps st (st\<lparr>hostAccess := drop_rows P (hostAccess st)\<rparr>)" "keeps st (st\<lparr>guestAccess := drop_rows Q (guestAccess st)\<rparr>)"
  by (rule keeps_same_roles; simp add: drop_access_wf)+

lemma keeps_replace_hosts: "replace_hosts uid i st = (res, st') \<Longrightarrow> keeps st st'"
  by (auto simp: replace_hosts_def Let_def split: if_splits
      intro: keeps_rules keeps_trans [OF keeps_drop_access(1) keeps_host_rows])

lemma keeps_replace_guests: "replace_guests uid i st = (res, st') \<Longrightarrow> keeps st st'"
  by (auto simp: replace_guests_def Let_def split: if_splits option.splits
      intro: keeps_rules keeps_trans [OF keeps_drop_access(2) keeps_guest_rows])

lemma keeps_destroy_user [keeps_rules]: "keeps st (destroyUserSessions uid e st)"
  by (simp add: destroyUserSessions_def keeps_delete_sessions)

lemma keeps_destroy [keeps_rules]: "keeps st (destroySession pf token st)"
  by (simp add: destroySession_def keeps_delete_sessions)

section \<open>Properties\<close>

lemma host_row_for_fields [simp]:
  "haUserId (host_row_for uid h) = uid" "haHostId (host_row_for uid h) = haHostId h"
  "host_access_grant.truncate (host_row_for uid h) = h"
  by (simp_all add: host_row_for_def host_access_grant.defs user_host_access.defs)

lemma guest_row_for_fields [simp]:
  "gaUserId (guest_row_for uid g) = uid" "gaHostId (guest_row_for uid g) = gaHostId g"
  "guest_access_grant.truncate (guest_row_for uid g) = g"
  by (simp_all add: guest_row_for_def guest_access_grant.defs user_guest_access.defs)

lemma create_host_rows_append: "create_host_rows rs st = (Inr x, st') \<Longrightarrow> hostAccess st' = hostAccess st @ rs"
  by (auto simp: create_host_rows_def split: if_splits option.splits dest!: add_rows_append)

lemma create_guest_rows_append: "create_guest_rows rs st = (Inr x, st') \<Longrightarrow> guestAccess st' = guestAccess st @ rs"
  by (auto simp: create_guest_rows_def split: if_splits option.splits dest!: add_rows_append)

text \<open>
  A created account is what was asked for: exactly one user row is added, active, with the asked
  name and role, and the host and guest rows the database then holds for its id are those of the
  input in order; nothing that was left from an earlier user can leak into its scope.
\<close>

theorem createUser_effect:
  assumes wf: "server_wf st" and run: "createUser pf uid i st = (Inr dto, st')"
  shows "hosts_of uid st' = hostRowsFromInput (cuHosts i) (cuHostIds i)
     \<and> guests_of uid st' = guestRowsFromInput (cuGuests i)
     \<and> (\<exists>u. users st' = users st @ [u] \<and> uId u = uid \<and> uUsername u = cuUsername i \<and> uRoleId u = cuRoleId i
          \<and> uStatus u = ACTIVE \<and> \<not> uTotpEnabled u \<and> uPasswordHash u = bcrypt_hash pf (cuPassword i))
     \<and> uid \<notin> uId ` set (users st) \<and> cuUsername i \<notin> uUsername ` set (users st)"
proof -
  let ?u = "\<lparr>uId = uid, uUsername = cuUsername i, uEmail = cuEmail i, uPasswordHash = bcrypt_hash pf (cuPassword i),
     uStatus = ACTIVE, uTotpEnabled = False, uTotpSecret = None, uTotpRecoveryHashes = [], uLastLoginAt = None,
     uRoleId = cuRoleId i\<rparr>"
  let ?hs = "hostRowsFromInput (cuHosts i) (cuHostIds i)" and ?gs = "guestRowsFromInput (cuGuests i)"
  from run obtain t r1 st1 x where t: "add_row user_keys ?u (users st) = Some t"
    and h: "create_host_rows (map (host_row_for uid) ?hs) (st\<lparr>users := t\<rparr>) = (Inr r1, st1)"
    and g: "create_guest_rows (map (guest_row_for uid) ?gs) st1 = (Inr x, st')"
    by (auto simp: createUser_def create_user_row_def split: if_splits option.splits prod.splits sum.splits)
  have new: "uid \<notin> uId ` set (users st)" "cuUsername i \<notin> uUsername ` set (users st)"
    using t by (auto simp: add_row_Some keys_clash_def user_keys_def)
  have users': "users st' = users st @ [?u]"
    using t create_rows_fields(1) [OF h] create_rows_fields(2) [OF g] by (simp add: add_row_Some)
  have ha: "hostAccess st' = hostAccess st @ map (host_row_for uid) ?hs"
    using create_host_rows_append [OF h] create_rows_fields(2) [OF g] by simp
  have ga: "guestAccess st' = guestAccess st @ map (guest_row_for uid) ?gs"
    using create_guest_rows_append [OF g] create_rows_fields(1) [OF h] by simp
  have "filter (\<lambda>h. haUserId h = uid) (hostAccess st) = []" "filter (\<lambda>g. gaUserId g = uid) (guestAccess st) = []"
    using wf new(1) by (auto simp: server_wf_def filter_empty_conv)
  then have "hosts_of uid st' = ?hs" "guests_of uid st' = ?gs"
    by (simp_all add: hosts_of_def guests_of_def ha ga comp_def filter_map)
  with users' new show ?thesis by simp
qed

definition demo_new_user :: create_user_input where
  "demo_new_user = \<lparr>cuUsername = ''bob'', cuEmail = ''b@lan'', cuPassword = ''0123456789'', cuRoleId = ''r1'',
     cuHostIds = Some [''h2''], cuHosts = None, cuGuests = None\<rparr>"

theorem createUser_effect_witness:
  "\<exists>dto st'. createUser demo_platform ''u2'' demo_new_user demo_server = (Inr dto, st')
     \<and> map haHostId (hosts_of ''u2'' st') = [''h2''] \<and> guests_of ''u2'' st' = []"
proof -
  obtain dto st' where run: "createUser demo_platform ''u2'' demo_new_user demo_server = (Inr dto, st')"
    by (simp add: createUser_def demo_new_user_def demo_server_def demo_platform_def create_user_row_def role_by_id_def role_keys_def
        find_row_def add_row_def keys_clash_def user_keys_def create_host_rows_def create_guest_rows_def hostRowsFromInput_def
        guestRowsFromInput_def host_row_for_def host_access_grant.defs user_host_access.defs host_access_keys_def user_by_id_def
        user_answer_def Let_def)
  from createUser_effect [OF demo_server_wf run] run show ?thesis
    by (auto simp: demo_new_user_def hostRowsFromInput_def guestRowsFromInput_def)
qed

text \<open>
  The user list of the API carries, for every user, the stored hashes of the two-factor recovery
  codes, so each holder of \<open>users.view\<close> reads them; only the password hash and the TOTP secret are
  taken out.
\<close>

theorem listUsers_carries_recovery_hashes:
  assumes "server_wf st" "u \<in> set (users st)"
  shows "\<exists>dto \<in> set (listUsers collation st). dtoId dto = uId u \<and> dtoTotpRecoveryHashes dto = uTotpRecoveryHashes u"
proof -
  obtain role where "role_by_id (uRoleId u) st = Some role" using session_user_of_some [OF assms] by blast
  then have "withScope u role (hosts_of (uId u) st) (guests_of (uId u) st) \<in> set (listUsers collation st)"
    using assms(2) by (auto simp: listUsers_def intro!: bexI [of _ u])
  then show ?thesis
    by (intro bexI [where x = "withScope u role (hosts_of (uId u) st) (guests_of (uId u) st)"]) (simp_all add: withScope_def Let_def)
qed

theorem listUsers_carries_recovery_hashes_witness:
  "\<exists>u. u \<in> set (users demo_server)
     \<and> (\<exists>dto \<in> set (listUsers length demo_server). dtoId dto = uId u \<and> dtoTotpRecoveryHashes dto = uTotpRecoveryHashes u)"
proof -
  obtain u where "u \<in> set (users demo_server)" by (simp add: demo_server_def)
  with listUsers_carries_recovery_hashes [OF demo_server_wf this, of length] show ?thesis by blast
qed

end
