(* ===== verification/Json.thy ===== *)
theory Json imports JsValue begin

text \<open>
  \<open>JSON.stringify\<close> and \<open>JSON.parse\<close> of the language, over Latin-1 text (an escape above
  U+00FF is refused, as no character of the model stands for it).  A duplicate member keeps its
  first place and takes the last value.
\<close>

section \<open>Printing\<close>

abbreviation dquote :: char where
  "dquote \<equiv> CHR 0x22"

abbreviation backslash :: char where
  "backslash \<equiv> CHR 0x5C"

definition json_hex :: "nat \<Rightarrow> char" where
  "json_hex d = char_of (if d < 10 then 48 + d else 87 + d)"

definition json_escape :: "char \<Rightarrow> string" where
  "json_escape c =
     (let n = of_char c :: nat in
      if n = 34 then [backslash, dquote]
      else if n = 92 then [backslash, backslash]
      else if n = 8 then backslash # ''b''
      else if n = 9 then backslash # ''t''
      else if n = 10 then backslash # ''n''
      else if n = 12 then backslash # ''f''
      else if n = 13 then backslash # ''r''
      else if n < 32 then backslash # ''u00'' @ [json_hex (n div 16), json_hex (n mod 16)]
      else [c])"

definition json_quote :: "string \<Rightarrow> string" where
  "json_quote s = dquote # concat (map json_escape s) @ [dquote]"

fun json_str :: "js \<Rightarrow> string" where
  "json_str JUndef = ''null''"
| "json_str JNull = ''null''"
| "json_str (JBool b) = (if b then ''true'' else ''false'')"
| "json_str (JNum n) = (if isFiniteNum n then num_str n else ''null'')"
| "json_str (JStr s) = json_quote s"
| "json_str (JArr xs) = ''['' @ join '','' (map json_str xs) @ '']''"
| "json_str (JObj r) =
     ''{'' @ join '','' (map (\<lambda>(k, v). json_quote k @ '':'' @ json_str v) (filter (\<lambda>kv. snd kv \<noteq> JUndef) r)) @ ''}''"

section \<open>Parsing\<close>

definition json_ws :: "char \<Rightarrow> bool" where
  "json_ws c \<longleftrightarrow> (of_char c :: nat) \<in> {9, 10, 13, 32}"

definition skip_ws :: "string \<Rightarrow> string" where
  "skip_ws s = dropWhile json_ws s"

definition plain_escape :: "char \<Rightarrow> char option" where
  "plain_escape c =
     (if c = dquote \<or> c = backslash \<or> c = CHR ''/'' then Some c
      else if c = CHR ''b'' then Some (char_of (8::nat))
      else if c = CHR ''t'' then Some (char_of (9::nat))
      else if c = CHR ''n'' then Some (char_of (10::nat))
      else if c = CHR ''f'' then Some (char_of (12::nat))
      else if c = CHR ''r'' then Some (char_of (13::nat)) else None)"

text \<open>The rest of a string literal after its opening quote.\<close>

fun json_chars :: "string \<Rightarrow> (string \<times> string) option" where
  "json_chars [] = None"
| "json_chars (c # s) =
     (if c = dquote then Some ([], s)
      else if c = backslash then
        (case s of [] \<Rightarrow> None
         | e # t \<Rightarrow>
            (case plain_escape e of
               Some d \<Rightarrow> map_option (\<lambda>(u, r). (d # u, r)) (json_chars t)
             | None \<Rightarrow>
                 (if e \<noteq> CHR ''u'' then None
                  else case t of
                    a # b # x # y # r \<Rightarrow>
                      (case radix_value 16 0 [a, b, x, y] of None \<Rightarrow> None
                       | Some v \<Rightarrow> if v < 256 then map_option (\<lambda>(u, r'). (char_of v # u, r')) (json_chars r) else None)
                  | _ \<Rightarrow> None)))
      else if of_char c < (32::nat) then None
      else map_option (\<lambda>(u, r). (c # u, r)) (json_chars s))"

definition number_char :: "char \<Rightarrow> bool" where
  "number_char c \<longleftrightarrow> is_digit c \<or> c \<in> {CHR ''-'', CHR ''+'', CHR ''.'', CHR ''e'', CHR ''E''}"

text \<open>The grammar of a number after its sign: no leading zero, digits after a point.\<close>

definition json_number_ok :: "string \<Rightarrow> bool" where
  "json_number_ok u =
     (let ip = takeWhile is_digit u; r = dropWhile is_digit u in
      ip \<noteq> [] \<and> (hd ip = CHR ''0'' \<longrightarrow> length ip = 1)
      \<and> (r \<noteq> [] \<and> hd r = CHR ''.'' \<longrightarrow> takeWhile is_digit (tl r) \<noteq> []))"

definition json_number :: "string \<Rightarrow> jsnum option" where
  "json_number tok =
     (let neg = (tok \<noteq> [] \<and> hd tok = CHR ''-''); u = (if neg then tl tok else tok) in
      if json_number_ok u then map_option (\<lambda>r. Fin (if neg then - r else r)) (decimal_value u) else None)"

fun json_value :: "nat \<Rightarrow> string \<Rightarrow> (js \<times> string) option"
  and json_items :: "nat \<Rightarrow> string \<Rightarrow> (js list \<times> string) option"
  and json_members :: "nat \<Rightarrow> js_record \<Rightarrow> string \<Rightarrow> (js_record \<times> string) option" where
  "json_value 0 s = None"
| "json_value (Suc n) s =
     (case skip_ws s of [] \<Rightarrow> None
      | c # t \<Rightarrow>
        if c = dquote then map_option (\<lambda>(u, r). (JStr u, r)) (json_chars t)
        else if c = CHR ''['' then
          (if starts_with (skip_ws t) '']'' then Some (JArr [], tl (skip_ws t))
           else map_option (\<lambda>(xs, r). (JArr xs, r)) (json_items n t))
        else if c = CHR ''{'' then
          (if starts_with (skip_ws t) ''}'' then Some (JObj [], tl (skip_ws t))
           else map_option (\<lambda>(m, r). (JObj m, r)) (json_members n [] t))
        else if starts_with (c # t) ''true'' then Some (JBool True, drop 4 (c # t))
        else if starts_with (c # t) ''false'' then Some (JBool False, drop 5 (c # t))
        else if starts_with (c # t) ''null'' then Some (JNull, drop 4 (c # t))
        else map_option (\<lambda>v. (JNum v, dropWhile number_char (c # t))) (json_number (takeWhile number_char (c # t))))"
| "json_items 0 s = None"
| "json_items (Suc n) s =
     (case json_value n s of None \<Rightarrow> None
      | Some (v, r) \<Rightarrow>
         (case skip_ws r of [] \<Rightarrow> None
          | c # r' \<Rightarrow>
             if c = CHR '','' then map_option (\<lambda>(vs, r2). (v # vs, r2)) (json_items n r')
             else if c = CHR '']'' then Some ([v], r') else None))"
| "json_members 0 acc s = None"
| "json_members (Suc n) acc s =
     (case skip_ws s of [] \<Rightarrow> None
      | q # t \<Rightarrow>
         if q \<noteq> dquote then None
         else (case json_chars t of None \<Rightarrow> None
           | Some (k, r) \<Rightarrow>
              (if \<not> starts_with (skip_ws r) '':'' then None
               else (case json_value n (tl (skip_ws r)) of None \<Rightarrow> None
                 | Some (v, r2) \<Rightarrow>
                    (case skip_ws r2 of [] \<Rightarrow> None
                     | c # r3 \<Rightarrow>
                        if c = CHR '','' then json_members n (AList.update k v acc) r3
                        else if c = CHR ''}'' then Some (AList.update k v acc, r3) else None)))))"

text \<open>Nesting and lists use at most two units of fuel for a character they consume.\<close>

definition JSON_parse :: "string \<Rightarrow> js option" where
  "JSON_parse s =
     (case json_value (2 * length s + 2) s of None \<Rightarrow> None
      | Some (v, r) \<Rightarrow> if skip_ws r = [] then Some v else None)"

definition JSON_stringify :: "js \<Rightarrow> string" where
  "JSON_stringify = json_str"

section \<open>Lemmas\<close>

lemma hex_val_json_hex: "d < 16 \<Longrightarrow> hex_val (json_hex d) = Some d"
  by (auto simp: hex_val_def json_hex_def is_digit_def in_range_def)

lemma json_chars_escape: "json_chars (json_escape c @ s) = map_option (\<lambda>(u, r). (c # u, r)) (json_chars s)"
proof -
  have u: "radix_value 16 0 [CHR ''0'', CHR ''0'', json_hex (n div 16), json_hex (n mod 16)] = Some n"
    if "n < 32" for n
  proof -
    have "n div 16 < 16" "hex_val CHR ''0'' = Some 0" using that by (simp_all add: hex_val_def is_digit_def in_range_def)
    then show ?thesis by (simp add: hex_val_json_hex)
  qed
  define n where "n = (of_char c :: nat)"
  have c: "c = char_of n" by (simp add: n_def)
  have n: "n < 256" by (simp add: n_def)
  have chars: "char_of (34::nat) = dquote" "char_of (92::nat) = backslash" by code_simp+
  consider "n = 34" | "n = 92" | "n \<in> {8, 9, 10, 12, 13}" | "n < 32" "n \<notin> {8, 9, 10, 12, 13}"
    | "32 \<le> n" "n \<noteq> 34" "n \<noteq> 92" by linarith
  then show ?thesis
  proof cases
    case 4
    then have "json_escape c = backslash # ''u00'' @ [json_hex (n div 16), json_hex (n mod 16)]"
      by (auto simp: json_escape_def n_def [symmetric] Let_def)
    with u [OF 4(1)] n 4(1) show ?thesis by (simp add: plain_escape_def c)
  next
    case 5
    then have "c \<noteq> dquote" "c \<noteq> backslash" unfolding n_def by auto
    with 5 show ?thesis by (auto simp: json_escape_def n_def [symmetric] Let_def)
  qed (auto simp: json_escape_def n_def [symmetric] Let_def plain_escape_def c chars)
qed

lemma json_chars_quoted: "json_chars (concat (map json_escape s) @ dquote # r) = Some (s, r)"
  by (induction s) (simp_all add: json_chars_escape)

lemma skip_ws_id [simp]: "\<not> json_ws c \<Longrightarrow> skip_ws (c # s) = c # s"
  by (simp add: skip_ws_def)

lemma nat_str_head: "hd (nat_str n) = CHR ''0'' \<Longrightarrow> length (nat_str n) = 1"
proof (induction n rule: nat_str.induct)
  case (1 n)
  show ?case
  proof (cases "n < 10")
    case True
    then show ?thesis by (simp add: nat_str.simps [of n])
  next
    case False
    then have "hd (nat_str n) = hd (nat_str (n div 10))"
      by (simp add: nat_str.simps [of n] hd_append)
    with 1 False have len: "length (nat_str (n div 10)) = 1" "hd (nat_str (n div 10)) = CHR ''0''" by auto
    then have "nat_str (n div 10) = ''0''" by (cases "nat_str (n div 10)") auto
    moreover have "''0'' = nat_str 0" by code_simp
    ultimately have "n div 10 = 0" by (metis nat_str_inject)
    with False show ?thesis by simp
  qed
qed

lemma digits_only: "list_all P s \<Longrightarrow> takeWhile P s = s \<and> dropWhile P s = []"
  by (induction s) auto

lemma json_number_nat: "json_number_ok (nat_str n) \<and> decimal_value (nat_str n) = Some (of_nat n)"
proof -
  have tw: "takeWhile is_digit (nat_str n) = nat_str n" and dw: "dropWhile is_digit (nat_str n) = []"
    using digits_only [OF nat_str_digits, of n] by auto
  show ?thesis
    using nat_str_head [of n] unfolding json_number_ok_def decimal_value_def Let_def tw dw by simp
qed

lemma nat_str_hd_digit: "is_digit (hd (nat_str n))"
  using nat_str_digits [of n] nat_str_neq_Nil [of n] by (cases "nat_str n") auto

lemma json_number_int: "json_number (int_str i) = Some (of_int_num i)"
proof -
  have "hd (nat_str n) \<noteq> CHR ''-''" for n
    using nat_str_hd_digit [of n] by (auto simp: is_digit_def in_range_def)
  then show ?thesis
    using json_number_nat [of "nat \<bar>i\<bar>"] by (auto simp: json_number_def int_str_def of_int_num_def)
qed

lemma int_str_number_chars: "list_all number_char (int_str i)"
  using nat_str_digits by (auto simp: int_str_def number_char_def list_all_iff)

lemma token_split: "list_all P s \<Longrightarrow> \<not> P c \<Longrightarrow> takeWhile P (s @ c # r) = s \<and> dropWhile P (s @ c # r) = c # r"
  by (induction s) auto

lemma json_value_int:
  assumes "\<not> number_char c"
  shows "json_value (Suc n) (int_str i @ c # r) = Some (JNum (of_int_num i), c # r)"
proof -
  obtain d s where d: "int_str i = d # s" "d = CHR ''-'' \<or> is_digit d"
  proof (cases "i < 0")
    case True
    with that show thesis by (simp add: int_str_def)
  next
    case False
    obtain d s where "nat_str (nat i) = d # s" using nat_str_neq_Nil [of "nat i"] by (meson neq_Nil_conv)
    with that False nat_str_hd_digit [of "nat i"] show thesis by (simp add: int_str_def)
  qed
  then have "\<not> json_ws d" "d \<noteq> dquote" "d \<noteq> CHR ''[''" "d \<noteq> CHR ''{''" "d \<noteq> CHR ''t''" "d \<noteq> CHR ''f''" "d \<noteq> CHR ''n''"
    by (auto simp: json_ws_def is_digit_def in_range_def)
  moreover note token_split [OF int_str_number_chars assms, of i r] json_number_int [of i]
  ultimately show ?thesis
    unfolding d(1) by (simp add: starts_with_def)
qed

lemma json_value_quoted: "json_value (Suc n) (json_quote s @ r) = Some (JStr s, r)"
  by (simp add: json_quote_def json_ws_def json_chars_quoted)

lemma json_member:
  assumes "json_value n s = Some (v, c # r)" "\<not> json_ws c"
  shows "json_members (Suc n) acc (json_quote k @ CHR '':'' # s)
    = (if c = CHR '','' then json_members n (AList.update k v acc) r
       else if c = CHR ''}'' then Some (AList.update k v acc, r) else None)"
  using assms by (simp add: json_quote_def json_ws_def json_chars_quoted starts_with_def)

lemma json_value_object:
  "json_value (Suc n) (CHR ''{'' # json_quote k @ r) = map_option (\<lambda>(m, r). (JObj m, r)) (json_members n [] (json_quote k @ r))"
  by (simp add: json_ws_def starts_with_def json_quote_def)

section \<open>Flat objects read back\<close>

definition flat_value :: "js \<Rightarrow> bool" where
  "flat_value v \<longleftrightarrow> (\<exists>s. v = JStr s) \<or> (\<exists>i. v = JNum (of_int_num i))"

definition member_text :: "string \<times> js \<Rightarrow> string" where
  "member_text kv = json_quote (fst kv) @ CHR '':'' # json_str (snd kv)"

lemma json_value_flat:
  assumes "flat_value v" "\<not> number_char c"
  shows "json_value (Suc n) (json_str v @ c # r) = Some (v, c # r)"
proof -
  have num: "json_str (JNum (of_int_num i)) = int_str i" for i by simp
  from assms(1) consider s where "v = JStr s" | i where "v = JNum (of_int_num i)"
    unfolding flat_value_def by blast
  then show ?thesis
  proof cases
    case 1
    then show ?thesis by (simp only: json_str.simps json_value_quoted)
  next
    case 2
    then show ?thesis by (simp only: num json_value_int [OF assms(2)])
  qed
qed

lemma update_new: "k \<notin> fst ` set acc \<Longrightarrow> AList.update k v acc = acc @ [(k, v)]"
  by (induction acc) auto

lemma sep_facts:
  "\<not> number_char CHR '',''" "\<not> number_char CHR ''}''" "\<not> json_ws CHR '',''" "\<not> json_ws CHR ''}''"
  by (simp_all add: number_char_def is_digit_def in_range_def json_ws_def)

lemma json_members_flat:
  assumes "list_all (\<lambda>kv. flat_value (snd kv)) r" "r \<noteq> []" "distinct (map fst (acc @ r))"
  shows "json_members (Suc (length r + k)) acc (join '','' (map member_text r) @ CHR ''}'' # rest) = Some (acc @ r, rest)"
  using assms
proof (induction r arbitrary: acc k)
  case (Cons e r)
  obtain key v where e: "e = (key, v)" by fastforce
  have v: "flat_value v" and new: "key \<notin> fst ` set acc" using Cons.prems e by auto
  show ?case
  proof (cases "r = []")
    case True
    have "json_value (Suc k) (json_str v @ CHR ''}'' # rest) = Some (v, CHR ''}'' # rest)"
      by (rule json_value_flat [OF v sep_facts(2)])
    from json_member [OF this sep_facts(4), of acc key] show ?thesis
      by (simp add: True e member_text_def update_new [OF new] del: json_members.simps json_value.simps)
  next
    case False
    let ?tail = "join '','' (map member_text r) @ CHR ''}'' # rest"
    have val: "json_value (Suc (length r + k)) (json_str v @ CHR '','' # ?tail) = Some (v, CHR '','' # ?tail)"
      by (rule json_value_flat [OF v sep_facts(1)])
    have "json_members (Suc (length r + k)) (acc @ [(key, v)]) ?tail = Some ((acc @ [(key, v)]) @ r, rest)"
      by (rule Cons.IH) (use Cons.prems False e in auto)
    with json_member [OF val sep_facts(3), of acc key] False show ?thesis
      by (simp add: join_Cons e member_text_def [of "(key, v)"] update_new [OF new] del: json_members.simps json_value.simps)
  qed
qed simp

lemma member_text_neq: "member_text kv \<noteq> []"
  by (simp add: member_text_def json_quote_def)

lemma length_join: "list_all (\<lambda>w. w \<noteq> []) ws \<Longrightarrow> length ws \<le> length (join sep ws)"
proof (induction sep ws rule: join.induct)
  case (3 sep w v ws)
  then show ?case by (cases w) auto
qed (auto simp: Suc_le_eq)

text \<open>An object of texts and integers with distinct names reads back as itself.\<close>

lemma JSON_flat:
  assumes "list_all (\<lambda>kv. flat_value (snd kv)) r" "r \<noteq> []" "distinct (map fst r)"
  shows "JSON_parse (JSON_stringify (JObj r)) = Some (JObj r)"
proof -
  let ?body = "join '','' (map member_text r) @ ''}''"
  have "filter (\<lambda>kv. snd kv \<noteq> JUndef) r = r"
    using assms(1) by (auto simp: filter_id_conv list_all_iff flat_value_def)
  moreover have "(\<lambda>(k, v). json_quote k @ '':'' @ json_str v) = member_text"
    by (auto simp: member_text_def)
  ultimately have str: "json_str (JObj r) = CHR ''{'' # ?body" by simp
  have "length r \<le> length (join '','' (map member_text r))"
    using length_join [of "map member_text r" "'',''"] by (simp add: list_all_iff member_text_neq)
  then have "\<exists>k. 2 * length (CHR ''{'' # ?body) + 2 = Suc (Suc (length r + k))"
    by (intro exI [of _ "2 * length (CHR ''{'' # ?body) - length r"]) simp
  then obtain k where k: "2 * length (CHR ''{'' # ?body) + 2 = Suc (Suc (length r + k))" by blast
  obtain e r' where r: "r = e # r'" using assms(2) by (cases r) auto
  obtain tl where body: "?body = json_quote (fst e) @ tl"
    unfolding r by (cases r') (simp_all add: member_text_def)
  have m: "json_members (Suc (length r + k)) [] ?body = Some (r, [])"
    using json_members_flat [OF assms(1,2), of "[]" k "[]"] assms(3) by simp
  have "json_value (Suc (Suc (length r + k))) (CHR ''{'' # ?body) = Some (JObj r, [])"
    unfolding body by (simp only: json_value_object m [unfolded body] option.map prod.case)
  then show ?thesis
    unfolding JSON_parse_def JSON_stringify_def str k
    by (simp only: option.case prod.case skip_ws_def dropWhile.simps refl if_True)
qed

end
