(* ===== verification/AuthRoutes.thy ===== *)
theory AuthRoutes imports UserService Json begin

text \<open>
  The routes that change accounts: login in one or two steps, logout, password change, two-factor
  set-up, and the user and role routes (\<^verbatim>\<open>app/api/auth\<close>, \<^verbatim>\<open>app/api/account\<close>,
  \<^verbatim>\<open>app/api/users\<close>, \<^verbatim>\<open>app/api/roles\<close>), with the two-factor ticket of \<^verbatim>\<open>lib/totp.ts\<close>.
  A request brings its parsed body or the error of reading it; \<open>draws\<close> are the values that the
  clock, the random generator and the database supply while it runs.
\<close>

section \<open>Two-factor ticket\<close>

definition TICKET_TTL_MS :: int where
  "TICKET_TTL_MS = 5 * 60000"

definition ticketError :: js_error where
  "ticketError = UnauthorizedError ''Invalid or expired 2FA ticket''"

definition createTotpTicket :: "platform \<Rightarrow> int \<Rightarrow> string \<Rightarrow> int \<Rightarrow> js_error + string" where
  "createTotpTicket pf now userId ttlMs =
     encryptSecret pf (JSON_stringify (JObj [(''userId'', JStr userId), (''exp'', JNum (of_int_num (now + ttlMs)))]))"

text \<open>Reading a property of \<open>null\<close> throws outside the \<open>try\<close>; other values that are no objects
  have no such property.\<close>

definition readTotpTicket :: "platform \<Rightarrow> int \<Rightarrow> string \<Rightarrow> js_error + string \<times> jsnum" where
  "readTotpTicket pf now ticket =
     (case decryptSecret pf ticket of Inl e \<Rightarrow> Inl ticketError
      | Inr text \<Rightarrow>
         (case JSON_parse text of None \<Rightarrow> Inl ticketError
          | Some JNull \<Rightarrow> Inl (OtherError ''TypeError'')
          | Some (JObj parsed) \<Rightarrow>
              (case (get_prop parsed ''userId'', get_prop parsed ''exp'') of
                 (JStr userId, JNum expiry) \<Rightarrow> (if num_less expiry (of_int now) then Inl ticketError else Inr (userId, expiry))
               | _ \<Rightarrow> Inl ticketError)
          | Some v \<Rightarrow> Inl ticketError))"

section \<open>Login\<close>

record draws =
  dNow :: int
  dSessionId :: string
  dToken :: string

record login_body =
  lbUsername :: "string option"
  lbPassword :: "string option"
  lbTicket :: "string option"
  lbTotp :: "string option"

definition loginSchema :: "login_body \<Rightarrow> bool" where
  "loginSchema b \<longleftrightarrow> all_opt (\<lambda>s. s \<noteq> []) (lbUsername b) \<and> all_opt (\<lambda>s. s \<noteq> []) (lbPassword b)
     \<and> all_opt (\<lambda>s. s \<noteq> []) (lbTicket b) \<and> all_opt (\<lambda>s. 6 \<le> length s) (lbTotp b)"

text \<open>A response with the session cookie it sets, the user it names and the ticket it hands out.\<close>

record login_response = response +
  lrToken :: "string option"
  lrUser :: "session_user option"
  lrTicket :: "string option"

definition plain_response :: "response \<Rightarrow> login_response" where
  "plain_response r = response.extend r (login_response.fields None None None)"

definition deny :: "nat \<Rightarrow> string \<Rightarrow> string \<Rightarrow> login_response" where
  "deny status code message = plain_response \<lparr>resStatus = status, resCode = code, resBody = message\<rparr>"

definition audit :: "string option \<Rightarrow> string \<Rightarrow> string option \<Rightarrow> bool \<Rightarrow> audit_row" where
  "audit uid action target ok = \<lparr>auUserId = uid, auAction = action, auTarget = target, auSuccess = ok\<rparr>"

definition finishLogin ::
  "platform \<Rightarrow> draws \<Rightarrow> user_row \<Rightarrow> session_user \<Rightarrow> string option \<Rightarrow> string option \<Rightarrow> server \<Rightarrow>
   (js_error + login_response) \<times> server" where
  "finishLogin pf d user su ip ua st =
     (case createSession pf (dNow d) (dSessionId d) (dToken d) (uId user) ip ua st of
        (Inl e, st1) \<Rightarrow> (Inl e, st1)
      | (Inr (token, expiresAt), st1) \<Rightarrow>
          (case update_user_row (uId user) (\<lambda>u. u\<lparr>uLastLoginAt := Some (dNow d)\<rparr>) st1 of
             (Inl e, st2) \<Rightarrow> (Inl e, st2)
           | (Inr _, st2) \<Rightarrow>
               (Inr \<lparr>resStatus = 200, resCode = [], resBody = [], lrToken = Some token, lrUser = Some su, lrTicket = None\<rparr>,
                writeAuditLog (audit (Some (uId user)) ''LOGIN_SUCCESS'' (Some (uUsername user)) True) st2)))"

definition rate_limited :: login_response where
  "rate_limited = deny 429 ''RATE_LIMITED'' ''Too many login attempts''"

definition bad_credentials :: login_response where
  "bad_credentials = deny 401 ''INVALID_CREDENTIALS'' ''Invalid username or password''"

definition bad_totp :: login_response where
  "bad_totp = deny 401 ''INVALID_TOTP'' ''Invalid 2FA code''"

definition login_failed :: "user_row \<Rightarrow> server \<Rightarrow> server" where
  "login_failed user st = writeAuditLog (audit (Some (uId user)) ''LOGIN_FAILED'' (Some (uUsername user)) False) st"

text \<open>The second step: a ticket and a code of the authenticator, or a recovery code.\<close>

definition login_with_ticket ::
  "platform \<Rightarrow> draws \<Rightarrow> string \<Rightarrow> string \<Rightarrow> string option \<Rightarrow> string option \<Rightarrow> server \<Rightarrow>
   (js_error + login_response) \<times> server" where
  "login_with_ticket pf d ticket totp ip ua st =
     (case readTotpTicket pf (dNow d) ticket of Inl e \<Rightarrow> (Inl e, st)
      | Inr (userId, _) \<Rightarrow>
         (case user_by_id userId st of None \<Rightarrow> (Inr bad_credentials, st)
          | Some user \<Rightarrow>
            (case session_user_of user st of None \<Rightarrow> (Inl (OtherError ''P2025''), st)
             | Some su \<Rightarrow>
               if uStatus user \<noteq> ACTIVE \<or> \<not> uTotpEnabled user \<or> \<not> truthy (uTotpSecret user) then (Inr bad_credentials, st)
               else (case decryptSecret pf (the (uTotpSecret user)) of Inl e \<Rightarrow> (Inr bad_totp, st)
                 | Inr secret \<Rightarrow>
                   (case verifyTotp (hmac_sha1 pf) secret totp 1 (dNow d) of Inl e \<Rightarrow> (Inl e, st)
                    | Inr True \<Rightarrow> finishLogin pf d user su ip ua st
                    | Inr False \<Rightarrow>
                        if \<not> looksLikeRecoveryCode totp then (Inr bad_totp, login_failed user st)
                        else (case consumeRecoveryCode (sha256 pf) (uTotpRecoveryHashes user) totp of
                                None \<Rightarrow> (Inr bad_totp, login_failed user st)
                              | Some next \<Rightarrow>
                                 (case update_user_row (uId user) (\<lambda>u. u\<lparr>uTotpRecoveryHashes := next\<rparr>) st of
                                    (Inl e, st1) \<Rightarrow> (Inl e, st1)
                                  | (Inr _, st1) \<Rightarrow> finishLogin pf d user su ip ua st1)))))))"

definition login_with_password ::
  "platform \<Rightarrow> draws \<Rightarrow> string \<Rightarrow> string \<Rightarrow> string option \<Rightarrow> string option \<Rightarrow> server \<Rightarrow>
   (js_error + login_response) \<times> server" where
  "login_with_password pf d username password ip ua st =
     (let refuse = (\<lambda>uid. (Inr bad_credentials, writeAuditLog (audit uid ''LOGIN_FAILED'' (Some username) False) st)) in
      case user_by_name username st of None \<Rightarrow> refuse None
      | Some user \<Rightarrow>
         (case session_user_of user st of None \<Rightarrow> (Inl (OtherError ''P2025''), st)
          | Some su \<Rightarrow>
            if \<not> bcrypt_compare pf password (uPasswordHash user) \<or> uStatus user \<noteq> ACTIVE then refuse (Some (uId user))
            else if uTotpEnabled user then
              (case createTotpTicket pf (dNow d) (uId user) TICKET_TTL_MS of Inl e \<Rightarrow> (Inl e, st)
               | Inr ticket \<Rightarrow>
                  (Inr \<lparr>resStatus = 200, resCode = [], resBody = ''totpRequired'', lrToken = None, lrUser = None,
                     lrTicket = Some ticket\<rparr>, st))
            else finishLogin pf d user su ip ua st))"

definition limit_login :: "string \<Rightarrow> nat \<Rightarrow> draws \<Rightarrow> server \<Rightarrow> bool \<times> server" where
  "limit_login key limit d st =
     (case rateLimit key limit (15 * 60 * 1000) (dNow d) (rateBuckets st) of (ok, b) \<Rightarrow> (ok, st\<lparr>rateBuckets := b\<rparr>))"

definition login_body_step ::
  "platform \<Rightarrow> draws \<Rightarrow> login_body \<Rightarrow> string option \<Rightarrow> string option \<Rightarrow> server \<Rightarrow> (js_error + login_response) \<times> server" where
  "login_body_step pf d body ip ua st =
     (if truthy (lbTicket body) \<and> truthy (lbTotp body)
      then login_with_ticket pf d (the (lbTicket body)) (the (lbTotp body)) ip ua st
      else if \<not> truthy (lbUsername body) \<or> \<not> truthy (lbPassword body)
      then (Inr (deny 400 ''VALIDATION_ERROR'' ''Username and password are required''), st)
      else login_with_password pf d (the (lbUsername body)) (the (lbPassword body)) ip ua st)"

definition loginPOST ::
  "platform \<Rightarrow> (string \<Rightarrow> url option) \<Rightarrow> app_env \<Rightarrow> draws \<Rightarrow> http_request \<Rightarrow> js_error + login_body \<Rightarrow> server \<Rightarrow>
   login_response \<times> server" where
  "loginPOST pf new_url env d request read_body st =
     (let finish = (\<lambda>(r, st'). (case r of Inl e \<Rightarrow> plain_response (handleRouteError e) | Inr resp \<Rightarrow> resp, st')) in
      finish
       (case assertSameOrigin new_url env request of Inl e \<Rightarrow> (Inl e, st)
        | Inr _ \<Rightarrow>
          (let ip = clientIp request in
           case limit_login (''login:'' @ (case ip of None \<Rightarrow> ''unknown'' | Some a \<Rightarrow> a)) 8 d st of
             (False, st1) \<Rightarrow> (Inr rate_limited, st1)
           | (True, st1) \<Rightarrow>
              (case read_body of Inl e \<Rightarrow> (Inl e, st1)
               | Inr body \<Rightarrow>
                  if \<not> loginSchema body then (Inl (ZodError []), st1)
                  else
                    (let usernameKey = map_option (\<lambda>u. to_lower (trim u)) (lbUsername body) in
                     case (if truthy usernameKey then limit_login (''login-user:'' @ the usernameKey) 12 d st1 else (True, st1)) of
                       (False, st2) \<Rightarrow> (Inr rate_limited, st2)
                     | (True, st2) \<Rightarrow> login_body_step pf d body ip (clientUserAgent request) st2)))))"

definition logoutPOST ::
  "platform \<Rightarrow> (string \<Rightarrow> url option) \<Rightarrow> app_env \<Rightarrow> int \<Rightarrow> http_request \<Rightarrow> cookies \<Rightarrow> server \<Rightarrow> response \<times> cookies \<times> server" where
  "logoutPOST pf new_url env now request store st =
     (case assertSameOrigin new_url env request of Inl e \<Rightarrow> (handleRouteError e, store, st)
      | Inr _ \<Rightarrow>
         (let token = map_of store SESSION_COOKIE in
          case getSession pf now store st of (session, st1) \<Rightarrow>
            (let st2 = (if truthy token then destroySession pf (the token) st1 else st1);
                 st3 = (case session of None \<Rightarrow> st2
                   | Some s \<Rightarrow> writeAuditLog (audit (Some (suId (asUser s))) ''LOGOUT'' (Some (suUsername (asUser s))) True) st2)
             in (\<lparr>resStatus = 200, resCode = [], resBody = ''ok''\<rparr>, AList.delete SESSION_COOKIE store, st3))))"

section \<open>Password and two-factor settings\<close>

record password_body =
  pbCurrent :: string
  pbNew :: string

text \<open>The handlers below run inside \<open>apiRoute\<close>, which hands them the session.\<close>

definition changePassword :: "platform \<Rightarrow> password_body \<Rightarrow> auth_session \<Rightarrow> server \<Rightarrow> (js_error + unit) \<times> server" where
  "changePassword pf body session st =
     (if pbCurrent body = [] \<or> \<not> between 10 200 (pbNew body) then (Inl (ZodError []), st)
      else case user_by_id (suId (asUser session)) st of
        None \<Rightarrow> (Inl (ValidationError ''CURRENT_PASSWORD_INVALID''), st)
      | Some user \<Rightarrow>
          if \<not> bcrypt_compare pf (pbCurrent body) (uPasswordHash user)
          then (Inl (ValidationError ''CURRENT_PASSWORD_INVALID''), st)
          else (case update_user_row (uId user) (\<lambda>u. u\<lparr>uPasswordHash := bcrypt_hash pf (pbNew body)\<rparr>) st of
                  (Inl e, st1) \<Rightarrow> (Inl e, st1)
                | (Inr _, st1) \<Rightarrow>
                    (Inr (), writeAuditLog (audit (Some (suId (asUser session))) ''USER_UPDATED'' (Some (suUsername (asUser session))) True)
                       (destroyUserSessions (uId user) (Some (asId session)) st1))))"

datatype totp_body =
    TotpBegin
  | TotpEnable string string
  | TotpDisable string string
  | TotpRecovery string

definition totpSchema :: "totp_body \<Rightarrow> bool" where
  "totpSchema b =
     (case b of TotpBegin \<Rightarrow> True
      | TotpEnable secret code \<Rightarrow> 16 \<le> length secret \<and> 6 \<le> length code
      | TotpDisable code password \<Rightarrow> 6 \<le> length code \<and> password \<noteq> []
      | TotpRecovery password \<Rightarrow> password \<noteq> [])"

datatype totp_answer =
    NewSecret string
  | Enabled "string list"
  | NewCodes "string list" nat
  | TotpOff

definition totp_audit :: "auth_session \<Rightarrow> string \<Rightarrow> server \<Rightarrow> server" where
  "totp_audit session action st =
     writeAuditLog (audit (Some (suId (asUser session))) action (Some (suUsername (asUser session))) True) st"

definition verify_or_invalid :: "platform \<Rightarrow> int \<Rightarrow> string \<Rightarrow> string \<Rightarrow> js_error + unit" where
  "verify_or_invalid pf now secret code =
     (case verifyTotp (hmac_sha1 pf) secret code 1 now of Inl e \<Rightarrow> Inl e
      | Inr ok \<Rightarrow> if ok then Inr () else Inl (ValidationError ''INVALID_TOTP''))"

text \<open>\<open>bytes\<close> are the random bytes of a new secret and \<open>codes\<close> what \<open>generateRecoveryCodes()\<close>
  returned.\<close>

definition totpPOST ::
  "platform \<Rightarrow> int \<Rightarrow> 8 word list \<Rightarrow> string list \<Rightarrow> totp_body \<Rightarrow> auth_session \<Rightarrow> server \<Rightarrow>
   (js_error + totp_answer) \<times> server" where
  "totpPOST pf now bytes codes body session st =
     (if \<not> totpSchema body then (Inl (ZodError []), st)
      else case user_by_id (suId (asUser session)) st of
        None \<Rightarrow> (Inl (ValidationError ''User not found''), st)
      | Some user \<Rightarrow>
          (case body of
             TotpBegin \<Rightarrow>
               if uTotpEnabled user then (Inl (ValidationError ''2FA is already enabled''), st)
               else (Inr (NewSecret (encodeBase32 bytes)), st)
           | TotpEnable secret code \<Rightarrow>
               if uTotpEnabled user then (Inl (ValidationError ''2FA is already enabled''), st)
               else (case verify_or_invalid pf now secret code of Inl e \<Rightarrow> (Inl e, st)
                 | Inr _ \<Rightarrow>
                   (case encryptSecret pf secret of Inl e \<Rightarrow> (Inl e, st)
                    | Inr sealed \<Rightarrow>
                      (case update_user_row (uId user) (\<lambda>u. u\<lparr>uTotpEnabled := True, uTotpSecret := Some sealed,
                              uTotpRecoveryHashes := hashRecoveryCodes (sha256 pf) codes\<rparr>) st of
                         (Inl e, st1) \<Rightarrow> (Inl e, st1)
                       | (Inr _, st1) \<Rightarrow> (Inr (Enabled codes), totp_audit session ''TOTP_ENABLED'' st1))))
           | TotpRecovery password \<Rightarrow>
               if \<not> uTotpEnabled user then (Inl (ValidationError ''2FA is not enabled''), st)
               else if \<not> bcrypt_compare pf password (uPasswordHash user)
               then (Inl (ValidationError ''CURRENT_PASSWORD_INVALID''), st)
               else (case update_user_row (uId user)
                         (\<lambda>u. u\<lparr>uTotpRecoveryHashes := hashRecoveryCodes (sha256 pf) codes\<rparr>) st of
                       (Inl e, st1) \<Rightarrow> (Inl e, st1)
                     | (Inr _, st1) \<Rightarrow> (Inr (NewCodes codes (length codes)), totp_audit session ''TOTP_RECOVERY'' st1))
           | TotpDisable code password \<Rightarrow>
               if \<not> uTotpEnabled user \<or> \<not> truthy (uTotpSecret user)
               then (Inl (ValidationError ''2FA is not enabled''), st)
               else if \<not> bcrypt_compare pf password (uPasswordHash user)
               then (Inl (ValidationError ''CURRENT_PASSWORD_INVALID''), st)
               else (case decryptSecret pf (the (uTotpSecret user)) of
                       Inl e \<Rightarrow> (Inl (ValidationError ''INVALID_TOTP''), st)
                     | Inr secret \<Rightarrow>
                        (case verify_or_invalid pf now secret code of Inl e \<Rightarrow> (Inl e, st)
                         | Inr _ \<Rightarrow>
                           (case update_user_row (uId user) (\<lambda>u. u\<lparr>uTotpEnabled := False, uTotpSecret := None,
                                    uTotpRecoveryHashes := []\<rparr>) st of
                              (Inl e, st1) \<Rightarrow> (Inl e, st1)
                            | (Inr _, st1) \<Rightarrow>
                                (Inr TotpOff, totp_audit session ''TOTP_DISABLED''
                                   (destroyUserSessions (uId user) (Some (asId session)) st1)))))))"

definition totpGET :: "auth_session \<Rightarrow> server \<Rightarrow> bool \<times> nat" where
  "totpGET session st =
     (case user_by_id (suId (asUser session)) st of None \<Rightarrow> (False, 0)
      | Some user \<Rightarrow> (uTotpEnabled user, length (uTotpRecoveryHashes user)))"

record session_info =
  siId :: string
  siIp :: "string option"
  siUserAgent :: "string option"
  siExpiresAt :: int
  siCurrent :: bool

text \<open>The answer lists newest first; the creation time is not a column of the model, rows are in
  the order of creation.\<close>

definition sessionsGET :: "int \<Rightarrow> auth_session \<Rightarrow> server \<Rightarrow> int \<times> session_info list" where
  "sessionsGET now session st =
     (sessionCookieMaxAgeSeconds (asExpiresAt session) now,
      map (\<lambda>row. \<lparr>siId = seId row, siIp = seIp row, siUserAgent = seUserAgent row, siExpiresAt = seExpiresAt row,
             siCurrent = (seId row = asId session)\<rparr>)
        (rev (filter (\<lambda>s. seUserId s = suId (asUser session) \<and> now < seExpiresAt s) (sessions st))))"

section \<open>User and role routes\<close>

definition logged :: "auth_session \<Rightarrow> string \<Rightarrow> string \<Rightarrow> server \<Rightarrow> server" where
  "logged session action target st =
     writeAuditLog (audit (Some (suId (asUser session))) action (Some target) True) st"

definition usersPOST ::
  "platform \<Rightarrow> (string \<Rightarrow> bool) \<Rightarrow> string \<Rightarrow> create_user_input \<Rightarrow> auth_session \<Rightarrow> server \<Rightarrow> (js_error + user_dto) \<times> server" where
  "usersPOST pf is_email uid body session st =
     (if \<not> createUserSchema is_email body then (Inl (ZodError []), st)
      else case createUser pf uid body st of (Inl e, st1) \<Rightarrow> (Inl e, st1)
        | (Inr user, st1) \<Rightarrow> (Inr user, logged session ''USER_CREATED'' (dtoUsername user) st1))"

definition userPATCH ::
  "platform \<Rightarrow> (string \<Rightarrow> bool) \<Rightarrow> string \<Rightarrow> update_user_input \<Rightarrow> auth_session \<Rightarrow> server \<Rightarrow> (js_error + user_dto) \<times> server" where
  "userPATCH pf is_email uid body session st =
     (if \<not> updateUserSchema is_email body then (Inl (ZodError []), st)
      else case updateUser pf uid body st of (Inl e, st1) \<Rightarrow> (Inl e, st1)
        | (Inr user, st1) \<Rightarrow> (Inr user, logged session ''USER_UPDATED'' (dtoUsername user) st1))"

definition userDELETE :: "string \<Rightarrow> auth_session \<Rightarrow> server \<Rightarrow> (js_error + unit) \<times> server" where
  "userDELETE uid session st =
     (case deleteUser uid (suId (asUser session)) st of (Inl e, st1) \<Rightarrow> (Inl e, st1)
      | (Inr _, st1) \<Rightarrow> (Inr (), logged session ''USER_DELETED'' uid st1))"

definition rolesPOST :: "string \<Rightarrow> create_role_input \<Rightarrow> auth_session \<Rightarrow> server \<Rightarrow> (js_error + role_row) \<times> server" where
  "rolesPOST rid body session st =
     (if \<not> createRoleSchema body then (Inl (ZodError []), st)
      else case createRole rid body st of (Inl e, st1) \<Rightarrow> (Inl e, st1)
        | (Inr role, st1) \<Rightarrow> (Inr role, logged session ''ROLE_CREATED'' (roSlug role) st1))"

definition rolePATCH :: "string \<Rightarrow> update_role_input \<Rightarrow> auth_session \<Rightarrow> server \<Rightarrow> (js_error + role_row) \<times> server" where
  "rolePATCH rid body session st =
     (if \<not> updateRoleSchema body then (Inl (ZodError []), st)
      else case updateRole rid body st of (Inl e, st1) \<Rightarrow> (Inl e, st1)
        | (Inr role, st1) \<Rightarrow> (Inr role, logged session ''ROLE_UPDATED'' (roSlug role) st1))"

definition roleDELETE :: "string \<Rightarrow> auth_session \<Rightarrow> server \<Rightarrow> (js_error + unit) \<times> server" where
  "roleDELETE rid session st =
     (case deleteRole rid st of (Inl e, st1) \<Rightarrow> (Inl e, st1)
      | (Inr _, st1) \<Rightarrow> (Inr (), logged session ''ROLE_DELETED'' rid st1))"

section \<open>Everything that changes accounts\<close>

text \<open>One step of the server for each operation above, whatever its input; the routes behind
  \<open>apiRoute\<close> are there with any session, so also with those the gate would refuse.\<close>

inductive account_step :: "platform \<Rightarrow> server \<Rightarrow> server \<Rightarrow> bool" for pf where
  step_session: "account_step pf st (snd (getSessionFromToken pf now token st))"
| step_login: "account_step pf st (snd (loginPOST pf new_url env d request body st))"
| step_logout: "account_step pf st (snd (snd (logoutPOST pf new_url env now request store st)))"
| step_password: "account_step pf st (snd (changePassword pf pbody session st))"
| step_totp: "account_step pf st (snd (totpPOST pf now bytes codes tbody session st))"
| step_create_user: "account_step pf st (snd (usersPOST pf is_email uid cu session st))"
| step_update_user: "account_step pf st (snd (userPATCH pf is_email uid uu session st))"
| step_delete_user: "account_step pf st (snd (userDELETE uid session st))"
| step_create_role: "account_step pf st (snd (rolesPOST rid cr session st))"
| step_update_role: "account_step pf st (snd (rolePATCH rid ur session st))"
| step_delete_role: "account_step pf st (snd (roleDELETE rid session st))"

inductive accounts_reach :: "platform \<Rightarrow> server \<Rightarrow> server \<Rightarrow> bool" for pf where
  reach_refl: "accounts_reach pf st st"
| reach_step: "accounts_reach pf st st1 \<Longrightarrow> account_step pf st1 st2 \<Longrightarrow> accounts_reach pf st st2"

lemma keeps_then:
  "keeps st x \<Longrightarrow> keeps st (writeAuditLog a x)" "keeps st x \<Longrightarrow> keeps st (destroyUserSessions uid e x)"
  "keeps st x \<Longrightarrow> keeps st (destroySession pf token x)"
  by (blast intro: keeps_trans keeps_audit keeps_destroy_user keeps_destroy)+

lemma keeps_upsert: "keeps st (snd (upsert_preset pf e st))"
proof (cases "role_by_slug (fst e) st")
  case None
  then show ?thesis
    using keeps_create_role by (cases "upsert_preset pf e st") (auto simp: upsert_preset_def Let_def)
next
  case (Some role)
  then have "upsert_preset pf e st = update_role_row (roId role) (\<lambda>r. r\<lparr>roName := presetName (snd e),
      roDescription := presetDescription (snd e), roPermissions := presetPermissions (snd e), roIsSystem := True\<rparr>) st"
    by (simp add: upsert_preset_def Let_def)
  then show ?thesis
    by (cases "update_role_row (roId role) (\<lambda>r. r\<lparr>roName := presetName (snd e),
        roDescription := presetDescription (snd e), roPermissions := presetPermissions (snd e), roIsSystem := True\<rparr>) st")
      (simp add: keeps_update_role)
qed

lemma keeps_sync: "keeps st (syncSystemRoles pf es st)"
proof (induction es arbitrary: st)
  case (Cons e es)
  obtain r st' where u: "upsert_preset pf e st = (r, st')" by (cases "upsert_preset pf e st")
  with keeps_upsert [of st pf e] Cons.IH [of st'] show ?case
    by (auto split: sum.split intro: keeps_trans)
qed (simp add: keeps_refl)

lemma keeps_started: "keeps st (st\<lparr>rolesStarted := b\<rparr>)" and keeps_buckets: "keeps st (st\<lparr>rateBuckets := c\<rparr>)"
  by (simp_all add: keeps_def server_wf_def system_roles_def)

lemma keeps_ensure: "keeps st (ensureSystemRoles pf st)"
  by (auto simp: ensureSystemRoles_def intro: keeps_refl keeps_trans [OF keeps_started keeps_sync])

lemma keeps_getSession: "keeps st (snd (getSessionFromToken pf now token st))"
  by (auto simp: getSessionFromToken_def Let_def split: option.split
      intro: keeps_refl keeps_ensure keeps_trans [OF keeps_ensure keeps_delete_sessions])

lemma keeps_createSession: "createSession pf now sid token uid ip ua st = (res, st') \<Longrightarrow> keeps st st'"
  by (auto simp: createSession_def Let_def split: prod.splits sum.splits dest: keeps_create_session)

lemma keeps_finishLogin: "finishLogin pf d user su ip ua st = (res, st') \<Longrightarrow> keeps st st'"
  by (auto simp: finishLogin_def split: prod.splits sum.splits dest!: keeps_createSession keeps_update_user
      intro: keeps_trans keeps_audit)

lemma keeps_ticket: "login_with_ticket pf d ticket totp ip ua st = (res, st') \<Longrightarrow> keeps st st'"
  by (auto simp: login_with_ticket_def login_failed_def split: prod.splits sum.splits option.splits if_splits bool.splits
      dest!: keeps_finishLogin keeps_update_user intro: keeps_trans keeps_audit keeps_refl)

lemma keeps_password: "login_with_password pf d username password ip ua st = (res, st') \<Longrightarrow> keeps st st'"
  by (auto simp: login_with_password_def Let_def split: sum.splits option.splits if_splits
      dest!: keeps_finishLogin intro: keeps_audit keeps_refl)

lemma keeps_body: "login_body_step pf d body ip ua st = (res, st') \<Longrightarrow> keeps st st'"
  by (auto simp: login_body_step_def split: if_splits dest: keeps_ticket keeps_password intro: keeps_refl)

lemma keeps_limit: "limit_login key n d st = (ok, st') \<Longrightarrow> keeps st st'"
  by (auto simp: limit_login_def split: prod.splits intro: keeps_buckets)

lemma keeps_login: "keeps st (snd (loginPOST pf new_url env d request body st))"
  by (auto simp: loginPOST_def Let_def split: prod.splits sum.splits bool.splits if_splits
      dest!: keeps_limit keeps_body intro: keeps_refl intro: keeps_trans)

lemma keeps_logout: "keeps st (snd (snd (logoutPOST pf new_url env now request store st)))"
  using keeps_getSession [of st pf now "map_of store SESSION_COOKIE"]
  by (auto simp: logoutPOST_def Let_def getSession_def split: prod.splits sum.splits option.splits
      intro!: keeps_refl keeps_then)

lemma keeps_changePassword: "keeps st (snd (changePassword pf body session st))"
  by (auto simp: changePassword_def split: prod.splits sum.splits option.splits dest!: keeps_update_user
      intro!: keeps_refl keeps_then)

lemma keeps_totp: "keeps st (snd (totpPOST pf now bytes codes body session st))"
proof (cases "totpSchema body \<and> user_by_id (suId (asUser session)) st \<noteq> None")
  case False
  then show ?thesis by (auto simp: totpPOST_def keeps_refl)
next
  case True
  then obtain user where u: "totpSchema body" "user_by_id (suId (asUser session)) st = Some user" by auto
  show ?thesis
  proof (cases body)
    case TotpBegin
    with u show ?thesis by (simp add: totpPOST_def keeps_refl)
  next
    case (TotpEnable secret code)
    with u show ?thesis
      by (simp add: totpPOST_def totp_audit_def keeps_refl split: prod.split sum.split) (auto dest!: keeps_update_user intro!: keeps_then)
  next
    case (TotpDisable code password)
    with u show ?thesis
      by (simp add: totpPOST_def totp_audit_def keeps_refl split: prod.split sum.split) (auto dest!: keeps_update_user intro!: keeps_then)
  next
    case (TotpRecovery password)
    with u show ?thesis
      by (simp add: totpPOST_def totp_audit_def keeps_refl split: prod.split sum.split) (auto dest!: keeps_update_user intro!: keeps_then)
  qed
qed

lemma keeps_logged [keeps_rules]: "keeps st x \<Longrightarrow> keeps st (logged session a t x)"
  by (simp add: logged_def keeps_then)

lemma keeps_createUser: "createUser pf uid i st = (res, st') \<Longrightarrow> keeps st st'"
  by (auto simp: createUser_def split: if_splits prod.splits sum.splits dest!: keeps_create_user intro: keeps_refl)

lemma keeps_updateUser: "updateUser pf uid i st = (res, st') \<Longrightarrow> keeps st st'"
proof -
  assume run: "updateUser pf uid i st = (res, st')"
  show ?thesis
  proof (cases "user_by_id uid st")
    case None
    with run show ?thesis by (simp add: updateUser_def keeps_refl)
  next
    case (Some u)
    obtain r1 st1 where 1: "update_user_row uid (update_columns pf i) st = (r1, st1)" by fastforce
    define st2 where "st2 = (if truthy (uuPassword i) \<or> uuStatus i = Some DISABLED then destroyUserSessions uid None st1 else st1)"
    obtain r3 st3 where 3: "replace_hosts uid i st2 = (r3, st3)" by fastforce
    obtain r4 st4 where 4: "replace_guests uid i st3 = (r4, st4)" by fastforce
    have "keeps st st1" by (rule keeps_update_user [OF 1]) (rule update_columns_id)
    moreover from this have "keeps st st2" by (simp add: st2_def keeps_then)
    moreover from this have "keeps st st3" by (rule keeps_trans [OF _ keeps_replace_hosts [OF 3]])
    moreover from this have "keeps st st4" by (rule keeps_trans [OF _ keeps_replace_guests [OF 4]])
    ultimately show ?thesis
      using run Some by (auto simp: updateUser_def 1 st2_def [symmetric] 3 4 Let_def split: sum.splits)
  qed
qed

lemma keeps_updateRole: "updateRole rid i st = (res, st') \<Longrightarrow> keeps st st'"
proof -
  have f: "roId (role_columns i r) = roId r \<and> roSlug (role_columns i r) = roSlug r \<and> roIsSystem (role_columns i r) = roIsSystem r" for r
    by (simp add: role_columns_def set_if_def split: option.split)
  show "updateRole rid i st = (res, st') \<Longrightarrow> ?thesis"
    by (auto simp: updateRole_def split: option.splits if_splits prod.splits sum.splits
        intro: keeps_refl keeps_update_role simp: f)
qed

lemma keeps_deleteRole:
  assumes "deleteRole rid st = (res, st')"
  shows "keeps st st'"
proof (cases "server_wf st \<and> st' \<noteq> st")
  case False
  then show ?thesis by (auto simp: keeps_def)
next
  case True
  then have wf: "server_wf st" by simp
  from assms True obtain role where r: "role_by_id rid st = Some role" "\<not> roIsSystem role" "delete_role_row rid st = (res, st')"
    by (auto simp: deleteRole_def split: option.splits if_splits)
  have "r' = role" if "r' \<in> set (roles st)" "roId r' = rid" for r'
    using r(1) role_by_id_iff [OF wf, of rid r'] that by simp
  then have "roId r' \<noteq> rid" if "r' \<in> set (roles st)" "roIsSystem r'" for r'
    using that r(2) by blast
  then have "{r' \<in> set (roles st). roIsSystem r'} = {r' \<in> set (roles st). roId r' \<noteq> rid \<and> roIsSystem r'}"
    by blast
  then have "system_roles st \<subseteq> system_roles st'" "hostIds st' = hostIds st"
    using r(3) by (auto simp: system_roles_def delete_role_row_def conj_assoc split: if_splits)
  moreover have "server_wf st'" using delete_role_wf [OF wf, of rid] r(3) by simp
  ultimately show ?thesis by (simp add: keeps_def)
qed

lemma keeps_step: "account_step pf st st' \<Longrightarrow> keeps st st'"
proof (induction rule: account_step.induct)
  case (step_create_user st is_email uid cu session)
  then show ?case
    by (auto simp: usersPOST_def split: prod.split sum.split dest!: keeps_createUser intro!: keeps_refl keeps_logged)
next
  case (step_update_user st is_email uid uu session)
  then show ?case
    by (auto simp: userPATCH_def split: prod.split sum.split dest!: keeps_updateUser intro!: keeps_refl keeps_logged)
next
  case (step_delete_user st uid session)
  then show ?case
    by (auto simp: userDELETE_def deleteUser_def split: prod.split sum.split intro!: keeps_refl keeps_logged keeps_delete_user)
next
  case (step_create_role st rid cr session)
  then show ?case
    by (auto simp: rolesPOST_def createRole_def Let_def split: prod.split sum.split dest!: keeps_create_role
        intro!: keeps_refl keeps_logged)
next
  case (step_update_role st rid ur session)
  then show ?case
    by (auto simp: rolePATCH_def split: prod.split sum.split dest!: keeps_updateRole intro!: keeps_refl keeps_logged)
next
  case (step_delete_role st rid session)
  then show ?case
    by (auto simp: roleDELETE_def split: prod.split sum.split dest!: keeps_deleteRole intro!: keeps_refl keeps_logged)
qed (rule keeps_getSession keeps_login keeps_logout keeps_changePassword keeps_totp)+

section \<open>Properties\<close>

text \<open>
  C7: Whatever requests arrive in whatever order, the account data stays consistent: ids, user names,
  e-mail addresses, role slugs and token hashes stay unique, every user has a role, every session
  and access row has its user, every access row its host; and no sequence of requests removes a
  system role, changes its slug or takes the system mark off it.
\<close>

theorem accounts_stay_consistent:
  assumes "accounts_reach pf st st'" "server_wf st"
  shows "server_wf st' \<and> system_roles st \<subseteq> system_roles st'"
proof -
  from assms(1) have "keeps st st'"
    by (induction rule: accounts_reach.induct) (auto intro: keeps_refl keeps_trans keeps_step)
  with assms(2) show ?thesis by (simp add: keeps_def)
qed

theorem accounts_stay_consistent_witness:
  "\<forall>s. server_wf (snd (roleDELETE ''r1'' s (snd (userDELETE ''u1'' s demo_server))))"
proof
  fix s
  have "accounts_reach demo_platform demo_server (snd (roleDELETE ''r1'' s (snd (userDELETE ''u1'' s demo_server))))"
    by (rule reach_step [OF reach_step [OF reach_refl step_delete_user] step_delete_role])
  from accounts_stay_consistent [OF this demo_server_wf]
  show "server_wf (snd (roleDELETE ''r1'' s (snd (userDELETE ''u1'' s demo_server))))" by blast
qed

lemma replace_sessions:
  "replace_hosts uid i st = (res, st') \<Longrightarrow> sessions st' = sessions st"
  "replace_guests uid i st = (res, st') \<Longrightarrow> sessions st' = sessions st"
  by (auto simp: replace_hosts_def replace_guests_def Let_def split: if_splits option.splits dest!: create_rows_fields)

lemma update_user_sessions: "update_user_row uid f st = (res, st') \<Longrightarrow> sessions st' = sessions st"
  by (auto simp: update_user_row_def Let_def split: if_splits)

text \<open>
  Locking out works: when an administrator sets a password or disables an account and the update
  succeeds, no session of that user is left and the sessions of everybody else are untouched.
\<close>

theorem updateUser_revokes_sessions:
  assumes "updateUser pf uid i st = (Inr dto, st')" "truthy (uuPassword i) \<or> uuStatus i = Some DISABLED"
  shows "sessions st' = filter (\<lambda>s. seUserId s \<noteq> uid) (sessions st)"
proof -
  from assms obtain r1 st1 r3 st3 where
    "update_user_row uid (update_columns pf i) st = (r1, st1)"
    "replace_hosts uid i (destroyUserSessions uid None st1) = (r3, st3)"
    "replace_guests uid i st3 = (Inr (), st')"
    by (auto simp: updateUser_def Let_def split: if_splits prod.splits sum.splits)
  then show ?thesis
    using replace_sessions update_user_sessions
    by (auto simp: destroyUserSessions_def delete_sessions_def truthy_def drop_rows_def)
qed

theorem updateUser_revokes_sessions_witness:
  "\<exists>dto st'. updateUser demo_platform ''u1'' \<lparr>uuEmail = None, uuPassword = None, uuRoleId = None, uuStatus = Some DISABLED,
       uuHostIds = None, uuHosts = None, uuGuests = None\<rparr> demo_server = (Inr dto, st') \<and> sessions st' = []"
proof -
  let ?i = "\<lparr>uuEmail = None, uuPassword = None, uuRoleId = None, uuStatus = Some DISABLED,
       uuHostIds = None, uuHosts = None, uuGuests = None\<rparr> :: update_user_input"
  obtain dto st' where run: "updateUser demo_platform ''u1'' ?i demo_server = (Inr dto, st')"
    by (simp add: updateUser_def demo_server_def user_by_id_def user_keys_def find_row_def update_user_row_def change_rows_def
        table_wf_def role_by_id_def role_keys_def update_columns_def set_if_def nonempty_def truthy_def
        destroyUserSessions_def delete_sessions_def drop_rows_def replace_hosts_def replace_guests_def user_answer_def Let_def)
  have "truthy (uuPassword ?i) \<or> uuStatus ?i = Some DISABLED" by simp
  from updateUser_revokes_sessions [OF run this] have "sessions st' = []" by (simp add: demo_server_def)
  with run show ?thesis by blast
qed

text \<open>
  Replacing the host list of a user is not one transaction: with a host id that does not exist the
  update is answered with an error, yet the old rows are gone, and a user without host rows whose
  role may view hosts is no longer restricted to any host.
\<close>

theorem updateUser_failed_host_update_lifts_restriction:
  assumes "server_wf st" "user_by_id uid st = Some u" "role_by_id (uRoleId u) st = Some role"
    and "hasPermission (Some (roPermissions role)) ''hosts.view''" "guests_of uid st = []" "h \<notin> set (hostIds st)"
  shows "case updateUser pf uid \<lparr>uuEmail = None, uuPassword = None, uuRoleId = None, uuStatus = None,
       uuHostIds = Some [h], uuHosts = None, uuGuests = None\<rparr> st of
     (res, st') \<Rightarrow> res = Inl foreignKeyViolation \<and> hosts_of uid st' = []
        \<and> map_option allowedHostIds (session_user_of u st') = Some None"
proof -
  let ?i = "\<lparr>uuEmail = None, uuPassword = None, uuRoleId = None, uuStatus = None,
       uuHostIds = Some [h], uuHosts = None, uuGuests = None\<rparr> :: update_user_input"
  let ?st = "st\<lparr>hostAccess := drop_rows (\<lambda>h. haUserId h = uid) (hostAccess st)\<rparr>"
  have uid: "uId u = uid" using assms(1,2) by (simp add: user_by_id_iff)
  have cols: "update_columns pf ?i = id"
    by (rule ext) (simp add: update_columns_def set_if_def nonempty_def truthy_def)
  have same: "change_rows P id t = t" for P and t :: "user_row list"
    by (induction t) (simp_all add: change_rows_def)
  have "\<not> list_ex (\<lambda>u. role_by_id (uRoleId u) st = None) (users st)"
    using assms(1) by (auto simp: list_ex_iff role_missing server_wf_def)
  then have up: "update_user_row uid (update_columns pf ?i) st = (Inr (), st)"
    using assms(1) by (simp add: update_user_row_def cols same Let_def server_wf_def)
  have rep: "replace_hosts uid ?i st = (Inl foreignKeyViolation, ?st)"
    using assms(6) by (simp add: replace_hosts_def hostRowsFromInput_def Let_def create_host_rows_def host_row_for_def
        host_access_grant.defs user_host_access.defs)
  have run: "updateUser pf uid ?i st = (Inl foreignKeyViolation, ?st)"
    using assms(2) by (simp add: updateUser_def up rep truthy_def)
  have none: "hosts_of uid ?st = []" "guests_of uid ?st = []" "role_by_id (uRoleId u) ?st = Some role"
    using assms(3,5) by (auto simp: hosts_of_def guests_of_def drop_rows_def role_by_id_def)
  have "session_user_of u ?st = Some (toSessionUser u role [] [])"
    using none uid by (simp add: session_user_of_def)
  moreover have "allowedHostIds (toSessionUser u role [] []) = None"
    using assms(4) by (simp add: toSessionUser_def sessionScopeFromGrants_def lockHostsWithoutHostView_def Let_def)
  ultimately show ?thesis using run none by simp
qed

definition demo_viewer :: server where
  "demo_viewer = demo_server\<lparr>roles := [\<lparr>roId = ''r1'', roName = ''Ops'', roSlug = ''ops'', roDescription = [],
     roIsSystem = False, roPermissions = [''hosts.view'']\<rparr>]\<rparr>"

lemma demo_viewer_wf: "server_wf demo_viewer"
  by (simp add: demo_viewer_def server_wf_def demo_server_def table_wf_def)

theorem updateUser_failed_host_update_lifts_restriction_witness:
  "\<exists>u res st'. updateUser demo_platform ''u1'' \<lparr>uuEmail = None, uuPassword = None, uuRoleId = None, uuStatus = None,
       uuHostIds = Some [''h9''], uuHosts = None, uuGuests = None\<rparr> demo_viewer = (Inl res, st')
     \<and> hosts_of ''u1'' demo_viewer \<noteq> [] \<and> map_option allowedHostIds (session_user_of u demo_viewer) = Some (Some [''h1''])
     \<and> map_option allowedHostIds (session_user_of u st') = Some None"
proof -
  obtain u role where u: "user_by_id ''u1'' demo_viewer = Some u" "role_by_id (uRoleId u) demo_viewer = Some role"
      "roPermissions role = [''hosts.view'']" "uId u = ''u1''"
    by (simp add: demo_viewer_def demo_server_def user_by_id_def user_keys_def find_row_def role_by_id_def role_keys_def)
  have view: "hasPermission (Some (roPermissions role)) ''hosts.view''"
    unfolding u(3) by code_simp
  have g: "guests_of ''u1'' demo_viewer = []" by (simp add: demo_viewer_def demo_server_def guests_of_def)
  have h: "''h9'' \<notin> set (hostIds demo_viewer)" by (simp add: demo_viewer_def demo_server_def)
  have before: "hosts_of ''u1'' demo_viewer = [\<lparr>haHostId = ''h1'', haPermissions = Some [], haOverride = False\<rparr>]"
    by (simp add: demo_viewer_def demo_server_def hosts_of_def host_access_grant.defs)
  have "map_option allowedHostIds (session_user_of u demo_viewer) = Some (Some [''h1''])"
    using view by (simp add: session_user_of_def u before g toSessionUser_def sessionScopeFromGrants_def Let_def
        lockHostsWithoutHostView_def uniq_def)
  with before updateUser_failed_host_update_lifts_restriction [OF demo_viewer_wf u(1,2) view g h, of demo_platform]
  show ?thesis by (auto split: prod.splits)
qed

lemma ticket_text:
  "JSON_parse (JSON_stringify (JObj [(''userId'', JStr uid), (''exp'', JNum (of_int_num e))]))
     = Some (JObj [(''userId'', JStr uid), (''exp'', JNum (of_int_num e))])"
  by (rule JSON_flat) (auto simp: flat_value_def)

text \<open>
  The ticket between the two login steps: with an encryption that decrypts what it encrypted, a
  ticket reads back as its user until its life time is over, and is refused from then on.
\<close>

theorem totp_ticket_round_trip:
  assumes "\<And>s c. encryptSecret pf s = Inr c \<Longrightarrow> decryptSecret pf c = Inr s"
    and "createTotpTicket pf now userId ttlMs = Inr ticket"
  shows "readTotpTicket pf now' ticket
     = (if now + ttlMs < now' then Inl ticketError else Inr (userId, of_int_num (now + ttlMs)))"
proof -
  have "decryptSecret pf ticket
      = Inr (JSON_stringify (JObj [(''userId'', JStr userId), (''exp'', JNum (of_int_num (now + ttlMs)))]))"
    using assms by (simp add: createTotpTicket_def)
  then show ?thesis
    using ticket_text [of userId "now + ttlMs"] by (simp add: readTotpTicket_def get_prop_def)
qed

theorem totp_ticket_round_trip_witness:
  "\<exists>ticket. createTotpTicket demo_platform 1000 ''u1'' TICKET_TTL_MS = Inr ticket
     \<and> readTotpTicket demo_platform 5000 ticket = Inr (''u1'', of_int_num 301000)
     \<and> readTotpTicket demo_platform 301001 ticket = Inl ticketError"
proof -
  have "\<And>s c. encryptSecret demo_platform s = Inr c \<Longrightarrow> decryptSecret demo_platform c = Inr s"
    by (auto simp: demo_platform_def)
  moreover obtain ticket where "createTotpTicket demo_platform 1000 ''u1'' TICKET_TTL_MS = Inr ticket"
    by (simp add: createTotpTicket_def demo_platform_def)
  ultimately show ?thesis
    using totp_ticket_round_trip [of demo_platform 1000 "''u1''" TICKET_TTL_MS ticket 5000]
      totp_ticket_round_trip [of demo_platform 1000 "''u1''" TICKET_TTL_MS ticket 301001]
    by (simp add: TICKET_TTL_MS_def)
qed

text \<open>
  A password change answered with success stores the hash of the new password and leaves the user
  with no session but the one that made the change; other users keep all of theirs.
\<close>

theorem changePassword_keeps_own_session:
  assumes "changePassword pf body session st = (Inr (), st')"
  shows "sessions st' = filter (\<lambda>s. seUserId s = suId (asUser session)
        \<longrightarrow> asId session \<noteq> [] \<and> seId s = asId session) (sessions st)
     \<and> (\<exists>u \<in> set (users st). uId u = suId (asUser session) \<and> bcrypt_compare pf (pbCurrent body) (uPasswordHash u))
     \<and> (\<forall>u \<in> set (users st'). uId u = suId (asUser session) \<longrightarrow> uPasswordHash u = bcrypt_hash pf (pbNew body))"
proof -
  from assms obtain user st1 where u: "user_by_id (suId (asUser session)) st = Some user"
      "bcrypt_compare pf (pbCurrent body) (uPasswordHash user)"
      "update_user_row (uId user) (\<lambda>u. u\<lparr>uPasswordHash := bcrypt_hash pf (pbNew body)\<rparr>) st = (Inr (), st1)"
    and st': "sessions st' = sessions (destroyUserSessions (uId user) (Some (asId session)) st1)" "users st' = users st1"
    by (auto simp: changePassword_def destroyUserSessions_def delete_sessions_def split: if_splits option.splits prod.splits sum.splits)
  have id: "user \<in> set (users st)" "uId user = suId (asUser session)"
    using u(1) find_SomeD' [of "\<lambda>r. user_keys r ! 0 = suId (asUser session)" "users st" user]
    by (auto simp: user_by_id_def find_row_def user_keys_def)
  have "users st1 = change_rows (\<lambda>u. uId u = uId user) (\<lambda>u. u\<lparr>uPasswordHash := bcrypt_hash pf (pbNew body)\<rparr>) (users st)"
    using u(3) by (auto simp: update_user_row_def Let_def split: if_splits)
  then have "\<forall>u \<in> set (users st'). uId u = suId (asUser session) \<longrightarrow> uPasswordHash u = bcrypt_hash pf (pbNew body)"
    using st'(2) id(2) by (auto simp: set_change_rows)
  moreover have "sessions st' = filter (\<lambda>s. seUserId s = suId (asUser session)
        \<longrightarrow> asId session \<noteq> [] \<and> seId s = asId session) (sessions st)"
    using st'(1) update_user_sessions [OF u(3)] id(2)
    by (auto simp: destroyUserSessions_def delete_sessions_def drop_rows_def truthy_def intro: filter_cong)
  ultimately show ?thesis using id u(2) by blast
qed

theorem changePassword_keeps_own_session_witness:
  "\<exists>session st'. changePassword demo_platform \<lparr>pbCurrent = ''pw'', pbNew = ''0123456789''\<rparr> session demo_server = (Inr (), st')
     \<and> sessions st' = []"
proof -
  obtain session :: auth_session where s: "suId (asUser session) = ''u1''" "asId session = ''s9''"
    using auth_session.select_convs(1,2) session_user.select_convs(1) by metis
  obtain st' where run: "changePassword demo_platform \<lparr>pbCurrent = ''pw'', pbNew = ''0123456789''\<rparr> session demo_server = (Inr (), st')"
    by (simp add: changePassword_def s between_def user_by_id_def user_keys_def find_row_def demo_server_def demo_platform_def
        update_user_row_def change_rows_def table_wf_def role_by_id_def role_keys_def Let_def)
  from changePassword_keeps_own_session [OF run] have "sessions st' = []"
    by (simp add: s demo_server_def)
  with run show ?thesis by blast
qed

lemma finishLogin_token:
  assumes "finishLogin pf d user su ip ua st = (Inr resp, st')"
  shows "lrToken resp = Some (dToken d) \<and> lrUser resp = Some su
     \<and> (\<exists>row. sessions st' = sessions st @ [row] \<and> seUserId row = uId user \<and> seTokenHash row = sha256 pf (dToken d))
     \<and> users st' = change_rows (\<lambda>u. uId u = uId user) (\<lambda>u. u\<lparr>uLastLoginAt := Some (dNow d)\<rparr>) (users st)"
  using assms
  by (auto simp: finishLogin_def createSession_def create_session_row_def update_user_row_def Let_def add_row_Some
      split: prod.splits sum.splits option.splits if_splits)

lemma deny_no_token [simp]:
  "lrToken (deny n c m) = None" "lrToken (plain_response r) = None" "lrToken rate_limited = None"
  "lrToken bad_credentials = None" "lrToken bad_totp = None"
  by (simp_all add: deny_def plain_response_def response.defs login_response.defs rate_limited_def bad_credentials_def bad_totp_def)

text \<open>How a login may succeed: by the password of an account without second factor, or by a ticket of
  the first step together with a current code, or with a recovery code that is spent by it.\<close>

definition password_login :: "platform \<Rightarrow> login_body \<Rightarrow> user_row \<Rightarrow> bool" where
  "password_login pf body user \<longleftrightarrow>
     lbUsername body = Some (uUsername user) \<and> \<not> uTotpEnabled user
     \<and> bcrypt_compare pf (the (lbPassword body)) (uPasswordHash user)"

definition ticket_login :: "platform \<Rightarrow> int \<Rightarrow> login_body \<Rightarrow> user_row \<Rightarrow> bool" where
  "ticket_login pf now body user \<longleftrightarrow>
     (\<exists>e. readTotpTicket pf now (the (lbTicket body)) = Inr (uId user, e)) \<and> uTotpEnabled user"

definition code_ok :: "platform \<Rightarrow> int \<Rightarrow> login_body \<Rightarrow> user_row \<Rightarrow> bool" where
  "code_ok pf now body user \<longleftrightarrow>
     (\<exists>secret. decryptSecret pf (the (uTotpSecret user)) = Inr secret
        \<and> verifyTotp (hmac_sha1 pf) secret (the (lbTotp body)) 1 now = Inr True)"

definition recovery_spent :: "platform \<Rightarrow> login_body \<Rightarrow> user_row \<Rightarrow> user_row list \<Rightarrow> bool" where
  "recovery_spent pf body user after \<longleftrightarrow>
     (let h = hashRecoveryCode (sha256 pf) (the (lbTotp body)) in
      h \<in> set (uTotpRecoveryHashes user)
      \<and> (\<forall>u \<in> set after. uId u = uId user \<longrightarrow> uTotpRecoveryHashes u = remove1 h (uTotpRecoveryHashes user)))"

definition login_grant :: "platform \<Rightarrow> int \<Rightarrow> login_body \<Rightarrow> user_row \<Rightarrow> server \<Rightarrow> bool" where
  "login_grant pf now body user st' \<longleftrightarrow>
     uStatus user = ACTIVE
     \<and> (password_login pf body user
        \<or> ticket_login pf now body user \<and> (code_ok pf now body user \<or> recovery_spent pf body user (users st')))"

definition one_new_session :: "platform \<Rightarrow> string \<Rightarrow> user_row \<Rightarrow> server \<Rightarrow> server \<Rightarrow> bool" where
  "one_new_session pf token user st st' \<longleftrightarrow>
     (\<exists>row. sessions st' = sessions st @ [row] \<and> seUserId row = uId user \<and> seTokenHash row = sha256 pf token)"

lemma login_ticket_grant:
  assumes run: "login_with_ticket pf d (the (lbTicket body)) (the (lbTotp body)) ip ua st = (Inr resp, st')"
    and wf: "server_wf st" and tok: "lrToken resp = Some token"
  shows "\<exists>user \<in> set (users st). login_grant pf (dNow d) body user st' \<and> one_new_session pf token user st st' \<and> token = dToken d"
proof -
  from run tok obtain e uid user su secret where
      r: "readTotpTicket pf (dNow d) (the (lbTicket body)) = Inr (uid, e)" "user_by_id uid st = Some user"
        "uStatus user = ACTIVE" "uTotpEnabled user"
        "decryptSecret pf (the (uTotpSecret user)) = Inr secret"
      and v: "(verifyTotp (hmac_sha1 pf) secret (the (lbTotp body)) 1 (dNow d) = Inr True
            \<and> finishLogin pf d user su ip ua st = (Inr resp, st'))
        \<or> (\<exists>rest st1. consumeRecoveryCode (sha256 pf) (uTotpRecoveryHashes user) (the (lbTotp body)) = Some rest
             \<and> update_user_row (uId user) (\<lambda>u. u\<lparr>uTotpRecoveryHashes := rest\<rparr>) st = (Inr (), st1)
             \<and> finishLogin pf d user su ip ua st1 = (Inr resp, st'))"
    by (auto simp: login_with_ticket_def split: sum.splits option.splits if_splits bool.splits prod.splits)
  have id: "user \<in> set (users st)" "uId user = uid" using r(2) user_by_id_iff [OF wf] by auto
  have "login_grant pf (dNow d) body user st' \<and> one_new_session pf token user st st' \<and> token = dToken d"
    using v
  proof (elim disjE exE conjE)
    assume code: "verifyTotp (hmac_sha1 pf) secret (the (lbTotp body)) 1 (dNow d) = Inr True"
      and "finishLogin pf d user su ip ua st = (Inr resp, st')"
    with finishLogin_token [OF this(2)] tok r id show ?thesis
      by (auto simp: login_grant_def ticket_login_def code_ok_def one_new_session_def)
  next
    fix rest st1
    assume rest: "consumeRecoveryCode (sha256 pf) (uTotpRecoveryHashes user) (the (lbTotp body)) = Some rest"
      and up: "update_user_row (uId user) (\<lambda>u. u\<lparr>uTotpRecoveryHashes := rest\<rparr>) st = (Inr (), st1)"
      and fin: "finishLogin pf d user su ip ua st1 = (Inr resp, st')"
    have "users st1 = change_rows (\<lambda>u. uId u = uId user) (\<lambda>u. u\<lparr>uTotpRecoveryHashes := rest\<rparr>) (users st)"
      using up by (auto simp: update_user_row_def Let_def split: if_splits)
    with finishLogin_token [OF fin] have "\<forall>u \<in> set (users st'). uId u = uId user \<longrightarrow> uTotpRecoveryHashes u = rest"
      by (auto simp: set_change_rows)
    with rest have "recovery_spent pf body user (users st')"
      by (auto simp: recovery_spent_def consumeRecoveryCode_def Let_def split: if_splits)
    with finishLogin_token [OF fin] update_user_sessions [OF up] tok r id show ?thesis
      by (auto simp: login_grant_def ticket_login_def one_new_session_def)
  qed
  with id(1) show ?thesis by blast
qed

lemma login_password_grant:
  assumes run: "login_with_password pf d (the (lbUsername body)) (the (lbPassword body)) ip ua st = (Inr resp, st')"
    and wf: "server_wf st" and tok: "lrToken resp = Some token" and name: "lbUsername body \<noteq> None"
  shows "\<exists>user \<in> set (users st). login_grant pf (dNow d) body user st' \<and> one_new_session pf token user st st' \<and> token = dToken d"
proof -
  from run tok obtain user su where
      r: "user_by_name (the (lbUsername body)) st = Some user" "uStatus user = ACTIVE" "\<not> uTotpEnabled user"
        "bcrypt_compare pf (the (lbPassword body)) (uPasswordHash user)"
        "finishLogin pf d user su ip ua st = (Inr resp, st')"
    by (auto simp: login_with_password_def Let_def split: sum.splits option.splits if_splits)
  then have "user \<in> set (users st)" "lbUsername body = Some (uUsername user)"
    using user_by_name_iff [OF wf, of "the (lbUsername body)" user] name by auto
  with r finishLogin_token [OF r(5)] tok show ?thesis
    by (auto simp: login_grant_def password_login_def one_new_session_def)
qed

lemma limit_login_fields:
  "limit_login key n d st = (ok, st1) \<Longrightarrow> users st1 = users st \<and> sessions st1 = sessions st \<and> (server_wf st \<longrightarrow> server_wf st1)"
  by (auto simp: limit_login_def server_wf_def split: prod.splits)

text \<open>
  C5: No session without credentials: when a login request sets a session cookie, its origin was
  accepted, the account is active, and either its password was right and it has no second factor,
  or a valid ticket of the first step came with a current code of the authenticator or with a
  recovery code that is no longer stored; and the server holds exactly one session more, for that
  user and under the hash of the new token.
\<close>

theorem login_needs_credentials:
  assumes "server_wf st" "loginPOST pf new_url env d request read_body st = (resp, st')" "lrToken resp = Some token"
  shows "\<exists>body. read_body = Inr body \<and> assertSameOrigin new_url env request = Inr () \<and> token = dToken d
     \<and> (\<exists>user \<in> set (users st). login_grant pf (dNow d) body user st' \<and> one_new_session pf token user st st')"
proof -
  from assms(2,3) obtain body st1 st2 ok where
      b: "read_body = Inr body" "assertSameOrigin new_url env request = Inr ()"
      and l1: "limit_login (''login:'' @ (case clientIp request of None \<Rightarrow> ''unknown'' | Some a \<Rightarrow> a)) 8 d st = (True, st1)"
      and l2: "(if truthy (map_option (\<lambda>u. to_lower (trim u)) (lbUsername body))
          then limit_login (''login-user:'' @ the (map_option (\<lambda>u. to_lower (trim u)) (lbUsername body))) 12 d st1
          else (True, st1)) = (ok, st2)"
      and run: "login_body_step pf d body (clientIp request) (clientUserAgent request) st2 = (Inr resp, st')"
    by (auto simp: loginPOST_def Let_def split: sum.splits prod.splits bool.splits if_splits)
  have "server_wf st2 \<and> users st2 = users st \<and> sessions st2 = sessions st"
    using limit_login_fields [OF l1] l2 assms(1) by (auto split: if_splits dest!: limit_login_fields)
  moreover have "\<exists>user \<in> set (users st2). login_grant pf (dNow d) body user st' \<and> one_new_session pf token user st2 st' \<and> token = dToken d"
    if wf: "server_wf st2"
    using run assms(3) login_ticket_grant [OF _ wf] login_password_grant [OF _ wf]
    by (auto simp: login_body_step_def truthy_def split: if_splits option.splits)
  ultimately show ?thesis using b by (auto simp: one_new_session_def)
qed

definition demo_draws :: draws where
  "demo_draws = \<lparr>dNow = 7, dSessionId = ''s2'', dToken = ''tok''\<rparr>"

definition demo_login :: login_body where
  "demo_login = \<lparr>lbUsername = Some ''ann'', lbPassword = Some ''pw'', lbTicket = None, lbTotp = None\<rparr>"

theorem login_needs_credentials_witness:
  "\<exists>resp st'. loginPOST demo_platform demo_url demo_env demo_draws demo_request (Inr demo_login) demo_server = (resp, st')
     \<and> lrToken resp = Some ''tok'' \<and> length (sessions st') = 2"
proof -
  obtain resp st' where run: "loginPOST demo_platform demo_url demo_env demo_draws demo_request (Inr demo_login) demo_server = (resp, st')"
    by fastforce
  have "lrToken (fst (loginPOST demo_platform demo_url demo_env demo_draws demo_request (Inr demo_login) demo_server)) = Some ''tok''"
    by code_simp
  with run have tok: "lrToken resp = Some ''tok''" by simp
  from login_needs_credentials [OF demo_server_wf run tok] have "length (sessions st') = Suc (length (sessions demo_server))"
    by (auto simp: one_new_session_def)
  with run tok show ?thesis by (simp add: demo_server_def)
qed

end
