(* ===== verification/CreateIp.thy ===== *)
theory CreateIp imports JsValue begin

text \<open>
  Addresses of guests: \<^verbatim>\<open>lib/create-ip.ts\<close> (networks for automatic addresses, and the readers that
  collect IPv4 addresses from a guest configuration, the guest agent and a container) and
  \<^verbatim>\<open>lib/lxc-net.ts\<close>.
\<close>

section \<open>IPv4 text\<close>

definition octet :: "string \<Rightarrow> bool" where
  "octet part \<longleftrightarrow> all_digits part \<and> length part \<le> 3 \<and> digits_val part \<le> 255"

definition isIpv4 :: "string \<Rightarrow> bool" where
  "isIpv4 v = (case split_on CHR ''.'' (trim v) of [a, b, c, d] \<Rightarrow> list_all octet [a, b, c, d] | _ \<Rightarrow> False)"

definition ipv4Host :: "string \<Rightarrow> string option" where
  "ipv4Host cidr = (let host = trim (hd (split_on CHR ''/'' (trim cidr))) in if isIpv4 host then Some host else None)"

section \<open>Networks\<close>

record guest_ip_network =
  nwId :: string
  nwPrefix :: int
  nwGateway :: string

record guest_ip_settings =
  gipDefaults :: "guest_ip_network list"
  gipByHost :: "(string \<times> guest_ip_network list) list"

definition GUEST_IP_NETWORKS :: "guest_ip_network list" where
  "GUEST_IP_NETWORKS = [
     \<lparr>nwId = ''192.168.178.0'', nwPrefix = 24, nwGateway = ''192.168.178.1''\<rparr>,
     \<lparr>nwId = ''192.168.1.0'', nwPrefix = 24, nwGateway = ''192.168.1.1''\<rparr>,
     \<lparr>nwId = ''192.168.2.0'', nwPrefix = 24, nwGateway = ''192.168.2.1''\<rparr>]"

definition DEFAULT_GUEST_NETWORK :: string where
  "DEFAULT_GUEST_NETWORK = ''192.168.178.0''"

text \<open>\<open>String(rec.k ?? "").trim()\<close>.\<close>

definition text_prop :: "js_record \<Rightarrow> string \<Rightarrow> string" where
  "text_prop rec k = trim (js_string (js_or (get_prop rec k) (JStr [])))"

text \<open>The properties of an array item: an array has none of the names that are read here.\<close>

fun item_record :: "js \<Rightarrow> js_record option" where
  "item_record (JObj rec) = Some rec"
| "item_record (JArr xs) = Some []"
| "item_record _ = None"

definition parse_network :: "js \<Rightarrow> guest_ip_network list" where
  "parse_network item =
     (case item_record item of None \<Rightarrow> []
      | Some rec \<Rightarrow>
         (let ident = text_prop rec ''id''; prefix = js_number (js_or (get_prop rec ''prefix'') (JNum (of_int_num 24)));
              gateway = text_prop rec ''gateway''
          in if \<not> isIpv4 ident \<or> \<not> isIpv4 gateway then []
             else if \<not> isIntegerNum prefix \<or> num_less prefix 8 \<or> num_greater prefix 32 then []
             else [\<lparr>nwId = ident, nwPrefix = num_int prefix, nwGateway = gateway\<rparr>]))"

definition parseGuestIpNetworks :: "js \<Rightarrow> guest_ip_network list" where
  "parseGuestIpNetworks v = (case v of JArr items \<Rightarrow> concat (map parse_network items) | _ \<Rightarrow> [])"

fun parse_by_host :: "js_record \<Rightarrow> (string \<times> guest_ip_network list) list \<Rightarrow> (string \<times> guest_ip_network list) list" where
  "parse_by_host [] acc = acc"
| "parse_by_host ((hostId, xs) # rest) acc =
     (let nets = parseGuestIpNetworks xs in
      parse_by_host rest (if nets \<noteq> [] then AList.update hostId nets acc else acc))"

fun by_host_entries :: "js \<Rightarrow> js_record" where
  "by_host_entries (JObj r) = r"
| "by_host_entries (JArr xs) = zip (map nat_str [0..<length xs]) xs"
| "by_host_entries _ = []"

definition parseGuestIpSettings :: "js \<Rightarrow> guest_ip_settings" where
  "parseGuestIpSettings v =
     (let raw = (case v of JObj r \<Rightarrow> r | _ \<Rightarrow> []);
          listed = parseGuestIpNetworks (js_or (get_prop raw ''defaults'') (case v of JArr xs \<Rightarrow> v | _ \<Rightarrow> JUndef))
      in \<lparr>gipDefaults = (if listed \<noteq> [] then listed else GUEST_IP_NETWORKS),
          gipByHost = parse_by_host (by_host_entries (get_prop raw ''byHost'')) []\<rparr>)"

definition networksForHost :: "guest_ip_settings \<Rightarrow> string \<Rightarrow> guest_ip_network list" where
  "networksForHost settings hostId =
     (case map_of (gipByHost settings) hostId of Some (n # ns) \<Rightarrow> n # ns | _ \<Rightarrow> gipDefaults settings)"

definition resolveGuestNetworks ::
  "guest_ip_settings \<Rightarrow> string \<Rightarrow> guest_ip_network list option \<Rightarrow> guest_ip_network list" where
  "resolveGuestNetworks settings hostId peerNetworks =
     (case peerNetworks of Some (n # ns) \<Rightarrow> n # ns | _ \<Rightarrow> networksForHost settings hostId)"

definition guestIpNetwork :: "string \<Rightarrow> guest_ip_network list \<Rightarrow> guest_ip_network" where
  "guestIpNetwork ident networks =
     (case find (\<lambda>n. nwId n = ident) networks of Some n \<Rightarrow> n
      | None \<Rightarrow> (case networks of n # _ \<Rightarrow> n | [] \<Rightarrow> hd GUEST_IP_NETWORKS))"

definition guestIpFromVmid :: "string \<Rightarrow> int \<Rightarrow> guest_ip_network list \<Rightarrow> string option" where
  "guestIpFromVmid networkId vmid networks =
     (if vmid < 1 \<or> 254 < vmid then None
      else (case split_on CHR ''.'' (nwId (guestIpNetwork networkId networks)) of
              a # b # c # _ \<Rightarrow>
                if a = [] \<or> b = [] \<or> c = [] then None
                else Some (a @ ''.'' @ b @ ''.'' @ c @ ''.'' @ int_str vmid)
            | _ \<Rightarrow> None))"

definition guestCidrFromVmid :: "string \<Rightarrow> int \<Rightarrow> guest_ip_network list \<Rightarrow> string" where
  "guestCidrFromVmid networkId vmid networks =
     (case guestIpFromVmid networkId vmid networks of
        Some (c # cs) \<Rightarrow> (c # cs) @ ''/'' @ int_str (nwPrefix (guestIpNetwork networkId networks))
      | _ \<Rightarrow> [])"

definition guestGateway :: "string \<Rightarrow> guest_ip_network list \<Rightarrow> string" where
  "guestGateway networkId networks = nwGateway (guestIpNetwork networkId networks)"

definition shouldSyncGuestIp :: "string \<Rightarrow> string \<Rightarrow> int \<Rightarrow> guest_ip_network list \<Rightarrow> bool" where
  "shouldSyncGuestIp cidr networkId vmid networks =
     (if trim cidr = [] then True
      else (case ipv4Host cidr of None \<Rightarrow> False | Some [] \<Rightarrow> False
        | Some host \<Rightarrow> truthy (guestIpFromVmid networkId vmid networks) \<and> Some host = guestIpFromVmid networkId vmid networks))"

section \<open>Reading addresses\<close>

definition net_key :: "string \<Rightarrow> bool" where
  "net_key key =
     (let k = to_lower key in
      starts_with k ''net'' \<and> all_digits (drop 3 k) \<or> starts_with k ''ipconfig'' \<and> all_digits (drop 8 k))"

text \<open>\<open>/(?:^|,)ip=([^,]*)/i\<close>: the first comma-separated field that starts with \<open>ip=\<close>.\<close>

definition ip_field :: "string \<Rightarrow> string option" where
  "ip_field v = map_option (drop 3) (find (\<lambda>f. starts_with (to_lower f) ''ip='') (split_on CHR '','' v))"

definition config_ip :: "string \<times> js \<Rightarrow> string list" where
  "config_ip entry =
     (case snd entry of
        JStr v \<Rightarrow>
          (if \<not> net_key (fst entry) then []
           else (let raw = (case ip_field v of None \<Rightarrow> [] | Some r \<Rightarrow> trim r) in
                 if raw = [] \<or> to_lower raw = ''dhcp'' \<or> to_lower raw = ''manual'' then []
                 else (case ipv4Host raw of None \<Rightarrow> [] | Some host \<Rightarrow> [host])))
      | _ \<Rightarrow> [])"

definition parseGuestConfigIps :: "js_record \<Rightarrow> string list" where
  "parseGuestConfigIps config = concat (map config_ip config)"

text \<open>The array itself, or the one under \<open>result\<close>.\<close>

definition payload_list :: "js \<Rightarrow> js list" where
  "payload_list payload =
     (case payload of JArr xs \<Rightarrow> xs
      | JObj obj \<Rightarrow> (case get_prop obj ''result'' of JArr xs \<Rightarrow> xs | _ \<Rightarrow> [])
      | _ \<Rightarrow> [])"

definition loopback_nic :: "js_record \<Rightarrow> bool" where
  "loopback_nic rec =
     (let name = to_lower (text_prop rec ''name'') in name = [] \<or> name = ''lo'' \<or> starts_with name ''lo:'')"

definition agent_addr :: "js \<Rightarrow> string list" where
  "agent_addr entry =
     (case item_record entry of None \<Rightarrow> []
      | Some addr \<Rightarrow>
         (let type = to_lower (js_string (js_or (js_or (get_prop addr ''ip-address-type'') (get_prop addr ''type'')) (JStr []))) in
          if type = ''ipv6'' then []
          else (let raw = trim (js_string (js_or (js_or (get_prop addr ''ip-address'') (get_prop addr ''ip'')) (JStr []))) in
                case ipv4Host raw of None \<Rightarrow> []
                | Some host \<Rightarrow> (if starts_with host ''127.'' then [] else [host]))))"

definition agent_nic :: "js \<Rightarrow> string list" where
  "agent_nic nic =
     (case item_record nic of None \<Rightarrow> []
      | Some rec \<Rightarrow>
         if loopback_nic rec then []
         else (case js_or (get_prop rec ''ip-addresses'') (get_prop rec ''ip_addresses'') of
                 JArr addrs \<Rightarrow> concat (map agent_addr addrs) | _ \<Rightarrow> []))"

definition parseAgentNetworkIps :: "js \<Rightarrow> string list" where
  "parseAgentNetworkIps payload = uniq (concat (map agent_nic (payload_list payload)))"

definition lxc_part :: "js \<Rightarrow> string list" where
  "lxc_part part =
     (case ipv4Host (js_string (js_or part (JStr []))) of None \<Rightarrow> []
      | Some host \<Rightarrow> (if starts_with host ''127.'' then [] else [host]))"

definition lxc_value :: "js \<Rightarrow> string list" where
  "lxc_value v = concat (map lxc_part (case v of JArr parts \<Rightarrow> parts | _ \<Rightarrow> [v]))"

definition lxc_nic :: "js \<Rightarrow> string list" where
  "lxc_nic nic =
     (case item_record nic of None \<Rightarrow> []
      | Some rec \<Rightarrow>
         if loopback_nic rec then []
         else concat (map lxc_value
                [get_prop rec ''inet'', get_prop rec ''ip'', get_prop rec ''address'']))"

definition parseLxcInterfaceIps :: "js \<Rightarrow> string list" where
  "parseLxcInterfaceIps payload = uniq (concat (map lxc_nic (payload_list payload)))"

section \<open>Container network line\<close>

definition normalizeLxcCidr :: "string \<Rightarrow> string" where
  "normalizeLxcCidr v =
     (let ip = trim v in if ip = [] then [] else if CHR ''/'' \<in> set ip then ip else ip @ ''/24'')"

text \<open>The mode \<open>dhcp\<close> is \<open>True\<close>.\<close>

record lxc_net_input =
  lnBridge :: string
  lnVlan :: "int option"
  lnDhcp :: bool
  lnCidr :: "string option"
  lnGateway :: "string option"

definition buildLxcNet0 :: "lxc_net_input \<Rightarrow> string" where
  "buildLxcNet0 i =
     join '','' (
       [''name=eth0'', ''bridge='' @ lnBridge i]
       @ (case lnVlan i of Some v \<Rightarrow> (if v \<noteq> 0 then [''tag='' @ int_str v] else []) | None \<Rightarrow> [])
       @ (if lnDhcp i then [''ip=dhcp'']
          else [''ip='' @ normalizeLxcCidr (case lnCidr i of None \<Rightarrow> [] | Some c \<Rightarrow> c)]
            @ (let gw = map_option trim (lnGateway i) in if truthy gw then [''gw='' @ the gw] else [])))"

definition compactProxmoxBody :: "js_record \<Rightarrow> js_record" where
  "compactProxmoxBody body = filter (\<lambda>kv. snd kv \<noteq> JUndef \<and> snd kv \<noteq> JNull \<and> snd kv \<noteq> JStr []) body"

section \<open>Lemmas\<close>

lemma isIpv4_trim [simp]: "isIpv4 (trim v) = isIpv4 v"
  by (simp add: isIpv4_def)

lemma ipv4Host_valid: "ipv4Host c = Some h \<Longrightarrow> isIpv4 h \<and> trim h = h"
  by (auto simp: ipv4Host_def Let_def split: if_splits)

lemma octet_chars: "octet p \<Longrightarrow> p \<noteq> [] \<and> list_all is_digit p"
  by (auto simp: octet_def all_digits_def)

lemma parse_network_valid:
  "n \<in> set (parse_network item) \<Longrightarrow>
     isIpv4 (nwId n) \<and> trim (nwId n) = nwId n \<and> isIpv4 (nwGateway n) \<and> 8 \<le> nwPrefix n \<and> nwPrefix n \<le> 32"
proof -
  assume "n \<in> set (parse_network item)"
  then obtain rec prefix where n: "n = \<lparr>nwId = text_prop rec ''id'', nwPrefix = num_int prefix, nwGateway = text_prop rec ''gateway''\<rparr>"
    and v: "isIpv4 (text_prop rec ''id'')" "isIpv4 (text_prop rec ''gateway'')"
      "isIntegerNum prefix" "\<not> num_less prefix 8" "\<not> num_greater prefix 32"
    by (auto simp: parse_network_def Let_def split: option.splits if_splits)
  obtain r where r: "prefix = Fin r" using v(3) by (cases prefix) auto
  with v(3-5) have "8 \<le> num_int prefix \<and> num_int prefix \<le> 32"
    by (simp add: le_floor_iff floor_le_iff)
  with n v show ?thesis by (simp add: text_prop_def)
qed

lemma isIpv4_parts:
  assumes "isIpv4 v" "trim v = v"
  obtains a b c d where "split_on CHR ''.'' v = [a, b, c, d]" "octet a" "octet b" "octet c" "octet d"
  using assms by (auto simp: isIpv4_def split: list.splits)

lemma vmid_octet: "1 \<le> vmid \<Longrightarrow> vmid \<le> 254 \<Longrightarrow> octet (int_str vmid)"
proof -
  assume v: "1 \<le> vmid" "vmid \<le> 254"
  then have s: "int_str vmid = nat_str (nat vmid)" by (simp add: int_str_def)
  have "length (nat_str n) \<le> 3" if "n < 1000" for n
    using that by (simp add: nat_str.simps [of n] nat_str.simps [of "n div 10"] nat_str.simps [of "n div 10 div 10"])
  with v s show ?thesis by (simp add: octet_def)
qed

lemma dotted:
  assumes "octet a" "octet b" "octet c" "octet d"
  shows "isIpv4 (a @ ''.'' @ b @ ''.'' @ c @ ''.'' @ d) \<and> trim (a @ ''.'' @ b @ ''.'' @ c @ ''.'' @ d) = a @ ''.'' @ b @ ''.'' @ c @ ''.'' @ d
     \<and> CHR ''/'' \<notin> set (a @ ''.'' @ b @ ''.'' @ c @ ''.'' @ d)"
proof -
  let ?ip = "a @ ''.'' @ b @ ''.'' @ c @ ''.'' @ d"
  have d: "CHR ''.'' \<notin> set p \<and> list_all (\<lambda>c. \<not> is_ws c) p \<and> CHR ''/'' \<notin> set p" if "octet p" for p
    using octet_chars [OF that] by (auto simp: list_all_iff is_digit_def in_range_def is_ws_def)
  have dot: "\<not> is_ws CHR ''.''" by (simp add: is_ws_def in_range_def)
  have t: "trim ?ip = ?ip"
    by (rule trim_no_ws) (use d assms dot in simp)
  have "split_on CHR ''.'' ?ip = [a, b, c, d]"
    using d assms by (simp add: split_on_append_sep split_on_id)
  then show ?thesis using t d assms by (simp add: isIpv4_def)
qed

lemma guestIpNetwork_mem: "networks \<noteq> [] \<Longrightarrow> guestIpNetwork ident networks \<in> set networks"
  by (cases networks) (auto simp: guestIpNetwork_def find_Some_iff split: option.splits)

text \<open>A network as the parser accepts it.\<close>

definition network_ok :: "guest_ip_network \<Rightarrow> bool" where
  "network_ok n \<longleftrightarrow> isIpv4 (nwId n) \<and> trim (nwId n) = nwId n \<and> isIpv4 (nwGateway n) \<and> 8 \<le> nwPrefix n \<and> nwPrefix n \<le> 32"

lemma networks_ok:
  "\<forall>n \<in> set (parseGuestIpNetworks v). network_ok n" "\<forall>n \<in> set GUEST_IP_NETWORKS. network_ok n"
proof -
  show "\<forall>n \<in> set (parseGuestIpNetworks v). network_ok n"
    using parse_network_valid by (auto simp: parseGuestIpNetworks_def network_ok_def split: js.splits)
  show "\<forall>n \<in> set GUEST_IP_NETWORKS. network_ok n"
    by code_simp
qed

lemma update_mem: "kv \<in> set (AList.update k v al) \<Longrightarrow> kv = (k, v) \<or> kv \<in> set al"
  by (induction al) (auto split: if_splits)

lemma set_concat_mem: "x \<in> set (concat xss) \<Longrightarrow> \<exists>xs \<in> set xss. x \<in> set xs"
  by simp

definition nets_ok :: "string \<times> guest_ip_network list \<Rightarrow> bool" where
  "nets_ok kv \<longleftrightarrow> snd kv \<noteq> [] \<and> (\<forall>n \<in> set (snd kv). network_ok n)"

lemma parse_by_host_ok: "list_all nets_ok acc \<Longrightarrow> list_all nets_ok (parse_by_host es acc)"
proof (induction es arbitrary: acc)
  case (Cons e es)
  obtain hostId xs where e: "e = (hostId, xs)" by fastforce
  have "list_all nets_ok (AList.update hostId nets acc)" if "nets \<noteq> []" "nets = parseGuestIpNetworks xs" for nets
    using Cons.prems that networks_ok(1) [of xs]
    by (auto simp: list_all_iff nets_ok_def dest!: update_mem)
  then show ?case using Cons by (simp add: e Let_def)
qed simp

lemma config_ip_ok: "ip \<in> set (config_ip e) \<Longrightarrow> isIpv4 ip"
  by (auto simp: config_ip_def Let_def split: js.splits if_splits option.splits
      dest: ipv4Host_valid ipv4Host_valid [OF sym])

lemma agent_addr_ok: "ip \<in> set (agent_addr e) \<Longrightarrow> isIpv4 ip \<and> \<not> starts_with ip ''127.''"
  by (auto simp: agent_addr_def Let_def split: if_splits option.splits dest: ipv4Host_valid ipv4Host_valid [OF sym])

lemma agent_nic_ok: "ip \<in> set (agent_nic e) \<Longrightarrow> isIpv4 ip \<and> \<not> starts_with ip ''127.''"
  by (auto simp: agent_nic_def split: if_splits option.splits js.splits dest: agent_addr_ok)

lemma lxc_part_ok: "ip \<in> set (lxc_part e) \<Longrightarrow> isIpv4 ip \<and> \<not> starts_with ip ''127.''"
  by (auto simp: lxc_part_def split: if_splits option.splits dest: ipv4Host_valid ipv4Host_valid [OF sym])

lemma lxc_nic_ok: "ip \<in> set (lxc_nic e) \<Longrightarrow> isIpv4 ip \<and> \<not> starts_with ip ''127.''"
proof -
  have "ip \<in> set (lxc_value v) \<Longrightarrow> isIpv4 ip \<and> \<not> starts_with ip ''127.''" for v
    by (cases v) (auto simp: lxc_value_def dest: lxc_part_ok)
  then show "ip \<in> set (lxc_nic e) \<Longrightarrow> ?thesis"
    by (auto simp: lxc_nic_def simp del: set_concat split: if_splits option.splits dest!: set_concat_mem)
qed

section \<open>Properties\<close>

text \<open>
  C10: Whatever was stored, the settings that come out are usable: there is at least one default
  network, and every network that \<open>networksForHost\<close> or \<open>resolveGuestNetworks\<close> picks for a host
  has a well-formed id and gateway and a prefix from 8 to 32.
\<close>

theorem parseGuestIpSettings_usable:
  "networksForHost (parseGuestIpSettings v) hostId \<noteq> []
   \<and> list_all network_ok (networksForHost (parseGuestIpSettings v) hostId)
   \<and> resolveGuestNetworks (parseGuestIpSettings v) hostId None = networksForHost (parseGuestIpSettings v) hostId
   \<and> resolveGuestNetworks (parseGuestIpSettings v) hostId (Some []) = networksForHost (parseGuestIpSettings v) hostId"
proof -
  have defs: "gipDefaults (parseGuestIpSettings v) \<noteq> [] \<and> (\<forall>n \<in> set (gipDefaults (parseGuestIpSettings v)). network_ok n)"
    using networks_ok by (auto simp: parseGuestIpSettings_def Let_def GUEST_IP_NETWORKS_def)
  have "list_all nets_ok (gipByHost (parseGuestIpSettings v))"
    unfolding parseGuestIpSettings_def Let_def by (simp add: parse_by_host_ok)
  then have "map_of (gipByHost (parseGuestIpSettings v)) hostId = Some ns \<Longrightarrow> ns \<noteq> [] \<and> (\<forall>n \<in> set ns. network_ok n)" for ns
    by (auto simp: list_all_iff nets_ok_def dest!: map_of_SomeD)
  with defs show ?thesis
    by (auto simp: list_all_iff networksForHost_def resolveGuestNetworks_def split: option.splits list.splits)
qed

text \<open>
  Automatic addresses: on parsed networks a VMID from 1 to 254 gets a valid IPv4 address, two
  VMIDs never share one, and the CIDR text that was filled in is recognised as automatic again, so
  changing the VMID keeps the field in step; any other VMID gets none.
\<close>

theorem guestIpFromVmid_auto:
  assumes nets: "\<forall>n \<in> set networks. network_ok n" "networks \<noteq> []"
  shows "if vmid < 1 \<or> 254 < vmid then guestIpFromVmid nid vmid networks = None
     else \<exists>ip. guestIpFromVmid nid vmid networks = Some ip \<and> isIpv4 ip
       \<and> shouldSyncGuestIp (guestCidrFromVmid nid vmid networks) nid vmid networks
       \<and> {other. guestIpFromVmid nid other networks = Some ip} = {vmid}"
proof (cases "vmid < 1 \<or> 254 < vmid")
  case True
  then show ?thesis by (auto simp: guestIpFromVmid_def)
next
  case False
  let ?n = "guestIpNetwork nid networks"
  have "network_ok ?n" using nets guestIpNetwork_mem by blast
  then obtain a b c d where p: "split_on CHR ''.'' (nwId ?n) = [a, b, c, d]" "octet a" "octet b" "octet c"
    by (auto simp: network_ok_def elim: isIpv4_parts)
  have ne: "a \<noteq> []" "b \<noteq> []" "c \<noteq> []" using p(2-4) octet_chars by blast+
  define ip where "ip v = a @ ''.'' @ b @ ''.'' @ c @ ''.'' @ int_str v" for v
  have out: "guestIpFromVmid nid v networks = (if v < 1 \<or> 254 < v then None else Some (ip v))" for v
    using p(1) ne by (simp add: guestIpFromVmid_def ip_def)
  note dot = dotted [OF p(2-4) vmid_octet [of vmid], folded ip_def]
  have ipv: "isIpv4 (ip vmid)" "trim (ip vmid) = ip vmid" "CHR ''/'' \<notin> set (ip vmid)"
    using dot False by auto
  obtain x xs where ipc: "ip vmid = x # xs" using ne(1) by (cases a) (auto simp: ip_def)
  have cidr: "guestCidrFromVmid nid vmid networks = ip vmid @ ''/'' @ int_str (nwPrefix ?n)"
    using False ipc by (simp add: guestCidrFromVmid_def out)
  have pre: "8 \<le> nwPrefix ?n" using \<open>network_ok ?n\<close> by (simp add: network_ok_def)
  then have "list_all (\<lambda>c. \<not> is_ws c) (int_str (nwPrefix ?n))"
    using nat_str_digits by (auto simp: int_str_def list_all_iff dest: is_digit_not_ws)
  moreover have "list_all (\<lambda>c. \<not> is_ws c) (ip vmid)"
    using octet_chars [OF p(2)] octet_chars [OF p(3)] octet_chars [OF p(4)] octet_chars [OF vmid_octet [of vmid]] False
    by (auto simp: ip_def list_all_iff is_ws_def in_range_def dest!: is_digit_not_ws)
  ultimately have "trim (ip vmid @ ''/'' @ int_str (nwPrefix ?n)) = ip vmid @ ''/'' @ int_str (nwPrefix ?n)"
    by (intro trim_no_ws) (simp add: is_ws_def in_range_def)
  then have host: "ipv4Host (guestCidrFromVmid nid vmid networks) = Some (ip vmid)"
    and full: "trim (guestCidrFromVmid nid vmid networks) \<noteq> []"
    using ipv split_on_append_sep [of "CHR ''/''" "ip vmid"] ipc by (simp_all add: ipv4Host_def cidr)
  have sync: "shouldSyncGuestIp (guestCidrFromVmid nid vmid networks) nid vmid networks"
    using full False ipc by (simp add: shouldSyncGuestIp_def host out truthy_def)
  have "{other. guestIpFromVmid nid other networks = Some (ip vmid)} = {vmid}"
    using False by (auto simp: out ip_def split: if_splits)
  with False ipv sync out show ?thesis by auto
qed

theorem guestIpFromVmid_auto_witness:
  "\<exists>ip. guestIpFromVmid ''192.168.1.0'' 242 GUEST_IP_NETWORKS = Some ip \<and> isIpv4 ip
     \<and> {other. guestIpFromVmid ''192.168.1.0'' other GUEST_IP_NETWORKS = Some ip} = {242}"
proof -
  have "GUEST_IP_NETWORKS \<noteq> []" by (simp add: GUEST_IP_NETWORKS_def)
  from guestIpFromVmid_auto [OF networks_ok(2) this, of 242 "''192.168.1.0''"] show ?thesis by auto
qed

text \<open>
  Every address the readers report for a guest is a well-formed IPv4 address, and the agent and
  container readers report no loopback address and none twice, whatever JSON the guest answers with.
\<close>

theorem reported_addresses_valid:
  "list_all isIpv4 (parseGuestConfigIps config)
   \<and> list_all (\<lambda>ip. isIpv4 ip \<and> \<not> starts_with ip ''127.'') (parseAgentNetworkIps payload)
   \<and> list_all (\<lambda>ip. isIpv4 ip \<and> \<not> starts_with ip ''127.'') (parseLxcInterfaceIps payload)
   \<and> distinct (parseAgentNetworkIps payload) \<and> distinct (parseLxcInterfaceIps payload)"
  by (auto simp: list_all_iff parseGuestConfigIps_def parseAgentNetworkIps_def parseLxcInterfaceIps_def
      dest: config_ip_ok agent_nic_ok lxc_nic_ok)

end
