(* ===== verification/GuestFiles.thy ===== *)
theory GuestFiles imports CreateIp Json UriCodec "HOL-Library.Word" begin

text \<open>
  Files inside guests: \<^verbatim>\<open>lib/guest-files.ts\<close>.  Paths, upload bookkeeping, shell quoting, the
  download header, the filter for SSH targets and the reader of directory listings.  An
  \<open>Error\<close> is its message on the left of a sum.
\<close>

section \<open>Paths\<close>

definition GUEST_FILE_MAX_BYTES :: nat where
  "GUEST_FILE_MAX_BYTES = 8 * 1024 * 1024"

definition GUEST_FILE_MAX_PATH :: nat where
  "GUEST_FILE_MAX_PATH = 4096"

definition GUEST_SSH_KEY_MAX :: nat where
  "GUEST_SSH_KEY_MAX = 32 * 1024"

abbreviation slash :: char where
  "slash \<equiv> CHR ''/''"

definition joined_path :: "string \<Rightarrow> string option \<Rightarrow> string" where
  "joined_path cwd name =
     (if truthy name
      then (if starts_with (the name) ''/'' then the name
            else strip_trailing slash (if cwd = [] then ''/'' else cwd) @ ''/'' @ the name)
      else if cwd = [] then ''/'' else cwd)"

text \<open>The loop over the segments; \<open>parts\<close> is the stack, last segment first.\<close>

fun walk_segments :: "string list \<Rightarrow> string list \<Rightarrow> string + string list" where
  "walk_segments parts [] = Inr (rev parts)"
| "walk_segments parts (seg # segs) =
     (if seg = [] \<or> seg = ''.'' then walk_segments parts segs
      else if seg = ''..'' then (case parts of [] \<Rightarrow> Inl ''Invalid path'' | _ # ps \<Rightarrow> walk_segments ps segs)
      else walk_segments (seg # parts) segs)"

definition path_of :: "string list \<Rightarrow> string" where
  "path_of parts = slash # join ''/'' parts"

definition resolveGuestPath :: "string \<Rightarrow> string option \<Rightarrow> string + string" where
  "resolveGuestPath cwd name =
     (let joined = joined_path cwd name in
      if CHR 0x00 \<in> set joined then Inl ''Invalid path''
      else (case walk_segments [] (split_on slash (replace_char backslash ''/'' joined)) of
              Inl e \<Rightarrow> Inl e
            | Inr parts \<Rightarrow>
                (if GUEST_FILE_MAX_PATH < length (path_of parts) then Inl ''Path too long'' else Inr (path_of parts))))"

text \<open>\<open>Inr None\<close> is \<open>null\<close>.\<close>

definition guestPathParent :: "string \<Rightarrow> string + string option" where
  "guestPathParent path =
     (case resolveGuestPath path None of Inl e \<Rightarrow> Inl e
      | Inr resolved \<Rightarrow>
         if resolved = ''/'' then Inr None
         else (case last_index_of slash resolved of
                 None \<Rightarrow> Inr (Some ''/'')
               | Some idx \<Rightarrow> Inr (Some (if idx = 0 then ''/'' else take idx resolved))))"

definition guestFileName :: "string \<Rightarrow> string + string" where
  "guestFileName path =
     (case resolveGuestPath path None of Inl e \<Rightarrow> Inl e
      | Inr resolved \<Rightarrow>
         if resolved = ''/'' then Inr ''/''
         else (case last_index_of slash resolved of None \<Rightarrow> Inr resolved | Some idx \<Rightarrow> Inr (drop (idx + 1) resolved)))"

definition guestRenameDest :: "string \<Rightarrow> string \<Rightarrow> string + string" where
  "guestRenameDest src newName =
     (let name = trim newName in
      if name = [] \<or> slash \<in> set name \<or> backslash \<in> set name \<or> name = ''.'' \<or> name = ''..'' then Inl ''Invalid name''
      else (case guestPathParent src of Inl e \<Rightarrow> Inl e
        | Inr None \<Rightarrow> Inl ''Invalid path''
        | Inr (Some parent) \<Rightarrow> resolveGuestPath parent (Some name)))"

fun crumb_loop :: "string \<Rightarrow> string list \<Rightarrow> (string \<times> string) list" where
  "crumb_loop acc [] = []"
| "crumb_loop acc (part # parts) = (part, acc @ ''/'' @ part) # crumb_loop (acc @ ''/'' @ part) parts"

definition guestPathCrumbs :: "string \<Rightarrow> string + (string \<times> string) list" where
  "guestPathCrumbs path =
     (case resolveGuestPath path None of Inl e \<Rightarrow> Inl e
      | Inr resolved \<Rightarrow>
         if resolved = ''/'' then Inr [(''/'', ''/'')]
         else Inr ((''/'', ''/'') # crumb_loop [] (filter (\<lambda>p. p \<noteq> []) (split_on slash resolved))))"

section \<open>Uploads\<close>

definition GUEST_UPLOAD_PART_SUFFIX :: string where
  "GUEST_UPLOAD_PART_SUFFIX = ''.proxora-part''"

definition GUEST_UPLOAD_META_SUFFIX :: string where
  "GUEST_UPLOAD_META_SUFFIX = ''.proxora-part.meta''"

record guest_upload_identity =
  upSize :: int
  upPrefix :: string

definition isGuestUploadPartName :: "string \<Rightarrow> bool" where
  "isGuestUploadPartName name \<longleftrightarrow>
     ends_with name GUEST_UPLOAD_PART_SUFFIX \<and> \<not> ends_with name GUEST_UPLOAD_META_SUFFIX"

definition isGuestUploadMetaName :: "string \<Rightarrow> bool" where
  "isGuestUploadMetaName name \<longleftrightarrow> ends_with name GUEST_UPLOAD_META_SUFFIX"

definition guestUploadPartPath :: "string \<Rightarrow> string + string" where
  "guestUploadPartPath dest =
     (case resolveGuestPath dest None of Inl e \<Rightarrow> Inl e
      | Inr path \<Rightarrow>
         (case guestFileName path of Inl e \<Rightarrow> Inl e
          | Inr name \<Rightarrow> if isGuestUploadPartName name then Inr path else Inr (path @ GUEST_UPLOAD_PART_SUFFIX)))"

definition guestUploadMetaPath :: "string \<Rightarrow> string + string" where
  "guestUploadMetaPath dest = map_sum id (\<lambda>p. p @ ''.meta'') (guestUploadPartPath dest)"

definition guestUploadResumeOffset :: "jsnum \<Rightarrow> jsnum \<Rightarrow> int option" where
  "guestUploadResumeOffset partSize fileSize =
     (case (partSize, fileSize) of
        (Fin p, Fin f) \<Rightarrow> (if p \<le> 0 \<or> f < 0 \<or> f < p then None else Some \<lfloor>p\<rfloor>)
      | _ \<Rightarrow> None)"

definition lower_hex :: "char \<Rightarrow> bool" where
  "lower_hex c \<longleftrightarrow> is_digit c \<or> in_range 97 102 c"

definition parseGuestUploadMeta :: "string \<Rightarrow> guest_upload_identity option" where
  "parseGuestUploadMeta raw =
     (case JSON_parse raw of None \<Rightarrow> None | Some JNull \<Rightarrow> None
      | Some v \<Rightarrow>
         (let json = (case v of JObj r \<Rightarrow> r | _ \<Rightarrow> []);
              prefix = (case get_prop json ''prefix'' of JStr p \<Rightarrow> to_lower (trim p) | _ \<Rightarrow> [])
          in case js_number (get_prop json ''size'') of
               Fin sz \<Rightarrow>
                 (if sz < 0 then None
                  else if prefix \<noteq> [] \<and> \<not> (length prefix = 64 \<and> list_all lower_hex prefix) then None
                  else Some \<lparr>upSize = \<lfloor>sz\<rfloor>, upPrefix = prefix\<rparr>)
             | _ \<Rightarrow> None))"

definition serializeGuestUploadMeta :: "guest_upload_identity \<Rightarrow> string" where
  "serializeGuestUploadMeta i =
     JSON_stringify (JObj [(''v'', JNum (of_int_num 1)), (''size'', JNum (of_int_num (upSize i))), (''prefix'', JStr (upPrefix i))])"

definition guestUploadIdentitiesMatch :: "guest_upload_identity option \<Rightarrow> guest_upload_identity \<Rightarrow> bool" where
  "guestUploadIdentitiesMatch stored local =
     (case stored of None \<Rightarrow> True
      | Some s \<Rightarrow> if upPrefix s = [] then True
                 else if upPrefix local = [] then False
                 else upSize s = upSize local \<and> upPrefix s = upPrefix local)"

definition bytesToHex :: "8 word list \<Rightarrow> string" where
  "bytesToHex bytes = concat (map (\<lambda>b. [json_hex (unat b div 16), json_hex (unat b mod 16)]) bytes)"

section \<open>Shell and header text\<close>

abbreviation quote :: char where
  "quote \<equiv> CHR 0x27"

definition shSingleQuote :: "string \<Rightarrow> string" where
  "shSingleQuote v = quote # replace_char quote [quote, backslash, quote, quote] v @ [quote]"

text \<open>Runs of characters outside the printable ASCII range become one underscore.\<close>

fun ascii_runs :: "bool \<Rightarrow> string \<Rightarrow> string" where
  "ascii_runs skip [] = []"
| "ascii_runs skip (c # s) =
     (if in_range 32 126 c then c # ascii_runs False s
      else if skip then ascii_runs True s else CHR ''_'' # ascii_runs True s)"

definition header_char :: "char \<Rightarrow> char" where
  "header_char c = (if c = dquote \<or> c = backslash \<or> c = CHR '';'' \<or> of_char c \<in> {10::nat, 13} then CHR ''_'' else c)"

definition header_name :: "string \<Rightarrow> string" where
  "header_name name =
     (let t = trim (take 150 (map header_char (ascii_runs False name))) in if t = [] then ''download'' else t)"

definition attachmentDisposition :: "string \<Rightarrow> string" where
  "attachmentDisposition name =
     ''attachment; filename='' @ [dquote] @ header_name name @ [dquote] @ ''; filename*=UTF-8'' @ [quote, quote]
       @ encodeURIComponent name"

section \<open>SSH targets\<close>

definition strip_bracket :: "string \<Rightarrow> string" where
  "strip_bracket raw =
     (let a = (if starts_with raw ''['' then tl raw else raw) in if ends_with a '']'' then butlast a else a)"

definition isAllowedSftpTarget :: "string \<Rightarrow> string + string" where
  "isAllowedSftpTarget host =
     (let raw = trim host; bad = Inl ''Invalid SSH host'' in
      if raw = [] \<or> 253 < length raw then bad
      else if isIpv4 raw then
        (case map digits_val (split_on CHR ''.'' raw) of
           [a, b, c, d] \<Rightarrow>
             (if a = 0 \<or> a = 127 \<or> 224 \<le> a then bad
              else if a = 169 \<and> b = 254 \<and> c = 169 \<and> d = 254 then bad
              else Inr raw)
         | _ \<Rightarrow> Inr raw)
      else if CHR '':'' \<in> set raw then
        (let ip = to_lower (strip_bracket raw) in
         if ip = ''::'' \<or> ip = ''::1'' \<or> starts_with ip ''fe80:'' then bad
         else if \<not> (ip \<noteq> [] \<and> list_all (\<lambda>c. lower_hex c \<or> c = CHR '':'') ip) then bad
         else Inr ip)
      else bad)"

definition clampSftpPort :: "js \<Rightarrow> string + int" where
  "clampSftpPort port =
     (let n = js_number (js_or port (JNum (of_int_num 22))) in
      if \<not> isIntegerNum n \<or> num_less n 1 \<or> num_greater n 65535 then Inl ''Invalid SSH port'' else Inr (num_int n))"

definition KEY_KINDS :: "string list" where
  "KEY_KINDS = [''OPENSSH '', ''RSA '', ''EC '', ''DSA '', ''ENCRYPTED '', []]"

definition looksLikeSshPrivateKey :: "string \<Rightarrow> bool" where
  "looksLikeSshPrivateKey raw =
     (let t = trim raw in
      t \<noteq> [] \<and> length t \<le> GUEST_SSH_KEY_MAX
      \<and> list_ex (\<lambda>line. list_ex (\<lambda>k. starts_with line (''-----BEGIN '' @ k @ ''PRIVATE KEY-----'')) KEY_KINDS)
          (split_on CHR 0x0A (replace_char CHR 0x0D [CHR 0x0A] t)))"

definition hasGuestSshAuth :: "string option \<Rightarrow> string option \<Rightarrow> bool" where
  "hasGuestSshAuth password privateKey =
     (truthy (map_option trim password) \<or> looksLikeSshPrivateKey (case privateKey of None \<Rightarrow> [] | Some k \<Rightarrow> k))"

definition uploadNameConflicts :: "string list \<Rightarrow> string list \<Rightarrow> string list" where
  "uploadNameConflicts existing files = filter (\<lambda>name. name \<in> set existing) files"

section \<open>Contents\<close>

definition TEXT_EXT :: "string list" where
  "TEXT_EXT = [''txt'', ''md'', ''json'', ''yml'', ''yaml'', ''xml'', ''conf'', ''cfg'', ''ini'', ''env'', ''sh'', ''bash'', ''zsh'',
     ''py'', ''js'', ''mjs'', ''cjs'', ''ts'', ''tsx'', ''jsx'', ''css'', ''html'', ''htm'', ''log'', ''service'', ''timer'',
     ''list'', ''toml'', ''php'', ''rb'', ''go'', ''rs'', ''c'', ''h'', ''cc'', ''cpp'', ''hpp'', ''sql'', ''csv'', ''properties'',
     ''desktop'', ''policy'', ''rules'']"

definition isProbablyTextFile :: "string \<Rightarrow> nat list option \<Rightarrow> bool" where
  "isProbablyTextFile name bytes =
     (if list_ex (\<lambda>e. ends_with (to_lower name) (''.'' @ e)) TEXT_EXT then True
      else (case bytes of
              None \<Rightarrow> ends_with name ''.txt'' \<or> CHR ''.'' \<notin> set name
            | Some [] \<Rightarrow> ends_with name ''.txt'' \<or> CHR ''.'' \<notin> set name
            | Some bs \<Rightarrow>
                (if 256 * 1024 < length bs then False
                 else (let sample = take 800 bs in
                       if 0 \<in> set sample then False
                       else 100 * length (filter (\<lambda>b. b < 9 \<or> 13 < b \<and> b < 32) sample) < 8 * length sample))))"

definition decodeGuestFileContent :: "(string \<Rightarrow> 8 word list) \<Rightarrow> string \<Rightarrow> nat \<Rightarrow> string + 8 word list" where
  "decodeGuestFileContent from_base64 base64 max_bytes =
     (let compact = filter (\<lambda>c. \<not> is_ws c) base64 in
      if compact = [] then Inr []
      else if max_bytes < length (from_base64 compact) then Inl ''File too large'' else Inr (from_base64 compact))"

section \<open>Directory listings\<close>

datatype guest_file_kind = FileEntry | DirEntry | OtherEntry

record guest_file_entry =
  geName :: string
  gePath :: string
  geType :: guest_file_kind
  geSize :: rat
  geMtime :: "int option"

definition drop_cr :: "string \<Rightarrow> string" where
  "drop_cr line = (if line \<noteq> [] \<and> last line = CHR 0x0D then butlast line else line)"

text \<open>\<open>text.split(/\r?\n/)\<close>, and then one more carriage return off the end of each line.\<close>

definition listing_lines :: "string \<Rightarrow> string list" where
  "listing_lines text =
     (let ls = split_on CHR 0x0A text in map drop_cr (map drop_cr (butlast ls) @ [last ls]))"

definition skipped_name :: "string \<Rightarrow> bool" where
  "skipped_name name \<longleftrightarrow> name = [] \<or> name = ''.'' \<or> name = ''..''"

definition finite_or :: "rat \<Rightarrow> jsnum \<Rightarrow> rat" where
  "finite_or d n = (case n of Fin r \<Rightarrow> r | _ \<Rightarrow> d)"

text \<open>\<open>None\<close> is a line that is skipped.\<close>

definition tab_entry :: "string \<Rightarrow> string list \<Rightarrow> string + guest_file_entry option" where
  "tab_entry dir tab =
     (let kind = tab ! 0; name = join [CHR 0x09] (drop 3 tab); mtime = finite_or 0 (toNumber (tab ! 2)) in
      if skipped_name name then Inr None
      else (case resolveGuestPath dir (Some name) of Inl e \<Rightarrow> Inl e
        | Inr path \<Rightarrow> Inr (Some \<lparr>geName = name, gePath = path,
            geType = (if kind = ''d'' then DirEntry else if kind = ''f'' \<or> kind = ''l'' then FileEntry else OtherEntry),
            geSize = finite_or 0 (toNumber (tab ! 1)),
            geMtime = (if 0 < mtime then Some (js_round (mtime * 1000)) else None)\<rparr>)))"

definition plain_entry :: "string \<Rightarrow> string \<Rightarrow> string + guest_file_entry option" where
  "plain_entry dir line =
     (let c = last line;
          type = (if c = slash then DirEntry else if c \<in> {CHR ''@'', CHR ''|'', CHR ''=''} then OtherEntry else FileEntry);
          name = (if c \<in> {slash, CHR ''@'', CHR ''|'', CHR ''='', CHR ''*''} then butlast line else line)
      in if skipped_name name then Inr None
         else (case resolveGuestPath dir (Some name) of Inl e \<Rightarrow> Inl e
           | Inr path \<Rightarrow> Inr (Some \<lparr>geName = name, gePath = path, geType = type, geSize = 0, geMtime = None\<rparr>)))"

definition line_entry :: "string \<Rightarrow> string \<Rightarrow> string + guest_file_entry option" where
  "line_entry dir line =
     (let tab = split_on CHR 0x09 line in
      if 4 \<le> length tab \<and> length (tab ! 0) = 1 then tab_entry dir tab else plain_entry dir line)"

fun collect_entries :: "string \<Rightarrow> guest_file_entry list \<Rightarrow> string list \<Rightarrow> string + guest_file_entry list" where
  "collect_entries dir acc [] = Inr acc"
| "collect_entries dir acc (line # lines) =
     (if line = [] then collect_entries dir acc lines
      else (case line_entry dir line of
              Inl e \<Rightarrow> Inl e
            | Inr None \<Rightarrow> collect_entries dir acc lines
            | Inr (Some entry) \<Rightarrow>
                collect_entries dir (if geName entry \<in> geName ` set acc then acc else acc @ [entry]) lines))"

text \<open>The sort is stable and its comparison puts directories first and then goes by the collation of
  the names, so it is a sort of the directories followed by a sort of the rest.  \<open>collate\<close> is
  the key of \<open>localeCompare\<close>.\<close>

definition parseGuestListOutput ::
  "(string \<Rightarrow> 'k::linorder) \<Rightarrow> string \<Rightarrow> string \<Rightarrow> string + guest_file_entry list" where
  "parseGuestListOutput collate text dir =
     (case collect_entries dir [] (listing_lines text) of Inl e \<Rightarrow> Inl e
      | Inr entries \<Rightarrow>
         Inr (sort_key (\<lambda>e. collate (geName e)) (filter (\<lambda>e. geType e = DirEntry) entries)
              @ sort_key (\<lambda>e. collate (geName e)) (filter (\<lambda>e. geType e \<noteq> DirEntry) entries)))"

section \<open>Lemmas\<close>

text \<open>A segment that stays as it is.\<close>

definition plain_seg :: "string \<Rightarrow> bool" where
  "plain_seg p \<longleftrightarrow> p \<noteq> [] \<and> p \<noteq> ''.'' \<and> p \<noteq> ''..'' \<and> slash \<notin> set p \<and> backslash \<notin> set p \<and> CHR 0x00 \<notin> set p"

definition canonical :: "string \<Rightarrow> bool" where
  "canonical path \<longleftrightarrow> (\<exists>parts. list_all plain_seg parts \<and> path = path_of parts)"

lemma walk_plain: "list_all plain_seg segs \<Longrightarrow> walk_segments parts segs = Inr (rev parts @ segs)"
  by (induction segs arbitrary: parts) (simp_all add: plain_seg_def)

lemma walk_result:
  "walk_segments parts segs = Inr out \<Longrightarrow> list_all Q parts \<Longrightarrow>
     (\<And>p. p \<in> set segs \<Longrightarrow> p \<noteq> [] \<Longrightarrow> p \<noteq> ''.'' \<Longrightarrow> p \<noteq> ''..'' \<Longrightarrow> Q p) \<Longrightarrow> list_all Q out"
proof (induction segs arbitrary: parts)
  case Nil
  then show ?case by (auto simp: list_all_iff)
next
  case (Cons seg segs)
  show ?case
  proof (cases "seg = [] \<or> seg = ''.'' \<or> seg = ''..''")
    case True
    with Cons.prems show ?thesis
      by (auto split: if_splits list.splits intro: Cons.IH)
  next
    case False
    with Cons.prems have "walk_segments (seg # parts) segs = Inr out" "list_all Q (seg # parts)" by auto
    then show ?thesis by (rule Cons.IH) (use Cons.prems(3) in auto)
  qed
qed

lemma set_join: "set (join sep ws) \<subseteq> \<Union> (set ` set ws) \<union> set sep"
  by (induction sep ws rule: join.induct) auto

lemma replace_char_id: "d \<notin> set v \<Longrightarrow> replace_char d r v = v"
  by (induction v) (auto simp: replace_char_def)

lemma replace_char_gone: "d \<notin> set r \<Longrightarrow> d \<notin> set (replace_char d r v)"
  by (induction v) (simp_all add: replace_char_def)

lemma set_replace_char: "set (replace_char d r v) \<subseteq> set v \<union> set r"
  by (auto simp: replace_char_def split: if_splits)

lemma path_of_clean:
  assumes "list_all plain_seg parts"
  shows "CHR 0x00 \<notin> set (path_of parts)" "backslash \<notin> set (path_of parts)"
  using assms set_join [of "''/''" parts] by (auto simp: path_of_def plain_seg_def list_all_iff)

lemma split_path_of:
  assumes "list_all plain_seg parts"
  shows "split_on slash (path_of parts) = [] # (if parts = [] then [[]] else parts)"
proof (cases "parts = []")
  case False
  then have "split_on slash (join ''/'' parts) = parts"
    by (intro split_on_join) (use assms in \<open>auto simp: plain_seg_def list_all_iff\<close>)
  with False show ?thesis by (simp add: path_of_def)
qed (simp add: path_of_def)

lemma resolve_path_of:
  assumes "list_all plain_seg parts"
  shows "resolveGuestPath (path_of parts) None
    = (if GUEST_FILE_MAX_PATH < length (path_of parts) then Inl ''Path too long'' else Inr (path_of parts))"
proof -
  have j: "joined_path (path_of parts) None = path_of parts" by (simp add: joined_path_def truthy_def path_of_def)
  have "walk_segments [] (split_on slash (path_of parts)) = Inr parts"
    using walk_plain [OF assms, of "[]"] by (simp add: split_path_of [OF assms])
  then show ?thesis
    using path_of_clean [OF assms] by (simp add: resolveGuestPath_def j replace_char_id)
qed

lemma resolve_canonical: "resolveGuestPath cwd name = Inr p \<Longrightarrow>
    \<exists>parts. list_all plain_seg parts \<and> p = path_of parts \<and> length p \<le> GUEST_FILE_MAX_PATH"
proof -
  assume r: "resolveGuestPath cwd name = Inr p"
  let ?j = "replace_char backslash ''/'' (joined_path cwd name)"
  from r obtain parts where w: "walk_segments [] (split_on slash ?j) = Inr parts"
    and p: "p = path_of parts" "length p \<le> GUEST_FILE_MAX_PATH" and nul: "CHR 0x00 \<notin> set (joined_path cwd name)"
    by (auto simp: resolveGuestPath_def Let_def split: if_splits sum.splits)
  have "plain_seg q" if "q \<in> set (split_on slash ?j)" "q \<noteq> []" "q \<noteq> ''.''" "q \<noteq> ''..''" for q
  proof -
    have "backslash \<notin> set ?j" by (rule replace_char_gone) simp
    moreover have "CHR 0x00 \<notin> set ?j" using set_replace_char [of backslash "''/''" "joined_path cwd name"] nul by auto
    ultimately show ?thesis
      using that split_on_no_sep [OF that(1)] set_split_on [OF that(1)] by (auto simp: plain_seg_def)
  qed
  with walk_result [OF w, of plain_seg] have "list_all plain_seg parts" by simp
  with p show ?thesis by blast
qed

lemma last_index_of_append: "d \<notin> set b \<Longrightarrow> last_index_of d (a @ d # b) = Some (length a)"
proof (induction a)
  case Nil
  then have "last_index_of d b = None" by (induction b) auto
  then show ?case by simp
qed simp

lemma path_of_snoc: "path_of (ps @ [n]) = (if ps = [] then [] else path_of ps) @ slash # n"
proof -
  have "join ''/'' (ps @ [n]) = (if ps = [] then [] else join ''/'' ps @ ''/'') @ n"
  proof (induction ps)
    case (Cons p ps)
    then show ?case by (cases ps) auto
  qed simp
  then show ?thesis by (simp add: path_of_def)
qed

lemma path_of_eq_root: "list_all plain_seg parts \<Longrightarrow> path_of parts = ''/'' \<longleftrightarrow> parts = []"
  by (cases parts; cases "tl parts") (auto simp: path_of_def plain_seg_def)

lemma parent_and_name:
  assumes "list_all plain_seg (ps @ [n])" "length (path_of (ps @ [n])) \<le> GUEST_FILE_MAX_PATH"
  shows "guestPathParent (path_of (ps @ [n])) = Inr (Some (path_of ps))"
    and "guestFileName (path_of (ps @ [n])) = Inr n"
proof -
  let ?pre = "if ps = [] then [] else path_of ps"
  have root: "path_of (ps @ [n]) \<noteq> ''/''" using path_of_eq_root [OF assms(1)] by simp
  have n: "slash \<notin> set n" using assms(1) by (simp add: plain_seg_def)
  have idx: "last_index_of slash (path_of (ps @ [n])) = Some (length ?pre)"
    unfolding path_of_snoc by (rule last_index_of_append [OF n])
  have cut: "take (length ?pre) (path_of (ps @ [n])) = ?pre" "drop (length ?pre + 1) (path_of (ps @ [n])) = n"
    unfolding path_of_snoc by simp_all
  have res: "resolveGuestPath (path_of (ps @ [n])) None = Inr (path_of (ps @ [n]))"
    using resolve_path_of [OF assms(1)] assms(2) by simp
  have "(if length ?pre = 0 then ''/'' else ?pre) = path_of ps" by (simp add: path_of_def)
  then show "guestPathParent (path_of (ps @ [n])) = Inr (Some (path_of ps))"
    unfolding guestPathParent_def res by (simp only: sum.case root if_False idx option.case cut)
  show "guestFileName (path_of (ps @ [n])) = Inr n"
    unfolding guestFileName_def res by (simp only: sum.case root if_False idx option.case cut)
qed

lemma strip_trailing_last: "s \<noteq> [] \<Longrightarrow> last s \<noteq> d \<Longrightarrow> strip_trailing d s = s"
  by (cases s rule: rev_cases) (auto simp: strip_trailing_def)

lemma last_path_of: "list_all plain_seg parts \<Longrightarrow> parts \<noteq> [] \<Longrightarrow> last (path_of parts) \<noteq> slash"
proof (cases parts rule: rev_cases)
  case (snoc ps n)
  assume "list_all plain_seg parts"
  with snoc have "n \<noteq> []" "slash \<notin> set n" by (auto simp: plain_seg_def)
  then show ?thesis unfolding snoc path_of_snoc by (metis last_ConsR last_appendR last_in_set list.distinct(1))
qed simp

text \<open>A plain name below a canonical directory is the directory with the name appended.\<close>

lemma resolve_child:
  assumes "list_all plain_seg ps" "plain_seg n"
  shows "resolveGuestPath (path_of ps) (Some n)
    = (if GUEST_FILE_MAX_PATH < length (path_of (ps @ [n])) then Inl ''Path too long'' else Inr (path_of (ps @ [n])))"
proof -
  have n: "n \<noteq> []" "\<not> starts_with n ''/''" using assms(2) by (cases n; auto simp: plain_seg_def starts_with_def)+
  have "strip_trailing slash (path_of ps) @ ''/'' @ n = path_of (ps @ [n])"
  proof (cases "ps = []")
    case True
    then show ?thesis by (simp add: path_of_def strip_trailing_def)
  next
    case False
    with strip_trailing_last [OF _ last_path_of [OF assms(1)]] show ?thesis
      by (simp add: path_of_snoc) (simp add: path_of_def)
  qed
  then have j: "joined_path (path_of ps) (Some n) = path_of (ps @ [n])"
    using n by (simp add: joined_path_def truthy_def path_of_def [of ps])
  have all: "list_all plain_seg (ps @ [n])" using assms by simp
  have "walk_segments [] (split_on slash (path_of (ps @ [n]))) = Inr (ps @ [n])"
    using walk_plain [OF all, of "[]"] by (simp add: split_path_of [OF all])
  then show ?thesis
    using path_of_clean [OF all] by (simp add: resolveGuestPath_def j replace_char_id)
qed

lemma lower_hex_text: "list_all lower_hex s \<Longrightarrow> to_lower (trim s) = s"
proof -
  assume a: "list_all lower_hex s"
  have "\<not> is_ws c \<and> lower_char c = c" if "lower_hex c" for c
    using that by (auto simp: lower_hex_def is_digit_def in_range_def is_ws_def lower_char_def is_upper_def)
  with a have "list_all (\<lambda>c. \<not> is_ws c) s" "map lower_char s = s" by (auto simp: list_all_iff intro: map_idI)
  then show ?thesis by (simp add: trim_no_ws to_lower_def)
qed

text \<open>What a listed entry promises about its name and path.\<close>

definition entry_ok :: "string \<Rightarrow> guest_file_entry \<Rightarrow> bool" where
  "entry_ok dir e \<longleftrightarrow> resolveGuestPath dir (Some (geName e)) = Inr (gePath e) \<and> canonical (gePath e)
     \<and> \<not> skipped_name (geName e)"

lemma resolve_canonicalI: "resolveGuestPath cwd name = Inr p \<Longrightarrow> canonical p"
  using resolve_canonical [of cwd name p] by (auto simp: canonical_def)

lemma resolve_error: "resolveGuestPath cwd name = Inl e \<Longrightarrow> e \<in> {''Invalid path'', ''Path too long''}"
proof -
  have "walk_segments parts segs = Inl e \<Longrightarrow> e = ''Invalid path''" for parts segs
    by (induction parts segs rule: walk_segments.induct) (auto split: if_splits list.splits)
  moreover assume "resolveGuestPath cwd name = Inl e"
  ultimately show ?thesis by (auto simp: resolveGuestPath_def Let_def split: if_splits sum.splits)
qed

lemma line_entry_ok: "line_entry dir line = Inr (Some e) \<Longrightarrow> entry_ok dir e"
  by (auto simp: line_entry_def tab_entry_def plain_entry_def Let_def entry_ok_def
      split: if_splits sum.splits dest: resolve_canonicalI)

lemma line_entry_error: "line_entry dir line = Inl e \<Longrightarrow> e \<in> {''Invalid path'', ''Path too long''}"
  by (auto simp: line_entry_def tab_entry_def plain_entry_def Let_def split: if_splits sum.splits dest!: resolve_error)

lemma collect_ok:
  "collect_entries dir acc lines = Inr es \<Longrightarrow> distinct (map geName acc) \<Longrightarrow> list_all (entry_ok dir) acc \<Longrightarrow>
     distinct (map geName es) \<and> list_all (entry_ok dir) es"
  by (induction dir acc lines rule: collect_entries.induct)
    (auto split: if_splits sum.splits option.splits dest: line_entry_ok)

lemma collect_error: "collect_entries dir acc lines = Inl e \<Longrightarrow> e \<in> {''Invalid path'', ''Path too long''}"
  by (induction dir acc lines rule: collect_entries.induct)
    (auto split: if_splits sum.splits option.splits dest: line_entry_error)

lemma sorted_wrt_true: "sorted_wrt (\<lambda>a b. True) xs"
  by (induction xs) simp_all

section \<open>Properties\<close>

text \<open>
  C8: A path the resolver returns is canonical: it starts with a slash, its segments are never empty,
  dots or double dots, it holds no backslash and no NUL, is at most 4096 characters long and
  resolves to itself, whatever directory and name it came from.
\<close>

theorem resolveGuestPath_canonical:
  "case resolveGuestPath cwd name of Inl e \<Rightarrow> e \<in> {''Invalid path'', ''Path too long''}
   | Inr p \<Rightarrow> canonical p \<and> length p \<le> 4096 \<and> CHR 0x00 \<notin> set p \<and> backslash \<notin> set p
        \<and> ''..'' \<notin> set (split_on slash p) \<and> resolveGuestPath p None = Inr p"
proof (cases "resolveGuestPath cwd name")
  case (Inl e)
  with resolve_error [OF Inl] show ?thesis by simp
next
  case (Inr p)
  then obtain parts where p: "list_all plain_seg parts" "p = path_of parts" "length p \<le> GUEST_FILE_MAX_PATH"
    using resolve_canonical by blast
  then have "''..'' \<notin> set (split_on slash p)"
    by (auto simp: split_path_of list_all_iff plain_seg_def)
  with Inr p path_of_clean [OF p(1)] resolve_path_of [OF p(1)] show ?thesis
    by (auto simp: canonical_def GUEST_FILE_MAX_PATH_def)
qed

text \<open>
  A rename stays in its directory: the destination has the parent of the source and the trimmed
  new name as its file name, and the root itself cannot be renamed.
\<close>

theorem guestRenameDest_stays:
  "case guestRenameDest src newName of Inl e \<Rightarrow> True
   | Inr p \<Rightarrow> guestPathParent p = guestPathParent src \<and> guestPathParent src \<noteq> Inr None
        \<and> guestFileName p = Inr (trim newName) \<and> canonical p"
proof (cases "guestRenameDest src newName")
  case (Inr p)
  let ?n = "trim newName"
  from Inr obtain parent where n: "?n \<noteq> []" "slash \<notin> set ?n" "backslash \<notin> set ?n" "?n \<noteq> ''.''" "?n \<noteq> ''..''"
    and par: "guestPathParent src = Inr (Some parent)" and res: "resolveGuestPath parent (Some ?n) = Inr p"
    by (auto simp: guestRenameDest_def Let_def split: if_splits sum.splits option.splits)
  from par obtain resolved where r: "resolveGuestPath src None = Inr resolved" "resolved \<noteq> ''/''"
    by (auto simp: guestPathParent_def split: sum.splits if_splits)
  from resolve_canonical [OF r(1)] obtain parts where
    parts: "list_all plain_seg parts" "resolved = path_of parts" "length resolved \<le> GUEST_FILE_MAX_PATH" by blast
  with r(2) path_of_eq_root [OF parts(1)] obtain ps m where snoc: "parts = ps @ [m]" by (cases parts rule: rev_cases) auto
  have "guestPathParent (path_of parts) = Inr (Some (path_of ps))"
    using parent_and_name(1) [of ps m] parts snoc by simp
  moreover have "guestPathParent src = guestPathParent (path_of parts)"
    using r(1) parts resolve_path_of [OF parts(1)] by (simp add: guestPathParent_def)
  ultimately have parent: "parent = path_of ps" using par by simp
  have ps: "list_all plain_seg ps" using parts snoc by simp
  have "CHR 0x00 \<notin> set ?n"
  proof
    assume "CHR 0x00 \<in> set ?n"
    then have "CHR 0x00 \<in> set (joined_path parent (Some ?n))" using n(1) by (simp add: joined_path_def truthy_def)
    with res show False by (simp add: resolveGuestPath_def)
  qed
  with n have seg: "plain_seg ?n" by (simp add: plain_seg_def)
  with res resolve_child [OF ps seg] have p: "p = path_of (ps @ [?n])" "length p \<le> GUEST_FILE_MAX_PATH"
    by (auto simp: parent split: if_splits)
  have all: "list_all plain_seg (ps @ [?n])" using ps seg by simp
  have "canonical p" using all p(1) unfolding canonical_def by blast
  with p parent_and_name [OF all] par parent Inr show ?thesis by simp
qed simp

text \<open>How a POSIX shell reads one word made of quoted and escaped characters; anything else ends it.\<close>

fun sh_word :: "bool \<Rightarrow> string \<Rightarrow> string option" where
  "sh_word False [] = Some []"
| "sh_word True [] = None"
| "sh_word True (c # s) = (if c = quote then sh_word False s else map_option (Cons c) (sh_word True s))"
| "sh_word False (c # s) =
     (if c = quote then sh_word True s
      else if c = backslash then (case s of [] \<Rightarrow> None | d # t \<Rightarrow> map_option (Cons d) (sh_word False t))
      else None)"

text \<open>
  C9: A quoted value is one shell word and nothing but it: the shell reads \<open>shSingleQuote v\<close> back
  as exactly \<open>v\<close>, whatever characters it has.
\<close>

theorem shSingleQuote_round_trip: "sh_word False (shSingleQuote v) = Some v"
proof -
  have "sh_word True (replace_char quote [quote, backslash, quote, quote] v @ [quote]) = Some v"
    by (induction v) (auto simp: replace_char_def)
  then show ?thesis by (simp add: shSingleQuote_def)
qed

lemma ascii_runs_range: "c \<in> set (ascii_runs b s) \<Longrightarrow> in_range 32 126 c"
  by (induction b s rule: ascii_runs.induct) (auto simp: in_range_def split: if_splits)

text \<open>
  The download header cannot be broken out of: the quoted file name has only printable ASCII
  without quote, backslash and semicolon, is not empty and at most 150 long, and the encoded name
  after it has no quote, semicolon, space or line break, whatever the name of the file.
\<close>

theorem attachmentDisposition_safe:
  "\<exists>f e. attachmentDisposition name = ''attachment; filename='' @ [dquote] @ f @ [dquote] @ ''; filename*=UTF-8'' @ [quote, quote] @ e
     \<and> f \<noteq> [] \<and> length f \<le> 150
     \<and> list_all (\<lambda>c. in_range 32 126 c \<and> c \<noteq> dquote \<and> c \<noteq> backslash \<and> c \<noteq> CHR '';'') f
     \<and> list_all (\<lambda>c. c = CHR 0x25 \<or> uri_unreserved c) e \<and> decodeURIComponent e = Some name"
proof -
  let ?t = "trim (take 150 (map header_char (ascii_runs False name)))"
  have "in_range 32 126 c \<and> c \<noteq> dquote \<and> c \<noteq> backslash \<and> c \<noteq> CHR '';''" if c: "c \<in> set ?t" for c
  proof -
    from c obtain d where "d \<in> set (ascii_runs False name)" "c = header_char d"
      using set_trim [of "take 150 (map header_char (ascii_runs False name))"]
        set_take_subset [of 150 "map header_char (ascii_runs False name)"] by auto
    with ascii_runs_range [of d] show ?thesis by (auto simp: header_char_def in_range_def)
  qed
  moreover have "length ?t \<le> 150"
  proof -
    have "length (trim s) \<le> length s" for s
      using length_dropWhile_le [of is_ws s] length_dropWhile_le [of is_ws "rev (dropWhile is_ws s)"]
      by (simp add: trim_def trim_end_def trim_start_def)
    from this [of "take 150 (map header_char (ascii_runs False name))"] show ?thesis by simp
  qed
  ultimately have "header_name name \<noteq> []" "length (header_name name) \<le> 150"
    "list_all (\<lambda>c. in_range 32 126 c \<and> c \<noteq> dquote \<and> c \<noteq> backslash \<and> c \<noteq> CHR '';'') (header_name name)"
    by (simp_all add: header_name_def Let_def list_all_iff in_range_def)
  moreover have "list_all (\<lambda>c. c = CHR 0x25 \<or> uri_unreserved c) (encodeURIComponent name)"
    using encode_no_special by (auto simp: list_all_iff)
  ultimately show ?thesis
    by (intro exI [of _ "header_name name"] exI [of _ "encodeURIComponent name"]) (simp add: attachmentDisposition_def decode_encode)
qed

lemma sftp_target_filters:
  "case isAllowedSftpTarget host of
     Inl e \<Rightarrow> e = ''Invalid SSH host''
   | Inr out \<Rightarrow>
       if isIpv4 (trim host)
       then out = trim host \<and> (\<exists>a b c d. map digits_val (split_on CHR ''.'' out) = [a, b, c, d] \<and> a \<in> {1..223} - {127}
              \<and> [a, b, c, d] \<noteq> [169, 254, 169, 254] \<and> b \<le> 255 \<and> c \<le> 255 \<and> d \<le> 255)
       else out \<noteq> [] \<and> list_all (\<lambda>c. lower_hex c \<or> c = CHR '':'') out \<and> out \<notin> {''::'', ''::1''}
              \<and> \<not> starts_with out ''fe80:''"
proof (cases "isAllowedSftpTarget host")
  case (Inl e)
  then show ?thesis by (auto simp: isAllowedSftpTarget_def Let_def split: if_splits list.splits)
next
  case (Inr out)
  show ?thesis
  proof (cases "isIpv4 (trim host)")
    case True
    then obtain a b c d where s: "split_on CHR ''.'' (trim host) = [a, b, c, d]" "list_all octet [a, b, c, d]"
      by (auto simp: isIpv4_def split: list.splits)
    then have oct: "digits_val a \<le> 255" "digits_val b \<le> 255" "digits_val c \<le> 255" "digits_val d \<le> 255"
      by (simp_all add: octet_def)
    from Inr True s have r: "out = trim host" "digits_val a \<noteq> 0" "digits_val a \<noteq> 127" "digits_val a < 224"
      "\<not> (digits_val a = 169 \<and> digits_val b = 254 \<and> digits_val c = 169 \<and> digits_val d = 254)"
      by (simp_all add: isAllowedSftpTarget_def Let_def split: if_splits)
    with True Inr s oct show ?thesis by simp
  next
    case False
    with Inr show ?thesis by (simp add: isAllowedSftpTarget_def Let_def split: if_splits)
  qed
qed

text \<open>
  An IPv4 address the SFTP filter accepts is a dotted quad of four octets that is no
  this-network, loopback, multicast or reserved address and not the cloud metadata address;
  anything else it accepts is made of hexadecimal digits and colons and is none of the compressed
  loopback, unspecified and link-local forms.  Other spellings of the loopback and of the mapped
  IPv4 addresses do pass.
\<close>

theorem isAllowedSftpTarget_filters:
  "(case isAllowedSftpTarget host of
     Inl e \<Rightarrow> e = ''Invalid SSH host''
   | Inr out \<Rightarrow>
       if isIpv4 (trim host)
       then out = trim host \<and> (\<exists>a b c d. map digits_val (split_on CHR ''.'' out) = [a, b, c, d] \<and> a \<in> {1..223} - {127}
              \<and> [a, b, c, d] \<noteq> [169, 254, 169, 254] \<and> b \<le> 255 \<and> c \<le> 255 \<and> d \<le> 255)
       else out \<noteq> [] \<and> list_all (\<lambda>c. lower_hex c \<or> c = CHR '':'') out \<and> out \<notin> {''::'', ''::1''}
              \<and> \<not> starts_with out ''fe80:'')
   \<and> list_all (\<lambda>h. isAllowedSftpTarget h = Inr h)
        [''0:0:0:0:0:0:0:1'', ''0::1'', ''::ffff:7f00:1'', ''::ffff:a9fe:a9fe'']"
  by (intro conjI sftp_target_filters) code_simp

text \<open>
  The identity of an upload survives being written beside the part file: what
  \<open>serializeGuestUploadMeta\<close> writes, \<open>parseGuestUploadMeta\<close> reads back, for every size
  and every SHA-256 prefix or none.
\<close>

theorem upload_meta_round_trip:
  assumes "0 \<le> upSize i" "upPrefix i = [] \<or> (length (upPrefix i) = 64 \<and> list_all lower_hex (upPrefix i))"
  shows "parseGuestUploadMeta (serializeGuestUploadMeta i) = Some i"
proof -
  let ?r = "[(''v'', JNum (of_int_num 1)), (''size'', JNum (of_int_num (upSize i))), (''prefix'', JStr (upPrefix i))]"
  have parse: "JSON_parse (serializeGuestUploadMeta i) = Some (JObj ?r)"
    unfolding serializeGuestUploadMeta_def by (rule JSON_flat) (auto simp: flat_value_def)
  have prefix: "to_lower (trim (upPrefix i)) = upPrefix i"
    using assms(2) by (auto simp: lower_hex_text)
  show ?thesis
    unfolding parseGuestUploadMeta_def parse
    using assms prefix by (auto simp: get_prop_def of_int_num_def)
qed

theorem upload_meta_round_trip_witness:
  "parseGuestUploadMeta (serializeGuestUploadMeta \<lparr>upSize = 42, upPrefix = replicate 64 CHR ''a''\<rparr>)
     = Some \<lparr>upSize = 42, upPrefix = replicate 64 CHR ''a''\<rparr>"
  by (rule upload_meta_round_trip) (simp_all add: lower_hex_def in_range_def list_all_iff)

text \<open>
  A resumed upload never skips more than the guest has: an offset is a whole number between
  zero and both sizes, and nothing is resumed when a size is not finite.
\<close>

theorem guestUploadResumeOffset_bounds:
  "case guestUploadResumeOffset p f of
     Some n \<Rightarrow> (\<exists>pr fr. p = Fin pr \<and> f = Fin fr \<and> 0 \<le> n \<and> rat_of_int n \<le> pr \<and> pr \<le> fr \<and> pr < rat_of_int n + 1)
   | None \<Rightarrow> (case (p, f) of (Fin pr, Fin fr) \<Rightarrow> pr \<le> 0 \<or> fr < pr | _ \<Rightarrow> True)"
  by (cases p; cases f; auto simp: guestUploadResumeOffset_def split: if_splits; linarith?)

definition dirs_first :: "guest_file_entry \<Rightarrow> guest_file_entry \<Rightarrow> bool" where
  "dirs_first a b = (if geType b = DirEntry then geType a = DirEntry else True)"

lemma listing_entries:
  "case parseGuestListOutput collate out dir of
     Inl e \<Rightarrow> e \<in> {''Invalid path'', ''Path too long''}
   | Inr es \<Rightarrow> distinct (map geName es)
       \<and> list_all (\<lambda>e. resolveGuestPath dir (Some (geName e)) = Inr (gePath e) \<and> canonical (gePath e)
            \<and> \<not> skipped_name (geName e)) es
       \<and> sorted_wrt dirs_first es"
proof (cases "collect_entries dir [] (listing_lines out)")
  case (Inl e)
  with collect_error [OF Inl] show ?thesis by (simp add: parseGuestListOutput_def)
next
  case (Inr es)
  let ?k = "\<lambda>e. collate (geName e)"
  let ?d = "sort_key ?k (filter (\<lambda>e. geType e = DirEntry) es)"
  let ?o = "sort_key ?k (filter (\<lambda>e. geType e \<noteq> DirEntry) es)"
  have ok: "distinct (map geName es)" "list_all (entry_ok dir) es"
    using collect_ok [OF Inr] by simp_all
  have "distinct (map geName (?d @ ?o))"
    using ok(1) by (auto simp: distinct_map intro: inj_on_subset dest: inj_onD)
  moreover have "list_all (entry_ok dir) (?d @ ?o)"
    using ok(2) by (auto simp: list_all_iff)
  moreover have "sorted_wrt dirs_first (?d @ ?o)"
    by (auto simp: sorted_wrt_append dirs_first_def intro!: sorted_wrt_mono_rel [OF _ sorted_wrt_true])
  ultimately show ?thesis using Inr by (simp add: parseGuestListOutput_def entry_ok_def [abs_def])
qed

text \<open>
  A listing has each name once, shows directories before everything else, and gives every entry
  the canonical path that its name resolves to below the directory.  A name with
  backslashes resolves to another file: they separate directories for the resolver, not for the guest.
\<close>

theorem parseGuestListOutput_entries:
  "(case parseGuestListOutput collate out dir of
     Inl e \<Rightarrow> e \<in> {''Invalid path'', ''Path too long''}
   | Inr es \<Rightarrow> distinct (map geName es)
       \<and> list_all (\<lambda>e. resolveGuestPath dir (Some (geName e)) = Inr (gePath e) \<and> canonical (gePath e)
            \<and> \<not> skipped_name (geName e)) es
       \<and> sorted_wrt dirs_first es)
   \<and> map_sum id (map gePath) (parseGuestListOutput (\<lambda>_. 0 :: nat) (''f'' @ [CHR 0x09] @ ''5'' @ [CHR 0x09] @ ''0'' @ [CHR 0x09]
      @ ''..'' @ [backslash] @ ''..'' @ [backslash] @ ''etc'' @ [backslash] @ ''passwd'') ''/tmp/x'') = Inr [''/etc/passwd'']"
  by (intro conjI listing_entries) code_simp

end
