(* ===== verification/TransferTickets.thy ===== *)
theory TransferTickets imports GuestFiles HttpGuard begin

text \<open>
  Streamed file transfers: the ticket store of \<^verbatim>\<open>server/services/guest-file-tickets.ts\<close> and the
  request readers of \<^verbatim>\<open>lib/guest-file-http.ts\<close>.  The store is the map that lives in
  \<open>globalThis\<close>; \<open>now\<close> stands for every \<open>Date.now()\<close> of one call and \<open>fresh\<close> for the
  random id.
\<close>

section \<open>Tickets\<close>

definition GUEST_TRANSFER_TICKET_TTL_MS :: int where
  "GUEST_TRANSFER_TICKET_TTL_MS = 30 * 60 * 1000"

record guest_transfer_ticket =
  tkId :: string
  tkUserId :: string
  tkHostId :: string
  tkKind :: guest_kind
  tkNode :: string
  tkVmid :: int
  tkPath :: string
  tkTarget :: string
  tkPort :: int
  tkUsername :: string
  tkPassword :: string
  tkPrivateKey :: string
  tkPassphrase :: string
  tkMode :: string
  tkExpiresAt :: int

type_synonym ticket_store = "(string \<times> guest_transfer_ticket) list"

definition pruneTickets :: "int \<Rightarrow> ticket_store \<Rightarrow> ticket_store" where
  "pruneTickets now store = filter (\<lambda>(_, row). \<not> tkExpiresAt row \<le> now) store"

record ticket_input =
  tiUserId :: string
  tiHostId :: string
  tiKind :: guest_kind
  tiNode :: string
  tiVmid :: int
  tiPath :: string
  tiTarget :: string
  tiPort :: "jsnum option"
  tiUsername :: string
  tiPassword :: "string option"
  tiPrivateKey :: "string option"
  tiPassphrase :: "string option"
  tiMode :: string
  tiExpiresAt :: "int option"

definition or_empty :: "string option \<Rightarrow> string" where
  "or_empty s = (case s of None \<Rightarrow> [] | Some v \<Rightarrow> v)"

record issued_ticket =
  itTicket :: string
  itPath :: string
  itName :: string
  itMode :: string

text \<open>The three conversions share one \<open>try\<close>: the first that throws decides the message.\<close>

definition ticket_destination :: "ticket_input \<Rightarrow> js_error + string \<times> string \<times> int" where
  "ticket_destination input =
     (case resolveGuestPath (tiPath input) None of Inl m \<Rightarrow> Inl (ValidationError m)
      | Inr path \<Rightarrow>
        (case isAllowedSftpTarget (tiTarget input) of Inl m \<Rightarrow> Inl (ValidationError m)
         | Inr target \<Rightarrow>
           (case clampSftpPort (JNum (case tiPort input of None \<Rightarrow> of_int_num 22 | Some n \<Rightarrow> n)) of
              Inl m \<Rightarrow> Inl (ValidationError m)
            | Inr port \<Rightarrow> Inr (path, target, port))))"

definition ticket_row :: "string \<Rightarrow> int \<Rightarrow> ticket_input \<Rightarrow> string \<times> string \<times> int \<Rightarrow> guest_transfer_ticket" where
  "ticket_row fresh now input dest =
     \<lparr>tkId = fresh, tkUserId = tiUserId input, tkHostId = tiHostId input, tkKind = tiKind input,
      tkNode = tiNode input, tkVmid = tiVmid input, tkPath = fst dest, tkTarget = fst (snd dest),
      tkPort = snd (snd dest), tkUsername = trim (tiUsername input), tkPassword = or_empty (tiPassword input),
      tkPrivateKey = trim (or_empty (tiPrivateKey input)), tkPassphrase = or_empty (tiPassphrase input),
      tkMode = tiMode input,
      tkExpiresAt = (case tiExpiresAt input of None \<Rightarrow> now + GUEST_TRANSFER_TICKET_TTL_MS | Some e \<Rightarrow> e)\<rparr>"

definition createGuestTransferTicket ::
  "string \<Rightarrow> int \<Rightarrow> ticket_input \<Rightarrow> ticket_store \<Rightarrow> (js_error + issued_ticket) \<times> ticket_store" where
  "createGuestTransferTicket fresh now input store0 =
     (let store = pruneTickets now store0;
          username = trim (tiUsername input);
          privateKey = trim (or_empty (tiPrivateKey input))
      in if tiMode input \<noteq> ''download'' \<and> tiMode input \<noteq> ''upload''
         then (Inl (ValidationError (''Ung'' @ [CHR 0xFC] @ ''ltiger Transfer'')), store)
         else case ticket_destination input of Inl e \<Rightarrow> (Inl e, store)
         | Inr dest \<Rightarrow>
             if username = [] \<or> 64 < length username then (Inl (ValidationError ''SSH-Benutzer fehlt''), store)
             else if \<not> hasGuestSshAuth (Some (or_empty (tiPassword input))) (Some privateKey)
             then (Inl (ValidationError (''SSH-Passwort oder Schl'' @ [CHR 0xFC] @ ''ssel fehlt'')), store)
             else if privateKey \<noteq> [] \<and> \<not> looksLikeSshPrivateKey privateKey
             then (Inl (ValidationError (''Ung'' @ [CHR 0xFC] @ ''ltiger SSH-Schl'' @ [CHR 0xFC] @ ''ssel'')), store)
             else (let store1 = AList.update fresh (ticket_row fresh now input dest) store in
               case guestFileName (fst dest) of Inl m \<Rightarrow> (Inl (OtherError m), store1)
               | Inr name \<Rightarrow> (Inr \<lparr>itTicket = fresh, itPath = fst dest, itName = name, itMode = tiMode input\<rparr>, store1)))"

definition transfer_gone :: js_error where
  "transfer_gone = NotFoundError (''Transfer abgelaufen oder ung'' @ [CHR 0xFC] @ ''ltig'')"

definition takeGuestTransferTicket ::
  "int \<Rightarrow> string \<Rightarrow> string \<Rightarrow> string \<Rightarrow> ticket_store \<Rightarrow> (js_error + guest_transfer_ticket) \<times> ticket_store" where
  "takeGuestTransferTicket now ident userId mode store0 =
     (let store = pruneTickets now store0 in
      case map_of store ident of
        None \<Rightarrow> (Inl transfer_gone, AList.delete ident store)
      | Some row \<Rightarrow>
          if tkUserId row \<noteq> userId \<or> tkMode row \<noteq> mode \<or> tkExpiresAt row \<le> now
          then (Inl transfer_gone, AList.delete ident store)
          else (Inr row, store))"

text \<open>The base64url and UTF-8 codecs of the platform are parameters.\<close>

definition encodeGuestTransferMeta :: "(string \<Rightarrow> string) \<Rightarrow> js \<Rightarrow> string" where
  "encodeGuestTransferMeta to_base64url meta = to_base64url (JSON_stringify meta)"

definition decodeGuestTransferMeta :: "(string \<Rightarrow> string) \<Rightarrow> string \<Rightarrow> string + js" where
  "decodeGuestTransferMeta from_base64url raw =
     (let trimmed = trim raw in
      if trimmed = [] \<or> 96000 < length trimmed then Inl ''Invalid transfer meta''
      else (case JSON_parse (from_base64url trimmed) of None \<Rightarrow> Inl ''SyntaxError'' | Some v \<Rightarrow> Inr v))"

section \<open>Request headers of a transfer\<close>

definition MAX_SAFE_INTEGER :: int where
  "MAX_SAFE_INTEGER = 2 ^ 53 - 1"

definition parseUnsignedHeader :: "string option \<Rightarrow> int option" where
  "parseUnsignedHeader raw =
     (if \<not> truthy raw then None
      else (case toNumber (the raw) of
              Fin n \<Rightarrow> (if n < 0 \<or> of_int MAX_SAFE_INTEGER < n then None else Some \<lfloor>n\<rfloor>)
            | _ \<Rightarrow> None))"

record upload_plan =
  planOffset :: int
  planSize :: "int option"

definition parseGuestUploadPlan :: "string option \<Rightarrow> string option \<Rightarrow> string option \<Rightarrow> upload_plan" where
  "parseGuestUploadPlan sizeHeader offsetHeader contentLength =
     (let offset = (case parseUnsignedHeader offsetHeader of None \<Rightarrow> 0 | Some n \<Rightarrow> n) in
      case parseUnsignedHeader sizeHeader of
        Some sz \<Rightarrow> \<lparr>planOffset = offset, planSize = Some sz\<rparr>
      | None \<Rightarrow> (case parseUnsignedHeader contentLength of
            Some len \<Rightarrow> \<lparr>planOffset = offset, planSize = Some (offset + len)\<rparr>
          | None \<Rightarrow> \<lparr>planOffset = offset, planSize = None\<rparr>))"

definition parseGuestUploadPrefix :: "string option \<Rightarrow> string option" where
  "parseGuestUploadPrefix raw =
     (let v = to_lower (trim (or_empty raw)) in
      if length v = 64 \<and> list_all lower_hex v then Some v else None)"

definition stripped_path :: "string \<Rightarrow> string" where
  "stripped_path pathname =
     (let p = strip_trailing slash (hd (split_on CHR ''?'' pathname)) in if p = [] then ''/'' else p)"

definition isGuestFileTransferPath :: "string \<Rightarrow> bool" where
  "isGuestFileTransferPath pathname =
     (let path = stripped_path pathname in
      list_ex (ends_with path) [''/files/upload'', ''/files/download'', ''/guest-files/upload'', ''/guest-files/download''])"

definition GUEST_FILE_UPLOAD_WS_PATH :: string where
  "GUEST_FILE_UPLOAD_WS_PATH = ''/ws/guest-file''"

definition isGuestFileUploadWsPath :: "string \<Rightarrow> bool" where
  "isGuestFileUploadWsPath pathname \<longleftrightarrow> stripped_path pathname = GUEST_FILE_UPLOAD_WS_PATH"

section \<open>Life of a ticket\<close>

text \<open>A ticket presented again and again: at each time by some user for some mode.\<close>

fun present_ticket ::
  "string \<Rightarrow> (int \<times> string \<times> string) list \<Rightarrow> ticket_store \<Rightarrow> (js_error + guest_transfer_ticket) list" where
  "present_ticket ident [] store = []"
| "present_ticket ident ((now, user, mode) # ps) store =
     (case takeGuestTransferTicket now ident user mode store of (r, store') \<Rightarrow> r # present_ticket ident ps store')"

definition accepts :: "guest_transfer_ticket \<Rightarrow> int \<times> string \<times> string \<Rightarrow> bool" where
  "accepts row p \<longleftrightarrow> fst p < tkExpiresAt row \<and> fst (snd p) = tkUserId row \<and> snd (snd p) = tkMode row"

lemma distinct_pruneTickets: "distinct (map fst store) \<Longrightarrow> distinct (map fst (pruneTickets now store))"
  by (simp add: pruneTickets_def distinct_map_filter case_prod_unfold)

lemma map_of_pruneTickets:
  "distinct (map fst store) \<Longrightarrow> map_of (pruneTickets now store) k
     = (case map_of store k of None \<Rightarrow> None | Some row \<Rightarrow> if tkExpiresAt row \<le> now then None else Some row)"
  unfolding pruneTickets_def case_prod_unfold
  by (subst map_of_filter_snd [where P = "\<lambda>row. \<not> tkExpiresAt row \<le> now"]) (auto split: option.split)

lemma present_missing:
  "distinct (map fst store) \<Longrightarrow> map_of store ident = None \<Longrightarrow>
     present_ticket ident ps store = map (\<lambda>_. Inl transfer_gone) ps"
proof (induction ps arbitrary: store)
  case (Cons p ps)
  obtain now user mode where p: "p = (now, user, mode)" by (cases p)
  let ?store = "AList.delete ident (pruneTickets now store)"
  have "takeGuestTransferTicket now ident user mode store = (Inl transfer_gone, ?store)"
    using Cons.prems by (simp add: takeGuestTransferTicket_def map_of_pruneTickets)
  moreover have "present_ticket ident ps ?store = map (\<lambda>_. Inl transfer_gone) ps"
    by (rule Cons.IH) (use Cons.prems in \<open>simp_all add: distinct_delete distinct_pruneTickets delete_conv map_of_pruneTickets\<close>)
  ultimately show ?case by (simp add: p)
qed simp

lemma present_stored:
  "distinct (map fst store) \<Longrightarrow> map_of store ident = Some row \<Longrightarrow>
     present_ticket ident ps store
       = map (\<lambda>_. Inr row) (takeWhile (accepts row) ps) @ map (\<lambda>_. Inl transfer_gone) (dropWhile (accepts row) ps)"
proof (induction ps arbitrary: store)
  case (Cons p ps)
  obtain now user mode where p: "p = (now, user, mode)" by (cases p)
  let ?pruned = "pruneTickets now store"
  show ?case
  proof (cases "accepts row p")
    case True
    then have "takeGuestTransferTicket now ident user mode store = (Inr row, ?pruned)"
      using Cons.prems by (simp add: takeGuestTransferTicket_def map_of_pruneTickets accepts_def p)
    moreover have "map_of ?pruned ident = Some row"
      using True Cons.prems by (simp add: map_of_pruneTickets accepts_def p)
    ultimately show ?thesis
      using True Cons.IH [OF distinct_pruneTickets [OF Cons.prems(1)]] by (simp add: p)
  next
    case False
    then have "takeGuestTransferTicket now ident user mode store = (Inl transfer_gone, AList.delete ident ?pruned)"
      using Cons.prems by (auto simp: takeGuestTransferTicket_def map_of_pruneTickets accepts_def p)
    moreover have "present_ticket ident ps (AList.delete ident ?pruned) = map (\<lambda>_. Inl transfer_gone) ps"
      by (rule present_missing) (use Cons.prems in \<open>simp_all add: distinct_delete distinct_pruneTickets delete_conv\<close>)
    ultimately show ?thesis using False by (simp add: p)
  qed
qed simp

lemma clampSftpPort_range: "clampSftpPort port = Inr n \<Longrightarrow> 1 \<le> n \<and> n \<le> 65535"
  by (cases "js_number (js_or port (JNum (of_int_num 22)))")
    (auto simp: clampSftpPort_def Let_def split: if_splits)

text \<open>
  C12: The life of a transfer ticket: an issued ticket names a canonical path, a target the SSH filter
  accepts and a valid port; it opens again and again for its user and its mode until it expires;
  and the first presentation that is late, by another user or for the other mode ends it for good,
  for its owner as well.
\<close>

theorem ticket_lifecycle:
  assumes "distinct (map fst store)"
    and created: "createGuestTransferTicket fresh now input store = (Inr issued, store')"
  shows "\<exists>row. map_of store' fresh = Some row \<and> tkUserId row = tiUserId input \<and> tkMode row = tiMode input
     \<and> canonical (tkPath row) \<and> isAllowedSftpTarget (tiTarget input) = Inr (tkTarget row)
     \<and> 1 \<le> tkPort row \<and> tkPort row \<le> 65535
     \<and> present_ticket fresh ps store'
         = map (\<lambda>_. Inr row) (takeWhile (accepts row) ps) @ map (\<lambda>_. Inl transfer_gone) (dropWhile (accepts row) ps)"
proof -
  from created obtain dest where dest: "ticket_destination input = Inr dest"
    and store': "store' = AList.update fresh (ticket_row fresh now input dest) (pruneTickets now store)"
    by (auto simp: createGuestTransferTicket_def Let_def split: if_splits sum.splits)
  let ?row = "ticket_row fresh now input dest"
  have "resolveGuestPath (tiPath input) None = Inr (fst dest)" "isAllowedSftpTarget (tiTarget input) = Inr (fst (snd dest))"
    "\<exists>port. clampSftpPort port = Inr (snd (snd dest))"
    using dest by (auto simp: ticket_destination_def split: sum.splits)
  then have ok: "canonical (tkPath ?row)" "isAllowedSftpTarget (tiTarget input) = Inr (tkTarget ?row)"
    "1 \<le> tkPort ?row" "tkPort ?row \<le> 65535"
    by (auto simp: ticket_row_def dest: resolve_canonicalI clampSftpPort_range)
  have stored: "map_of store' fresh = Some ?row" "distinct (map fst store')"
    using assms(1) by (simp_all add: store' update_conv' distinct_update distinct_pruneTickets)
  show ?thesis
    by (rule exI [of _ ?row]) (use ok stored present_stored [OF stored(2,1)] in \<open>simp add: ticket_row_def\<close>)
qed

definition demo_ticket_input :: ticket_input where
  "demo_ticket_input = \<lparr>tiUserId = ''u1'', tiHostId = ''h1'', tiKind = LXC, tiNode = ''pve'', tiVmid = 101, tiPath = ''/tmp//a'',
     tiTarget = ''10.0.0.5'', tiPort = None, tiUsername = ''root'', tiPassword = Some ''pw'', tiPrivateKey = None,
     tiPassphrase = None, tiMode = ''download'', tiExpiresAt = None\<rparr>"

theorem ticket_lifecycle_witness:
  "\<exists>row. present_ticket ''t'' [(1, ''u1'', ''download''), (2, ''u1'', ''download''), (3, ''u2'', ''download''), (4, ''u1'', ''download'')]
     (snd (createGuestTransferTicket ''t'' 0 demo_ticket_input []))
   = [Inr row, Inr row, Inl transfer_gone, Inl transfer_gone]"
proof -
  have "\<not> isl (fst (createGuestTransferTicket ''t'' 0 demo_ticket_input []))" by code_simp
  then have "\<exists>issued. fst (createGuestTransferTicket ''t'' 0 demo_ticket_input []) = Inr issued"
    by (cases "fst (createGuestTransferTicket ''t'' 0 demo_ticket_input [])") simp_all
  then obtain issued where c: "createGuestTransferTicket ''t'' 0 demo_ticket_input []
      = (Inr issued, snd (createGuestTransferTicket ''t'' 0 demo_ticket_input []))" by (metis prod.collapse)
  have row: "map_option (\<lambda>r. (tkUserId r, tkMode r, tkExpiresAt r))
      (map_of (snd (createGuestTransferTicket ''t'' 0 demo_ticket_input [])) ''t'') = Some (''u1'', ''download'', 1800000)"
    by code_simp
  from ticket_lifecycle [OF _ c, of "[(1, ''u1'', ''download''), (2, ''u1'', ''download''), (3, ''u2'', ''download''), (4, ''u1'', ''download'')]"]
    row show ?thesis by (auto simp: accepts_def)
qed

end
