(* ===== verification/FileRoutes.thy ===== *)
theory FileRoutes imports TransferTickets Sessions begin

text \<open>
  The routes around guest files: \<^verbatim>\<open>server/http/guest-files-route.ts\<close> (one operation, or the issue
  of a transfer ticket), \<^verbatim>\<open>server/http/guest-file-node.ts\<close> and
  \<^verbatim>\<open>server/http/guest-file-download-route.ts\<close> (streams on a ticket).  What runs inside the guest is
  outside: \<open>stream\<close>, \<open>run_op\<close> and \<open>linux_check\<close> are parameters, and every call to them is
  kept in the state, so that the theorems can speak about the calls a request causes.
\<close>

section \<open>State\<close>

text \<open>An upload carries its content length, plan and prefix; the ticket holds target and credentials.\<close>

datatype stream_call =
    DownloadCall string guest_transfer_ticket
  | UploadCall string guest_transfer_ticket "string option" upload_plan "string option"

record op_call =
  ocHostId :: string
  ocKind :: guest_kind
  ocNode :: string
  ocVmid :: int
  ocOp :: string
  ocVia :: string
  ocTarget :: "string option"
  ocPath :: string
  ocTo :: "string option"

record file_server =
  fsServer :: server
  fsTickets :: ticket_store
  fsStreams :: "stream_call list"
  fsOps :: "op_call list"

type_synonym 'a handler = "file_server \<Rightarrow> (js_error + 'a) \<times> file_server"

definition getHostOrThrow :: "string \<Rightarrow> session_user option \<Rightarrow> server \<Rightarrow> js_error + string" where
  "getHostOrThrow ident user st =
     (if ident \<notin> set (hostIds st) then Inl (NotFoundError ''Host not found'')
      else (case user of None \<Rightarrow> Inr ident
        | Some u \<Rightarrow> if canAccessHost u ident then Inr ident else Inl (NotFoundError ''Host not found'')))"

section \<open>Streams behind the Node server\<close>

record node_request =
  nrMethod :: "string option"
  nrUrl :: string
  nrHeaders :: "(string \<times> string) list"

fun cookie_parts :: "string \<Rightarrow> string list \<Rightarrow> js_error + string option" where
  "cookie_parts name [] = Inr None"
| "cookie_parts name (part # parts) =
     (case split_on CHR ''='' (trim part) of
        key # rest \<Rightarrow>
          (if key = name
           then (case decodeURIComponent (join ''='' rest) of
                   None \<Rightarrow> Inl (OtherError ''URI malformed'') | Some v \<Rightarrow> Inr (Some v))
           else cookie_parts name parts)
      | [] \<Rightarrow> cookie_parts name parts)"

definition cookieValue :: "node_request \<Rightarrow> string \<Rightarrow> js_error + string option" where
  "cookieValue req name = cookie_parts name (split_on CHR '';'' (or_empty (map_of (nrHeaders req) ''cookie'')))"

text \<open>The request the origin check sees; empty headers are dropped.\<close>

definition nodeToHeaderRequest :: "node_request \<Rightarrow> http_request" where
  "nodeToHeaderRequest req =
     \<lparr>rqMethod = to_upper (case nrMethod req of None \<Rightarrow> ''GET'' | Some m \<Rightarrow> m),
      rqHeaders = filter (\<lambda>(_, v). v \<noteq> []) (nrHeaders req),
      rqPathname = hd (split_on CHR ''?'' (nrUrl req))\<rparr>"

definition clientIp_node :: "node_request \<Rightarrow> string option \<Rightarrow> string option" where
  "clientIp_node req remoteAddress =
     (let forwarded = trim (hd (split_on CHR '','' (or_empty (map_of (nrHeaders req) ''x-forwarded-for'')))) in
      if forwarded \<noteq> [] then Some forwarded else if truthy remoteAddress then remoteAddress else None)"

record transfer_match =
  tmHostId :: string
  tmKind :: guest_kind
  tmNode :: string
  tmVmid :: string
  tmMode :: string

text \<open>The pattern \<open>HOST_FILES\<close>: its groups are runs without a slash.\<close>

definition HOST_FILES :: "string \<Rightarrow> (string \<times> string \<times> string \<times> string \<times> string) option" where
  "HOST_FILES path =
     (case split_on slash path of
        [a, b, c, host, kind, node, vm, f, m] \<Rightarrow>
          (if a = [] \<and> b = ''api'' \<and> c = ''hosts'' \<and> host \<noteq> [] \<and> (kind = ''vms'' \<or> kind = ''lxc'') \<and> node \<noteq> [] \<and> vm \<noteq> []
              \<and> f = ''files'' \<and> (m = ''upload'' \<or> m = ''download'')
           then Some (host, kind, node, vm, m) else None)
      | _ \<Rightarrow> None)"

definition matchHostFileTransfer :: "node_request \<Rightarrow> js_error + transfer_match option" where
  "matchHostFileTransfer req =
     (let pathname = hd (split_on CHR ''?'' (nrUrl req)) in
      if \<not> isGuestFileTransferPath pathname then Inr None
      else (case HOST_FILES (stripped_path pathname) of None \<Rightarrow> Inr None
        | Some (host, kind, node, vm, m) \<Rightarrow>
            (case (decodeURIComponent host, decodeURIComponent node) of
               (Some h, Some n) \<Rightarrow>
                 Inr (Some \<lparr>tmHostId = h, tmKind = (if kind = ''lxc'' then LXC else VM), tmNode = n, tmVmid = vm, tmMode = m\<rparr>)
             | _ \<Rightarrow> Inl (OtherError ''URI malformed''))))"

definition file_access_of :: "string \<Rightarrow> file_access" where
  "file_access_of mode = (if mode = ''upload'' then FileWrite else FileRead)"

definition transfer_audit :: "session_user \<Rightarrow> string \<Rightarrow> guest_transfer_ticket \<Rightarrow> bool \<Rightarrow> file_server \<Rightarrow> file_server" where
  "transfer_audit user mode ticket ok st =
     st\<lparr>fsServer := writeAuditLog
         \<lparr>auUserId = Some (suId user),
          auAction = (if mode = ''upload'' then ''GUEST_FILES_WRITE'' else ''GUEST_FILES_DOWNLOAD''),
          auTarget = Some (to_upper (kind_str (tkKind ticket)) @ '' '' @ int_str (tkVmid ticket) @ '' '' @ tkPath ticket),
          auSuccess = ok\<rparr> (fsServer st)\<rparr>"

text \<open>The stream with its audit row, on success and on failure; the error goes on to the caller.\<close>

definition run_stream ::
  "(stream_call \<Rightarrow> js_error + response) \<Rightarrow> session_user \<Rightarrow> string \<Rightarrow> guest_transfer_ticket \<Rightarrow> stream_call \<Rightarrow> response handler" where
  "run_stream stream user mode ticket call st =
     (let st1 = st\<lparr>fsStreams := fsStreams st @ [call]\<rparr> in
      case stream call of
        Inr r \<Rightarrow> (Inr r, transfer_audit user mode ticket True st1)
      | Inl e \<Rightarrow> (Inl e, transfer_audit user mode ticket False st1))"

text \<open>The body of the handler's \<open>try\<close>.  \<open>ticket_param\<close> is the query parameter the URL parser finds.\<close>

definition node_transfer ::
  "platform \<Rightarrow> (string \<Rightarrow> url option) \<Rightarrow> app_env \<Rightarrow> (string \<Rightarrow> string option) \<Rightarrow> (stream_call \<Rightarrow> js_error + response) \<Rightarrow>
   int \<Rightarrow> node_request \<Rightarrow> transfer_match \<Rightarrow> response handler" where
  "node_transfer pf new_url env ticket_param stream now req parsed st0 =
     (case assertSameOrigin new_url env (nodeToHeaderRequest req) of Inl e \<Rightarrow> (Inl e, st0)
      | Inr _ \<Rightarrow>
      (case cookieValue req SESSION_COOKIE of Inl e \<Rightarrow> (Inl e, st0)
      | Inr token \<Rightarrow>
      (case getSessionFromToken pf now token (fsServer st0) of
        (None, srv) \<Rightarrow> (Inl (UnauthorizedError ''Authentication required''), st0\<lparr>fsServer := srv\<rparr>)
      | (Some session, srv) \<Rightarrow>
        (let st = st0\<lparr>fsServer := srv\<rparr>; vmid = toNumber (tmVmid parsed) in
         if \<not> isIntegerNum vmid \<or> num_less vmid 1 then (Inl (ValidationError ''Invalid VMID''), st)
         else if \<not> userHasAnyPermission (Some (holder_of (asUser session)))
                     [guestFilePermission (tmKind parsed) (file_access_of (tmMode parsed))] (Some (tmHostId parsed))
                     (Some \<lparr>refHostId = tmHostId parsed, refKind = tmKind parsed, refVmid = num_int vmid\<rparr>)
         then (Inl (ForbiddenError ''You do not have permission to perform this action''), st)
         else
           (let ticketId = trim (or_empty (ticket_param (nrUrl req))) in
            if ticketId = [] \<or> 80 < length ticketId then (Inl transfer_gone, st)
            else (case takeGuestTransferTicket now ticketId (suId (asUser session)) (tmMode parsed) (fsTickets st) of
                (Inl e, ts) \<Rightarrow> (Inl e, st\<lparr>fsTickets := ts\<rparr>)
              | (Inr ticket, ts) \<Rightarrow>
                (let st1 = st\<lparr>fsTickets := ts\<rparr> in
                 if tkHostId ticket \<noteq> tmHostId parsed \<or> tkKind ticket \<noteq> tmKind parsed \<or> tkNode ticket \<noteq> tmNode parsed
                    \<or> tkVmid ticket \<noteq> num_int vmid
                 then (Inl transfer_gone, st1)
                 else (case assertGuestAccess (asUser session) (tmHostId parsed) (tmKind parsed) (tkVmid ticket) of
                     Inl e \<Rightarrow> (Inl e, st1)
                   | Inr _ \<Rightarrow>
                     if tmMode parsed = ''download'' \<and> rqMethod (nodeToHeaderRequest req) = ''HEAD''
                     then (Inr \<lparr>resStatus = 200, resCode = [], resBody = []\<rparr>, st1)
                     else (case getHostOrThrow (tmHostId parsed) (Some (asUser session)) srv of
                         Inl e \<Rightarrow> (Inl e, st1)
                       | Inr host \<Rightarrow>
                         run_stream stream (asUser session) (tmMode parsed) ticket
                           (if tmMode parsed = ''upload''
                            then UploadCall host ticket (map_of (nrHeaders req) ''content-length'')
                                   (parseGuestUploadPlan (map_of (nrHeaders req) ''x-proxora-upload-size'')
                                      (map_of (nrHeaders req) ''x-proxora-upload-offset'') (map_of (nrHeaders req) ''content-length''))
                                   (parseGuestUploadPrefix (map_of (nrHeaders req) ''x-proxora-upload-prefix''))
                            else DownloadCall host ticket) st1)))))))))"

text \<open>\<open>Inr None\<close>: the handler leaves the request to others.\<close>

definition handleNodeGuestFileTransfer ::
  "platform \<Rightarrow> (string \<Rightarrow> url option) \<Rightarrow> app_env \<Rightarrow> (string \<Rightarrow> string option) \<Rightarrow> (stream_call \<Rightarrow> js_error + response) \<Rightarrow>
   int \<Rightarrow> node_request \<Rightarrow> response option handler" where
  "handleNodeGuestFileTransfer pf new_url env ticket_param stream now req st =
     (case matchHostFileTransfer req of Inl e \<Rightarrow> (Inl e, st)
      | Inr None \<Rightarrow> (Inr None, st)
      | Inr (Some parsed) \<Rightarrow>
          (let verb = to_upper (case nrMethod req of None \<Rightarrow> ''GET'' | Some m \<Rightarrow> m) in
           if tmMode parsed = ''upload'' \<and> verb \<noteq> ''PUT'' then (Inr None, st)
           else if tmMode parsed = ''download'' \<and> verb \<noteq> ''GET'' \<and> verb \<noteq> ''HEAD'' then (Inr None, st)
           else (case node_transfer pf new_url env ticket_param stream now req parsed st of
               (Inl e, st') \<Rightarrow> (Inr (Some (handleRouteError e)), st')
             | (Inr r, st') \<Rightarrow> (Inr (Some r), st'))))"

section \<open>The same streams as API routes\<close>

text \<open>The handlers run inside \<open>apiRoute\<close>; \<open>query\<close> is the ticket parameter of the address.\<close>

definition loadTicket ::
  "int \<Rightarrow> string option \<Rightarrow> string \<Rightarrow> (string \<times> string) list \<Rightarrow> guest_kind \<Rightarrow> string \<Rightarrow> guest_transfer_ticket handler" where
  "loadTicket now query sessionUserId params kind mode st =
     (let vmid = (case param params ''vmid'' of None \<Rightarrow> NaN | Some v \<Rightarrow> toNumber v) in
      if \<not> isIntegerNum vmid \<or> num_less vmid 1 then (Inl (ValidationError ''Invalid VMID''), st)
      else
        (let ticketId = trim (or_empty query) in
         if ticketId = [] \<or> 80 < length ticketId then (Inl transfer_gone, st)
         else (case takeGuestTransferTicket now ticketId sessionUserId mode (fsTickets st) of
             (Inl e, ts) \<Rightarrow> (Inl e, st\<lparr>fsTickets := ts\<rparr>)
           | (Inr ticket, ts) \<Rightarrow>
               (let st1 = st\<lparr>fsTickets := ts\<rparr> in
                if Some (tkHostId ticket) \<noteq> param params ''id'' \<or> tkKind ticket \<noteq> kind
                   \<or> Some (tkNode ticket) \<noteq> param params ''node'' \<or> tkVmid ticket \<noteq> num_int vmid
                then (Inl transfer_gone, st1) else (Inr ticket, st1)))))"

definition ticket_access ::
  "int \<Rightarrow> string option \<Rightarrow> session_user \<Rightarrow> (string \<times> string) list \<Rightarrow> guest_kind \<Rightarrow> string \<Rightarrow> guest_transfer_ticket handler" where
  "ticket_access now query user params kind mode st =
     (case loadTicket now query (suId user) params kind mode st of
        (Inl e, st1) \<Rightarrow> (Inl e, st1)
      | (Inr ticket, st1) \<Rightarrow>
          (case assertGuestAccess user (or_empty (param params ''id'')) kind (tkVmid ticket) of
             Inl e \<Rightarrow> (Inl e, st1) | Inr _ \<Rightarrow> (Inr ticket, st1)))"

definition guestFileDownloadHeadRoute ::
  "int \<Rightarrow> string option \<Rightarrow> session_user \<Rightarrow> (string \<times> string) list \<Rightarrow> guest_kind \<Rightarrow> response handler" where
  "guestFileDownloadHeadRoute now query user params kind st =
     (case ticket_access now query user params kind ''download'' st of
        (Inl e, st1) \<Rightarrow> (Inl e, st1)
      | (Inr _, st1) \<Rightarrow> (Inr \<lparr>resStatus = 200, resCode = [], resBody = []\<rparr>, st1))"

definition guestFileDownloadRoute ::
  "(stream_call \<Rightarrow> js_error + response) \<Rightarrow> int \<Rightarrow> string option \<Rightarrow> session_user \<Rightarrow> (string \<times> string) list \<Rightarrow> guest_kind \<Rightarrow>
   response handler" where
  "guestFileDownloadRoute stream now query user params kind st =
     (case ticket_access now query user params kind ''download'' st of
        (Inl e, st1) \<Rightarrow> (Inl e, st1)
      | (Inr ticket, st1) \<Rightarrow>
          (case getHostOrThrow (or_empty (param params ''id'')) (Some user) (fsServer st1) of
             Inl e \<Rightarrow> (Inl e, st1)
           | Inr host \<Rightarrow> run_stream stream user ''download'' ticket (DownloadCall host ticket) st1))"

definition guestFileUploadRoute ::
  "(stream_call \<Rightarrow> js_error + response) \<Rightarrow> int \<Rightarrow> string option \<Rightarrow> string option \<Rightarrow> session_user \<Rightarrow> (string \<times> string) list \<Rightarrow>
   guest_kind \<Rightarrow> response handler" where
  "guestFileUploadRoute stream now query contentLength user params kind st =
     (case ticket_access now query user params kind ''upload'' st of
        (Inl e, st1) \<Rightarrow> (Inl e, st1)
      | (Inr ticket, st1) \<Rightarrow>
          (case getHostOrThrow (or_empty (param params ''id'')) (Some user) (fsServer st1) of
             Inl e \<Rightarrow> (Inl e, st1)
           | Inr host \<Rightarrow>
               run_stream stream user ''upload'' ticket
                 (UploadCall host ticket contentLength \<lparr>planOffset = 0, planSize = None\<rparr> None) st1))"

section \<open>Operations and the issue of tickets\<close>

record files_body =
  fbOp :: string
  fbMode :: "string option"
  fbVia :: "string option"
  fbTarget :: "string option"
  fbPort :: "int option"
  fbUsername :: "string option"
  fbPassword :: "string option"
  fbPrivateKey :: "string option"
  fbPassphrase :: "string option"
  fbPath :: string
  fbTo :: "string option"
  fbContentBase64 :: "string option"

definition FILE_OPS :: "string list" where
  "FILE_OPS = [''list'', ''read'', ''write'', ''mkdir'', ''delete'', ''rename'', ''transfer-ticket'', ''upload-state'']"

text \<open>The length bound of the content is \<open>ceil(8 MiB * 1.4) + 32\<close>.\<close>

definition bodySchema :: "files_body \<Rightarrow> bool" where
  "bodySchema b \<longleftrightarrow>
     fbOp b \<in> set FILE_OPS \<and> fbMode b \<in> {None, Some ''download'', Some ''upload''}
     \<and> fbVia b \<in> {None, Some ''agent'', Some ''sftp''} \<and> opt_len 1 253 (fbTarget b)
     \<and> (case fbPort b of None \<Rightarrow> True | Some n \<Rightarrow> 1 \<le> n \<and> n \<le> 65535)
     \<and> opt_len 1 64 (fbUsername b) \<and> opt_len 0 512 (fbPassword b) \<and> opt_len 0 GUEST_SSH_KEY_MAX (fbPrivateKey b)
     \<and> opt_len 0 512 (fbPassphrase b) \<and> opt_len 1 4096 (Some (fbPath b)) \<and> opt_len 1 4096 (fbTo b)
     \<and> opt_len 0 (11744052 + 32) (fbContentBase64 b)
     \<and> (let auth = hasGuestSshAuth (fbPassword b) (fbPrivateKey b);
            via = (case fbVia b of Some v \<Rightarrow> v | None \<Rightarrow> if auth then ''sftp'' else ''agent'')
        in \<not> (via = ''sftp'' \<and> (\<not> truthy (fbTarget b) \<or> \<not> truthy (fbUsername b) \<or> \<not> auth)))
     \<and> \<not> (fbOp b = ''rename'' \<and> \<not> truthy (fbTo b))"

definition mutating_op :: "files_body \<Rightarrow> bool" where
  "mutating_op b \<longleftrightarrow> fbOp b \<in> {''write'', ''mkdir'', ''delete'', ''rename''}
     \<or> fbOp b = ''transfer-ticket'' \<and> fbMode b = Some ''upload''"

definition file_op_audit :: "string \<Rightarrow> string" where
  "file_op_audit op' =
     (if op' = ''read'' then ''GUEST_FILES_READ'' else if op' = ''write'' then ''GUEST_FILES_WRITE''
      else if op' = ''mkdir'' then ''GUEST_FILES_MKDIR'' else if op' = ''delete'' then ''GUEST_FILES_DELETE''
      else if op' = ''rename'' then ''GUEST_FILES_RENAME'' else ''GUEST_FILES_LIST'')"

record op_result =
  orPartSize :: jsnum
  orPartPrefix :: "string option"
  orPartExpectedSize :: "jsnum option"

datatype files_answer =
    TicketAnswer issued_ticket jsnum "string option" "jsnum option"
  | OpAnswer op_result

definition part_size :: "jsnum \<Rightarrow> jsnum" where
  "part_size n = (if n = NaN then Fin 0 else n)"

definition do_op :: "(op_call \<Rightarrow> js_error + op_result) \<Rightarrow> op_call \<Rightarrow> op_result handler" where
  "do_op run_op call st = (run_op call, st\<lparr>fsOps := fsOps st @ [call]\<rparr>)"

definition files_via :: "files_body \<Rightarrow> guest_kind \<Rightarrow> string" where
  "files_via body kind =
     (case fbVia body of Some v \<Rightarrow> v
      | None \<Rightarrow> if kind = VM \<and> \<not> hasGuestSshAuth (fbPassword body) (fbPrivateKey body) then ''agent'' else ''sftp'')"

text \<open>The branch that issues a ticket, with the look at a part file an upload can resume from.\<close>

definition issue_ticket ::
  "(op_call \<Rightarrow> js_error + op_result) \<Rightarrow> string \<Rightarrow> int \<Rightarrow> files_body \<Rightarrow> session_user \<Rightarrow> string \<Rightarrow> guest_kind \<Rightarrow> string \<Rightarrow> int \<Rightarrow>
   files_answer handler" where
  "issue_ticket run_op fresh now body user host kind node vmid st =
     (if files_via body kind \<noteq> ''sftp'' then (Inl (ValidationError ''Stream-Transfer nur per SFTP''), st)
      else case fbMode body of None \<Rightarrow> (Inl (ValidationError ''Transfer-Modus fehlt''), st)
      | Some mode \<Rightarrow>
        (case createGuestTransferTicket fresh now
                \<lparr>tiUserId = suId user, tiHostId = host, tiKind = kind, tiNode = node, tiVmid = vmid,
                 tiPath = fbPath body, tiTarget = or_empty (fbTarget body),
                 tiPort = map_option of_int_num (fbPort body), tiUsername = or_empty (fbUsername body),
                 tiPassword = fbPassword body, tiPrivateKey = fbPrivateKey body,
                 tiPassphrase = fbPassphrase body, tiMode = mode, tiExpiresAt = None\<rparr> (fsTickets st) of
           (Inl e, ts) \<Rightarrow> (Inl e, st\<lparr>fsTickets := ts\<rparr>)
         | (Inr issued, ts) \<Rightarrow>
             if mode \<noteq> ''upload'' then (Inr (TicketAnswer issued (Fin 0) None None), st\<lparr>fsTickets := ts\<rparr>)
             else (case do_op run_op \<lparr>ocHostId = host, ocKind = kind, ocNode = node, ocVmid = vmid, ocOp = ''upload-state'',
                          ocVia = ''sftp'', ocTarget = fbTarget body, ocPath = fbPath body, ocTo = None\<rparr> (st\<lparr>fsTickets := ts\<rparr>) of
                 (Inl _, st2) \<Rightarrow> (Inr (TicketAnswer issued (Fin 0) None None), st2)
               | (Inr r, st2) \<Rightarrow>
                 (Inr (TicketAnswer issued (part_size (orPartSize r)) (orPartPrefix r) (orPartExpectedSize r)), st2))))"

definition run_file_op ::
  "(op_call \<Rightarrow> js_error + op_result) \<Rightarrow> files_body \<Rightarrow> session_user \<Rightarrow> string \<Rightarrow> guest_kind \<Rightarrow> string \<Rightarrow> int \<Rightarrow> files_answer handler" where
  "run_file_op run_op body user host kind node vmid st =
     (case do_op run_op \<lparr>ocHostId = host, ocKind = kind, ocNode = node, ocVmid = vmid, ocOp = fbOp body,
              ocVia = files_via body kind, ocTarget = fbTarget body, ocPath = fbPath body, ocTo = fbTo body\<rparr> st of
        (Inl e, st1) \<Rightarrow> (Inl e, st1)
      | (Inr r, st1) \<Rightarrow>
          (Inr (OpAnswer r),
           st1\<lparr>fsServer := writeAuditLog
             \<lparr>auUserId = Some (suId user), auAction = file_op_audit (fbOp body),
              auTarget = Some (to_upper (kind_str kind) @ '' '' @ int_str vmid @ '' '' @ fbPath body),
              auSuccess = True\<rparr> (fsServer st1)\<rparr>))"

text \<open>
  The handler of \<open>guestFilesRoute(kind)\<close> behind \<open>apiRoute([read, write], ...)\<close>.  \<open>linux_check\<close> is
  \<open>assertLinuxGuestFiles\<close>, which asks the host.
\<close>

definition files_handler ::
  "(op_call \<Rightarrow> js_error + op_result) \<Rightarrow> (string \<Rightarrow> guest_kind \<Rightarrow> string \<Rightarrow> int \<Rightarrow> js_error + unit) \<Rightarrow> string \<Rightarrow> int \<Rightarrow>
   files_body \<Rightarrow> session_user \<Rightarrow> string \<Rightarrow> guest_kind \<Rightarrow> string \<Rightarrow> int \<Rightarrow> files_answer handler" where
  "files_handler run_op linux_check fresh now body user hostId kind node vmid st =
     (case assertGuestAccess user hostId kind vmid of Inl e \<Rightarrow> (Inl e, st)
      | Inr _ \<Rightarrow>
         if \<not> bodySchema body then (Inl (ZodError []), st)
         else if \<not> userHasPermission (Some (holder_of user))
                     (guestFilePermission kind (if mutating_op body then FileWrite else FileRead)) (Some hostId)
                     (Some \<lparr>refHostId = hostId, refKind = kind, refVmid = vmid\<rparr>)
         then (Inl (ForbiddenError ''You do not have permission to perform this action''), st)
         else if files_via body kind = ''agent'' \<and> kind \<noteq> VM
         then (Inl (ValidationError ''Der QEMU Agent gibt es nur bei VMs. LXC braucht SSH im Container.''), st)
         else if fbOp body \<in> {''write'', ''mkdir'', ''rename''} \<and> fbPath body = []
         then (Inl (ValidationError ''Path fehlt''), st)
         else case getHostOrThrow hostId (Some user) (fsServer st) of Inl e \<Rightarrow> (Inl e, st)
         | Inr host \<Rightarrow>
           (case linux_check host kind node vmid of Inl e \<Rightarrow> (Inl e, st)
            | Inr _ \<Rightarrow>
              if fbOp body = ''transfer-ticket'' then issue_ticket run_op fresh now body user host kind node vmid st
              else run_file_op run_op body user host kind node vmid st))"

definition guestFilesRoute ::
  "(op_call \<Rightarrow> js_error + op_result) \<Rightarrow> (string \<Rightarrow> guest_kind \<Rightarrow> string \<Rightarrow> int \<Rightarrow> js_error + unit) \<Rightarrow> string \<Rightarrow> int \<Rightarrow>
   files_body \<Rightarrow> session_user \<Rightarrow> (string \<times> string) list \<Rightarrow> guest_kind \<Rightarrow> files_answer handler" where
  "guestFilesRoute run_op linux_check fresh now body user params kind st =
     (let vmid = (case param params ''vmid'' of None \<Rightarrow> NaN | Some v \<Rightarrow> toNumber v)
      in if \<not> isIntegerNum vmid \<or> num_less vmid 1 then (Inl (ValidationError ''Invalid VMID''), st)
         else files_handler run_op linux_check fresh now body user (or_empty (param params ''id'')) kind
                (or_empty (param params ''node'')) (num_int vmid) st)"

section \<open>What a stream or an operation needs\<close>

fun stream_of :: "stream_call \<Rightarrow> string \<times> string \<times> guest_transfer_ticket" where
  "stream_of (DownloadCall host ticket) = (''download'', host, ticket)"
| "stream_of (UploadCall host ticket len plan prefix) = (''upload'', host, ticket)"

lemma take_ticket:
  "takeGuestTransferTicket now ident userId mode store = (Inr ticket, store') \<Longrightarrow>
     (ident, ticket) \<in> set store \<and> tkUserId ticket = userId \<and> tkMode ticket = mode \<and> now < tkExpiresAt ticket"
  by (auto simp: takeGuestTransferTicket_def pruneTickets_def Let_def split: option.splits if_splits dest!: map_of_SomeD)

lemma run_stream_streams [simp]:
  "fsStreams (snd (run_stream stream user mode ticket call st)) = fsStreams st @ [call]"
  by (simp add: run_stream_def transfer_audit_def Let_def split: sum.split)

lemma host_or_throw: "getHostOrThrow ident user st = Inr host \<Longrightarrow> host = ident \<and> ident \<in> set (hostIds st)"
  by (auto simp: getHostOrThrow_def split: if_splits option.splits)

lemma match_mode: "matchHostFileTransfer req = Inr (Some parsed) \<Longrightarrow> tmMode parsed = ''upload'' \<or> tmMode parsed = ''download''"
  by (auto simp: matchHostFileTransfer_def HOST_FILES_def Let_def split: if_splits option.splits list.splits prod.splits)

text \<open>What a streamed request must have brought along.\<close>

definition transfer_granted ::
  "session_user \<Rightarrow> transfer_match \<Rightarrow> int \<Rightarrow> file_server \<Rightarrow> guest_transfer_ticket \<Rightarrow> bool" where
  "transfer_granted user parsed now st ticket \<longleftrightarrow>
     userHasPermission (Some (holder_of user)) (guestFilePermission (tmKind parsed) (file_access_of (tmMode parsed)))
       (Some (tmHostId parsed)) (Some \<lparr>refHostId = tmHostId parsed, refKind = tmKind parsed, refVmid = tkVmid ticket\<rparr>)
     \<and> canAccessGuest user (tmHostId parsed) (tmKind parsed) (tkVmid ticket)
     \<and> ticket \<in> snd ` set (fsTickets st) \<and> tkUserId ticket = suId user \<and> tkMode ticket = tmMode parsed
     \<and> now < tkExpiresAt ticket
     \<and> tkHostId ticket = tmHostId parsed \<and> tkKind ticket = tmKind parsed \<and> tkNode ticket = tmNode parsed
     \<and> toNumber (tmVmid parsed) = of_int_num (tkVmid ticket)"

lemma integer_num: "isIntegerNum n \<Longrightarrow> n = of_int_num (num_int n)"
  by (cases n) (auto simp: of_int_num_def elim!: Ints_cases)

lemma node_transfer_streams:
  assumes run: "node_transfer pf new_url env ticket_param stream now req parsed st = (r, st')"
    and mode: "tmMode parsed = ''upload'' \<or> tmMode parsed = ''download''"
    and more: "fsStreams st' \<noteq> fsStreams st"
  shows "\<exists>token session ticket call. assertSameOrigin new_url env (nodeToHeaderRequest req) = Inr ()
     \<and> cookieValue req SESSION_COOKIE = Inr token
     \<and> fst (getSessionFromToken pf now token (fsServer st)) = Some session
     \<and> transfer_granted (asUser session) parsed now st ticket
     \<and> fsStreams st' = fsStreams st @ [call] \<and> stream_of call = (tmMode parsed, tmHostId parsed, ticket)"
proof -
  let ?req = "nodeToHeaderRequest req" and ?vmid = "toNumber (tmVmid parsed)" and ?ident = "trim (or_empty (ticket_param (nrUrl req)))"
  note defs = node_transfer_def Let_def
  from run more have origin: "assertSameOrigin new_url env ?req = Inr ()"
    by (cases "assertSameOrigin new_url env ?req") (auto simp: defs)
  from run more origin obtain token where token: "cookieValue req SESSION_COOKIE = Inr token"
    by (cases "cookieValue req SESSION_COOKIE") (auto simp: defs)
  from run more origin token obtain session srv where
    session: "getSessionFromToken pf now token (fsServer st) = (Some session, srv)"
    by (cases "getSessionFromToken pf now token (fsServer st)"; cases "fst (getSessionFromToken pf now token (fsServer st))")
      (auto simp: defs)
  let ?st = "st\<lparr>fsServer := srv\<rparr>" and ?user = "asUser session"
  let ?perm = "userHasAnyPermission (Some (holder_of ?user)) [guestFilePermission (tmKind parsed) (file_access_of (tmMode parsed))]
    (Some (tmHostId parsed)) (Some \<lparr>refHostId = tmHostId parsed, refKind = tmKind parsed, refVmid = num_int ?vmid\<rparr>)"
  note got = defs origin token session
  from run more have vmid: "isIntegerNum ?vmid" "?perm" "\<not> (?ident = [] \<or> 80 < length ?ident)"
    by (auto simp: got split: if_splits)
  let ?take = "takeGuestTransferTicket now ?ident (suId ?user) (tmMode parsed) (fsTickets st)"
  obtain tk ts where take: "?take = (tk, ts)" by (cases ?take)
  note got' = got vmid take
  from run more obtain ticket where ticket: "tk = Inr ticket"
    by (cases tk) (auto simp: got' split: if_splits)
  from run more have same: "tkHostId ticket = tmHostId parsed" "tkKind ticket = tmKind parsed" "tkNode ticket = tmNode parsed"
      "tkVmid ticket = num_int ?vmid"
    by (auto simp: got' ticket split: if_splits)
  from run more have access: "canAccessGuest ?user (tmHostId parsed) (tmKind parsed) (tkVmid ticket)"
    by (auto simp: got' ticket assertGuestAccess_def split: if_splits)
  from run more obtain host where host: "getHostOrThrow (tmHostId parsed) (Some ?user) srv = Inr host"
    by (cases "getHostOrThrow (tmHostId parsed) (Some ?user) srv")
      (auto simp: got' ticket assertGuestAccess_def access split: if_splits)
  from run more obtain call where call: "fsStreams st' = fsStreams st @ [call]" "stream_of call = (tmMode parsed, tmHostId parsed, ticket)"
    using mode host_or_throw [OF host]
    by (auto simp: got' ticket assertGuestAccess_def access same host split: if_splits dest!: arg_cong [where f = snd])
  have "transfer_granted ?user parsed now st ticket"
    using take_ticket [OF take [unfolded ticket]] vmid(1,2) same access integer_num [OF vmid(1)]
    by (force simp: transfer_granted_def userHasAnyPermission_def)
  with origin token session call show ?thesis by auto
qed

text \<open>
  C11: A file stream has to be earned: the handler in front of the framework starts a stream into a
  guest at most once per request, and only when the origin check passed, the cookie carries a live
  session, its user holds the read or write permission of exactly this guest and may see it, and
  presents an unexpired ticket that was issued to this user for this guest, node and direction.
  The stream goes to the host of the address with the path and credentials of that ticket.
\<close>

theorem node_stream_needs_grant:
  "case handleNodeGuestFileTransfer pf new_url env ticket_param stream now req st of (r, st') \<Rightarrow>
     fsStreams st' = fsStreams st
     \<or> (\<exists>parsed token session ticket call. matchHostFileTransfer req = Inr (Some parsed)
         \<and> assertSameOrigin new_url env (nodeToHeaderRequest req) = Inr ()
         \<and> cookieValue req SESSION_COOKIE = Inr token
         \<and> fst (getSessionFromToken pf now token (fsServer st)) = Some session
         \<and> transfer_granted (asUser session) parsed now st ticket
         \<and> fsStreams st' = fsStreams st @ [call] \<and> stream_of call = (tmMode parsed, tmHostId parsed, ticket))"
proof (cases "fsStreams (snd (handleNodeGuestFileTransfer pf new_url env ticket_param stream now req st)) = fsStreams st")
  case True
  then show ?thesis by (simp add: case_prod_unfold)
next
  case False
  let ?run = "node_transfer pf new_url env ticket_param stream now req"
  from False obtain parsed where m: "matchHostFileTransfer req = Inr (Some parsed)"
    by (auto simp: handleNodeGuestFileTransfer_def split: sum.splits option.splits)
  with False have st': "snd (handleNodeGuestFileTransfer pf new_url env ticket_param stream now req st) = snd (?run parsed st)"
    by (auto simp: handleNodeGuestFileTransfer_def Let_def split: if_splits sum.splits prod.splits)
  have "?run parsed st = (fst (?run parsed st), snd (?run parsed st))" by simp
  from node_transfer_streams [OF this match_mode [OF m]] False m st' show ?thesis by (auto simp: case_prod_unfold)
qed

text \<open>How the ticket store and the operations of a guest may change on behalf of a user.\<close>

definition ticket_added :: "session_user \<Rightarrow> string \<Rightarrow> guest_kind \<Rightarrow> int \<Rightarrow> string option \<Rightarrow> ticket_store \<Rightarrow> ticket_store \<Rightarrow> bool" where
  "ticket_added user hostId kind vmid mode store store' \<longleftrightarrow>
     (\<exists>k row. store' = AList.update k row store \<and> tkUserId row = suId user \<and> tkHostId row = hostId
        \<and> tkKind row = kind \<and> tkVmid row = vmid \<and> Some (tkMode row) = mode)"

lemma create_ticket_store:
  "createGuestTransferTicket fresh now input store = (r, store') \<Longrightarrow>
     store' = pruneTickets now store
     \<or> ticket_added (user\<lparr>suId := tiUserId input\<rparr>) (tiHostId input) (tiKind input) (tiVmid input) (Some (tiMode input))
         (pruneTickets now store) store'"
  by (force simp: createGuestTransferTicket_def ticket_added_def ticket_row_def Let_def split: if_splits sum.splits)

lemma create_ticket_store_for:
  "createGuestTransferTicket fresh now input store = (r, store') \<Longrightarrow> tiUserId input = suId user \<Longrightarrow>
     store' = pruneTickets now store
     \<or> ticket_added user (tiHostId input) (tiKind input) (tiVmid input) (Some (tiMode input)) (pruneTickets now store) store'"
  using create_ticket_store [of fresh now input store r store' user] by simp

definition route_effects ::
  "int \<Rightarrow> files_body \<Rightarrow> session_user \<Rightarrow> string \<Rightarrow> guest_kind \<Rightarrow> int \<Rightarrow> file_server \<Rightarrow> file_server \<Rightarrow> bool" where
  "route_effects now body user hostId kind vmid st st' \<longleftrightarrow>
     fsStreams st' = fsStreams st
     \<and> (fsTickets st' = fsTickets st \<or> fsTickets st' = pruneTickets now (fsTickets st)
        \<or> fbOp body = ''transfer-ticket'' \<and> ticket_added user hostId kind vmid (fbMode body) (pruneTickets now (fsTickets st)) (fsTickets st'))
     \<and> (fsOps st' = fsOps st
        \<or> (\<exists>call. fsOps st' = fsOps st @ [call] \<and> ocHostId call = hostId \<and> ocKind call = kind \<and> ocVmid call = vmid
             \<and> ocPath call = fbPath body
             \<and> ocOp call = (if fbOp body = ''transfer-ticket'' then ''upload-state'' else fbOp body)))"

lemma issue_ticket_effects:
  assumes "issue_ticket run_op fresh now body user host kind node vmid st = (r, st')" "fbOp body = ''transfer-ticket''"
  shows "route_effects now body user host kind vmid st st'"
proof (cases "fbMode body")
  case None
  with assms show ?thesis by (auto simp: issue_ticket_def route_effects_def split: if_splits)
next
  case (Some mode)
  let ?in = "\<lparr>tiUserId = suId user, tiHostId = host, tiKind = kind, tiNode = node, tiVmid = vmid,
                 tiPath = fbPath body, tiTarget = or_empty (fbTarget body),
                 tiPort = map_option of_int_num (fbPort body), tiUsername = or_empty (fbUsername body),
                 tiPassword = fbPassword body, tiPrivateKey = fbPrivateKey body,
                 tiPassphrase = fbPassphrase body, tiMode = mode, tiExpiresAt = None\<rparr>"
  obtain t ts where c: "createGuestTransferTicket fresh now ?in (fsTickets st) = (t, ts)"
    by (cases "createGuestTransferTicket fresh now ?in (fsTickets st)")
  from create_ticket_store_for [OF c, of user] assms Some show ?thesis
    by (auto simp: issue_ticket_def route_effects_def do_op_def c split: if_splits sum.splits)
qed

lemma run_file_op_effects:
  "run_file_op run_op body user host kind node vmid st = (r, st') \<Longrightarrow> fbOp body \<noteq> ''transfer-ticket'' \<Longrightarrow>
     route_effects now body user host kind vmid st st'"
  by (auto simp: run_file_op_def route_effects_def do_op_def split: sum.splits)

lemma files_handler_effects:
  assumes run: "files_handler run_op linux_check fresh now body user hostId kind node vmid st = (r, st')"
    and changed: "st' \<noteq> st"
  shows "canAccessGuest user hostId kind vmid \<and> bodySchema body \<and> hostId \<in> set (hostIds (fsServer st))
     \<and> userHasPermission (Some (holder_of user)) (guestFilePermission kind (if mutating_op body then FileWrite else FileRead))
         (Some hostId) (Some \<lparr>refHostId = hostId, refKind = kind, refVmid = vmid\<rparr>)
     \<and> route_effects now body user hostId kind vmid st st'"
proof -
  from run changed have access: "canAccessGuest user hostId kind vmid"
    by (auto simp: files_handler_def assertGuestAccess_def split: if_splits)
  note ok = files_handler_def assertGuestAccess_def access
  from run changed have schema: "bodySchema body" by (auto simp: ok split: if_splits)
  from run changed have perm: "userHasPermission (Some (holder_of user))
      (guestFilePermission kind (if mutating_op body then FileWrite else FileRead)) (Some hostId)
      (Some \<lparr>refHostId = hostId, refKind = kind, refVmid = vmid\<rparr>)" (is ?perm)
    by (cases ?perm) (simp_all add: ok schema)
  from run changed obtain host where host: "getHostOrThrow hostId (Some user) (fsServer st) = Inr host"
    by (cases "getHostOrThrow hostId (Some user) (fsServer st)") (auto simp: ok schema perm split: if_splits)
  then have hostId: "host = hostId" "hostId \<in> set (hostIds (fsServer st))" using host_or_throw by blast+
  have path: "fbPath body \<noteq> []" using schema by (auto simp: bodySchema_def opt_len_def)
  have "(if fbOp body = ''transfer-ticket'' then issue_ticket run_op fresh now body user hostId kind node vmid st
      else run_file_op run_op body user hostId kind node vmid st) = (r, st')"
    using run changed by (simp add: ok schema perm host hostId path split: if_split_asm sum.split_asm)
  then have "route_effects now body user hostId kind vmid st st'"
    by (auto split: if_splits intro: issue_ticket_effects run_file_op_effects)
  with access schema perm hostId show ?thesis by simp
qed

text \<open>
  The file route acts only for users who may: unless the user may see the guest of the address
  and holds its file permission (write for everything that changes the guest, and for an upload
  ticket), no operation is sent to a guest and no ticket is issued.  What is sent then is at most
  the one operation of the body, to that guest; what is issued is at most one ticket, for that
  user, guest and direction.
\<close>

theorem file_route_needs_permission:
  "let vmid = num_int (case param params ''vmid'' of None \<Rightarrow> NaN | Some v \<Rightarrow> toNumber v);
       hostId = or_empty (param params ''id'')
   in case guestFilesRoute run_op linux_check fresh now body user params kind st of (r, st') \<Rightarrow>
     st' = st
     \<or> canAccessGuest user hostId kind vmid \<and> 1 \<le> vmid \<and> bodySchema body \<and> hostId \<in> set (hostIds (fsServer st))
       \<and> userHasPermission (Some (holder_of user)) (guestFilePermission kind (if mutating_op body then FileWrite else FileRead))
           (Some hostId) (Some \<lparr>refHostId = hostId, refKind = kind, refVmid = vmid\<rparr>)
       \<and> route_effects now body user hostId kind vmid st st'"
proof -
  let ?vmidn = "case param params ''vmid'' of None \<Rightarrow> NaN | Some v \<Rightarrow> toNumber v"
  have "1 \<le> num_int ?vmidn" if "isIntegerNum ?vmidn" "\<not> num_less ?vmidn 1"
    using that by (cases ?vmidn) (auto simp: le_floor_iff)
  then show ?thesis
    using files_handler_effects [of run_op linux_check fresh now body user "or_empty (param params ''id'')" kind
        "or_empty (param params ''node'')" "num_int ?vmidn" st]
    by (auto simp: guestFilesRoute_def Let_def split: prod.splits)
qed

end
