(* ===== verification/DiskWatch.thy ===== *)
theory DiskWatch imports CreateIp Permissions begin

text \<open>
  Disk usage alerts: the readers and the hysteresis of \<^verbatim>\<open>lib/disk-alerts.ts\<close> and the scan of
  \<^verbatim>\<open>server/services/disk-watch.ts\<close>.  Byte counts and percentages are exact rationals; the inventory
  of a host, the usage cache and the guest agent are arguments of the scan.
\<close>

section \<open>Settings and state\<close>

definition DISK_ALERT_PERCENT :: int where
  "DISK_ALERT_PERCENT = 90"

definition DISK_CLEAR_PERCENT :: int where
  "DISK_CLEAR_PERCENT = 85"

datatype disk_kind = StorageDisk | GuestDisk

record disk_sample =
  dsKey :: string
  dsKind :: disk_kind
  dsGuestKind :: "guest_kind option"
  dsName :: string
  dsPercent :: rat
  dsHostId :: string
  dsHostName :: string
  dsNode :: "string option"
  dsId :: "string option"
  dsHref :: "string option"

record disk_alert_settings =
  alertPercent :: int
  clearPercent :: int

record disk_watch_state =
  dwNotified :: "(string \<times> bool) list"
  dwSamples :: "js list"

definition js_fields :: "js \<Rightarrow> js_record" where
  "js_fields v = (case v of JObj r \<Rightarrow> r | _ \<Rightarrow> [])"

definition clampPercent :: "js \<Rightarrow> int \<Rightarrow> int" where
  "clampPercent v fallback =
     (case js_number v of Fin n \<Rightarrow> min 99 (max 1 (js_round n)) | _ \<Rightarrow> fallback)"

definition parseDiskAlertSettings :: "js \<Rightarrow> disk_alert_settings" where
  "parseDiskAlertSettings v =
     (let raw = js_fields v;
          alert = clampPercent (get_prop raw ''alertPercent'') DISK_ALERT_PERCENT;
          clear = clampPercent (get_prop raw ''clearPercent'') DISK_CLEAR_PERCENT
      in \<lparr>alertPercent = alert, clearPercent = (if alert \<le> clear then max 0 (alert - 5) else clear)\<rparr>)"

definition isDiskSample :: "js \<Rightarrow> bool" where
  "isDiskSample v =
     (case v of
        JObj row \<Rightarrow> (case get_prop row ''key'' of JStr _ \<Rightarrow> True | _ \<Rightarrow> False)
          \<and> get_prop row ''kind'' \<in> {JStr ''storage'', JStr ''guest''}
          \<and> (case get_prop row ''percent'' of JNum _ \<Rightarrow> True | _ \<Rightarrow> False)
      | _ \<Rightarrow> False)"

fun bool_flags :: "js_record \<Rightarrow> (string \<times> bool) list" where
  "bool_flags [] = []"
| "bool_flags ((key, JBool flag) # rest) = (key, flag) # bool_flags rest"
| "bool_flags (_ # rest) = bool_flags rest"

definition parseDiskWatchState :: "js \<Rightarrow> disk_watch_state" where
  "parseDiskWatchState v =
     (let raw = js_fields v in
      \<lparr>dwNotified = bool_flags (by_host_entries (get_prop raw ''notified'')),
       dwSamples = (case get_prop raw ''samples'' of JArr xs \<Rightarrow> filter isDiskSample xs | _ \<Rightarrow> [])\<rparr>)"

section \<open>Usage of a disk\<close>

text \<open>\<open>None\<close> is a missing number; so is one that is not finite, which every test here treats alike.\<close>

definition diskUsagePercent :: "rat option \<Rightarrow> rat option \<Rightarrow> rat option" where
  "diskUsagePercent used ttl =
     (case (used, ttl) of
        (Some u, Some t) \<Rightarrow> (if t \<le> 0 \<or> u < 0 then None else Some (min 100 (u / t * 100)))
      | _ \<Rightarrow> None)"

definition isStorageMonitored :: "int option \<Rightarrow> int option \<Rightarrow> rat option \<Rightarrow> bool" where
  "isStorageMonitored enabled active ttl =
     (if enabled = Some 0 \<or> active = Some 0 then False
      else (case ttl of None \<Rightarrow> False | Some t \<Rightarrow> \<not> t \<le> 0))"

definition SKIP_FS :: "string list" where
  "SKIP_FS = [''tmpfs'', ''devtmpfs'', ''devfs'', ''overlay'', ''squashfs'', ''rpc_pipefs'', ''nsfs'', ''cgroup'', ''cgroup2'',
     ''proc'', ''sysfs'', ''fusectl'', ''debugfs'', ''tracefs'', ''ramfs'']"

definition SKIP_MOUNT :: "string list" where
  "SKIP_MOUNT = [''/proc'', ''/sys'', ''/dev'', ''/run'', ''/snap'', ''/boot/efi'']"

definition MIN_GUEST_FS_BYTES :: rat where
  "MIN_GUEST_FS_BYTES = 512 * 1024 * 1024"

definition numBytes :: "js \<Rightarrow> rat option" where
  "numBytes v = (if nullish v then None else case js_number v of Fin n \<Rightarrow> Some n | _ \<Rightarrow> None)"

definition parseGuestFsInfo :: "js \<Rightarrow> js list" where
  "parseGuestFsInfo payload =
     (case payload of JArr xs \<Rightarrow> xs
      | JObj r \<Rightarrow>
          (case get_prop r ''result'' of JArr xs \<Rightarrow> xs
           | JObj r2 \<Rightarrow> (case get_prop r2 ''result'' of JArr xs \<Rightarrow> xs | _ \<Rightarrow> [])
           | _ \<Rightarrow> [])
      | _ \<Rightarrow> [])"

text \<open>A file system as the agent reports it: the entries are read as objects with these fields.\<close>

record guest_fs_entry =
  feMountpoint :: "string option"
  feType :: "string option"
  feTotal :: js
  feUsed :: js
  feDisk :: "(js \<times> js) list"

definition fs_candidate :: "js \<times> js \<Rightarrow> (rat \<times> rat) list" where
  "fs_candidate p =
     (case (numBytes (fst p), numBytes (snd p)) of
        (Some used, Some ttl) \<Rightarrow>
          (if diskUsagePercent (Some used) (Some ttl) = None \<or> ttl < MIN_GUEST_FS_BYTES then [] else [(used, ttl)])
      | _ \<Rightarrow> [])"

definition first_of :: "'a list \<Rightarrow> 'a option" where
  "first_of xs = (case xs of [] \<Rightarrow> None | x # _ \<Rightarrow> Some x)"

definition fsUsage :: "guest_fs_entry \<Rightarrow> (rat \<times> rat) option" where
  "fsUsage entry = first_of (concat (map fs_candidate ((feUsed entry, feTotal entry) # feDisk entry)))"

definition skipped_mount :: "string \<Rightarrow> bool" where
  "skipped_mount mount \<longleftrightarrow> list_ex (\<lambda>p. mount = p \<or> starts_with mount (p @ ''/'')) SKIP_MOUNT"

definition usable_fs :: "guest_fs_entry \<Rightarrow> (string \<times> rat \<times> rat) list" where
  "usable_fs entry =
     (let mount = (case feMountpoint entry of None \<Rightarrow> [] | Some m \<Rightarrow> m);
          type = (case feType entry of None \<Rightarrow> [] | Some t \<Rightarrow> t)
      in if mount = [] \<or> mount = ''none'' then []
         else if to_lower type \<in> set SKIP_FS \<or> skipped_mount mount then []
         else (case fsUsage entry of None \<Rightarrow> [] | Some (used, ttl) \<Rightarrow> [(mount, used, ttl)]))"

definition guestFilesystemUsage :: "guest_fs_entry list \<Rightarrow> (rat \<times> rat) option" where
  "guestFilesystemUsage entries =
     (let usable = concat (map usable_fs entries) in
      case usable of [] \<Rightarrow> None
      | first # rest \<Rightarrow>
          (case find (\<lambda>e. fst e = ''/'') usable of
             Some (_, u) \<Rightarrow> Some u
           | None \<Rightarrow>
               if list_ex (\<lambda>e. feMountpoint e = Some ''/'') entries then None
               else Some (snd (fold (\<lambda>e best. if snd (snd best) < snd (snd e) then e else best) rest first))))"

definition guestFilesystemPercent :: "guest_fs_entry list \<Rightarrow> rat option" where
  "guestFilesystemPercent entries =
     (case guestFilesystemUsage entries of None \<Rightarrow> None | Some (used, ttl) \<Rightarrow> diskUsagePercent (Some used) (Some ttl))"

definition guestClusterDiskPercent :: "rat option \<Rightarrow> rat option \<Rightarrow> rat option" where
  "guestClusterDiskPercent used ttl =
     (case used of None \<Rightarrow> None | Some u \<Rightarrow> if u \<le> 0 then None else diskUsagePercent used ttl)"

section \<open>Alerts\<close>

text \<open>The pair of \<open>notify\<close> and the new \<open>notified\<close>.\<close>

definition applyDiskWatchState :: "bool \<Rightarrow> rat \<Rightarrow> int \<Rightarrow> int \<Rightarrow> bool \<times> bool" where
  "applyDiskWatchState notified percent alertAt clearAt =
     (if of_int alertAt \<le> percent \<and> \<not> notified then (True, True)
      else if percent < of_int clearAt then (False, False)
      else (False, notified))"

definition storageDiskKey :: "string \<Rightarrow> string \<Rightarrow> string \<Rightarrow> string" where
  "storageDiskKey hostId node storage = ''storage:'' @ hostId @ '':'' @ node @ '':'' @ storage"

definition guestDiskKey :: "string \<Rightarrow> guest_kind \<Rightarrow> int \<Rightarrow> string" where
  "guestDiskKey hostId kind vmid = ''guest:'' @ hostId @ '':'' @ kind_str kind @ '':'' @ int_str vmid"

definition diskSampleHref :: "disk_sample \<Rightarrow> string" where
  "diskSampleHref s =
     (if dsKind s = GuestDisk \<and> dsHostId s \<noteq> [] \<and> truthy (dsNode s) \<and> truthy (dsId s)
      then ''/'' @ (if dsGuestKind s = Some LXC then ''containers'' else ''vms'') @ ''/'' @ dsHostId s @ ''/'' @ the (dsNode s)
             @ ''/'' @ the (dsId s)
      else ''/storage'')"

text \<open>A notification names what is full and how full; its texts are left out.\<close>

record disk_note =
  dnSample :: disk_sample
  dnRounded :: int

fun remember_loop :: "disk_alert_settings \<Rightarrow> disk_sample list \<Rightarrow> (string \<times> bool) list \<Rightarrow> disk_note list \<times> (string \<times> bool) list" where
  "remember_loop cfg [] notified = ([], notified)"
| "remember_loop cfg (s # ss) notified =
     (let prev = (case map_of notified (dsKey s) of None \<Rightarrow> False | Some b \<Rightarrow> b) in
      case applyDiskWatchState prev (dsPercent s) (alertPercent cfg) (clearPercent cfg) of
        (notify, next') \<Rightarrow>
          (case remember_loop cfg ss (AList.update (dsKey s) next' notified) of
             (notes, final) \<Rightarrow>
               ((if notify then [\<lparr>dnSample = s, dnRounded = js_round (dsPercent s)\<rparr>] else []) @ notes, final)))"

text \<open>The flags of keys that are not among the samples are dropped.\<close>

definition remember :: "disk_alert_settings \<Rightarrow> disk_sample list \<Rightarrow> (string \<times> bool) list \<Rightarrow> disk_note list \<times> (string \<times> bool) list" where
  "remember cfg samples notified =
     remember_loop cfg samples (filter (\<lambda>(key, _). key \<in> dsKey ` set samples) notified)"

section \<open>The scan\<close>

definition takeRotated :: "'a list \<Rightarrow> nat \<Rightarrow> nat \<Rightarrow> 'a list \<times> nat" where
  "takeRotated items offset limit =
     (if items = [] then ([], 0)
      else if length items \<le> limit then (items, 0)
      else (map (\<lambda>i. items ! ((offset + i) mod length items)) [0..<limit], (offset + limit) mod length items))"

record inv_guest =
  igVmid :: "int option"
  igNode :: "string option"
  igName :: "string option"
  igStatus :: string
  igTemplate :: bool
  igDisk :: "rat option"
  igMaxdisk :: "rat option"

record inv_storage =
  isName :: "string option"
  isNode :: "string option"
  isDisk :: "rat option"
  isMaxdisk :: "rat option"
  isStatus :: string

text \<open>A host with its inventory, \<open>None\<close> when the client or the inventory throws.\<close>

record scan_host =
  shId :: string
  shName :: string
  shLocal :: bool
  shConnectionState :: string
  shInventory :: "(inv_storage list \<times> inv_guest list \<times> inv_guest list) option"

definition DISK_AGENT_LIMIT :: nat where
  "DISK_AGENT_LIMIT = 40"

definition with_href :: "disk_sample \<Rightarrow> disk_sample" where
  "with_href s = s\<lparr>dsHref := Some (diskSampleHref s)\<rparr>"

definition storage_sample :: "scan_host \<Rightarrow> inv_storage \<Rightarrow> disk_sample list" where
  "storage_sample host st =
     (if \<not> truthy (isName st) then []
      else if \<not> isStorageMonitored None (Some (if isStatus st = ''offline'' then 0 else 1)) (isMaxdisk st) then []
      else (case diskUsagePercent (isDisk st) (isMaxdisk st) of None \<Rightarrow> []
        | Some percent \<Rightarrow>
            [with_href \<lparr>dsKey = storageDiskKey (shId host) (case isNode st of None \<Rightarrow> [] | Some n \<Rightarrow> n) (the (isName st)),
               dsKind = StorageDisk, dsGuestKind = None, dsName = the (isName st), dsPercent = percent,
               dsHostId = shId host, dsHostName = shName host, dsNode = isNode st, dsId = isName st, dsHref = None\<rparr>]))"

definition guest_sample :: "scan_host \<Rightarrow> guest_kind \<Rightarrow> string \<Rightarrow> inv_guest \<Rightarrow> rat \<Rightarrow> disk_sample" where
  "guest_sample host kind label g percent =
     with_href \<lparr>dsKey = guestDiskKey (shId host) kind (the (igVmid g)), dsKind = GuestDisk, dsGuestKind = Some kind,
       dsName = (if truthy (igName g) then the (igName g) else label @ int_str (the (igVmid g))), dsPercent = percent,
       dsHostId = shId host, dsHostName = shName host, dsNode = igNode g, dsId = Some (int_str (the (igVmid g))), dsHref = None\<rparr>"

definition has_vmid :: "inv_guest \<Rightarrow> bool" where
  "has_vmid g \<longleftrightarrow> (case igVmid g of None \<Rightarrow> False | Some v \<Rightarrow> v \<noteq> 0)"

type_synonym vm_usage = "string \<Rightarrow> string \<Rightarrow> int \<Rightarrow> (rat \<times> rat) option"

definition usage_percent :: "vm_usage \<Rightarrow> scan_host \<Rightarrow> inv_guest \<Rightarrow> rat option" where
  "usage_percent usage host g =
     (case usage (shId host) (the (igNode g)) (the (igVmid g)) of None \<Rightarrow> None
      | Some (used, ttl) \<Rightarrow> diskUsagePercent (Some used) (Some ttl))"

definition opt_list :: "'a option \<Rightarrow> 'a list" where
  "opt_list x = (case x of None \<Rightarrow> [] | Some v \<Rightarrow> [v])"

definition container_sample :: "scan_host \<Rightarrow> inv_guest \<Rightarrow> disk_sample list" where
  "container_sample host g =
     (if igTemplate g \<or> \<not> has_vmid g then []
      else map (guest_sample host LXC ''CT '' g) (opt_list (guestClusterDiskPercent (igDisk g) (igMaxdisk g))))"

definition scan_one :: "vm_usage \<Rightarrow> vm_usage \<Rightarrow> scan_host \<Rightarrow> (string \<times> nat) list \<Rightarrow> disk_sample list \<times> (string \<times> nat) list" where
  "scan_one peekVmDiskCache vmDiskFromAgent host offsets =
     (if \<not> shLocal host \<or> shConnectionState host \<in> {''OFFLINE'', ''MAINTENANCE'', ''ERROR''} then ([], offsets)
      else case shInventory host of None \<Rightarrow> ([], offsets)
      | Some (storages, vms, containers) \<Rightarrow>
          (let runningVms = filter (\<lambda>g. \<not> igTemplate g \<and> has_vmid g \<and> igStatus g = ''running'' \<and> truthy (igNode g)) vms;
               cached = (\<lambda>g. usage_percent peekVmDiskCache host g);
               needAgent = filter (\<lambda>g. cached g = None) runningVms
           in case takeRotated needAgent (case map_of offsets (shId host) of None \<Rightarrow> 0 | Some n \<Rightarrow> n) DISK_AGENT_LIMIT of
                (picked, nextOffset) \<Rightarrow>
                  (concat (map (storage_sample host) storages)
                   @ concat (map (\<lambda>g. map (guest_sample host VM ''VM '' g) (opt_list (cached g))) runningVms)
                   @ concat (map (\<lambda>g. map (guest_sample host VM ''VM '' g) (opt_list (usage_percent vmDiskFromAgent host g))) picked)
                   @ concat (map (container_sample host) containers),
                   AList.update (shId host) nextOffset offsets)))"

fun scan_hosts :: "vm_usage \<Rightarrow> vm_usage \<Rightarrow> scan_host list \<Rightarrow> (string \<times> nat) list \<Rightarrow> disk_sample list \<times> (string \<times> nat) list" where
  "scan_hosts peek agent [] offsets = ([], offsets)"
| "scan_hosts peek agent (host # hosts) offsets =
     (case scan_one peek agent host offsets of (here, offsets1) \<Rightarrow>
        (case scan_hosts peek agent hosts offsets1 of (later, offsets2) \<Rightarrow> (here @ later, offsets2)))"

record disk_watch =
  wNotified :: "(string \<times> bool) list"
  wSamples :: "disk_sample list"
  wOffsets :: "(string \<times> nat) list"
  wNotes :: "disk_note list"

text \<open>Settings and hosts come from the database; the hosts are in the order of their names.\<close>

definition scanDiskUsage :: "vm_usage \<Rightarrow> vm_usage \<Rightarrow> js \<Rightarrow> scan_host list \<Rightarrow> disk_watch \<Rightarrow> nat \<times> disk_watch" where
  "scanDiskUsage peek agent settings hosts w =
     (case scan_hosts peek agent hosts (wOffsets w) of (samples, offsets) \<Rightarrow>
        (case remember (parseDiskAlertSettings settings) samples (wNotified w) of (notes, notified) \<Rightarrow>
           (length notes,
            \<lparr>wNotified = notified, wSamples = samples, wOffsets = offsets, wNotes = wNotes w @ notes\<rparr>)))"

section \<open>Hysteresis\<close>

text \<open>Whether key \<open>k\<close> is notified in each of a sequence of scans.\<close>

fun alert_run :: "disk_alert_settings \<Rightarrow> string \<Rightarrow> (string \<times> bool) list \<Rightarrow> disk_sample list list \<Rightarrow> bool list" where
  "alert_run cfg k notified [] = []"
| "alert_run cfg k notified (ss # scans) =
     (case remember cfg ss notified of (ns, notified') \<Rightarrow>
        list_ex (\<lambda>note. dsKey (dnSample note) = k) ns # alert_run cfg k notified' scans)"

definition samples_of :: "string \<Rightarrow> disk_sample list \<Rightarrow> disk_sample list" where
  "samples_of k ss = filter (\<lambda>s. dsKey s = k) ss"

definition percent_of :: "string \<Rightarrow> disk_sample list \<Rightarrow> rat" where
  "percent_of k ss = dsPercent (hd (samples_of k ss))"

definition flag_of :: "(string \<times> bool) list \<Rightarrow> string \<Rightarrow> bool" where
  "flag_of notified k \<longleftrightarrow> map_of notified k = Some True"

fun schmitt :: "disk_alert_settings \<Rightarrow> bool \<Rightarrow> rat list \<Rightarrow> bool list" where
  "schmitt cfg b [] = []"
| "schmitt cfg b (p # ps) =
     (case applyDiskWatchState b p (alertPercent cfg) (clearPercent cfg) of (n, b') \<Rightarrow> n # schmitt cfg b' ps)"

lemma flag_case: "(case map_of m k of None \<Rightarrow> False | Some b \<Rightarrow> b) = flag_of m k"
  by (auto simp: flag_of_def split: option.split)

lemma loop_absent:
  "remember_loop cfg ss m = (ns, m') \<Longrightarrow> samples_of k ss = [] \<Longrightarrow>
     \<not> list_ex (\<lambda>note. dsKey (dnSample note) = k) ns \<and> flag_of m' k = flag_of m k"
proof (induction ss arbitrary: m ns)
  case (Cons s ss)
  then have "dsKey s \<noteq> k" "samples_of k ss = []" by (auto simp: samples_of_def split: if_splits)
  with Cons show ?case
    by (auto simp: Let_def flag_of_def update_conv' split: prod.splits if_splits; fastforce)
qed simp

lemma loop_once:
  "remember_loop cfg ss m = (ns, m') \<Longrightarrow> samples_of k ss = [s] \<Longrightarrow>
     applyDiskWatchState (flag_of m k) (dsPercent s) (alertPercent cfg) (clearPercent cfg)
       = (list_ex (\<lambda>note. dsKey (dnSample note) = k) ns, flag_of m' k)"
proof (induction ss arbitrary: m ns)
  case (Cons x ss)
  obtain n b where a: "applyDiskWatchState (flag_of m (dsKey x)) (dsPercent x) (alertPercent cfg) (clearPercent cfg) = (n, b)"
    by fastforce
  obtain rest where r: "remember_loop cfg ss (AList.update (dsKey x) b m) = (rest, m')"
    and ns: "ns = (if n then [\<lparr>dnSample = x, dnRounded = js_round (dsPercent x)\<rparr>] else []) @ rest"
    using Cons.prems(1) a by (auto simp: flag_case Let_def split: prod.splits)
  show ?case
  proof (cases "dsKey x = k")
    case True
    with Cons.prems(2) have "s = x" "samples_of k ss = []" by (simp_all add: samples_of_def)
    with loop_absent [OF r] True a ns show ?thesis by (auto simp: flag_of_def update_conv')
  next
    case False
    with Cons.prems(2) have "samples_of k ss = [s]" by (simp add: samples_of_def)
    from Cons.IH [OF r this] False ns show ?thesis by (auto simp: flag_of_def update_conv')
  qed
qed (simp add: samples_of_def)

lemma flag_filter: "P k \<Longrightarrow> flag_of (filter (\<lambda>(key, _). P key) m) k = flag_of m k"
  by (induction m) (auto simp: flag_of_def)

lemma alert_run_schmitt:
  "list_all (\<lambda>ss. length (samples_of k ss) = 1) scans \<Longrightarrow>
     alert_run cfg k m scans = schmitt cfg (flag_of m k) (map (percent_of k) scans)"
proof (induction scans arbitrary: m)
  case (Cons ss scans)
  then obtain s where s: "samples_of k ss = [s]" by (auto simp: length_Suc_conv)
  obtain ns m' where r: "remember cfg ss m = (ns, m')" by fastforce
  have "s \<in> set (samples_of k ss)" using s by simp
  then have "k \<in> dsKey ` set ss" by (auto simp: samples_of_def)
  with loop_once [OF r [unfolded remember_def] s] r Cons s show ?case
    by (simp add: flag_filter [where P = "\<lambda>key. key \<in> dsKey ` set ss"] percent_of_def)
qed simp

lemma schmitt_length: "length (schmitt cfg b ps) = length ps"
  by (induction cfg b ps rule: schmitt.induct) (auto split: prod.split)

lemma schmitt_quiet:
  "clearPercent cfg < alertPercent cfg \<Longrightarrow> list_all (\<lambda>p. of_int (clearPercent cfg) \<le> p) ps \<Longrightarrow>
     schmitt cfg True (ps @ qs) = map (\<lambda>_. False) ps @ schmitt cfg True qs"
  by (induction ps) (simp_all add: applyDiskWatchState_def)

lemma schmitt_first:
  "\<not> b \<Longrightarrow> schmitt cfg b (p # ps)
     = (if of_int (alertPercent cfg) \<le> p then True # schmitt cfg True ps else False # schmitt cfg False ps)"
  by (simp add: applyDiskWatchState_def)

text \<open>Two notifications are separated by a fall below the clear mark.\<close>

lemma schmitt_separated:
  assumes "clearPercent cfg < alertPercent cfg"
  shows "i < j \<Longrightarrow> j < length ps \<Longrightarrow> schmitt cfg b ps ! i \<Longrightarrow> schmitt cfg b ps ! j \<Longrightarrow>
     \<exists>m. i < m \<and> m < j \<and> ps ! m < of_int (clearPercent cfg)"
proof (induction ps arbitrary: b i j)
  case (Cons p ps)
  obtain n b' where a: "applyDiskWatchState b p (alertPercent cfg) (clearPercent cfg) = (n, b')" by fastforce
  show ?case
  proof (cases i)
    case (Suc i')
    with Cons.prems obtain j' where j: "j = Suc j'" by (cases j) auto
    with Suc Cons.prems a have "\<exists>m. i' < m \<and> m < j' \<and> ps ! m < of_int (clearPercent cfg)"
      by (intro Cons.IH [of i' j' b']) auto
    then obtain m where "i' < m" "m < j'" "ps ! m < of_int (clearPercent cfg)" by blast
    then show ?thesis by (intro exI [of _ "Suc m"]) (simp add: Suc j)
  next
    case 0
    with Cons.prems a have b': b' by (auto simp: applyDiskWatchState_def split: if_splits)
    obtain j' where j: "j = Suc j'" using Cons.prems 0 by (cases j) auto
    show ?thesis
    proof (rule ccontr)
      assume none: "\<not> ?thesis"
      have "of_int (clearPercent cfg) \<le> ps ! m" if "m < j'" for m
        using none that j 0 by (auto simp: not_less dest: spec [of _ "Suc m"])
      then have "list_all (\<lambda>p. of_int (clearPercent cfg) \<le> p) (take j' ps)" by (simp add: list_all_length)
      from schmitt_quiet [OF assms this, of "drop j' ps"] b' a Cons.prems j
      have "schmitt cfg b (p # ps) ! j = schmitt cfg True (drop j' ps) ! 0" by (simp add: nth_append min_def)
      moreover obtain q qs where "drop j' ps = q # qs" using Cons.prems(2) j by (cases "drop j' ps") auto
      ultimately show False using Cons.prems(4) by (simp add: applyDiskWatchState_def split: if_splits)
    qed
  qed
qed simp

lemma schmitt_rises:
  "i < length ps \<Longrightarrow> of_int (alertPercent cfg) \<le> ps ! i \<Longrightarrow> \<exists>j \<le> i. schmitt cfg False ps ! j"
proof (induction ps arbitrary: i)
  case (Cons p ps)
  show ?case
  proof (cases "of_int (alertPercent cfg) \<le> p")
    case True
    then show ?thesis by (intro exI [of _ 0]) (simp add: schmitt_first del: schmitt.simps)
  next
    case False
    with Cons.prems obtain i' where i: "i = Suc i'" by (cases i) auto
    with Cons.IH [of i'] Cons.prems obtain j where "j \<le> i'" "schmitt cfg False ps ! j" by auto
    with i False show ?thesis by (intro exI [of _ "Suc j"]) (simp add: schmitt_first del: schmitt.simps)
  qed
qed simp

definition demo_sample :: "rat \<Rightarrow> disk_sample" where
  "demo_sample p = \<lparr>dsKey = ''k'', dsKind = StorageDisk, dsGuestKind = None, dsName = ''local'', dsPercent = p,
     dsHostId = ''h'', dsHostName = ''pve'', dsNode = None, dsId = None, dsHref = None\<rparr>"

text \<open>
  C13: Disk alerts have hysteresis: with parsed settings, and as long as every scan sees the disk, a
  disk that reaches the alert mark is notified, and between two notifications of the same disk its
  usage fell below the clear mark.  A scan that misses the disk forgets its flag, so that a disk
  which stays full is notified again afterwards.
\<close>

theorem disk_alert_hysteresis:
  assumes seen: "list_all (\<lambda>ss. length (samples_of k ss) = 1) scans" and cfg: "cfg = parseDiskAlertSettings settings"
  shows "(i < j \<and> j < length scans \<and> alert_run cfg k m scans ! i \<and> alert_run cfg k m scans ! j \<longrightarrow>
      (\<exists>l. i < l \<and> l < j \<and> percent_of k (scans ! l) < of_int (clearPercent cfg)))
    \<and> (\<not> flag_of m k \<and> i < length scans \<and> of_int (alertPercent cfg) \<le> percent_of k (scans ! i) \<longrightarrow>
      (\<exists>j \<le> i. alert_run cfg k m scans ! j))
    \<and> alert_run (parseDiskAlertSettings JNull) ''k'' [] [[demo_sample 95], [], [demo_sample 95]] = [True, False, True]"
proof -
  have gap: "clearPercent cfg < alertPercent cfg"
    by (auto simp: cfg parseDiskAlertSettings_def clampPercent_def Let_def DISK_ALERT_PERCENT_def split: jsnum.splits)
  note run = alert_run_schmitt [OF seen, of cfg m]
  have "i < j \<and> j < length scans \<and> alert_run cfg k m scans ! i \<and> alert_run cfg k m scans ! j \<longrightarrow>
      (\<exists>l. i < l \<and> l < j \<and> percent_of k (scans ! l) < of_int (clearPercent cfg))"
    using schmitt_separated [OF gap, of i j "map (percent_of k) scans" "flag_of m k"] by (fastforce simp: run)
  moreover have "\<not> flag_of m k \<and> i < length scans \<and> of_int (alertPercent cfg) \<le> percent_of k (scans ! i) \<longrightarrow>
      (\<exists>j \<le> i. alert_run cfg k m scans ! j)"
    using schmitt_rises [of i "map (percent_of k) scans" cfg] by (auto simp: run)
  moreover have "alert_run (parseDiskAlertSettings JNull) ''k'' [] [[demo_sample 95], [], [demo_sample 95]] = [True, False, True]"
    by code_simp
  ultimately show ?thesis by blast
qed

theorem disk_alert_hysteresis_witness:
  "\<exists>l. 0 < l \<and> l < 3 \<and> percent_of ''k'' ([[demo_sample 95], [demo_sample 88], [demo_sample 80], [demo_sample 92]] ! l) < 85"
proof -
  let ?scans = "[[demo_sample 95], [demo_sample 88], [demo_sample 80], [demo_sample 92]]" and ?cfg = "parseDiskAlertSettings JNull"
  have seen: "list_all (\<lambda>ss. length (samples_of ''k'' ss) = 1) ?scans" by code_simp
  have run: "alert_run ?cfg ''k'' [] ?scans = [True, False, False, True]" by code_simp
  have "clearPercent ?cfg = 85" by code_simp
  with conjunct1 [OF disk_alert_hysteresis [OF seen refl, of 0 3 JNull "[]"]] run show ?thesis
    by (simp del: alert_run.simps)
qed

section \<open>Rotation\<close>

text \<open>The guests asked in each of a number of scans while the list of candidates stays the same.\<close>

fun rotations :: "'a list \<Rightarrow> nat \<Rightarrow> nat \<Rightarrow> nat \<Rightarrow> 'a list list" where
  "rotations items offset limit 0 = []"
| "rotations items offset limit (Suc scans) =
     (case takeRotated items offset limit of (picked, nextOffset) \<Rightarrow> picked # rotations items nextOffset limit scans)"

lemma rotations_nth:
  "limit < length items \<Longrightarrow> j < scans \<Longrightarrow>
     rotations items offset limit scans ! j
       = map (\<lambda>i. items ! ((offset + j * limit + i) mod length items)) [0..<limit]"
proof (induction scans arbitrary: offset j)
  case (Suc scans)
  then have ne: "items \<noteq> []" by auto
  show ?case
  proof (cases j)
    case (Suc j')
    have "((offset + limit) mod length items + j' * limit + i) mod length items = (offset + j * limit + i) mod length items" for i
      using mod_add_left_eq [of "offset + limit" "length items" "j' * limit + i"] by (simp add: Suc add.assoc add.left_commute)
    with Suc.prems Suc.IH [of j' "(offset + limit) mod length items"] Suc ne show ?thesis
      by (simp add: takeRotated_def)
  qed (use Suc.prems ne in \<open>simp add: takeRotated_def\<close>)
qed simp

lemma length_rotations: "length (rotations items offset limit scans) = scans"
  by (induction scans arbitrary: offset) (auto split: prod.split)

text \<open>
  The cap on agent calls starves nobody: while the candidates of a host stay the same, every one
  of them is asked within as many scans as it takes to go once around the list, wherever the
  rotation starts, and no scan asks more than the cap.
\<close>

theorem takeRotated_fair:
  assumes "0 < limit" "x \<in> set items" "limit < length items"
  shows "x \<in> set (concat (rotations items offset limit ((length items + limit - 1) div limit)))
    \<and> list_all (\<lambda>picked. length picked \<le> limit) (rotations items offset limit scans)"
proof -
  let ?n = "length items" and ?k = "(length items + limit - 1) div limit"
  from assms(2) obtain t where t: "t < ?n" "items ! t = x" by (auto simp: in_set_conv_nth)
  define d where "d = (t + ?n - offset mod ?n) mod ?n"
  have n: "0 < ?n" using assms by linarith
  have d: "d < ?n" using n by (simp add: d_def)
  have "(offset + d) mod ?n = (offset mod ?n + (t + ?n - offset mod ?n)) mod ?n" by (simp add: d_def mod_simps)
  also have "\<dots> = t" using t(1) mod_less_divisor [OF n, of offset] by simp
  finally have hit: "(offset + d div limit * limit + d mod limit) mod ?n = t" by (simp add: add.assoc)
  have "d < ?k * limit"
  proof -
    have "?n \<le> ?k * limit" using div_mult_mod_eq [of "?n + limit - 1" limit] mod_less_divisor [OF assms(1), of "?n + limit - 1"] by linarith
    with d show ?thesis by simp
  qed
  then have j: "d div limit < ?k" using assms(1) by (simp add: div_less_iff_less_mult)
  have "x \<in> set (map (\<lambda>i. items ! ((offset + d div limit * limit + i) mod ?n)) [0..<limit])"
    using hit t(2) assms(1) by (auto intro!: image_eqI [of _ _ "d mod limit"])
  then have "x \<in> set (rotations items offset limit ?k ! (d div limit))"
    by (simp only: rotations_nth [OF assms(3) j, of offset])
  moreover have "list_all (\<lambda>picked. length picked \<le> limit) (rotations items offset limit scans)"
    using rotations_nth [OF assms(3), of _ scans offset] by (simp add: list_all_length length_rotations)
  ultimately show ?thesis using j nth_mem [of "d div limit" "rotations items offset limit ?k"] by (auto simp: length_rotations)
qed

theorem takeRotated_fair_witness:
  "(4::nat) \<in> set (concat (rotations [0, 1, 2, 3, 4] 1 2 3))"
proof -
  have three: "(length [0::nat, 1, 2, 3, 4] + 2 - 1) div 2 = 3" by simp
  from takeRotated_fair [of 2 "4::nat" "[0, 1, 2, 3, 4]" 1, unfolded three] show ?thesis by force
qed

end
