(* ===== verification/AsyncPool.thy ===== *)
theory AsyncPool imports Prelude begin

text \<open>
  The bounded worker pool of \<^verbatim>\<open>lib/async-pool.ts\<close>: \<open>limit\<close> loops share a counter, take the next
  index between two awaits and write their result at that index.  One step of the relation is what
  runs without an await in between, so every interleaving of the loops is a run.
\<close>

datatype pool_worker = Idle | Busy nat | Finished

record ('r) pool =
  plNext :: nat
  plWorkers :: "pool_worker list"
  plOut :: "'r option list"
  plStarted :: "nat list"

definition pool_limit :: "'a list \<Rightarrow> int \<Rightarrow> nat" where
  "pool_limit items concurrency = nat (max 1 (min concurrency (int (length items))))"

definition pool_workers :: "'a list \<Rightarrow> int \<Rightarrow> nat" where
  "pool_workers items concurrency = (if items = [] then 0 else pool_limit items concurrency)"

definition pool_init :: "'a list \<Rightarrow> int \<Rightarrow> 'r pool" where
  "pool_init items concurrency =
     \<lparr>plNext = 0, plWorkers = replicate (pool_workers items concurrency) Idle,
      plOut = replicate (length items) None, plStarted = []\<rparr>"

text \<open>\<open>plStarted\<close> records the indices for which the worker was called, in order.\<close>

inductive mapPool_step :: "'a list \<Rightarrow> ('a \<Rightarrow> nat \<Rightarrow> 'r) \<Rightarrow> 'r pool \<Rightarrow> 'r pool \<Rightarrow> bool"
  for items :: "'a list" and worker :: "'a \<Rightarrow> nat \<Rightarrow> 'r" where
  take_item: "w < length (plWorkers s) \<Longrightarrow> plWorkers s ! w = Idle \<Longrightarrow> plNext s < length items \<Longrightarrow>
     mapPool_step items worker s
       (s\<lparr>plNext := plNext s + 1, plWorkers := (plWorkers s)[w := Busy (plNext s)], plStarted := plStarted s @ [plNext s]\<rparr>)"
| leave: "w < length (plWorkers s) \<Longrightarrow> plWorkers s ! w = Idle \<Longrightarrow> length items \<le> plNext s \<Longrightarrow>
     mapPool_step items worker s (s\<lparr>plNext := plNext s + 1, plWorkers := (plWorkers s)[w := Finished]\<rparr>)"
| store: "w < length (plWorkers s) \<Longrightarrow> plWorkers s ! w = Busy i \<Longrightarrow>
     mapPool_step items worker s
       (s\<lparr>plWorkers := (plWorkers s)[w := Idle], plOut := (plOut s)[i := Some (worker (items ! i) i)]\<rparr>)"

inductive_cases mapPool_stepE: "mapPool_step items worker s s'"

text \<open>\<open>Promise.all\<close> is done when every loop has returned.\<close>

definition pool_done :: "'r pool \<Rightarrow> bool" where
  "pool_done s \<longleftrightarrow> list_all (\<lambda>w. w = Finished) (plWorkers s)"

section \<open>Invariant\<close>

definition busy_at :: "'r pool \<Rightarrow> nat \<Rightarrow> bool" where
  "busy_at s i \<longleftrightarrow> (\<exists>w < length (plWorkers s). plWorkers s ! w = Busy i)"

definition left_one :: "'r pool \<Rightarrow> bool" where
  "left_one s \<longleftrightarrow> (\<exists>w < length (plWorkers s). plWorkers s ! w = Finished)"

definition pool_inv :: "'a list \<Rightarrow> ('a \<Rightarrow> nat \<Rightarrow> 'r) \<Rightarrow> nat \<Rightarrow> 'r pool \<Rightarrow> bool" where
  "pool_inv items worker n s \<longleftrightarrow>
     length (plOut s) = length items \<and> length (plWorkers s) = n
     \<and> plStarted s = [0..<min (plNext s) (length items)]
     \<and> (\<forall>i < length items. i < plNext s \<longrightarrow> busy_at s i \<or> plOut s ! i = Some (worker (items ! i) i))
     \<and> (\<forall>i. busy_at s i \<longrightarrow> i < length items \<and> i < plNext s)
     \<and> (left_one s \<longrightarrow> length items \<le> plNext s)"

lemma pool_inv_init: "pool_inv items worker (pool_workers items concurrency) (pool_init items concurrency)"
  by (auto simp: pool_inv_def pool_init_def busy_at_def left_one_def split: if_splits)

lemma update_iff:
  "w < length ws \<Longrightarrow> (\<exists>v < length ws. ws[w := x] ! v = y) \<longleftrightarrow> x = y \<or> (\<exists>v < length ws. v \<noteq> w \<and> ws ! v = y)"
  by (auto simp: nth_list_update)

lemma pool_inv_step:
  assumes "pool_inv items worker n s" "mapPool_step items worker s s'"
  shows "pool_inv items worker n s'"
  using assms(2,1)
proof cases
  case (take_item w)
  then have "busy_at s' i \<longleftrightarrow> i = plNext s \<or> busy_at s i" "left_one s' \<longrightarrow> left_one s" for i
    by (auto simp: busy_at_def left_one_def update_iff)
  with take_item assms(1) show ?thesis
    by (auto simp: pool_inv_def min_def less_Suc_eq)
next
  case (leave w)
  then have "busy_at s' i \<longleftrightarrow> busy_at s i" for i by (auto simp: busy_at_def update_iff)
  with leave assms(1) show ?thesis by (auto simp: pool_inv_def min_def)
next
  case (store w i)
  then have b: "busy_at s' j \<Longrightarrow> busy_at s j" and k: "busy_at s j \<Longrightarrow> j \<noteq> i \<Longrightarrow> busy_at s' j"
    and i: "busy_at s i" and l: "left_one s' \<longrightarrow> left_one s" for j
    by (auto simp: busy_at_def left_one_def update_iff)
  from store have f: "plNext s' = plNext s" "plStarted s' = plStarted s" "length (plWorkers s') = length (plWorkers s)"
    "plOut s' = (plOut s)[i := Some (worker (items ! i) i)]" by simp_all
  from assms(1) i l show ?thesis
    unfolding pool_inv_def f by (auto simp: nth_list_update dest: b intro: k)
qed

lemma pool_inv_run: "(mapPool_step items worker)\<^sup>*\<^sup>* s s' \<Longrightarrow> pool_inv items worker n s \<Longrightarrow> pool_inv items worker n s'"
  by (induction rule: rtranclp_induct) (auto intro: pool_inv_step)

section \<open>Progress\<close>

text \<open>Every index is two steps, taking and storing; every worker one more, leaving.\<close>

definition worker_cost :: "pool_worker \<Rightarrow> nat" where
  "worker_cost w = (case w of Idle \<Rightarrow> 1 | Busy i \<Rightarrow> 2 | Finished \<Rightarrow> 0)"

definition pool_measure :: "'a list \<Rightarrow> 'r pool \<Rightarrow> nat" where
  "pool_measure items s = 2 * (length items - plNext s) + sum_list (map worker_cost (plWorkers s))"

lemma cost_update:
  "w < length ws \<Longrightarrow> sum_list (map worker_cost (ws[w := x])) + worker_cost (ws ! w) = sum_list (map worker_cost ws) + worker_cost x"
  by (induction ws arbitrary: w) (auto split: nat.split)

lemma pool_step_measure: "mapPool_step items worker s s' \<Longrightarrow> pool_measure items s' + 1 = pool_measure items s"
proof (induction rule: mapPool_step.induct)
  case (take_item w s)
  with cost_update [of w "plWorkers s" "Busy (plNext s)"] show ?case by (auto simp: pool_measure_def worker_cost_def)
next
  case (leave w s)
  with cost_update [of w "plWorkers s" Finished] show ?case by (auto simp: pool_measure_def worker_cost_def)
next
  case (store w s i)
  with cost_update [of w "plWorkers s" Idle] show ?case by (auto simp: pool_measure_def worker_cost_def)
qed

lemma pool_steps_measure: "(mapPool_step items worker ^^ k) s s' \<Longrightarrow> pool_measure items s' + k = pool_measure items s"
  by (induction k arbitrary: s') (fastforce dest: pool_step_measure)+

lemma pool_not_stuck: "\<not> pool_done s \<Longrightarrow> \<exists>s'. mapPool_step items worker s s'"
proof -
  assume "\<not> pool_done s"
  then obtain w where w: "w < length (plWorkers s)" "plWorkers s ! w \<noteq> Finished"
    by (auto simp: pool_done_def list_all_length)
  then show ?thesis
    using mapPool_step.intros(1,2) [of w s items worker] mapPool_step.intros(3) [of w s _ items worker]
    by (cases "plWorkers s ! w"; cases "plNext s < length items") (auto simp: not_less)
qed

lemma pool_done_stuck: "pool_done s \<Longrightarrow> \<not> mapPool_step items worker s s'"
  by (auto simp: pool_done_def list_all_length elim!: mapPool_stepE)

lemma pool_finish: "\<exists>s'. (mapPool_step items worker)\<^sup>*\<^sup>* s s' \<and> pool_done s'"
proof (induction "pool_measure items s" arbitrary: s rule: less_induct)
  case less
  show ?case
  proof (cases "pool_done s")
    case False
    then obtain s1 where "mapPool_step items worker s s1" using pool_not_stuck by blast
    moreover with less [of s1] pool_step_measure [OF this] show ?thesis
      by (auto intro: converse_rtranclp_into_rtranclp)
  qed auto
qed

text \<open>
  The pool is a parallel \<open>map\<close>: from every state that a run reaches it can be finished, every
  finished run has taken exactly two steps per item and one per worker, and its output is the
  worker's result for every item, in the order of the items, with each item started exactly once.
\<close>

theorem mapPool_maps:
  assumes run: "(mapPool_step items worker ^^ k) (pool_init items concurrency) s"
  shows "(\<exists>s'. (mapPool_step items worker)\<^sup>*\<^sup>* s s' \<and> pool_done s')
    \<and> (if pool_done s
       then plOut s = map (\<lambda>i. Some (worker (items ! i) i)) [0..<length items] \<and> plStarted s = [0..<length items]
            \<and> k = 2 * length items + pool_workers items concurrency
       else k < 2 * length items + pool_workers items concurrency)"
proof -
  have inv: "pool_inv items worker (pool_workers items concurrency) s"
    by (rule pool_inv_run [OF _ pool_inv_init]) (use run in \<open>simp add: relpowp_imp_rtranclp\<close>)
  have steps: "pool_measure items s + k = 2 * length items + pool_workers items concurrency"
    using pool_steps_measure [OF run] by (simp add: pool_measure_def pool_init_def worker_cost_def sum_list_replicate)
  show ?thesis
  proof (cases "pool_done s")
    case True
    then have idle: "\<not> busy_at s i" for i by (auto simp: pool_done_def busy_at_def list_all_length)
    have next': "length items \<le> plNext s"
    proof (cases "items = []")
      case False
      then have "0 < pool_workers items concurrency" by (simp add: pool_workers_def pool_limit_def)
      with inv True show ?thesis by (auto simp: pool_inv_def pool_done_def left_one_def list_all_length)
    qed simp
    have "map worker_cost (plWorkers s) = replicate (length (plWorkers s)) 0"
      using True by (auto simp: pool_done_def list_all_length worker_cost_def intro!: nth_equalityI)
    then have cost: "sum_list (map worker_cost (plWorkers s)) = 0" by (simp add: sum_list_replicate)
    have "plOut s = map (\<lambda>i. Some (worker (items ! i) i)) [0..<length items]"
      using inv idle next' by (auto simp: pool_inv_def intro!: nth_equalityI)
    moreover have "k = 2 * length items + pool_workers items concurrency"
      using steps next' by (simp add: pool_measure_def cost)
    ultimately show ?thesis using inv next' True pool_finish [of items worker s] by (simp add: pool_inv_def)
  next
    case False
    then obtain s1 where "mapPool_step items worker s s1" using pool_not_stuck by blast
    from pool_step_measure [OF this] steps False pool_finish [of items worker s] show ?thesis by simp
  qed
qed

theorem mapPool_maps_witness:
  "\<exists>s. (mapPool_step [7 :: nat] (\<lambda>x i. x + i) ^^ 3) (pool_init [7 :: nat] 2) s \<and> plOut s = [Some 7]"
proof -
  let ?w = "\<lambda>x i :: nat. x + i"
  let ?s0 = "\<lparr>plNext = 0, plWorkers = [Idle], plOut = [None], plStarted = []\<rparr> :: nat pool"
  have i: "pool_init [7 :: nat] 2 = ?s0" by (simp add: pool_init_def pool_workers_def pool_limit_def)
  have "mapPool_step [7] ?w ?s0 \<lparr>plNext = 1, plWorkers = [Busy 0], plOut = [None], plStarted = [0]\<rparr>"
    using mapPool_step.take_item [of 0 ?s0 "[7]" ?w] by simp
  moreover have "mapPool_step [7] ?w \<lparr>plNext = 1, plWorkers = [Busy 0], plOut = [None], plStarted = [0]\<rparr>
      \<lparr>plNext = 1, plWorkers = [Idle], plOut = [Some 7], plStarted = [0]\<rparr>"
    using mapPool_step.store [of 0 "\<lparr>plNext = 1, plWorkers = [Busy 0], plOut = [None], plStarted = [0]\<rparr>" 0 "[7]" ?w] by simp
  moreover have "mapPool_step [7] ?w \<lparr>plNext = 1, plWorkers = [Idle], plOut = [Some 7], plStarted = [0]\<rparr>
      \<lparr>plNext = Suc 1, plWorkers = [Finished], plOut = [Some 7], plStarted = [0]\<rparr>"
    using mapPool_step.leave [of 0 "\<lparr>plNext = 1, plWorkers = [Idle], plOut = [Some 7], plStarted = [0]\<rparr>" "[7]" ?w] by simp
  ultimately have run: "(mapPool_step [7 :: nat] ?w ^^ 3) (pool_init [7 :: nat] 2)
      \<lparr>plNext = Suc 1, plWorkers = [Finished], plOut = [Some 7], plStarted = [0]\<rparr>"
    unfolding i numeral_3_eq_3 by (simp only: relpowp.simps relcompp_apply) blast
  from mapPool_maps [OF run] run show ?thesis by (auto simp: pool_done_def)
qed

end
