(* ===== verification/RestoreJobs.thy ===== *)
theory RestoreJobs imports DiskWatch begin

text \<open>
  Backup restores in the background: \<^verbatim>\<open>server/services/restore-jobs.ts\<close>.  The module keeps a map of
  jobs and writes it to the settings table after every change.  Its surroundings are an
  environment: whether the n-th write succeeds, what each call of \<open>restoreBackup\<close> answers, and how
  the wait for a task ends.  A run is modelled from start to end; other runs only touch their own
  entry of the map.
\<close>

datatype job_phase = Stopping | Running | Failed

record restore_job =
  rjId :: string
  rjUserId :: string
  rjHostId :: string
  rjHostName :: string
  rjNode :: string
  rjVolid :: string
  rjVmid :: int
  rjStorage :: string
  rjForce :: "bool option"
  rjStartAfter :: "bool option"
  rjName :: "string option"
  rjPhase :: job_phase
  rjUpid :: "string option"
  rjError :: "string option"
  rjAttempt :: int
  rjStartedAt :: int
  rjErrorAt :: "int option"

record restore_state =
  rsJobs :: "(string \<times> restore_job) list"
  rsStored :: js
  rsWrites :: nat
  rsCalls :: "(string \<times> int \<times> bool) list"
  rsNotes :: "(string \<times> bool) list"
  rsTimers :: "string list"

text \<open>\<open>reRestore\<close> takes the job and \<open>forceStop\<close>; a thrown error is its message.\<close>

record restore_env =
  reDbOk :: "nat \<Rightarrow> bool"
  reRestore :: "restore_job \<Rightarrow> bool \<Rightarrow> string + string option \<times> string option"
  reWait :: "string \<Rightarrow> string + unit"
  reNow :: int

section \<open>Storing and reading jobs\<close>

definition job_phase_str :: "job_phase \<Rightarrow> string" where
  "job_phase_str p = (case p of Stopping \<Rightarrow> ''stopping'' | Running \<Rightarrow> ''running'' | Failed \<Rightarrow> ''error'')"

definition opt_js :: "('a \<Rightarrow> js) \<Rightarrow> 'a option \<Rightarrow> js" where
  "opt_js f x = (case x of None \<Rightarrow> JUndef | Some v \<Rightarrow> f v)"

definition storedJob :: "restore_job \<Rightarrow> js_record" where
  "storedJob j =
     [(''id'', JStr (rjId j)), (''userId'', JStr (rjUserId j)), (''hostId'', JStr (rjHostId j)),
      (''hostName'', JStr (rjHostName j)), (''node'', JStr (rjNode j)), (''volid'', JStr (rjVolid j)),
      (''vmid'', JNum (of_int_num (rjVmid j))), (''storage'', JStr (rjStorage j)), (''force'', opt_js JBool (rjForce j)),
      (''startAfter'', opt_js JBool (rjStartAfter j)), (''name'', opt_js JStr (rjName j)),
      (''phase'', JStr (job_phase_str (rjPhase j))), (''upid'', opt_js JStr (rjUpid j)), (''error'', opt_js JStr (rjError j)),
      (''attempt'', JNum (of_int_num (rjAttempt j))), (''startedAt'', JNum (of_int_num (rjStartedAt j))),
      (''errorAt'', opt_js (\<lambda>t. JNum (of_int_num t)) (rjErrorAt j))]"

text \<open>The fields are read as the strings, flags and numbers that \<open>storedJob\<close> writes.\<close>

definition bool_field :: "js_record \<Rightarrow> string \<Rightarrow> bool option" where
  "bool_field r k = (case get_prop r k of JBool b \<Rightarrow> Some b | _ \<Rightarrow> None)"

definition int_field :: "js_record \<Rightarrow> string \<Rightarrow> int option" where
  "int_field r k = (case get_prop r k of JNum n \<Rightarrow> Some (num_int n) | _ \<Rightarrow> None)"

definition phase_of :: "string option \<Rightarrow> job_phase option" where
  "phase_of s =
     (if s = Some ''stopping'' then Some Stopping else if s = Some ''running'' then Some Running
      else if s = Some ''error'' then Some Failed else None)"

definition parse_job :: "int \<Rightarrow> js \<Rightarrow> restore_job list" where
  "parse_job now row =
     (case item_record row of None \<Rightarrow> []
      | Some job \<Rightarrow>
         (if list_ex (\<lambda>k. \<not> truthy (str_field job k)) [''id'', ''userId'', ''hostId'', ''node'', ''volid'', ''storage''] then []
          else (case (phase_of (str_field job ''phase''), int_field job ''vmid'') of
             (Some phase, Some vmid) \<Rightarrow>
               [\<lparr>rjId = the (str_field job ''id''), rjUserId = the (str_field job ''userId''),
                 rjHostId = the (str_field job ''hostId''),
                 rjHostName = (case str_field job ''hostName'' of None \<Rightarrow> [] | Some s \<Rightarrow> s),
                 rjNode = the (str_field job ''node''), rjVolid = the (str_field job ''volid''), rjVmid = vmid,
                 rjStorage = the (str_field job ''storage''), rjForce = bool_field job ''force'',
                 rjStartAfter = bool_field job ''startAfter'', rjName = str_field job ''name'', rjPhase = phase,
                 rjUpid = str_field job ''upid'', rjError = str_field job ''error'',
                 rjAttempt = (case int_field job ''attempt'' of None \<Rightarrow> 1 | Some n \<Rightarrow> n),
                 rjStartedAt = (case int_field job ''startedAt'' of None \<Rightarrow> now | Some n \<Rightarrow> n),
                 rjErrorAt = int_field job ''errorAt''\<rparr>]
           | _ \<Rightarrow> [])))"

definition parseStored :: "int \<Rightarrow> js \<Rightarrow> restore_job list" where
  "parseStored now v = (case v of JArr rows \<Rightarrow> concat (map (parse_job now) rows) | _ \<Rightarrow> [])"

section \<open>Operations\<close>

text \<open>The write of the whole map; \<open>False\<close> when the database refuses it.\<close>

definition persistJobs :: "restore_env \<Rightarrow> restore_state \<Rightarrow> bool \<times> restore_state" where
  "persistJobs env st =
     (if reDbOk env (rsWrites st)
      then (True, st\<lparr>rsWrites := rsWrites st + 1, rsStored := JArr (map (\<lambda>(_, j). JObj (storedJob j)) (rsJobs st))\<rparr>)
      else (False, st\<lparr>rsWrites := rsWrites st + 1\<rparr>))"

definition set_job :: "string \<Rightarrow> (restore_job \<Rightarrow> restore_job) \<Rightarrow> restore_state \<Rightarrow> restore_state" where
  "set_job i f st = st\<lparr>rsJobs := map (\<lambda>(k, j). (k, if k = i then f j else j)) (rsJobs st)\<rparr>"

record job_view =
  jvPhase :: job_phase
  jvUpid :: "string option"
  jvError :: "string option"

definition getRestoreJob :: "string \<Rightarrow> string \<Rightarrow> restore_state \<Rightarrow> job_view option" where
  "getRestoreJob hostId i st =
     (case map_of (rsJobs st) i of None \<Rightarrow> None
      | Some job \<Rightarrow>
          if rjHostId job \<noteq> hostId then None
          else Some \<lparr>jvPhase = rjPhase job, jvUpid = rjUpid job, jvError = rjError job\<rparr>)"

definition fresh_job :: "string \<Rightarrow> int \<Rightarrow> restore_job \<Rightarrow> restore_job" where
  "fresh_job i now input =
     input\<lparr>rjId := i, rjPhase := Stopping, rjUpid := None, rjError := None, rjAttempt := 1, rjStartedAt := now, rjErrorAt := None\<rparr>"

definition isUpidText :: "string \<Rightarrow> bool" where
  "isUpidText v \<longleftrightarrow> str_includes v ''UPID:''"

definition notify_restore :: "restore_job \<Rightarrow> bool \<Rightarrow> restore_state \<Rightarrow> restore_state" where
  "notify_restore job ok st = st\<lparr>rsNotes := rsNotes st @ [(rjId job, ok)]\<rparr>"

text \<open>
  The loop over the attempts: \<open>Inl\<close> is a thrown error, \<open>Inr None\<close> means that no attempt started the
  restore.  From the 18th attempt on the guest is stopped by force.
\<close>

function restore_attempts :: "restore_env \<Rightarrow> string \<Rightarrow> int \<Rightarrow> restore_state \<Rightarrow> (string + string option) \<times> restore_state" where
  "restore_attempts env i attempt st0 =
     (if 50 < attempt then (Inr None, st0)
      else
        (case persistJobs env (set_job i (rjAttempt_update (\<lambda>_. attempt)) st0) of
           (False, st) \<Rightarrow> (Inl ''persist'', st)
         | (True, st) \<Rightarrow>
             (case map_of (rsJobs st) i of None \<Rightarrow> (Inl ''gone'', st)
              | Some job \<Rightarrow>
                (let st1 = st\<lparr>rsCalls := rsCalls st @ [(i, attempt, 18 \<le> attempt)]\<rparr> in
                 case reRestore env job (18 \<le> attempt) of
                   Inl e \<Rightarrow> (Inl e, st1)
                 | Inr (upid, phase) \<Rightarrow>
                     if truthy upid
                     then (case persistJobs env (set_job i (\<lambda>j. j\<lparr>rjUpid := upid, rjPhase := Running\<rparr>) st1) of
                             (False, st2) \<Rightarrow> (Inl ''persist'', st2)
                           | (True, st2) \<Rightarrow> (Inr upid, st2))
                     else if phase \<noteq> Some ''stopping''
                     then (Inl ''Wiederherstellung konnte nicht gestartet werden'', st1)
                     else restore_attempts env i (attempt + 1) st1))))"
  by pat_completeness auto

termination by (relation "measure (\<lambda>(env, i, attempt, st). nat (51 - attempt))") auto

declare restore_attempts.simps [simp del]

text \<open>The \<open>catch\<close> of a run.\<close>

definition restore_failed :: "restore_env \<Rightarrow> string \<Rightarrow> string \<Rightarrow> restore_state \<Rightarrow> restore_state" where
  "restore_failed env i message st =
     (case map_of (rsJobs st) i of None \<Rightarrow> st
      | Some current \<Rightarrow>
          (let st1 = set_job i (\<lambda>j. j\<lparr>rjPhase := Failed, rjError := Some message, rjErrorAt := Some (reNow env)\<rparr>) st;
               st2 = snd (persistJobs env st1)
           in notify_restore current False (st2\<lparr>rsTimers := rsTimers st2 @ [i]\<rparr>)))"

text \<open>The end of a restore that ran: the entry goes, unless its removal cannot be saved.\<close>

definition restore_finished :: "restore_env \<Rightarrow> string \<Rightarrow> restore_job \<Rightarrow> restore_state \<Rightarrow> restore_state" where
  "restore_finished env i job st =
     (case persistJobs env (st\<lparr>rsJobs := AList.delete i (rsJobs st)\<rparr>) of
        (False, st1) \<Rightarrow> st1\<lparr>rsJobs := AList.update i job (rsJobs st1)\<rparr>
      | (True, st1) \<Rightarrow> notify_restore job True st1)"

definition runRestoreJob :: "restore_env \<Rightarrow> string \<Rightarrow> restore_state \<Rightarrow> restore_state" where
  "runRestoreJob env i st =
     (case map_of (rsJobs st) i of None \<Rightarrow> st
      | Some job \<Rightarrow>
          (case (if truthy (rjUpid job) then (Inr (rjUpid job), st) else restore_attempts env i (rjAttempt job) st) of
             (Inl e, st1) \<Rightarrow> restore_failed env i e st1
           | (Inr None, st1) \<Rightarrow>
               restore_failed env i (''Gast l'' @ [CHR 0xE4] @ ''uft noch und konnte nicht heruntergefahren werden'') st1
           | (Inr (Some upid), st1) \<Rightarrow>
               (case persistJobs env (set_job i (\<lambda>j. j\<lparr>rjUpid := Some upid, rjPhase := Running\<rparr>) st1) of
                  (False, st2) \<Rightarrow> restore_failed env i ''persist'' st2
                | (True, st2) \<Rightarrow>
                    (case (if isUpidText upid then reWait env upid else Inr ()) of
                       Inl e \<Rightarrow> restore_failed env i e st2
                     | Inr _ \<Rightarrow>
                         (case map_of (rsJobs st2) i of None \<Rightarrow> st2
                          | Some done' \<Rightarrow> restore_finished env i done' st2)))))"

text \<open>The run itself is started right after the write.\<close>

definition enqueueRestoreJob :: "restore_env \<Rightarrow> string \<Rightarrow> restore_job \<Rightarrow> restore_state \<Rightarrow> restore_state" where
  "enqueueRestoreJob env i input st =
     runRestoreJob env i
       (snd (persistJobs env (st\<lparr>rsJobs := AList.update i (fresh_job i (reNow env) input) (rsJobs st)\<rparr>)))"

text \<open>A timer of \<open>forgetRestoreJob\<close> fires.\<close>

definition forget_fires :: "restore_env \<Rightarrow> string \<Rightarrow> restore_state \<Rightarrow> restore_state" where
  "forget_fires env i st =
     (case map_of (rsJobs st) i of None \<Rightarrow> st
      | Some job \<Rightarrow>
          if rjPhase job \<noteq> Failed then st
          else snd (persistJobs env (st\<lparr>rsJobs := AList.delete i (rsJobs st)\<rparr>)))"

definition ERROR_TTL_MS :: int where
  "ERROR_TTL_MS = 15 * 60 * 1000"

text \<open>The start-up loop; \<open>user_exists\<close> is \<open>loadSessionUser\<close>, and the ids to run come second.\<close>

fun resume_loop :: "int \<Rightarrow> (string \<Rightarrow> bool) \<Rightarrow> restore_job list \<Rightarrow> (string \<times> restore_job) list \<Rightarrow>
  (string \<times> restore_job) list \<times> string list" where
  "resume_loop now user_exists [] jobs = (jobs, [])"
| "resume_loop now user_exists (job # rest) jobs =
     (if map_of jobs (rjId job) \<noteq> None then resume_loop now user_exists rest jobs
      else if rjPhase job = Failed \<and>
              ERROR_TTL_MS < now - (case rjErrorAt job of None \<Rightarrow> rjStartedAt job | Some t \<Rightarrow> t)
      then resume_loop now user_exists rest jobs
      else if rjPhase job = Failed then resume_loop now user_exists rest (AList.update (rjId job) job jobs)
      else if \<not> user_exists (rjUserId job)
      then resume_loop now user_exists rest (AList.update (rjId job)
             (job\<lparr>rjPhase := Failed, rjError := Some ''Restore-Benutzer nicht mehr vorhanden'', rjErrorAt := Some now\<rparr>) jobs)
      else (case resume_loop now user_exists rest (AList.update (rjId job) job jobs) of
              (jobs', runs) \<Rightarrow> (jobs', rjId job # runs)))"

definition resumeRestoreJobs :: "restore_env \<Rightarrow> (string \<Rightarrow> bool) \<Rightarrow> restore_state \<Rightarrow> restore_state" where
  "resumeRestoreJobs env user_exists st =
     (case resume_loop (reNow env) user_exists (parseStored (reNow env) (rsStored st)) (rsJobs st) of
        (jobs, runs) \<Rightarrow> fold (runRestoreJob env) runs (snd (persistJobs env (st\<lparr>rsJobs := jobs\<rparr>))))"

section \<open>Lemmas\<close>

lemma map_of_set_job:
  "map_of (rsJobs (set_job i f st)) k = (if k = i then map_option f (map_of (rsJobs st) i) else map_of (rsJobs st) k)"
proof -
  have "map_of (map (\<lambda>(k, j). (k, if k = i then f j else j)) js) k
      = (if k = i then map_option f (map_of js i) else map_of js k)" for js
    by (induction js) auto
  then show ?thesis by (simp add: set_job_def)
qed

lemma set_job_fields [simp]:
  "rsCalls (set_job i f st) = rsCalls st" "rsNotes (set_job i f st) = rsNotes st" "rsTimers (set_job i f st) = rsTimers st"
  "rsWrites (set_job i f st) = rsWrites st"
  by (simp_all add: set_job_def)

lemma persist_fields [simp]:
  "rsJobs (snd (persistJobs env st)) = rsJobs st" "rsCalls (snd (persistJobs env st)) = rsCalls st"
  "rsNotes (snd (persistJobs env st)) = rsNotes st" "rsTimers (snd (persistJobs env st)) = rsTimers st"
  by (simp_all add: persistJobs_def)

lemma persist_result:
  "persistJobs env st = (ok, st') \<Longrightarrow>
     rsJobs st' = rsJobs st \<and> rsCalls st' = rsCalls st \<and> rsNotes st' = rsNotes st \<and> rsTimers st' = rsTimers st
     \<and> ok = reDbOk env (rsWrites st) \<and> rsWrites st' = rsWrites st + 1
     \<and> (ok \<longrightarrow> rsStored st' = JArr (map (\<lambda>(_, j). JObj (storedJob j)) (rsJobs st)))"
  by (auto simp: persistJobs_def split: if_splits)

text \<open>What a part of the run of job \<open>i\<close> leaves alone: other jobs, notices and timers.\<close>

definition quiet_for :: "string \<Rightarrow> restore_state \<Rightarrow> restore_state \<Rightarrow> bool" where
  "quiet_for i st st' \<longleftrightarrow>
     (\<forall>k. k \<noteq> i \<longrightarrow> map_of (rsJobs st') k = map_of (rsJobs st) k)
     \<and> (\<exists>j j'. map_of (rsJobs st) i = Some j \<and> map_of (rsJobs st') i = Some j' \<and> rjId j' = rjId j)
     \<and> rsNotes st' = rsNotes st \<and> rsTimers st' = rsTimers st"

lemma quiet_refl: "map_of (rsJobs st) i = Some j \<Longrightarrow> quiet_for i st st"
  by (simp add: quiet_for_def)

lemma quiet_trans: "quiet_for i st st1 \<Longrightarrow> quiet_for i st1 st2 \<Longrightarrow> quiet_for i st st2"
  by (auto simp: quiet_for_def)

lemma quiet_persist: "persistJobs env st = (ok, st') \<Longrightarrow> quiet_for i st0 st \<Longrightarrow> quiet_for i st0 st'"
  by (auto simp: quiet_for_def dest!: persist_result)

lemma quiet_set: "quiet_for i st0 st \<Longrightarrow> (\<And>j. rjId (f j) = rjId j) \<Longrightarrow> quiet_for i st0 (set_job i f st)"
  by (auto simp: quiet_for_def map_of_set_job)

lemma quiet_call: "quiet_for i st0 st \<Longrightarrow> quiet_for i st0 (st\<lparr>rsCalls := cs\<rparr>)"
  by (simp add: quiet_for_def)

definition calls_from :: "string \<Rightarrow> int \<Rightarrow> int \<Rightarrow> (string \<times> int \<times> bool) list" where
  "calls_from i a b = map (\<lambda>n. (i, n, 18 \<le> n)) [a..b]"

lemma calls_from_Cons: "a \<le> b \<Longrightarrow> calls_from i a b = (i, a, 18 \<le> a) # calls_from i (a + 1) b"
  by (simp add: calls_from_def upto_rec1)

lemma calls_from_empty: "calls_from i a (a - 1) = []"
  by (simp add: calls_from_def)

text \<open>The loop of attempts: it calls the attempts in order, at most up to the 50th.\<close>

lemma attempts_effect:
  "restore_attempts env i a st = (r, st') \<Longrightarrow> map_of (rsJobs st) i = Some j \<Longrightarrow>
     quiet_for i st st' \<and> (\<forall>u. r = Inr (Some u) \<longrightarrow> u \<noteq> [])
     \<and> (\<exists>b. b \<le> max 50 (a - 1) \<and> rsCalls st' = rsCalls st @ calls_from i a b)"
proof (induction env i a st arbitrary: j rule: restore_attempts.induct)
  case (1 env i a st0)
  show ?case
  proof (cases "50 < a")
    case True
    with 1(2,3) show ?thesis
      by (auto simp: restore_attempts.simps [of env i a] quiet_refl intro!: exI [of _ "a - 1"] simp: calls_from_empty)
  next
    case False
    let ?s0 = "set_job i (rjAttempt_update (\<lambda>_. a)) st0"
    obtain ok st where p: "persistJobs env ?s0 = (ok, st)" by fastforce
    have q: "quiet_for i st0 st" using quiet_persist [OF p] quiet_set [OF quiet_refl [OF 1(3)]] by simp
    have none: "\<exists>b. b \<le> max 50 (a - 1) \<and> rsCalls st0 = rsCalls st0 @ calls_from i a b"
      by (intro exI [of _ "a - 1"]) (simp add: calls_from_empty)
    have one: "\<exists>b. b \<le> max 50 (a - 1) \<and> rsCalls st0 @ [(i, a, 18 \<le> a)] = rsCalls st0 @ calls_from i a b"
      using False by (intro exI [of _ a]) (simp add: calls_from_def)
    have c: "rsCalls st = rsCalls st0" using persist_result [OF p] by simp
    show ?thesis
    proof (cases ok)
      case False
      with 1(2) p \<open>\<not> 50 < a\<close> q c none show ?thesis by (auto simp: restore_attempts.simps [of env i a])
    next
      case True
      obtain job where job: "map_of (rsJobs st) i = Some job" using q by (auto simp: quiet_for_def)
      let ?st1 = "st\<lparr>rsCalls := rsCalls st @ [(i, a, 18 \<le> a)]\<rparr>"
      have q1: "quiet_for i st0 ?st1" by (rule quiet_call [OF q])
      note step = restore_attempts.simps [of env i a st0, unfolded p, simplified] True job \<open>\<not> 50 < a\<close>
      show ?thesis
      proof (cases "reRestore env job (18 \<le> a)")
        case (Inl e)
        with 1(2) q1 c one show ?thesis by (auto simp: step)
      next
        case (Inr up)
        obtain upid phase where up: "up = (upid, phase)" by (cases up)
        show ?thesis
        proof (cases "truthy upid")
          case upid: True
          obtain ok2 st2 where p2: "persistJobs env (set_job i (\<lambda>j. j\<lparr>rjUpid := upid, rjPhase := Running\<rparr>) ?st1) = (ok2, st2)"
            by fastforce
          have "quiet_for i st0 st2" using quiet_persist [OF p2 quiet_set [OF q1]] by simp
          moreover have "rsCalls st2 = rsCalls st0 @ [(i, a, 18 \<le> a)]" using persist_result [OF p2] c by simp
          ultimately show ?thesis
            using 1(2) Inr up upid p2 one by (auto simp: step truthy_def split: bool.splits)
        next
          case no_upid: False
          show ?thesis
          proof (cases "phase = Some ''stopping''")
            case False
            with 1(2) Inr up no_upid q1 c one show ?thesis by (auto simp: step)
          next
            case again: True
            have run: "restore_attempts env i (a + 1) ?st1 = (r, st')"
              using 1(2) Inr up no_upid again by (simp add: step)
            have "quiet_for i ?st1 st' \<and> (\<forall>u. r = Inr (Some u) \<longrightarrow> u \<noteq> [])
              \<and> (\<exists>b. b \<le> max 50 (a + 1 - 1) \<and> rsCalls st' = rsCalls ?st1 @ calls_from i (a + 1) b)"
              using 1(1) [OF \<open>\<not> 50 < a\<close> p [symmetric] _ job refl Inr, of upid phase] run True up no_upid again job by simp
            then obtain b where b: "quiet_for i ?st1 st'" "\<forall>u. r = Inr (Some u) \<longrightarrow> u \<noteq> []" "b \<le> 50"
              "rsCalls st' = rsCalls ?st1 @ calls_from i (a + 1) b" using False by auto
            show ?thesis
            proof (cases "a \<le> b")
              case True
              with b c quiet_trans [OF q1 b(1)] show ?thesis by (auto simp: calls_from_Cons intro!: exI [of _ b])
            next
              case False
              with b c quiet_trans [OF q1 b(1)] one show ?thesis by (auto simp: calls_from_def)
            qed
          qed
        qed
      qed
    qed
  qed
qed

text \<open>The three ends of a run: restored and gone, failed, or finished with its entry kept.\<close>

definition run_outcome :: "restore_env \<Rightarrow> string \<Rightarrow> string \<Rightarrow> restore_state \<Rightarrow> restore_state \<Rightarrow> bool" where
  "run_outcome env i name st st' \<longleftrightarrow>
     (map_of (rsJobs st') i = None \<and> rsNotes st' = rsNotes st @ [(name, True)] \<and> rsTimers st' = rsTimers st
        \<and> rsStored st' = JArr (map (\<lambda>(_, j). JObj (storedJob j)) (rsJobs st')))
     \<or> (\<exists>j. map_of (rsJobs st') i = Some j \<and> rjPhase j = Failed \<and> rjError j \<noteq> None \<and> rjErrorAt j = Some (reNow env)
        \<and> rsNotes st' = rsNotes st @ [(name, False)] \<and> rsTimers st' = rsTimers st @ [i])
     \<or> (\<exists>j. map_of (rsJobs st') i = Some j \<and> rjPhase j = Running \<and> truthy (rjUpid j)
        \<and> rsNotes st' = rsNotes st \<and> rsTimers st' = rsTimers st \<and> \<not> reDbOk env (rsWrites st' - 1))"

lemma failed_outcome:
  assumes "quiet_for i st st1" "map_of (rsJobs st) i = Some job"
  shows "run_outcome env i (rjId job) st (restore_failed env i e st1)
    \<and> (\<forall>k. k \<noteq> i \<longrightarrow> map_of (rsJobs (restore_failed env i e st1)) k = map_of (rsJobs st) k)
    \<and> rsCalls (restore_failed env i e st1) = rsCalls st1"
proof -
  from assms obtain j where "map_of (rsJobs st1) i = Some j" "rjId j = rjId job" by (auto simp: quiet_for_def)
  with assms(1) show ?thesis
    by (auto simp: restore_failed_def run_outcome_def notify_restore_def Let_def map_of_set_job quiet_for_def)
qed

lemma finished_outcome:
  assumes "quiet_for i st st2" "map_of (rsJobs st) i = Some job" "map_of (rsJobs st2) i = Some j"
    and j: "rjPhase j = Running" "truthy (rjUpid j)"
  shows "run_outcome env i (rjId job) st (restore_finished env i j st2)
    \<and> (\<forall>k. k \<noteq> i \<longrightarrow> map_of (rsJobs (restore_finished env i j st2)) k = map_of (rsJobs st) k)
    \<and> rsCalls (restore_finished env i j st2) = rsCalls st2"
proof -
  obtain ok st3 where p: "persistJobs env (st2\<lparr>rsJobs := AList.delete i (rsJobs st2)\<rparr>) = (ok, st3)" by fastforce
  have same: "rjId j = rjId job" "\<And>k. k \<noteq> i \<Longrightarrow> map_of (rsJobs st2) k = map_of (rsJobs st) k"
    "rsNotes st2 = rsNotes st" "rsTimers st2 = rsTimers st"
    using assms(1-3) by (auto simp: quiet_for_def)
  show ?thesis
    using persist_result [OF p] same j
    by (cases ok) (auto simp: restore_finished_def p run_outcome_def notify_restore_def delete_conv' update_conv')
qed

text \<open>
  C14: A restore run always comes to an end it reports: either the guest was restored, the job is gone
  from the map and from the database and a success notice was sent, or the job shows its error, a
  failure notice was sent and its removal is scheduled; only when the database refuses the very
  last write does a finished job stay in the map without a notice.  No other job is touched, and
  the restore is asked for at most once per attempt up to the 50th, by force from the 18th on, and
  not at all for a job that already has its task.
\<close>

theorem restore_run_ends:
  assumes job: "map_of (rsJobs st) i = Some job"
  shows "run_outcome env i (rjId job) st (runRestoreJob env i st)
    \<and> (\<forall>k. k \<noteq> i \<longrightarrow> map_of (rsJobs (runRestoreJob env i st)) k = map_of (rsJobs st) k)
    \<and> (\<exists>b. b \<le> max 50 (rjAttempt job - 1) \<and>
          rsCalls (runRestoreJob env i st) = rsCalls st @ (if truthy (rjUpid job) then [] else calls_from i (rjAttempt job) b))"
proof -
  let ?start = "if truthy (rjUpid job) then (Inr (rjUpid job), st) else restore_attempts env i (rjAttempt job) st"
  obtain r st1 where start: "?start = (r, st1)" by fastforce
  have s: "quiet_for i st st1 \<and> (\<forall>u. r = Inr (Some u) \<longrightarrow> u \<noteq> [])
      \<and> (\<exists>b. b \<le> max 50 (rjAttempt job - 1) \<and>
          rsCalls st1 = rsCalls st @ (if truthy (rjUpid job) then [] else calls_from i (rjAttempt job) b))"
  proof (cases "truthy (rjUpid job)")
    case True
    with start quiet_refl [OF job] show ?thesis by (auto simp: truthy_def split: option.splits intro!: exI [of _ 50])
  next
    case False
    with start attempts_effect [OF _ job] show ?thesis by simp
  qed
  note run = runRestoreJob_def [of env i st, unfolded job start option.case prod.case]
  have failed: ?thesis if "runRestoreJob env i st = restore_failed env i e st2" "quiet_for i st st2" "rsCalls st2 = rsCalls st1"
    for e st2 using failed_outcome [OF that(2) job, of env e] s that by simp
  show ?thesis
  proof (cases r)
    case (Inl e)
    then show ?thesis using s by (intro failed [of e st1]) (simp_all add: run)
  next
    case (Inr u)
    show ?thesis
    proof (cases u)
      case None
      then show ?thesis using s Inr by (intro failed [of _ st1]) (simp_all add: run)
    next
      case (Some upid)
      obtain ok st2 where p: "persistJobs env (set_job i (\<lambda>j. j\<lparr>rjUpid := Some upid, rjPhase := Running\<rparr>) st1) = (ok, st2)"
        by fastforce
      have q: "quiet_for i st st2" using quiet_persist [OF p quiet_set] s by simp
      have c: "rsCalls st2 = rsCalls st1" using persist_result [OF p] by simp
      obtain j where j: "map_of (rsJobs st2) i = Some j" "rjPhase j = Running" "rjUpid j = Some upid"
        using persist_result [OF p] s by (auto simp: quiet_for_def map_of_set_job)
      have upid: "truthy (rjUpid j)" using s Inr Some j(3) by (simp add: truthy_def)
      show ?thesis
      proof (cases "ok \<and> (if isUpidText upid then reWait env upid else Inr ()) = Inr ()")
        case True
        then have "runRestoreJob env i st = restore_finished env i j st2" using Inr Some p j(1) by (simp add: run)
        then show ?thesis using finished_outcome [OF q job j(1,2) upid, of env] s c by simp
      next
        case False
        then obtain e where "runRestoreJob env i st = restore_failed env i e st2"
          using Inr Some p by (cases ok; cases "reWait env upid") (auto simp: run split: if_splits)
        then show ?thesis by (rule failed [OF _ q c])
      qed
    qed
  qed
qed

definition demo_job :: restore_job where
  "demo_job = \<lparr>rjId = ''r1'', rjUserId = ''u'', rjHostId = ''h'', rjHostName = ''pve'', rjNode = ''n'', rjVolid = ''l:v'', rjVmid = 101,
     rjStorage = ''local'', rjForce = Some True, rjStartAfter = None, rjName = None, rjPhase = Stopping, rjUpid = None,
     rjError = None, rjAttempt = 1, rjStartedAt = 0, rjErrorAt = None\<rparr>"

text \<open>A guest that only a forced stop ends.\<close>

definition demo_restore_env :: restore_env where
  "demo_restore_env = \<lparr>reDbOk = (\<lambda>n. True),
     reRestore = (\<lambda>job force. if force then Inr (Some ''UPID:1'', None) else Inr (None, Some ''stopping'')),
     reWait = (\<lambda>u. Inr ()), reNow = 5\<rparr>"

theorem restore_run_ends_witness:
  "run_outcome demo_restore_env ''r1'' ''r1''
     \<lparr>rsJobs = [(''r1'', demo_job)], rsStored = JNull, rsWrites = 0, rsCalls = [], rsNotes = [], rsTimers = []\<rparr>
     (runRestoreJob demo_restore_env ''r1''
       \<lparr>rsJobs = [(''r1'', demo_job)], rsStored = JNull, rsWrites = 0, rsCalls = [], rsNotes = [], rsTimers = []\<rparr>)"
  using restore_run_ends [of "\<lparr>rsJobs = [(''r1'', demo_job)], rsStored = JNull, rsWrites = 0, rsCalls = [], rsNotes = [], rsTimers = []\<rparr>"
      "''r1''" demo_job demo_restore_env] by (simp add: demo_job_def)

section \<open>Restarts\<close>

definition storable :: "restore_job \<Rightarrow> bool" where
  "storable j \<longleftrightarrow> rjId j \<noteq> [] \<and> rjUserId j \<noteq> [] \<and> rjHostId j \<noteq> [] \<and> rjNode j \<noteq> [] \<and> rjVolid j \<noteq> [] \<and> rjStorage j \<noteq> []"

lemma opt_js_cases [simp]:
  "(case opt_js JStr x of JStr s \<Rightarrow> Some s | _ \<Rightarrow> None) = x"
  "(case opt_js JBool y of JBool b \<Rightarrow> Some b | _ \<Rightarrow> None) = y"
  "(case opt_js (\<lambda>t. JNum (of_int_num t)) z of JNum n \<Rightarrow> Some (num_int n) | _ \<Rightarrow> None) = z"
  by (simp_all add: opt_js_def split: option.split)

lemma parse_stored_job: "storable j \<Longrightarrow> parse_job now (JObj (storedJob j)) = [j]"
proof -
  assume s: "storable j"
  have f: "str_field (storedJob j) ''id'' = Some (rjId j)" "str_field (storedJob j) ''userId'' = Some (rjUserId j)"
    "str_field (storedJob j) ''hostId'' = Some (rjHostId j)" "str_field (storedJob j) ''hostName'' = Some (rjHostName j)"
    "str_field (storedJob j) ''node'' = Some (rjNode j)" "str_field (storedJob j) ''volid'' = Some (rjVolid j)"
    "str_field (storedJob j) ''storage'' = Some (rjStorage j)" "str_field (storedJob j) ''name'' = rjName j"
    "str_field (storedJob j) ''upid'' = rjUpid j" "str_field (storedJob j) ''error'' = rjError j"
    "str_field (storedJob j) ''phase'' = Some (job_phase_str (rjPhase j))"
    "bool_field (storedJob j) ''force'' = rjForce j" "bool_field (storedJob j) ''startAfter'' = rjStartAfter j"
    "int_field (storedJob j) ''vmid'' = Some (rjVmid j)" "int_field (storedJob j) ''attempt'' = Some (rjAttempt j)"
    "int_field (storedJob j) ''startedAt'' = Some (rjStartedAt j)" "int_field (storedJob j) ''errorAt'' = rjErrorAt j"
    by (simp_all add: str_field_def bool_field_def int_field_def storedJob_def get_prop_def)
  have "phase_of (Some (job_phase_str (rjPhase j))) = Some (rjPhase j)"
    by (cases "rjPhase j") (simp_all add: phase_of_def job_phase_str_def)
  with s show ?thesis by (simp add: parse_job_def f storable_def truthy_def)
qed

text \<open>
  Restore jobs survive a restart: what the module wrote to the database is read back as exactly
  the same jobs, in the same order, whatever phase they are in.
\<close>

theorem stored_jobs_round_trip:
  assumes "list_all (\<lambda>(k, j). storable j) (rsJobs st)" "reDbOk env (rsWrites st)"
  shows "parseStored now (rsStored (snd (persistJobs env st))) = map snd (rsJobs st)"
proof -
  have "concat (map (parse_job now) (map (\<lambda>(_, j). JObj (storedJob j)) js)) = map snd js"
    if "list_all (\<lambda>(k, j). storable j) js" for js
    using that by (induction js) (auto simp: parse_stored_job)
  with assms show ?thesis by (simp add: persistJobs_def parseStored_def)
qed

theorem stored_jobs_round_trip_witness:
  "parseStored 9 (rsStored (snd (persistJobs demo_restore_env
     \<lparr>rsJobs = [(''r1'', demo_job)], rsStored = JNull, rsWrites = 0, rsCalls = [], rsNotes = [], rsTimers = []\<rparr>))) = [demo_job]"
  using stored_jobs_round_trip [of "\<lparr>rsJobs = [(''r1'', demo_job)], rsStored = JNull, rsWrites = 0, rsCalls = [], rsNotes = [], rsTimers = []\<rparr>"
      demo_restore_env 9] by (simp add: demo_restore_env_def storable_def demo_job_def)

end
