(* ===== verification/WireguardConf.thy ===== *)
theory WireguardConf imports Json "HOL-Library.Word" begin

text \<open>
  WireGuard text: \<^verbatim>\<open>lib/wireguard-conf.ts\<close>, the address tests of \<^verbatim>\<open>lib/wireguard-keys.ts\<close> and
  \<^verbatim>\<open>lib/wireguard-invite.ts\<close>.  \<open>b64len\<close> is the number of bytes \<open>Buffer.from(s, "base64")\<close> yields;
  the key generation of the crypto library is left out.  Characters above 255, and with them the
  byte order mark, are outside the strings of the model.
\<close>

unbundle bit_operations_syntax

section \<open>Numbers and addresses\<close>

fun digit_prefix :: "string \<Rightarrow> string" where
  "digit_prefix [] = []"
| "digit_prefix (c # s) = (if is_digit c then c # digit_prefix s else [])"

text \<open>\<open>Number.parseInt(s, 10)\<close>; \<open>None\<close> is \<open>NaN\<close>.\<close>

definition parseInt10 :: "string \<Rightarrow> int option" where
  "parseInt10 s =
     (let t = trim_start s;
          neg = starts_with t ''-'';
          d = digit_prefix (if neg \<or> starts_with t ''+'' then tl t else t)
      in if d = [] then None else Some (if neg then - int (digits_val d) else int (digits_val d)))"

definition interfaceIpv4 :: "string \<Rightarrow> string option" where
  "interfaceIpv4 cidr =
     (let host = trim (hd (split_on CHR ''/'' (trim cidr))); parts = split_on CHR ''.'' host in
      if length parts = 4 \<and> list_all (\<lambda>p. all_digits p \<and> length p \<le> 3) parts then Some host else None)"

definition isWireguardKey :: "(string \<Rightarrow> nat) \<Rightarrow> string \<Rightarrow> bool" where
  "isWireguardKey b64len v \<longleftrightarrow> b64len (trim v) = 32"

text \<open>\<open>address.includes("/") ? address : `${address}/32`\<close>.\<close>

definition with_prefix :: "string \<Rightarrow> string" where
  "with_prefix address = (if CHR ''/'' \<in> set address then address else address @ ''/32'')"

definition peerAllowedIps :: "string \<Rightarrow> string \<Rightarrow> string" where
  "peerAllowedIps address fallback =
     (if trim fallback \<noteq> [] then trim fallback
      else (case interfaceIpv4 (with_prefix address) of None \<Rightarrow> [] | Some ip \<Rightarrow> ip @ ''/32''))"

definition ipv4ToInt :: "string \<Rightarrow> 32 word option" where
  "ipv4ToInt ip =
     (case map parseInt10 (split_on CHR ''.'' ip) of
        [Some a, Some b, Some c, Some d] \<Rightarrow>
          (if list_all (\<lambda>n. 0 \<le> n \<and> n \<le> 255) [a, b, c, d]
           then Some (push_bit 24 (of_int a) OR push_bit 16 (of_int b) OR push_bit 8 (of_int c) OR of_int d)
           else None)
      | _ \<Rightarrow> None)"

definition cidr_mask :: "nat \<Rightarrow> 32 word" where
  "cidr_mask prefix = (if prefix = 32 then 0xffffffff else NOT (push_bit (32 - prefix) 1 - 1))"

definition cidrContainsIpv4 :: "string \<Rightarrow> string \<Rightarrow> bool" where
  "cidrContainsIpv4 cidr ip =
     (let trimmed = trim cidr; slash = index_of trimmed ''/'';
          net = trim (case slash of None \<Rightarrow> trimmed | Some i \<Rightarrow> take i trimmed);
          prefix = (case slash of None \<Rightarrow> Some 32 | Some i \<Rightarrow> parseInt10 (drop (i + 1) trimmed))
      in if trimmed = [] then False
         else (case (ipv4ToInt net, ipv4ToInt (trim ip), prefix) of
            (Some netInt, Some ipInt, Some p) \<Rightarrow>
              (if p < 0 \<or> 32 < p then False
               else if p = 0 then True
               else netInt AND cidr_mask (nat p) = ipInt AND cidr_mask (nat p))
          | _ \<Rightarrow> False))"

definition comma_parts :: "string \<Rightarrow> string list" where
  "comma_parts s = filter (\<lambda>p. p \<noteq> []) (map trim (split_on CHR '','' s))"

definition ensureIpInAllowedIps :: "string \<Rightarrow> string \<Rightarrow> string" where
  "ensureIpInAllowedIps allowedIPs ip =
     (let host = trim (hd (split_on CHR ''/'' (trim ip))); parts = comma_parts allowedIPs in
      if interfaceIpv4 host = None then trim allowedIPs
      else if list_ex (\<lambda>cidr. cidrContainsIpv4 cidr host) parts then join '', '' parts
      else join '', '' (parts @ [host @ ''/32'']))"

text \<open>The octets of an address, read as numbers and printed again.\<close>

definition octet_str :: "string \<Rightarrow> nat \<Rightarrow> string" where
  "octet_str ip i = (case parseInt10 (split_on CHR ''.'' ip ! i) of None \<Rightarrow> ''NaN'' | Some n \<Rightarrow> int_str n)"

definition sanitizeClientAllowedIps :: "string \<Rightarrow> string \<Rightarrow> string" where
  "sanitizeClientAllowedIps allowedIPs address =
     (let kept = filter (\<lambda>p. p \<noteq> ''0.0.0.0/0'' \<and> p \<noteq> ''::/0'') (comma_parts allowedIPs);
          n = toNumber (trim (case split_on CHR ''/'' address of _ # p # _ \<Rightarrow> p | _ \<Rightarrow> ''24''));
          prefix = (if n = NaN \<or> n = Fin 0 then of_int_num 24 else n)
      in if kept \<noteq> [] then join '', '' kept
         else (case interfaceIpv4 (with_prefix address) of None \<Rightarrow> ''10.88.0.0/24''
           | Some ip \<Rightarrow>
               if \<not> num_less prefix 24
               then octet_str ip 0 @ ''.'' @ octet_str ip 1 @ ''.'' @ octet_str ip 2 @ ''.0/'' @ num_str prefix
               else if \<not> num_less prefix 16 then octet_str ip 0 @ ''.'' @ octet_str ip 1 @ ''.0.0/'' @ num_str prefix
               else octet_str ip 0 @ ''.0.0.0/'' @ num_str prefix))"

definition serverPeerSnippet :: "string \<Rightarrow> string \<Rightarrow> string" where
  "serverPeerSnippet publicKey address =
     (let ip = (case interfaceIpv4 (with_prefix address) of Some v \<Rightarrow> v | None \<Rightarrow> trim (hd (split_on CHR ''/'' address))) in
      ''[Peer]'' @ [CHR 0x0A] @ ''PublicKey = '' @ publicKey @ [CHR 0x0A] @ ''AllowedIPs = '' @ ip @ ''/32'' @ [CHR 0x0A])"

section \<open>Configuration files\<close>

definition WG_CLIENT_MTU :: int where
  "WG_CLIENT_MTU = 1280"

record wg_conf_peer =
  wpPublicKey :: string
  wpEndpoint :: "string option"
  wpAllowedIPs :: string
  wpKeepalive :: "jsnum option"
  wpPresharedKey :: "string option"

record wg_quick =
  wqPrivateKey :: string
  wqAddress :: string
  wqPeers :: "wg_conf_peer list"

definition peer_lines :: "(string \<Rightarrow> nat) \<Rightarrow> wg_conf_peer \<Rightarrow> string list" where
  "peer_lines b64len peer =
     [''[Peer]'', ''PublicKey = '' @ trim (wpPublicKey peer)]
     @ (case wpPresharedKey peer of None \<Rightarrow> []
        | Some k \<Rightarrow> if k \<noteq> [] \<and> isWireguardKey b64len k then [''PresharedKey = '' @ trim k] else [])
     @ (case wpEndpoint peer of None \<Rightarrow> [] | Some e \<Rightarrow> if trim e \<noteq> [] then [''Endpoint = '' @ trim e] else [])
     @ [''AllowedIPs = '' @ trim (wpAllowedIPs peer)]
     @ (let ka = (case wpKeepalive peer of None \<Rightarrow> of_int_num 25 | Some n \<Rightarrow> n) in
        if num_greater ka 0 then [''PersistentKeepalive = '' @ num_str ka] else [])
     @ [[]]"

fun conf_peers :: "(string \<Rightarrow> nat) \<Rightarrow> string list \<Rightarrow> wg_conf_peer list \<Rightarrow> string list" where
  "conf_peers b64len seen [] = []"
| "conf_peers b64len seen (peer # peers) =
     (let key = trim (wpPublicKey peer) in
      if \<not> isWireguardKey b64len key \<or> key \<in> set seen then conf_peers b64len seen peers
      else if trim (wpAllowedIPs peer) = [] then conf_peers b64len seen peers
      else peer_lines b64len peer @ conf_peers b64len (key # seen) peers)"

definition buildWg0Conf :: "(string \<Rightarrow> nat) \<Rightarrow> wg_quick \<Rightarrow> int option \<Rightarrow> string" where
  "buildWg0Conf b64len input mtu =
     (let m = (case mtu of None \<Rightarrow> WG_CLIENT_MTU | Some n \<Rightarrow> if 1280 \<le> n \<and> n \<le> 1420 then n else WG_CLIENT_MTU);
          ls = [''[Interface]'', ''PrivateKey = '' @ wqPrivateKey input, ''Address = '' @ wqAddress input,
                ''MTU = '' @ int_str m, []] @ conf_peers b64len [] (wqPeers input)
      in trim (join [CHR 0x0A] ls) @ [CHR 0x0A])"

text \<open>A section and its fields, each with the values of its lines in order.\<close>

type_synonym conf_section = "string \<times> (string \<times> string list) list"

definition add_field :: "string \<Rightarrow> string \<Rightarrow> conf_section \<Rightarrow> conf_section" where
  "add_field key v sec =
     (fst sec, AList.update key ((case map_of (snd sec) key of None \<Rightarrow> [] | Some vs \<Rightarrow> vs) @ [v]) (snd sec))"

definition section_name :: "string \<Rightarrow> string option" where
  "section_name line =
     (if 3 \<le> length line \<and> hd line = CHR ''['' \<and> last line = CHR '']'' \<and> CHR '']'' \<notin> set (butlast line)
      then Some (to_lower (trim (tl (butlast line)))) else None)"

text \<open>\<open>None\<close> is the \<open>TypeError\<close> of a key that names a member every object inherits.\<close>

definition ini_line :: "string \<Rightarrow> conf_section list option \<Rightarrow> conf_section list option" where
  "ini_line line found =
     (let trimmed = trim line in
      case found of None \<Rightarrow> None
      | Some sections \<Rightarrow>
          (if trimmed = [] \<or> starts_with trimmed ''#'' \<or> starts_with trimmed '';'' then Some sections
           else (case section_name trimmed of
                   Some name \<Rightarrow> Some (sections @ [(name, [])])
                 | None \<Rightarrow>
                     if sections = [] then Some sections
                     else (case index_of trimmed ''='' of None \<Rightarrow> Some sections
                       | Some eq \<Rightarrow>
                           (let key = to_lower (trim (take eq trimmed)) in
                            if eq = 0 then Some sections
                            else if key = ''constructor'' \<or> key = ''__proto__'' then None
                            else Some (butlast sections @ [add_field key (trim (drop (eq + 1) trimmed)) (last sections)]))))))"

text \<open>A carriage return before a line feed is dropped.\<close>

fun drop_crlf :: "string \<Rightarrow> string" where
  "drop_crlf [] = []"
| "drop_crlf [c] = [c]"
| "drop_crlf (c # d # s) = (if c = CHR 0x0D \<and> d = CHR 0x0A then drop_crlf (d # s) else c # drop_crlf (d # s))"

definition parseIniSections :: "string \<Rightarrow> conf_section list option" where
  "parseIniSections raw = fold ini_line (split_on CHR 0x0A (drop_crlf raw)) (Some [])"

definition quad_shape :: "string \<Rightarrow> bool" where
  "quad_shape host \<longleftrightarrow>
     (let parts = split_on CHR ''.'' host in length parts = 4 \<and> list_all (\<lambda>p. all_digits p \<and> length p \<le> 3) parts)"

definition cidr_candidate :: "string \<Rightarrow> string list" where
  "cidr_candidate part =
     (let host = trim (hd (split_on CHR ''/'' part)) in
      if \<not> quad_shape host then [] else [if CHR ''/'' \<in> set part then part else host @ ''/32''])"

definition firstIpv4Cidr :: "string list \<Rightarrow> string option" where
  "firstIpv4Cidr values =
     (case concat (map (\<lambda>v. concat (map cidr_candidate (comma_parts v))) values) of [] \<Rightarrow> None | c # _ \<Rightarrow> Some c)"

definition joinField :: "conf_section \<Rightarrow> string \<Rightarrow> string" where
  "joinField sec key = trim (join '', '' (case map_of (snd sec) key of None \<Rightarrow> [] | Some vs \<Rightarrow> vs))"

definition parse_conf_peer :: "(string \<Rightarrow> nat) \<Rightarrow> conf_section \<Rightarrow> wg_conf_peer list" where
  "parse_conf_peer b64len sec =
     (let publicKey = joinField sec ''publickey''; allowedIPs = joinField sec ''allowedips'';
          endpoint = joinField sec ''endpoint''; keepaliveRaw = joinField sec ''persistentkeepalive'';
          presharedKey = joinField sec ''presharedkey''
      in if \<not> isWireguardKey b64len publicKey \<or> allowedIPs = [] then []
         else [\<lparr>wpPublicKey = publicKey, wpEndpoint = (if endpoint = [] then None else Some endpoint),
                wpAllowedIPs = allowedIPs,
                wpKeepalive = (case parseInt10 keepaliveRaw of None \<Rightarrow> None | Some n \<Rightarrow> if 0 \<le> n then Some (of_int_num n) else None),
                wpPresharedKey = (if isWireguardKey b64len presharedKey then Some presharedKey else None)\<rparr>])"

definition quick_of_sections :: "(string \<Rightarrow> nat) \<Rightarrow> conf_section list \<Rightarrow> string + wg_quick" where
  "quick_of_sections b64len sections =
     (case find (\<lambda>s. fst s = ''interface'') sections of
        None \<Rightarrow> Inl ''Missing [Interface]''
      | Some iface \<Rightarrow>
          (let privateKey = joinField iface ''privatekey'' in
           if \<not> isWireguardKey b64len privateKey then Inl ''Invalid PrivateKey''
           else (case firstIpv4Cidr (case map_of (snd iface) ''address'' of None \<Rightarrow> [] | Some vs \<Rightarrow> vs) of
                   None \<Rightarrow> Inl ''Missing IPv4 Address''
                 | Some address \<Rightarrow>
                     (let peers = concat (map (parse_conf_peer b64len) (filter (\<lambda>s. fst s = ''peer'') sections)) in
                      if peers = [] then Inl ''Missing [Peer]''
                      else Inr \<lparr>wqPrivateKey = privateKey, wqAddress = address, wqPeers = peers\<rparr>))))"

definition parseWgQuickConf :: "(string \<Rightarrow> nat) \<Rightarrow> string \<Rightarrow> string + wg_quick" where
  "parseWgQuickConf b64len raw =
     (case parseIniSections raw of None \<Rightarrow> Inl ''push is not a function'' | Some sections \<Rightarrow> quick_of_sections b64len sections)"

section \<open>Invites\<close>

definition WG_INVITE_PREFIX_V1 :: string where
  "WG_INVITE_PREFIX_V1 = ''proxora1.''"

definition WG_INVITE_PREFIX :: string where
  "WG_INVITE_PREFIX = ''proxora2.''"

record wg_invite =
  wiVersion :: nat
  wiName :: string
  wiToken :: string
  wiPublicKey :: "string option"
  wiAddress :: "string option"
  wiEndpoint :: "string option"
  wiListenPort :: "jsnum option"

definition encodeWireguardInvite :: "(string \<Rightarrow> string) \<Rightarrow> string \<Rightarrow> string \<Rightarrow> string" where
  "encodeWireguardInvite to_base64url name token =
     WG_INVITE_PREFIX @ to_base64url (JSON_stringify
       (JObj [(''v'', JNum (of_int_num 2)), (''name'', JStr (trim name)), (''token'', JStr token)]))"

definition decodeJson :: "(string \<Rightarrow> string) \<Rightarrow> string \<Rightarrow> js_record option" where
  "decodeJson from_base64url b64 =
     (case JSON_parse (from_base64url b64) of
        Some (JObj r) \<Rightarrow> Some r
      | Some (JArr xs) \<Rightarrow> Some []
      | _ \<Rightarrow> None)"

definition trimmed_prop :: "js_record \<Rightarrow> string \<Rightarrow> string" where
  "trimmed_prop rec k = trim (js_string (js_or (get_prop rec k) (JStr [])))"

definition nonempty_text :: "string \<Rightarrow> string option" where
  "nonempty_text s = (if s = [] then None else Some s)"

definition parseWireguardInvite :: "(string \<Rightarrow> string) \<Rightarrow> string \<Rightarrow> string + wg_invite" where
  "parseWireguardInvite from_base64url raw =
     (let trimmed = filter (\<lambda>c. \<not> is_ws c) raw; bad = Inl ''Invalid invite'' in
      if starts_with trimmed WG_INVITE_PREFIX then
        (case decodeJson from_base64url (drop (length WG_INVITE_PREFIX) trimmed) of None \<Rightarrow> bad
         | Some rec \<Rightarrow>
             (let name = trimmed_prop rec ''name''; token = trimmed_prop rec ''token'' in
              if name = [] \<or> token = [] then bad
              else Inr \<lparr>wiVersion = 2, wiName = name, wiToken = token, wiPublicKey = None, wiAddress = None,
                        wiEndpoint = None, wiListenPort = None\<rparr>))
      else if starts_with trimmed WG_INVITE_PREFIX_V1 then
        (case decodeJson from_base64url (drop (length WG_INVITE_PREFIX_V1) trimmed) of None \<Rightarrow> bad
         | Some rec \<Rightarrow>
             (let name = trimmed_prop rec ''name''; token = trimmed_prop rec ''token'';
                  port = js_number (js_or (get_prop rec ''listenPort'') (JNum (of_int_num 51820)))
              in if name = [] \<or> token = [] then bad
                 else Inr \<lparr>wiVersion = 1, wiName = name, wiToken = token,
                           wiPublicKey = nonempty_text (trimmed_prop rec ''publicKey''),
                           wiAddress = nonempty_text (trimmed_prop rec ''address''),
                           wiEndpoint = nonempty_text (trimmed_prop rec ''endpoint''),
                           wiListenPort = Some (if port = NaN \<or> port = Fin 0 then of_int_num 51820 else port)\<rparr>))
      else bad)"

end
