(* ===== verification/WireguardNets.thy ===== *)
theory WireguardNets imports WireguardConf CreateIp begin

text \<open>
  What the address arithmetic of \<^verbatim>\<open>lib/wireguard-conf.ts\<close> computes: the masks of 32-bit words against
  division of the address as a number, and the routes that are derived from it.
\<close>

unbundle bit_operations_syntax

section \<open>Addresses as numbers\<close>

definition quad :: "nat \<Rightarrow> nat \<Rightarrow> nat \<Rightarrow> nat \<Rightarrow> string" where
  "quad a b c d = nat_str a @ ''.'' @ nat_str b @ ''.'' @ nat_str c @ ''.'' @ nat_str d"

definition quad_val :: "nat \<Rightarrow> nat \<Rightarrow> nat \<Rightarrow> nat \<Rightarrow> nat" where
  "quad_val a b c d = ((a * 256 + b) * 256 + c) * 256 + d"

lemma digit_prefix_digits: "list_all is_digit s \<Longrightarrow> digit_prefix s = s"
  by (induction s) auto

lemma parseInt10_nat [simp]: "parseInt10 (nat_str n) = Some (int n)"
proof -
  have d: "list_all is_digit (nat_str n)" by (rule nat_str_digits)
  obtain c s where cs: "nat_str n = c # s" by (cases "nat_str n") auto
  have "\<not> is_ws c" "c \<noteq> CHR ''-''" "c \<noteq> CHR ''+''"
    using d by (auto simp: cs is_digit_not_ws is_digit_def in_range_def)
  then show ?thesis
    using d digits_val_nat_str [of n]
    by (simp add: parseInt10_def cs trim_start_def starts_with_def digit_prefix_digits)
qed

lemma or_low:
  fixes a m :: nat
  assumes "m < 2 ^ k"
  shows "push_bit k a OR m = a * 2 ^ k + m"
proof -
  have low: "j < k" if "bit m j" for j
    using that assms by (metis bit_take_bit_iff take_bit_nat_eq_self_iff)
  then have "push_bit k a AND m = 0"
    by (intro bit_eqI) (auto simp: bit_simps dest: low)
  then show ?thesis by (simp flip: disjunctive_add_eq_or add: push_bit_eq_mult)
qed

lemma quad_or:
  assumes "a < 256" "b < 256" "c < 256" "d < 256"
  shows "push_bit 24 a OR push_bit 16 b OR push_bit 8 c OR d = quad_val a b c d"
proof -
  have "push_bit 8 c OR d = c * 256 + d" using assms or_low [of d 8 c] by simp
  moreover have "push_bit 16 b OR (c * 256 + d) = b * 65536 + (c * 256 + d)" using assms or_low [of "c * 256 + d" 16 b] by simp
  moreover have "push_bit 24 a OR (b * 65536 + (c * 256 + d)) = a * 16777216 + (b * 65536 + (c * 256 + d))"
    using assms or_low [of "b * 65536 + (c * 256 + d)" 24 a] by simp
  ultimately show ?thesis by (simp add: quad_val_def)
qed

lemma quad_val_bound: "a < 256 \<Longrightarrow> b < 256 \<Longrightarrow> c < 256 \<Longrightarrow> d < 256 \<Longrightarrow> quad_val a b c d < 2 ^ 32"
  by (simp add: quad_val_def)

lemma split_quad: "split_on CHR ''.'' (quad a b c d) = [nat_str a, nat_str b, nat_str c, nat_str d]"
  by (simp add: quad_def split_on_append_sep split_on_id nat_str_no_char)

lemma ipv4ToInt_quad:
  assumes "a < 256" "b < 256" "c < 256" "d < 256"
  shows "ipv4ToInt (quad a b c d) = Some (of_nat (quad_val a b c d))"
proof -
  have "push_bit 24 (of_nat a) OR push_bit 16 (of_nat b) OR push_bit 8 (of_nat c) OR of_nat d
      = (of_nat (push_bit 24 a OR push_bit 16 b OR push_bit 8 c OR d) :: 32 word)"
    by (simp only: push_bit_of_nat of_nat_or_eq)
  with assms quad_or [OF assms] show ?thesis by (simp add: ipv4ToInt_def split_quad)
qed

lemma and_mask_eq:
  fixes x y :: "32 word"
  assumes "1 \<le> p" "p \<le> 32"
  shows "x AND cidr_mask p = y AND cidr_mask p \<longleftrightarrow> unat x div 2 ^ (32 - p) = unat y div 2 ^ (32 - p)"
proof -
  have m: "cidr_mask p = NOT (mask (32 - p))"
  proof (cases "p = 32")
    case True
    have "(0xffffffff :: 32 word) = NOT 0" by simp
    with True show ?thesis by (simp add: cidr_mask_def)
  next
    case False
    then show ?thesis by (simp add: cidr_mask_def mask_eq_exp_minus_1 push_bit_eq_mult)
  qed
  have "x AND NOT (mask k) = y AND NOT (mask k) \<longleftrightarrow> drop_bit k x = drop_bit k y" for k
  proof
    assume e: "x AND NOT (mask k) = y AND NOT (mask k)"
    show "drop_bit k x = drop_bit k y"
    proof (rule bit_eqI)
      fix n
      from e have "bit (x AND NOT (mask k)) (k + n) = bit (y AND NOT (mask k)) (k + n)" by simp
      then show "bit (drop_bit k x) n = bit (drop_bit k y) n"
        by (auto simp: bit_simps dest: bit_imp_le_length)
    qed
  next
    assume e: "drop_bit k x = drop_bit k y"
    show "x AND NOT (mask k) = y AND NOT (mask k)"
    proof (rule bit_eqI)
      fix n
      from e have "bit (drop_bit k x) (n - k) = bit (drop_bit k y) (n - k)" by simp
      then show "bit (x AND NOT (mask k)) n = bit (y AND NOT (mask k)) n"
        by (auto simp: bit_simps)
    qed
  qed
  then have "x AND cidr_mask p = y AND cidr_mask p \<longleftrightarrow> unat (drop_bit (32 - p) x) = unat (drop_bit (32 - p) y)"
    by (simp only: m word_unat_eq_iff)
  also have "\<dots> \<longleftrightarrow> drop_bit (32 - p) (unat x) = drop_bit (32 - p) (unat y)" by (simp only: unat_drop_bit_eq)
  finally show ?thesis by (simp only: drop_bit_eq_div)
qed

section \<open>Networks and routes\<close>

text \<open>The octets of a dotted quad in range.\<close>

definition octets_ok :: "nat \<Rightarrow> nat \<Rightarrow> nat \<Rightarrow> nat \<Rightarrow> bool" where
  "octets_ok a b c d \<longleftrightarrow> a < 256 \<and> b < 256 \<and> c < 256 \<and> d < 256"

lemma octet_nat: "n < 256 \<Longrightarrow> octet (nat_str n)"
proof -
  assume n: "n < 256"
  have "length (nat_str n) \<le> 3"
    using n by (simp add: nat_str.simps [of n] nat_str.simps [of "n div 10"] nat_str.simps [of "n div 10 div 10"])
  with n show ?thesis by (simp add: octet_def)
qed

lemma quad_text:
  assumes "octets_ok a b c d"
  shows "trim (quad a b c d) = quad a b c d" "CHR ''/'' \<notin> set (quad a b c d)" "CHR '','' \<notin> set (quad a b c d)"
    "quad a b c d \<noteq> []" "interfaceIpv4 (quad a b c d) = Some (quad a b c d)"
proof -
  have o: "octet (nat_str a)" "octet (nat_str b)" "octet (nat_str c)" "octet (nat_str d)"
    using assms by (simp_all add: octets_ok_def octet_nat)
  from dotted [OF o] show t: "trim (quad a b c d) = quad a b c d" and s: "CHR ''/'' \<notin> set (quad a b c d)"
    by (simp_all add: quad_def)
  show "CHR '','' \<notin> set (quad a b c d)" by (simp add: quad_def nat_str_no_char)
  show "quad a b c d \<noteq> []" by (simp add: quad_def)
  show "interfaceIpv4 (quad a b c d) = Some (quad a b c d)"
    using o by (simp add: interfaceIpv4_def t split_on_id [OF s] split_quad octet_def Let_def)
qed

lemma index_of_sep: "CHR ''/'' \<notin> set s \<Longrightarrow> index_of (s @ CHR ''/'' # r) ''/'' = Some (length s)"
  by (induction s) (auto simp: starts_with_def)

lemma index_of_none: "CHR ''/'' \<notin> set s \<Longrightarrow> index_of s ''/'' = None"
  by (induction s) (auto simp: starts_with_def)

lemma trim_quad_prefix:
  assumes "octets_ok a b c d"
  shows "trim (quad a b c d @ ''/'' @ nat_str p) = quad a b c d @ ''/'' @ nat_str p"
proof -
  have "list_all (\<lambda>x. \<not> is_ws x) (nat_str n)" for n
    using nat_str_digits [of n] by (auto simp: list_all_iff is_digit_not_ws)
  then show ?thesis by (intro trim_no_ws) (simp add: quad_def is_ws_def in_range_def)
qed

lemma contains_quad:
  assumes net: "octets_ok a b c d" and ip: "octets_ok e f g h" and p: "p \<le> 32"
  shows "cidrContainsIpv4 (quad a b c d @ ''/'' @ nat_str p) (quad e f g h)
    \<longleftrightarrow> quad_val a b c d div 2 ^ (32 - p) = quad_val e f g h div 2 ^ (32 - p)"
proof -
  have n: "quad_val a b c d < 2 ^ 32" "quad_val e f g h < 2 ^ 32"
    using net ip quad_val_bound unfolding octets_ok_def by blast+
  have u: "unat (of_nat (quad_val a b c d) :: 32 word) = quad_val a b c d"
    "unat (of_nat (quad_val e f g h) :: 32 word) = quad_val e f g h"
    using n by (simp_all add: unat_of_nat)
  have i: "ipv4ToInt (quad a b c d) = Some (of_nat (quad_val a b c d))" "ipv4ToInt (quad e f g h) = Some (of_nat (quad_val e f g h))"
    using net ip by (simp_all add: octets_ok_def ipv4ToInt_quad)
  show ?thesis
  proof (cases "p = 0")
    case True
    with n show ?thesis
      by (simp add: cidrContainsIpv4_def Let_def trim_quad_prefix [OF net, of 0, simplified] index_of_sep quad_text [OF net] quad_text [OF ip] i)
  next
    case False
    with p have "1 \<le> p" by simp
    from and_mask_eq [OF this p, of "of_nat (quad_val a b c d)" "of_nat (quad_val e f g h)"] u False p show ?thesis
      using trim_quad_prefix [OF net, of p]
      by (simp add: cidrContainsIpv4_def Let_def index_of_sep quad_text [OF net] quad_text [OF ip] i)
  qed
qed

lemma comma_parts_join:
  "list_all (\<lambda>p. p \<noteq> [] \<and> trim p = p \<and> CHR '','' \<notin> set p) ps \<Longrightarrow> comma_parts (join '', '' ps) = ps"
proof (induction ps rule: induct_list012)
  case 1
  show ?case by (simp add: comma_parts_def trim_def trim_start_def trim_end_def)
next
  case (2 p)
  then show ?case by (simp add: comma_parts_def split_on_id)
next
  case (3 p q ps)
  have sp: "trim (CHR '' '' # s) = trim s" for s by (simp add: trim_def trim_start_def is_ws_def in_range_def)
  have head: "map trim (split_on CHR '','' (CHR '' '' # s)) = map trim (split_on CHR '','' s)" for s
    by (cases "split_on CHR '','' s") (auto simp: sp)
  from 3 show ?case by (simp add: comma_parts_def split_on_append_sep head del: split_on.simps)
qed

lemma comma_parts_clean: "list_all (\<lambda>p. p \<noteq> [] \<and> trim p = p \<and> CHR '','' \<notin> set p) (comma_parts s)"
proof -
  have "CHR '','' \<notin> set (trim w)" if "w \<in> set (split_on CHR '','' s)" for w
    using split_on_no_sep [OF that] set_trim [of w] by blast
  then show ?thesis by (auto simp: comma_parts_def list_all_iff)
qed

text \<open>
  The test whether a network contains an address, done with shifts and masks on 32-bit words,
  agrees with arithmetic: two addresses are in the same network of prefix length \<open>p\<close> exactly
  when their numbers agree after division by \<open>2 ^ (32 - p)\<close>, for every \<open>p\<close> from 0 to 32.
\<close>

theorem cidrContainsIpv4_arith:
  assumes "octets_ok a b c d" "octets_ok e f g h" "p \<le> 32"
  shows "cidrContainsIpv4 (quad a b c d @ ''/'' @ nat_str p) (quad e f g h)
    \<longleftrightarrow> quad_val a b c d div 2 ^ (32 - p) = quad_val e f g h div 2 ^ (32 - p)"
  by (rule contains_quad [OF assms])

theorem cidrContainsIpv4_arith_witness:
  "cidrContainsIpv4 (quad 10 88 16 0 @ ''/'' @ nat_str 20) (quad 10 88 31 255)
   \<and> \<not> cidrContainsIpv4 (quad 10 88 16 0 @ ''/'' @ nat_str 20) (quad 10 88 32 0)"
  using cidrContainsIpv4_arith [of 10 88 16 0 10 88 31 255 20] cidrContainsIpv4_arith [of 10 88 16 0 10 88 32 0 20]
  by (simp add: octets_ok_def quad_val_def)

lemma nat_str_32: "nat_str 32 = ''32''"
  by code_simp

text \<open>
  Routing a colleague through the tunnel works and settles: after \<open>ensureIpInAllowedIps\<close> some
  entry of the list contains the address, and doing it again changes nothing.  For an address with
  an octet above 255, which the shape test lets through, it does not settle: every call appends
  the entry again.
\<close>

theorem ensureIpInAllowedIps_settles:
  assumes ip: "octets_ok a b c d"
  shows "list_ex (\<lambda>cidr. cidrContainsIpv4 cidr (quad a b c d)) (comma_parts (ensureIpInAllowedIps allowed (quad a b c d)))
    \<and> ensureIpInAllowedIps (ensureIpInAllowedIps allowed (quad a b c d)) (quad a b c d) = ensureIpInAllowedIps allowed (quad a b c d)
    \<and> ensureIpInAllowedIps (ensureIpInAllowedIps [] ''999.1.1.1'') ''999.1.1.1'' = ''999.1.1.1/32, 999.1.1.1/32''"
proof -
  let ?ip = "quad a b c d" and ?ps = "comma_parts allowed"
  let ?out = "if list_ex (\<lambda>cidr. cidrContainsIpv4 cidr ?ip) ?ps then ?ps else ?ps @ [?ip @ ''/32'']"
  note q = quad_text [OF ip]
  have host: "hd (split_on CHR ''/'' ?ip) = ?ip" by (simp add: q split_on_id)
  have step: "ensureIpInAllowedIps s ?ip
      = join '', '' (if list_ex (\<lambda>cidr. cidrContainsIpv4 cidr ?ip) (comma_parts s) then comma_parts s else comma_parts s @ [?ip @ ''/32''])" for s
    by (simp add: ensureIpInAllowedIps_def host q Let_def)
  have own: "cidrContainsIpv4 (?ip @ ''/32'') ?ip"
    using contains_quad [OF ip ip, of 32] by (simp add: nat_str_32)
  have t: "trim (?ip @ ''/32'') = ?ip @ ''/32''"
    using trim_quad_prefix [OF ip, of 32] by (simp add: nat_str_32)
  have "list_all (\<lambda>p. p \<noteq> [] \<and> trim p = p \<and> CHR '','' \<notin> set p) ?out"
    using comma_parts_clean [of allowed] q t by simp
  then have parts: "comma_parts (ensureIpInAllowedIps allowed ?ip) = ?out" by (simp only: step comma_parts_join)
  have covered: "list_ex (\<lambda>cidr. cidrContainsIpv4 cidr ?ip) ?out" using own by simp
  have "ensureIpInAllowedIps (ensureIpInAllowedIps allowed ?ip) ?ip = ensureIpInAllowedIps allowed ?ip"
    using covered by (simp add: step [of "ensureIpInAllowedIps allowed ?ip"] parts) (simp add: step)
  moreover have "ensureIpInAllowedIps (ensureIpInAllowedIps [] ''999.1.1.1'') ''999.1.1.1'' = ''999.1.1.1/32, 999.1.1.1/32''"
    by code_simp
  ultimately show ?thesis using covered by (simp only: parts)
qed

theorem ensureIpInAllowedIps_settles_witness:
  "list_ex (\<lambda>cidr. cidrContainsIpv4 cidr (quad 10 9 0 7)) (comma_parts (ensureIpInAllowedIps ''10.88.0.0/24'' (quad 10 9 0 7)))"
  using ensureIpInAllowedIps_settles [of 10 9 0 7 "''10.88.0.0/24''"] by (simp add: octets_ok_def)

end
