(* ===== verification/Ops.thy ===== *)
theory Ops imports HttpGuard begin

text \<open>
  Operations on a state that may fail: the shape of an \<open>async\<close> function that awaits the database
  and throws.  A thrown error preserves the state reached so far, as no call is rolled back.
\<close>

type_synonym ('s, 'a) op = "'s \<Rightarrow> (js_error + 'a) \<times> 's"

definition return_op :: "'a \<Rightarrow> ('s, 'a) op" where
  "return_op x st = (Inr x, st)"

definition throw_op :: "js_error \<Rightarrow> ('s, 'a) op" where
  "throw_op e st = (Inl e, st)"

definition bind_op :: "('s, 'a) op \<Rightarrow> ('a \<Rightarrow> ('s, 'b) op) \<Rightarrow> ('s, 'b) op" where
  "bind_op m f st = (case m st of (Inl e, st1) \<Rightarrow> (Inl e, st1) | (Inr x, st1) \<Rightarrow> f x st1)"

definition read_op :: "('s \<Rightarrow> 'a) \<Rightarrow> ('s, 'a) op" where
  "read_op f st = (Inr (f st), st)"

definition write_op :: "('s \<Rightarrow> 's) \<Rightarrow> ('s, unit) op" where
  "write_op f st = (Inr (), f st)"

text \<open>\<open>try { m } catch (e) { h e }\<close>.\<close>

definition catch_op :: "('s, 'a) op \<Rightarrow> (js_error \<Rightarrow> ('s, 'a) op) \<Rightarrow> ('s, 'a) op" where
  "catch_op m h st = (case m st of (Inl e, st1) \<Rightarrow> h e st1 | (Inr x, st1) \<Rightarrow> (Inr x, st1))"

text \<open>\<open>try { m } finally { f }\<close> for a clean-up that cannot fail.\<close>

definition finally_op :: "('s, 'a) op \<Rightarrow> ('s \<Rightarrow> 's) \<Rightarrow> ('s, 'a) op" where
  "finally_op m f st = (case m st of (r, st1) \<Rightarrow> (r, f st1))"

text \<open>A value that is there, or an error.\<close>

definition need_op :: "js_error \<Rightarrow> 'a option \<Rightarrow> ('s, 'a) op" where
  "need_op e x = (case x of None \<Rightarrow> throw_op e | Some v \<Rightarrow> return_op v)"

definition lift_op :: "js_error + 'a \<Rightarrow> ('s, 'a) op" where
  "lift_op r st = (r, st)"

definition guard_op :: "bool \<Rightarrow> js_error \<Rightarrow> ('s, unit) op" where
  "guard_op c e = (if c then return_op () else throw_op e)"

definition when_op :: "bool \<Rightarrow> ('s, unit) op \<Rightarrow> ('s, unit) op" where
  "when_op c m = (if c then m else return_op ())"

fun each_op :: "('a \<Rightarrow> ('s, unit) op) \<Rightarrow> 'a list \<Rightarrow> ('s, unit) op" where
  "each_op f [] = return_op ()"
| "each_op f (x # xs) = bind_op (f x) (\<lambda>_. each_op f xs)"

fun map_op :: "('a \<Rightarrow> ('s, 'b) op) \<Rightarrow> 'a list \<Rightarrow> ('s, 'b list) op" where
  "map_op f [] = return_op []"
| "map_op f (x # xs) = bind_op (f x) (\<lambda>y. bind_op (map_op f xs) (\<lambda>ys. return_op (y # ys)))"

lemmas op_defs = return_op_def throw_op_def bind_op_def read_op_def write_op_def catch_op_def finally_op_def
  need_op_def lift_op_def guard_op_def when_op_def

section \<open>What an operation preserves\<close>

definition preserves :: "('s \<Rightarrow> bool) \<Rightarrow> ('s, 'a) op \<Rightarrow> bool" where
  "preserves I m \<longleftrightarrow> (\<forall>st. I st \<longrightarrow> I (snd (m st)))"

named_theorems preserve_intros \<open>operations that keep an invariant\<close>

lemma preservesD: "preserves I m \<Longrightarrow> I st \<Longrightarrow> I (snd (m st))"
  by (simp add: preserves_def)

lemma preserves_return [preserve_intros]: "preserves I (return_op x)"
  by (simp add: preserves_def return_op_def)

lemma preserves_throw [preserve_intros]: "preserves I (throw_op e)"
  by (simp add: preserves_def throw_op_def)

lemma preserves_read [preserve_intros]: "preserves I (read_op f)"
  by (simp add: preserves_def read_op_def)

lemma preserves_lift [preserve_intros]: "preserves I (lift_op r)"
  by (simp add: preserves_def lift_op_def)

lemma preserves_need [preserve_intros]: "preserves I (need_op e x)"
  by (cases x) (simp_all add: need_op_def preserves_return preserves_throw)

lemma preserves_guard [preserve_intros]: "preserves I (guard_op c e)"
  by (simp add: guard_op_def preserves_return preserves_throw)

lemma preserves_bind [preserve_intros]: "preserves I m \<Longrightarrow> (\<And>x. preserves I (f x)) \<Longrightarrow> preserves I (bind_op m f)"
  unfolding preserves_def bind_op_def by (auto split: prod.split sum.split)

lemma preserves_write: "(\<And>st. I st \<Longrightarrow> I (f st)) \<Longrightarrow> preserves I (write_op f)"
  by (simp add: preserves_def write_op_def)

lemma preserves_catch [preserve_intros]: "preserves I m \<Longrightarrow> (\<And>e. preserves I (h e)) \<Longrightarrow> preserves I (catch_op m h)"
  unfolding preserves_def catch_op_def by (auto split: prod.split sum.split)

lemma preserves_finally: "preserves I m \<Longrightarrow> (\<And>st. I st \<Longrightarrow> I (f st)) \<Longrightarrow> preserves I (finally_op m f)"
  unfolding preserves_def finally_op_def by (auto split: prod.split)

lemma preserves_when [preserve_intros]: "preserves I m \<Longrightarrow> preserves I (when_op c m)"
  by (simp add: when_op_def preserves_return)

lemma preserves_each [preserve_intros]: "(\<And>x. preserves I (f x)) \<Longrightarrow> preserves I (each_op f xs)"
  by (induction xs) (simp_all add: preserves_return preserves_bind)

lemma preserves_map [preserve_intros]: "(\<And>x. preserves I (f x)) \<Longrightarrow> preserves I (map_op f xs)"
  by (induction xs) (simp_all add: preserves_return preserves_bind)

lemma preserves_if [preserve_intros]: "(c \<Longrightarrow> preserves I a) \<Longrightarrow> (\<not> c \<Longrightarrow> preserves I b) \<Longrightarrow> preserves I (if c then a else b)"
  by simp

lemma preserves_option [preserve_intros]:
  "(x = None \<Longrightarrow> preserves I a) \<Longrightarrow> (\<And>v. x = Some v \<Longrightarrow> preserves I (b v)) \<Longrightarrow> preserves I (case x of None \<Rightarrow> a | Some v \<Rightarrow> b v)"
  by (cases x) simp_all

lemma bind_Inr:
  "bind_op m f st = (Inr y, st') \<longleftrightarrow> (\<exists>x st1. m st = (Inr x, st1) \<and> f x st1 = (Inr y, st'))"
  by (auto simp: bind_op_def split: prod.split sum.split)

lemma guard_Inr: "guard_op c e st = (Inr x, st') \<longleftrightarrow> c \<and> st' = st"
  by (auto simp: op_defs)

lemma need_Inr: "need_op e x st = (Inr y, st') \<longleftrightarrow> x = Some y \<and> st' = st"
  by (cases x) (auto simp: op_defs)

lemma read_Inr: "read_op f st = (Inr y, st') \<longleftrightarrow> y = f st \<and> st' = st"
  by (auto simp: op_defs)

lemma return_Inr: "return_op x st = (Inr y, st') \<longleftrightarrow> y = x \<and> st' = st"
  by (auto simp: op_defs)

lemma write_Inr: "write_op f st = (Inr y, st') \<longleftrightarrow> st' = f st"
  by (auto simp: op_defs)

lemma throw_Inr: "throw_op e st = (Inr y, st') \<longleftrightarrow> False"
  by (simp add: op_defs)

lemma lift_Inr: "lift_op r st = (Inr y, st') \<longleftrightarrow> r = Inr y \<and> st' = st"
  by (auto simp: op_defs)

lemma when_Inr: "when_op c m st = (Inr y, st') \<longleftrightarrow> (if c then m st = (Inr y, st') else st' = st)"
  by (simp add: when_op_def return_Inr)

lemmas op_Inr = bind_Inr guard_Inr need_Inr read_Inr return_Inr write_Inr throw_Inr lift_Inr when_Inr

lemma preserves_case_prod: "(\<And>a b. preserves I (f a b)) \<Longrightarrow> preserves I (case p of (a, b) \<Rightarrow> f a b)"
  by (cases p) simp

end
