(* ===== verification/Mesh.thy ===== *)
theory Mesh imports Ops Sessions FederationAccess begin

text \<open>
  The tables around hosts and peers (\<^verbatim>\<open>prisma/schema.prisma\<close>: \<open>Host\<close>, \<open>WireguardPeer\<close>,
  \<open>HostShare\<close>, \<open>Setting\<close>), what the process preserves beside them (the client cache of
  \<^verbatim>\<open>server/proxmox/client-cache.ts\<close>, the notices it sent, the reconnect
  requests, the files of the tunnel, its requests to Proxmox and what it remembers of the answers), and the database
  calls with their foreign keys.  Column \<open>updatedAt\<close> and the columns of package updates are left out.
\<close>

section \<open>Rows\<close>

datatype conn_state = ONLINE | OFFLINE | CONNECTING | ERROR | MAINTENANCE

datatype host_origin = LOCAL | PEER

datatype auth_type = API_TOKEN | PASSWORD

datatype peer_kind = GATEWAY | PROXORA

record host_row =
  hsId :: string
  hsName :: string
  hsUrl :: string
  hsAuthType :: auth_type
  hsUsername :: string
  hsTokenId :: "string option"
  hsEncryptedSecret :: string
  hsAllowInsecureTls :: bool
  hsState :: conn_state
  hsLastSeenAt :: "int option"
  hsLastError :: "string option"
  hsVersion :: "string option"
  hsClusterName :: "string option"
  hsIsClusterMember :: bool
  hsNotes :: "string option"
  hsOrigin :: host_origin
  hsPeerId :: "string option"
  hsRemoteHostId :: "string option"
  hsShareLevel :: "share_level option"
  hsSharePermissions :: "string list"
  hsCreatedAt :: int

record wg_peer =
  wgId :: string
  wgName :: string
  wgKind :: peer_kind
  wgPublicKey :: string
  wgEndpoint :: string
  wgAddress :: string
  wgProxoraPort :: int
  wgAllowedIPs :: string
  wgKeepalive :: int
  wgInboundHash :: string
  wgEncryptedInbound :: string
  wgEncryptedOutbound :: string
  wgLastSeenAt :: "int option"
  wgUpdatingUntil :: "int option"
  wgUpdatingFrom :: "string option"
  wgUpdatingTo :: "string option"
  wgCreatedAt :: int

record host_share =
  shPeerId :: string
  shHostId :: string
  shLevel :: share_level
  shPermissions :: "string list"

section \<open>Clients of hosts\<close>

record federation_transport =
  ftBaseUrl :: string
  ftToken :: string
  ftRemoteHostId :: string

record proxmox_config =
  pcUrl :: string
  pcAuthType :: auth_type
  pcUsername :: string
  pcTokenId :: "string option"
  pcSecret :: string
  pcAllowInsecureTls :: bool
  pcFederation :: "federation_transport option"

text \<open>A client is the configuration it was made from; the cache preserves it under the id of the host with
  the fingerprint of the row.\<close>

type_synonym client_cache = "(string \<times> string \<times> proxmox_config) list"

record notice =
  ntTopic :: string
  ntLevel :: string
  ntName :: string

section \<open>Requests to Proxmox\<close>

text \<open>A request before it is written as HTTP, and what the process remembers about the answers of
  hosts: the inventories with their time, the addresses and disks of guests, and the work it left
  for later.\<close>

record px_call =
  pxClient :: proxmox_config
  pxVerb :: string
  pxPath :: string
  pxQuery :: "js_record option"
  pxBody :: "js_record option"
  pxTimeout :: "int option"

record px_resource =
  rsId :: "string option"
  rsType :: string
  rsNode :: "string option"
  rsStorage :: "string option"
  rsPlugintype :: "string option"
  rsContent :: "string option"
  rsShared :: "jsnum option"
  rsVmid :: "int option"
  rsName :: "string option"
  rsStatus :: "string option"
  rsCpu :: "jsnum option"
  rsCpus :: "jsnum option"
  rsMaxcpu :: "jsnum option"
  rsMem :: "jsnum option"
  rsMaxmem :: "jsnum option"
  rsDisk :: "jsnum option"
  rsMaxdisk :: "jsnum option"
  rsNetin :: "jsnum option"
  rsNetout :: "jsnum option"
  rsUptime :: "jsnum option"
  rsTemplate :: "jsnum option"
  rsTags :: "string option"
  rsDescription :: "string option"

record guest_item =
  giVmid :: int
  giName :: string
  giNode :: string
  giStatus :: string
  giCpu :: jsnum
  giCpus :: jsnum
  giMem :: jsnum
  giMaxmem :: jsnum
  giDisk :: jsnum
  giMaxdisk :: jsnum
  giUptime :: jsnum
  giTags :: "string option"
  giDescription :: "string option"
  giTemplate :: bool
  giNetin :: "jsnum option"
  giNetout :: "jsnum option"

record storage_item =
  siStorage :: string
  siType :: string
  siNode :: "string option"
  siContent :: "string option"
  siDisk :: "jsnum option"
  siMaxdisk :: "jsnum option"
  siStatus :: "string option"
  siShared :: "jsnum option"

record inventory =
  inNodes :: "px_resource list"
  inVms :: "guest_item list"
  inContainers :: "guest_item list"
  inStorage :: "storage_item list"

text \<open>A restore that a request handed over.\<close>

record restore_order =
  roUser :: session_user
  roHostId :: string
  roHostName :: string
  roNode :: string
  roVolid :: string
  roVmid :: int
  roStorage :: string
  roForce :: "bool option"
  roStartAfter :: "bool option"
  roName :: string

text \<open>Work that a handler starts without waiting for it.\<close>

datatype deferred =
    NudgeKeys proxmox_config string int
  | PurgeBackups proxmox_config string js "string list"
  | FollowCreate proxmox_config guest_kind string int string string js string string
  | FollowBackup string session_user string js string
  | RestoreAccepted string restore_order

text \<open>The calls sent so far with the clock, the caches, the failed tasks already reported, and the
  variables of the running handler that its error path reads.\<close>

record wire =
  wrSent :: "px_call list"
  wrClock :: int
  wrInventory :: "(string \<times> int \<times> inventory) list"
  wrGuestIps :: "(string \<times> string list \<times> int) list"
  wrVolumes :: "(string \<times> int \<times> string list \<times> string list) list"
  wrDeferred :: "deferred list"
  wrSeenUpids :: "string list"
  wrPrimed :: bool
  wrVars :: "(string \<times> js) list"

definition empty_wire :: wire where
  "empty_wire = \<lparr>wrSent = [], wrClock = 0, wrInventory = [], wrGuestIps = [], wrVolumes = [], wrDeferred = [], wrSeenUpids = [],
     wrPrimed = False, wrVars = []\<rparr>"

record mesh =
  msServer :: server
  msHosts :: "host_row list"
  msPeers :: "wg_peer list"
  msShares :: "host_share list"
  msSettings :: "(string \<times> js) list"
  msConf :: "string option"
  msDisabled :: bool
  msClients :: client_cache
  msNotices :: "notice list"
  msKicks :: nat
  msWire :: wire

type_synonym 'a mesh_op = "(mesh, 'a) op"

definition auth_type_str :: "auth_type \<Rightarrow> string" where
  "auth_type_str a = (case a of API_TOKEN \<Rightarrow> ''API_TOKEN'' | PASSWORD \<Rightarrow> ''PASSWORD'')"

definition hostClientFingerprint :: "host_row \<Rightarrow> string" where
  "hostClientFingerprint host =
     join [CHR 0x00] [hsUrl host, auth_type_str (hsAuthType host), hsUsername host,
       (case hsTokenId host of None \<Rightarrow> [] | Some t \<Rightarrow> t),
       (if hsAllowInsecureTls host then ''1'' else ''0''), hsEncryptedSecret host]"

text \<open>\<open>get\<close> with a \<open>create\<close> that may throw; a stale entry stays when it does.\<close>

definition client_cache_get :: "host_row \<Rightarrow> (host_row \<Rightarrow> js_error + proxmox_config) \<Rightarrow> proxmox_config mesh_op" where
  "client_cache_get host create_client st =
     (let fp = hostClientFingerprint host in
      case map_of (msClients st) (hsId host) of
        Some (fp', client) \<Rightarrow>
          (if fp' = fp then (Inr client, st)
           else case create_client host of Inl e \<Rightarrow> (Inl e, st)
             | Inr c \<Rightarrow> (Inr c, st\<lparr>msClients := AList.update (hsId host) (fp, c) (msClients st)\<rparr>))
      | None \<Rightarrow>
          (case create_client host of Inl e \<Rightarrow> (Inl e, st)
           | Inr c \<Rightarrow> (Inr c, st\<lparr>msClients := AList.update (hsId host) (fp, c) (msClients st)\<rparr>)))"

definition client_cache_invalidate :: "string \<Rightarrow> mesh \<Rightarrow> mesh" where
  "client_cache_invalidate hostId st = st\<lparr>msClients := filter (\<lambda>(k, _). k \<noteq> hostId) (msClients st)\<rparr>"

definition notify_topic :: "string \<Rightarrow> string \<Rightarrow> string \<Rightarrow> mesh \<Rightarrow> mesh" where
  "notify_topic topic level name st = st\<lparr>msNotices := msNotices st @ [\<lparr>ntTopic = topic, ntLevel = level, ntName = name\<rparr>]\<rparr>"

section \<open>Unique columns\<close>

text \<open>\<open>@@unique([peerId, remoteHostId])\<close>: rows with a null there never clash in it.\<close>

definition host_keys :: "host_row \<Rightarrow> (string + string \<times> string) list" where
  "host_keys h =
     [Inl (hsId h),
      (case (hsPeerId h, hsRemoteHostId h) of (Some p, Some r) \<Rightarrow> Inr (p, r) | _ \<Rightarrow> Inl (hsId h))]"

definition peer_keys :: "wg_peer \<Rightarrow> string list" where
  "peer_keys p = [wgId p, wgInboundHash p]"

definition share_keys :: "host_share \<Rightarrow> (string \<times> string) list" where
  "share_keys s = [(shPeerId s, shHostId s)]"

interpretation host_table: unique_table host_keys 2 set "table_wf host_keys" "find_row host_keys" "add_row host_keys" drop_rows
  by (rule list_table) (simp add: host_keys_def)

interpretation peer_table: unique_table peer_keys 2 set "table_wf peer_keys" "find_row peer_keys" "add_row peer_keys" drop_rows
  by (rule list_table) (simp add: peer_keys_def)

interpretation share_table: unique_table share_keys 1 set "table_wf share_keys" "find_row share_keys" "add_row share_keys" drop_rows
  by (rule list_table) (simp add: share_keys_def)

section \<open>Database calls\<close>

definition notFoundRow :: js_error where
  "notFoundRow = OtherError ''P2025''"

definition host_by_id :: "string \<Rightarrow> mesh \<Rightarrow> host_row option" where
  "host_by_id hid st = find_row host_keys 0 (Inl hid) (msHosts st)"

definition peer_by_id :: "string \<Rightarrow> mesh \<Rightarrow> wg_peer option" where
  "peer_by_id pid st = find_row peer_keys 0 pid (msPeers st)"

definition peer_by_hash :: "string \<Rightarrow> mesh \<Rightarrow> wg_peer option" where
  "peer_by_hash h st = find_row peer_keys 1 h (msPeers st)"

definition share_of :: "string \<Rightarrow> string \<Rightarrow> mesh \<Rightarrow> host_share option" where
  "share_of pid hid st = find_row share_keys 0 (pid, hid) (msShares st)"

definition setting :: "string \<Rightarrow> mesh \<Rightarrow> js option" where
  "setting k st = map_of (msSettings st) k"

definition upsert_setting :: "string \<Rightarrow> js \<Rightarrow> mesh \<Rightarrow> mesh" where
  "upsert_setting k v st = st\<lparr>msSettings := AList.update k v (msSettings st)\<rparr>"

definition create_host_row :: "host_row \<Rightarrow> unit mesh_op" where
  "create_host_row h st =
     (if (case hsPeerId h of None \<Rightarrow> False | Some p \<Rightarrow> peer_by_id p st = None) then (Inl foreignKeyViolation, st)
      else (case add_row host_keys h (msHosts st) of
              None \<Rightarrow> (Inl uniqueViolation, st)
            | Some t \<Rightarrow>
                (Inr (), st\<lparr>msHosts := t, msServer := (msServer st)\<lparr>hostIds := hostIds (msServer st) @ [hsId h]\<rparr>\<rparr>)))"

definition update_host_row :: "string \<Rightarrow> (host_row \<Rightarrow> host_row) \<Rightarrow> unit mesh_op" where
  "update_host_row hid f st =
     (if host_by_id hid st = None then (Inl notFoundRow, st)
      else (Inr (), st\<lparr>msHosts := change_rows (\<lambda>h. hsId h = hid) f (msHosts st)\<rparr>))"

definition update_hosts :: "(host_row \<Rightarrow> bool) \<Rightarrow> (host_row \<Rightarrow> host_row) \<Rightarrow> mesh \<Rightarrow> mesh" where
  "update_hosts P f st = st\<lparr>msHosts := change_rows P f (msHosts st)\<rparr>"

text \<open>Deleting hosts takes their shares and the access rows of users with them.\<close>

definition delete_hosts :: "(host_row \<Rightarrow> bool) \<Rightarrow> mesh \<Rightarrow> mesh" where
  "delete_hosts P st =
     (let gone = map hsId (filter P (msHosts st)); srv = msServer st in
      st\<lparr>msHosts := drop_rows P (msHosts st),
         msShares := drop_rows (\<lambda>s. shHostId s \<in> set gone) (msShares st),
         msServer := srv\<lparr>hostIds := filter (\<lambda>i. i \<notin> set gone) (hostIds srv),
                         hostAccess := drop_rows (\<lambda>h. haHostId h \<in> set gone) (hostAccess srv),
                         guestAccess := drop_rows (\<lambda>g. gaHostId g \<in> set gone) (guestAccess srv)\<rparr>\<rparr>)"

definition delete_host_row :: "string \<Rightarrow> unit mesh_op" where
  "delete_host_row hid st =
     (if host_by_id hid st = None then (Inl notFoundRow, st) else (Inr (), delete_hosts (\<lambda>h. hsId h = hid) st))"

definition create_peer_row :: "wg_peer \<Rightarrow> unit mesh_op" where
  "create_peer_row p st =
     (case add_row peer_keys p (msPeers st) of
        None \<Rightarrow> (Inl uniqueViolation, st) | Some t \<Rightarrow> (Inr (), st\<lparr>msPeers := t\<rparr>))"

definition update_peer_row :: "string \<Rightarrow> (wg_peer \<Rightarrow> wg_peer) \<Rightarrow> unit mesh_op" where
  "update_peer_row pid f st =
     (let t = change_rows (\<lambda>p. wgId p = pid) f (msPeers st) in
      if peer_by_id pid st = None then (Inl notFoundRow, st)
      else if table_wf peer_keys t then (Inr (), st\<lparr>msPeers := t\<rparr>) else (Inl uniqueViolation, st))"

definition delete_peer_row :: "string \<Rightarrow> unit mesh_op" where
  "delete_peer_row pid st =
     (if peer_by_id pid st = None then (Inl notFoundRow, st)
      else (let st1 = delete_hosts (\<lambda>h. hsPeerId h = Some pid) st in
            (Inr (), st1\<lparr>msPeers := drop_rows (\<lambda>p. wgId p = pid) (msPeers st1),
                         msShares := drop_rows (\<lambda>s. shPeerId s = pid) (msShares st1)\<rparr>)))"

text \<open>The transaction of \<open>deleteMany\<close> and the \<open>create\<close>s: all of it happens or nothing.\<close>

definition replace_shares :: "string \<Rightarrow> host_share list \<Rightarrow> unit mesh_op" where
  "replace_shares pid rs st =
     (if list_ex (\<lambda>s. peer_by_id (shPeerId s) st = None \<or> host_by_id (shHostId s) st = None) rs then (Inl foreignKeyViolation, st)
      else (case add_rows share_keys rs (drop_rows (\<lambda>s. shPeerId s = pid) (msShares st)) of
              None \<Rightarrow> (Inl uniqueViolation, st) | Some t \<Rightarrow> (Inr (), st\<lparr>msShares := t\<rparr>)))"

section \<open>Integrity\<close>

text \<open>Unique columns are unique, no row points nowhere, and the host ids the account tables refer to are
  those of the host table.\<close>

definition mesh_wf :: "mesh \<Rightarrow> bool" where
  "mesh_wf st \<longleftrightarrow>
     server_wf (msServer st) \<and> hostIds (msServer st) = map hsId (msHosts st)
     \<and> table_wf host_keys (msHosts st) \<and> table_wf peer_keys (msPeers st) \<and> table_wf share_keys (msShares st)
     \<and> (\<forall>s \<in> set (msShares st). shPeerId s \<in> wgId ` set (msPeers st) \<and> shHostId s \<in> hsId ` set (msHosts st))
     \<and> (\<forall>h \<in> set (msHosts st). \<forall>p. hsPeerId h = Some p \<longrightarrow> p \<in> wgId ` set (msPeers st))"

lemma mesh_wfD [guard_dests]:
  assumes "mesh_wf st"
  shows "table_wf host_keys (msHosts st)" "table_wf peer_keys (msPeers st)" "table_wf share_keys (msShares st)"
    "server_wf (msServer st)" "hostIds (msServer st) = map hsId (msHosts st)"
  using assms by (simp_all add: mesh_wf_def)

lemma host_by_id_iff: "mesh_wf st \<Longrightarrow> host_by_id hid st = Some h \<longleftrightarrow> h \<in> set (msHosts st) \<and> hsId h = hid"
  using host_table.find_by_iff [of "msHosts st" 0] by (simp add: host_by_id_def host_keys_def mesh_wf_def)

lemma peer_by_id_iff: "mesh_wf st \<Longrightarrow> peer_by_id pid st = Some p \<longleftrightarrow> p \<in> set (msPeers st) \<and> wgId p = pid"
  using peer_table.find_by_iff [of "msPeers st" 0] by (simp add: peer_by_id_def peer_keys_def mesh_wf_def)

lemma peer_by_hash_iff: "mesh_wf st \<Longrightarrow> peer_by_hash k st = Some p \<longleftrightarrow> p \<in> set (msPeers st) \<and> wgInboundHash p = k"
  using peer_table.find_by_iff [of "msPeers st" 1] by (simp add: peer_by_hash_def peer_keys_def mesh_wf_def)

lemma share_of_iff:
  "mesh_wf st \<Longrightarrow> share_of pid hid st = Some s \<longleftrightarrow> s \<in> set (msShares st) \<and> shPeerId s = pid \<and> shHostId s = hid"
  using share_table.find_by_iff [of "msShares st" 0] by (auto simp: share_of_def share_keys_def mesh_wf_def)

lemma host_missing: "host_by_id hid st = None \<longleftrightarrow> hid \<notin> hsId ` set (msHosts st)"
  by (auto simp: host_by_id_def find_row_def host_keys_def find_None_iff)

lemma peer_missing: "peer_by_id pid st = None \<longleftrightarrow> pid \<notin> wgId ` set (msPeers st)"
  by (auto simp: peer_by_id_def find_row_def peer_keys_def find_None_iff)

lemma change_rows_ids: "(\<And>r. g (f r) = g r) \<Longrightarrow> map g (change_rows P f t) = map g t"
  by (simp add: change_rows_def)

section \<open>The calls keep it\<close>

lemma preserves_client_cache [preserve_intros]: "preserves mesh_wf (client_cache_get h mk)"
  by (simp add: preserves_def client_cache_get_def mesh_wf_def Let_def split: option.split sum.split prod.split)

lemma wf_cheap [simp]:
  "mesh_wf (client_cache_invalidate i st) = mesh_wf st" "mesh_wf (notify_topic t l nm st) = mesh_wf st"
  "mesh_wf (upsert_setting k v st) = mesh_wf st" "mesh_wf (st\<lparr>msConf := c\<rparr>) = mesh_wf st"
  "mesh_wf (st\<lparr>msDisabled := b\<rparr>) = mesh_wf st" "mesh_wf (st\<lparr>msKicks := m\<rparr>) = mesh_wf st"
  "mesh_wf (st\<lparr>msWire := w\<rparr>) = mesh_wf st"
  by (simp_all add: mesh_wf_def client_cache_invalidate_def notify_topic_def upsert_setting_def)

lemma hosts_wf:
  assumes "mesh_wf st" "\<And>h. hsId (f h) = hsId h" "\<And>h. hsPeerId (f h) = hsPeerId h" "\<And>h. hsRemoteHostId (f h) = hsRemoteHostId h"
  shows "mesh_wf (update_hosts P f st)"
proof -
  have "table_wf host_keys (change_rows P f (msHosts st))"
  proof (rule change_rows_wf)
    show "host_keys (f r) = host_keys r" for r by (simp add: host_keys_def assms(2-4) split: option.split)
    show "table_wf host_keys (msHosts st)" by (rule mesh_wfD(1) [OF assms(1)])
  qed
  moreover have "map hsId (change_rows P f (msHosts st)) = map hsId (msHosts st)" by (rule change_rows_ids) (rule assms(2))
  moreover from this have "hsId ` set (change_rows P f (msHosts st)) = hsId ` set (msHosts st)"
    by (metis image_set)
  moreover have "\<forall>h \<in> set (change_rows P f (msHosts st)). \<forall>p. hsPeerId h = Some p \<longrightarrow> p \<in> wgId ` set (msPeers st)"
    using assms(1,3) by (auto simp: set_change_rows mesh_wf_def)
  ultimately show ?thesis using assms(1) by (simp add: update_hosts_def mesh_wf_def)
qed

lemma update_host_row_hosts:
  "update_host_row hid f st = (if host_by_id hid st = None then (Inl notFoundRow, st) else (Inr (), update_hosts (\<lambda>h. hsId h = hid) f st))"
  by (simp add: update_host_row_def update_hosts_def)

lemma preserves_update_host_row [preserve_intros]:
  "(\<And>h. hsId (f h) = hsId h) \<Longrightarrow> (\<And>h. hsPeerId (f h) = hsPeerId h) \<Longrightarrow> (\<And>h. hsRemoteHostId (f h) = hsRemoteHostId h)
   \<Longrightarrow> preserves mesh_wf (update_host_row hid f)"
  by (simp add: preserves_def update_host_row_hosts hosts_wf)

lemma delete_hosts_wf: "mesh_wf st \<Longrightarrow> mesh_wf (delete_hosts P st)"
proof -
  assume wf: "mesh_wf st"
  let ?gone = "hsId ` set (filter P (msHosts st))"
  have keep: "hsId h \<notin> ?gone" if "h \<in> set (msHosts st)" "\<not> P h" for h
    using that host_by_id_iff [OF wf, of "hsId h"] by auto (metis option.inject)
  then have ids: "filter (\<lambda>i. i \<notin> ?gone) (map hsId (msHosts st)) = map hsId (drop_rows P (msHosts st))"
    unfolding drop_rows_def filter_map o_def
    by (intro arg_cong [where f = "map hsId"] filter_cong) auto
  have srv: "server_wf ((msServer st)\<lparr>hostIds := filter (\<lambda>i. i \<notin> ?gone) (hostIds (msServer st)),
      hostAccess := drop_rows (\<lambda>h. haHostId h \<in> ?gone) (hostAccess (msServer st)),
      guestAccess := drop_rows (\<lambda>g. gaHostId g \<in> ?gone) (guestAccess (msServer st))\<rparr>)"
    using mesh_wfD(4) [OF wf] by (auto simp: server_wf_def intro: drop_rows_wf)
  have shares: "shHostId s \<in> hsId ` set (drop_rows P (msHosts st))" if "s \<in> set (msShares st)" "shHostId s \<notin> ?gone" for s
  proof -
    from that(1) wf obtain h where "h \<in> set (msHosts st)" "hsId h = shHostId s" by (auto simp: mesh_wf_def)
    moreover from this that(2) have "\<not> P h" by (metis (mono_tags, lifting) image_eqI mem_Collect_eq set_filter)
    ultimately show ?thesis by (metis (mono_tags, lifting) image_eqI mem_Collect_eq set_drop_rows)
  qed
  show ?thesis
    unfolding mesh_wf_def delete_hosts_def Let_def
    using wf srv ids shares by (auto simp: mesh_wf_def drop_rows_wf)
qed

lemma preserves_delete_host_row [preserve_intros]: "preserves mesh_wf (delete_host_row hid)"
  by (simp add: preserves_def delete_host_row_def delete_hosts_wf)

lemma preserves_create_host_row [preserve_intros]: "preserves mesh_wf (create_host_row h)"
proof -
  have "mesh_wf st'" if wf: "mesh_wf st" and run: "create_host_row h st = (r, st')" for st r st'
  proof -
    consider "st' = st" | t where "add_row host_keys h (msHosts st) = Some t" "\<forall>p. hsPeerId h = Some p \<longrightarrow> p \<in> wgId ` set (msPeers st)"
      "st' = st\<lparr>msHosts := t, msServer := (msServer st)\<lparr>hostIds := hostIds (msServer st) @ [hsId h]\<rparr>\<rparr>"
      using run by (cases "hsPeerId h"; cases "add_row host_keys h (msHosts st)")
        (simp_all add: create_host_row_def peer_missing split: if_splits)
    then show ?thesis
    proof cases
      case 2
      then have t: "t = msHosts st @ [h]" "table_wf host_keys t"
        using add_row_wf [OF mesh_wfD(1) [OF wf]] by (auto simp: add_row_Some)
      have "server_wf ((msServer st)\<lparr>hostIds := hostIds (msServer st) @ [hsId h]\<rparr>)"
        using mesh_wfD(4) [OF wf] by (auto simp: server_wf_def)
      with 2 t wf show ?thesis by (auto simp: mesh_wf_def)
    qed (simp add: wf)
  qed
  then show ?thesis unfolding preserves_def by (metis prod.collapse)
qed

lemma preserves_create_peer_row [preserve_intros]: "preserves mesh_wf (create_peer_row p)"
  by (auto simp: preserves_def create_peer_row_def mesh_wf_def add_row_Some split: option.split dest: add_row_wf)

lemma preserves_update_peer_row [preserve_intros]:
  assumes "\<And>p. wgId (f p) = wgId p"
  shows "preserves mesh_wf (update_peer_row pid f)"
proof -
  have "wgId ` set (change_rows P f t) = wgId ` set t" for P t by (rule change_rows_image) (rule assms)
  then show ?thesis by (auto simp: preserves_def update_peer_row_def mesh_wf_def Let_def)
qed

lemma preserves_delete_peer_row [preserve_intros]: "preserves mesh_wf (delete_peer_row pid)"
proof -
  have "mesh_wf (st1\<lparr>msPeers := drop_rows (\<lambda>p. wgId p = pid) (msPeers st1),
      msShares := drop_rows (\<lambda>s. shPeerId s = pid) (msShares st1)\<rparr>)"
    if "mesh_wf st" "st1 = delete_hosts (\<lambda>h. hsPeerId h = Some pid) st" for st st1
  proof -
    have wf: "mesh_wf st1" using that delete_hosts_wf by simp
    have "hsPeerId h \<noteq> Some pid" if "h \<in> set (msHosts st1)" for h
      using that \<open>st1 = _\<close> by (simp add: delete_hosts_def Let_def)
    with wf show ?thesis by (fastforce simp: mesh_wf_def intro: drop_rows_wf)
  qed
  then show ?thesis by (simp add: preserves_def delete_peer_row_def Let_def)
qed

lemma preserves_replace_shares [preserve_intros]: "preserves mesh_wf (replace_shares pid rs)"
proof -
  have "mesh_wf (st\<lparr>msShares := t\<rparr>)"
    if "mesh_wf st" "add_rows share_keys rs (drop_rows (\<lambda>s. shPeerId s = pid) (msShares st)) = Some t"
      "\<forall>s \<in> set rs. shPeerId s \<in> wgId ` set (msPeers st) \<and> shHostId s \<in> hsId ` set (msHosts st)" for st t
  proof -
    have "table_wf share_keys t" by (rule add_rows_wf [OF drop_rows_wf that(2)]) (use that(1) in \<open>simp add: mesh_wf_def\<close>)
    moreover have "t = drop_rows (\<lambda>s. shPeerId s = pid) (msShares st) @ rs" by (rule add_rows_append [OF that(2)])
    ultimately show ?thesis using that(1,3) by (auto simp: mesh_wf_def)
  qed
  then show ?thesis
    by (auto simp: preserves_def replace_shares_def list_ex_iff peer_missing host_missing split: option.split)
qed

end
