(* ===== verification/WireguardService.thy ===== *)
theory WireguardService imports Mesh WireguardConf CreateIp begin

text \<open>
  The tunnel and its peers: \<^verbatim>\<open>server/services/wireguard-service.ts\<close>.  The key functions of the
  crypto library, base64 and the order the database gives names are the fields of \<open>wg_lib\<close>; the random
  values, the new row id and the clock of a call are its \<open>draws\<close>.  Writes to the tunnel directory
  are taken to succeed.
\<close>

section \<open>Settings of the tunnel\<close>

record wg_lib =
  wlB64len :: "string \<Rightarrow> nat"
  wlPublicFromPrivate :: "string \<Rightarrow> string option"
  wlToBase64url :: "string \<Rightarrow> string"
  wlFromBase64url :: "string \<Rightarrow> string"
  wlByName :: "wg_peer list \<Rightarrow> wg_peer list"

record wg_draws =
  wdPrivateKey :: string
  wdPublicKey :: string
  wdToken :: string
  wdId :: string
  wdNow :: int

record wg_settings =
  wsEnabled :: bool
  wsInstanceName :: string
  wsAddress :: string
  wsPublicKey :: string
  wsEncryptedPrivateKey :: string
  wsServerPublicKey :: string
  wsServerEndpoint :: string
  wsAllowedIPs :: string
  wsKeepalive :: jsnum
  wsEncryptedPresharedKey :: string

definition WG_SETTING_KEY :: string where
  "WG_SETTING_KEY = ''wireguard''"

definition settings_js :: "wg_settings \<Rightarrow> js" where
  "settings_js s = JObj [
     (''enabled'', JBool (wsEnabled s)), (''instanceName'', JStr (wsInstanceName s)), (''address'', JStr (wsAddress s)),
     (''publicKey'', JStr (wsPublicKey s)), (''encryptedPrivateKey'', JStr (wsEncryptedPrivateKey s)),
     (''serverPublicKey'', JStr (wsServerPublicKey s)), (''serverEndpoint'', JStr (wsServerEndpoint s)),
     (''allowedIPs'', JStr (wsAllowedIPs s)), (''persistentKeepalive'', JNum (wsKeepalive s)),
     (''encryptedPresharedKey'', JStr (wsEncryptedPresharedKey s))]"

definition defaultInterfaceSettings :: "platform \<Rightarrow> wg_draws \<Rightarrow> js_error + wg_settings" where
  "defaultInterfaceSettings pf d =
     (case encryptSecret pf (wdPrivateKey d) of Inl e \<Rightarrow> Inl e
      | Inr c \<Rightarrow> Inr \<lparr>wsEnabled = False, wsInstanceName = ''Proxora'', wsAddress = ''10.88.0.2/24'',
          wsPublicKey = wdPublicKey d, wsEncryptedPrivateKey = c, wsServerPublicKey = [], wsServerEndpoint = [],
          wsAllowedIPs = ''10.88.0.0/24'', wsKeepalive = of_int_num 25, wsEncryptedPresharedKey = []\<rparr>)"

definition save_setting :: "string \<Rightarrow> js \<Rightarrow> unit mesh_op" where
  "save_setting k v = write_op (upsert_setting k v)"

definition fresh_interface :: "platform \<Rightarrow> wg_draws \<Rightarrow> wg_settings mesh_op" where
  "fresh_interface pf d =
     bind_op (lift_op (defaultInterfaceSettings pf d)) (\<lambda>s.
     bind_op (save_setting WG_SETTING_KEY (settings_js s)) (\<lambda>_. return_op s))"

definition or_text :: "string \<Rightarrow> string \<Rightarrow> string" where
  "or_text a b = (if a = [] then b else a)"

text \<open>\<open>String(rec.k ?? fallback)\<close>.\<close>

definition prop_text :: "js_record \<Rightarrow> string \<Rightarrow> string \<Rightarrow> string" where
  "prop_text rec k fallback = js_string (js_or (get_prop rec k) (JStr fallback))"

definition first_gateway :: "mesh \<Rightarrow> wg_peer option" where
  "first_gateway st =
     (case sort_key wgCreatedAt (filter (\<lambda>p. wgKind p = GATEWAY) (msPeers st)) of [] \<Rightarrow> None | g # _ \<Rightarrow> Some g)"

definition read_interface :: "js_record \<Rightarrow> mesh \<Rightarrow> wg_settings" where
  "read_interface rec st =
     (let key0 = trim (prop_text rec ''serverPublicKey'' []);
          end0 = trim (js_string (js_or (get_prop rec ''serverEndpoint'') (js_or (get_prop rec ''endpoint'') (JStr []))));
          ips0 = or_text (trim (prop_text rec ''allowedIPs'' ''10.88.0.0/24'')) ''10.88.0.0/24'';
          gateway = (if key0 = [] then first_gateway st else None);
          ka = js_number (js_or (get_prop rec ''persistentKeepalive'') (JNum (of_int_num 25)))
      in \<lparr>wsEnabled = js_truthy (get_prop rec ''enabled''),
          wsInstanceName = or_text (trim (prop_text rec ''instanceName'' ''Proxora'')) ''Proxora'',
          wsAddress = prop_text rec ''address'' ''10.88.0.2/24'',
          wsPublicKey = js_string (get_prop rec ''publicKey''),
          wsEncryptedPrivateKey = js_string (get_prop rec ''encryptedPrivateKey''),
          wsServerPublicKey = (case gateway of None \<Rightarrow> key0 | Some g \<Rightarrow> wgPublicKey g),
          wsServerEndpoint = (case gateway of None \<Rightarrow> end0 | Some g \<Rightarrow> or_text (wgEndpoint g) end0),
          wsAllowedIPs = (case gateway of None \<Rightarrow> ips0 | Some g \<Rightarrow> or_text (trim (wgAllowedIPs g)) ips0),
          wsKeepalive = (if ka = NaN \<or> ka = Fin 0 then of_int_num 25 else ka),
          wsEncryptedPresharedKey = prop_text rec ''encryptedPresharedKey'' []\<rparr>)"

text \<open>A row whose value is no object makes \<open>create\<close> collide with that row.\<close>

definition loadWireguardInterface :: "platform \<Rightarrow> wg_draws \<Rightarrow> wg_settings mesh_op" where
  "loadWireguardInterface pf d st =
     (case setting WG_SETTING_KEY st of
        None \<Rightarrow> fresh_interface pf d st
      | Some v \<Rightarrow>
          (if \<not> js_is_object v
           then (case defaultInterfaceSettings pf d of Inl e \<Rightarrow> (Inl e, st) | Inr _ \<Rightarrow> (Inl uniqueViolation, st))
           else (case (item_record v, v) of
               (Some rec, JObj _) \<Rightarrow>
                 (case (get_prop rec ''encryptedPrivateKey'', get_prop rec ''publicKey'') of
                    (JStr _, JStr _) \<Rightarrow> (Inr (read_interface rec st), st)
                  | _ \<Rightarrow> fresh_interface pf d st)
             | _ \<Rightarrow> fresh_interface pf d st)))"

section \<open>The configuration file\<close>

definition tunnel_ips :: "wg_settings \<Rightarrow> mesh \<Rightarrow> string" where
  "tunnel_ips settings st =
     fold (\<lambda>p allowed. if wgAddress p = [] then allowed else ensureIpInAllowedIps allowed (wgAddress p))
       (filter (\<lambda>p. wgKind p = PROXORA) (msPeers st)) (wsAllowedIPs settings)"

definition server_peer :: "wg_settings \<Rightarrow> string option \<Rightarrow> wg_conf_peer list" where
  "server_peer settings psk =
     (if wsServerPublicKey settings \<noteq> [] \<and> wsServerEndpoint settings \<noteq> []
      then [\<lparr>wpPublicKey = wsServerPublicKey settings, wpEndpoint = Some (wsServerEndpoint settings),
             wpAllowedIPs = or_text (wsAllowedIPs settings) ''10.88.0.0/24'',
             wpKeepalive = Some (wsKeepalive settings), wpPresharedKey = psk\<rparr>]
      else [])"

definition gateway_peer :: "wg_peer \<Rightarrow> wg_conf_peer list" where
  "gateway_peer peer =
     (let ips = peerAllowedIps (wgAddress peer) (wgAllowedIPs peer) in
      if ips = [] then []
      else [\<lparr>wpPublicKey = wgPublicKey peer, wpEndpoint = Some (wgEndpoint peer), wpAllowedIPs = ips,
             wpKeepalive = Some (of_int_num (if wgKeepalive peer = 0 then 25 else wgKeepalive peer)), wpPresharedKey = None\<rparr>])"

definition write_conf :: "platform \<Rightarrow> wg_lib \<Rightarrow> wg_settings \<Rightarrow> unit mesh_op" where
  "write_conf pf lib settings =
     bind_op (lift_op (decryptSecret pf (wsEncryptedPrivateKey settings))) (\<lambda>privateKey.
     bind_op (read_op (\<lambda>st. wlByName lib (filter (\<lambda>p. wgKind p = GATEWAY) (msPeers st)))) (\<lambda>gateways.
     bind_op (if wsEncryptedPresharedKey settings = [] then return_op None
              else bind_op (lift_op (decryptSecret pf (wsEncryptedPresharedKey settings))) (\<lambda>k. return_op (Some k))) (\<lambda>psk.
     write_op (\<lambda>st. st\<lparr>msConf := Some (buildWg0Conf (wlB64len lib)
       \<lparr>wqPrivateKey = privateKey, wqAddress = wsAddress settings,
        wqPeers = server_peer settings psk @ concat (map gateway_peer gateways)\<rparr> None)\<rparr>))))"

definition write_config_of :: "platform \<Rightarrow> wg_lib \<Rightarrow> wg_settings \<Rightarrow> unit mesh_op" where
  "write_config_of pf lib settings0 =
     bind_op (read_op (tunnel_ips settings0)) (\<lambda>allowed.
     let settings = settings0\<lparr>wsAllowedIPs := allowed\<rparr> in
     bind_op (when_op (allowed \<noteq> wsAllowedIPs settings0) (save_setting WG_SETTING_KEY (settings_js settings))) (\<lambda>_.
     if \<not> wsEnabled settings then write_op (\<lambda>st. st\<lparr>msDisabled := True\<rparr>)
     else bind_op (write_op (\<lambda>st. st\<lparr>msDisabled := False\<rparr>)) (\<lambda>_. write_conf pf lib settings)))"

definition writeWireguardConfig :: "platform \<Rightarrow> wg_lib \<Rightarrow> wg_draws \<Rightarrow> wg_settings option \<Rightarrow> unit mesh_op" where
  "writeWireguardConfig pf lib d cfg =
     bind_op (case cfg of Some s \<Rightarrow> return_op s | None \<Rightarrow> loadWireguardInterface pf d) (write_config_of pf lib)"

definition saveInterface :: "platform \<Rightarrow> wg_lib \<Rightarrow> wg_draws \<Rightarrow> wg_settings \<Rightarrow> unit mesh_op" where
  "saveInterface pf lib d s =
     bind_op (save_setting WG_SETTING_KEY (settings_js s)) (\<lambda>_. writeWireguardConfig pf lib d (Some s))"

definition host_of_address :: "string \<Rightarrow> string" where
  "host_of_address address = trim (hd (split_on CHR ''/'' (trim address)))"

definition ensureTunnelCoversHost :: "platform \<Rightarrow> wg_lib \<Rightarrow> wg_draws \<Rightarrow> string \<Rightarrow> unit mesh_op" where
  "ensureTunnelCoversHost pf lib d address =
     (let ip = host_of_address address in
      if interfaceIpv4 ip = None then return_op ()
      else bind_op (loadWireguardInterface pf d) (\<lambda>current.
        let nextAllowed = ensureIpInAllowedIps (wsAllowedIPs current) ip in
        when_op (nextAllowed \<noteq> wsAllowedIPs current) (saveInterface pf lib d (current\<lparr>wsAllowedIPs := nextAllowed\<rparr>))))"

record public_interface =
  piEnabled :: bool
  piInstanceName :: string
  piAddress :: string
  piPublicKey :: string
  piServerPublicKey :: string
  piServerEndpoint :: string
  piAllowedIPs :: string
  piKeepalive :: jsnum
  piHasPresharedKey :: bool
  piServerPeerSnippet :: string

definition publicInterface :: "wg_settings \<Rightarrow> public_interface" where
  "publicInterface cfg =
     \<lparr>piEnabled = wsEnabled cfg, piInstanceName = wsInstanceName cfg, piAddress = wsAddress cfg, piPublicKey = wsPublicKey cfg,
      piServerPublicKey = wsServerPublicKey cfg, piServerEndpoint = wsServerEndpoint cfg, piAllowedIPs = wsAllowedIPs cfg,
      piKeepalive = wsKeepalive cfg, piHasPresharedKey = (wsEncryptedPresharedKey cfg \<noteq> []),
      piServerPeerSnippet = serverPeerSnippet (wsPublicKey cfg) (wsAddress cfg)\<rparr>"

section \<open>Changing the interface\<close>

record interface_patch =
  ipEnabled :: "bool option"
  ipInstanceName :: "string option"
  ipAddress :: "string option"
  ipServerPublicKey :: "string option"
  ipServerEndpoint :: "string option"
  ipAllowedIPs :: "string option"
  ipKeepalive :: "int option"

definition interfacePatchSchema :: "interface_patch \<Rightarrow> bool" where
  "interfacePatchSchema p \<longleftrightarrow>
     opt_len 1 80 (ipInstanceName p) \<and> opt_len 7 48 (ipAddress p) \<and> opt_len 0 64 (ipServerPublicKey p)
     \<and> opt_len 0 200 (ipServerEndpoint p) \<and> opt_len 0 400 (ipAllowedIPs p)
     \<and> (case ipKeepalive p of None \<Rightarrow> True | Some n \<Rightarrow> 0 \<le> n \<and> n \<le> 120)"

definition or_old :: "'a option \<Rightarrow> 'a \<Rightarrow> 'a" where
  "or_old new old = (case new of None \<Rightarrow> old | Some v \<Rightarrow> v)"

definition apply_patch :: "interface_patch \<Rightarrow> wg_settings \<Rightarrow> wg_settings" where
  "apply_patch p s = s\<lparr>
     wsEnabled := or_old (ipEnabled p) (wsEnabled s), wsInstanceName := or_old (ipInstanceName p) (wsInstanceName s),
     wsAddress := or_old (ipAddress p) (wsAddress s), wsServerPublicKey := or_old (ipServerPublicKey p) (wsServerPublicKey s),
     wsServerEndpoint := or_old (ipServerEndpoint p) (wsServerEndpoint s),
     wsAllowedIPs := or_old (ipAllowedIPs p) (wsAllowedIPs s),
     wsKeepalive := or_old (map_option of_int_num (ipKeepalive p)) (wsKeepalive s)\<rparr>"

definition patchWireguardInterface :: "platform \<Rightarrow> wg_lib \<Rightarrow> wg_draws \<Rightarrow> interface_patch \<Rightarrow> public_interface mesh_op" where
  "patchWireguardInterface pf lib d patch =
     bind_op (guard_op (interfacePatchSchema patch) (ZodError [])) (\<lambda>_.
     bind_op (loadWireguardInterface pf d) (\<lambda>current.
     bind_op (guard_op (\<not> (truthy (ipAddress patch) \<and> interfaceIpv4 (the (ipAddress patch)) = None))
       (ValidationError ''WireGuard address must be IPv4 CIDR, e.g. 10.88.0.2/24'')) (\<lambda>_.
     bind_op (guard_op (\<not> (truthy (ipServerPublicKey patch) \<and> trim (the (ipServerPublicKey patch)) \<noteq> []
                            \<and> \<not> isWireguardKey (wlB64len lib) (the (ipServerPublicKey patch))))
       (ValidationError ''Invalid WireGuard server public key'')) (\<lambda>_.
     let next_settings = apply_patch patch current in
     bind_op (saveInterface pf lib d next_settings) (\<lambda>_. return_op (publicInterface next_settings))))))"

record gateway_input =
  giName :: string
  giPublicKey :: string
  giEndpoint :: string
  giAllowedIPs :: string

definition gatewaySchema :: "gateway_input \<Rightarrow> bool" where
  "gatewaySchema g \<longleftrightarrow>
     opt_len 1 80 (Some (giName g)) \<and> giPublicKey g \<noteq> [] \<and> opt_len 1 200 (Some (giEndpoint g)) \<and> opt_len 1 400 (Some (giAllowedIPs g))"

definition addGatewayPeer :: "platform \<Rightarrow> wg_lib \<Rightarrow> wg_draws \<Rightarrow> gateway_input \<Rightarrow> public_interface mesh_op" where
  "addGatewayPeer pf lib d body =
     bind_op (guard_op (gatewaySchema body) (ZodError [])) (\<lambda>_.
     bind_op (guard_op (isWireguardKey (wlB64len lib) (giPublicKey body)) (ValidationError ''Invalid WireGuard public key'')) (\<lambda>_.
     bind_op (loadWireguardInterface pf d) (\<lambda>current.
     let next_settings = current\<lparr>wsServerPublicKey := trim (giPublicKey body), wsServerEndpoint := trim (giEndpoint body),
                          wsAllowedIPs := or_text (trim (giAllowedIPs body)) (wsAllowedIPs current)\<rparr> in
     bind_op (saveInterface pf lib d next_settings) (\<lambda>_. return_op (publicInterface next_settings)))))"

definition encrypt_opt :: "platform \<Rightarrow> string option \<Rightarrow> js_error + string" where
  "encrypt_opt pf s = (if truthy s then encryptSecret pf (the s) else Inr [])"

definition importWireguardConf :: "platform \<Rightarrow> wg_lib \<Rightarrow> wg_draws \<Rightarrow> string \<Rightarrow> public_interface mesh_op" where
  "importWireguardConf pf lib d raw =
     bind_op (lift_op (case parseWgQuickConf (wlB64len lib) raw of Inl m \<Rightarrow> Inl (ValidationError m) | Inr c \<Rightarrow> Inr c)) (\<lambda>parsed.
     let peer = (case find (\<lambda>p. truthy (wpEndpoint p)) (wqPeers parsed) of Some p \<Rightarrow> Some p
                 | None \<Rightarrow> (case wqPeers parsed of [] \<Rightarrow> None | p # _ \<Rightarrow> Some p)) in
     bind_op (need_op (ValidationError ''Client config needs a [Peer] with Endpoint'')
       (case peer of None \<Rightarrow> None | Some p \<Rightarrow> if truthy (wpEndpoint p) then Some p else None)) (\<lambda>p.
     bind_op (need_op (ValidationError ''Invalid PrivateKey'') (wlPublicFromPrivate lib (wqPrivateKey parsed))) (\<lambda>publicKey.
     bind_op (loadWireguardInterface pf d) (\<lambda>current.
     bind_op (lift_op (encryptSecret pf (wqPrivateKey parsed))) (\<lambda>encPrivate.
     bind_op (lift_op (encrypt_opt pf (wpPresharedKey p))) (\<lambda>encPsk.
     let next_settings = current\<lparr>wsEnabled := True, wsAddress := wqAddress parsed, wsPublicKey := publicKey,
           wsEncryptedPrivateKey := encPrivate, wsServerPublicKey := wpPublicKey p, wsServerEndpoint := the (wpEndpoint p),
           wsAllowedIPs := sanitizeClientAllowedIps (wpAllowedIPs p) (wqAddress parsed),
           wsKeepalive := (case wpKeepalive p of None \<Rightarrow> of_int_num 25 | Some n \<Rightarrow> n), wsEncryptedPresharedKey := encPsk\<rparr> in
     bind_op (saveInterface pf lib d next_settings) (\<lambda>_. return_op (publicInterface next_settings))))))))"

section \<open>Integrity\<close>

lemma preserves_save_setting [preserve_intros]: "preserves mesh_wf (save_setting k v)"
  unfolding save_setting_def by (rule preserves_write) simp

lemma preserves_fresh_interface [preserve_intros]: "preserves mesh_wf (fresh_interface pf d)"
  unfolding fresh_interface_def by (intro preserve_intros)

lemma preserves_loadWireguardInterface [preserve_intros]: "preserves mesh_wf (loadWireguardInterface pf d)"
  using preservesD [OF preserves_fresh_interface [of pf d]]
  by (auto simp: preserves_def loadWireguardInterface_def split: option.split js.split sum.split prod.split)

lemma preserves_conf_writes [preserve_intros]:
  "preserves mesh_wf (write_op (\<lambda>st. st\<lparr>msConf := c\<rparr>))" "preserves mesh_wf (write_op (\<lambda>st. st\<lparr>msDisabled := b\<rparr>))"
  by (rule preserves_write, simp)+

lemma preserves_write_config [preserve_intros]: "preserves mesh_wf (write_config_of pf lib s)"
  unfolding write_config_of_def write_conf_def Let_def by (intro preserve_intros)

lemma preserves_writeWireguardConfig [preserve_intros]: "preserves mesh_wf (writeWireguardConfig pf lib d cfg)"
  unfolding writeWireguardConfig_def by (intro preserve_intros)

lemma preserves_saveInterface [preserve_intros]: "preserves mesh_wf (saveInterface pf lib d s)"
  unfolding saveInterface_def by (intro preserve_intros)

lemma preserves_ensureTunnelCoversHost [preserve_intros]: "preserves mesh_wf (ensureTunnelCoversHost pf lib d address)"
  unfolding ensureTunnelCoversHost_def Let_def by (intro preserve_intros)

lemma preserves_interface_ops [preserve_intros]:
  "preserves mesh_wf (patchWireguardInterface pf lib d patch)" "preserves mesh_wf (addGatewayPeer pf lib d body)"
  "preserves mesh_wf (importWireguardConf pf lib d raw)"
  unfolding patchWireguardInterface_def addGatewayPeer_def importWireguardConf_def Let_def by (intro preserve_intros)+

end
