(* ===== verification/PeerService.thy ===== *)
theory PeerService imports WireguardService begin

text \<open>
  The peers of an installation and the hosts shared with them: the second half of
  \<^verbatim>\<open>server/services/wireguard-service.ts\<close>.
\<close>

section \<open>Views of a peer\<close>

record peer_view =
  pvId :: string
  pvName :: string
  pvKind :: peer_kind
  pvPublicKey :: string
  pvEndpoint :: string
  pvAddress :: string
  pvProxoraPort :: int
  pvAllowedIPs :: string
  pvPaired :: bool
  pvLastSeenAt :: "int option"

definition serializePeer :: "wg_peer \<Rightarrow> peer_view" where
  "serializePeer p =
     \<lparr>pvId = wgId p, pvName = wgName p, pvKind = wgKind p, pvPublicKey = wgPublicKey p, pvEndpoint = wgEndpoint p,
      pvAddress = wgAddress p, pvProxoraPort = wgProxoraPort p, pvAllowedIPs = wgAllowedIPs p,
      pvPaired = (wgEncryptedOutbound p \<noteq> []), pvLastSeenAt = wgLastSeenAt p\<rparr>"

definition buildInvite :: "wg_lib \<Rightarrow> wg_settings \<Rightarrow> string \<Rightarrow> string" where
  "buildInvite lib cfg token = encodeWireguardInvite (wlToBase64url lib) (wsInstanceName cfg) token"

definition alnum :: "char \<Rightarrow> bool" where
  "alnum c \<longleftrightarrow> is_digit c \<or> is_upper c \<or> in_range 97 122 c"

definition isReachableHost :: "string \<Rightarrow> bool" where
  "isReachableHost v =
     (let host = host_of_address v in
      if interfaceIpv4 host \<noteq> None then True
      else host \<noteq> [] \<and> alnum (hd host) \<and> list_all (\<lambda>c. alnum c \<or> c = CHR ''.'' \<or> c = CHR ''-'') (tl host) \<and> length host \<le> 251)"

section \<open>Pairing\<close>

definition valid_port :: "int \<Rightarrow> bool" where
  "valid_port n \<longleftrightarrow> 1 \<le> n \<and> n \<le> 65535"

definition secret_hash :: "platform \<Rightarrow> string \<Rightarrow> string mesh_op" where
  "secret_hash pf secret =
     bind_op (guard_op (12 \<le> length secret) (ValidationError ''Pairing secret must be at least 12 characters'')) (\<lambda>_.
     return_op (sha256 pf secret))"

definition createProxoraPeer ::
  "platform \<Rightarrow> wg_lib \<Rightarrow> wg_draws \<Rightarrow> string \<Rightarrow> string option \<Rightarrow> int option \<Rightarrow> string option \<Rightarrow> peer_view mesh_op" where
  "createProxoraPeer pf lib d name address proxoraPort pairingSecret =
     (let host = trim (or_old address []); port = or_old proxoraPort 3000; secret = trim (or_old pairingSecret []) in
      bind_op (guard_op (host = [] \<or> isReachableHost host) (ValidationError ''Invalid Proxora IP'')) (\<lambda>_.
      bind_op (secret_hash pf secret) (\<lambda>h.
      bind_op (read_op (peer_by_hash h)) (\<lambda>clash.
      bind_op (guard_op (clash = None) (ValidationError ''This pairing secret is already used'')) (\<lambda>_.
      bind_op (lift_op (encryptSecret pf secret)) (\<lambda>encrypted.
      let row = \<lparr>wgId = wdId d, wgName = trim name, wgKind = PROXORA, wgPublicKey = [], wgEndpoint = [], wgAddress = host,
            wgProxoraPort = (if valid_port port then port else 3000), wgAllowedIPs = [], wgKeepalive = 25,
            wgInboundHash = h, wgEncryptedInbound = encrypted, wgEncryptedOutbound = encrypted, wgLastSeenAt = None,
            wgUpdatingUntil = None, wgUpdatingFrom = None, wgUpdatingTo = None, wgCreatedAt = wdNow d\<rparr> in
      bind_op (create_peer_row row) (\<lambda>_.
      bind_op (when_op (host \<noteq> []) (ensureTunnelCoversHost pf lib d host)) (\<lambda>_.
      return_op (serializePeer row)))))))))"

record peer_update =
  puName :: "string option"
  puAddress :: "string option"
  puPort :: "int option"
  puSecret :: "string option"

definition proxora_peer :: "string \<Rightarrow> string \<Rightarrow> wg_peer mesh_op" where
  "proxora_peer peerId message =
     bind_op (read_op (peer_by_id peerId)) (\<lambda>found.
     bind_op (need_op (NotFoundError ''Peer not found'') found) (\<lambda>peer.
     bind_op (guard_op (wgKind peer = PROXORA) (ValidationError message)) (\<lambda>_. return_op peer)))"

definition new_secret :: "platform \<Rightarrow> string \<Rightarrow> string option \<Rightarrow> (string \<times> string) option mesh_op" where
  "new_secret pf peerId pairingSecret =
     (case pairingSecret of None \<Rightarrow> return_op None
      | Some raw \<Rightarrow>
          bind_op (secret_hash pf (trim raw)) (\<lambda>h.
          bind_op (read_op (peer_by_hash h)) (\<lambda>clash.
          bind_op (guard_op (case clash of None \<Rightarrow> True | Some c \<Rightarrow> wgId c = peerId)
            (ValidationError ''This pairing secret is already used'')) (\<lambda>_.
          bind_op (lift_op (encryptSecret pf (trim raw))) (\<lambda>encrypted.
          return_op (Some (h, encrypted)))))))"

definition apply_peer_update :: "peer_update \<Rightarrow> (string \<times> string) option \<Rightarrow> wg_peer \<Rightarrow> wg_peer" where
  "apply_peer_update u secret p =
     (let p1 = p\<lparr>wgName := (case puName u of None \<Rightarrow> wgName p | Some n \<Rightarrow> or_text (trim n) (wgName p)),
                 wgAddress := (case puAddress u of None \<Rightarrow> wgAddress p | Some a \<Rightarrow> trim a),
                 wgProxoraPort := or_old (puPort u) (wgProxoraPort p)\<rparr> in
      (case secret of None \<Rightarrow> p1
       | Some (h, c) \<Rightarrow> p1\<lparr>wgInboundHash := h, wgEncryptedInbound := c, wgEncryptedOutbound := c\<rparr>))"

definition updateProxoraPeer :: "platform \<Rightarrow> wg_lib \<Rightarrow> wg_draws \<Rightarrow> string \<Rightarrow> peer_update \<Rightarrow> peer_view mesh_op" where
  "updateProxoraPeer pf lib d peerId u =
     bind_op (proxora_peer peerId ''Only Proxora peers can be updated'') (\<lambda>peer.
     bind_op (guard_op (case puAddress u of None \<Rightarrow> True | Some a \<Rightarrow> trim a = [] \<or> isReachableHost (trim a))
       (ValidationError ''Invalid Proxora IP'')) (\<lambda>_.
     bind_op (guard_op (case puPort u of None \<Rightarrow> True | Some n \<Rightarrow> valid_port n) (ValidationError ''Invalid port'')) (\<lambda>_.
     bind_op (new_secret pf peerId (puSecret u)) (\<lambda>secret.
     bind_op (update_peer_row peerId (apply_peer_update u secret)) (\<lambda>_.
     bind_op (when_op (puAddress u \<noteq> None \<or> puPort u \<noteq> None \<or> secret \<noteq> None)
       (write_op (\<lambda>st. fold (\<lambda>h. client_cache_invalidate (hsId h)) (filter (\<lambda>h. hsPeerId h = Some peerId) (msHosts st)) st))) (\<lambda>_.
     bind_op (case puAddress u of None \<Rightarrow> return_op () | Some a \<Rightarrow>
       when_op (trim a \<noteq> []) (ensureTunnelCoversHost pf lib d (trim a))) (\<lambda>_.
     return_op (serializePeer (apply_peer_update u secret peer)))))))))"

section \<open>Invites\<close>

definition existing_key :: "wg_invite \<Rightarrow> mesh \<Rightarrow> wg_peer option" where
  "existing_key invite st =
     (case wiPublicKey invite of None \<Rightarrow> None
      | Some k \<Rightarrow> find (\<lambda>p. wgPublicKey p = k \<and> wgKind p = PROXORA) (msPeers st))"

definition waiting_peer :: "mesh \<Rightarrow> wg_peer option" where
  "waiting_peer st =
     (case sort_key (\<lambda>p. - wgCreatedAt p) (filter (\<lambda>p. wgKind p = PROXORA \<and> wgEncryptedOutbound p = []) (msPeers st)) of
        [] \<Rightarrow> None | p # _ \<Rightarrow> Some p)"

definition accept_invite :: "wg_invite \<Rightarrow> string \<Rightarrow> string \<Rightarrow> wg_peer \<Rightarrow> wg_peer" where
  "accept_invite invite suggestedHost encrypted p =
     p\<lparr>wgName := wiName invite, wgKind := PROXORA, wgPublicKey := or_old (wiPublicKey invite) [],
       wgEncryptedOutbound := encrypted, wgAddress := or_text (wgAddress p) suggestedHost\<rparr>"

definition invited_peer :: "platform \<Rightarrow> wg_draws \<Rightarrow> wg_invite \<Rightarrow> string \<Rightarrow> wg_peer mesh_op" where
  "invited_peer pf d invite encrypted =
     bind_op (read_op (\<lambda>st. case existing_key invite st of Some p \<Rightarrow> Some p | None \<Rightarrow> waiting_peer st)) (\<lambda>known.
     let suggestedHost = trim (hd (split_on CHR ''/'' (or_old (wiAddress invite) []))) in
     case known of
       Some p \<Rightarrow>
         bind_op (update_peer_row (wgId p) (accept_invite invite suggestedHost encrypted)) (\<lambda>_.
         return_op (accept_invite invite suggestedHost encrypted p))
     | None \<Rightarrow>
         bind_op (lift_op (encryptSecret pf (wdToken d))) (\<lambda>encInbound.
         let row = accept_invite invite suggestedHost encrypted
               \<lparr>wgId = wdId d, wgName = [], wgKind = PROXORA, wgPublicKey = [], wgEndpoint = [], wgAddress = [],
                wgProxoraPort = 3000, wgAllowedIPs = [], wgKeepalive = 25, wgInboundHash = sha256 pf (wdToken d),
                wgEncryptedInbound = encInbound, wgEncryptedOutbound = [], wgLastSeenAt = None, wgUpdatingUntil = None,
                wgUpdatingFrom = None, wgUpdatingTo = None, wgCreatedAt = wdNow d\<rparr> in
         bind_op (create_peer_row row) (\<lambda>_. return_op row)))"

definition importWireguardInvite :: "platform \<Rightarrow> wg_lib \<Rightarrow> wg_draws \<Rightarrow> string \<Rightarrow> (peer_view \<times> string) mesh_op" where
  "importWireguardInvite pf lib d raw =
     bind_op (lift_op (case parseWireguardInvite (wlFromBase64url lib) raw of
         Inl _ \<Rightarrow> Inl (ValidationError ''Invalid invite'') | Inr i \<Rightarrow> Inr i)) (\<lambda>invite.
     bind_op (loadWireguardInterface pf d) (\<lambda>cfg.
     bind_op (lift_op (encryptSecret pf (wiToken invite))) (\<lambda>encrypted.
     bind_op (invited_peer pf d invite encrypted) (\<lambda>peer.
     bind_op (lift_op (decryptSecret pf (wgEncryptedInbound peer))) (\<lambda>token.
     return_op (serializePeer peer, buildInvite lib cfg token))))))"

definition inviteForPeer :: "platform \<Rightarrow> wg_lib \<Rightarrow> wg_draws \<Rightarrow> string \<Rightarrow> string mesh_op" where
  "inviteForPeer pf lib d peerId =
     bind_op (loadWireguardInterface pf d) (\<lambda>cfg.
     bind_op (proxora_peer peerId ''Only Proxora peers have invites'') (\<lambda>peer.
     bind_op (lift_op (decryptSecret pf (wgEncryptedInbound peer))) (\<lambda>token. return_op (buildInvite lib cfg token))))"

definition deletePeer :: "platform \<Rightarrow> wg_lib \<Rightarrow> wg_draws \<Rightarrow> string \<Rightarrow> unit mesh_op" where
  "deletePeer pf lib d pid =
     bind_op (read_op (peer_by_id pid)) (\<lambda>found.
     bind_op (need_op (NotFoundError ''Peer not found'') found) (\<lambda>_.
     bind_op (delete_peer_row pid) (\<lambda>_. writeWireguardConfig pf lib d None)))"

section \<open>Shares\<close>

record share_view =
  svHostId :: string
  svLevel :: share_level
  svPermissions :: "string list option"

definition listPeersWithShares :: "wg_lib \<Rightarrow> mesh \<Rightarrow> (peer_view \<times> share_view list) list" where
  "listPeersWithShares lib st =
     map (\<lambda>p. (serializePeer p,
       map (\<lambda>s. \<lparr>svHostId = shHostId s, svLevel = shLevel s,
                 svPermissions = (if shPermissions s = [] then None else Some (shPermissions s))\<rparr>)
           (filter (\<lambda>s. shPeerId s = wgId p) (msShares st)))) (wlByName lib (msPeers st))"

record share_input =
  siHostId :: string
  siLevel :: string
  siPermissions :: "string list option"

text \<open>\<open>levels[levelName]\<close>: the two lower-case members every object inherits are found as well.\<close>

datatype level_lookup = NoLevel | Level share_level | Inherited

definition level_text :: "share_level \<Rightarrow> string" where
  "level_text l = (case l of ViewLevel \<Rightarrow> ''view'' | ControlLevel \<Rightarrow> ''control'' | CreateLevel \<Rightarrow> ''create'')"

definition lookup_level :: "string \<Rightarrow> level_lookup" where
  "lookup_level name =
     (if name = ''view'' then Level ViewLevel else if name = ''control'' then Level ControlLevel
      else if name = ''create'' then Level CreateLevel
      else if name = ''constructor'' \<or> name = ''__proto__'' then Inherited else NoLevel)"

definition share_row :: "share_input \<Rightarrow> string \<times> level_lookup \<times> string list" where
  "share_row s =
     (let perms = (case siPermissions s of None \<Rightarrow> [] | Some ps \<Rightarrow> sanitizePermissions ps);
          levelName = or_text (to_lower (siLevel s)) (if perms = [] then [] else level_text (shareLevelFromPermissions perms));
          found = lookup_level levelName;
          defaults = permissionsForShareLevel (case found of Level l \<Rightarrow> l | _ \<Rightarrow> CreateLevel)
      in (siHostId s, found,
          if found \<noteq> NoLevel \<and> length perms = length defaults \<and> list_all (\<lambda>p. p \<in> set perms) defaults then [] else perms))"

definition local_shares :: "share_input list \<Rightarrow> mesh \<Rightarrow> (string \<times> level_lookup \<times> string list) list" where
  "local_shares shares st =
     (let localIds = map hsId (filter (\<lambda>h. hsOrigin h = LOCAL) (msHosts st)) in
      filter (\<lambda>(h, l, _). l \<noteq> NoLevel \<and> h \<in> set localIds) (map share_row shares))"

definition share_rows :: "string \<Rightarrow> (string \<times> level_lookup \<times> string list) list \<Rightarrow> host_share list" where
  "share_rows peerId rows =
     concat (map (\<lambda>(h, l, ps). case l of Level v \<Rightarrow> [\<lparr>shPeerId = peerId, shHostId = h, shLevel = v, shPermissions = ps\<rparr>] | _ \<Rightarrow> []) rows)"

text \<open>A level that is no enum value is refused when the transaction runs.\<close>

definition setPeerShares :: "wg_lib \<Rightarrow> string \<Rightarrow> share_input list \<Rightarrow> (peer_view \<times> share_view list) list mesh_op" where
  "setPeerShares lib peerId shares =
     bind_op (proxora_peer peerId ''Only Proxora peers can receive host shares'') (\<lambda>_.
     bind_op (read_op (local_shares shares)) (\<lambda>next_shares.
     bind_op (guard_op (list_all (\<lambda>(_, l, _). l \<noteq> Inherited) next_shares) (OtherError ''Invalid value for argument level'')) (\<lambda>_.
     bind_op (replace_shares peerId (share_rows peerId next_shares)) (\<lambda>_. read_op (listPeersWithShares lib)))))"

section \<open>Talking to a peer\<close>

definition findPeerByInboundToken :: "platform \<Rightarrow> string \<Rightarrow> mesh \<Rightarrow> wg_peer option" where
  "findPeerByInboundToken pf token st = peer_by_hash (sha256 pf token) st"

definition peerHttpBase :: "wg_peer \<Rightarrow> js_error + string" where
  "peerHttpBase peer =
     (let host = host_of_address (wgAddress peer);
          port = (if 0 < wgProxoraPort peer then wgProxoraPort peer else 3000);
          wrapped = (if CHR '':'' \<in> set host \<and> \<not> starts_with host ''['' then ''['' @ host @ '']'' else host)
      in if host = [] then Inl (ValidationError (''Set the colleague'' @ [CHR 0x27] @ ''s Proxora IP first''))
         else Inr (''http://'' @ wrapped @ '':'' @ int_str port))"

text \<open>The message has a dash outside the characters of the model.\<close>

definition not_paired :: string where
  "not_paired = ''Peer is not paired yet - import their invite''"

definition outboundToken :: "platform \<Rightarrow> wg_peer \<Rightarrow> js_error + string" where
  "outboundToken pf peer =
     (if wgEncryptedOutbound peer = [] then Inl (ValidationError not_paired)
      else decryptSecret pf (wgEncryptedOutbound peer))"

section \<open>Integrity\<close>

lemma preserves_invalidate_all [preserve_intros]:
  fixes f :: "mesh \<Rightarrow> host_row list"
  shows "preserves mesh_wf (write_op (\<lambda>st. fold (\<lambda>h. client_cache_invalidate (hsId h)) (f st) st))"
proof -
  have "mesh_wf (fold (\<lambda>h. client_cache_invalidate (hsId h)) hs st) = mesh_wf st" for hs :: "host_row list" and st
    by (induction hs arbitrary: st) simp_all
  then show ?thesis by (simp add: preserves_def write_op_def)
qed

lemma peer_ids [simp]:
  "wgId (apply_peer_update u secret p) = wgId p" "wgId (accept_invite i h c p) = wgId p"
  by (simp_all add: apply_peer_update_def accept_invite_def Let_def split: option.split)

lemma preserves_secret [preserve_intros]: "preserves mesh_wf (secret_hash pf s)" "preserves mesh_wf (new_secret pf pid s')"
  unfolding secret_hash_def new_secret_def by (intro preserve_intros)+

lemma preserves_proxora_peer [preserve_intros]: "preserves mesh_wf (proxora_peer pid message)"
  unfolding proxora_peer_def by (intro preserve_intros)

lemma preserves_createProxoraPeer [preserve_intros]: "preserves mesh_wf (createProxoraPeer pf lib d name address port secret)"
  unfolding createProxoraPeer_def Let_def by (intro preserve_intros)

lemma preserves_updateProxoraPeer [preserve_intros]: "preserves mesh_wf (updateProxoraPeer pf lib d pid u)"
  unfolding updateProxoraPeer_def by (intro preserve_intros) simp_all

lemma preserves_invites [preserve_intros]:
  "preserves mesh_wf (importWireguardInvite pf lib d raw)" "preserves mesh_wf (inviteForPeer pf lib d pid)"
  unfolding importWireguardInvite_def invited_peer_def inviteForPeer_def Let_def by (intro preserve_intros; simp)+

lemma preserves_deletePeer [preserve_intros]: "preserves mesh_wf (deletePeer pf lib d pid)"
  unfolding deletePeer_def by (intro preserve_intros)

lemma preserves_setPeerShares [preserve_intros]: "preserves mesh_wf (setPeerShares lib pid shares)"
  unfolding setPeerShares_def by (intro preserve_intros)

end
