(* ===== verification/PeerUpdate.thy ===== *)
theory PeerUpdate imports PeerService begin

text \<open>
  A peer that updates itself announces it, and its hosts rest meanwhile: \<^verbatim>\<open>lib/peer-update.ts\<close> and
  \<^verbatim>\<open>server/services/peer-update.ts\<close>.  The texts of notices are left out; what a notice is about,
  its level and name are kept.
\<close>

definition PEER_UPDATE_TTL_MS :: int where
  "PEER_UPDATE_TTL_MS = 20 * 60 * 1000"

definition PEER_UPDATE_LAST_ERROR :: string where
  "PEER_UPDATE_LAST_ERROR = ''Proxora update in progress''"

definition isPeerUpdating :: "int option \<Rightarrow> int \<Rightarrow> bool" where
  "isPeerUpdating updatingUntil now = (case updatingUntil of None \<Rightarrow> False | Some t \<Rightarrow> now < t)"

definition peerUpdateDeadline :: "int \<Rightarrow> int \<Rightarrow> int" where
  "peerUpdateDeadline now ttlMs = now + ttlMs"

definition shouldSkipPeerOfflineNotify :: "host_origin \<Rightarrow> int option \<Rightarrow> int \<Rightarrow> bool" where
  "shouldSkipPeerOfflineNotify origin updatingUntil now \<longleftrightarrow> origin = PEER \<and> isPeerUpdating updatingUntil now"

record peer_signal =
  sgUpdating :: bool
  sgFrom :: "string option"
  sgTo :: "string option"

definition trimmed_opt :: "string option \<Rightarrow> string option" where
  "trimmed_opt s = (case s of None \<Rightarrow> None | Some v \<Rightarrow> if trim v = [] then None else Some (trim v))"

definition shared_by :: "string \<Rightarrow> host_row \<Rightarrow> bool" where
  "shared_by pid h \<longleftrightarrow> hsPeerId h = Some pid \<and> hsOrigin h = PEER"

definition rest_host :: "host_row \<Rightarrow> host_row" where
  "rest_host h = h\<lparr>hsState := MAINTENANCE, hsLastError := Some PEER_UPDATE_LAST_ERROR\<rparr>"

datatype update_outcome = Recovered | Expired

definition wake_host :: "update_outcome \<Rightarrow> host_row \<Rightarrow> host_row" where
  "wake_host outcome h =
     (if outcome = Expired then h\<lparr>hsState := ERROR, hsLastError := Some ''Peer did not return after Proxora update''\<rparr>
      else h\<lparr>hsState := CONNECTING, hsLastError := None\<rparr>)"

definition finishPeerUpdate :: "wg_peer \<Rightarrow> update_outcome \<Rightarrow> bool mesh_op" where
  "finishPeerUpdate peer outcome st =
     (if \<not> list_ex (\<lambda>p. wgId p = wgId peer \<and> wgUpdatingUntil p \<noteq> None) (msPeers st) then (Inr False, st)
      else
        (let st1 = st\<lparr>msPeers := change_rows (\<lambda>p. wgId p = wgId peer \<and> wgUpdatingUntil p \<noteq> None)
               (\<lambda>p. p\<lparr>wgUpdatingUntil := None, wgUpdatingFrom := None, wgUpdatingTo := None\<rparr>) (msPeers st)\<rparr>;
             st2 = update_hosts (\<lambda>h. shared_by (wgId peer) h \<and> hsState h = MAINTENANCE) (wake_host outcome) st1
         in (Inr True, notify_topic ''peer.update'' (if outcome = Expired then ''warning'' else ''success'') (wgName peer) st2)))"

definition applyIncomingPeerUpdate :: "int \<Rightarrow> wg_peer \<Rightarrow> peer_signal \<Rightarrow> unit mesh_op" where
  "applyIncomingPeerUpdate now peer signal =
     (if sgUpdating signal
      then bind_op (update_peer_row (wgId peer) (\<lambda>p. p\<lparr>wgUpdatingUntil := Some (peerUpdateDeadline now PEER_UPDATE_TTL_MS),
                wgUpdatingFrom := trimmed_opt (sgFrom signal), wgUpdatingTo := trimmed_opt (sgTo signal),
                wgLastSeenAt := Some now\<rparr>)) (\<lambda>_.
           bind_op (write_op (update_hosts (shared_by (wgId peer)) rest_host)) (\<lambda>_.
           when_op (\<not> isPeerUpdating (wgUpdatingUntil peer) now)
             (write_op (notify_topic ''peer.update'' ''warning'' (wgName peer)))))
      else bind_op (finishPeerUpdate peer Recovered) (\<lambda>_. return_op ()))"

definition expireStalePeerUpdates :: "int \<Rightarrow> unit mesh_op" where
  "expireStalePeerUpdates now =
     bind_op (read_op (\<lambda>st. filter (\<lambda>p. case wgUpdatingUntil p of None \<Rightarrow> False | Some t \<Rightarrow> t \<le> now) (msPeers st))) (\<lambda>stale.
     each_op (\<lambda>p. bind_op (finishPeerUpdate p Expired) (\<lambda>_. return_op ())) stale)"

definition outage_expected :: "int \<Rightarrow> string \<Rightarrow> mesh \<Rightarrow> host_row option" where
  "outage_expected now hostId st =
     (case host_by_id hostId st of None \<Rightarrow> None
      | Some h \<Rightarrow>
          (if hsOrigin h \<noteq> PEER \<or> \<not> truthy (hsPeerId h) then None
           else (case peer_by_id (the (hsPeerId h)) st of None \<Rightarrow> None
             | Some p \<Rightarrow> if isPeerUpdating (wgUpdatingUntil p) now then Some h else None)))"

definition absorbPeerUpdateOutage :: "int \<Rightarrow> string \<Rightarrow> bool mesh_op" where
  "absorbPeerUpdateOutage now hostId =
     bind_op (read_op (outage_expected now hostId)) (\<lambda>expected.
     case expected of None \<Rightarrow> return_op False
     | Some h \<Rightarrow>
         bind_op (when_op (hsState h \<noteq> MAINTENANCE) (update_host_row (hsId h) rest_host)) (\<lambda>_. return_op True))"

definition notePeerHostReachable :: "string option \<Rightarrow> unit mesh_op" where
  "notePeerHostReachable peerId =
     (if \<not> truthy peerId then return_op ()
      else bind_op (read_op (peer_by_id (the peerId))) (\<lambda>found.
        case found of None \<Rightarrow> return_op ()
        | Some peer \<Rightarrow> when_op (wgUpdatingUntil peer \<noteq> None)
            (bind_op (finishPeerUpdate peer Recovered) (\<lambda>_. return_op ()))))"

text \<open>The announcement to the peers: where the requests go, with which token and body; \<open>None\<close> is a peer
  that is skipped, an error a request that is not sent.\<close>

definition announce_request :: "platform \<Rightarrow> peer_signal \<Rightarrow> wg_peer \<Rightarrow> (js_error + string \<times> string \<times> string) option" where
  "announce_request pf signal peer =
     (if wgEncryptedOutbound peer = [] \<or> wgAddress peer = [] then None
      else Some (case outboundToken pf peer of Inl e \<Rightarrow> Inl e
        | Inr token \<Rightarrow> (case peerHttpBase peer of Inl e \<Rightarrow> Inl e
          | Inr base \<Rightarrow> Inr (base @ ''/api/federation/peer-status'', ''Bearer '' @ token,
              JSON_stringify (JObj [(''updating'', JBool (sgUpdating signal)),
                (''from'', (case sgFrom signal of None \<Rightarrow> JNull | Some s \<Rightarrow> JStr s)),
                (''to'', (case sgTo signal of None \<Rightarrow> JNull | Some s \<Rightarrow> JStr s))])))))"

definition announcePeerUpdateToPeers :: "platform \<Rightarrow> peer_signal \<Rightarrow> mesh \<Rightarrow> (js_error + string \<times> string \<times> string) option list" where
  "announcePeerUpdateToPeers pf signal st =
     map (announce_request pf signal) (filter (\<lambda>p. wgKind p = PROXORA) (msPeers st))"

section \<open>Integrity\<close>

lemma preserves_finishPeerUpdate [preserve_intros]: "preserves mesh_wf (finishPeerUpdate peer outcome)"
proof -
  have peers: "mesh_wf (st\<lparr>msPeers := change_rows P (\<lambda>p. p\<lparr>wgUpdatingUntil := None, wgUpdatingFrom := None, wgUpdatingTo := None\<rparr>) (msPeers st)\<rparr>)"
    if "mesh_wf st" for st P
  proof -
    have "wgId ` set (change_rows P (\<lambda>p. p\<lparr>wgUpdatingUntil := None, wgUpdatingFrom := None, wgUpdatingTo := None\<rparr>) (msPeers st))
        = wgId ` set (msPeers st)" by (rule change_rows_image) simp
    with that show ?thesis by (auto simp: mesh_wf_def peer_keys_def intro!: change_rows_wf)
  qed
  then show ?thesis
    by (simp add: preserves_def finishPeerUpdate_def Let_def hosts_wf wake_host_def)
qed

lemma preserves_rest [preserve_intros]: "preserves mesh_wf (write_op (update_hosts P rest_host))"
  by (rule preserves_write) (simp add: hosts_wf rest_host_def)

lemma preserves_notify [preserve_intros]: "preserves mesh_wf (write_op (notify_topic t l n))"
  by (rule preserves_write) simp

lemma preserves_applyIncomingPeerUpdate [preserve_intros]: "preserves mesh_wf (applyIncomingPeerUpdate now peer signal)"
  unfolding applyIncomingPeerUpdate_def by (intro preserve_intros) simp_all

lemma preserves_expireStalePeerUpdates [preserve_intros]: "preserves mesh_wf (expireStalePeerUpdates now)"
  unfolding expireStalePeerUpdates_def by (intro preserve_intros)

lemma preserves_absorbPeerUpdateOutage [preserve_intros]: "preserves mesh_wf (absorbPeerUpdateOutage now hostId)"
  unfolding absorbPeerUpdateOutage_def by (intro preserve_intros) (simp_all add: rest_host_def)

lemma preserves_notePeerHostReachable [preserve_intros]: "preserves mesh_wf (notePeerHostReachable peerId)"
  unfolding notePeerHostReachable_def by (intro preserve_intros)

end
