(* ===== verification/HostService.thy ===== *)
theory HostService imports PeerUpdate begin

text \<open>
  Hosts: \<^verbatim>\<open>server/services/host-service.ts\<close>, \<^verbatim>\<open>server/proxmox/username.ts\<close> and the routes under
  \<^verbatim>\<open>app/api/hosts\<close>.  \<open>heTest\<close> is \<open>testConnection\<close> of a client, which catches every error; \<open>heByName\<close>
  is the order the database gives.  The workers of a probe run one after the other here.
\<close>

section \<open>Input\<close>

record test_result =
  trOk :: bool
  trError :: "string option"
  trVersion :: "string option"
  trClusterName :: "string option"
  trIsCluster :: bool

record host_env =
  heTest :: "proxmox_config \<Rightarrow> test_result"
  heByName :: "host_row list \<Rightarrow> host_row list"
  heNow :: int
  heId :: string

record host_input =
  hiName :: string
  hiUrl :: string
  hiAuthType :: auth_type
  hiUsername :: string
  hiTokenId :: "string option"
  hiSecret :: string
  hiAllowInsecureTls :: bool
  hiNotes :: "string option"

definition http_url :: "string \<Rightarrow> bool" where
  "http_url v \<longleftrightarrow> starts_with (to_lower v) ''http://'' \<or> starts_with (to_lower v) ''https://''"

definition host_name_chars :: "string \<Rightarrow> bool" where
  "host_name_chars s \<longleftrightarrow> s \<noteq> [] \<and> list_all (\<lambda>c. alnum c \<or> c \<in> set ''_.-'') s"

definition url_ok :: "string \<Rightarrow> bool" where
  "url_ok v \<longleftrightarrow> v \<noteq> [] \<and>
     (http_url v \<or> (case split_on CHR '':'' v of [a, b] \<Rightarrow> host_name_chars a \<and> all_digits b | _ \<Rightarrow> False) \<or> host_name_chars v)"

definition hostInputSchema :: "host_input \<Rightarrow> bool" where
  "hostInputSchema h \<longleftrightarrow> opt_len 1 80 (Some (hiName h)) \<and> url_ok (hiUrl h) \<and> hiUsername h \<noteq> [] \<and> hiSecret h \<noteq> []
     \<and> opt_len 0 2000 (hiNotes h)"

text \<open>In an update the outer option of \<open>huTokenId\<close> and \<open>huNotes\<close> is presence, the inner one \<open>null\<close>.\<close>

record host_update =
  huName :: "string option"
  huUrl :: "string option"
  huAuthType :: "auth_type option"
  huUsername :: "string option"
  huTokenId :: "string option option"
  huSecret :: "string option"
  huAllowInsecureTls :: "bool option"
  huNotes :: "string option option"

definition hostUpdateSchema :: "host_update \<Rightarrow> bool" where
  "hostUpdateSchema h \<longleftrightarrow> opt_len 1 80 (huName h) \<and> (case huUrl h of None \<Rightarrow> True | Some u \<Rightarrow> url_ok u)
     \<and> huUsername h \<noteq> Some [] \<and> huSecret h \<noteq> Some []
     \<and> (case huNotes h of None \<Rightarrow> True | Some n \<Rightarrow> opt_len 0 2000 n)"

definition normalizeUrl :: "string \<Rightarrow> string" where
  "normalizeUrl url =
     (let trimmed = trim url in
      if http_url trimmed then strip_trailing CHR ''/'' trimmed
      else if CHR '':'' \<in> set trimmed \<and> all_digits (last (split_on CHR '':'' trimmed)) then ''https://'' @ trimmed
      else ''https://'' @ trimmed @ '':8006'')"

definition normalizeProxmoxUsername :: "string \<Rightarrow> string" where
  "normalizeProxmoxUsername username =
     (let trimmed = trim username in
      if trimmed = [] then trimmed else if CHR ''@'' \<in> set trimmed then trimmed else trimmed @ ''@pam'')"

section \<open>What users see\<close>

record public_host =
  hvId :: string
  hvName :: string
  hvUrl :: string
  hvAuthType :: auth_type
  hvUsername :: string
  hvTokenId :: "string option"
  hvAllowInsecureTls :: bool
  hvState :: conn_state
  hvLastSeenAt :: "int option"
  hvLastError :: "string option"
  hvVersion :: "string option"
  hvClusterName :: "string option"
  hvIsClusterMember :: bool
  hvNotes :: "string option"
  hvCreatedAt :: int
  hvOrigin :: host_origin
  hvPeerId :: "string option"
  hvPeerName :: "string option"
  hvShareLevel :: "string option"
  hvSharePermissions :: "string list option"

definition toPublicHost :: "string option \<Rightarrow> host_row \<Rightarrow> public_host" where
  "toPublicHost peerName h =
     \<lparr>hvId = hsId h, hvName = hsName h, hvUrl = (if hsOrigin h = PEER then [] else hsUrl h), hvAuthType = hsAuthType h,
      hvUsername = hsUsername h, hvTokenId = hsTokenId h, hvAllowInsecureTls = hsAllowInsecureTls h, hvState = hsState h,
      hvLastSeenAt = hsLastSeenAt h, hvLastError = hsLastError h, hvVersion = hsVersion h, hvClusterName = hsClusterName h,
      hvIsClusterMember = hsIsClusterMember h, hvNotes = hsNotes h, hvCreatedAt = hsCreatedAt h, hvOrigin = hsOrigin h,
      hvPeerId = hsPeerId h, hvPeerName = peerName, hvShareLevel = map_option level_text (hsShareLevel h),
      hvSharePermissions = (if hsOrigin h = PEER \<and> hsSharePermissions h \<noteq> [] then Some (hsSharePermissions h) else None)\<rparr>"

definition redactHostForGuest :: "public_host \<Rightarrow> public_host" where
  "redactHostForGuest h = h\<lparr>hvName := [], hvUrl := [], hvAuthType := API_TOKEN, hvUsername := [], hvTokenId := None,
     hvAllowInsecureTls := False, hvLastSeenAt := None, hvLastError := None, hvVersion := None, hvClusterName := None,
     hvNotes := None, hvPeerId := None, hvPeerName := None\<rparr>"

definition filterHostsForUser :: "session_user \<Rightarrow> host_row list \<Rightarrow> host_row list" where
  "filterHostsForUser user hosts =
     (case allowedHostIds user of None \<Rightarrow> hosts | Some ids \<Rightarrow> filter (\<lambda>h. hsId h \<in> set ids) hosts)"

definition peer_name_of :: "host_row \<Rightarrow> mesh \<Rightarrow> string option" where
  "peer_name_of h st = (case hsPeerId h of None \<Rightarrow> None | Some p \<Rightarrow> map_option wgName (peer_by_id p st))"

definition listHosts :: "host_env \<Rightarrow> session_user \<Rightarrow> mesh \<Rightarrow> public_host list" where
  "listHosts env user st =
     (let mapped = map (\<lambda>h. toPublicHost (peer_name_of h st) h) (filterHostsForUser user (heByName env (msHosts st))) in
      if userHasPermission (Some (holder_of user)) ''hosts.view'' None None then mapped else map redactHostForGuest mapped)"

definition get_host_or_throw :: "string \<Rightarrow> session_user option \<Rightarrow> host_row mesh_op" where
  "get_host_or_throw hid user =
     bind_op (read_op (host_by_id hid)) (\<lambda>found.
     bind_op (need_op (NotFoundError ''Host not found'') found) (\<lambda>h.
     bind_op (guard_op (case user of None \<Rightarrow> True | Some u \<Rightarrow> canAccessHost u (hsId h)) (NotFoundError ''Host not found'')) (\<lambda>_.
     return_op h)))"

section \<open>Clients\<close>

definition clientConfigFromHost :: "host_row \<Rightarrow> string \<Rightarrow> proxmox_config" where
  "clientConfigFromHost h secret =
     \<lparr>pcUrl = hsUrl h, pcAuthType = hsAuthType h, pcUsername = normalizeProxmoxUsername (hsUsername h),
      pcTokenId = (if hsAuthType h = PASSWORD then None else hsTokenId h), pcSecret = secret,
      pcAllowInsecureTls = hsAllowInsecureTls h, pcFederation = None\<rparr>"

definition assertLocalHost :: "host_row \<Rightarrow> unit mesh_op" where
  "assertLocalHost h =
     guard_op (hsOrigin h \<noteq> PEER) (ForbiddenError ''This host is shared by a peer and cannot be administered here'')"

definition peer_client :: "string \<Rightarrow> string \<Rightarrow> string \<Rightarrow> proxmox_config" where
  "peer_client base token remoteHostId =
     \<lparr>pcUrl = base, pcAuthType = API_TOKEN, pcUsername = ''peer@pve'', pcTokenId = Some ''federation'', pcSecret = token,
      pcAllowInsecureTls = True,
      pcFederation = Some \<lparr>ftBaseUrl = base, ftToken = token, ftRemoteHostId = remoteHostId\<rparr>\<rparr>"

definition local_client :: "platform \<Rightarrow> host_row \<Rightarrow> js_error + proxmox_config" where
  "local_client pf h =
     (case decryptSecret pf (hsEncryptedSecret h) of Inl e \<Rightarrow> Inl e | Inr secret \<Rightarrow> Inr (clientConfigFromHost h secret))"

definition clientForHost :: "platform \<Rightarrow> host_row \<Rightarrow> proxmox_config mesh_op" where
  "clientForHost pf h =
     (if hsOrigin h = PEER \<or> starts_with (hsUrl h) ''federation://''
      then bind_op (guard_op (truthy (hsPeerId h) \<and> truthy (hsRemoteHostId h)) (ValidationError ''Peer host is incomplete'')) (\<lambda>_.
           bind_op (read_op (peer_by_id (the (hsPeerId h)))) (\<lambda>found.
           bind_op (need_op (HostUnreachableError (hsName h) (''Set the colleague'' @ [CHR 0x27] @ ''s Proxora IP first''))
             (case found of None \<Rightarrow> None | Some p \<Rightarrow> if wgAddress p = [] then None else Some p)) (\<lambda>peer.
           bind_op (lift_op (outboundToken pf peer)) (\<lambda>token.
           bind_op (lift_op (peerHttpBase peer)) (\<lambda>base.
           client_cache_get h (\<lambda>_. Inr (peer_client base token (the (hsRemoteHostId h)))))))))
      else client_cache_get h (local_client pf))"

definition raw_config :: "string \<Rightarrow> auth_type \<Rightarrow> string \<Rightarrow> string option \<Rightarrow> string \<Rightarrow> bool \<Rightarrow> proxmox_config" where
  "raw_config url authType username tokenId secret insecure =
     \<lparr>pcUrl = normalizeUrl url, pcAuthType = authType, pcUsername = normalizeProxmoxUsername username,
      pcTokenId = (if authType = PASSWORD then None else tokenId), pcSecret = secret, pcAllowInsecureTls = insecure,
      pcFederation = None\<rparr>"

definition testRawConnection :: "host_env \<Rightarrow> host_input \<Rightarrow> test_result" where
  "testRawConnection env i =
     heTest env (raw_config (hiUrl i) (hiAuthType i) (hiUsername i) (hiTokenId i) (hiSecret i) (hiAllowInsecureTls i))"

section \<open>Connection states\<close>

definition host_notice :: "host_row option \<Rightarrow> conn_state \<Rightarrow> notice option" where
  "host_notice host next_state =
     (case host of None \<Rightarrow> None
      | Some h \<Rightarrow>
          (if hsState h = next_state \<or> hsState h = CONNECTING \<or> hsState h = MAINTENANCE then None
           else if next_state = ONLINE then Some \<lparr>ntTopic = ''host.online'', ntLevel = ''success'', ntName = hsName h\<rparr>
           else if next_state = ERROR \<or> next_state = OFFLINE
           then Some \<lparr>ntTopic = ''host.offline'', ntLevel = ''error'', ntName = hsName h\<rparr> else None))"

definition notifyHostState :: "host_row option \<Rightarrow> conn_state \<Rightarrow> mesh \<Rightarrow> mesh" where
  "notifyHostState host next_state st =
     (case host_notice host next_state of None \<Rightarrow> st | Some n \<Rightarrow> st\<lparr>msNotices := msNotices st @ [n]\<rparr>)"

definition set_error :: "string \<Rightarrow> host_row \<Rightarrow> host_row" where
  "set_error message h = h\<lparr>hsState := ERROR, hsLastError := Some message\<rparr>"

definition set_online :: "int \<Rightarrow> host_row \<Rightarrow> host_row" where
  "set_online now h = h\<lparr>hsState := ONLINE, hsLastSeenAt := Some now, hsLastError := None\<rparr>"

definition set_tested :: "int \<Rightarrow> test_result \<Rightarrow> host_row \<Rightarrow> host_row" where
  "set_tested now r h = (set_online now h)\<lparr>hsVersion := (case trVersion r of None \<Rightarrow> hsVersion h | Some v \<Rightarrow> Some v),
     hsClusterName := trClusterName r, hsIsClusterMember := trIsCluster r\<rparr>"

definition applyTestResult :: "host_env \<Rightarrow> string \<Rightarrow> test_result \<Rightarrow> unit mesh_op" where
  "applyTestResult env hostId r =
     bind_op (read_op (host_by_id hostId)) (\<lambda>current.
     if trOk r
     then bind_op (update_host_row hostId (set_tested (heNow env) r)) (\<lambda>_.
          bind_op (write_op (notifyHostState current ONLINE)) (\<lambda>_.
          case current of None \<Rightarrow> return_op ()
          | Some h \<Rightarrow> when_op (hsOrigin h = PEER) (notePeerHostReachable (hsPeerId h))))
     else bind_op (absorbPeerUpdateOutage (heNow env) hostId) (\<lambda>absorbed.
          if absorbed then return_op ()
          else bind_op (update_host_row hostId (set_error (or_old (trError r) ''Connection failed''))) (\<lambda>_.
               write_op (notifyHostState current ERROR))))"

text \<open>What \<open>error.message\<close> is; the connection layer throws no \<open>ZodError\<close> and no rate limit error.\<close>

definition error_message :: "js_error \<Rightarrow> string" where
  "error_message e = (case e of AppError _ m _ \<Rightarrow> m | OtherError m \<Rightarrow> m | ZodError ms \<Rightarrow> join '', '' ms | StatusError _ \<Rightarrow> ''Too many requests'')"

section \<open>Operations on hosts\<close>

definition new_host :: "host_env \<Rightarrow> host_input \<Rightarrow> string \<Rightarrow> host_row" where
  "new_host env i encrypted =
     \<lparr>hsId = heId env, hsName = hiName i, hsUrl = normalizeUrl (hiUrl i), hsAuthType = hiAuthType i,
      hsUsername = normalizeProxmoxUsername (hiUsername i), hsTokenId = (if hiAuthType i = PASSWORD then None else hiTokenId i),
      hsEncryptedSecret = encrypted, hsAllowInsecureTls = hiAllowInsecureTls i, hsState = CONNECTING, hsLastSeenAt = None,
      hsLastError = None, hsVersion = None, hsClusterName = None, hsIsClusterMember = False, hsNotes = hiNotes i,
      hsOrigin = LOCAL, hsPeerId = None, hsRemoteHostId = None, hsShareLevel = None, hsSharePermissions = [],
      hsCreatedAt = heNow env\<rparr>"

definition createHost :: "platform \<Rightarrow> host_env \<Rightarrow> host_input \<Rightarrow> host_row mesh_op" where
  "createHost pf env i =
     (let url = normalizeUrl (hiUrl i) in
      bind_op (read_op (\<lambda>st. list_ex (\<lambda>h. hsName h = hiName i \<or> hsUrl h = url) (msHosts st))) (\<lambda>existing.
      bind_op (guard_op (\<not> existing) (ConflictError ''A host with this name or URL already exists'')) (\<lambda>_.
      bind_op (guard_op (\<not> (hiAuthType i = API_TOKEN \<and> \<not> truthy (hiTokenId i)))
        (ValidationError ''Token ID is required for API token authentication'')) (\<lambda>_.
      bind_op (lift_op (encryptSecret pf (hiSecret i))) (\<lambda>encrypted.
      bind_op (create_host_row (new_host env i encrypted)) (\<lambda>_.
      bind_op (applyTestResult env (heId env) (testRawConnection env (i\<lparr>hiUrl := url\<rparr>))) (\<lambda>_.
      bind_op (read_op (host_by_id (heId env))) (need_op notFoundRow))))))))"

definition apply_host_update :: "host_update \<Rightarrow> string option \<Rightarrow> host_row \<Rightarrow> host_row" where
  "apply_host_update u encrypted h = h\<lparr>
     hsName := (if truthy (huName u) then the (huName u) else hsName h),
     hsUrl := (if truthy (huUrl u) then normalizeUrl (the (huUrl u)) else hsUrl h),
     hsAuthType := or_old (huAuthType u) (hsAuthType h),
     hsUsername := (if truthy (huUsername u) then normalizeProxmoxUsername (the (huUsername u)) else hsUsername h),
     hsTokenId := (if huAuthType u = Some PASSWORD then None else or_old (huTokenId u) (hsTokenId h)),
     hsAllowInsecureTls := or_old (huAllowInsecureTls u) (hsAllowInsecureTls h),
     hsNotes := or_old (huNotes u) (hsNotes h),
     hsEncryptedSecret := or_old encrypted (hsEncryptedSecret h)\<rparr>"

definition updateHost :: "platform \<Rightarrow> string \<Rightarrow> host_update \<Rightarrow> session_user \<Rightarrow> host_row mesh_op" where
  "updateHost pf hid u user =
     bind_op (get_host_or_throw hid (Some user)) (\<lambda>h.
     bind_op (assertLocalHost h) (\<lambda>_.
     bind_op (if truthy (huSecret u) then bind_op (lift_op (encryptSecret pf (the (huSecret u)))) (\<lambda>c. return_op (Some c))
              else return_op None) (\<lambda>encrypted.
     bind_op (update_host_row (hsId h) (apply_host_update u encrypted)) (\<lambda>_.
     bind_op (write_op (client_cache_invalidate (hsId h))) (\<lambda>_. return_op (apply_host_update u encrypted h))))))"

definition deleteHost :: "string \<Rightarrow> session_user \<Rightarrow> unit mesh_op" where
  "deleteHost hid user =
     bind_op (get_host_or_throw hid (Some user)) (\<lambda>h.
     bind_op (assertLocalHost h) (\<lambda>_.
     bind_op (write_op (client_cache_invalidate (hsId h))) (\<lambda>_. delete_host_row (hsId h))))"

text \<open>The test of one host, with the client of a peer host dropped afterwards.\<close>

definition run_test :: "platform \<Rightarrow> host_env \<Rightarrow> host_row \<Rightarrow> test_result mesh_op" where
  "run_test pf env h =
     (if hsOrigin h = PEER
      then bind_op (clientForHost pf h) (\<lambda>client.
           finally_op (bind_op (applyTestResult env (hsId h) (heTest env client)) (\<lambda>_. return_op (heTest env client)))
             (client_cache_invalidate (hsId h)))
      else bind_op (lift_op (decryptSecret pf (hsEncryptedSecret h))) (\<lambda>secret.
           let r = heTest env (raw_config (hsUrl h) (hsAuthType h) (hsUsername h) (hsTokenId h) secret (hsAllowInsecureTls h)) in
           bind_op (applyTestResult env (hsId h) r) (\<lambda>_. return_op r)))"

definition testHost :: "platform \<Rightarrow> host_env \<Rightarrow> string \<Rightarrow> session_user \<Rightarrow> test_result mesh_op" where
  "testHost pf env hid user = bind_op (get_host_or_throw hid (Some user)) (run_test pf env)"

definition probe_failed :: "host_env \<Rightarrow> host_row \<Rightarrow> js_error \<Rightarrow> unit mesh_op" where
  "probe_failed env h e =
     bind_op (absorbPeerUpdateOutage (heNow env) (hsId h)) (\<lambda>absorbed.
     if absorbed then return_op ()
     else bind_op (update_host_row (hsId h) (set_error (error_message e))) (\<lambda>_. write_op (notifyHostState (Some h) ERROR)))"

definition probe_host :: "platform \<Rightarrow> host_env \<Rightarrow> host_row \<Rightarrow> unit mesh_op" where
  "probe_host pf env h =
     (if hsState h = MAINTENANCE then return_op ()
      else catch_op (bind_op (run_test pf env h) (\<lambda>_. return_op ())) (probe_failed env h))"

definition probeAllHosts :: "platform \<Rightarrow> host_env \<Rightarrow> unit mesh_op" where
  "probeAllHosts pf env =
     bind_op (expireStalePeerUpdates (heNow env)) (\<lambda>_.
     bind_op (read_op (\<lambda>st. heByName env (msHosts st))) (each_op (probe_host pf env)))"

definition host_failed :: "host_env \<Rightarrow> host_row \<Rightarrow> js_error \<Rightarrow> 'a mesh_op" where
  "host_failed env h e =
     (if \<not> isHostTransportFailure e then throw_op e
      else bind_op
        (if hsState h = MAINTENANCE then return_op ()
         else bind_op (absorbPeerUpdateOutage (heNow env) (hsId h)) (\<lambda>absorbed.
           if absorbed then return_op ()
           else bind_op (update_host_row (hsId h) (set_error (error_message e))) (\<lambda>_.
                bind_op (write_op (notifyHostState (Some h) ERROR)) (\<lambda>_.
                write_op (\<lambda>st. st\<lparr>msKicks := Suc (msKicks st)\<rparr>)))))
        (\<lambda>_. throw_op (HostUnreachableError (hsName h) (error_message e))))"

definition withHostClient ::
  "platform \<Rightarrow> host_env \<Rightarrow> string \<Rightarrow> session_user \<Rightarrow> (proxmox_config \<Rightarrow> host_row \<Rightarrow> 'a mesh_op) \<Rightarrow> 'a mesh_op" where
  "withHostClient pf env hostId user f =
     bind_op (get_host_or_throw hostId (Some user)) (\<lambda>h.
     catch_op
       (bind_op (clientForHost pf h) (\<lambda>client.
        bind_op (f client h) (\<lambda>result.
        bind_op (when_op (hsState h \<noteq> ONLINE \<and> hsState h \<noteq> MAINTENANCE)
          (bind_op (update_host_row (hsId h) (set_online (heNow env))) (\<lambda>_. write_op (notifyHostState (Some h) ONLINE)))) (\<lambda>_.
        return_op result))))
       (host_failed env h))"

definition setHostState :: "platform \<Rightarrow> host_env \<Rightarrow> string \<Rightarrow> bool \<Rightarrow> session_user \<Rightarrow> host_row mesh_op" where
  "setHostState pf env hid maintenance user =
     bind_op (get_host_or_throw hid (Some user)) (\<lambda>h.
     bind_op (assertLocalHost h) (\<lambda>_.
     if maintenance
     then bind_op (update_host_row hid (\<lambda>h. h\<lparr>hsState := MAINTENANCE, hsLastError := None\<rparr>)) (\<lambda>_.
          return_op (h\<lparr>hsState := MAINTENANCE, hsLastError := None\<rparr>))
     else bind_op (update_host_row hid (\<lambda>h. h\<lparr>hsState := CONNECTING, hsLastError := None\<rparr>)) (\<lambda>_.
          bind_op (testHost pf env hid user) (\<lambda>_. get_host_or_throw hid (Some user)))))"

section \<open>Routes\<close>

text \<open>The handlers inside \<open>apiRoute\<close>.  The audit row refers to the host by a foreign key, and
  \<open>writeAuditLog\<close> swallows the error of an insert that breaks one.\<close>

definition audit_host :: "session_user \<Rightarrow> string \<Rightarrow> host_row \<Rightarrow> unit mesh_op" where
  "audit_host user action h =
     write_op (\<lambda>st. if hsId h \<notin> set (hostIds (msServer st)) then st
       else st\<lparr>msServer := writeAuditLog
         \<lparr>auUserId = Some (suId user), auAction = action, auTarget = Some (hsName h), auSuccess = True\<rparr> (msServer st)\<rparr>)"

definition hosts_POST :: "platform \<Rightarrow> host_env \<Rightarrow> session_user \<Rightarrow> host_input \<Rightarrow> public_host mesh_op" where
  "hosts_POST pf env user body =
     bind_op (guard_op (hostInputSchema body) (ZodError [])) (\<lambda>_.
     bind_op (createHost pf env body) (\<lambda>h.
     bind_op (audit_host user ''HOST_ADDED'' h) (\<lambda>_. return_op (toPublicHost None h))))"

definition changes_credentials :: "host_update \<Rightarrow> bool" where
  "changes_credentials u \<longleftrightarrow> truthy (huSecret u) \<or> huAuthType u \<noteq> None \<or> truthy (huUsername u)
     \<or> (case huTokenId u of None \<Rightarrow> False | Some t \<Rightarrow> truthy t)"

definition changes_meta :: "host_update \<Rightarrow> bool" where
  "changes_meta u \<longleftrightarrow> huName u \<noteq> None \<or> huUrl u \<noteq> None \<or> huNotes u \<noteq> None \<or> huAllowInsecureTls u \<noteq> None"

definition forbidden :: js_error where
  "forbidden = ForbiddenError ''You do not have permission to perform this action''"

definition host_PATCH :: "platform \<Rightarrow> session_user \<Rightarrow> string \<Rightarrow> host_update \<Rightarrow> public_host mesh_op" where
  "host_PATCH pf user hid body =
     bind_op (guard_op (hostUpdateSchema body) (ZodError [])) (\<lambda>_.
     bind_op (guard_op (\<not> (changes_credentials body
       \<and> \<not> userHasPermission (Some (holder_of user)) ''hosts.credentials'' (Some hid) None)) forbidden) (\<lambda>_.
     bind_op (guard_op (\<not> (changes_meta body
       \<and> \<not> userHasPermission (Some (holder_of user)) ''hosts.update'' (Some hid) None)) forbidden) (\<lambda>_.
     bind_op (updateHost pf hid body user) (\<lambda>h.
     bind_op (audit_host user ''HOST_UPDATED'' h) (\<lambda>_. return_op (toPublicHost None h))))))"

definition host_DELETE :: "session_user \<Rightarrow> string \<Rightarrow> unit mesh_op" where
  "host_DELETE user hid =
     bind_op (get_host_or_throw hid (Some user)) (\<lambda>h.
     bind_op (deleteHost hid user) (\<lambda>_. audit_host user ''HOST_DELETED'' h))"

section \<open>Integrity\<close>

lemma set_state_keys [simp]:
  "hsId (set_error m h) = hsId h" "hsPeerId (set_error m h) = hsPeerId h" "hsRemoteHostId (set_error m h) = hsRemoteHostId h"
  "hsId (set_online n h) = hsId h" "hsPeerId (set_online n h) = hsPeerId h" "hsRemoteHostId (set_online n h) = hsRemoteHostId h"
  "hsId (set_tested n r h) = hsId h" "hsPeerId (set_tested n r h) = hsPeerId h" "hsRemoteHostId (set_tested n r h) = hsRemoteHostId h"
  "hsId (apply_host_update u c h) = hsId h" "hsPeerId (apply_host_update u c h) = hsPeerId h"
  "hsRemoteHostId (apply_host_update u c h) = hsRemoteHostId h"
  by (simp_all add: set_error_def set_online_def set_tested_def apply_host_update_def)

lemma preserves_notify_host [preserve_intros]: "preserves mesh_wf (write_op (notifyHostState h s))"
  by (rule preserves_write) (simp add: notifyHostState_def mesh_wf_def split: option.split)

lemma preserves_invalidate [preserve_intros]: "preserves mesh_wf (write_op (client_cache_invalidate i))"
  by (rule preserves_write) simp

lemma preserves_kick [preserve_intros]: "preserves mesh_wf (write_op (\<lambda>st. st\<lparr>msKicks := Suc (msKicks st)\<rparr>))"
  by (rule preserves_write) simp

lemma preserves_audit [preserve_intros]: "preserves mesh_wf (audit_host user action h)"
  unfolding audit_host_def by (rule preserves_write) (simp add: mesh_wf_def audit_wf audit_fields)

lemma preserves_applyTestResult [preserve_intros]: "preserves mesh_wf (applyTestResult env hid r)"
  unfolding applyTestResult_def by (intro preserve_intros) simp_all

lemma preserves_get_host [preserve_intros]: "preserves mesh_wf (get_host_or_throw hid u)"
  unfolding get_host_or_throw_def by (intro preserve_intros)

lemma preserves_clientForHost [preserve_intros]: "preserves mesh_wf (clientForHost pf h)"
  unfolding clientForHost_def by (intro preserve_intros)

lemma preserves_createHost [preserve_intros]: "preserves mesh_wf (createHost pf env i)"
  unfolding createHost_def Let_def by (intro preserve_intros)

lemma preserves_updateHost [preserve_intros]: "preserves mesh_wf (updateHost pf hid u user)"
  unfolding updateHost_def assertLocalHost_def by (intro preserve_intros) simp_all

lemma preserves_deleteHost [preserve_intros]: "preserves mesh_wf (deleteHost hid user)"
  unfolding deleteHost_def assertLocalHost_def by (intro preserve_intros)

lemma preserves_run_test [preserve_intros]: "preserves mesh_wf (run_test pf env h)"
  unfolding run_test_def Let_def by (intro preserve_intros preserves_finally) simp_all

lemma preserves_testHost [preserve_intros]: "preserves mesh_wf (testHost pf env hid user)"
  unfolding testHost_def by (intro preserve_intros)

lemma preserves_probe_host [preserve_intros]: "preserves mesh_wf (probe_host pf env h)"
  unfolding probe_host_def probe_failed_def by (intro preserve_intros) simp_all

lemma preserves_probeAllHosts [preserve_intros]: "preserves mesh_wf (probeAllHosts pf env)"
  unfolding probeAllHosts_def by (intro preserve_intros)

lemma preserves_withHostClient [preserve_intros]: "(\<And>c h. preserves mesh_wf (f c h)) \<Longrightarrow> preserves mesh_wf (withHostClient pf env hid user f)"
  unfolding withHostClient_def host_failed_def by (intro preserve_intros) simp_all

lemma preserves_setHostState [preserve_intros]: "preserves mesh_wf (setHostState pf env hid m user)"
  unfolding setHostState_def assertLocalHost_def by (intro preserve_intros) simp_all

lemma preserves_host_routes [preserve_intros]:
  "preserves mesh_wf (hosts_POST pf env user body)" "preserves mesh_wf (host_PATCH pf user hid u)" "preserves mesh_wf (host_DELETE user hid)"
  unfolding hosts_POST_def host_PATCH_def host_DELETE_def by (intro preserve_intros)+

end
