(* ===== verification/FederationService.thy ===== *)
theory FederationService imports HostService CreateIp TransferTickets begin

text \<open>
  Serving and reading shared hosts: \<^verbatim>\<open>server/services/federation-service.ts\<close>,
  \<^verbatim>\<open>server/services/guest-ip-settings.ts\<close> and the routes under \<^verbatim>\<open>app/api/federation\<close>.  What goes over
  the network is a parameter; the functions that send a request to Proxmox or to a guest return the
  request they send, and the routes apply the parameter to it.
\<close>

section \<open>Networks of guests\<close>

definition GUEST_IP_SETTING_KEY :: string where
  "GUEST_IP_SETTING_KEY = ''guest-ip''"

definition network_js :: "guest_ip_network \<Rightarrow> js" where
  "network_js n = JObj [(''id'', JStr (nwId n)), (''prefix'', JNum (of_int_num (nwPrefix n))), (''gateway'', JStr (nwGateway n))]"

definition networks_js :: "guest_ip_network list \<Rightarrow> js" where
  "networks_js ns = JArr (map network_js ns)"

definition guest_ip_settings_js :: "guest_ip_settings \<Rightarrow> js" where
  "guest_ip_settings_js s =
     JObj [(''defaults'', networks_js (gipDefaults s)), (''byHost'', JObj (map (\<lambda>(k, ns). (k, networks_js ns)) (gipByHost s)))]"

definition loadGuestIpSettings :: "mesh \<Rightarrow> guest_ip_settings" where
  "loadGuestIpSettings st = parseGuestIpSettings (case setting GUEST_IP_SETTING_KEY st of None \<Rightarrow> JUndef | Some v \<Rightarrow> v)"

definition saveGuestIpSettings :: "guest_ip_settings \<Rightarrow> mesh \<Rightarrow> mesh" where
  "saveGuestIpSettings s st = upsert_setting GUEST_IP_SETTING_KEY (guest_ip_settings_js s) st"

definition cachePeerHostNetworks :: "string \<Rightarrow> guest_ip_network list \<Rightarrow> mesh \<Rightarrow> mesh" where
  "cachePeerHostNetworks localHostId networks st =
     (let nets = parseGuestIpNetworks (networks_js networks); settings = loadGuestIpSettings st in
      if nets = [] then st
      else if map_of (gipByHost settings) localHostId = Some nets then st
      else saveGuestIpSettings (settings\<lparr>gipByHost := AList.update localHostId nets (gipByHost settings)\<rparr>) st)"

definition forgetPeerHostNetworks :: "string list \<Rightarrow> mesh \<Rightarrow> mesh" where
  "forgetPeerHostNetworks ids st =
     (let settings = loadGuestIpSettings st in
      if list_ex (\<lambda>i. i \<in> set (map fst (gipByHost settings))) ids
      then saveGuestIpSettings (settings\<lparr>gipByHost := filter (\<lambda>(k, _). k \<notin> set ids) (gipByHost settings)\<rparr>) st
      else st)"

text \<open>What the peer answers for the base address, the token and the id of the host: \<open>None\<close> when not \<open>ok\<close>.\<close>

type_synonym network_fetch = "string \<Rightarrow> string \<Rightarrow> string \<Rightarrow> js_error + js option"

definition fetchPeerGuestNetworks :: "platform \<Rightarrow> network_fetch \<Rightarrow> string \<Rightarrow> string \<Rightarrow> mesh \<Rightarrow> js_error + guest_ip_network list option" where
  "fetchPeerGuestNetworks pf fetch peerId remoteHostId st =
     (case peer_by_id peerId st of None \<Rightarrow> Inr None
      | Some peer \<Rightarrow>
          (if wgEncryptedOutbound peer = [] \<or> wgAddress peer = [] then Inr None
           else (case outboundToken pf peer of Inl e \<Rightarrow> Inl e
             | Inr token \<Rightarrow> (case peerHttpBase peer of Inl e \<Rightarrow> Inl e
               | Inr base \<Rightarrow> (case fetch base token remoteHostId of Inl e \<Rightarrow> Inl e
                 | Inr None \<Rightarrow> Inr None
                 | Inr (Some v) \<Rightarrow>
                     (let nets = parseGuestIpNetworks v in Inr (if nets = [] then None else Some nets)))))))"

definition networksForHostId :: "platform \<Rightarrow> network_fetch \<Rightarrow> string \<Rightarrow> mesh \<Rightarrow> guest_ip_network list \<times> mesh" where
  "networksForHostId pf fetch hostId st =
     (let settings = loadGuestIpSettings st; own = (resolveGuestNetworks settings hostId None, st) in
      case host_by_id hostId st of None \<Rightarrow> own
      | Some h \<Rightarrow>
          (if hsOrigin h = PEER \<and> truthy (hsPeerId h) \<and> truthy (hsRemoteHostId h)
           then (case fetchPeerGuestNetworks pf fetch (the (hsPeerId h)) (the (hsRemoteHostId h)) st of
               Inr (Some live) \<Rightarrow> (resolveGuestNetworks settings hostId (Some live), cachePeerHostNetworks hostId live st)
             | _ \<Rightarrow> own)
           else own))"

section \<open>Who asks\<close>

definition bearerToken :: "string option \<Rightarrow> js_error + string" where
  "bearerToken authorization =
     (let header = or_old authorization []; rest = drop 6 header;
          token = (if starts_with (to_lower header) ''bearer'' \<and> rest \<noteq> [] \<and> is_ws (hd rest) then trim rest else [])
      in if token = [] then Inl (UnauthorizedError ''Federation token required'') else Inr token)"

definition requireFederationPeer :: "platform \<Rightarrow> int \<Rightarrow> string option \<Rightarrow> wg_peer mesh_op" where
  "requireFederationPeer pf now authorization =
     bind_op (lift_op (bearerToken authorization)) (\<lambda>token.
     bind_op (read_op (findPeerByInboundToken pf token)) (\<lambda>found.
     bind_op (need_op (UnauthorizedError ''Unknown federation peer'')
       (case found of None \<Rightarrow> None | Some p \<Rightarrow> if wgKind p = PROXORA then Some p else None)) (\<lambda>peer.
     bind_op (catch_op (update_peer_row (wgId peer) (\<lambda>p. p\<lparr>wgLastSeenAt := Some now\<rparr>)) (\<lambda>_. return_op ())) (\<lambda>_.
     return_op peer))))"

text \<open>The share of a local host to the peer, and that host.\<close>

definition shared_host :: "wg_peer \<Rightarrow> string \<Rightarrow> (host_share \<times> host_row) mesh_op" where
  "shared_host peer remoteHostId =
     bind_op (read_op (\<lambda>st. case (share_of (wgId peer) remoteHostId st, host_by_id remoteHostId st) of
         (Some s, Some h) \<Rightarrow> if hsOrigin h = LOCAL then Some (s, h) else None
       | _ \<Rightarrow> None)) (need_op (NotFoundError ''Host not shared''))"

definition not_at_level :: js_error where
  "not_at_level = ForbiddenError ''This host is not shared at that level''"

definition requireSharedGuestFiles :: "platform \<Rightarrow> int \<Rightarrow> string option \<Rightarrow> string \<Rightarrow> guest_kind \<Rightarrow> (wg_peer \<times> host_row) mesh_op" where
  "requireSharedGuestFiles pf now authorization remoteHostId kind =
     bind_op (requireFederationPeer pf now authorization) (\<lambda>peer.
     bind_op (shared_host peer remoteHostId) (\<lambda>(s, h).
     bind_op (guard_op (shareHasPermission (shLevel s) (Some (shPermissions s))
         [guestFilePermission kind FileRead, guestFilePermission kind FileWrite]) not_at_level) (\<lambda>_.
     return_op (peer, h))))"

definition assertSharedHost :: "wg_peer \<Rightarrow> string \<Rightarrow> string \<Rightarrow> string \<Rightarrow> federation_extra option \<Rightarrow> host_row mesh_op" where
  "assertSharedHost peer remoteHostId meth path extra =
     bind_op (shared_host peer remoteHostId) (\<lambda>(s, h).
     let needed = federationPermission meth path extra in
     bind_op (guard_op (needed \<noteq> Deny \<and> shareHasPermission (shLevel s) (Some (shPermissions s)) (needed_list needed)) not_at_level) (\<lambda>_.
     return_op h))"

record shared_host_view =
  hsvId :: string
  hsvName :: string
  hsvState :: conn_state
  hsvVersion :: "string option"
  hsvLevel :: share_level
  hsvPermissions :: "string list"
  hsvNetworks :: "guest_ip_network list"

definition shared_view :: "mesh \<Rightarrow> host_share \<Rightarrow> shared_host_view list" where
  "shared_view st s =
     (case host_by_id (shHostId s) st of None \<Rightarrow> []
      | Some h \<Rightarrow>
          (if hsOrigin h \<noteq> LOCAL then []
           else [\<lparr>hsvId = hsId h, hsvName = hsName h, hsvState = hsState h, hsvVersion = hsVersion h, hsvLevel = shLevel s,
                  hsvPermissions = effectiveSharePermissions (shLevel s) (Some (shPermissions s)),
                  hsvNetworks = networksForHost (loadGuestIpSettings st) (hsId h)\<rparr>]))"

definition listSharedHostsForPeer :: "wg_peer \<Rightarrow> mesh \<Rightarrow> shared_host_view list" where
  "listSharedHostsForPeer peer st = concat (map (shared_view st) (filter (\<lambda>s. shPeerId s = wgId peer) (msShares st)))"

section \<open>Passing a call on to Proxmox\<close>

record pve_call =
  pvClient :: proxmox_config
  pvVerb :: string
  pvPath :: string
  pvQuery :: "(string \<times> string) list"
  pvBody :: "js_record option"

definition proxyPveRequest ::
  "platform \<Rightarrow> host_row \<Rightarrow> string \<Rightarrow> string \<Rightarrow> (string \<times> string) list \<Rightarrow> js_record option \<Rightarrow> pve_call mesh_op" where
  "proxyPveRequest pf h meth path query body =
     bind_op (guard_op (starts_with path ''/'' \<and> \<not> str_includes path ''..'') (ValidationError ''Invalid Proxmox path'')) (\<lambda>_.
     bind_op (clientForHost pf h) (\<lambda>client.
     let verb = to_upper meth in
     if verb = ''GET'' \<or> verb = ''DELETE'' then return_op \<lparr>pvClient = client, pvVerb = verb, pvPath = path, pvQuery = query, pvBody = None\<rparr>
     else if verb = ''POST'' \<or> verb = ''PUT'' then return_op \<lparr>pvClient = client, pvVerb = verb, pvPath = path, pvQuery = query, pvBody = body\<rparr>
     else throw_op (ValidationError (''Unsupported method '' @ meth))))"

record pve_payload =
  ppMethod :: string
  ppPath :: string
  ppQuery :: "(string \<times> js) list option"
  ppBody :: "js_record option"

definition federation_pve_call :: "platform \<Rightarrow> int \<Rightarrow> string option \<Rightarrow> string \<Rightarrow> pve_payload \<Rightarrow> pve_call mesh_op" where
  "federation_pve_call pf now authorization hostId payload =
     bind_op (requireFederationPeer pf now authorization) (\<lambda>peer.
     bind_op (guard_op (ppMethod payload \<noteq> [] \<and> ppPath payload \<noteq> []) (ZodError [])) (\<lambda>_.
     let query = map (\<lambda>(k, v). (k, js_string v)) (or_old (ppQuery payload) []) in
     bind_op (assertSharedHost peer hostId (ppMethod payload) (ppPath payload) (Some \<lparr>exQuery = Some query, exBody = ppBody payload\<rparr>)) (\<lambda>h.
     proxyPveRequest pf h (ppMethod payload) (ppPath payload) query (ppBody payload))))"

definition handled :: "('s, 'a) op \<Rightarrow> 's \<Rightarrow> (response + 'a) \<times> 's" where
  "handled m st = (case m st of (Inl e, st1) \<Rightarrow> (Inl (handleRouteError e), st1) | (Inr x, st1) \<Rightarrow> (Inr x, st1))"

definition federation_pve_POST ::
  "platform \<Rightarrow> (pve_call \<Rightarrow> js_error + js) \<Rightarrow> int \<Rightarrow> string option \<Rightarrow> string \<Rightarrow> pve_payload \<Rightarrow> mesh \<Rightarrow> (response + js) \<times> mesh" where
  "federation_pve_POST pf send now authorization hostId payload =
     handled (bind_op (federation_pve_call pf now authorization hostId payload) (\<lambda>call. lift_op (send call)))"

definition federation_hosts_GET :: "platform \<Rightarrow> int \<Rightarrow> string option \<Rightarrow> mesh \<Rightarrow> (response + shared_host_view list) \<times> mesh" where
  "federation_hosts_GET pf now authorization =
     handled (bind_op (requireFederationPeer pf now authorization) (\<lambda>peer. read_op (listSharedHostsForPeer peer)))"

definition federation_networks_GET ::
  "platform \<Rightarrow> network_fetch \<Rightarrow> int \<Rightarrow> string option \<Rightarrow> string option \<Rightarrow> mesh \<Rightarrow> (response + guest_ip_network list) \<times> mesh" where
  "federation_networks_GET pf fetch now authorization hostParam =
     handled (bind_op (requireFederationPeer pf now authorization) (\<lambda>peer.
       let hostId = trim (or_old hostParam []) in
       bind_op (guard_op (hostId \<noteq> []) (ValidationError ''hostId required'')) (\<lambda>_.
       bind_op (assertSharedHost peer hostId ''GET'' ''/version'' None) (\<lambda>_.
       (\<lambda>st. case networksForHostId pf fetch hostId st of (ns, st1) \<Rightarrow> (Inr ns, st1))))))"

definition peer_status_POST :: "platform \<Rightarrow> int \<Rightarrow> string option \<Rightarrow> peer_signal \<Rightarrow> mesh \<Rightarrow> (response + unit) \<times> mesh" where
  "peer_status_POST pf now authorization body =
     handled (bind_op (requireFederationPeer pf now authorization) (\<lambda>peer.
       bind_op (guard_op (opt_len 0 32 (sgFrom body) \<and> opt_len 0 32 (sgTo body)) (ZodError [])) (\<lambda>_.
       applyIncomingPeerUpdate now peer body)))"

section \<open>Files of guests on shared hosts\<close>

record guest_login =
  glTarget :: string
  glPort :: "int option"
  glUsername :: string
  glPassword :: "string option"
  glPrivateKey :: "string option"
  glPassphrase :: "string option"

datatype sftp_call =
    SftpOp guest_login guest_kind int string string "string option" "string option"
  | SftpUpload guest_login string upload_plan "string option"
  | SftpDownload guest_login string

record fed_files =
  ffRemoteHostId :: string
  ffKind :: guest_kind
  ffVmid :: int
  ffLogin :: guest_login
  ffPath :: string

definition loginSchemaOk :: "guest_login \<Rightarrow> bool" where
  "loginSchemaOk l \<longleftrightarrow> opt_len 1 253 (Some (glTarget l)) \<and> (case glPort l of None \<Rightarrow> True | Some n \<Rightarrow> valid_port n)
     \<and> opt_len 1 64 (Some (glUsername l)) \<and> opt_len 0 512 (glPassword l) \<and> opt_len 0 GUEST_SSH_KEY_MAX (glPrivateKey l)
     \<and> opt_len 0 512 (glPassphrase l) \<and> hasGuestSshAuth (glPassword l) (glPrivateKey l)"

definition fedFilesSchema :: "fed_files \<Rightarrow> bool" where
  "fedFilesSchema f \<longleftrightarrow> ffRemoteHostId f \<noteq> [] \<and> 0 < ffVmid f \<and> loginSchemaOk (ffLogin f) \<and> opt_len 1 4096 (Some (ffPath f))"

definition FED_OPS :: "string list" where
  "FED_OPS = [''list'', ''read'', ''write'', ''mkdir'', ''delete'', ''rename'', ''upload-state'']"

definition guest_target :: "platform \<Rightarrow> int \<Rightarrow> string option \<Rightarrow> fed_files \<Rightarrow> unit mesh_op" where
  "guest_target pf now authorization f =
     bind_op (requireSharedGuestFiles pf now authorization (ffRemoteHostId f) (ffKind f)) (\<lambda>_.
     guard_op (trim (glTarget (ffLogin f)) \<noteq> []) (ValidationError ''SSH host fehlt''))"

text \<open>The operation, its destination and content come on top of the common fields.\<close>

definition federation_files_call ::
  "platform \<Rightarrow> int \<Rightarrow> string option \<Rightarrow> fed_files \<Rightarrow> string \<Rightarrow> string option \<Rightarrow> string option \<Rightarrow> sftp_call mesh_op" where
  "federation_files_call pf now authorization f op to content =
     bind_op (guard_op (fedFilesSchema f \<and> op \<in> set FED_OPS \<and> opt_len 1 4096 to \<and> opt_len 0 (11744052 + 32) content
       \<and> \<not> (op = ''rename'' \<and> \<not> truthy to)) (ZodError [])) (\<lambda>_.
     bind_op (guest_target pf now authorization f) (\<lambda>_.
     return_op (SftpOp (ffLogin f) (ffKind f) (ffVmid f) op (ffPath f) to content)))"

text \<open>The description of an upload arrives in a header; \<open>None\<close> when it cannot be read.\<close>

definition federation_upload_call ::
  "platform \<Rightarrow> int \<Rightarrow> string option \<Rightarrow> fed_files option \<Rightarrow> string option \<Rightarrow> string option \<Rightarrow> string option \<Rightarrow> string option \<Rightarrow>
   sftp_call mesh_op" where
  "federation_upload_call pf now authorization meta sizeHeader offsetHeader contentLength prefixHeader =
     bind_op (need_op (ValidationError ''Upload-Meta fehlt'') meta) (\<lambda>f.
     bind_op (guard_op (fedFilesSchema f) (ZodError [])) (\<lambda>_.
     bind_op (guest_target pf now authorization f) (\<lambda>_.
     return_op (SftpUpload (ffLogin f) (ffPath f) (parseGuestUploadPlan sizeHeader offsetHeader contentLength)
       (parseGuestUploadPrefix prefixHeader)))))"

definition federation_download_call :: "platform \<Rightarrow> int \<Rightarrow> string option \<Rightarrow> fed_files \<Rightarrow> sftp_call mesh_op" where
  "federation_download_call pf now authorization f =
     bind_op (guard_op (fedFilesSchema f) (ZodError [])) (\<lambda>_.
     bind_op (guest_target pf now authorization f) (\<lambda>_. return_op (SftpDownload (ffLogin f) (ffPath f))))"

section \<open>Reading the hosts of the peers\<close>

record remote_host =
  rhId :: string
  rhName :: string
  rhState :: "string option"
  rhVersion :: "string option"
  rhLevel :: "string option"
  rhPermissions :: "string list option"
  rhNetworks :: js

text \<open>\<open>feHosts\<close> answers the request to a base address with a token; \<open>feNewId\<close> is the id of a new row.\<close>

record fed_env =
  feHosts :: "string \<Rightarrow> string \<Rightarrow> js_error + remote_host list"
  feNewId :: "string \<Rightarrow> string \<Rightarrow> string"
  feNow :: int

definition share_of_remote :: "remote_host \<Rightarrow> (share_level \<times> string list) option" where
  "share_of_remote item =
     (let perms = (case rhPermissions item of None \<Rightarrow> [] | Some ps \<Rightarrow> sanitizePermissions ps) in
      case parseShareLevel (rhLevel item) of
        Some l \<Rightarrow> Some (l, perms)
      | None \<Rightarrow> if perms = [] then None else Some (shareLevelFromPermissions perms, perms))"

definition new_peer_host :: "fed_env \<Rightarrow> string \<Rightarrow> remote_host \<Rightarrow> share_level \<Rightarrow> string list \<Rightarrow> string \<Rightarrow> host_row" where
  "new_peer_host env pid item level perms encrypted =
     \<lparr>hsId = feNewId env pid (rhId item), hsName = rhName item, hsUrl = ''federation://'' @ pid @ ''/'' @ rhId item,
      hsAuthType = API_TOKEN, hsUsername = ''peer@pve'', hsTokenId = Some ''federation'', hsEncryptedSecret = encrypted,
      hsAllowInsecureTls = True, hsState = (if rhState item = Some ''ONLINE'' then ONLINE else CONNECTING), hsLastSeenAt = None,
      hsLastError = None, hsVersion = rhVersion item, hsClusterName = None, hsIsClusterMember = False, hsNotes = None,
      hsOrigin = PEER, hsPeerId = Some pid, hsRemoteHostId = Some (rhId item), hsShareLevel = Some level,
      hsSharePermissions = perms, hsCreatedAt = feNow env\<rparr>"

definition refresh_peer_host :: "remote_host \<Rightarrow> share_level \<Rightarrow> string list \<Rightarrow> host_row \<Rightarrow> host_row" where
  "refresh_peer_host item level perms h =
     h\<lparr>hsName := rhName item, hsShareLevel := Some level, hsSharePermissions := perms,
       hsVersion := (case rhVersion item of None \<Rightarrow> hsVersion h | Some v \<Rightarrow> Some v),
       hsState := (if rhState item = Some ''ONLINE'' then ONLINE else hsState h)\<rparr>"

definition host_of_remote :: "string \<Rightarrow> string \<Rightarrow> mesh \<Rightarrow> host_row option" where
  "host_of_remote pid rid st = find_row host_keys 1 (Inr (pid, rid)) (msHosts st)"

definition take_item :: "platform \<Rightarrow> fed_env \<Rightarrow> string \<Rightarrow> remote_host \<Rightarrow> unit mesh_op" where
  "take_item pf env pid item =
     (case share_of_remote item of None \<Rightarrow> return_op ()
      | Some (level, perms) \<Rightarrow>
          bind_op (lift_op (encryptSecret pf ''federation'')) (\<lambda>encrypted.
          bind_op (read_op (host_of_remote pid (rhId item))) (\<lambda>known.
          bind_op (case known of
              Some h \<Rightarrow> bind_op (update_host_row (hsId h) (refresh_peer_host item level perms)) (\<lambda>_. return_op (hsId h))
            | None \<Rightarrow>
                bind_op (create_host_row (new_peer_host env pid item level perms encrypted)) (\<lambda>_.
                return_op (feNewId env pid (rhId item)))) (\<lambda>hid.
          let nets = parseGuestIpNetworks (rhNetworks item) in
          when_op (nets \<noteq> []) (write_op (cachePeerHostNetworks hid nets))))))"

definition gone_hosts :: "string \<Rightarrow> remote_host list \<Rightarrow> mesh \<Rightarrow> host_row list" where
  "gone_hosts pid remote st =
     filter (\<lambda>h. shared_by pid h \<and> truthy (hsRemoteHostId h) \<and> the (hsRemoteHostId h) \<notin> rhId ` set remote) (msHosts st)"

definition sync_peer :: "platform \<Rightarrow> fed_env \<Rightarrow> wg_peer \<Rightarrow> unit mesh_op" where
  "sync_peer pf env peer =
     bind_op (lift_op (outboundToken pf peer)) (\<lambda>token.
     bind_op (lift_op (peerHttpBase peer)) (\<lambda>base.
     bind_op (lift_op (feHosts env base token)) (\<lambda>remote.
     bind_op (read_op (gone_hosts (wgId peer) remote)) (\<lambda>gone.
     bind_op (each_op (\<lambda>h. delete_host_row (hsId h)) gone) (\<lambda>_.
     bind_op (when_op (gone \<noteq> []) (write_op (forgetPeerHostNetworks (map hsId gone)))) (\<lambda>_.
     bind_op (each_op (take_item pf env (wgId peer)) remote) (\<lambda>_.
     bind_op (update_peer_row (wgId peer) (\<lambda>p. p\<lparr>wgLastSeenAt := Some (feNow env)\<rparr>)) (\<lambda>_.
     when_op (wgUpdatingUntil peer \<noteq> None) (bind_op (finishPeerUpdate peer Recovered) (\<lambda>_. return_op ()))))))))))"

definition sync_one :: "platform \<Rightarrow> fed_env \<Rightarrow> wg_peer \<Rightarrow> unit mesh_op" where
  "sync_one pf env peer =
     (if wgEncryptedOutbound peer = [] \<or> wgAddress peer = [] then return_op ()
      else catch_op (sync_peer pf env peer) (\<lambda>_. return_op ()))"

definition syncPeerHosts :: "platform \<Rightarrow> fed_env \<Rightarrow> unit mesh_op" where
  "syncPeerHosts pf env =
     bind_op (read_op (\<lambda>st. filter (\<lambda>p. wgKind p = PROXORA) (msPeers st))) (each_op (sync_one pf env))"

section \<open>Integrity\<close>

lemma preserves_networks [simp]:
  "mesh_wf (cachePeerHostNetworks hid nets st) = mesh_wf st" "mesh_wf (forgetPeerHostNetworks ids st) = mesh_wf st"
  by (simp_all add: cachePeerHostNetworks_def forgetPeerHostNetworks_def saveGuestIpSettings_def Let_def)

lemma preserves_network_writes [preserve_intros]:
  "preserves mesh_wf (write_op (cachePeerHostNetworks hid nets))" "preserves mesh_wf (write_op (forgetPeerHostNetworks ids))"
  by (rule preserves_write, simp)+

lemma preserves_networksForHostId [preserve_intros]:
  "preserves mesh_wf (\<lambda>st. case networksForHostId pf fetch hid st of (ns, st1) \<Rightarrow> (Inr ns, st1))"
  by (auto simp: preserves_def networksForHostId_def Let_def split: option.split sum.split)

lemma preserves_requireFederationPeer [preserve_intros]: "preserves mesh_wf (requireFederationPeer pf now a)"
  unfolding requireFederationPeer_def by (intro preserve_intros) simp

lemma preserves_shared_host [preserve_intros]: "preserves mesh_wf (shared_host peer rid)"
  unfolding shared_host_def by (intro preserve_intros)

declare preserves_case_prod [preserve_intros]

lemma preserves_requireSharedGuestFiles [preserve_intros]: "preserves mesh_wf (requireSharedGuestFiles pf now a rid kind)"
  unfolding requireSharedGuestFiles_def by (intro preserve_intros)

lemma preserves_assertSharedHost [preserve_intros]: "preserves mesh_wf (assertSharedHost peer rid m p e)"
  unfolding assertSharedHost_def Let_def by (intro preserve_intros)

lemma preserves_proxyPveRequest [preserve_intros]: "preserves mesh_wf (proxyPveRequest pf h m p q b)"
  unfolding proxyPveRequest_def Let_def by (intro preserve_intros)

lemma preserves_handled: "preserves mesh_wf m \<Longrightarrow> mesh_wf st \<Longrightarrow> mesh_wf (snd (handled m st))"
  using preservesD [of mesh_wf m st] by (auto simp: handled_def split: prod.split sum.split)

lemma preserves_federation_calls [preserve_intros]:
  "preserves mesh_wf (federation_pve_call pf now a hid payload)"
  "preserves mesh_wf (federation_files_call pf now a f op to content)"
  "preserves mesh_wf (federation_upload_call pf now a meta h1 h2 h3 h4)"
  "preserves mesh_wf (federation_download_call pf now a f)"
  unfolding federation_pve_call_def federation_files_call_def federation_upload_call_def federation_download_call_def
    guest_target_def Let_def
  by (intro preserve_intros)+

lemma preserves_federation_routes:
  assumes "mesh_wf st"
  shows "mesh_wf (snd (federation_pve_POST pf send now a hid payload st))" "mesh_wf (snd (federation_hosts_GET pf now a st))"
    "mesh_wf (snd (federation_networks_GET pf fetch now a param' st))" "mesh_wf (snd (peer_status_POST pf now a body st))"
  unfolding federation_pve_POST_def federation_hosts_GET_def federation_networks_GET_def peer_status_POST_def Let_def
  by (rule preserves_handled [OF _ assms], intro preserve_intros)+

lemma refresh_keys [simp]:
  "hsId (refresh_peer_host i l ps h) = hsId h" "hsPeerId (refresh_peer_host i l ps h) = hsPeerId h"
  "hsRemoteHostId (refresh_peer_host i l ps h) = hsRemoteHostId h"
  by (simp_all add: refresh_peer_host_def)

lemma preserves_take_item [preserve_intros]: "preserves mesh_wf (take_item pf env pid item)"
  unfolding take_item_def Let_def by (intro preserve_intros; simp)

lemma preserves_sync_peer [preserve_intros]: "preserves mesh_wf (sync_peer pf env peer)"
  unfolding sync_peer_def by (intro preserve_intros) simp

lemma preserves_syncPeerHosts [preserve_intros]: "preserves mesh_wf (syncPeerHosts pf env)"
  unfolding syncPeerHosts_def sync_one_def by (intro preserve_intros)

end
