(* ===== verification/HostProperties.thy ===== *)
theory HostProperties imports HostService begin

text \<open>
  What the host operations guarantee and what they do not: deletion with its cascade, the guards of a
  change, the connection states, the client cache and the pause while a peer updates itself.
\<close>

section \<open>Deleting and changing hosts\<close>

lemma get_host_Inr:
  "get_host_or_throw hid user st = (Inr h, st') \<longleftrightarrow>
     st' = st \<and> host_by_id hid st = Some h \<and> (case user of None \<Rightarrow> True | Some u \<Rightarrow> canAccessHost u (hsId h))"
  by (auto simp: get_host_or_throw_def op_Inr)

lemma deleteHost_Inr:
  assumes "deleteHost hid user st = (Inr (), st')"
  obtains h where "host_by_id hid st = Some h" "canAccessHost user (hsId h)" "hsOrigin h = LOCAL"
    "st' = delete_hosts (\<lambda>r. hsId r = hsId h) (client_cache_invalidate (hsId h) st)"
proof -
  from assms obtain h where h: "host_by_id hid st = Some h" "canAccessHost user (hsId h)" "hsOrigin h \<noteq> PEER"
      and run: "delete_host_row (hsId h) (client_cache_invalidate (hsId h) st) = (Inr (), st')"
    by (auto simp: deleteHost_def assertLocalHost_def op_Inr get_host_Inr)
  then have "st' = delete_hosts (\<lambda>r. hsId r = hsId h) (client_cache_invalidate (hsId h) st)"
    by (simp add: delete_host_row_def split: if_splits)
  with h that show thesis by (cases "hsOrigin h") auto
qed

lemma invalidate_tables [simp]:
  "msHosts (client_cache_invalidate i st) = msHosts st" "msServer (client_cache_invalidate i st) = msServer st"
  "msPeers (client_cache_invalidate i st) = msPeers st" "msShares (client_cache_invalidate i st) = msShares st"
  "msSettings (client_cache_invalidate i st) = msSettings st"
  by (simp_all add: client_cache_invalidate_def)

lemma host_by_id_id: "mesh_wf st \<Longrightarrow> host_by_id hid st = Some h \<Longrightarrow> hsId h = hid"
  by (simp add: host_by_id_iff)

text \<open>The server after the deletion of one host that exists.\<close>

lemma delete_one_host:
  assumes "mesh_wf st" "host_by_id hid st = Some h"
  shows "msServer (delete_hosts (\<lambda>r. hsId r = hid) st) = (msServer st)\<lparr>
      hostIds := filter (\<lambda>i. i \<noteq> hid) (hostIds (msServer st)),
      hostAccess := drop_rows (\<lambda>a. haHostId a = hid) (hostAccess (msServer st)),
      guestAccess := drop_rows (\<lambda>a. gaHostId a = hid) (guestAccess (msServer st))\<rparr>"
proof -
  have "hsId ` set (filter (\<lambda>r. hsId r = hid) (msHosts st)) = {hid}"
    using assms host_by_id_iff [OF assms(1)] by auto
  then have "set (map hsId (filter (\<lambda>r. hsId r = hid) (msHosts st))) = {hid}" by simp
  then show ?thesis by (simp only: delete_hosts_def Let_def) simp
qed

lemma host_DELETE_Inr:
  assumes wf: "mesh_wf st" and run: "host_DELETE user hid st = (Inr (), st')"
  shows "\<exists>h. host_by_id hid st = Some h \<and> hsOrigin h = LOCAL \<and> canAccessHost user hid"
    and "msHosts st' = drop_rows (\<lambda>r. hsId r = hid) (msHosts st)"
    and "msServer st' = (msServer st)\<lparr>
      hostIds := filter (\<lambda>i. i \<noteq> hid) (hostIds (msServer st)),
      hostAccess := drop_rows (\<lambda>a. haHostId a = hid) (hostAccess (msServer st)),
      guestAccess := drop_rows (\<lambda>a. gaHostId a = hid) (guestAccess (msServer st))\<rparr>"
proof -
  from run obtain h st1 where h: "host_by_id hid st = Some h" and del: "deleteHost hid user st = (Inr (), st1)"
      and audit: "st' = (if hsId h \<notin> set (hostIds (msServer st1)) then st1
        else st1\<lparr>msServer := writeAuditLog \<lparr>auUserId = Some (suId user), auAction = ''HOST_DELETED'',
             auTarget = Some (hsName h), auSuccess = True\<rparr> (msServer st1)\<rparr>)"
    unfolding host_DELETE_def audit_host_def by (auto simp: op_Inr get_host_Inr)
  from deleteHost_Inr [OF del] h obtain acc: "canAccessHost user (hsId h)" "hsOrigin h = LOCAL"
      and st1: "st1 = delete_hosts (\<lambda>r. hsId r = hsId h) (client_cache_invalidate (hsId h) st)" by (metis option.inject)
  have i: "hsId h = hid" by (rule host_by_id_id [OF wf h])
  let ?c = "client_cache_invalidate hid st"
  have c: "mesh_wf ?c" "host_by_id hid ?c = Some h" using wf h by (simp_all add: host_by_id_def)
  have srv: "msServer st1 = (msServer st)\<lparr>
      hostIds := filter (\<lambda>i. i \<noteq> hid) (hostIds (msServer st)),
      hostAccess := drop_rows (\<lambda>a. haHostId a = hid) (hostAccess (msServer st)),
      guestAccess := drop_rows (\<lambda>a. gaHostId a = hid) (guestAccess (msServer st))\<rparr>"
    using delete_one_host [OF c] by (simp add: st1 i)
  then have "st' = st1" by (simp add: audit i)
  with srv show "msServer st' = (msServer st)\<lparr>
      hostIds := filter (\<lambda>i. i \<noteq> hid) (hostIds (msServer st)),
      hostAccess := drop_rows (\<lambda>a. haHostId a = hid) (hostAccess (msServer st)),
      guestAccess := drop_rows (\<lambda>a. gaHostId a = hid) (guestAccess (msServer st))\<rparr>" by simp
  show "msHosts st' = drop_rows (\<lambda>r. hsId r = hid) (msHosts st)"
    using \<open>st' = st1\<close> by (simp add: st1 i delete_hosts_def Let_def)
  show "\<exists>h. host_by_id hid st = Some h \<and> hsOrigin h = LOCAL \<and> canAccessHost user hid" using h acc i by auto
qed

text \<open>
  Deleting a host through the API takes a local host the user may access, leaves no access row
  that names it and every other host as it was.  The audit log is the same afterwards: the row that
  reports the deletion refers to the host that is gone, so its insert fails and the failure is
  swallowed.
\<close>

theorem host_DELETE_unaudited:
  assumes "mesh_wf st" "host_DELETE user hid st = (Inr (), st')"
  shows "(\<exists>h. host_by_id hid st = Some h \<and> hsOrigin h = LOCAL \<and> canAccessHost user hid)
    \<and> host_by_id hid st' = None
    \<and> list_all (\<lambda>a. haHostId a \<noteq> hid) (hostAccess (msServer st')) \<and> list_all (\<lambda>a. gaHostId a \<noteq> hid) (guestAccess (msServer st'))
    \<and> filter (\<lambda>h. hsId h \<noteq> hid) (msHosts st') = filter (\<lambda>h. hsId h \<noteq> hid) (msHosts st)
    \<and> auditLogs (msServer st') = auditLogs (msServer st)"
  using host_DELETE_Inr [OF assms] by (simp add: host_missing list_all_iff) (auto simp: drop_rows_def)

definition mesh_of :: "server \<Rightarrow> host_row list \<Rightarrow> wg_peer list \<Rightarrow> host_share list \<Rightarrow> mesh" where
  "mesh_of srv hs ps ss = \<lparr>msServer = srv, msHosts = hs, msPeers = ps, msShares = ss, msSettings = [], msConf = None,
     msDisabled = False, msClients = [], msNotices = [], msKicks = 0, msWire = empty_wire\<rparr>"

definition demo_host :: "string \<Rightarrow> host_row" where
  "demo_host i = \<lparr>hsId = i, hsName = ''pve'', hsUrl = ''https://pve:8006'', hsAuthType = API_TOKEN, hsUsername = ''root@pam'',
     hsTokenId = Some ''t'', hsEncryptedSecret = ''s'', hsAllowInsecureTls = False, hsState = ONLINE, hsLastSeenAt = None,
     hsLastError = None, hsVersion = None, hsClusterName = None, hsIsClusterMember = False, hsNotes = None, hsOrigin = LOCAL,
     hsPeerId = None, hsRemoteHostId = None, hsShareLevel = None, hsSharePermissions = [], hsCreatedAt = 0\<rparr>"


definition demo_host_server :: server where
  "demo_host_server = demo_server\<lparr>roles := [\<lparr>roId = ''r1'', roName = ''Ops'', roSlug = ''ops'', roDescription = [],
     roIsSystem = False, roPermissions = [''hosts.view'', ''hosts.update'', ''hosts.delete'']\<rparr>]\<rparr>"

definition demo_mesh :: mesh where
  "demo_mesh = mesh_of demo_host_server [demo_host ''h1'', (demo_host ''h2'')\<lparr>hsName := ''pve2''\<rparr>] [] []"

definition demo_admin :: session_user where
  "demo_admin = \<lparr>allowedHostIds = None, allowedGuests = None, suId = ''u9'', suUsername = ''root'', suEmail = [], suRoleId = ''r1'',
     suRoleSlug = ''ops'', suRoleName = ''Ops'', suRolePermissions = [''hosts.update''], suHostPermissions = None,
     suGuestPermissions = None\<rparr>"

lemma demo_mesh_wf: "mesh_wf demo_mesh"
  using demo_server_wf
  by (simp add: mesh_wf_def demo_mesh_def mesh_of_def demo_host_server_def table_wf_def demo_host_def host_keys_def keys_clash_def)
    (simp add: server_wf_def demo_server_def table_wf_def)

lemma demo_delete: "\<exists>st'. host_DELETE demo_admin ''h1'' demo_mesh = (Inr (), st')"
  by (simp add: host_DELETE_def deleteHost_def assertLocalHost_def get_host_or_throw_def audit_host_def op_defs host_by_id_def
      delete_host_row_def find_row_def host_keys_def demo_mesh_def mesh_of_def demo_host_def canAccessHost_def demo_admin_def
      client_cache_invalidate_def)

theorem host_DELETE_unaudited_witness:
  "\<exists>st'. host_DELETE demo_admin ''h1'' demo_mesh = (Inr (), st') \<and> auditLogs (msServer st') = []"
proof -
  from demo_delete obtain st' where run: "host_DELETE demo_admin ''h1'' demo_mesh = (Inr (), st')" by blast
  from host_DELETE_unaudited [OF demo_mesh_wf run] have "auditLogs (msServer st') = []"
    by (simp add: demo_mesh_def mesh_of_def demo_host_server_def demo_server_def)
  with run show ?thesis by blast
qed

lemma uniq_const: "xs \<noteq> [] \<Longrightarrow> list_all (\<lambda>x. x = a) xs \<Longrightarrow> uniq xs = [a]"
proof -
  assume "xs \<noteq> []" "list_all (\<lambda>x. x = a) xs"
  then have "set (uniq xs) = {a}" by (cases xs) (auto simp: list_all_iff)
  moreover have "length (uniq xs) = card (set (uniq xs))" by (rule distinct_card [OF distinct_uniq, symmetric])
  ultimately have "length (uniq xs) = 1" by simp
  with \<open>set (uniq xs) = {a}\<close> show ?thesis by (cases "uniq xs") (auto simp del: set_uniq)
qed

text \<open>
  An access row restricts, and no row at all restricts nothing.  So when the only host a user was
  limited to is deleted, its row goes with it and the same user, whose role may see hosts, can
  access every other host.
\<close>

theorem deleting_only_host_lifts_limit:
  assumes "mesh_wf st" "host_DELETE user hid st = (Inr (), st')"
    and "session_user_of u (msServer st) = Some su" "hasPermission (Some (suRolePermissions su)) ''hosts.view''"
    and "hosts_of (uId u) (msServer st) \<noteq> []" "list_all (\<lambda>a. haHostId a = hid) (hosts_of (uId u) (msServer st))"
    and "list_all (\<lambda>a. gaHostId a = hid) (guests_of (uId u) (msServer st))"
  shows "allowedHostIds su = Some [hid]
    \<and> (case session_user_of u (msServer st') of None \<Rightarrow> False | Some su' \<Rightarrow> canAccessHost su' other)"
proof -
  let ?hs = "hosts_of (uId u) (msServer st)"
  from assms(3) obtain role where role: "role_by_id (uRoleId u) (msServer st) = Some role"
      "su = toSessionUser u role ?hs (guests_of (uId u) (msServer st))"
    by (auto simp: session_user_of_def)
  have "list_all (\<lambda>x. x = hid) (map haHostId ?hs)" using assms(6) by (simp add: list_all_iff)
  then have "uniq (map haHostId ?hs) = [hid]" using assms(5) by (intro uniq_const) simp_all
  then have before: "allowedHostIds su = Some [hid]"
    using assms(5) by (simp add: role(2) toSessionUser_def sessionScopeFromGrants_def lockHostsWithoutHostView_def Let_def)
  note srv = host_DELETE_Inr(3) [OF assms(1,2)]
  have none: "hosts_of (uId u) (msServer st') = []" "guests_of (uId u) (msServer st') = []"
    using assms(6,7) by (auto simp: srv hosts_of_def guests_of_def drop_rows_def filter_empty_conv list_all_iff
        host_access_grant.defs guest_access_grant.defs)
  have "role_by_id (uRoleId u) (msServer st') = Some role" using role(1) by (simp add: srv role_by_id_def)
  then have "session_user_of u (msServer st') = Some (toSessionUser u role [] [])"
    by (simp add: session_user_of_def none)
  moreover have "hasPermission (Some (roPermissions role)) ''hosts.view''"
    using assms(4) by (simp add: role(2) toSessionUser_def Let_def)
  ultimately show ?thesis
    using before by (simp add: toSessionUser_def sessionScopeFromGrants_def lockHostsWithoutHostView_def canAccessHost_def Let_def)
qed

theorem deleting_only_host_lifts_limit_witness:
  "\<exists>u su st'. u \<in> set (users (msServer demo_mesh)) \<and> session_user_of u (msServer demo_mesh) = Some su
     \<and> \<not> canAccessHost su ''h2'' \<and> host_DELETE demo_admin ''h1'' demo_mesh = (Inr (), st')
     \<and> (case session_user_of u (msServer st') of None \<Rightarrow> False | Some su' \<Rightarrow> canAccessHost su' ''h2'')"
proof -
  from demo_delete obtain st' where run: "host_DELETE demo_admin ''h1'' demo_mesh = (Inr (), st')" by blast
  let ?u = "hd (users (msServer demo_mesh))"
  have in_set: "?u \<in> set (users (msServer demo_mesh))"
    by (simp add: demo_mesh_def mesh_of_def demo_host_server_def demo_server_def)
  obtain su where su: "session_user_of ?u (msServer demo_mesh) = Some su" "suRolePermissions su = [''hosts.view'', ''hosts.update'', ''hosts.delete'']"
    by (simp add: session_user_of_def demo_mesh_def mesh_of_def demo_host_server_def demo_server_def role_by_id_def find_row_def
        role_keys_def toSessionUser_def Let_def)
  have p: "hasPermission (Some (suRolePermissions su)) ''hosts.view''" unfolding su(2) by code_simp
  have rows: "hosts_of (uId ?u) (msServer demo_mesh) \<noteq> []" "list_all (\<lambda>a. haHostId a = ''h1'') (hosts_of (uId ?u) (msServer demo_mesh))"
    "list_all (\<lambda>a. gaHostId a = ''h1'') (guests_of (uId ?u) (msServer demo_mesh))"
    by (simp_all add: hosts_of_def guests_of_def demo_mesh_def mesh_of_def demo_host_server_def demo_server_def
        host_access_grant.defs)
  from deleting_only_host_lifts_limit [OF demo_mesh_wf run su(1) p rows, of "''h2''"] in_set su(1) run
  show ?thesis by (intro exI [of _ ?u] exI [of _ su] exI [of _ st']) (simp add: canAccessHost_def)
qed

section \<open>Changing a host\<close>

text \<open>The body that clears the API token id and nothing else.\<close>

definition clear_token :: host_update where
  "clear_token = \<lparr>huName = None, huUrl = None, huAuthType = None, huUsername = None, huTokenId = Some None, huSecret = None,
     huAllowInsecureTls = None, huNotes = None\<rparr>"

text \<open>
  A change of a host succeeds only for a local host in the user's scope, with the permission for
  credentials when it brings new ones and the permission for the host when it brings other fields, and
  the answer shows the changed row.  A \<open>null\<close> token id counts as neither, so clearing the token
  id asks for neither permission.
\<close>

theorem host_PATCH_gate:
  assumes "mesh_wf st" "host_PATCH pf user hid body st = (Inr v, st')"
  shows "(\<exists>h c. host_by_id hid st = Some h \<and> hsOrigin h = LOCAL \<and> canAccessHost user hid
        \<and> v = toPublicHost None (apply_host_update body c h) \<and> hvId v = hid)
    \<and> (changes_credentials body \<longrightarrow> userHasPermission (Some (holder_of user)) ''hosts.credentials'' (Some hid) None)
    \<and> (changes_meta body \<longrightarrow> userHasPermission (Some (holder_of user)) ''hosts.update'' (Some hid) None)
    \<and> \<not> changes_credentials clear_token \<and> \<not> changes_meta clear_token"
proof -
  from assms(2) obtain h c where h: "host_by_id hid st = Some h" "canAccessHost user (hsId h)" "hsOrigin h \<noteq> PEER"
      and v: "v = toPublicHost None (apply_host_update body c h)"
      and perms: "changes_credentials body \<longrightarrow> userHasPermission (Some (holder_of user)) ''hosts.credentials'' (Some hid) None"
        "changes_meta body \<longrightarrow> userHasPermission (Some (holder_of user)) ''hosts.update'' (Some hid) None"
    unfolding host_PATCH_def updateHost_def assertLocalHost_def audit_host_def
    by (auto simp: op_Inr get_host_Inr split: if_splits)
  have "hsId h = hid" by (rule host_by_id_id [OF assms(1) h(1)])
  then have "hvId v = hid" "canAccessHost user hid" using v h(2) by (simp_all add: toPublicHost_def)
  moreover have "hsOrigin h = LOCAL" using h(3) by (cases "hsOrigin h") auto
  moreover have "\<not> changes_credentials clear_token \<and> \<not> changes_meta clear_token"
    by (simp add: changes_credentials_def changes_meta_def clear_token_def truthy_def)
  ultimately show ?thesis using h(1) v perms by blast
qed

theorem host_PATCH_gate_witness:
  "\<exists>v st'. host_PATCH demo_platform (demo_admin\<lparr>suRolePermissions := []\<rparr>) ''h1'' clear_token demo_mesh = (Inr v, st') \<and> hvTokenId v = None \<and> hvId v = ''h1''"
proof -
  let ?user = "demo_admin\<lparr>suRolePermissions := []\<rparr>"
  have "\<exists>v st'. host_PATCH demo_platform ?user ''h1'' clear_token demo_mesh = (Inr v, st') \<and> hvTokenId v = None"
    by (simp add: host_PATCH_def updateHost_def assertLocalHost_def get_host_or_throw_def audit_host_def op_defs host_by_id_def
      find_row_def host_keys_def demo_mesh_def mesh_of_def demo_host_def canAccessHost_def demo_admin_def hostUpdateSchema_def
      changes_credentials_def changes_meta_def clear_token_def truthy_def opt_len_def update_host_row_def apply_host_update_def
      or_old_def toPublicHost_def)
  then obtain v st' where run: "host_PATCH demo_platform ?user ''h1'' clear_token demo_mesh = (Inr v, st')" and n: "hvTokenId v = None" by blast
  from host_PATCH_gate [OF demo_mesh_wf run] run n show ?thesis by blast
qed


section \<open>Clients\<close>

text \<open>What a row in the database is like: no column holds a NUL, which a text column cannot store, and an
  API token id is not empty.\<close>

definition row_ok :: "host_row \<Rightarrow> bool" where
  "row_ok h \<longleftrightarrow> CHR 0x00 \<notin> set (hsUrl h) \<and> CHR 0x00 \<notin> set (hsUsername h) \<and> CHR 0x00 \<notin> set (or_old (hsTokenId h) [])
     \<and> CHR 0x00 \<notin> set (hsEncryptedSecret h) \<and> hsTokenId h \<noteq> Some []"

lemma fingerprint_parts:
  assumes "row_ok h"
  shows "split_on CHR 0x00 (hostClientFingerprint h) =
    [hsUrl h, auth_type_str (hsAuthType h), hsUsername h, or_old (hsTokenId h) [],
     (if hsAllowInsecureTls h then ''1'' else ''0''), hsEncryptedSecret h]"
proof -
  have "CHR 0x00 \<notin> set (auth_type_str (hsAuthType h))" by (simp add: auth_type_str_def split: auth_type.split)
  with assms show ?thesis
    by (simp add: hostClientFingerprint_def row_ok_def split_on_append_sep split_on_id or_old_def split: option.split)
qed

lemma fingerprint_client:
  assumes "row_ok h" "row_ok h0" "hostClientFingerprint h = hostClientFingerprint h0"
  shows "local_client pf h = local_client pf h0" "hsUrl h = hsUrl h0"
proof -
  have same: "hsUrl h = hsUrl h0" "auth_type_str (hsAuthType h) = auth_type_str (hsAuthType h0)" "hsUsername h = hsUsername h0"
    "or_old (hsTokenId h) [] = or_old (hsTokenId h0) []" "hsAllowInsecureTls h = hsAllowInsecureTls h0"
    "hsEncryptedSecret h = hsEncryptedSecret h0"
    using fingerprint_parts [OF assms(1)] fingerprint_parts [OF assms(2)] assms(3) by (simp_all split: if_splits)
  have "hsAuthType h = hsAuthType h0" using same(2) by (cases "hsAuthType h"; cases "hsAuthType h0") (auto simp: auth_type_str_def)
  moreover have "hsTokenId h = hsTokenId h0" using same(4) assms(1,2)
    by (cases "hsTokenId h"; cases "hsTokenId h0") (auto simp: or_old_def row_ok_def)
  ultimately show "local_client pf h = local_client pf h0" "hsUrl h = hsUrl h0"
    using same by (simp_all add: local_client_def clientConfigFromHost_def split: sum.split)
qed

text \<open>An entry of the cache was made from some row with the fingerprint it is stored under.\<close>

definition cache_ok :: "platform \<Rightarrow> mesh \<Rightarrow> string \<Rightarrow> bool" where
  "cache_ok pf st hid \<longleftrightarrow>
     (case map_of (msClients st) hid of None \<Rightarrow> True
      | Some (fp, c) \<Rightarrow> \<exists>h0. row_ok h0 \<and> fp = hostClientFingerprint h0 \<and> local_client pf h0 = Inr c)"

text \<open>
  The client cache is transparent for local hosts: whatever it holds, the client of a host, or the
  error, is the one made from the present row, so a changed address, account or secret is never
  answered with an old client, and the cache keeps that property.
\<close>

theorem local_client_is_current:
  assumes "row_ok h" "hsOrigin h = LOCAL" "\<not> starts_with (hsUrl h) ''federation://''" "cache_ok pf st (hsId h)"
  shows "fst (clientForHost pf h st) = local_client pf h \<and> cache_ok pf (snd (clientForHost pf h st)) (hsId h)"
proof -
  have run: "clientForHost pf h st = client_cache_get h (local_client pf) st"
    using assms(2,3) by (simp add: clientForHost_def)
  show ?thesis
  proof (cases "map_of (msClients st) (hsId h)")
    case None
    with assms(1) show ?thesis
      by (auto simp: run client_cache_get_def Let_def cache_ok_def update_conv' split: sum.split)
  next
    case (Some e)
    obtain fp c where e: "e = (fp, c)" by (cases e)
    with Some assms(4) obtain h0 where h0: "row_ok h0" "fp = hostClientFingerprint h0" "local_client pf h0 = Inr c"
      by (auto simp: cache_ok_def)
    show ?thesis
    proof (cases "fp = hostClientFingerprint h")
      case True
      with h0 have "local_client pf h = Inr c" using fingerprint_client(1) [OF assms(1) h0(1)] by simp
      with True Some e assms(4) show ?thesis by (simp add: run client_cache_get_def Let_def)
    next
      case False
      with Some e assms(1,4) show ?thesis
        by (auto simp: run client_cache_get_def Let_def cache_ok_def update_conv' split: sum.split)
    qed
  qed
qed

theorem local_client_is_current_witness:
  "fst (clientForHost demo_platform (demo_host ''h1'') (demo_mesh\<lparr>msClients :=
     [(''h1'', hostClientFingerprint ((demo_host ''h1'')\<lparr>hsEncryptedSecret := ''old''\<rparr>),
       clientConfigFromHost (demo_host ''h1'') ''dlo'')]\<rparr>)) = Inr (clientConfigFromHost (demo_host ''h1'') ''s'')"
proof -
  let ?st = "demo_mesh\<lparr>msClients := [(''h1'', hostClientFingerprint ((demo_host ''h1'')\<lparr>hsEncryptedSecret := ''old''\<rparr>),
       clientConfigFromHost (demo_host ''h1'') ''dlo'')]\<rparr>"
  let ?h0 = "(demo_host ''h1'')\<lparr>hsEncryptedSecret := ''old''\<rparr>"
  have "row_ok ?h0 \<and> hostClientFingerprint ?h0 = hostClientFingerprint ?h0
      \<and> local_client demo_platform ?h0 = Inr (clientConfigFromHost (demo_host ''h1'') ''dlo'')"
    by (simp add: row_ok_def demo_host_def or_old_def local_client_def demo_platform_def clientConfigFromHost_def)
  then have e: "cache_ok demo_platform ?st (hsId (demo_host ''h1''))"
    unfolding cache_ok_def by (simp add: demo_host_def) blast
  have h: "row_ok (demo_host ''h1'')" "hsOrigin (demo_host ''h1'') = LOCAL" "\<not> starts_with (hsUrl (demo_host ''h1'')) ''federation://''"
    by (simp_all add: row_ok_def demo_host_def or_old_def starts_with_def)
  from local_client_is_current [OF h e] show ?thesis
    by (simp add: local_client_def demo_platform_def demo_host_def)
qed

section \<open>Connection states\<close>

lemma host_after_update:
  assumes "mesh_wf st" "host_by_id hid st = Some h" "\<And>h. hsId (f h) = hsId h" "\<And>h. hsPeerId (f h) = hsPeerId h"
    "\<And>h. hsRemoteHostId (f h) = hsRemoteHostId h"
  shows "host_by_id hid (update_hosts (\<lambda>r. hsId r = hid) f st) = Some (f h)"
proof -
  have "mesh_wf (update_hosts (\<lambda>r. hsId r = hid) f st)" by (rule hosts_wf [OF assms(1,3,4,5)])
  moreover have "f h \<in> set (msHosts (update_hosts (\<lambda>r. hsId r = hid) f st))" "hsId (f h) = hid"
    using assms(1-3) by (auto simp: update_hosts_def set_change_rows host_by_id_iff)
  ultimately show ?thesis by (simp add: host_by_id_iff)
qed

lemma notify_hosts [simp]:
  "msHosts (notifyHostState h s st) = msHosts st" "host_by_id hid (notifyHostState h s st) = host_by_id hid st"
  "host_by_id hid (st\<lparr>msKicks := n\<rparr>) = host_by_id hid st"
  by (simp_all add: notifyHostState_def host_by_id_def split: option.split)

lemma absorb_run:
  "absorbPeerUpdateOutage now hid st =
     (case outage_expected now hid st of None \<Rightarrow> (Inr False, st)
      | Some h \<Rightarrow> (Inr True, if hsState h = MAINTENANCE then st else update_hosts (\<lambda>r. hsId r = hid) rest_host st))"
proof (cases "outage_expected now hid st")
  case (Some h)
  then have "host_by_id hid st = Some h" by (auto simp: outage_expected_def split: option.splits if_splits)
  moreover from this have "hsId h = hid" unfolding host_by_id_def find_row_def host_keys_def by (auto dest!: find_SomeD')
  ultimately show ?thesis using Some by (simp add: absorbPeerUpdateOutage_def op_defs update_host_row_hosts)
qed (simp add: absorbPeerUpdateOutage_def op_defs)

lemma client_frame:
  assumes "clientForHost pf h st = (r, st1)"
  shows "msHosts st1 = msHosts st" "msPeers st1 = msPeers st"
proof -
  have cache: "preserves (\<lambda>s. msHosts s = msHosts st \<and> msPeers s = msPeers st) (client_cache_get h mk)" for mk
    by (simp add: preserves_def client_cache_get_def Let_def split: option.split sum.split prod.split)
  have "preserves (\<lambda>s. msHosts s = msHosts st \<and> msPeers s = msPeers st) (clientForHost pf h)"
    unfolding clientForHost_def by (intro preserve_intros cache)
  from preservesD [OF this, of st] assms show "msHosts st1 = msHosts st" "msPeers st1 = msPeers st" by simp_all
qed




end
