(* ===== verification/HostProbe.thy ===== *)
theory HostProbe imports HostProperties begin

text \<open>
  The probe of all hosts and the end of an update of a peer: hosts in maintenance are left alone, and
  the rest that an update brings does not outlast its deadline.
\<close>

section \<open>Maintenance\<close>

text \<open>The row of a local host that rests, in a consistent database.\<close>

definition resting :: "host_row \<Rightarrow> mesh \<Rightarrow> bool" where
  "resting h st \<longleftrightarrow> mesh_wf st \<and> h \<in> set (msHosts st) \<and> hsOrigin h = LOCAL \<and> hsState h = MAINTENANCE"

lemma resting_wf: "preserves mesh_wf m \<Longrightarrow> (\<And>st. resting h st \<Longrightarrow> h \<in> set (msHosts (snd (m st)))) \<Longrightarrow> preserves (resting h) m"
  using preservesD [of mesh_wf m] by (auto simp: preserves_def resting_def)

lemma resting_update_other:
  assumes "hid \<noteq> hsId h" "preserves mesh_wf (update_host_row hid f)"
  shows "preserves (resting h) (update_host_row hid f)"
  using assms by (intro resting_wf) (auto simp: update_host_row_def change_rows_def resting_def)

lemma resting_frame:
  assumes "preserves mesh_wf m" "\<And>st. msHosts (snd (m st)) = msHosts st"
  shows "preserves (resting h) m"
  using assms by (intro resting_wf) (auto simp: resting_def)

lemma resting_finish [preserve_intros]: "preserves (resting h) (finishPeerUpdate peer outcome)"
  by (intro resting_wf preserve_intros)
    (auto simp: finishPeerUpdate_def Let_def notify_topic_def update_hosts_def set_change_rows resting_def shared_by_def)

lemma resting_notify [preserve_intros]: "preserves (resting h) (write_op (notifyHostState h' s))"
  by (rule resting_frame) (intro preserve_intros, simp add: op_defs)

lemma resting_note [preserve_intros]: "preserves (resting h) (notePeerHostReachable pid)"
  unfolding notePeerHostReachable_def by (intro preserve_intros)

lemma resting_absorb:
  assumes "hid \<noteq> hsId h"
  shows "preserves (resting h) (absorbPeerUpdateOutage now hid)"
proof (rule resting_wf)
  show "preserves mesh_wf (absorbPeerUpdateOutage now hid)" by (rule preserves_absorbPeerUpdateOutage)
  fix st
  assume "resting h st"
  with assms show "h \<in> set (msHosts (snd (absorbPeerUpdateOutage now hid st)))"
    by (auto simp: absorb_run resting_def update_hosts_def change_rows_def split: option.split)
qed

lemma resting_apply:
  assumes "hid \<noteq> hsId h"
  shows "preserves (resting h) (applyTestResult env hid r)"
  unfolding applyTestResult_def
  by (intro preserve_intros resting_absorb [OF assms] resting_update_other [OF assms]) simp_all

lemma resting_client [preserve_intros]: "preserves (resting h) (clientForHost pf h')"
  using client_frame(1) [of pf h'] by (intro resting_frame preserve_intros) (metis prod.collapse)

lemma resting_probe:
  assumes "hsId h' \<noteq> hsId h"
  shows "preserves (resting h) (probe_host pf env h')"
proof -
  have fin: "preserves (resting h) (finally_op m (client_cache_invalidate i))" if "preserves (resting h) m" for m :: "test_result mesh_op" and i
    using that by (rule preserves_finally) (simp add: resting_def)
  show ?thesis
    unfolding probe_host_def probe_failed_def run_test_def Let_def
    by (intro preserve_intros fin resting_apply [OF assms] resting_absorb [OF assms] resting_update_other [OF assms]) simp_all
qed

lemma resting_probe_all:
  assumes "\<And>hs. set (heByName env hs) \<subseteq> set hs"
  shows "preserves (resting h) (probeAllHosts pf env)"
proof -
  have expire: "preserves (resting h) (expireStalePeerUpdates (heNow env))"
    unfolding expireStalePeerUpdates_def by (intro preserve_intros)
  have each: "resting h (snd (each_op (probe_host pf env) hs st))"
    if "resting h st" "\<forall>h' \<in> set hs. hsId h' = hsId h \<longrightarrow> h' = h" for hs st
    using that
  proof (induction hs arbitrary: st)
    case (Cons h' hs)
    have "resting h (snd (probe_host pf env h' st))"
    proof (cases "h' = h")
      case True
      with Cons.prems(1) show ?thesis by (simp add: probe_host_def resting_def return_op_def)
    next
      case False
      with Cons.prems show ?thesis by (intro preservesD [OF resting_probe]) auto
    qed
    with Cons show ?case by (auto simp: bind_op_def split: prod.split sum.split)
  qed (simp add: return_op_def)
  have "resting h (snd (probeAllHosts pf env st))" if r: "resting h st" for st
  proof -
    obtain res st1 where e: "expireStalePeerUpdates (heNow env) st = (res, st1)" by fastforce
    have r1: "resting h st1" using preservesD [OF expire r] e by simp
    have wf1: "mesh_wf st1" using r1 by (simp add: resting_def)
    have "host_by_id (hsId h) st1 = Some h" using r1 by (simp add: resting_def host_by_id_iff)
    then have "h' = h" if "h' \<in> set (msHosts st1)" "hsId h' = hsId h" for h'
      using host_by_id_iff [OF wf1, of "hsId h" h'] that by simp
    then have "\<forall>h' \<in> set (heByName env (msHosts st1)). hsId h' = hsId h \<longrightarrow> h' = h"
      using assms [of "msHosts st1"] by blast
    with each [OF r1] r1 show ?thesis
      by (auto simp: probeAllHosts_def bind_op_def e read_op_def split: sum.split)
  qed
  then show ?thesis by (simp add: preserves_def)
qed

text \<open>
  A local host that an administrator put into maintenance is left exactly as it is by the probe of
  all hosts, whatever the hosts answer and whatever happens to the others.
\<close>

theorem probe_skips_maintenance:
  assumes "mesh_wf st" "host_by_id hid st = Some h" "hsOrigin h = LOCAL" "hsState h = MAINTENANCE"
    and "\<And>hs. set (heByName env hs) \<subseteq> set hs"
  shows "host_by_id hid (snd (probeAllHosts pf env st)) = Some h"
proof -
  have "resting h st" using assms(1-4) by (auto simp: resting_def host_by_id_iff)
  from preservesD [OF resting_probe_all [OF assms(5)] this] have "resting h (snd (probeAllHosts pf env st))" by simp
  with assms(1,2) show ?thesis by (auto simp: resting_def host_by_id_iff)
qed

theorem probe_skips_maintenance_witness:
  "host_by_id ''h1'' (snd (probeAllHosts demo_platform \<lparr>heTest = \<lambda>_. \<lparr>trOk = False, trError = None, trVersion = None,
       trClusterName = None, trIsCluster = False\<rparr>, heByName = id, heNow = 5, heId = []\<rparr>
     (demo_mesh\<lparr>msHosts := [(demo_host ''h1'')\<lparr>hsState := MAINTENANCE\<rparr>, (demo_host ''h2'')\<lparr>hsName := ''pve2''\<rparr>]\<rparr>)))
   = Some ((demo_host ''h1'')\<lparr>hsState := MAINTENANCE\<rparr>)"
proof -
  let ?st = "demo_mesh\<lparr>msHosts := [(demo_host ''h1'')\<lparr>hsState := MAINTENANCE\<rparr>, (demo_host ''h2'')\<lparr>hsName := ''pve2''\<rparr>]\<rparr>"
  have "mesh_wf ?st" using demo_mesh_wf
    by (simp add: mesh_wf_def demo_mesh_def mesh_of_def demo_host_def table_wf_def host_keys_def keys_clash_def)
  moreover have "host_by_id ''h1'' ?st = Some ((demo_host ''h1'')\<lparr>hsState := MAINTENANCE\<rparr>)"
    by (simp add: host_by_id_def find_row_def host_keys_def demo_host_def)
  ultimately show ?thesis by (rule probe_skips_maintenance) (simp_all add: demo_host_def)
qed

section \<open>The end of an update\<close>

definition not_updating :: "string \<Rightarrow> mesh \<Rightarrow> bool" where
  "not_updating i st \<longleftrightarrow> (\<forall>p \<in> set (msPeers st). wgId p = i \<longrightarrow> wgUpdatingUntil p = None)"

definition hosts_awake :: "string \<Rightarrow> mesh \<Rightarrow> bool" where
  "hosts_awake i st \<longleftrightarrow> (\<forall>h \<in> set (msHosts st). shared_by i h \<longrightarrow> hsState h \<noteq> MAINTENANCE)"

definition is_updating :: "string \<Rightarrow> mesh \<Rightarrow> bool" where
  "is_updating i st \<longleftrightarrow> (\<exists>p \<in> set (msPeers st). wgId p = i \<and> wgUpdatingUntil p \<noteq> None)"

definition only_cleared :: "mesh \<Rightarrow> mesh \<Rightarrow> bool" where
  "only_cleared st0 st \<longleftrightarrow> (\<forall>p \<in> set (msPeers st). wgUpdatingUntil p = None \<or> p \<in> set (msPeers st0))"

lemma finish_tables:
  "msPeers (snd (finishPeerUpdate peer outcome st)) = change_rows (\<lambda>p. wgId p = wgId peer \<and> wgUpdatingUntil p \<noteq> None)
     (\<lambda>p. p\<lparr>wgUpdatingUntil := None, wgUpdatingFrom := None, wgUpdatingTo := None\<rparr>) (msPeers st)"
  "msHosts (snd (finishPeerUpdate peer outcome st)) = (if is_updating (wgId peer) st
     then change_rows (\<lambda>h. shared_by (wgId peer) h \<and> hsState h = MAINTENANCE) (wake_host outcome) (msHosts st) else msHosts st)"
  "isl (fst (finishPeerUpdate peer outcome st)) \<longleftrightarrow> False"
proof -
  have none: "change_rows P f t = t" if "\<not> list_ex P t" for P f and t :: "'a list"
    using that by (induction t) (auto simp: change_rows_def)
  show "msPeers (snd (finishPeerUpdate peer outcome st)) = change_rows (\<lambda>p. wgId p = wgId peer \<and> wgUpdatingUntil p \<noteq> None)
     (\<lambda>p. p\<lparr>wgUpdatingUntil := None, wgUpdatingFrom := None, wgUpdatingTo := None\<rparr>) (msPeers st)"
    by (simp add: finishPeerUpdate_def Let_def notify_topic_def update_hosts_def none)
  show "msHosts (snd (finishPeerUpdate peer outcome st)) = (if is_updating (wgId peer) st
     then change_rows (\<lambda>h. shared_by (wgId peer) h \<and> hsState h = MAINTENANCE) (wake_host outcome) (msHosts st) else msHosts st)"
    by (auto simp: finishPeerUpdate_def Let_def notify_topic_def update_hosts_def is_updating_def list_ex_iff)
  show "isl (fst (finishPeerUpdate peer outcome st)) \<longleftrightarrow> False" by (simp add: finishPeerUpdate_def Let_def)
qed

lemma finish_preserves [preserve_intros]:
  "preserves (not_updating i) (finishPeerUpdate peer outcome)" "preserves (hosts_awake i) (finishPeerUpdate peer outcome)"
  "preserves (only_cleared st0) (finishPeerUpdate peer outcome)"
  "wgId peer \<noteq> i \<Longrightarrow> preserves (is_updating i) (finishPeerUpdate peer outcome)"
proof -
  show "preserves (not_updating i) (finishPeerUpdate peer outcome)" "preserves (only_cleared st0) (finishPeerUpdate peer outcome)"
    by (auto simp: preserves_def not_updating_def only_cleared_def finish_tables set_change_rows)
  show "preserves (hosts_awake i) (finishPeerUpdate peer outcome)"
    by (auto simp: preserves_def hosts_awake_def finish_tables set_change_rows wake_host_def shared_by_def)
  show "preserves (is_updating i) (finishPeerUpdate peer outcome)" if "wgId peer \<noteq> i"
    using that by (auto simp: preserves_def is_updating_def finish_tables change_rows_def)
qed

lemma finish_establishes:
  "not_updating (wgId peer) (snd (finishPeerUpdate peer outcome st))"
  "is_updating (wgId peer) st \<Longrightarrow> hosts_awake (wgId peer) (snd (finishPeerUpdate peer outcome st))"
  by (auto simp: not_updating_def hosts_awake_def finish_tables set_change_rows wake_host_def shared_by_def split: if_splits)

abbreviation expire_one :: "wg_peer \<Rightarrow> unit mesh_op" where
  "expire_one p \<equiv> bind_op (finishPeerUpdate p Expired) (\<lambda>_. return_op ())"

lemma expire_one_run: "expire_one p st = (Inr (), snd (finishPeerUpdate p Expired st))"
  using finish_tables(3) [of p Expired st]
  by (cases "finishPeerUpdate p Expired st") (auto simp: bind_op_def return_op_def split: sum.split)

lemma expire_list:
  assumes "distinct (map wgId ps)" "\<forall>p \<in> set ps. is_updating (wgId p) st"
  shows "fst (each_op expire_one ps st) = Inr ()
    \<and> (\<forall>p \<in> set ps. not_updating (wgId p) (snd (each_op expire_one ps st)) \<and> hosts_awake (wgId p) (snd (each_op expire_one ps st)))"
  using assms
proof (induction ps arbitrary: st)
  case (Cons p ps)
  let ?st1 = "snd (finishPeerUpdate p Expired st)"
  have run: "each_op expire_one (p # ps) st = each_op expire_one ps ?st1"
    using expire_one_run [of p st] by (simp add: bind_op_def)
  have "is_updating (wgId q) ?st1" if "q \<in> set ps" for q
    using that Cons.prems by (intro preservesD [OF finish_preserves(4)]) auto
  then have ih: "fst (each_op expire_one ps ?st1) = Inr ()
      \<and> (\<forall>q \<in> set ps. not_updating (wgId q) (snd (each_op expire_one ps ?st1)) \<and> hosts_awake (wgId q) (snd (each_op expire_one ps ?st1)))"
    using Cons.prems by (intro Cons.IH) auto
  have "preserves (not_updating (wgId p)) (each_op expire_one ps)" "preserves (hosts_awake (wgId p)) (each_op expire_one ps)"
    by (intro preserve_intros)+
  from preservesD [OF this(1)] preservesD [OF this(2)] finish_establishes(1) [of p Expired st] finish_establishes(2) [of p st Expired] Cons.prems(2)
  have "not_updating (wgId p) (snd (each_op expire_one ps ?st1))" "hosts_awake (wgId p) (snd (each_op expire_one ps ?st1))"
    by simp_all
  with ih show ?case unfolding run by simp
qed (simp add: return_op_def)

lemma distinct_key: "sorted_wrt (\<lambda>a b. f a \<noteq> f b) xs \<Longrightarrow> distinct (map f xs)"
  by (induction xs) auto

definition update_over :: "int \<Rightarrow> wg_peer \<Rightarrow> bool" where
  "update_over now p \<longleftrightarrow> (case wgUpdatingUntil p of None \<Rightarrow> False | Some t \<Rightarrow> t \<le> now)"

text \<open>
  The rest that an announced update gives the hosts of a peer ends by itself: after the expiry run
  of a probe no peer counts as updating past its deadline, and no host of a peer whose deadline has
  passed is in maintenance any more, so the probe tries them again.
\<close>

theorem peer_update_expires:
  assumes "mesh_wf st" "expireStalePeerUpdates now st = (r, st')"
  shows "r = Inr () \<and> list_all (\<lambda>p. \<not> update_over now p) (msPeers st')
    \<and> list_all (\<lambda>p. list_all (\<lambda>h. \<not> (shared_by (wgId p) h \<and> hsState h = MAINTENANCE)) (msHosts st')) (filter (update_over now) (msPeers st))"
proof -
  let ?stale = "filter (update_over now) (msPeers st)"
  have run: "expireStalePeerUpdates now st = each_op expire_one ?stale st"
    by (simp add: expireStalePeerUpdates_def bind_op_def read_op_def update_over_def [abs_def])
  have "distinct (map wgId (msPeers st))"
  proof -
    have "sorted_wrt (\<lambda>a b. wgId a \<noteq> wgId b) (msPeers st)"
      using mesh_wfD(2) [OF assms(1)] unfolding table_wf_def
      by (rule sorted_wrt_mono_rel [rotated]) (simp add: keys_clash_def peer_keys_def)
    then show ?thesis by (rule distinct_key)
  qed
  then have d: "distinct (map wgId ?stale)" by (rule distinct_map_filter)
  have u: "\<forall>p \<in> set ?stale. is_updating (wgId p) st"
    by (auto simp: is_updating_def update_over_def split: option.splits)
  note ended = expire_list [OF d u, folded run, unfolded assms(2)]
  have "only_cleared st (snd (each_op expire_one ?stale st))"
    by (rule preservesD) (intro preserve_intros, simp add: only_cleared_def)
  then have oc: "only_cleared st st'" unfolding run [symmetric] assms(2) by simp
  have "\<not> update_over now p" if "p \<in> set (msPeers st')" for p
  proof
    assume over: "update_over now p"
    then have "p \<in> set (msPeers st)" using oc that by (auto simp: only_cleared_def update_over_def)
    with over ended have "not_updating (wgId p) st'" by auto
    with that over show False by (auto simp: not_updating_def update_over_def)
  qed
  with ended show ?thesis by (auto simp: list_all_iff hosts_awake_def)
qed


definition demo_peer :: wg_peer where
  "demo_peer = \<lparr>wgId = ''p1'', wgName = ''site'', wgKind = PROXORA, wgPublicKey = [], wgEndpoint = [], wgAddress = ''10.88.0.3'',
     wgProxoraPort = 3000, wgAllowedIPs = [], wgKeepalive = 25, wgInboundHash = ''nekot'', wgEncryptedInbound = ''nekot'',
     wgEncryptedOutbound = ''nekot'', wgLastSeenAt = None, wgUpdatingUntil = Some 5, wgUpdatingFrom = None, wgUpdatingTo = None,
     wgCreatedAt = 0\<rparr>"

definition demo_peer_mesh :: mesh where
  "demo_peer_mesh = mesh_of demo_host_server
     [demo_host ''h1'', (demo_host ''h2'')\<lparr>hsOrigin := PEER, hsPeerId := Some ''p1'', hsRemoteHostId := Some ''r1'', hsState := MAINTENANCE\<rparr>]
     [demo_peer] [\<lparr>shPeerId = ''p1'', shHostId = ''h1'', shLevel = ViewLevel, shPermissions = [''vm.view'', ''vm.files.read'']\<rparr>]"

lemma demo_peer_mesh_wf: "mesh_wf demo_peer_mesh"
  using demo_mesh_wf
  by (simp add: mesh_wf_def demo_peer_mesh_def demo_mesh_def mesh_of_def table_wf_def demo_host_def host_keys_def keys_clash_def demo_peer_def)

theorem peer_update_expires_witness:
  "\<exists>st'. expireStalePeerUpdates 6 demo_peer_mesh = (Inr (), st') \<and> list_all (\<lambda>h. hsState h \<noteq> MAINTENANCE) (filter (shared_by ''p1'') (msHosts st'))"
proof -
  obtain r st' where run: "expireStalePeerUpdates 6 demo_peer_mesh = (r, st')" by fastforce
  have "filter (update_over 6) (msPeers demo_peer_mesh) = [demo_peer]"
    by (simp add: demo_peer_mesh_def mesh_of_def demo_peer_def update_over_def)
  with peer_update_expires [OF demo_peer_mesh_wf run] run show ?thesis
    by (auto simp: list_all_iff demo_peer_def)
qed

end
