(* ===== verification/FederationProperties.thy ===== *)
theory FederationProperties imports FederationService HostProbe begin

text \<open>
  What a peer installation reaches and what the exchange of hosts leaves behind: the gate of a passed
  on call, guest files on shared hosts, the shares that are stored, and the hosts taken from a peer.
\<close>

section \<open>The gate of a federation request\<close>

lemma catch_unit_Inr:
  "catch_op m (\<lambda>_. return_op ()) st = (Inr x, st') \<longleftrightarrow> snd (m st) = st'"
  by (cases "m st") (auto simp: catch_op_def return_op_def split: sum.split)

lemma seen_tables [simp]:
  "msShares (snd (update_peer_row pid f st)) = msShares st" "msHosts (snd (update_peer_row pid f st)) = msHosts st"
  "msServer (snd (update_peer_row pid f st)) = msServer st" "msSettings (snd (update_peer_row pid f st)) = msSettings st"
  by (simp_all add: update_peer_row_def Let_def)

lemma requireFederationPeer_Inr:
  assumes "requireFederationPeer pf now a st = (Inr peer, st1)"
  obtains token where "bearerToken a = Inr token" "peer \<in> set (msPeers st)" "wgInboundHash peer = sha256 pf token"
    "wgKind peer = PROXORA" "msShares st1 = msShares st" "msHosts st1 = msHosts st" "msServer st1 = msServer st"
    "msSettings st1 = msSettings st"
proof -
  from assms obtain token where t: "bearerToken a = Inr token" "findPeerByInboundToken pf token st = Some peer" "wgKind peer = PROXORA"
      and st1: "snd (update_peer_row (wgId peer) (\<lambda>p. p\<lparr>wgLastSeenAt := Some now\<rparr>) st) = st1"
    by (auto simp: requireFederationPeer_def op_Inr catch_unit_Inr split: option.splits if_splits)
  from t(2) have "peer \<in> set (msPeers st)" "wgInboundHash peer = sha256 pf token"
    by (auto simp: findPeerByInboundToken_def peer_by_hash_def find_row_def peer_keys_def dest!: find_SomeD')
  with t that st1 show thesis using seen_tables [of "wgId peer" "\<lambda>p. p\<lparr>wgLastSeenAt := Some now\<rparr>" st] by auto
qed

lemma shared_host_Inr:
  "shared_host peer rid st = (Inr (s, h), st') \<longleftrightarrow>
     st' = st \<and> share_of (wgId peer) rid st = Some s \<and> host_by_id rid st = Some h \<and> hsOrigin h = LOCAL"
  by (auto simp: shared_host_def op_Inr split: option.splits if_splits)

text \<open>The peer, the share and the host behind a call, in the state it was made in.\<close>

definition call_granted :: "platform \<Rightarrow> string option \<Rightarrow> string \<Rightarrow> pve_payload \<Rightarrow> mesh \<Rightarrow> wg_peer \<Rightarrow> host_share \<Rightarrow> host_row \<Rightarrow> bool" where
  "call_granted pf authorization hostId payload st peer s h \<longleftrightarrow>
     peer \<in> set (msPeers st) \<and> wgKind peer = PROXORA \<and> bearerToken authorization \<noteq> Inr []
     \<and> (case bearerToken authorization of Inl _ \<Rightarrow> False | Inr token \<Rightarrow> wgInboundHash peer = sha256 pf token)
     \<and> share_of (wgId peer) hostId st = Some s \<and> host_by_id hostId st = Some h \<and> hsOrigin h = LOCAL
     \<and> (let extra = \<lparr>exQuery = Some (map (\<lambda>(k, v). (k, js_string v)) (or_old (ppQuery payload) [])), exBody = ppBody payload\<rparr>;
            needed = federationPermission (ppMethod payload) (ppPath payload) (Some extra)
        in needed \<noteq> Deny \<and> shareHasPermission (shLevel s) (Some (shPermissions s)) (needed_list needed))"

text \<open>
  C15: A call from another installation reaches Proxmox only with the token of a paired peer, for a local
  host that is shared with that peer, with a permission the share grants for that method and path, as
  one of the four verbs on an absolute path without \<open>..\<close>, and through the client of that host.
\<close>

theorem federation_call_needs_share:
  assumes "federation_pve_call pf now authorization hostId payload st = (Inr call, st')"
  shows "\<exists>peer s h st1 st2. call_granted pf authorization hostId payload st peer s h
    \<and> clientForHost pf h st1 = (Inr (pvClient call), st2) \<and> pvPath call = ppPath payload
    \<and> pvVerb call \<in> {''GET'', ''POST'', ''PUT'', ''DELETE''} \<and> pvVerb call = to_upper (ppMethod payload)
    \<and> starts_with (pvPath call) ''/'' \<and> \<not> str_includes (pvPath call) ''..''"
proof -
  let ?q = "map (\<lambda>(k, v). (k, js_string v)) (or_old (ppQuery payload) [])"
  from assms obtain peer st1 h where peer: "requireFederationPeer pf now authorization st = (Inr peer, st1)"
      and host: "assertSharedHost peer hostId (ppMethod payload) (ppPath payload) (Some \<lparr>exQuery = Some ?q, exBody = ppBody payload\<rparr>) st1 = (Inr h, st1)"
      and run: "proxyPveRequest pf h (ppMethod payload) (ppPath payload) ?q (ppBody payload) st1 = (Inr call, st')"
    by (auto simp: federation_pve_call_def assertSharedHost_def op_Inr shared_host_Inr Let_def split: prod.splits)
  from requireFederationPeer_Inr [OF peer] obtain token where p: "bearerToken authorization = Inr token" "peer \<in> set (msPeers st)"
      "wgInboundHash peer = sha256 pf token" "wgKind peer = PROXORA" "msShares st1 = msShares st" "msHosts st1 = msHosts st"
    by metis
  from host obtain s where s: "share_of (wgId peer) hostId st1 = Some s" "host_by_id hostId st1 = Some h" "hsOrigin h = LOCAL"
      "federationPermission (ppMethod payload) (ppPath payload) (Some \<lparr>exQuery = Some ?q, exBody = ppBody payload\<rparr>) \<noteq> Deny"
      "shareHasPermission (shLevel s) (Some (shPermissions s))
         (needed_list (federationPermission (ppMethod payload) (ppPath payload) (Some \<lparr>exQuery = Some ?q, exBody = ppBody payload\<rparr>)))"
    by (auto simp: assertSharedHost_def op_Inr shared_host_Inr Let_def split: prod.splits)
  have "token \<noteq> []" using p(1) by (auto simp: bearerToken_def Let_def split: if_splits)
  then have "call_granted pf authorization hostId payload st peer s h"
    using p s by (simp add: call_granted_def Let_def share_of_def host_by_id_def)
  moreover from run obtain c st2 where "clientForHost pf h st1 = (Inr c, st2)" "pvClient call = c" "pvPath call = ppPath payload"
      "pvVerb call = to_upper (ppMethod payload)" "pvVerb call \<in> {''GET'', ''POST'', ''PUT'', ''DELETE''}"
      "starts_with (ppPath payload) ''/''" "\<not> str_includes (ppPath payload) ''..''"
    by (auto simp: proxyPveRequest_def op_Inr Let_def split: if_splits)
  ultimately show ?thesis by metis
qed

lemma succeeds: "isl (fst p) = False \<Longrightarrow> \<exists>x st'. p = (Inr x, st')"
  by (cases p; cases "fst p") auto

definition demo_payload :: pve_payload where
  "demo_payload = \<lparr>ppMethod = ''get'', ppPath = ''/nodes/pve/qemu/100/status/current'', ppQuery = None, ppBody = None\<rparr>"

theorem federation_call_needs_share_witness:
  "\<exists>call st'. federation_pve_call demo_platform 7 (Some ''Bearer token'') ''h1'' demo_payload demo_peer_mesh = (Inr call, st')
     \<and> pvVerb call = ''GET''"
proof -
  have "isl (fst (federation_pve_call demo_platform 7 (Some ''Bearer token'') ''h1'' demo_payload demo_peer_mesh)) = False"
    by code_simp
  from succeeds [OF this] obtain call st' where
    run: "federation_pve_call demo_platform 7 (Some ''Bearer token'') ''h1'' demo_payload demo_peer_mesh = (Inr call, st')" by blast
  from federation_call_needs_share [OF run] have "pvVerb call = to_upper (ppMethod demo_payload)" by blast
  moreover have "to_upper (ppMethod demo_payload) = ''GET''" by code_simp
  ultimately show ?thesis using run by metis
qed

section \<open>Guest files on shared hosts\<close>

text \<open>
  What a peer may do with the files of guests on a shared host does not depend on what it asks to
  do: the gate accepts a share with the read or the write permission for every operation.  So a share
  that grants reading only lets the peer write, rename, delete and upload.
\<close>

theorem federation_files_ignore_operation:
  assumes "federation_files_call pf now authorization f ''list'' None None st = (Inr c, st')"
    and "op \<in> set FED_OPS" "op \<noteq> ''rename''"
  shows "federation_files_call pf now authorization f op None None st
      = (Inr (SftpOp (ffLogin f) (ffKind f) (ffVmid f) op (ffPath f) None None), st')
    \<and> federation_upload_call pf now authorization (Some f) None None None None st
      = (Inr (SftpUpload (ffLogin f) (ffPath f) \<lparr>planOffset = 0, planSize = None\<rparr> None), st')"
proof -
  from assms(1) have f: "fedFilesSchema f" "guest_target pf now authorization f st = (Inr (), st')"
    by (auto simp: federation_files_call_def op_Inr)
  have "parseGuestUploadPlan None None None = \<lparr>planOffset = 0, planSize = None\<rparr>" "parseGuestUploadPrefix None = None"
    by (simp add: parseGuestUploadPlan_def parseUnsignedHeader_def truthy_def) code_simp
  with f assms(2,3) show ?thesis
    by (simp add: federation_files_call_def federation_upload_call_def bind_op_def guard_op_def return_op_def need_op_def opt_len_def)
qed

definition demo_files :: fed_files where
  "demo_files = \<lparr>ffRemoteHostId = ''h1'', ffKind = VM, ffVmid = 100,
     ffLogin = \<lparr>glTarget = ''10.0.0.5'', glPort = None, glUsername = ''root'', glPassword = Some ''pw'', glPrivateKey = None,
       glPassphrase = None\<rparr>, ffPath = ''/etc/passwd''\<rparr>"

theorem federation_files_ignore_operation_witness:
  "shPermissions (hd (msShares demo_peer_mesh)) = [''vm.view'', ''vm.files.read'']
   \<and> (\<exists>st'. federation_files_call demo_platform 7 (Some ''Bearer token'') demo_files ''delete'' None None demo_peer_mesh
        = (Inr (SftpOp (ffLogin demo_files) VM 100 ''delete'' ''/etc/passwd'' None None), st'))"
proof -
  have schema: "fedFilesSchema demo_files"
    by (simp add: fedFilesSchema_def loginSchemaOk_def demo_files_def opt_len_def hasGuestSshAuth_def truthy_def) code_simp
  have "isl (fst (guest_target demo_platform 7 (Some ''Bearer token'') demo_files demo_peer_mesh)) = False"
    by code_simp
  from succeeds [OF this] obtain st' where
    gate: "guest_target demo_platform 7 (Some ''Bearer token'') demo_files demo_peer_mesh = (Inr (), st')" by auto
  obtain c where run: "federation_files_call demo_platform 7 (Some ''Bearer token'') demo_files ''list'' None None demo_peer_mesh = (Inr c, st')"
    using schema gate by (simp add: federation_files_call_def bind_op_def guard_op_def return_op_def opt_len_def FED_OPS_def)
  from federation_files_ignore_operation [OF run, of "''delete''"] show ?thesis
    by (simp add: FED_OPS_def demo_files_def demo_peer_mesh_def mesh_of_def)
qed


section \<open>Storing shares\<close>

lemma same_length_subset:
  assumes "distinct xs" "distinct ys" "length xs = length ys" "set ys \<subseteq> set xs"
  shows "set xs = set ys"
  using assms by (metis card_subset_eq distinct_card finite_set)

lemma sanitize_nil: "sanitizePermissions [] = []"
  by code_simp

lemma distinct_share_defaults: "distinct (permissionsForShareLevel level)"
proof -
  have "distinct (map fst hostGrantCatalog)" "distinct SHARE_VIEW" by code_simp+
  then show ?thesis by (simp add: permissionsForShareLevel_def Let_def)
qed

text \<open>The permissions an input asks for at a level: its list as far as it applies to hosts, or the
  defaults of the level when it brings none.\<close>

definition asked_permissions :: "share_level \<Rightarrow> share_input \<Rightarrow> string list" where
  "asked_permissions level i =
     effectiveSharePermissions level (Some (case siPermissions i of None \<Rightarrow> [] | Some ps \<Rightarrow> sanitizePermissions ps))"

lemma share_row_effective:
  assumes "share_row i = (h, Level l, ps)"
  shows "h = siHostId i" "set (effectiveSharePermissions l (Some ps)) = set (asked_permissions l i)"
proof -
  define perms where "perms = (case siPermissions i of None \<Rightarrow> [] | Some qs \<Rightarrow> sanitizePermissions qs)"
  let ?defaults = "permissionsForShareLevel l"
  have d: "distinct perms" by (simp add: perms_def distinct_sanitizePermissions split: option.split)
  have fixed: "sanitizePermissions perms = perms" by (cases "siPermissions i") (simp_all add: perms_def sanitize_idem sanitize_nil)
  have asked: "asked_permissions l i = effectiveSharePermissions l (Some perms)" by (simp add: asked_permissions_def perms_def)
  from assms show "h = siHostId i" by (simp add: share_row_def Let_def)
  from assms have ps: "ps = (if length perms = length ?defaults \<and> list_all (\<lambda>p. p \<in> set perms) ?defaults then [] else perms)"
    unfolding share_row_def perms_def [symmetric] by (auto simp: Let_def split: if_splits)
  show "set (effectiveSharePermissions l (Some ps)) = set (asked_permissions l i)"
  proof (cases "length perms = length ?defaults \<and> list_all (\<lambda>p. p \<in> set perms) ?defaults")
    case True
    then have eq: "set perms = set ?defaults"
      by (intro same_length_subset d distinct_share_defaults) (auto simp: list_all_iff)
    have "set (effectiveSharePermissions l (Some perms)) = set ?defaults"
    proof (cases perms)
      case (Cons p qs)
      then have "set (effectiveSharePermissions l (Some perms)) = {q \<in> set perms. isHostScopedPermission q}"
        using fixed by (auto simp: effectiveSharePermissions_def list_ex_hostGrantCatalog)
      also have "\<dots> = set ?defaults" using eq permissionsForShareLevel_scoped by blast
      finally show ?thesis .
    qed (simp add: effectiveSharePermissions_def)
    with True ps show ?thesis by (simp add: asked effectiveSharePermissions_def)
  next
    case False
    with ps asked show ?thesis by simp
  qed
qed



end
