(* ===== verification/ProxmoxHttp.thy ===== *)
theory ProxmoxHttp imports HostService Json begin

text \<open>
  The HTTP client of Proxmox, \<^verbatim>\<open>server/proxmox/http.ts\<close>: how a call is written as a
  request, directly or through the peer that shares the host, and how the answer is read.  The
  exchange itself is the parameter \<open>pxFetch\<close>: for the calls sent so far and the request it gives a
  network error or a status with a text, and the milliseconds that passed.  The headers of a
  password login are the parameter \<open>pxLogin\<close>; logging is left out.
\<close>

section \<open>Writing a request\<close>

definition form_char :: "char \<Rightarrow> string" where
  "form_char c =
     (let n = of_char c :: nat in
      if in_range 65 90 c \<or> in_range 97 122 c \<or> is_digit c \<or> c \<in> set ''*-._'' then [c]
      else if c = CHR '' '' then ''+''
      else if n < 128 then pct_byte n
      else pct_byte (192 + n div 64) @ pct_byte (128 + n mod 64))"

text \<open>\<open>URLSearchParams\<close> with \<open>set\<close>, \<open>append\<close> and \<open>toString\<close>.\<close>

type_synonym url_params = "(string \<times> string) list"

definition params_text :: "url_params \<Rightarrow> string" where
  "params_text ps = join ''&'' (map (\<lambda>(k, v). concat (map form_char k) @ ''='' @ concat (map form_char v)) ps)"

definition normalizeBaseUrl :: "string \<Rightarrow> string" where
  "normalizeBaseUrl url =
     (let trimmed = strip_trailing CHR ''/'' (trim url) in
      if starts_with (to_lower trimmed) ''http://'' \<or> starts_with (to_lower trimmed) ''https://'' then trimmed
      else ''https://'' @ trimmed)"

definition isPlainNoContent :: "string \<Rightarrow> bool" where
  "isPlainNoContent text \<longleftrightarrow> to_lower (trim text) = ''no content''"

fun search_params :: "js_record \<Rightarrow> url_params \<Rightarrow> url_params" where
  "search_params [] ps = ps"
| "search_params ((k, v) # r) ps = search_params r (if nullish v then ps else AList.update k (js_string v) ps)"

definition toSearch :: "js_record option \<Rightarrow> string" where
  "toSearch query =
     (case query of None \<Rightarrow> []
      | Some q \<Rightarrow> (let encoded = params_text (search_params q []) in if encoded = [] then [] else ''?'' @ encoded))"

fun form_params :: "js_record \<Rightarrow> url_params \<Rightarrow> url_params" where
  "form_params [] ps = ps"
| "form_params ((k, v) # r) ps =
     form_params r
       (if nullish v then ps
        else case v of
          JArr xs \<Rightarrow> ps @ map (\<lambda>x. (k, js_string x)) (filter (\<lambda>x. \<not> nullish x) xs)
        | _ \<Rightarrow> if v = JStr [] then ps else AList.update k (js_string v) ps)"

definition toFormBody :: "js_record option \<Rightarrow> string option" where
  "toFormBody body = map_option (\<lambda>b. params_text (form_params b [])) body"

definition encodeProxmoxFormBody :: "js_record \<Rightarrow> string" where
  "encodeProxmoxFormBody body = (case toFormBody (Some body) of None \<Rightarrow> [] | Some t \<Rightarrow> t)"

record http_out =
  hoMethod :: string
  hoUrl :: string
  hoHeaders :: "(string \<times> string) list"
  hoBody :: "string option"
  hoTimeout :: int

type_synonym http_headers = "(string \<times> string) list"

record px_env =
  pxFetch :: "px_call list \<Rightarrow> http_out \<Rightarrow> (string + nat \<times> string) \<times> nat"
  pxLogin :: "px_call list \<Rightarrow> proxmox_config \<Rightarrow> js_error + http_headers"

definition authHeaders :: "px_env \<Rightarrow> proxmox_config \<Rightarrow> http_headers mesh_op" where
  "authHeaders x c =
     (case pcFederation c of
        Some fed \<Rightarrow> return_op [(''Authorization'', ''Bearer '' @ ftToken fed)]
      | None \<Rightarrow>
         (if pcAuthType c = API_TOKEN
          then bind_op (guard_op (truthy (pcTokenId c)) (ProxmoxApiError ''API token ID is required'' 502)) (\<lambda>_.
               return_op [(''Authorization'', ''PVEAPIToken='' @ normalizeProxmoxUsername (pcUsername c) @ ''!'' @ the (pcTokenId c)
                            @ ''='' @ pcSecret c)])
          else (\<lambda>st. (pxLogin x (wrSent (msWire st)) c, st))))"

text \<open>The request to the host itself, and the one to the peer.\<close>

definition direct_request :: "http_headers \<Rightarrow> px_call \<Rightarrow> http_out" where
  "direct_request auth call =
     (let body = (if pxBody call \<noteq> None \<and> pxVerb call \<noteq> ''GET'' then toFormBody (pxBody call) else None) in
      \<lparr>hoMethod = pxVerb call,
       hoUrl = normalizeBaseUrl (pcUrl (pxClient call)) @ ''/api2/json'' @ pxPath call @ toSearch (pxQuery call),
       hoHeaders = [(''Accept'', ''application/json'')] @ auth
         @ (if body = None then [] else [(''Content-Type'', ''application/x-www-form-urlencoded'')]),
       hoBody = body,
       hoTimeout = (case pxTimeout call of None \<Rightarrow> 20000 | Some t \<Rightarrow> t)\<rparr>)"

definition opt_obj :: "js \<Rightarrow> js_record option \<Rightarrow> js" where
  "opt_obj d r = (case r of None \<Rightarrow> d | Some b \<Rightarrow> JObj b)"

definition peer_request :: "federation_transport \<Rightarrow> px_call \<Rightarrow> http_out" where
  "peer_request fed call =
     \<lparr>hoMethod = ''POST'',
      hoUrl = strip_trailing CHR ''/'' (ftBaseUrl fed) @ ''/api/federation/pve/'' @ encodeURIComponent (ftRemoteHostId fed),
      hoHeaders = [(''Accept'', ''application/json''), (''Content-Type'', ''application/json''),
        (''Authorization'', ''Bearer '' @ ftToken fed), (''Connection'', ''close'')],
      hoBody = Some (JSON_stringify (JObj [(''method'', JStr (pxVerb call)), (''path'', JStr (pxPath call)),
        (''query'', opt_obj (JObj []) (pxQuery call)), (''body'', opt_obj JNull (pxBody call))])),
      hoTimeout = (case pxTimeout call of None \<Rightarrow> 45000 | Some t \<Rightarrow> t)\<rparr>"

section \<open>Reading the answer\<close>

definition js_field :: "js \<Rightarrow> string \<Rightarrow> js" where
  "js_field v k = (case v of JObj r \<Rightarrow> get_prop r k | _ \<Rightarrow> JUndef)"

definition error_entries :: "js \<Rightarrow> (string \<times> js) list" where
  "error_entries v =
     (case v of JObj r \<Rightarrow> r | JArr xs \<Rightarrow> map (\<lambda>i. (nat_str i, xs ! i)) [0..<length xs] | _ \<Rightarrow> [])"

text \<open>\<open>message?.trim()\<close> throws for a message that is no text.\<close>

definition proxmoxErrorMessage :: "js \<Rightarrow> nat \<Rightarrow> js_error + string" where
  "proxmoxErrorMessage parsed status =
     (let errors = js_field parsed ''errors''; message = js_field parsed ''message'';
          details = (if js_is_object errors
                     then join ''; '' (map (\<lambda>(k, v). k @ '': '' @ trim (js_string v)) (error_entries errors))
                     else case errors of JStr s \<Rightarrow> s | _ \<Rightarrow> []);
          base = (case message of
              JStr m \<Rightarrow> Inr (if trim m = [] then ''Proxmox API error ('' @ nat_str status @ '')'' else trim m)
            | _ \<Rightarrow> if nullish message then Inr (''Proxmox API error ('' @ nat_str status @ '')'')
                   else Inl (OtherError ''parsed.message?.trim is not a function''))
      in map_sum id (\<lambda>b. if details = [] then b else b @ '' ('' @ details @ '')'') base)"

definition http_ok :: "nat \<Rightarrow> bool" where
  "http_ok status \<longleftrightarrow> 200 \<le> status \<and> status < 300"

definition no_property :: js_error where
  "no_property = OtherError ''Cannot read properties of null''"

definition js_data :: "js \<Rightarrow> js" where
  "js_data parsed = js_or (js_field parsed ''data'') JUndef"

text \<open>The text of an answer as JSON; an empty text is an empty object.\<close>

definition parsed_text :: "string \<Rightarrow> nat \<Rightarrow> string \<Rightarrow> js_error + js" where
  "parsed_text invalid status text =
     (if text = [] then Inr (JObj [])
      else case JSON_parse text of None \<Rightarrow> Inl (ProxmoxApiError invalid status) | Some v \<Rightarrow> Inr v)"

definition direct_answer :: "nat \<Rightarrow> string \<Rightarrow> js_error + js" where
  "direct_answer status text =
     (if status = 204 \<or> isPlainNoContent text then Inr JUndef
      else case parsed_text ''Invalid JSON from Proxmox API'' status text of Inl e \<Rightarrow> Inl e
        | Inr parsed \<Rightarrow>
            (if nullish parsed then Inl no_property
             else if \<not> http_ok status
             then (case proxmoxErrorMessage parsed status of Inl e \<Rightarrow> Inl e
                   | Inr message \<Rightarrow> if isPlainNoContent message then Inr JUndef else Inl (ProxmoxApiError message status))
             else Inr (js_data parsed)))"

definition peer_answer :: "nat \<Rightarrow> string \<Rightarrow> js_error + js" where
  "peer_answer status text =
     (if status = 204 \<or> isPlainNoContent text then Inr JUndef
      else case parsed_text ''Invalid JSON from peer Proxora'' status text of Inl e \<Rightarrow> Inl e
        | Inr parsed \<Rightarrow>
            (if nullish parsed then Inl no_property
             else if \<not> http_ok status
             then (let err = js_field parsed ''error'' in
                   if isPlainNoContent (js_string (js_or err (JStr []))) then Inr JUndef
                   else Inl (ProxmoxApiError
                     (if js_truthy err then js_string err else ''Peer Proxora error ('' @ nat_str status @ '')'') status))
             else Inr (js_data parsed)))"

section \<open>A call\<close>

definition wire_now :: "mesh \<Rightarrow> int" where
  "wire_now st = wrClock (msWire st)"

definition sent_calls :: "mesh \<Rightarrow> px_call list" where
  "sent_calls st = wrSent (msWire st)"

definition rawFetch :: "px_env \<Rightarrow> px_call \<Rightarrow> http_out \<Rightarrow> (nat \<times> string) mesh_op" where
  "rawFetch x call out st =
     (let w = msWire st; (answer, ms) = pxFetch x (wrSent w) out;
          st1 = st\<lparr>msWire := w\<lparr>wrSent := wrSent w @ [call], wrClock := wrClock w + int ms\<rparr>\<rparr>
      in (case answer of Inl reason \<Rightarrow> (Inl (ProxmoxApiError (''Connection failed: '' @ reason) 503), st1)
          | Inr r \<Rightarrow> (Inr r, st1)))"

definition federationRequest :: "px_env \<Rightarrow> federation_transport \<Rightarrow> px_call \<Rightarrow> js mesh_op" where
  "federationRequest x fed call =
     bind_op (rawFetch x call (peer_request fed call)) (\<lambda>(status, text). lift_op (peer_answer status text))"

definition px_request :: "px_env \<Rightarrow> px_call \<Rightarrow> js mesh_op" where
  "px_request x call =
     (case pcFederation (pxClient call) of
        Some fed \<Rightarrow> federationRequest x fed call
      | None \<Rightarrow>
          bind_op (authHeaders x (pxClient call)) (\<lambda>auth.
          bind_op (rawFetch x call (direct_request auth call)) (\<lambda>(status, text).
          lift_op (direct_answer status text))))"

definition px_get :: "px_env \<Rightarrow> proxmox_config \<Rightarrow> string \<Rightarrow> js_record option \<Rightarrow> int option \<Rightarrow> js mesh_op" where
  "px_get x c path query timeout =
     px_request x \<lparr>pxClient = c, pxVerb = ''GET'', pxPath = path, pxQuery = query, pxBody = None, pxTimeout = timeout\<rparr>"

definition px_post :: "px_env \<Rightarrow> proxmox_config \<Rightarrow> string \<Rightarrow> js_record option \<Rightarrow> int option \<Rightarrow> js mesh_op" where
  "px_post x c path body timeout =
     px_request x \<lparr>pxClient = c, pxVerb = ''POST'', pxPath = path, pxQuery = None, pxBody = body, pxTimeout = timeout\<rparr>"

definition px_put :: "px_env \<Rightarrow> proxmox_config \<Rightarrow> string \<Rightarrow> js_record option \<Rightarrow> js mesh_op" where
  "px_put x c path body =
     px_request x \<lparr>pxClient = c, pxVerb = ''PUT'', pxPath = path, pxQuery = None, pxBody = body, pxTimeout = None\<rparr>"

definition px_del :: "px_env \<Rightarrow> proxmox_config \<Rightarrow> string \<Rightarrow> js_record option \<Rightarrow> js mesh_op" where
  "px_del x c path query =
     px_request x \<lparr>pxClient = c, pxVerb = ''DELETE'', pxPath = path, pxQuery = query, pxBody = None, pxTimeout = None\<rparr>"

section \<open>The path a URL resolves to\<close>

text \<open>The URL standard, which \<open>fetch\<close> follows: a path of segments without question mark, hash and
  backslash loses its dot segments before the request is sent.\<close>

definition single_dot :: "string \<Rightarrow> bool" where
  "single_dot s \<longleftrightarrow> to_lower s \<in> {''.'', ''%2e''}"

definition double_dot :: "string \<Rightarrow> bool" where
  "double_dot s \<longleftrightarrow> to_lower s \<in> {''..'', ''.%2e'', ''%2e.'', ''%2e%2e''}"

fun url_segments :: "string list \<Rightarrow> string list \<Rightarrow> string list" where
  "url_segments acc [] = acc"
| "url_segments acc (s # rest) =
     (let last = (rest = []) in
      if double_dot s then url_segments (if last then butlast acc @ [[]] else butlast acc) rest
      else if single_dot s then url_segments (if last then acc @ [[]] else acc) rest
      else url_segments (acc @ [s]) rest)"

definition resolved_path :: "string \<Rightarrow> string" where
  "resolved_path path = concat (map (Cons CHR ''/'') (url_segments [] (split_on CHR ''/'' (tl path))))"

end
