(* ===== verification/ProxmoxApi.thy ===== *)
theory ProxmoxApi imports ProxmoxHttp begin

text \<open>
  The request of each function of the Proxmox client: \<^verbatim>\<open>server/proxmox/vms.ts\<close>,
  \<^verbatim>\<open>lxc.ts\<close>, \<^verbatim>\<open>storage.ts\<close>, \<^verbatim>\<open>backup.ts\<close>, \<^verbatim>\<open>nodes.ts\<close>, \<^verbatim>\<open>cluster-extra.ts\<close> and the
  cluster and update calls of \<^verbatim>\<open>tasks.ts\<close>.  VMIDs are integers.
\<close>

definition opt_js_str :: "string option \<Rightarrow> js" where
  "opt_js_str s = (case s of None \<Rightarrow> JUndef | Some t \<Rightarrow> JStr t)"

definition node_path :: "string \<Rightarrow> string \<Rightarrow> string" where
  "node_path node suffix = ''/nodes/'' @ encodeURIComponent node @ suffix"

definition qemu_path :: "string \<Rightarrow> int \<Rightarrow> string \<Rightarrow> string" where
  "qemu_path node vmid suffix = node_path node (''/qemu/'' @ int_str vmid @ suffix)"

definition ct_path :: "string \<Rightarrow> int \<Rightarrow> string \<Rightarrow> string" where
  "ct_path node vmid suffix = node_path node (''/lxc/'' @ int_str vmid @ suffix)"

definition storage_path :: "string \<Rightarrow> string \<Rightarrow> string \<Rightarrow> string" where
  "storage_path node storage suffix = node_path node (''/storage/'' @ encodeURIComponent storage @ suffix)"

definition firewall_prefix :: "guest_kind \<Rightarrow> string \<Rightarrow> int \<Rightarrow> string" where
  "firewall_prefix kind node vmid = (if kind = LXC then ct_path node vmid ''/firewall'' else qemu_path node vmid ''/firewall'')"

section \<open>Virtual machines\<close>

definition vms_list :: "px_env \<Rightarrow> proxmox_config \<Rightarrow> string \<Rightarrow> js mesh_op" where
  "vms_list x c node =
     px_get x c (node_path node ''/qemu'') None None"

definition vms_status :: "px_env \<Rightarrow> proxmox_config \<Rightarrow> string \<Rightarrow> int \<Rightarrow> js mesh_op" where
  "vms_status x c node vmid =
     px_get x c (qemu_path node vmid ''/status/current'') None None"

definition vms_config :: "px_env \<Rightarrow> proxmox_config \<Rightarrow> string \<Rightarrow> int \<Rightarrow> js mesh_op" where
  "vms_config x c node vmid =
     px_get x c (qemu_path node vmid ''/config'') None None"

definition vms_updateConfig :: "px_env \<Rightarrow> proxmox_config \<Rightarrow> string \<Rightarrow> int \<Rightarrow> js_record \<Rightarrow> js mesh_op" where
  "vms_updateConfig x c node vmid body =
     px_put x c (qemu_path node vmid ''/config'') (Some body)"

definition vms_create :: "px_env \<Rightarrow> proxmox_config \<Rightarrow> string \<Rightarrow> js_record \<Rightarrow> js mesh_op" where
  "vms_create x c node params =
     px_post x c (node_path node ''/qemu'') (Some params) None"

definition vms_start :: "px_env \<Rightarrow> proxmox_config \<Rightarrow> string \<Rightarrow> int \<Rightarrow> js mesh_op" where
  "vms_start x c node vmid =
     px_post x c (qemu_path node vmid ''/status/start'') None None"

definition vms_sendkey :: "px_env \<Rightarrow> proxmox_config \<Rightarrow> string \<Rightarrow> int \<Rightarrow> string \<Rightarrow> js mesh_op" where
  "vms_sendkey x c node vmid key =
     px_put x c (qemu_path node vmid ''/sendkey'') (Some [(''key'', JStr key)])"

definition vms_stop :: "px_env \<Rightarrow> proxmox_config \<Rightarrow> string \<Rightarrow> int \<Rightarrow> js mesh_op" where
  "vms_stop x c node vmid =
     px_post x c (qemu_path node vmid ''/status/stop'') None None"

definition vms_shutdown :: "px_env \<Rightarrow> proxmox_config \<Rightarrow> string \<Rightarrow> int \<Rightarrow> js mesh_op" where
  "vms_shutdown x c node vmid =
     px_post x c (qemu_path node vmid ''/status/shutdown'') None None"

definition vms_reboot :: "px_env \<Rightarrow> proxmox_config \<Rightarrow> string \<Rightarrow> int \<Rightarrow> js mesh_op" where
  "vms_reboot x c node vmid =
     px_post x c (qemu_path node vmid ''/status/reboot'') None None"

definition vms_reset :: "px_env \<Rightarrow> proxmox_config \<Rightarrow> string \<Rightarrow> int \<Rightarrow> js mesh_op" where
  "vms_reset x c node vmid =
     px_post x c (qemu_path node vmid ''/status/reset'') None None"

definition vms_suspend :: "px_env \<Rightarrow> proxmox_config \<Rightarrow> string \<Rightarrow> int \<Rightarrow> js mesh_op" where
  "vms_suspend x c node vmid =
     px_post x c (qemu_path node vmid ''/status/suspend'') None None"

definition vms_resume :: "px_env \<Rightarrow> proxmox_config \<Rightarrow> string \<Rightarrow> int \<Rightarrow> js mesh_op" where
  "vms_resume x c node vmid =
     px_post x c (qemu_path node vmid ''/status/resume'') None None"

definition vms_delete :: "px_env \<Rightarrow> proxmox_config \<Rightarrow> string \<Rightarrow> int \<Rightarrow> bool \<Rightarrow> js mesh_op" where
  "vms_delete x c node vmid purge =
     px_del x c (qemu_path node vmid []) (Some [(''purge'', JNum (Fin (if purge then 1 else 0)))])"

definition vms_clone :: "px_env \<Rightarrow> proxmox_config \<Rightarrow> string \<Rightarrow> int \<Rightarrow> js_record \<Rightarrow> js mesh_op" where
  "vms_clone x c node vmid params =
     px_post x c (qemu_path node vmid ''/clone'') (Some params) None"

definition vms_migrate :: "px_env \<Rightarrow> proxmox_config \<Rightarrow> string \<Rightarrow> int \<Rightarrow> js_record \<Rightarrow> js mesh_op" where
  "vms_migrate x c node vmid params =
     px_post x c (qemu_path node vmid ''/migrate'') (Some params) None"

definition vms_snapshots :: "px_env \<Rightarrow> proxmox_config \<Rightarrow> string \<Rightarrow> int \<Rightarrow> js mesh_op" where
  "vms_snapshots x c node vmid =
     px_get x c (qemu_path node vmid ''/snapshot'') None None"

definition vms_createSnapshot :: "px_env \<Rightarrow> proxmox_config \<Rightarrow> string \<Rightarrow> int \<Rightarrow> string \<Rightarrow> string option \<Rightarrow> js mesh_op" where
  "vms_createSnapshot x c node vmid snapname description =
     px_post x c (qemu_path node vmid ''/snapshot'') (Some [(''snapname'', JStr snapname), (''description'', opt_js_str description)]) None"

definition vms_deleteSnapshot :: "px_env \<Rightarrow> proxmox_config \<Rightarrow> string \<Rightarrow> int \<Rightarrow> string \<Rightarrow> js mesh_op" where
  "vms_deleteSnapshot x c node vmid snapname =
     px_del x c (qemu_path node vmid (''/snapshot/'' @ encodeURIComponent snapname)) None"

definition vms_rollbackSnapshot :: "px_env \<Rightarrow> proxmox_config \<Rightarrow> string \<Rightarrow> int \<Rightarrow> string \<Rightarrow> js mesh_op" where
  "vms_rollbackSnapshot x c node vmid snapname =
     px_post x c (qemu_path node vmid (''/snapshot/'' @ encodeURIComponent snapname @ ''/rollback'')) None None"

definition vms_resize :: "px_env \<Rightarrow> proxmox_config \<Rightarrow> string \<Rightarrow> int \<Rightarrow> string \<Rightarrow> string \<Rightarrow> js mesh_op" where
  "vms_resize x c node vmid disk disk_size =
     px_put x c (qemu_path node vmid ''/resize'') (Some [(''disk'', JStr disk), (''size'', JStr disk_size)])"

definition vms_agentFsInfo :: "px_env \<Rightarrow> proxmox_config \<Rightarrow> string \<Rightarrow> int \<Rightarrow> js mesh_op" where
  "vms_agentFsInfo x c node vmid =
     px_get x c (qemu_path node vmid ''/agent/get-fsinfo'') None (Some 5000)"

definition vms_agentNetworkInterfaces :: "px_env \<Rightarrow> proxmox_config \<Rightarrow> string \<Rightarrow> int \<Rightarrow> js mesh_op" where
  "vms_agentNetworkInterfaces x c node vmid =
     px_get x c (qemu_path node vmid ''/agent/network-get-interfaces'') None (Some 5000)"

definition vms_agentFileRead :: "px_env \<Rightarrow> proxmox_config \<Rightarrow> string \<Rightarrow> int \<Rightarrow> string \<Rightarrow> js mesh_op" where
  "vms_agentFileRead x c node vmid file =
     px_get x c (qemu_path node vmid ''/agent/file-read'') (Some [(''file'', JStr file)]) (Some 20000)"

definition vms_agentFileWrite :: "px_env \<Rightarrow> proxmox_config \<Rightarrow> string \<Rightarrow> int \<Rightarrow> string \<Rightarrow> string \<Rightarrow> js mesh_op" where
  "vms_agentFileWrite x c node vmid file contentBase64 =
     px_post x c (qemu_path node vmid ''/agent/file-write'') (Some [(''file'', JStr file), (''content'', JStr contentBase64)]) (Some 20000)"

definition vms_agentExec :: "px_env \<Rightarrow> proxmox_config \<Rightarrow> string \<Rightarrow> int \<Rightarrow> string list \<Rightarrow> js mesh_op" where
  "vms_agentExec x c node vmid command =
     px_post x c (qemu_path node vmid ''/agent/exec'') (Some [(''command'', JArr (map JStr command))]) (Some 20000)"

definition vms_agentExecStatus :: "px_env \<Rightarrow> proxmox_config \<Rightarrow> string \<Rightarrow> int \<Rightarrow> int \<Rightarrow> js mesh_op" where
  "vms_agentExecStatus x c node vmid pid =
     px_get x c (qemu_path node vmid ''/agent/exec-status'') (Some [(''pid'', JNum (of_int_num pid))]) (Some 12000)"

definition vms_termproxy :: "px_env \<Rightarrow> proxmox_config \<Rightarrow> string \<Rightarrow> int \<Rightarrow> js mesh_op" where
  "vms_termproxy x c node vmid =
     px_post x c (qemu_path node vmid ''/termproxy'') None None"

definition vms_vncproxy :: "px_env \<Rightarrow> proxmox_config \<Rightarrow> string \<Rightarrow> int \<Rightarrow> js_record \<Rightarrow> js mesh_op" where
  "vms_vncproxy x c node vmid extra =
     px_post x c (qemu_path node vmid ''/vncproxy'') (Some ((''websocket'', JNum (Fin 1)) # extra)) None"

definition vms_spiceproxy :: "px_env \<Rightarrow> proxmox_config \<Rightarrow> string \<Rightarrow> int \<Rightarrow> js mesh_op" where
  "vms_spiceproxy x c node vmid =
     px_post x c (qemu_path node vmid ''/spiceproxy'') None None"

section \<open>Containers\<close>

definition lxc_list :: "px_env \<Rightarrow> proxmox_config \<Rightarrow> string \<Rightarrow> js mesh_op" where
  "lxc_list x c node =
     px_get x c (node_path node ''/lxc'') None None"

definition lxc_status :: "px_env \<Rightarrow> proxmox_config \<Rightarrow> string \<Rightarrow> int \<Rightarrow> js mesh_op" where
  "lxc_status x c node vmid =
     px_get x c (ct_path node vmid ''/status/current'') None None"

definition lxc_config :: "px_env \<Rightarrow> proxmox_config \<Rightarrow> string \<Rightarrow> int \<Rightarrow> js mesh_op" where
  "lxc_config x c node vmid =
     px_get x c (ct_path node vmid ''/config'') None None"

definition lxc_updateConfig :: "px_env \<Rightarrow> proxmox_config \<Rightarrow> string \<Rightarrow> int \<Rightarrow> js_record \<Rightarrow> js mesh_op" where
  "lxc_updateConfig x c node vmid body =
     px_put x c (ct_path node vmid ''/config'') (Some body)"

definition lxc_create :: "px_env \<Rightarrow> proxmox_config \<Rightarrow> string \<Rightarrow> js_record \<Rightarrow> js mesh_op" where
  "lxc_create x c node params =
     px_post x c (node_path node ''/lxc'') (Some params) None"

definition lxc_start :: "px_env \<Rightarrow> proxmox_config \<Rightarrow> string \<Rightarrow> int \<Rightarrow> js mesh_op" where
  "lxc_start x c node vmid =
     px_post x c (ct_path node vmid ''/status/start'') None None"

definition lxc_stop :: "px_env \<Rightarrow> proxmox_config \<Rightarrow> string \<Rightarrow> int \<Rightarrow> js mesh_op" where
  "lxc_stop x c node vmid =
     px_post x c (ct_path node vmid ''/status/stop'') None None"

definition lxc_shutdown :: "px_env \<Rightarrow> proxmox_config \<Rightarrow> string \<Rightarrow> int \<Rightarrow> js mesh_op" where
  "lxc_shutdown x c node vmid =
     px_post x c (ct_path node vmid ''/status/shutdown'') None None"

definition lxc_reboot :: "px_env \<Rightarrow> proxmox_config \<Rightarrow> string \<Rightarrow> int \<Rightarrow> js mesh_op" where
  "lxc_reboot x c node vmid =
     px_post x c (ct_path node vmid ''/status/reboot'') None None"

definition lxc_delete :: "px_env \<Rightarrow> proxmox_config \<Rightarrow> string \<Rightarrow> int \<Rightarrow> bool \<Rightarrow> js mesh_op" where
  "lxc_delete x c node vmid purge =
     px_del x c (ct_path node vmid []) (Some [(''purge'', JNum (Fin (if purge then 1 else 0)))])"

definition lxc_clone :: "px_env \<Rightarrow> proxmox_config \<Rightarrow> string \<Rightarrow> int \<Rightarrow> js_record \<Rightarrow> js mesh_op" where
  "lxc_clone x c node vmid params =
     px_post x c (ct_path node vmid ''/clone'') (Some params) None"

definition lxc_migrate :: "px_env \<Rightarrow> proxmox_config \<Rightarrow> string \<Rightarrow> int \<Rightarrow> js_record \<Rightarrow> js mesh_op" where
  "lxc_migrate x c node vmid params =
     px_post x c (ct_path node vmid ''/migrate'') (Some params) None"

definition lxc_snapshots :: "px_env \<Rightarrow> proxmox_config \<Rightarrow> string \<Rightarrow> int \<Rightarrow> js mesh_op" where
  "lxc_snapshots x c node vmid =
     px_get x c (ct_path node vmid ''/snapshot'') None None"

definition lxc_createSnapshot :: "px_env \<Rightarrow> proxmox_config \<Rightarrow> string \<Rightarrow> int \<Rightarrow> string \<Rightarrow> string option \<Rightarrow> js mesh_op" where
  "lxc_createSnapshot x c node vmid snapname description =
     px_post x c (ct_path node vmid ''/snapshot'') (Some [(''snapname'', JStr snapname), (''description'', opt_js_str description)]) None"

definition lxc_deleteSnapshot :: "px_env \<Rightarrow> proxmox_config \<Rightarrow> string \<Rightarrow> int \<Rightarrow> string \<Rightarrow> js mesh_op" where
  "lxc_deleteSnapshot x c node vmid snapname =
     px_del x c (ct_path node vmid (''/snapshot/'' @ encodeURIComponent snapname)) None"

definition lxc_rollbackSnapshot :: "px_env \<Rightarrow> proxmox_config \<Rightarrow> string \<Rightarrow> int \<Rightarrow> string \<Rightarrow> js mesh_op" where
  "lxc_rollbackSnapshot x c node vmid snapname =
     px_post x c (ct_path node vmid (''/snapshot/'' @ encodeURIComponent snapname @ ''/rollback'')) None None"

definition lxc_resize :: "px_env \<Rightarrow> proxmox_config \<Rightarrow> string \<Rightarrow> int \<Rightarrow> string \<Rightarrow> string \<Rightarrow> js mesh_op" where
  "lxc_resize x c node vmid disk disk_size =
     px_put x c (ct_path node vmid ''/resize'') (Some [(''disk'', JStr disk), (''size'', JStr disk_size)])"

definition lxc_termproxy :: "px_env \<Rightarrow> proxmox_config \<Rightarrow> string \<Rightarrow> int \<Rightarrow> js mesh_op" where
  "lxc_termproxy x c node vmid =
     px_post x c (ct_path node vmid ''/termproxy'') None None"

definition lxc_interfaces :: "px_env \<Rightarrow> proxmox_config \<Rightarrow> string \<Rightarrow> int \<Rightarrow> js mesh_op" where
  "lxc_interfaces x c node vmid =
     px_get x c (ct_path node vmid ''/interfaces'') None (Some 4000)"

section \<open>Storage, ZFS, backups and nodes\<close>

definition storage_list :: "px_env \<Rightarrow> proxmox_config \<Rightarrow> string option \<Rightarrow> js mesh_op" where
  "storage_list x c node =
     px_get x c (case node of Some n \<Rightarrow> if n = [] then ''/storage'' else node_path n ''/storage'' | None \<Rightarrow> ''/storage'') None None"

definition storage_status :: "px_env \<Rightarrow> proxmox_config \<Rightarrow> string \<Rightarrow> string \<Rightarrow> js mesh_op" where
  "storage_status x c node storage =
     px_get x c (storage_path node storage ''/status'') None None"

definition storage_content :: "px_env \<Rightarrow> proxmox_config \<Rightarrow> string \<Rightarrow> string \<Rightarrow> string option \<Rightarrow> js mesh_op" where
  "storage_content x c node storage content =
     px_get x c (storage_path node storage ''/content'')
       (if truthy content then Some [(''content'', JStr (the content))] else None) None"

definition storage_deleteContent :: "px_env \<Rightarrow> proxmox_config \<Rightarrow> string \<Rightarrow> string \<Rightarrow> string \<Rightarrow> js mesh_op" where
  "storage_deleteContent x c node storage volume =
     px_del x c (storage_path node storage (''/content/'' @ encodeURIComponent volume)) None"

definition storage_downloadUrl :: "px_env \<Rightarrow> proxmox_config \<Rightarrow> string \<Rightarrow> string \<Rightarrow> js_record \<Rightarrow> js mesh_op" where
  "storage_downloadUrl x c node storage params =
     px_post x c (storage_path node storage ''/download-url'') (Some params) None"

definition zfs_pools :: "px_env \<Rightarrow> proxmox_config \<Rightarrow> string \<Rightarrow> js mesh_op" where
  "zfs_pools x c node =
     px_get x c (node_path node ''/disks/zfs'') None None"

definition zfs_poolDetail :: "px_env \<Rightarrow> proxmox_config \<Rightarrow> string \<Rightarrow> string \<Rightarrow> js mesh_op" where
  "zfs_poolDetail x c node name =
     px_get x c (node_path node (''/disks/zfs/'' @ encodeURIComponent name)) None None"

definition zfs_disks :: "px_env \<Rightarrow> proxmox_config \<Rightarrow> string \<Rightarrow> js mesh_op" where
  "zfs_disks x c node =
     px_get x c (node_path node ''/disks/list'') None None"

definition backup_jobs :: "px_env \<Rightarrow> proxmox_config \<Rightarrow> js mesh_op" where
  "backup_jobs x c =
     px_get x c ''/cluster/backup'' None None"

definition backup_createJob :: "px_env \<Rightarrow> proxmox_config \<Rightarrow> js_record \<Rightarrow> js mesh_op" where
  "backup_createJob x c params =
     px_post x c ''/cluster/backup'' (Some params) None"

definition backup_updateJob :: "px_env \<Rightarrow> proxmox_config \<Rightarrow> string \<Rightarrow> js_record \<Rightarrow> js mesh_op" where
  "backup_updateJob x c jobId params =
     px_put x c (''/cluster/backup/'' @ encodeURIComponent jobId) (Some params)"

definition backup_deleteJob :: "px_env \<Rightarrow> proxmox_config \<Rightarrow> string \<Rightarrow> js mesh_op" where
  "backup_deleteJob x c jobId =
     px_del x c (''/cluster/backup/'' @ encodeURIComponent jobId) None"

definition backup_start :: "px_env \<Rightarrow> proxmox_config \<Rightarrow> string \<Rightarrow> js_record \<Rightarrow> js mesh_op" where
  "backup_start x c node params =
     px_post x c (node_path node ''/vzdump'') (Some params) None"

definition backup_restoreVm :: "px_env \<Rightarrow> proxmox_config \<Rightarrow> string \<Rightarrow> js_record \<Rightarrow> js mesh_op" where
  "backup_restoreVm x c node params =
     px_post x c (node_path node ''/qemu'') (Some params) None"

definition backup_restoreLxc :: "px_env \<Rightarrow> proxmox_config \<Rightarrow> string \<Rightarrow> js_record \<Rightarrow> js mesh_op" where
  "backup_restoreLxc x c node params =
     px_post x c (node_path node ''/lxc'') (Some params) None"

definition nodes_list :: "px_env \<Rightarrow> proxmox_config \<Rightarrow> js mesh_op" where
  "nodes_list x c =
     px_get x c ''/nodes'' None None"

definition nodes_status :: "px_env \<Rightarrow> proxmox_config \<Rightarrow> string \<Rightarrow> js mesh_op" where
  "nodes_status x c node =
     px_get x c (node_path node ''/status'') None None"

definition nodes_cpuTemperature :: "px_env \<Rightarrow> proxmox_config \<Rightarrow> string \<Rightarrow> js mesh_op" where
  "nodes_cpuTemperature x c node =
     px_get x c (node_path node ''/hardware/sensors/temperature/cpu'') None None"

definition nodes_reboot :: "px_env \<Rightarrow> proxmox_config \<Rightarrow> string \<Rightarrow> js mesh_op" where
  "nodes_reboot x c node =
     px_post x c (node_path node ''/status'') (Some [(''command'', JStr ''reboot'')]) None"

definition nodes_shutdown :: "px_env \<Rightarrow> proxmox_config \<Rightarrow> string \<Rightarrow> js mesh_op" where
  "nodes_shutdown x c node =
     px_post x c (node_path node ''/status'') (Some [(''command'', JStr ''shutdown'')]) None"

definition nodes_version :: "px_env \<Rightarrow> proxmox_config \<Rightarrow> string \<Rightarrow> js mesh_op" where
  "nodes_version x c node =
     px_get x c (node_path node ''/version'') None None"

definition nodes_dns :: "px_env \<Rightarrow> proxmox_config \<Rightarrow> string \<Rightarrow> js mesh_op" where
  "nodes_dns x c node =
     px_get x c (node_path node ''/dns'') None None"

definition nodes_network :: "px_env \<Rightarrow> proxmox_config \<Rightarrow> string \<Rightarrow> js mesh_op" where
  "nodes_network x c node =
     px_get x c (node_path node ''/network'') None None"

definition nodes_time :: "px_env \<Rightarrow> proxmox_config \<Rightarrow> string \<Rightarrow> js mesh_op" where
  "nodes_time x c node =
     px_get x c (node_path node ''/time'') None None"

definition nodes_termproxy :: "px_env \<Rightarrow> proxmox_config \<Rightarrow> string \<Rightarrow> js_record option \<Rightarrow> js mesh_op" where
  "nodes_termproxy x c node extra =
     px_post x c (node_path node ''/termproxy'') extra None"

definition nodes_clusterStatus :: "px_env \<Rightarrow> proxmox_config \<Rightarrow> js mesh_op" where
  "nodes_clusterStatus x c =
     px_get x c ''/cluster/status'' None None"

definition nodes_nextId :: "px_env \<Rightarrow> proxmox_config \<Rightarrow> js mesh_op" where
  "nodes_nextId x c =
     px_get x c ''/cluster/nextid'' None None"

definition nodes_aplinfo :: "px_env \<Rightarrow> proxmox_config \<Rightarrow> string \<Rightarrow> js mesh_op" where
  "nodes_aplinfo x c node =
     px_get x c (node_path node ''/aplinfo'') None None"

definition nodes_downloadAppliance :: "px_env \<Rightarrow> proxmox_config \<Rightarrow> string \<Rightarrow> string \<Rightarrow> string \<Rightarrow> js mesh_op" where
  "nodes_downloadAppliance x c node storage template =
     px_post x c (node_path node ''/aplinfo'') (Some [(''storage'', JStr storage), (''template'', JStr template)]) None"

section \<open>Cluster\<close>

definition cluster_status :: "px_env \<Rightarrow> proxmox_config \<Rightarrow> js mesh_op" where
  "cluster_status x c =
     px_get x c ''/cluster/status'' None None"

definition cluster_resources :: "px_env \<Rightarrow> proxmox_config \<Rightarrow> string option \<Rightarrow> js mesh_op" where
  "cluster_resources x c type =
     px_get x c ''/cluster/resources'' (if truthy type then Some [(''type'', JStr (the type))] else None) None"

definition cluster_nextId :: "px_env \<Rightarrow> proxmox_config \<Rightarrow> js mesh_op" where
  "cluster_nextId x c =
     px_get x c ''/cluster/nextid'' None None"

definition cluster_options :: "px_env \<Rightarrow> proxmox_config \<Rightarrow> js mesh_op" where
  "cluster_options x c =
     px_get x c ''/cluster/options'' None None"

definition updates_list :: "px_env \<Rightarrow> proxmox_config \<Rightarrow> string \<Rightarrow> js mesh_op" where
  "updates_list x c node =
     bind_op (px_get x c (node_path node ''/apt/update'') None None)
       (\<lambda>data. return_op (case data of JArr xs \<Rightarrow> JArr xs | _ \<Rightarrow> JArr []))"

definition updates_refresh :: "px_env \<Rightarrow> proxmox_config \<Rightarrow> string \<Rightarrow> js mesh_op" where
  "updates_refresh x c node =
     px_post x c (node_path node ''/apt/update'') (Some [(''quiet'', JNum (Fin 1))]) None"

definition updates_changelog :: "px_env \<Rightarrow> proxmox_config \<Rightarrow> string \<Rightarrow> string \<Rightarrow> js mesh_op" where
  "updates_changelog x c node name =
     px_get x c (node_path node ''/apt/changelog'') (Some [(''name'', JStr name)]) None"

definition updates_version :: "px_env \<Rightarrow> proxmox_config \<Rightarrow> string \<Rightarrow> js mesh_op" where
  "updates_version x c node =
     px_get x c (node_path node ''/apt/versions'') None None"

definition ha_resources :: "px_env \<Rightarrow> proxmox_config \<Rightarrow> js mesh_op" where
  "ha_resources x c =
     px_get x c ''/cluster/ha/resources'' None None"

definition ha_groups :: "px_env \<Rightarrow> proxmox_config \<Rightarrow> js mesh_op" where
  "ha_groups x c =
     px_get x c ''/cluster/ha/groups'' None None"

definition ha_get :: "px_env \<Rightarrow> proxmox_config \<Rightarrow> string \<Rightarrow> js mesh_op" where
  "ha_get x c sid =
     px_get x c (''/cluster/ha/resources/'' @ encodeURIComponent sid) None None"

definition ha_create :: "px_env \<Rightarrow> proxmox_config \<Rightarrow> js_record \<Rightarrow> js mesh_op" where
  "ha_create x c body =
     px_post x c ''/cluster/ha/resources'' (Some body) None"

definition ha_update :: "px_env \<Rightarrow> proxmox_config \<Rightarrow> string \<Rightarrow> js_record \<Rightarrow> js mesh_op" where
  "ha_update x c sid body =
     px_put x c (''/cluster/ha/resources/'' @ encodeURIComponent sid) (Some body)"

definition ha_delete :: "px_env \<Rightarrow> proxmox_config \<Rightarrow> string \<Rightarrow> js mesh_op" where
  "ha_delete x c sid =
     px_del x c (''/cluster/ha/resources/'' @ encodeURIComponent sid) None"

definition replication_list :: "px_env \<Rightarrow> proxmox_config \<Rightarrow> js mesh_op" where
  "replication_list x c =
     px_get x c ''/cluster/replication'' None None"

definition firewall_options :: "px_env \<Rightarrow> proxmox_config \<Rightarrow> guest_kind \<Rightarrow> string \<Rightarrow> int \<Rightarrow> js mesh_op" where
  "firewall_options x c kind node vmid =
     px_get x c (firewall_prefix kind node vmid @ ''/options'') None None"

definition firewall_setOptions :: "px_env \<Rightarrow> proxmox_config \<Rightarrow> guest_kind \<Rightarrow> string \<Rightarrow> int \<Rightarrow> js_record \<Rightarrow> js mesh_op" where
  "firewall_setOptions x c kind node vmid body =
     px_put x c (firewall_prefix kind node vmid @ ''/options'') (Some body)"

definition firewall_rules :: "px_env \<Rightarrow> proxmox_config \<Rightarrow> guest_kind \<Rightarrow> string \<Rightarrow> int \<Rightarrow> js mesh_op" where
  "firewall_rules x c kind node vmid =
     px_get x c (firewall_prefix kind node vmid @ ''/rules'') None None"

definition firewall_createRule :: "px_env \<Rightarrow> proxmox_config \<Rightarrow> guest_kind \<Rightarrow> string \<Rightarrow> int \<Rightarrow> js_record \<Rightarrow> js mesh_op" where
  "firewall_createRule x c kind node vmid body =
     px_post x c (firewall_prefix kind node vmid @ ''/rules'') (Some body) None"

definition firewall_deleteRule :: "px_env \<Rightarrow> proxmox_config \<Rightarrow> guest_kind \<Rightarrow> string \<Rightarrow> int \<Rightarrow> int \<Rightarrow> js mesh_op" where
  "firewall_deleteRule x c kind node vmid pos =
     px_del x c (firewall_prefix kind node vmid @ ''/rules/'' @ int_str pos) None"

lemmas px_api_defs =
  vms_list_def vms_status_def vms_config_def vms_updateConfig_def vms_create_def vms_start_def
  vms_sendkey_def vms_stop_def vms_shutdown_def vms_reboot_def vms_reset_def vms_suspend_def
  vms_resume_def vms_delete_def vms_clone_def vms_migrate_def vms_snapshots_def vms_createSnapshot_def
  vms_deleteSnapshot_def vms_rollbackSnapshot_def vms_resize_def vms_agentFsInfo_def vms_agentNetworkInterfaces_def vms_agentFileRead_def
  vms_agentFileWrite_def vms_agentExec_def vms_agentExecStatus_def vms_termproxy_def vms_vncproxy_def vms_spiceproxy_def
  lxc_list_def lxc_status_def lxc_config_def lxc_updateConfig_def lxc_create_def lxc_start_def
  lxc_stop_def lxc_shutdown_def lxc_reboot_def lxc_delete_def lxc_clone_def lxc_migrate_def
  lxc_snapshots_def lxc_createSnapshot_def lxc_deleteSnapshot_def lxc_rollbackSnapshot_def lxc_resize_def lxc_termproxy_def
  lxc_interfaces_def storage_list_def storage_status_def storage_content_def storage_deleteContent_def storage_downloadUrl_def
  zfs_pools_def zfs_poolDetail_def zfs_disks_def backup_jobs_def backup_createJob_def backup_updateJob_def
  backup_deleteJob_def backup_start_def backup_restoreVm_def backup_restoreLxc_def nodes_list_def nodes_status_def
  nodes_cpuTemperature_def nodes_reboot_def nodes_shutdown_def nodes_version_def nodes_dns_def nodes_network_def
  nodes_time_def nodes_termproxy_def nodes_clusterStatus_def nodes_nextId_def nodes_aplinfo_def nodes_downloadAppliance_def
  cluster_status_def cluster_resources_def cluster_nextId_def cluster_options_def updates_list_def updates_refresh_def
  updates_changelog_def updates_version_def ha_resources_def ha_groups_def ha_get_def ha_create_def
  ha_update_def ha_delete_def replication_list_def firewall_options_def firewall_setOptions_def firewall_rules_def
  firewall_createRule_def firewall_deleteRule_def

end
