(* ===== verification/GuestTasks.thy ===== *)
theory GuestTasks imports ProxmoxApi begin

text \<open>
  Waiting for Proxmox: tasks (\<^verbatim>\<open>server/proxmox/tasks.ts\<close>, \<^verbatim>\<open>server/proxmox/task-wait.ts\<close>)
  and guests that stop (\<^verbatim>\<open>lib/backup.ts\<close>).  The clock of the state moves with every answer and
  every pause; a pause takes at least one millisecond, as timers do.  The loops are total functions: the
  time left shrinks in each round.
\<close>

section \<open>What a request changes\<close>

definition sent_after :: "px_call \<Rightarrow> nat \<Rightarrow> mesh \<Rightarrow> mesh" where
  "sent_after call ms st =
     st\<lparr>msWire := (msWire st)\<lparr>wrSent := wrSent (msWire st) @ [call], wrClock := wrClock (msWire st) + int ms\<rparr>\<rparr>"

lemma rawFetch_run: "\<exists>r ms. rawFetch x call out st = (r, sent_after call ms st)"
  by (auto simp: rawFetch_def sent_after_def Let_def split: prod.split sum.split)

lemma preserves_rawFetch:
  "(\<And>st ms. I st \<Longrightarrow> I (sent_after call ms st)) \<Longrightarrow> preserves I (rawFetch x call out)"
  using rawFetch_run [of x call out] unfolding preserves_def by (metis snd_conv)

lemma preserves_auth [preserve_intros]: "preserves I (authHeaders x c)"
proof -
  have "preserves I (\<lambda>st. (pxLogin x (wrSent (msWire st)) c, st))" by (simp add: preserves_def)
  then show ?thesis unfolding authHeaders_def by (auto intro!: preserve_intros split: option.split)
qed

lemma preserves_px_request:
  assumes "\<And>st ms. I st \<Longrightarrow> I (sent_after call ms st)"
  shows "preserves I (px_request x call)"
  unfolding px_request_def federationRequest_def
  by (auto intro!: preserve_intros preserves_rawFetch preserves_case_prod assms split: option.split)

lemma mesh_wf_sent [simp]: "mesh_wf (sent_after call ms st) = mesh_wf st"
  by (simp add: sent_after_def)

lemma preserves_px_wf [preserve_intros]: "preserves mesh_wf (px_request x call)"
  by (rule preserves_px_request) simp

definition clock_from :: "int \<Rightarrow> mesh \<Rightarrow> bool" where
  "clock_from t st \<longleftrightarrow> t \<le> wire_now st"

lemma preserves_px_clock [preserve_intros]: "preserves (clock_from t) (px_request x call)"
  by (rule preserves_px_request) (simp add: clock_from_def wire_now_def sent_after_def)

definition pause :: "int \<Rightarrow> mesh \<Rightarrow> mesh" where
  "pause ms st = st\<lparr>msWire := (msWire st)\<lparr>wrClock := wrClock (msWire st) + max 1 ms\<rparr>\<rparr>"

lemma pause_clock [simp]: "wire_now (pause ms st) = wire_now st + max 1 ms"
  by (simp add: pause_def wire_now_def)

lemma mesh_wf_pause [simp]: "mesh_wf (pause ms st) = mesh_wf st"
  by (simp add: pause_def)

section \<open>Tasks\<close>

definition isUpid :: "js \<Rightarrow> bool" where
  "isUpid v = (case v of JStr s \<Rightarrow> str_includes s ''UPID:'' | _ \<Rightarrow> False)"

definition word_char :: "char \<Rightarrow> bool" where
  "word_char c \<longleftrightarrow> in_range 65 90 c \<or> in_range 97 122 c \<or> is_digit c \<or> c = CHR ''_''"

text \<open>The pattern is \<open>warning\<close> or \<open>warnings\<close> at the start, ended by a word boundary.\<close>

definition isSuccessfulTaskExit :: "string option \<Rightarrow> bool" where
  "isSuccessfulTaskExit exitstatus =
     (let e = trim (case exitstatus of None \<Rightarrow> [] | Some s \<Rightarrow> s); boundary = (\<lambda>r. r = [] \<or> \<not> word_char (hd r)) in
      if e = [] \<or> e = ''OK'' then True
      else starts_with (to_lower e) ''warning''
        \<and> (boundary (drop 7 e) \<or> (lower_char (hd (drop 7 e)) = CHR ''s'' \<and> boundary (drop 8 e))))"

definition task_path :: "string \<Rightarrow> string \<Rightarrow> string \<Rightarrow> string" where
  "task_path node upid suffix = node_path node (''/tasks/'' @ encodeURIComponent upid @ suffix)"

definition tasks_list :: "px_env \<Rightarrow> proxmox_config \<Rightarrow> string \<Rightarrow> js_record option \<Rightarrow> js mesh_op" where
  "tasks_list x c node extra = px_get x c (node_path node ''/tasks'') extra None"

definition tasks_status :: "px_env \<Rightarrow> proxmox_config \<Rightarrow> string \<Rightarrow> string \<Rightarrow> js mesh_op" where
  "tasks_status x c node upid = px_get x c (task_path node upid ''/status'') None None"

definition tasks_stop :: "px_env \<Rightarrow> proxmox_config \<Rightarrow> string \<Rightarrow> string \<Rightarrow> js mesh_op" where
  "tasks_stop x c node upid = px_del x c (task_path node upid []) None"

text \<open>The verdict on a status: \<open>None\<close> while the task runs.\<close>

definition task_verdict :: "js \<Rightarrow> (js_error + js) option" where
  "task_verdict st =
     (if nullish st then Some (Inl no_property)
      else (let status = js_field st ''status'' in
            if js_truthy status \<and> status \<noteq> JStr ''running''
            then Some (case js_or (js_field st ''exitstatus'') (JStr ''OK'') of
                   JStr ex \<Rightarrow> (if isSuccessfulTaskExit (Some ex) then Inr st
                              else Inl (ProxmoxApiError (''Proxmox-Task fehlgeschlagen: '' @ ex) 502))
                 | _ \<Rightarrow> Inl (OtherError ''trim is not a function''))
            else None))"

definition task_timeout_error :: js_error where
  "task_timeout_error = ProxmoxApiError (''Zeit'' @ CHR 0xFC # ''berschreitung beim Warten auf den Proxmox-Task'') 504"

lemma tasks_status_clock: "tasks_status x c node upid st = (r, st1) \<Longrightarrow> wire_now st \<le> wire_now st1"
  using preservesD [of "clock_from (wire_now st)" "tasks_status x c node upid" st]
  by (simp add: tasks_status_def px_get_def preserves_px_clock clock_from_def)

text \<open>\<open>wait\<close> from its start time on; its pause is 1500 ms.\<close>

function tasks_wait_from :: "px_env \<Rightarrow> proxmox_config \<Rightarrow> string \<Rightarrow> string \<Rightarrow> int \<Rightarrow> int \<Rightarrow> js mesh_op" where
  "tasks_wait_from x c node upid timeoutMs started st =
     (if wire_now st - started < timeoutMs
      then (case tasks_status x c node upid st of
              (Inl e, st1) \<Rightarrow> (Inl e, st1)
            | (Inr v, st1) \<Rightarrow>
                (case task_verdict v of Some r \<Rightarrow> (r, st1)
                 | None \<Rightarrow> tasks_wait_from x c node upid timeoutMs started (pause 1500 st1)))
      else (Inl task_timeout_error, st))"
  by pat_completeness auto

termination
proof (relation "measure (\<lambda>(x, c, node, upid, timeoutMs, started, st). nat (timeoutMs - (wire_now st - started)))")
  show "wf (measure (\<lambda>(x, c, node, upid, timeoutMs, started, st). nat (timeoutMs - (wire_now st - started))))" by simp
next
  fix x c node upid timeoutMs started st r st1 v
  assume "wire_now st - started < timeoutMs" "(r, st1) = tasks_status x c node upid st"
  then show "((x, c, node, upid, timeoutMs, started, pause 1500 st1), (x, c, node, upid, timeoutMs, started, st))
      \<in> measure (\<lambda>(x, c, node, upid, timeoutMs, started, st). nat (timeoutMs - (wire_now st - started)))"
    using tasks_status_clock [of x c node upid st r st1] by simp
qed

declare tasks_wait_from.simps [simp del]

definition tasks_wait :: "px_env \<Rightarrow> proxmox_config \<Rightarrow> string \<Rightarrow> string \<Rightarrow> int \<Rightarrow> js mesh_op" where
  "tasks_wait x c node upid timeoutMs st = tasks_wait_from x c node upid timeoutMs (wire_now st) st"

definition timeoutForGuestAction :: "string \<Rightarrow> int" where
  "timeoutForGuestAction action =
     (if action \<in> {''start'', ''stop'', ''shutdown'', ''pause'', ''resume''} then 120000
      else if action \<in> {''reboot'', ''reset''} then 180000
      else if action = ''delete'' then 300000
      else if action = ''clone'' then 600000
      else if action = ''migrate'' then 600000
      else if action \<in> {''snapshot'', ''snapshot-delete'', ''snapshot-rollback''} then 180000
      else if action = ''resize'' then 180000
      else 60000)"

definition waitUpid :: "px_env \<Rightarrow> proxmox_config \<Rightarrow> string \<Rightarrow> js \<Rightarrow> int \<Rightarrow> unit mesh_op" where
  "waitUpid x c node upid timeoutMs =
     (case upid of
        JStr s \<Rightarrow> (if isUpid upid then bind_op (tasks_wait x c node s timeoutMs) (\<lambda>_. return_op ()) else return_op ())
      | _ \<Rightarrow> return_op ())"

definition waitGuestAction :: "px_env \<Rightarrow> proxmox_config \<Rightarrow> string \<Rightarrow> js \<Rightarrow> string \<Rightarrow> js mesh_op" where
  "waitGuestAction x c node upid action =
     bind_op (waitUpid x c node upid (timeoutForGuestAction action)) (\<lambda>_. return_op upid)"

section \<open>Guests that stop\<close>

definition guestNeedsStopForRestore :: "string option \<Rightarrow> bool" where
  "guestNeedsStopForRestore status =
     (let s = to_lower (trim (case status of None \<Rightarrow> [] | Some t \<Rightarrow> t)) in s \<noteq> [] \<and> s \<noteq> ''stopped'')"

text \<open>\<open>guestStatus\<close>: the status of a guest, \<open>None\<close> when the request fails.\<close>

definition status_call :: "guest_kind \<Rightarrow> px_env \<Rightarrow> proxmox_config \<Rightarrow> string \<Rightarrow> int \<Rightarrow> js mesh_op" where
  "status_call kind = (if kind = LXC then lxc_status else vms_status)"

definition guestStatus :: "px_env \<Rightarrow> proxmox_config \<Rightarrow> guest_kind \<Rightarrow> string \<Rightarrow> int \<Rightarrow> string option mesh_op" where
  "guestStatus x c kind node vmid =
     catch_op
       (bind_op (status_call kind x c node vmid) (\<lambda>v.
        if nullish v then throw_op no_property
        else return_op (Some (js_string (js_or (js_field v ''status'') (JStr []))))))
       (\<lambda>_. return_op None)"

lemma preserves_guestStatus:
  "(\<And>call. preserves I (px_request x call)) \<Longrightarrow> preserves I (guestStatus x c kind node vmid)"
  unfolding guestStatus_def status_call_def lxc_status_def vms_status_def px_get_def
  by (auto intro!: preserve_intros)

lemma guestStatus_clock: "guestStatus x c kind node vmid st = (r, st1) \<Longrightarrow> wire_now st \<le> wire_now st1"
  using preservesD [OF preserves_guestStatus [OF preserves_px_clock], of "wire_now st" st x c kind node vmid]
  by (simp add: clock_from_def)

function stopped_from :: "px_env \<Rightarrow> proxmox_config \<Rightarrow> guest_kind \<Rightarrow> string \<Rightarrow> int \<Rightarrow> int \<Rightarrow> int \<Rightarrow> int \<Rightarrow> bool mesh_op" where
  "stopped_from x c kind node vmid timeoutMs intervalMs started st =
     (case guestStatus x c kind node vmid st of
        (Inl e, st1) \<Rightarrow> (Inl e, st1)
      | (Inr status, st1) \<Rightarrow>
          (if \<not> guestNeedsStopForRestore status then (Inr True, st1)
           else if timeoutMs \<le> wire_now st1 - started then (Inr False, st1)
           else stopped_from x c kind node vmid timeoutMs intervalMs started (pause intervalMs st1)))"
  by pat_completeness auto

termination
proof (relation "measure (\<lambda>(x, c, kind, node, vmid, timeoutMs, intervalMs, started, st). nat (timeoutMs - (wire_now st - started)))")
  show "wf (measure (\<lambda>(x, c, kind, node, vmid, timeoutMs, intervalMs, started, st). nat (timeoutMs - (wire_now st - started))))"
    by simp
next
  fix x c kind node vmid timeoutMs intervalMs started st r st1 status
  assume "(r, st1) = guestStatus x c kind node vmid st" "\<not> timeoutMs \<le> wire_now st1 - started"
  then show "((x, c, kind, node, vmid, timeoutMs, intervalMs, started, pause intervalMs st1),
      (x, c, kind, node, vmid, timeoutMs, intervalMs, started, st))
      \<in> measure (\<lambda>(x, c, kind, node, vmid, timeoutMs, intervalMs, started, st). nat (timeoutMs - (wire_now st - started)))"
    using guestStatus_clock [of x c kind node vmid st r st1] by simp
qed

declare stopped_from.simps [simp del]

definition waitUntilGuestStopped :: "px_env \<Rightarrow> proxmox_config \<Rightarrow> guest_kind \<Rightarrow> string \<Rightarrow> int \<Rightarrow> int \<Rightarrow> int \<Rightarrow> bool mesh_op" where
  "waitUntilGuestStopped x c kind node vmid timeoutMs intervalMs st =
     stopped_from x c kind node vmid timeoutMs intervalMs (wire_now st) st"

end
