(* ===== verification/GuestBackups.thy ===== *)
theory GuestBackups imports GuestTasks begin

text \<open>
  Names of backups, schedules of backup jobs and the choice of backups: \<^verbatim>\<open>lib/backup.ts\<close>.  The kind \<open>unknown\<close> is \<open>None\<close>.
\<close>

section \<open>Volume names\<close>

record parsed_backup =
  pbStorage :: string
  pbVolume :: string
  pbFilename :: string
  pbKind :: "guest_kind option"
  pbVmid :: "int option"

text \<open>The digits after the first occurrence of a word that has a digit behind it; \<open>number_after\<close> ignores case.\<close>

fun number_after_exact :: "string \<Rightarrow> string \<Rightarrow> string option" where
  "number_after_exact w [] = None"
| "number_after_exact w (c # s) =
     (let t = c # s; digits = takeWhile is_digit (drop (length w) t) in
      if starts_with t w \<and> digits \<noteq> [] then Some digits else number_after_exact w s)"

definition number_after :: "string \<Rightarrow> string \<Rightarrow> string option" where
  "number_after w s = number_after_exact w (to_lower s)"

text \<open>The first segment of digits behind a segment \<open>w\<close>.\<close>

fun segment_after :: "string \<Rightarrow> string list \<Rightarrow> string option" where
  "segment_after w (a # b # rest) = (if a = w \<and> all_digits b then Some b else segment_after w (b # rest))"
| "segment_after w _ = None"

definition int_of_digits :: "string \<Rightarrow> int" where
  "int_of_digits s = int (digits_val s)"

definition parseBackupVolid :: "string \<Rightarrow> parsed_backup" where
  "parseBackupVolid volid =
     (let raw = trim volid;
          (storage, volume) = (case index_of raw '':'' of Some i \<Rightarrow> (take i raw, drop (Suc i) raw) | None \<Rightarrow> ([], raw));
          segments = split_on CHR ''/'' volume; filename = last segments;
          result = (\<lambda>k n. \<lparr>pbStorage = storage, pbVolume = volume, pbFilename = filename, pbKind = k,
                           pbVmid = map_option int_of_digits n\<rparr>)
      in (case number_after ''vzdump-qemu-'' filename of Some n \<Rightarrow> result (Some VM) (Some n)
        | None \<Rightarrow> (case number_after ''vzdump-lxc-'' filename of Some n \<Rightarrow> result (Some LXC) (Some n)
        | None \<Rightarrow> (case segment_after ''vm'' segments of Some n \<Rightarrow> result (Some VM) (Some n)
        | None \<Rightarrow> (case segment_after ''ct'' segments of Some n \<Rightarrow> result (Some LXC) (Some n)
        | None \<Rightarrow> result None None)))))"

definition not_of_guest :: "string \<Rightarrow> guest_kind \<Rightarrow> int \<Rightarrow> string" where
  "not_of_guest volid kind vmid =
     ''Backup '' @ volid @ '' geh'' @ CHR 0xF6 # ''rt nicht zu '' @ kind_str kind @ '' '' @ int_str vmid"

definition volid_error :: "int \<Rightarrow> guest_kind \<Rightarrow> string \<Rightarrow> string option" where
  "volid_error vmid kind volid =
     (let parsed = parseBackupVolid volid in
      if pbStorage parsed = [] \<or> pbVolume parsed = [] then Some (''Ung'' @ CHR 0xFC # ''ltiges Backup: '' @ volid)
      else if pbVmid parsed \<noteq> None \<and> pbVmid parsed \<noteq> Some vmid then Some (not_of_guest volid kind vmid)
      else if pbKind parsed \<noteq> None \<and> pbKind parsed \<noteq> Some kind then Some (not_of_guest volid kind vmid)
      else None)"

fun first_error :: "('a \<Rightarrow> 'e option) \<Rightarrow> 'a list \<Rightarrow> 'e option" where
  "first_error f [] = None"
| "first_error f (x # xs) = (case f x of Some e \<Rightarrow> Some e | None \<Rightarrow> first_error f xs)"

definition assertGuestBackupVolids :: "string list \<Rightarrow> int \<Rightarrow> guest_kind \<Rightarrow> string + string list" where
  "assertGuestBackupVolids volids vmid kind =
     (let unique = uniq (filter (\<lambda>v. v \<noteq> []) (map trim volids)) in
      case first_error (volid_error vmid kind) unique of Some e \<Rightarrow> Inl e | None \<Rightarrow> Inr unique)"

section \<open>Backup files\<close>

record backup_file =
  bfVolid :: string
  bfNode :: string
  bfStorage :: string
  bfVmid :: "int option"
  bfKind :: "guest_kind option"
  bfSize :: jsnum
  bfCtime :: rat
  bfNotes :: "string option"
  bfFormat :: "string option"

definition backupsForGuest :: "backup_file list \<Rightarrow> int \<Rightarrow> guest_kind \<Rightarrow> backup_file list" where
  "backupsForGuest files vmid kind = filter (\<lambda>f. bfVmid f = Some vmid \<and> (bfKind f = Some kind \<or> bfKind f = None)) files"

definition newest_first :: "backup_file list \<Rightarrow> backup_file list" where
  "newest_first files = sort_key (\<lambda>f. - bfCtime f) files"

definition backupsForGuestNewestFirst :: "backup_file list \<Rightarrow> int \<Rightarrow> guest_kind \<Rightarrow> backup_file list" where
  "backupsForGuestNewestFirst files vmid kind = newest_first (backupsForGuest files vmid kind)"

definition backupCtimeMs :: "js \<Rightarrow> rat" where
  "backupCtimeMs ctime = (case js_number ctime of Fin n \<Rightarrow> if n \<le> 0 then 0 else if 1000000000000 < n then n else n * 1000 | _ \<Rightarrow> 0)"

record guest_ident =
  idVmid :: int
  idKind :: guest_kind

definition isOrphanBackupFile :: "backup_file \<Rightarrow> guest_ident list \<Rightarrow> bool" where
  "isOrphanBackupFile f guests =
     (case bfVmid f of None \<Rightarrow> False
      | Some v \<Rightarrow>
          (if v \<le> 0 then False
           else (let live = filter (\<lambda>g. idVmid g = v) guests in
                 if live = [] then True
                 else case bfKind f of None \<Rightarrow> False | Some k \<Rightarrow> \<not> list_ex (\<lambda>g. idKind g = k) live)))"

definition orphanBackupFiles :: "backup_file list \<Rightarrow> guest_ident list \<Rightarrow> backup_file list" where
  "orphanBackupFiles files guests = filter (\<lambda>f. isOrphanBackupFile f guests) files"

record backup_filter =
  flQuery :: string
  flKind :: "guest_kind option"
  flStorage :: string
  flPeriod :: string

definition PERIOD_MS :: "string \<Rightarrow> rat" where
  "PERIOD_MS period = (if period = ''day'' then 86400000 else if period = ''week'' then 604800000 else 2592000000)"

definition filterBackupFiles :: "backup_file list \<Rightarrow> backup_filter \<Rightarrow> rat \<Rightarrow> (int \<Rightarrow> string option) \<Rightarrow> backup_file list" where
  "filterBackupFiles files fl now names =
     (let q = to_lower (trim (flQuery fl));
          minCtime = (if flPeriod fl = ''all'' then 0 else now - PERIOD_MS (flPeriod fl))
      in filter (\<lambda>f.
           (flKind fl = None \<or> bfKind f = flKind fl)
           \<and> (flStorage fl = ''all'' \<or> flStorage fl = [] \<or> bfStorage f = flStorage fl)
           \<and> \<not> (0 < minCtime \<and> 0 < bfCtime f \<and> bfCtime f < minCtime)
           \<and> (q = [] \<or>
              (let name = (case bfVmid f of None \<Rightarrow> [] | Some v \<Rightarrow> (case names v of None \<Rightarrow> [] | Some n \<Rightarrow> n));
                   vmid = (case bfVmid f of None \<Rightarrow> [] | Some v \<Rightarrow> int_str v)
               in str_includes (to_lower (join '' '' [vmid, name, bfVolid f, bfStorage f])) q))) files)"

section \<open>Retention\<close>

definition pruneKeepLast :: "int option \<Rightarrow> js" where
  "pruneKeepLast keepLast =
     (case keepLast of None \<Rightarrow> JUndef | Some k \<Rightarrow> if k < 1 then JUndef else JStr (''keep-last='' @ int_str k))"

definition positiveInt :: "js \<Rightarrow> int option" where
  "positiveInt v = (case js_number v of Fin n \<Rightarrow> if n < 1 then None else Some (js_round n) | _ \<Rightarrow> None)"

definition parseKeepLast :: "js \<Rightarrow> js \<Rightarrow> int option" where
  "parseKeepLast pruned maxfiles =
     (let fromObject = (if js_is_object pruned
            then positiveInt (js_or (js_or (js_field pruned ''keep-last'') (js_field pruned ''keep_last'')) (js_field pruned ''keepLast''))
            else None);
          raw = (case pruned of JStr s \<Rightarrow> s | JNum n \<Rightarrow> num_str n | _ \<Rightarrow> [])
      in (case fromObject of Some n \<Rightarrow> Some n
        | None \<Rightarrow> (case number_after_exact ''keep-last='' raw of Some d \<Rightarrow> positiveInt (JStr d) | None \<Rightarrow> positiveInt maxfiles)))"

section \<open>Schedules\<close>

definition BACKUP_DAYS :: "string list" where
  "BACKUP_DAYS = [''mon'', ''tue'', ''wed'', ''thu'', ''fri'', ''sat'', ''sun'']"

definition padClock :: "nat \<Rightarrow> nat \<Rightarrow> string" where
  "padClock hour minute = pad_start 2 CHR ''0'' (nat_str hour) @ '':'' @ pad_start 2 CHR ''0'' (nat_str minute)"

text \<open>Parts between commas and white space, without the empty ones.\<close>

fun day_parts :: "string \<Rightarrow> string \<Rightarrow> string list" where
  "day_parts acc [] = (if acc = [] then [] else [acc])"
| "day_parts acc (c # s) =
     (if c = CHR '','' \<or> is_ws c then (if acc = [] then [] else [acc]) @ day_parts [] s else day_parts (acc @ [c]) s)"

text \<open>\<open>part.split("..")\<close>: its first two pieces, when there is a separator.\<close>

definition range_of :: "string \<Rightarrow> (string \<times> string) option" where
  "range_of part =
     (case index_of part ''..'' of None \<Rightarrow> None
      | Some i \<Rightarrow>
          (let rest = drop (i + 2) part
           in Some (take i part, case index_of rest ''..'' of None \<Rightarrow> rest | Some j \<Rightarrow> take j rest)))"

fun day_index :: "string \<Rightarrow> string list \<Rightarrow> nat option" where
  "day_index d [] = None"
| "day_index d (x # xs) = (if x = d then Some 0 else map_option Suc (day_index d xs))"

definition days_of_part :: "string \<Rightarrow> string list" where
  "days_of_part part =
     (case range_of part of
        Some (from, to) \<Rightarrow>
          (case (day_index from BACKUP_DAYS, day_index to BACKUP_DAYS) of
             (Some i, Some j) \<Rightarrow> if i \<le> j then take (Suc j - i) (drop i BACKUP_DAYS) else []
           | _ \<Rightarrow> [])
      | None \<Rightarrow> if part \<in> set BACKUP_DAYS then [part] else [])"

definition parseDayTokens :: "string \<Rightarrow> string list" where
  "parseDayTokens raw =
     (let picked = concat (map days_of_part (day_parts [] (to_lower raw))) in filter (\<lambda>d. d \<in> set picked) BACKUP_DAYS)"

text \<open>One or two digits, a colon and two digits at the start of a text.\<close>

definition clock_at :: "string \<Rightarrow> (nat \<times> nat) option" where
  "clock_at s =
     (let two = (\<lambda>t. case t of c # d # u \<Rightarrow> if is_digit c \<and> is_digit d then Some (digits_val [c, d]) else None | _ \<Rightarrow> None);
          tail = (\<lambda>h t. case t of c # u \<Rightarrow> if c = CHR '':'' then map_option (Pair h) (two u) else None | [] \<Rightarrow> None)
      in case s of
        a # b # t \<Rightarrow>
          (if is_digit a \<and> is_digit b
           then (case tail (digits_val [a, b]) t of Some r \<Rightarrow> Some r | None \<Rightarrow> tail (digits_val [a]) (b # t))
           else if is_digit a then tail (digits_val [a]) (b # t) else None)
      | _ \<Rightarrow> None)"

text \<open>The leftmost clock with the text before it.\<close>

fun find_clock :: "string \<Rightarrow> string \<Rightarrow> (string \<times> nat \<times> nat) option" where
  "find_clock before [] = None"
| "find_clock before (c # s) =
     (case clock_at (c # s) of Some hm \<Rightarrow> Some (before, hm) | None \<Rightarrow> find_clock (before @ [c]) s)"

record backup_schedule =
  bsTime :: string
  bsDays :: "string list"

definition parseBackupSchedule :: "string \<Rightarrow> backup_schedule" where
  "parseBackupSchedule raw =
     (let trimmed = to_lower (trim raw);
          (hour, minute, prefix) =
            (case find_clock [] trimmed of Some (p, h, m) \<Rightarrow> (min 23 h, min 59 m, trim p) | None \<Rightarrow> (2, 0, trimmed));
          days = parseDayTokens prefix
      in \<lparr>bsTime = padClock hour minute, bsDays = (if days = [] then BACKUP_DAYS else days)\<rparr>)"

definition formatBackupSchedule :: "string list \<Rightarrow> string \<Rightarrow> string" where
  "formatBackupSchedule days time =
     (let clock = bsTime (parseBackupSchedule time); ordered = filter (\<lambda>d. d \<in> set days) BACKUP_DAYS in
      if length ordered = 0 \<or> length ordered = 7 then clock else join '','' ordered @ '' '' @ clock)"

definition jobSchedulePayload :: "string \<Rightarrow> js_record" where
  "jobSchedulePayload schedule =
     (let s = parseBackupSchedule schedule in [(''schedule'', JStr (formatBackupSchedule (bsDays s) (bsTime s)))])"

text \<open>The second test: \<open>delete:\<close>, later \<open>unknown option\<close>, an optional quote and \<open>starttime\<close>, on one line.\<close>

definition single_line_tail :: "string \<Rightarrow> string" where
  "single_line_tail s = takeWhile (\<lambda>c. c \<noteq> CHR 0x0A \<and> c \<noteq> CHR 0x0D) s"

definition unknown_starttime :: "string \<Rightarrow> bool" where
  "unknown_starttime s \<longleftrightarrow>
     str_includes s ''unknown option starttime''
     \<or> str_includes s (''unknown option '' @ CHR 0x27 # ''starttime'')
     \<or> str_includes s (''unknown option '' @ CHR 0x22 # ''starttime'')"

fun delete_conflict :: "string \<Rightarrow> bool" where
  "delete_conflict [] = False"
| "delete_conflict (c # s) =
     ((starts_with (c # s) ''delete:'' \<and> unknown_starttime (single_line_tail (drop 7 (c # s)))) \<or> delete_conflict s)"

definition isBackupJobScheduleConflict :: "string \<Rightarrow> bool" where
  "isBackupJobScheduleConflict message =
     (let m = to_lower message in
      (str_includes m ''starttime'' \<and> str_includes m ''schedule'' \<and> (str_includes m ''both'' \<or> str_includes m ''cannot''))
      \<or> delete_conflict m)"

section \<open>Jobs\<close>

record backup_job =
  bjId :: string
  bjEnabled :: bool
  bjSchedule :: string
  bjStorage :: string
  bjMode :: string
  bjCompress :: string
  bjAll :: bool
  bjVmid :: string
  bjNode :: string
  bjPrune :: string
  bjKeepLast :: "int option"

definition without_ws :: "string \<Rightarrow> string" where
  "without_ws s = filter (\<lambda>c. \<not> is_ws c) s"

definition vzdumpGuestParams :: "bool \<Rightarrow> string \<Rightarrow> js_record" where
  "vzdumpGuestParams all vmids =
     (let vmid = without_ws vmids in if all \<or> vmid = [] then [(''all'', JNum (Fin 1))] else [(''vmid'', JStr vmid)])"

definition js_flag :: "js \<Rightarrow> bool" where
  "js_flag v \<longleftrightarrow> v = JNum (Fin 1) \<or> v = JStr ''1'' \<or> v = JBool True"

definition str_or :: "js \<Rightarrow> string \<Rightarrow> string" where
  "str_or v d = js_string (js_or v (JStr d))"

definition normalizeBackupJob :: "js_record \<Rightarrow> backup_job" where
  "normalizeBackupJob raw =
     (let field = get_prop raw;
          starttime = trim (str_or (field ''starttime'') []);
          dow = trim (str_or (field ''dow'') []);
          own = trim (str_or (field ''schedule'') []);
          built = trim (join '' '' (filter (\<lambda>s. s \<noteq> []) [dow, starttime]));
          pruneValue = js_or (field ''prune-backups'') (field ''prune_backups'')
      in \<lparr>bjId = str_or (field ''id'') [],
          bjEnabled = js_flag (field ''enabled''),
          bjSchedule = (if own \<noteq> [] then own else if built \<noteq> [] then built else starttime),
          bjStorage = str_or (field ''storage'') [],
          bjMode = str_or (field ''mode'') ''snapshot'',
          bjCompress = str_or (field ''compress'') ''zstd'',
          bjAll = js_flag (field ''all''),
          bjVmid = trim (str_or (field ''vmid'') []),
          bjNode = trim (str_or (field ''node'') []),
          bjPrune = (if js_is_object pruneValue then [] else trim (str_or pruneValue [])),
          bjKeepLast = parseKeepLast pruneValue (field ''maxfiles'')\<rparr>)"

section \<open>Logs of tasks\<close>

definition logLineText :: "js \<Rightarrow> string" where
  "logLineText line =
     (let text = (case line of JStr s \<Rightarrow> s | _ \<Rightarrow> js_string (js_or (js_field line ''t'') (JStr []))) in
      if text \<noteq> [] \<and> last text = CHR 0x0D then butlast text else text)"

definition isNoiseProxmoxLogLine :: "string \<Rightarrow> bool" where
  "isNoiseProxmoxLogLine text \<longleftrightarrow> (let t = trim text in t = [] \<or> to_lower t = ''no content'')"

definition log_line :: "nat \<Rightarrow> js \<Rightarrow> (jsnum \<times> string) list" where
  "log_line i raw =
     (let text = logLineText raw in
      if isNoiseProxmoxLogLine text then []
      else (let n = (case raw of JObj r \<Rightarrow> if map_of r ''n'' = None then of_int_num (int i + 1) else js_number (get_prop r ''n'')
                     | _ \<Rightarrow> of_int_num (int i + 1))
            in [(if isFiniteNum n \<and> num_greater n 0 then n else of_int_num (int i + 1), text)]))"

definition normalizeProxmoxTaskLog :: "js \<Rightarrow> (jsnum \<times> string) list" where
  "normalizeProxmoxTaskLog data =
     (case data of
        JStr s \<Rightarrow> (if isNoiseProxmoxLogLine s then [] else [(Fin 1, s)])
      | JArr xs \<Rightarrow> concat (map (\<lambda>i. log_line i (xs ! i)) [0..<length xs])
      | _ \<Rightarrow> [])"

definition isEmptyProxmoxTaskLogError :: "js_error \<Rightarrow> bool" where
  "isEmptyProxmoxTaskLogError e \<longleftrightarrow>
     (case e of AppError status m code \<Rightarrow> status = 204 \<or> status = 404 | StatusError status \<Rightarrow> status = 204 \<or> status = 404 | _ \<Rightarrow> False)
     \<or> to_lower (trim (error_message e)) = ''no content''"

definition tasks_log :: "px_env \<Rightarrow> proxmox_config \<Rightarrow> string \<Rightarrow> string \<Rightarrow> int \<Rightarrow> int \<Rightarrow> (jsnum \<times> string) list mesh_op" where
  "tasks_log x c node upid start limit =
     catch_op
       (bind_op (px_get x c (task_path node upid ''/log'')
           (Some [(''start'', JNum (of_int_num start)), (''limit'', JNum (of_int_num limit))]) None) (\<lambda>data.
        return_op (normalizeProxmoxTaskLog data)))
       (\<lambda>e. if isEmptyProxmoxTaskLogError e then return_op [] else throw_op e)"

end
