(* ===== verification/GuestBackupProperties.thy ===== *)
theory GuestBackupProperties imports GuestBackups begin

text \<open>
  Schedules of backup jobs are read back as they were written.
\<close>

lemma pad_two: "n < 100 \<Longrightarrow> pad_start 2 CHR ''0'' (nat_str n) = [digit_char (n div 10), digit_char (n mod 10)]"
proof -
  assume n: "n < 100"
  have z: "CHR ''0'' = digit_char 0" by code_simp
  show ?thesis
  proof (cases "n < 10")
    case True
    then show ?thesis by (simp add: nat_str.simps [of n] z)
  next
    case False
    with n show ?thesis by (simp add: nat_str.simps [of n] nat_str.simps [of "n div 10"])
  qed
qed

lemma digit_two: "a < 10 \<Longrightarrow> b < 10 \<Longrightarrow> digits_val [digit_char a, digit_char b] = 10 * a + b"
  by (simp add: digits_val_def digit_val_def digit_char_def of_char_of_nat_small)

lemma is_digit_char: "a < 10 \<Longrightarrow> is_digit (digit_char a)"
  by (simp add: is_digit_def in_range_def digit_char_def of_char_of_nat_small)

lemma clock_text:
  assumes "h < 100" "m < 100"
  shows "padClock h m = [digit_char (h div 10), digit_char (h mod 10), CHR '':'', digit_char (m div 10), digit_char (m mod 10)]"
  using pad_two [OF assms(1)] pad_two [OF assms(2)] by (simp add: padClock_def)

lemma clock_at_pad:
  assumes "h < 100" "m < 100"
  shows "clock_at (padClock h m) = Some (h, m)"
proof -
  have "h div 10 < 10" "m div 10 < 10" using assms by arith+
  then show ?thesis
    by (simp add: clock_text [OF assms] clock_at_def is_digit_char digit_two)
qed

lemma clock_at_digit: "\<not> is_digit c \<Longrightarrow> clock_at (c # s) = None"
  by (cases s) (simp_all add: clock_at_def)

lemma find_clock_skip:
  "list_all (\<lambda>c. \<not> is_digit c) w \<Longrightarrow> t \<noteq> [] \<Longrightarrow> clock_at t = Some hm \<Longrightarrow> find_clock acc (w @ t) = Some (acc @ w, hm)"
proof (induction w arbitrary: acc)
  case Nil
  then show ?case by (cases t) simp_all
next
  case (Cons c w)
  then show ?case by (simp add: clock_at_digit)
qed

text \<open>A text of lower-case days before a clock.\<close>

definition day_text :: "string \<Rightarrow> bool" where
  "day_text w \<longleftrightarrow> w \<noteq> [] \<and> list_all (\<lambda>c. \<not> is_digit c \<and> \<not> is_ws c \<and> lower_char c = c) w"

lemma digit_facts: "is_digit c \<Longrightarrow> \<not> is_ws c \<and> lower_char c = c"
  using is_digit_not_ws by (auto simp: is_digit_def in_range_def lower_char_def is_upper_def)

lemma trim_plain: "w \<noteq> [] \<Longrightarrow> \<not> is_ws (hd w) \<Longrightarrow> \<not> is_ws (last w) \<Longrightarrow> trim w = w"
proof -
  assume "w \<noteq> []" "\<not> is_ws (hd w)" "\<not> is_ws (last w)"
  then have "dropWhile is_ws w = w" "dropWhile is_ws (rev w) = rev w" by (cases w, simp_all) (cases w rule: rev_cases, simp_all)
  then show ?thesis by (simp add: trim_def trim_start_def trim_end_def)
qed

lemma parse_text:
  assumes "h < 24" "m < 60" "w = [] \<or> day_text w"
  shows "parseBackupSchedule ((if w = [] then [] else w @ '' '') @ padClock h m)
    = \<lparr>bsTime = padClock h m, bsDays = (let days = parseDayTokens w in if days = [] then BACKUP_DAYS else days)\<rparr>"
proof -
  let ?pre = "if w = [] then [] else w @ '' ''" and ?clock = "padClock h m"
  let ?s = "?pre @ ?clock"
  have hm: "h < 100" "m < 100" "min 23 h = h" "min 59 m = m" using assms by auto
  have d: "list_all is_digit [digit_char (h div 10), digit_char (h mod 10), digit_char (m div 10), digit_char (m mod 10)]"
    using hm(1,2) by (simp add: is_digit_char)
  have colon: "\<not> is_ws CHR '':''" "lower_char CHR '':'' = CHR '':''" "lower_char CHR '' '' = CHR '' ''" "\<not> is_digit CHR '' ''" "is_ws CHR '' ''"
    by code_simp+
  have clock: "list_all (\<lambda>c. lower_char c = c) ?clock" "\<not> is_ws (hd ?clock)" "\<not> is_ws (last ?clock)" "?clock \<noteq> []"
    using d digit_facts colon by (simp_all add: clock_text [OF hm(1,2)])
  have low: "to_lower ?s = ?s"
    using clock(1) assms(3) colon(3) by (auto simp: to_lower_def list_all_iff day_text_def intro!: map_idI)
  have "\<not> is_ws (hd ?s)" "\<not> is_ws (last ?s)" "?s \<noteq> []"
    using clock assms(3) by (auto simp: day_text_def hd_append list_all_iff)
  then have trim: "trim ?s = ?s" by (intro trim_plain)
  have "list_all (\<lambda>c. \<not> is_digit c) ?pre"
    using assms(3) colon(4) by (auto simp: day_text_def list_all_iff)
  from find_clock_skip [OF this clock(4) clock_at_pad [OF hm(1,2)], of "[]"]
  have found: "find_clock [] ?s = Some (?pre, h, m)" by simp
  have "trim ?pre = w"
  proof (cases "w = []")
    case False
    then have "\<not> is_ws (hd w)" "\<not> is_ws (last w)" using assms(3) by (auto simp: day_text_def list_all_iff)
    with False show ?thesis
      using trim_plain [of w] colon(5)
      by (cases w) (simp_all add: trim_def trim_start_def trim_end_def)
  qed (simp add: trim_def trim_start_def trim_end_def)
  then show ?thesis
    unfolding parseBackupSchedule_def trim low Let_def found by (simp add: hm)
qed

definition plain_day :: "string \<Rightarrow> bool" where
  "plain_day d \<longleftrightarrow> day_text d \<and> CHR '','' \<notin> set d \<and> days_of_part d = [d]"

lemma days_plain: "list_all plain_day BACKUP_DAYS"
  by code_simp

lemma day_parts_word:
  "list_all (\<lambda>c. c \<noteq> CHR '','' \<and> \<not> is_ws c) w \<Longrightarrow> day_parts acc (w @ s) = day_parts (acc @ w) s"
  by (induction w arbitrary: acc) simp_all

lemma day_parts_join: "list_all plain_day ds \<Longrightarrow> day_parts [] (join '','' ds) = ds"
proof (induction ds)
  case (Cons w ws)
  then have w: "list_all (\<lambda>c. c \<noteq> CHR '','' \<and> \<not> is_ws c) w" "w \<noteq> []" by (auto simp: plain_day_def day_text_def list_all_iff)
  show ?case
  proof (cases ws)
    case Nil
    then show ?thesis using w day_parts_word [of w "[]" "[]"] by simp
  next
    case (Cons v vs)
    then show ?thesis using w Cons.IH Cons.prems day_parts_word [of w "[]" "'','' @ join '','' ws"] by simp
  qed
qed simp

lemma join_days_text: "ds \<noteq> [] \<Longrightarrow> list_all plain_day ds \<Longrightarrow> day_text (join '','' ds)"
proof (induction ds)
  case (Cons w ws)
  have "\<not> is_digit CHR '',''" "\<not> is_ws CHR '',''" "lower_char CHR '','' = CHR '',''" by code_simp+
  with Cons show ?case by (cases ws) (auto simp: plain_day_def day_text_def)
qed simp

lemma day_subset:
  assumes "ds = filter (\<lambda>d. d \<in> S) BACKUP_DAYS"
  shows "(ds = [] \<or> day_text (join '','' ds)) \<and> parseDayTokens (join '','' ds) = ds"
proof -
  have plain: "list_all plain_day ds" using days_plain assms by (auto simp: list_all_iff)
  have "to_lower (join '','' ds) = join '','' ds"
    using join_days_text [OF _ plain] by (cases "ds = []") (auto simp: to_lower_def day_text_def list_all_iff intro!: map_idI)
  moreover have "map days_of_part ds = map (\<lambda>d. [d]) ds" using plain by (auto simp: plain_day_def list_all_iff)
  then have "concat (map days_of_part ds) = concat (map (\<lambda>d. [d]) ds)" by (simp only:)
  then have "concat (map days_of_part ds) = ds" by (simp only: concat_map_singleton) simp
  ultimately have "parseDayTokens (join '','' ds) = filter (\<lambda>d. d \<in> set ds) BACKUP_DAYS"
    by (simp add: parseDayTokens_def day_parts_join [OF plain])
  also have "\<dots> = ds" unfolding assms by (intro filter_cong) auto
  finally show ?thesis using join_days_text [OF _ plain] by blast
qed

lemma parse_clock: "\<exists>h m. h < 24 \<and> m < 60 \<and> bsTime (parseBackupSchedule time) = padClock h m"
proof (cases "find_clock [] (to_lower (trim time))")
  case None
  then show ?thesis by (intro exI [of _ 2] exI [of _ 0]) (simp add: parseBackupSchedule_def Let_def)
next
  case (Some r)
  obtain p h m where "r = (p, h, m)" by (cases r) auto
  with Some have "min 23 h < 24 \<and> min 59 m < 60 \<and> bsTime (parseBackupSchedule time) = padClock (min 23 h) (min 59 m)"
    by (simp add: parseBackupSchedule_def Let_def min_def)
  then show ?thesis by blast
qed

text \<open>
  The schedule that is written for a job is read back with the same clock and the same days in
  the order of the week; every day and no day are both written as the clock alone and read as every
  day.  Whatever clock was asked for, the written one is a time of a day.
\<close>

theorem backup_schedule_round_trip:
  "let ordered = filter (\<lambda>d. d \<in> set days) BACKUP_DAYS in
     parseBackupSchedule (formatBackupSchedule days time)
       = \<lparr>bsTime = bsTime (parseBackupSchedule time), bsDays = (if ordered = [] then BACKUP_DAYS else ordered)\<rparr>
     \<and> (\<exists>h m. h < 24 \<and> m < 60 \<and> bsTime (parseBackupSchedule time) = padClock h m)"
proof -
  obtain h m where hm: "h < 24" "m < 60" and clock: "bsTime (parseBackupSchedule time) = padClock h m"
    using parse_clock by blast
  let ?o = "filter (\<lambda>d. d \<in> set days) BACKUP_DAYS"
  have o': "?o = [] \<or> day_text (join '','' ?o)" "parseDayTokens (join '','' ?o) = ?o"
    using day_subset [of ?o "set days"] by simp_all
  have nil: "parseDayTokens [] = []" by code_simp
  have all: "?o = BACKUP_DAYS" if "length ?o = 7"
    using that length_filter_less [of _ BACKUP_DAYS "\<lambda>d. d \<in> set days"] by (intro filter_True) (force simp: BACKUP_DAYS_def)
  have "parseBackupSchedule (formatBackupSchedule days time) = \<lparr>bsTime = padClock h m, bsDays = (if ?o = [] then BACKUP_DAYS else ?o)\<rparr>"
  proof (cases "length ?o = 0 \<or> length ?o = 7")
    case True
    then have "formatBackupSchedule days time = padClock h m" by (simp add: formatBackupSchedule_def clock Let_def)
    then show ?thesis using parse_text [OF hm, of "[]"] nil all True by auto
  next
    case False
    then have f: "formatBackupSchedule days time = join '','' ?o @ '' '' @ padClock h m"
      by (simp add: formatBackupSchedule_def clock Let_def)
    have "join '','' ?o \<noteq> []" using o'(1) False by (auto simp: day_text_def)
    then show ?thesis using parse_text [OF hm, of "join '','' ?o"] o' False f by auto
  qed
  then show ?thesis using hm clock by (auto simp: Let_def)
qed

end
