(* ===== verification/Inventory.thy ===== *)
theory Inventory imports GuestTasks CreateIp begin

text \<open>
  What is known of the guests of a host: the resources of the cluster (\<^verbatim>\<open>server/proxmox/client.ts\<close>),
  the inventory that is preserved for a minute (\<^verbatim>\<open>server/services/inventory-cache.ts\<close>), the addresses
  that are preserved for some minutes (\<^verbatim>\<open>server/services/guest-ip-cache.ts\<close>), and the VMIDs and
  addresses in use (\<^verbatim>\<open>server/services/guest-ips.ts\<close>, \<^verbatim>\<open>lib/guest-identity.ts\<close>,
  \<^verbatim>\<open>lib/next-vmid.ts\<close>).  Fields of a resource that do not have their documented type count as
  absent; requests that a pool sends side by side are sent one after the other.
\<close>

section \<open>Resources of a cluster\<close>

definition num_field :: "js_record \<Rightarrow> string \<Rightarrow> jsnum option" where
  "num_field r k = (case get_prop r k of JNum n \<Rightarrow> Some n | _ \<Rightarrow> None)"

definition resource_of_js :: "js_record \<Rightarrow> px_resource" where
  "resource_of_js r =
     \<lparr>rsId = str_field r ''id'', rsType = (case str_field r ''type'' of None \<Rightarrow> [] | Some t \<Rightarrow> t), rsNode = str_field r ''node'',
      rsStorage = str_field r ''storage'', rsPlugintype = str_field r ''plugintype'', rsContent = str_field r ''content'',
      rsShared = num_field r ''shared'', rsVmid = map_option num_int (num_field r ''vmid''), rsName = str_field r ''name'',
      rsStatus = str_field r ''status'', rsCpu = num_field r ''cpu'', rsCpus = num_field r ''cpus'',
      rsMaxcpu = num_field r ''maxcpu'', rsMem = num_field r ''mem'', rsMaxmem = num_field r ''maxmem'',
      rsDisk = num_field r ''disk'', rsMaxdisk = num_field r ''maxdisk'', rsNetin = num_field r ''netin'',
      rsNetout = num_field r ''netout'', rsUptime = num_field r ''uptime'', rsTemplate = num_field r ''template'',
      rsTags = str_field r ''tags'', rsDescription = str_field r ''description''\<rparr>"

text \<open>\<open>resources.filter\<close> needs an array, and reading a field of \<open>null\<close> throws.\<close>

definition resources_of :: "js \<Rightarrow> js_error + px_resource list" where
  "resources_of v =
     (case v of
        JArr xs \<Rightarrow> (if list_ex nullish xs then Inl no_property
          else Inr (map (\<lambda>x. resource_of_js (case x of JObj r \<Rightarrow> r | _ \<Rightarrow> [])) xs))
      | _ \<Rightarrow> Inl no_property)"

definition or_num :: "jsnum option \<Rightarrow> jsnum \<Rightarrow> jsnum" where
  "or_num n d = (case n of None \<Rightarrow> d | Some m \<Rightarrow> m)"

definition mapGuest :: "px_resource \<Rightarrow> guest_item" where
  "mapGuest r =
     (let status = (case rsStatus r of None \<Rightarrow> ''unknown'' | Some s \<Rightarrow> s) in
      \<lparr>giVmid = (case rsVmid r of None \<Rightarrow> 0 | Some v \<Rightarrow> v),
       giName = (case rsName r of Some n \<Rightarrow> n
         | None \<Rightarrow> ''id-'' @ (case rsVmid r of None \<Rightarrow> ''undefined'' | Some v \<Rightarrow> int_str v)),
       giNode = (case rsNode r of None \<Rightarrow> [] | Some n \<Rightarrow> n),
       giStatus = (if status \<in> {''running'', ''stopped'', ''paused''} then status else ''unknown''),
       giCpu = or_num (rsCpu r) (Fin 0),
       giCpus = (case rsCpus r of Some n \<Rightarrow> n | None \<Rightarrow> or_num (rsMaxcpu r) (Fin 0)),
       giMem = or_num (rsMem r) (Fin 0), giMaxmem = or_num (rsMaxmem r) (Fin 0), giDisk = or_num (rsDisk r) (Fin 0),
       giMaxdisk = or_num (rsMaxdisk r) (Fin 0), giUptime = or_num (rsUptime r) (Fin 0), giTags = rsTags r,
       giDescription = rsDescription r, giTemplate = (rsTemplate r = Some (Fin 1)), giNetin = rsNetin r, giNetout = rsNetout r\<rparr>)"

definition storage_of_resource :: "px_resource \<Rightarrow> storage_item" where
  "storage_of_resource r =
     \<lparr>siStorage = (case rsStorage r of Some s \<Rightarrow> s
        | None \<Rightarrow> (case rsId r of None \<Rightarrow> []
            | Some i \<Rightarrow> if starts_with i ''storage/'' then drop 8 i else i)),
      siType = (case rsPlugintype r of None \<Rightarrow> ''storage'' | Some t \<Rightarrow> t), siNode = rsNode r, siContent = rsContent r,
      siDisk = rsDisk r, siMaxdisk = rsMaxdisk r, siStatus = rsStatus r, siShared = rsShared r\<rparr>"

definition splitResources :: "px_resource list \<Rightarrow> inventory" where
  "splitResources rs =
     \<lparr>inNodes = filter (\<lambda>r. rsType r = ''node'') rs,
      inVms = map mapGuest (filter (\<lambda>r. rsType r = ''qemu'') rs),
      inContainers = map mapGuest (filter (\<lambda>r. rsType r = ''lxc'') rs),
      inStorage = map storage_of_resource (filter (\<lambda>r. rsType r = ''storage'') rs)\<rparr>"

definition listResources :: "px_env \<Rightarrow> proxmox_config \<Rightarrow> string option \<Rightarrow> px_resource list mesh_op" where
  "listResources x c type = bind_op (cluster_resources x c type) (\<lambda>v. lift_op (resources_of v))"

definition listInventory :: "px_env \<Rightarrow> proxmox_config \<Rightarrow> inventory mesh_op" where
  "listInventory x c = bind_op (listResources x c None) (\<lambda>rs. return_op (splitResources rs))"

definition listGuests :: "px_env \<Rightarrow> proxmox_config \<Rightarrow> (guest_item list \<times> guest_item list) mesh_op" where
  "listGuests x c = bind_op (listResources x c (Some ''vm'')) (\<lambda>rs.
     let inv = splitResources rs in return_op (inVms inv, inContainers inv))"

section \<open>The inventory that is preserved\<close>

definition INVENTORY_TTL_MS :: int where
  "INVENTORY_TTL_MS = 60000"

definition inventory_key :: "string \<Rightarrow> proxmox_config \<Rightarrow> string" where
  "inventory_key hostId c = hostId @ '':'' @ normalizeBaseUrl (pcUrl c)"

definition invalidateInventoryCache :: "string \<Rightarrow> mesh \<Rightarrow> mesh" where
  "invalidateInventoryCache hostId st =
     st\<lparr>msWire := (msWire st)\<lparr>wrInventory :=
       (if hostId = [] then [] else filter (\<lambda>(k, _). \<not> starts_with k (hostId @ '':'')) (wrInventory (msWire st)))\<rparr>\<rparr>"

definition remember_inventory :: "string \<Rightarrow> inventory \<Rightarrow> mesh \<Rightarrow> mesh" where
  "remember_inventory key found st =
     st\<lparr>msWire := (msWire st)\<lparr>wrInventory := AList.update key (wire_now st, found) (wrInventory (msWire st))\<rparr>\<rparr>"

definition inventoryNodeNames :: "inventory \<Rightarrow> string list" where
  "inventoryNodeNames found = uniq (concat (map (\<lambda>r. case rsNode r of None \<Rightarrow> [] | Some n \<Rightarrow> if n = [] then [] else [n]) (inNodes found)))"

definition loadHostInventory :: "px_env \<Rightarrow> proxmox_config \<Rightarrow> string \<Rightarrow> inventory mesh_op" where
  "loadHostInventory x c hostId st =
     (let key = inventory_key hostId c;
          fetch = bind_op (listInventory x c) (\<lambda>inv. bind_op (write_op (remember_inventory key inv)) (\<lambda>_. return_op inv))
      in case map_of (wrInventory (msWire st)) key of
           Some (time, found) \<Rightarrow> (if wire_now st - time < INVENTORY_TTL_MS then (Inr found, st) else fetch st)
         | None \<Rightarrow> fetch st)"

section \<open>The addresses that are preserved\<close>

definition guest_address_key :: "proxmox_config \<Rightarrow> guest_kind \<Rightarrow> string \<Rightarrow> int \<Rightarrow> string" where
  "guest_address_key c kind node vmid =
     normalizeBaseUrl (pcUrl c) @ '':'' @ kind_str kind @ '':'' @ node @ '':'' @ int_str vmid"

definition uniqueGuestIps :: "string list \<Rightarrow> string list" where
  "uniqueGuestIps ips = uniq (filter (\<lambda>s. s \<noteq> []) (map trim ips))"

definition peekGuestIpCache :: "proxmox_config \<Rightarrow> guest_kind \<Rightarrow> string \<Rightarrow> int \<Rightarrow> mesh \<Rightarrow> string list option \<times> mesh" where
  "peekGuestIpCache c kind node vmid st =
     (let w = msWire st; key = guest_address_key c kind node vmid in
      case map_of (wrGuestIps w) key of
        None \<Rightarrow> (None, st)
      | Some (ips, time) \<Rightarrow>
          (if (if ips = [] then 300000 else 600000) \<le> wrClock w - time
           then (None, st\<lparr>msWire := w\<lparr>wrGuestIps := filter (\<lambda>(k, _). k \<noteq> key) (wrGuestIps w)\<rparr>\<rparr>)
           else (Some ips, st)))"

definition rememberGuestIpCache :: "proxmox_config \<Rightarrow> guest_kind \<Rightarrow> string \<Rightarrow> int \<Rightarrow> string list \<Rightarrow> mesh \<Rightarrow> mesh" where
  "rememberGuestIpCache c kind node vmid ips st =
     st\<lparr>msWire := (msWire st)\<lparr>wrGuestIps :=
       AList.update (guest_address_key c kind node vmid) (uniqueGuestIps ips, wire_now st) (wrGuestIps (msWire st))\<rparr>\<rparr>"

section \<open>Identities in use\<close>

datatype identity_conflict = VmidTaken | IpTaken

definition identityConflict :: "int list \<Rightarrow> string list \<Rightarrow> int \<Rightarrow> string option \<Rightarrow> identity_conflict option" where
  "identityConflict vmids ips vmid ip =
     (if vmid \<in> set vmids then Some VmidTaken
      else if truthy ip \<and> the ip \<in> set ips then Some IpTaken else None)"

definition hostsInGuestIdentityScope :: "host_row \<Rightarrow> host_row list \<Rightarrow> host_row list" where
  "hostsInGuestIdentityScope target hosts =
     (if hsOrigin target = PEER then filter (\<lambda>h. hsId h = hsId target) hosts else filter (\<lambda>h. hsOrigin h = LOCAL) hosts)"

definition mergeUsedGuestSets :: "(int list \<times> string list) list \<Rightarrow> int list \<times> string list" where
  "mergeUsedGuestSets parts =
     (uniq (filter (\<lambda>v. 0 < v) (concat (map fst parts))), uniq (filter (\<lambda>s. s \<noteq> []) (concat (map snd parts))))"

definition MIN_VMID :: int where
  "MIN_VMID = 100"

text \<open>\<open>while (blocked(id)) id += 1\<close>, which does not end when everything is blocked.\<close>

partial_function (option) free_above :: "(int \<Rightarrow> bool) \<Rightarrow> int \<Rightarrow> int option" where
  "free_above blocked i = (if blocked i then free_above blocked (i + 1) else Some i)"

fun free_below :: "(int \<Rightarrow> bool) \<Rightarrow> int \<Rightarrow> nat \<Rightarrow> int option" where
  "free_below blocked least 0 = None"
| "free_below blocked least (Suc n) = (if blocked (least + int n) then free_below blocked least n else Some (least + int n))"

definition nextSmallerVmid :: "int list \<Rightarrow> int \<Rightarrow> (int \<Rightarrow> bool) \<Rightarrow> int option" where
  "nextSmallerVmid used least skip =
     (let ids = uniq (filter (\<lambda>n. least \<le> n) used); blocked = (\<lambda>i. i \<in> set ids \<or> skip i) in
      if ids = [] then free_above blocked least
      else (let most = foldr max ids (hd ids) in
            case free_below blocked least (nat (most - least)) of Some i \<Rightarrow> Some i | None \<Rightarrow> free_above blocked (most + 1)))"

definition listedGuests :: "px_env \<Rightarrow> proxmox_config \<Rightarrow> string \<Rightarrow> (guest_kind \<times> guest_item) list mesh_op" where
  "listedGuests x c hostId =
     bind_op (catch_op (bind_op (loadHostInventory x c hostId) (\<lambda>inv. return_op (inVms inv, inContainers inv))) (\<lambda>_. return_op ([], [])))
       (\<lambda>(vms, containers). return_op (map (Pair VM) vms @ map (Pair LXC) containers))"

definition vmids_of :: "(guest_kind \<times> guest_item) list \<Rightarrow> int list" where
  "vmids_of listed = filter (\<lambda>v. 0 < v) (map (\<lambda>(_, g). giVmid g) listed)"

definition collectUsedVmids :: "px_env \<Rightarrow> proxmox_config \<Rightarrow> string \<Rightarrow> int list mesh_op" where
  "collectUsedVmids x c hostId = bind_op (listedGuests x c hostId) (\<lambda>listed. return_op (vmids_of listed))"

definition config_call :: "guest_kind \<Rightarrow> px_env \<Rightarrow> proxmox_config \<Rightarrow> string \<Rightarrow> int \<Rightarrow> js mesh_op" where
  "config_call kind = (if kind = VM then vms_config else lxc_config)"

text \<open>\<open>.catch(() => null)\<close>.\<close>

definition or_null :: "js mesh_op \<Rightarrow> js mesh_op" where
  "or_null m = catch_op m (\<lambda>_. return_op JNull)"

definition fetch_addresses :: "px_env \<Rightarrow> proxmox_config \<Rightarrow> guest_kind \<times> guest_item \<Rightarrow> string list mesh_op" where
  "fetch_addresses x c = (\<lambda>(kind, g).
     bind_op (or_null (config_call kind x c (giNode g) (giVmid g))) (\<lambda>cfg.
     if \<not> js_truthy cfg then return_op []
     else (let found = parseGuestConfigIps (case cfg of JObj r \<Rightarrow> r | _ \<Rightarrow> []) in
           bind_op (write_op (rememberGuestIpCache c kind (giNode g) (giVmid g) found)) (\<lambda>_. return_op found))))"

definition GUEST_IP_CONFIG_LIMIT :: nat where
  "GUEST_IP_CONFIG_LIMIT = 60"

definition collectUsedGuestIps :: "px_env \<Rightarrow> proxmox_config \<Rightarrow> string \<Rightarrow> (int list \<times> string list) mesh_op" where
  "collectUsedGuestIps x c hostId =
     bind_op (listedGuests x c hostId) (\<lambda>listed.
     let pending = filter (\<lambda>(_, g). giNode g \<noteq> [] \<and> giVmid g \<noteq> 0 \<and> \<not> giTemplate g) listed in
     bind_op (map_op (\<lambda>(kind, g) st. case peekGuestIpCache c kind (giNode g) (giVmid g) st of (r, st1) \<Rightarrow> (Inr (r, kind, g), st1)) pending)
       (\<lambda>peeked.
     let known = concat (map (\<lambda>(r, _). case r of None \<Rightarrow> [] | Some ips \<Rightarrow> ips) peeked);
         missing = map snd (filter (\<lambda>(r, _). r = None) peeked)
     in bind_op (map_op (fetch_addresses x c) (take GUEST_IP_CONFIG_LIMIT missing)) (\<lambda>fetched.
        return_op (vmids_of listed, uniq (known @ concat fetched)))))"

definition forEachHostInScope :: "platform \<Rightarrow> host_env \<Rightarrow> host_row \<Rightarrow> (proxmox_config \<Rightarrow> string \<Rightarrow> 'a mesh_op) \<Rightarrow> 'a \<Rightarrow> 'a list mesh_op" where
  "forEachHostInScope pf env target f nothing =
     bind_op (read_op (\<lambda>st. heByName env (msHosts st))) (\<lambda>hosts.
     map_op (\<lambda>h. catch_op (bind_op (clientForHost pf h) (\<lambda>c. f c (hsId h))) (\<lambda>_. return_op nothing))
       (hostsInGuestIdentityScope target hosts))"

definition collectUsedVmidsForHost :: "px_env \<Rightarrow> platform \<Rightarrow> host_env \<Rightarrow> host_row \<Rightarrow> int list mesh_op" where
  "collectUsedVmidsForHost x pf env target =
     bind_op (forEachHostInScope pf env target (collectUsedVmids x) []) (\<lambda>parts.
     return_op (fst (mergeUsedGuestSets (map (\<lambda>v. (v, [])) parts))))"

definition collectUsedGuestIpsForHost :: "px_env \<Rightarrow> platform \<Rightarrow> host_env \<Rightarrow> host_row \<Rightarrow> (int list \<times> string list) mesh_op" where
  "collectUsedGuestIpsForHost x pf env target =
     bind_op (forEachHostInScope pf env target (collectUsedGuestIps x) ([], [])) (\<lambda>parts. return_op (mergeUsedGuestSets parts))"

definition taken_error :: "string \<Rightarrow> js_error" where
  "taken_error what = ConflictError (what @ '' ist bereits vergeben'')"

definition assertGuestIdentityFree :: "px_env \<Rightarrow> platform \<Rightarrow> host_env \<Rightarrow> host_row \<Rightarrow> int \<Rightarrow> string option \<Rightarrow> unit mesh_op" where
  "assertGuestIdentityFree x pf env host vmid ip =
     bind_op (if truthy ip then collectUsedGuestIpsForHost x pf env host
              else bind_op (collectUsedVmidsForHost x pf env host) (\<lambda>v. return_op (v, []))) (\<lambda>(vmids, ips).
     case identityConflict vmids ips vmid ip of
       Some VmidTaken \<Rightarrow> throw_op (taken_error (''VMID '' @ int_str vmid))
     | Some IpTaken \<Rightarrow> throw_op (taken_error (''IPv4 '' @ the ip))
     | None \<Rightarrow> return_op ())"

end
