(* ===== verification/InventoryProperties.thy ===== *)
theory InventoryProperties imports Inventory begin

text \<open>
  The choice of the next VMID.
\<close>

lemma free_below_None: "free_below blocked least n = None \<longleftrightarrow> (\<forall>k < n. blocked (least + int k))"
  by (induction n) (auto simp: less_Suc_eq)

lemma free_below_Some:
  "free_below blocked least n = Some i \<Longrightarrow>
     least \<le> i \<and> i < least + int n \<and> \<not> blocked i \<and> (\<forall>j. i < j \<longrightarrow> j < least + int n \<longrightarrow> blocked j)"
proof (induction n)
  case (Suc n)
  show ?case
  proof (cases "blocked (least + int n)")
    case True
    with Suc have "least \<le> i \<and> i < least + int n \<and> \<not> blocked i \<and> (\<forall>j. i < j \<longrightarrow> j < least + int n \<longrightarrow> blocked j)" by simp
    moreover have "blocked j" if "i < j" "j < least + int (Suc n)" for j
      using that calculation True by (cases "j = least + int n") auto
    ultimately show ?thesis by auto
  next
    case False
    with Suc(2) show ?thesis by auto
  qed
qed simp

lemma free_above_Some:
  assumes "\<not> blocked (i + int n)"
  shows "\<exists>j. free_above blocked i = Some j \<and> i \<le> j \<and> \<not> blocked j \<and> (\<forall>k. i \<le> k \<longrightarrow> k < j \<longrightarrow> blocked k)"
  using assms
proof (induction n arbitrary: i)
  case 0
  then show ?case by (subst free_above.simps) auto
next
  case (Suc n)
  show ?case
  proof (cases "blocked i")
    case True
    have "\<not> blocked ((i + 1) + int n)" using Suc(2) by (simp add: algebra_simps)
    from Suc(1) [OF this] obtain j where j: "free_above blocked (i + 1) = Some j" "i + 1 \<le> j" "\<not> blocked j"
      "\<forall>k. i + 1 \<le> k \<longrightarrow> k < j \<longrightarrow> blocked k" by blast
    have "blocked k" if "i \<le> k" "k < j" for k using that j(4) True by (cases "k = i") auto
    then show ?thesis using j True by (subst free_above.simps) auto
  next
    case False
    then show ?thesis by (subst free_above.simps) auto
  qed
qed

lemma uniq_set [simp]: "set (uniq xs) = set xs"
proof -
  have "set (uniq_acc seen xs) = set xs - set seen" for seen :: "'a list"
    by (induction seen xs rule: uniq_acc.induct) auto
  then show ?thesis by (simp add: uniq_def)
qed

lemma foldr_max: "xs \<noteq> [] \<Longrightarrow> foldr max xs (hd xs) = Max (set xs)" for xs :: "int list"
proof -
  have "foldr max ys a = Max (insert a (set ys))" for ys and a :: int
    by (induction ys) (simp_all add: insert_commute max.left_commute)
  then show "xs \<noteq> [] \<Longrightarrow> ?thesis" by (simp add: insert_absorb)
qed

text \<open>
  The next VMID is always found while some VMID above all used ones is acceptable.  It is at
  least the smallest allowed one, unused and acceptable; below the largest used VMID it is the
  largest such choice, and only when there is none it is the smallest one above.
\<close>

theorem next_vmid_free:
  assumes "\<exists>i \<ge> least. (\<forall>u \<in> set used. u < i) \<and> \<not> skip i"
  shows "\<exists>i. nextSmallerVmid used least skip = Some i \<and> least \<le> i \<and> i \<notin> set used \<and> \<not> skip i
    \<and> (\<forall>j. least \<le> j \<and> j \<notin> set used \<and> \<not> skip j \<longrightarrow>
          (if \<exists>u \<in> set used. i < u then j \<le> i \<or> (\<forall>u \<in> set used. u < j) else i \<le> j))"
proof -
  let ?ids = "uniq (filter (\<lambda>n. least \<le> n) used)"
  let ?blocked = "\<lambda>i. i \<in> set ?ids \<or> skip i"
  obtain top' where t: "least \<le> top'" "\<forall>u \<in> set used. u < top'" "\<not> skip top'" using assms by blast
  have blocked: "?blocked j \<longleftrightarrow> j \<in> set used \<or> skip j" if "least \<le> j" for j using that by auto
  have open_top: "\<not> ?blocked top'" using t by auto
  show ?thesis
  proof (cases "?ids = []")
    case True
    then have low: "u < least" if "u \<in> set used" for u
      using that uniq_set [of "filter (\<lambda>n. least \<le> n) used"] by (force simp: filter_empty_conv)
    have "\<not> ?blocked (least + int (nat (top' - least)))" using t open_top by simp
    from free_above_Some [of ?blocked, OF this] obtain i where "free_above ?blocked least = Some i" "least \<le> i" "\<not> ?blocked i"
      "\<forall>k. least \<le> k \<longrightarrow> k < i \<longrightarrow> ?blocked k" by blast
    note i = this
    have "nextSmallerVmid used least skip = Some i" using True i(1) by (simp add: nextSmallerVmid_def Let_def)
    moreover have "\<not> (\<exists>u \<in> set used. i < u)" using low i(2) by force
    moreover have "i \<le> j" if "least \<le> j" "\<not> skip j" for j
    proof (rule ccontr)
      assume "\<not> i \<le> j"
      with that have "?blocked j" by (intro i(4) [rule_format]) simp_all
      then have "j \<in> set used" using that by simp
      from low [OF this] that show False by simp
    qed
    moreover have "i \<notin> set used" using low i(2) by force
    ultimately show ?thesis using i(2,3) by (intro exI [of _ i]) simp
  next
    case False
    define most where "most = Max (set ?ids)"
    have most: "foldr max ?ids (hd ?ids) = most" using foldr_max [OF False] by (simp add: most_def)
    have in_most: "most \<in> set ?ids" unfolding most_def by (rule Max_in) (use False in \<open>simp_all only: set_empty finite_set not_False_eq_True\<close>)
    have up: "u \<le> most" if "u \<in> set used" for u
    proof (cases "least \<le> u")
      case True
      with that have "u \<in> set ?ids" by simp
      then show ?thesis by (simp only: most_def) (intro Max_ge, simp_all)
    next
      case False
      with in_most show ?thesis by simp
    qed
    have above: "(\<forall>u \<in> set used. u < j) \<longleftrightarrow> most < j" for j using up in_most by force
    show ?thesis
    proof (cases "free_below ?blocked least (nat (most - least))")
      case (Some i)
      from free_below_Some [OF this] in_most have i: "least \<le> i" "i < most" "\<not> ?blocked i" "\<And>j. i < j \<Longrightarrow> j < most \<Longrightarrow> ?blocked j"
        by auto
      have "nextSmallerVmid used least skip = Some i" using False most Some by (simp add: nextSmallerVmid_def Let_def)
      moreover have "j \<le> i \<or> most < j" if "least \<le> j" "j \<notin> set used" "\<not> skip j" for j
        using that i(4) [of j] in_most by (cases "j = most") force+
      moreover have "\<exists>u \<in> set used. i < u" using i(2) in_most by auto
      ultimately show ?thesis using i(1,3) blocked above by (intro exI [of _ i]) auto
    next
      case None
      then have full: "?blocked j" if "least \<le> j" "j < most" for j
        using that unfolding free_below_None by (auto dest!: spec [of _ "nat (j - least)"])
      have "most < top'" using above t by blast
      then have "\<not> ?blocked ((most + 1) + int (nat (top' - (most + 1))))" using open_top by simp
      from free_above_Some [of ?blocked, OF this] obtain i where i: "free_above ?blocked (most + 1) = Some i" "most + 1 \<le> i" "\<not> ?blocked i"
        "\<forall>k. most + 1 \<le> k \<longrightarrow> k < i \<longrightarrow> ?blocked k" by blast
      have "nextSmallerVmid used least skip = Some i" using False most None i(1) by (simp add: nextSmallerVmid_def Let_def)
      moreover have "least \<le> i" using i(2) in_most by auto
      moreover have "i \<le> j" if "least \<le> j" "j \<notin> set used" "\<not> skip j" for j
      proof (rule ccontr)
        assume "\<not> i \<le> j"
        have "?blocked j"
        proof (cases "j < most")
          case False
          have "j \<noteq> most" using that in_most by auto
          with False \<open>\<not> i \<le> j\<close> show ?thesis by (intro i(4) [rule_format]) linarith+
        qed (rule full [OF that(1)])
        with blocked [OF that(1)] that show False by blast
      qed
      moreover have "\<not> (\<exists>u \<in> set used. i < u)" using up i(2) by force
      ultimately show ?thesis using blocked i(3) by (intro exI [of _ i]) auto
    qed
  qed
qed

theorem next_vmid_free_witness:
  "nextSmallerVmid [100, 105, 104, 50] MIN_VMID (\<lambda>i. i = 103) = Some 102"
proof -
  have "\<exists>i \<ge> MIN_VMID. (\<forall>u \<in> set [100, 105, 104, 50]. u < i) \<and> \<not> (\<lambda>i. i = 103) i" by (intro exI [of _ 200]) (simp add: MIN_VMID_def)
  from next_vmid_free [OF this] obtain i where "nextSmallerVmid [100, 105, 104, 50] MIN_VMID (\<lambda>i. i = 103) = Some i" by blast
  then show ?thesis by (simp add: nextSmallerVmid_def Let_def uniq_def MIN_VMID_def eval_nat_numeral)
qed

end
