(* ===== verification/GuestDelete.thy ===== *)
theory GuestDelete imports GuestBackups Inventory begin

text \<open>
  Deleting a guest, \<^verbatim>\<open>server/services/guest-delete.ts\<close>: shut down, stop when that does not help,
  delete, and purge the chosen backups.  A client that does not wait calls \<open>startGuestDelete\<close> again
  with the phase it is in.
\<close>

datatype delete_phase = PhaseShutdown | PhaseStop | PhaseDelete

record delete_input =
  diKind :: guest_kind
  diNode :: string
  diVmid :: int
  diBackupVolids :: "string list option"
  diCanDeleteBackups :: bool
  diPhase :: "delete_phase option"

definition shutdown_call :: "guest_kind \<Rightarrow> px_env \<Rightarrow> proxmox_config \<Rightarrow> string \<Rightarrow> int \<Rightarrow> js mesh_op" where
  "shutdown_call kind = (if kind = LXC then lxc_shutdown else vms_shutdown)"

definition stop_call :: "guest_kind \<Rightarrow> px_env \<Rightarrow> proxmox_config \<Rightarrow> string \<Rightarrow> int \<Rightarrow> js mesh_op" where
  "stop_call kind = (if kind = LXC then lxc_stop else vms_stop)"

definition delete_call :: "guest_kind \<Rightarrow> px_env \<Rightarrow> proxmox_config \<Rightarrow> string \<Rightarrow> int \<Rightarrow> bool \<Rightarrow> js mesh_op" where
  "delete_call kind = (if kind = LXC then lxc_delete else vms_delete)"

definition not_permitted :: js_error where
  "not_permitted = ForbiddenError ''You do not have permission to perform this action''"

definition parsedBackups :: "delete_input \<Rightarrow> string list mesh_op" where
  "parsedBackups i =
     (case assertGuestBackupVolids (case diBackupVolids i of None \<Rightarrow> [] | Some v \<Rightarrow> v) (diVmid i) (diKind i) of
        Inl message \<Rightarrow> throw_op (ValidationError message)
      | Inr backups \<Rightarrow> bind_op (guard_op (backups = [] \<or> diCanDeleteBackups i) not_permitted) (\<lambda>_. return_op backups))"

definition delete_backup :: "px_env \<Rightarrow> proxmox_config \<Rightarrow> string \<Rightarrow> string \<Rightarrow> unit mesh_op" where
  "delete_backup x c node volid =
     (let parsed = parseBackupVolid volid in
      bind_op (storage_deleteContent x c node (pbStorage parsed) (pbVolume parsed)) (\<lambda>_. return_op ()))"

text \<open>The purge runs after the response; what it does later is \<open>purge_backups\<close>.\<close>

definition purgeBackupsAfterDelete :: "proxmox_config \<Rightarrow> string \<Rightarrow> js \<Rightarrow> string list \<Rightarrow> unit mesh_op" where
  "purgeBackupsAfterDelete c node deleteUpid backups =
     when_op (backups \<noteq> [])
       (write_op (\<lambda>st. st\<lparr>msWire := (msWire st)\<lparr>wrDeferred := wrDeferred (msWire st) @ [PurgeBackups c node deleteUpid backups]\<rparr>\<rparr>))"

definition purge_backups :: "px_env \<Rightarrow> proxmox_config \<Rightarrow> string \<Rightarrow> js \<Rightarrow> string list \<Rightarrow> unit mesh_op" where
  "purge_backups x c node deleteUpid backups =
     catch_op (bind_op (waitUpid x c node deleteUpid 300000) (\<lambda>_. each_op (delete_backup x c node) backups)) (\<lambda>_. return_op ())"

definition not_stopped :: js_error where
  "not_stopped = ProxmoxApiError (''Gast lie'' @ CHR 0xDF # '' sich nicht herunterfahren'') 504"

definition delete_now :: "px_env \<Rightarrow> proxmox_config \<Rightarrow> delete_input \<Rightarrow> string list \<Rightarrow> (js \<times> delete_phase) mesh_op" where
  "delete_now x c i backups =
     bind_op (delete_call (diKind i) x c (diNode i) (diVmid i) True) (\<lambda>deleteUpid.
     bind_op (purgeBackupsAfterDelete c (diNode i) deleteUpid backups) (\<lambda>_.
     return_op (deleteUpid, PhaseDelete)))"

definition startGuestDelete :: "px_env \<Rightarrow> proxmox_config \<Rightarrow> delete_input \<Rightarrow> (js \<times> delete_phase) mesh_op" where
  "startGuestDelete x c i =
     bind_op (parsedBackups i) (\<lambda>backups.
     let kind = diKind i; node = diNode i; vmid = diVmid i; late = (diPhase i = Some PhaseDelete \<or> diPhase i = Some PhaseStop) in
     bind_op (guestStatus x c kind node vmid) (\<lambda>status.
     if \<not> late \<and> guestNeedsStopForRestore status
     then bind_op (shutdown_call kind x c node vmid) (\<lambda>upid. return_op (upid, PhaseShutdown))
     else bind_op (if late then guestStatus x c kind node vmid else return_op status) (\<lambda>current.
       if guestNeedsStopForRestore current
       then (if diPhase i \<noteq> Some PhaseStop
             then bind_op (stop_call kind x c node vmid) (\<lambda>upid. return_op (upid, PhaseStop))
             else bind_op (waitUntilGuestStopped x c kind node vmid 45000 1500) (\<lambda>stopped.
                  bind_op (guard_op stopped not_stopped) (\<lambda>_. delete_now x c i backups)))
       else delete_now x c i backups)))"

text \<open>A request with the wait for its task, whose errors are ignored.\<close>

definition try_task :: "px_env \<Rightarrow> proxmox_config \<Rightarrow> string \<Rightarrow> js mesh_op \<Rightarrow> unit mesh_op" where
  "try_task x c node m = catch_op (bind_op m (\<lambda>upid. waitUpid x c node upid 120000)) (\<lambda>_. return_op ())"

definition shutdown_guest :: "px_env \<Rightarrow> proxmox_config \<Rightarrow> guest_kind \<Rightarrow> string \<Rightarrow> int \<Rightarrow> unit mesh_op" where
  "shutdown_guest x c kind node vmid =
     bind_op (try_task x c node (shutdown_call kind x c node vmid)) (\<lambda>_.
     bind_op (waitUntilGuestStopped x c kind node vmid 60000 1500) (\<lambda>stopped.
     bind_op (if stopped then return_op True
              else bind_op (try_task x c node (stop_call kind x c node vmid)) (\<lambda>_.
                   waitUntilGuestStopped x c kind node vmid 45000 1500)) (\<lambda>stopped.
     guard_op stopped not_stopped)))"

definition shutdownThenDeleteGuest :: "px_env \<Rightarrow> proxmox_config \<Rightarrow> delete_input \<Rightarrow> js mesh_op" where
  "shutdownThenDeleteGuest x c i =
     bind_op (parsedBackups i) (\<lambda>backups.
     let kind = diKind i; node = diNode i; vmid = diVmid i in
     bind_op (guestStatus x c kind node vmid) (\<lambda>status.
     bind_op (when_op (guestNeedsStopForRestore status) (shutdown_guest x c kind node vmid)) (\<lambda>_.
     bind_op (delete_call kind x c node vmid True) (\<lambda>deleteUpid.
     bind_op (waitUpid x c node deleteUpid 300000) (\<lambda>_.
     bind_op (each_op (delete_backup x c node) backups) (\<lambda>_.
     return_op deleteUpid))))))"

end
