(* ===== verification/GuestActions.thy ===== *)
theory GuestActions imports GuestDelete begin

text \<open>
  The routes that act on one guest: \<^verbatim>\<open>app/api/hosts/[id]/vms/[node]/[vmid]/route.ts\<close> and its
  counterpart for containers, with \<^verbatim>\<open>lib/guest-migrate.ts\<close>, \<^verbatim>\<open>lib/proxmox-disk.ts\<close>'s test of
  disk names and the notices of \<^verbatim>\<open>server/notifications/guest-task-fail.ts\<close>.  \<open>vmid\<close> is the integer
  the address names.  Variables that the error path reads are in \<open>wrVars\<close>.
\<close>

section \<open>Migration, disks, names\<close>

record node_online =
  noNode :: string
  noOnline :: "string option"

definition migrateTargetNodes :: "node_online list \<Rightarrow> string \<Rightarrow> string list" where
  "migrateTargetNodes nodes current =
     map noNode (filter (\<lambda>n. noNode n \<noteq> [] \<and> noNode n \<noteq> trim current \<and> noOnline n \<noteq> Some ''offline'' \<and> noOnline n \<noteq> Some ''unknown'') nodes)"

definition hostAllowsMigrate :: "bool option \<Rightarrow> node_online list option \<Rightarrow> string \<Rightarrow> bool" where
  "hostAllowsMigrate isClusterMember nodes current \<longleftrightarrow>
     isClusterMember = Some True \<and> migrateTargetNodes (case nodes of None \<Rightarrow> [] | Some ns \<Rightarrow> ns) current \<noteq> []"

definition migrateTargetAllowed :: "node_online list \<Rightarrow> string \<Rightarrow> string \<Rightarrow> bool" where
  "migrateTargetAllowed nodes current target =
     (let dest = trim target in
      if dest = [] \<or> dest = trim current then False else dest \<in> set (migrateTargetNodes nodes current))"

definition inventoryNodesForMigrate :: "px_resource list \<Rightarrow> node_online list" where
  "inventoryNodesForMigrate nodes =
     filter (\<lambda>n. noNode n \<noteq> [])
       (map (\<lambda>r. \<lparr>noNode = trim (case rsNode r of None \<Rightarrow> [] | Some n \<Rightarrow> n),
                  noOnline = Some (case rsStatus r of None \<Rightarrow> ''online'' | Some s \<Rightarrow> s)\<rparr>) nodes)"

definition js_bit :: "bool \<Rightarrow> js" where
  "js_bit b = JNum (Fin (if b then 1 else 0))"

definition qemuMigrateParams :: "string \<Rightarrow> bool \<Rightarrow> js_record" where
  "qemuMigrateParams target running = [(''target'', JStr target), (''online'', js_bit running), (''with-local-disks'', js_bit True)]"

definition lxcMigrateParams :: "string \<Rightarrow> bool \<Rightarrow> js_record" where
  "lxcMigrateParams target running = [(''target'', JStr target), (''restart'', js_bit running)]"

definition guestIsRunning :: "string \<Rightarrow> bool" where
  "guestIsRunning status \<longleftrightarrow> status = ''running'' \<or> status = ''paused''"

definition isResizeDiskKey :: "string \<Rightarrow> bool" where
  "isResizeDiskKey key \<longleftrightarrow>
     key = ''rootfs''
     \<or> list_ex (\<lambda>p. starts_with key p \<and> all_digits (drop (length p) key)) [''scsi'', ''sata'', ''virtio'', ''ide'', ''unused'', ''mp'']"

definition pickGuestName :: "js \<Rightarrow> string option" where
  "pickGuestName record =
     (if \<not> js_truthy record then None
      else (let name = trim (js_string (js_or (js_or (js_field record ''name'') (js_field record ''hostname'')) (JStr []))) in
            if name = [] then None else Some name))"

definition lookupGuestName :: "px_env \<Rightarrow> proxmox_config \<Rightarrow> string \<Rightarrow> jsnum \<Rightarrow> string option mesh_op" where
  "lookupGuestName x c node vmid =
     (if \<not> isFiniteNum vmid \<or> \<not> num_greater vmid 0 \<or> node = [] then return_op None
      else bind_op (or_null (vms_status x c node (num_int vmid))) (\<lambda>qemu.
           case pickGuestName qemu of Some n \<Rightarrow> return_op (Some n)
           | None \<Rightarrow> bind_op (or_null (lxc_status x c node (num_int vmid))) (\<lambda>ct. return_op (pickGuestName ct))))"

section \<open>Requests\<close>

record guest_action =
  acAction :: string
  acConfirm :: "bool option"
  acConfirmId :: "int option"
  acNewid :: "int option"
  acName :: "string option"
  acTarget :: "string option"
  acSnapname :: "string option"
  acDescription :: "string option"
  acConfig :: "js_record option"
  acDisk :: "string option"
  acSize :: "string option"
  acBackupVolids :: "string list option"
  acWait :: "bool option"
  acPhase :: "delete_phase option"
  acKey :: "string option"

definition VM_ACTIONS :: "string list" where
  "VM_ACTIONS = [''start'', ''stop'', ''shutdown'', ''reboot'', ''reset'', ''pause'', ''resume'', ''delete'', ''clone'', ''migrate'',
     ''snapshot'', ''snapshot-delete'', ''snapshot-rollback'', ''config'', ''resize'', ''sendkey'', ''nudge-cd-boot'']"

definition LXC_ACTIONS :: "string list" where
  "LXC_ACTIONS = [''start'', ''stop'', ''shutdown'', ''reboot'', ''delete'', ''clone'', ''migrate'',
     ''snapshot'', ''snapshot-delete'', ''snapshot-rollback'', ''config'', ''resize'']"

definition positive_opt :: "int option \<Rightarrow> bool" where
  "positive_opt n = (case n of None \<Rightarrow> True | Some i \<Rightarrow> 0 < i)"

text \<open>\<open>actionSchema\<close>; a container's body has no key.\<close>

definition actionSchema :: "string list \<Rightarrow> guest_action \<Rightarrow> bool" where
  "actionSchema actions b \<longleftrightarrow>
     acAction b \<in> set actions \<and> positive_opt (acConfirmId b) \<and> positive_opt (acNewid b)
     \<and> (case acBackupVolids b of None \<Rightarrow> True | Some vs \<Rightarrow> list_all (\<lambda>v. v \<noteq> []) vs \<and> length vs \<le> 50)
     \<and> opt_len 1 32 (acKey b)"

definition VM_ACTION_AUDIT :: "string \<Rightarrow> string" where
  "VM_ACTION_AUDIT action =
     the (map_of [(''start'', ''VM_STARTED''), (''stop'', ''VM_STOPPED''), (''shutdown'', ''VM_SHUTDOWN''), (''reboot'', ''VM_REBOOT''),
       (''reset'', ''VM_RESET''), (''pause'', ''VM_PAUSED''), (''resume'', ''VM_RESUMED''), (''delete'', ''VM_DELETED''),
       (''clone'', ''VM_CLONED''), (''migrate'', ''VM_MIGRATED''), (''snapshot'', ''VM_SNAPSHOT_CREATED''),
       (''snapshot-delete'', ''VM_SNAPSHOT_DELETED''), (''snapshot-rollback'', ''VM_SNAPSHOT_RESTORED''),
       (''config'', ''VM_CONFIG_UPDATED''), (''resize'', ''VM_DISK_RESIZED'')] action)"

definition LXC_ACTION_AUDIT :: "string \<Rightarrow> string" where
  "LXC_ACTION_AUDIT action =
     the (map_of [(''start'', ''LXC_STARTED''), (''stop'', ''LXC_STOPPED''), (''shutdown'', ''LXC_SHUTDOWN''), (''reboot'', ''LXC_REBOOT''),
       (''delete'', ''LXC_DELETED''), (''clone'', ''LXC_CLONED''), (''migrate'', ''LXC_MIGRATED''), (''snapshot'', ''LXC_SNAPSHOT_CREATED''),
       (''snapshot-delete'', ''LXC_SNAPSHOT_DELETED''), (''snapshot-rollback'', ''LXC_SNAPSHOT_RESTORED''),
       (''config'', ''LXC_CONFIG_UPDATED''), (''resize'', ''LXC_DISK_RESIZED'')] action)"

section \<open>What a handler notes\<close>

definition change_wire :: "(wire \<Rightarrow> wire) \<Rightarrow> unit mesh_op" where
  "change_wire f = write_op (\<lambda>st. st\<lparr>msWire := f (msWire st)\<rparr>)"

definition set_var :: "string \<Rightarrow> js \<Rightarrow> unit mesh_op" where
  "set_var k v = change_wire (\<lambda>w. w\<lparr>wrVars := AList.update k v (wrVars w)\<rparr>)"

definition get_var :: "string \<Rightarrow> mesh \<Rightarrow> js" where
  "get_var k st = get_prop (wrVars (msWire st)) k"

definition js_str_of :: "js \<Rightarrow> string option" where
  "js_str_of v = (case v of JStr s \<Rightarrow> Some s | _ \<Rightarrow> None)"

definition notice_op :: "string \<Rightarrow> string \<Rightarrow> string \<Rightarrow> unit mesh_op" where
  "notice_op topic level name = write_op (notify_topic topic level name)"

text \<open>\<open>writeAuditLog\<close> with a host swallows the error of an insert that names no host.\<close>

definition audit_guest :: "session_user \<Rightarrow> string \<Rightarrow> string \<Rightarrow> string \<Rightarrow> unit mesh_op" where
  "audit_guest user hostId action target =
     write_op (\<lambda>st. if hostId \<notin> set (hostIds (msServer st)) then st
       else st\<lparr>msServer := writeAuditLog
         \<lparr>auUserId = Some (suId user), auAction = action, auTarget = Some target, auSuccess = True\<rparr> (msServer st)\<rparr>)"

text \<open>The last 400 of more than 800 identifiers stay.\<close>

definition remember_upid :: "string \<Rightarrow> string list \<Rightarrow> string list" where
  "remember_upid upid seen =
     (let s = (if upid \<in> set seen then seen else seen @ [upid]) in if length s \<le> 800 then s else drop (length s - 400) s)"

definition rememberNotifiedUpid :: "string \<Rightarrow> unit mesh_op" where
  "rememberNotifiedUpid upid =
     when_op (upid \<noteq> []) (change_wire (\<lambda>w. w\<lparr>wrSeenUpids := remember_upid upid (wrSeenUpids w)\<rparr>))"

definition GUEST_TASK_NOTIFY_ACTIONS :: "string list" where
  "GUEST_TASK_NOTIFY_ACTIONS =
     [''start'', ''stop'', ''shutdown'', ''reboot'', ''reset'', ''pause'', ''resume'', ''snapshot'', ''snapshot-delete'', ''snapshot-rollback'']"

definition guest_label :: "guest_kind \<Rightarrow> int \<Rightarrow> string" where
  "guest_label kind vmid = (if kind = VM then ''VM '' else ''LXC '') @ int_str vmid"

definition notifyGuestTaskFailed :: "guest_kind \<Rightarrow> string \<Rightarrow> int \<Rightarrow> string option \<Rightarrow> js \<Rightarrow> unit mesh_op" where
  "notifyGuestTaskFailed kind action vmid name upid =
     when_op (action \<in> set GUEST_TASK_NOTIFY_ACTIONS)
       (bind_op (case upid of JStr u \<Rightarrow> rememberNotifiedUpid u | _ \<Rightarrow> return_op ()) (\<lambda>_.
        notice_op ''task.failed'' ''error'' (case name of None \<Rightarrow> guest_label kind vmid | Some n \<Rightarrow> n)))"

definition scheduleVmCdBootNudge :: "proxmox_config \<Rightarrow> string \<Rightarrow> int \<Rightarrow> unit mesh_op" where
  "scheduleVmCdBootNudge c node vmid = change_wire (\<lambda>w. w\<lparr>wrDeferred := wrDeferred w @ [NudgeKeys c node vmid]\<rparr>)"

definition cdBootNudgePlan :: "nat \<Rightarrow> int \<Rightarrow> int \<Rightarrow> (string \<times> int) list" where
  "cdBootNudgePlan rounds firstDelayMs roundDelayMs =
     map (\<lambda>i. (''spc'', if i = 0 then firstDelayMs else roundDelayMs)) [0..<rounds]"

text \<open>What the scheduled presses do: a failed press does not end the plan.\<close>

definition nudge_keys :: "px_env \<Rightarrow> proxmox_config \<Rightarrow> string \<Rightarrow> int \<Rightarrow> unit mesh_op" where
  "nudge_keys x c node vmid =
     each_op (\<lambda>(key, delayMs). bind_op (write_op (pause delayMs)) (\<lambda>_.
         catch_op (bind_op (vms_sendkey x c node vmid key) (\<lambda>_. return_op ())) (\<lambda>_. return_op ())))
       (cdBootNudgePlan 18 6000 2000)"

section \<open>Acting on a guest\<close>

definition guest_ref_of :: "string \<Rightarrow> guest_kind \<Rightarrow> int \<Rightarrow> guest_ref" where
  "guest_ref_of hostId kind vmid = \<lparr>refHostId = hostId, refKind = kind, refVmid = vmid\<rparr>"

definition opt_str :: "string option \<Rightarrow> string" where
  "opt_str s = (case s of None \<Rightarrow> [] | Some t \<Rightarrow> t)"

definition delete_of :: "guest_kind \<Rightarrow> session_user \<Rightarrow> string \<Rightarrow> string \<Rightarrow> int \<Rightarrow> guest_action \<Rightarrow> delete_input" where
  "delete_of kind user hostId node vmid b =
     \<lparr>diKind = kind, diNode = node, diVmid = vmid, diBackupVolids = acBackupVolids b,
      diCanDeleteBackups = userHasPermission (Some (holder_of user)) ''backup.delete'' (Some hostId) None, diPhase = acPhase b\<rparr>"

definition phase_str :: "delete_phase \<Rightarrow> string" where
  "phase_str p = (case p of PhaseShutdown \<Rightarrow> ''shutdown'' | PhaseStop \<Rightarrow> ''stop'' | PhaseDelete \<Rightarrow> ''delete'')"

definition delete_guest :: "px_env \<Rightarrow> proxmox_config \<Rightarrow> guest_kind \<Rightarrow> session_user \<Rightarrow> string \<Rightarrow> string \<Rightarrow> int \<Rightarrow> guest_action \<Rightarrow> js mesh_op" where
  "delete_guest x c kind user hostId node vmid b =
     (let i = delete_of kind user hostId node vmid b in
      if acWait b = Some False
      then bind_op (startGuestDelete x c i) (\<lambda>(upid, phase).
           bind_op (set_var ''deletePhase'' (JStr (phase_str phase))) (\<lambda>_. return_op upid))
      else shutdownThenDeleteGuest x c i)"

text \<open>The target of a migration after its checks.\<close>

definition migrate_target :: "px_env \<Rightarrow> proxmox_config \<Rightarrow> string \<Rightarrow> string \<Rightarrow> guest_action \<Rightarrow> string mesh_op" where
  "migrate_target x c hostId node b =
     (let target = trim (opt_str (acTarget b)) in
      bind_op (guard_op (target \<noteq> []) (ValidationError ''Ziel-Node fehlt'')) (\<lambda>_.
      bind_op (guard_op (target \<noteq> node) (ValidationError ''Ziel-Node ist der aktuelle Node'')) (\<lambda>_.
      bind_op (loadHostInventory x c hostId) (\<lambda>found.
      bind_op (guard_op (migrateTargetAllowed (inventoryNodesForMigrate (inNodes found)) node target)
        (ValidationError ''Migration braucht ein Cluster mit einem anderen Online-Node'')) (\<lambda>_.
      return_op target)))))"

definition live_status :: "js \<Rightarrow> string" where
  "live_status live = str_or (js_field live ''status'') []"

definition resize_args :: "guest_action \<Rightarrow> (string \<times> string) mesh_op" where
  "resize_args b =
     (let disk = trim (opt_str (acDisk b)); size' = trim (opt_str (acSize b)) in
      bind_op (guard_op (isResizeDiskKey disk \<and> size' \<noteq> []) (ValidationError (''Disk und Gr'' @ CHR 0xF6 # CHR 0xDF # ''e fehlen''))) (\<lambda>_.
      return_op (disk, size')))"

definition newid_js :: "guest_action \<Rightarrow> js" where
  "newid_js b = (case acNewid b of None \<Rightarrow> JUndef | Some i \<Rightarrow> JNum (of_int_num i))"

definition check_newid :: "px_env \<Rightarrow> platform \<Rightarrow> host_env \<Rightarrow> host_row \<Rightarrow> guest_action \<Rightarrow> unit mesh_op" where
  "check_newid x pf env host b =
     (case acNewid b of None \<Rightarrow> return_op () | Some i \<Rightarrow> assertGuestIdentityFree x pf env host i None)"

definition snap_name :: "guest_action \<Rightarrow> string mesh_op" where
  "snap_name b = read_op (\<lambda>st. case acSnapname b of Some s \<Rightarrow> s | None \<Rightarrow> ''snap-'' @ int_str (wire_now st))"

text \<open>The switch over the actions that end in a task.\<close>

definition vm_switch :: "px_env \<Rightarrow> platform \<Rightarrow> host_env \<Rightarrow> session_user \<Rightarrow> proxmox_config \<Rightarrow> host_row \<Rightarrow> string \<Rightarrow> string \<Rightarrow> int \<Rightarrow> guest_action \<Rightarrow> js mesh_op" where
  "vm_switch x pf env user c host hostId node vmid b =
     (let a = acAction b in
      if a = ''start'' then vms_start x c node vmid
      else if a = ''stop'' then vms_stop x c node vmid
      else if a = ''shutdown'' then vms_shutdown x c node vmid
      else if a = ''reboot'' then vms_reboot x c node vmid
      else if a = ''reset'' then vms_reset x c node vmid
      else if a = ''pause'' then vms_suspend x c node vmid
      else if a = ''resume'' then vms_resume x c node vmid
      else if a = ''delete'' then delete_guest x c VM user hostId node vmid b
      else if a = ''clone'' then bind_op (check_newid x pf env host b) (\<lambda>_.
        vms_clone x c node vmid [(''newid'', newid_js b), (''name'', opt_js_str (acName b)), (''full'', js_bit True)])
      else if a = ''migrate'' then bind_op (migrate_target x c hostId node b) (\<lambda>target.
        bind_op (or_null (vms_status x c node vmid)) (\<lambda>live.
        vms_migrate x c node vmid (qemuMigrateParams target (guestIsRunning (live_status live)))))
      else if a = ''snapshot'' then bind_op (snap_name b) (\<lambda>name. vms_createSnapshot x c node vmid name (acDescription b))
      else if a = ''snapshot-delete'' then vms_deleteSnapshot x c node vmid (opt_str (acSnapname b))
      else if a = ''snapshot-rollback'' then vms_rollbackSnapshot x c node vmid (opt_str (acSnapname b))
      else if a = ''config'' then vms_updateConfig x c node vmid (case acConfig b of None \<Rightarrow> [] | Some r \<Rightarrow> r)
      else if a = ''resize'' then bind_op (resize_args b) (\<lambda>(disk, size'). vms_resize x c node vmid disk size')
      else return_op JNull)"

definition lxc_switch :: "px_env \<Rightarrow> platform \<Rightarrow> host_env \<Rightarrow> session_user \<Rightarrow> proxmox_config \<Rightarrow> host_row \<Rightarrow> string \<Rightarrow> string \<Rightarrow> int \<Rightarrow> guest_action \<Rightarrow> js mesh_op" where
  "lxc_switch x pf env user c host hostId node vmid b =
     (let a = acAction b in
      if a = ''start'' then lxc_start x c node vmid
      else if a = ''stop'' then lxc_stop x c node vmid
      else if a = ''shutdown'' then lxc_shutdown x c node vmid
      else if a = ''reboot'' then lxc_reboot x c node vmid
      else if a = ''delete'' then delete_guest x c LXC user hostId node vmid b
      else if a = ''clone'' then bind_op (check_newid x pf env host b) (\<lambda>_.
        lxc_clone x c node vmid [(''newid'', newid_js b), (''hostname'', opt_js_str (acName b))])
      else if a = ''migrate'' then bind_op (migrate_target x c hostId node b) (\<lambda>target.
        bind_op (or_null (lxc_status x c node vmid)) (\<lambda>live.
        lxc_migrate x c node vmid (lxcMigrateParams target (guestIsRunning (live_status live)))))
      else if a = ''snapshot'' then bind_op (snap_name b) (\<lambda>name. lxc_createSnapshot x c node vmid name (acDescription b))
      else if a = ''snapshot-delete'' then lxc_deleteSnapshot x c node vmid (opt_str (acSnapname b))
      else if a = ''snapshot-rollback'' then lxc_rollbackSnapshot x c node vmid (opt_str (acSnapname b))
      else if a = ''config'' then lxc_updateConfig x c node vmid (case acConfig b of None \<Rightarrow> [] | Some r \<Rightarrow> r)
      else if a = ''resize'' then bind_op (resize_args b) (\<lambda>(disk, size'). lxc_resize x c node vmid disk size')
      else return_op JNull)"

text \<open>The function given to \<open>withHostClient\<close>.\<close>

definition name_before_delete :: "px_env \<Rightarrow> proxmox_config \<Rightarrow> guest_kind \<Rightarrow> string \<Rightarrow> int \<Rightarrow> guest_action \<Rightarrow> unit mesh_op" where
  "name_before_delete x c kind node vmid b =
     when_op (acAction b = ''delete'') (bind_op (or_null (status_call kind x c node vmid)) (\<lambda>status.
       set_var ''guestName'' (opt_js_str (pickGuestName status))))"

definition finish_task :: "px_env \<Rightarrow> proxmox_config \<Rightarrow> string \<Rightarrow> guest_action \<Rightarrow> js \<Rightarrow> js mesh_op" where
  "finish_task x c node b result =
     bind_op (set_var ''taskUpid'' result) (\<lambda>_.
     bind_op (when_op (acWait b \<noteq> Some False) (bind_op (waitGuestAction x c node result (acAction b)) (\<lambda>_. return_op ()))) (\<lambda>_.
     return_op result))"

definition vm_run :: "px_env \<Rightarrow> platform \<Rightarrow> host_env \<Rightarrow> session_user \<Rightarrow> string \<Rightarrow> string \<Rightarrow> int \<Rightarrow> guest_action \<Rightarrow> proxmox_config \<Rightarrow> host_row \<Rightarrow> js mesh_op" where
  "vm_run x pf env user hostId node vmid b c host =
     bind_op (name_before_delete x c VM node vmid b) (\<lambda>_.
     if acAction b = ''sendkey''
     then bind_op (vms_sendkey x c node vmid (let k = trim (opt_str (acKey b)) in if k = [] then ''spc'' else k)) (\<lambda>_.
          return_op (JObj [(''ok'', JBool True)]))
     else if acAction b = ''nudge-cd-boot''
     then bind_op (scheduleVmCdBootNudge c node vmid) (\<lambda>_. return_op (JObj [(''ok'', JBool True), (''scheduled'', JBool True)]))
     else bind_op (vm_switch x pf env user c host hostId node vmid b) (finish_task x c node b))"

definition lxc_run :: "px_env \<Rightarrow> platform \<Rightarrow> host_env \<Rightarrow> session_user \<Rightarrow> string \<Rightarrow> string \<Rightarrow> int \<Rightarrow> guest_action \<Rightarrow> proxmox_config \<Rightarrow> host_row \<Rightarrow> js mesh_op" where
  "lxc_run x pf env user hostId node vmid b c host =
     bind_op (name_before_delete x c LXC node vmid b) (\<lambda>_.
     bind_op (lxc_switch x pf env user c host hostId node vmid b) (finish_task x c node b))"

text \<open>The \<open>catch\<close> around it.\<close>

definition action_failed :: "guest_kind \<Rightarrow> int \<Rightarrow> guest_action \<Rightarrow> js_error \<Rightarrow> 'a mesh_op" where
  "action_failed kind vmid b e =
     bind_op (read_op (\<lambda>st. (js_str_of (get_var ''guestName'' st), get_var ''taskUpid'' st))) (\<lambda>(name, upid).
     bind_op (notifyGuestTaskFailed kind (acAction b) vmid name upid) (\<lambda>_.
     bind_op (when_op (acAction b = ''delete'') (notice_op (kind_str kind @ ''.deleted'') ''error'' (opt_str name))) (\<lambda>_.
     throw_op e)))"

definition clear_vars :: "unit mesh_op" where
  "clear_vars = change_wire (\<lambda>w. w\<lparr>wrVars := []\<rparr>)"

record action_reply =
  arUpid :: js
  arPhase :: js

text \<open>What follows the action: the cache, the audit row and the notice.\<close>

definition after_action :: "guest_kind \<Rightarrow> session_user \<Rightarrow> string \<Rightarrow> int \<Rightarrow> guest_action \<Rightarrow> string \<Rightarrow> bool \<Rightarrow> unit mesh_op" where
  "after_action kind user hostId vmid b audit quiet =
     bind_op (when_op (\<not> quiet) (write_op (invalidateInventoryCache hostId))) (\<lambda>_.
     bind_op (read_op (get_var ''deletePhase'')) (\<lambda>phase.
     bind_op (when_op (\<not> quiet \<and> \<not> (acAction b = ''delete'' \<and> acWait b = Some False \<and> js_truthy phase \<and> phase \<noteq> JStr ''delete''))
       (audit_guest user hostId audit (guest_label kind vmid))) (\<lambda>_.
     bind_op (read_op (get_var ''guestName'')) (\<lambda>name.
     when_op (acAction b = ''delete'' \<and> acWait b \<noteq> Some False)
       (notice_op (kind_str kind @ ''.deleted'') ''warning'' (opt_str (js_str_of name)))))))"

text \<open>The checks before any request.\<close>

definition action_gate :: "guest_kind \<Rightarrow> string list \<Rightarrow> string list \<Rightarrow> session_user \<Rightarrow> string \<Rightarrow> int \<Rightarrow> guest_action \<Rightarrow> unit mesh_op" where
  "action_gate kind actions confirmed user hostId vmid b =
     bind_op (guard_op (actionSchema actions b) (ZodError [])) (\<lambda>_.
     bind_op (guard_op (userHasPermission (Some (holder_of user)) (permissionForGuestAction kind (acAction b)) (Some hostId)
         (Some (guest_ref_of hostId kind vmid))) not_permitted) (\<lambda>_.
     bind_op (guard_op (\<not> (acAction b \<in> set confirmed \<and> acConfirm b \<noteq> Some True)) (ValidationError ''Confirmation required'')) (\<lambda>_.
     bind_op (guard_op (\<not> (acAction b = ''delete'' \<and> acConfirmId b \<noteq> Some vmid)) (ValidationError ''VMID confirmation does not match'')) (\<lambda>_.
     lift_op (assertGuestAccess user hostId kind vmid)))))"

definition vm_POST :: "px_env \<Rightarrow> platform \<Rightarrow> host_env \<Rightarrow> session_user \<Rightarrow> string \<Rightarrow> string \<Rightarrow> int \<Rightarrow> guest_action \<Rightarrow> action_reply mesh_op" where
  "vm_POST x pf env user hostId node vmid b =
     bind_op (action_gate VM VM_ACTIONS [''delete'', ''reset''] user hostId vmid b) (\<lambda>_.
     bind_op clear_vars (\<lambda>_.
     bind_op (catch_op (withHostClient pf env hostId user (vm_run x pf env user hostId node vmid b)) (action_failed VM vmid b)) (\<lambda>upid.
     bind_op (after_action VM user hostId vmid b (VM_ACTION_AUDIT (acAction b)) (acAction b \<in> {''sendkey'', ''nudge-cd-boot''})) (\<lambda>_.
     read_op (\<lambda>st. \<lparr>arUpid = upid, arPhase = get_var ''deletePhase'' st\<rparr>)))))"

definition lxc_POST :: "px_env \<Rightarrow> platform \<Rightarrow> host_env \<Rightarrow> session_user \<Rightarrow> string \<Rightarrow> string \<Rightarrow> int \<Rightarrow> guest_action \<Rightarrow> action_reply mesh_op" where
  "lxc_POST x pf env user hostId node vmid b =
     bind_op (action_gate LXC LXC_ACTIONS [''delete''] user hostId vmid b) (\<lambda>_.
     bind_op clear_vars (\<lambda>_.
     bind_op (catch_op (withHostClient pf env hostId user (lxc_run x pf env user hostId node vmid b)) (action_failed LXC vmid b)) (\<lambda>upid.
     bind_op (after_action LXC user hostId vmid b (LXC_ACTION_AUDIT (acAction b)) False) (\<lambda>_.
     read_op (\<lambda>st. \<lparr>arUpid = upid, arPhase = get_var ''deletePhase'' st\<rparr>)))))"

end
