(* ===== verification/Footprint.thy ===== *)
theory Footprint imports GuestActions begin

text \<open>
  Which requests an operation sends: \<open>sent_only P base\<close> says that beyond \<open>base\<close> only calls with
  \<open>P\<close> were sent.  Operations on the database and the caches send nothing; a request sends itself.
\<close>

definition sent_only :: "(px_call \<Rightarrow> bool) \<Rightarrow> px_call list \<Rightarrow> mesh \<Rightarrow> bool" where
  "sent_only P base st \<longleftrightarrow> (\<exists>cs. sent_calls st = base @ cs \<and> list_all P cs)"

named_theorems silent \<open>state changes that send nothing\<close>

lemma sent_only_self: "sent_only P (sent_calls st) st"
  by (simp add: sent_only_def)

lemma sent_only_cong: "sent_calls st' = sent_calls st \<Longrightarrow> sent_only P base st' = sent_only P base st"
  by (simp add: sent_only_def)

lemma sent_only_mono: "sent_only P base st \<Longrightarrow> (\<And>c. P c \<Longrightarrow> Q c) \<Longrightarrow> sent_only Q base st"
  by (auto simp: sent_only_def list_all_iff)

lemma preserves_quiet_write: "(\<And>st. sent_calls (f st) = sent_calls st) \<Longrightarrow> preserves (sent_only P base) (write_op f)"
  by (rule preserves_write) (simp add: sent_only_def)

lemma preserves_px_sent [preserve_intros]:
  assumes "P call"
  shows "preserves (sent_only P base) (px_request x call)"
proof (rule preserves_px_request)
  fix st ms assume "sent_only P base st"
  then obtain cs where "sent_calls st = base @ cs" "list_all P cs" by (auto simp: sent_only_def)
  then show "sent_only P base (sent_after call ms st)"
    using assms by (intro sent_only_def [THEN iffD2] exI [of _ "cs @ [call]"]) (simp add: sent_calls_def sent_after_def)
qed

lemma silent_updates [silent]:
  "sent_calls (update_hosts Q f st) = sent_calls st" "sent_calls (notify_topic t l n st) = sent_calls st"
  "sent_calls (notifyHostState h s st) = sent_calls st" "sent_calls (st\<lparr>msKicks := nk\<rparr>) = sent_calls st"
  "sent_calls (st\<lparr>msClients := cl\<rparr>) = sent_calls st" "sent_calls (st\<lparr>msServer := srv\<rparr>) = sent_calls st"
  "sent_calls (invalidateInventoryCache hid st) = sent_calls st" "sent_calls (remember_inventory k i st) = sent_calls st"
  "sent_calls (rememberGuestIpCache c kd nd v ips st) = sent_calls st" "sent_calls (pause ms st) = sent_calls st"
  by (simp_all add: sent_calls_def update_hosts_def notify_topic_def notifyHostState_def invalidateInventoryCache_def
      remember_inventory_def rememberGuestIpCache_def pause_def split: option.split)

lemma silent_wire [silent]:
  "sent_calls (st\<lparr>msWire := (msWire st)\<lparr>wrVars := v\<rparr>\<rparr>) = sent_calls st"
  "sent_calls (st\<lparr>msWire := (msWire st)\<lparr>wrDeferred := d\<rparr>\<rparr>) = sent_calls st"
  "sent_calls (st\<lparr>msWire := (msWire st)\<lparr>wrSeenUpids := u\<rparr>\<rparr>) = sent_calls st"
  by (simp_all add: sent_calls_def)

lemma preserves_silent_op: "(\<And>st. sent_calls (snd (m st)) = sent_calls st) \<Longrightarrow> preserves (sent_only P base) m"
  by (simp add: preserves_def sent_only_def)

section \<open>Hosts and clients\<close>

lemma quiet_get_host [preserve_intros]: "preserves (sent_only P base) (get_host_or_throw hid u)"
  unfolding get_host_or_throw_def by (intro preserve_intros)

lemma quiet_update_host [preserve_intros]: "preserves (sent_only P base) (update_host_row hid f)"
  by (rule preserves_silent_op) (simp add: update_host_row_hosts silent)

lemma quiet_client [preserve_intros]: "preserves (sent_only P base) (clientForHost pf h)"
proof -
  have "preserves (sent_only P base) (client_cache_get h mk)" for mk
    by (rule preserves_silent_op) (simp add: client_cache_get_def Let_def silent split: option.split sum.split prod.split)
  then show ?thesis unfolding clientForHost_def by (intro preserve_intros)
qed

lemma quiet_absorb [preserve_intros]: "preserves (sent_only P base) (absorbPeerUpdateOutage now hid)"
  unfolding absorbPeerUpdateOutage_def by (intro preserve_intros)

lemma quiet_notices [preserve_intros]:
  "preserves (sent_only P base) (write_op (notifyHostState h s))"
  "preserves (sent_only P base) (write_op (\<lambda>st. st\<lparr>msKicks := Suc (msKicks st)\<rparr>))"
  "preserves (sent_only P base) (notice_op t l n)"
  "preserves (sent_only P base) (write_op (invalidateInventoryCache hid))"
  "preserves (sent_only P base) (write_op (remember_inventory k i))"
  "preserves (sent_only P base) (write_op (rememberGuestIpCache c kd nd v ips))"
  "preserves (sent_only P base) (write_op (pause ms))"
  "preserves (sent_only P base) (set_var k jv)"
  "preserves (sent_only P base) clear_vars"
  "preserves (sent_only P base) (rememberNotifiedUpid us)"
  "preserves (sent_only P base) (scheduleVmCdBootNudge c nd v)"
  "preserves (sent_only P base) (purgeBackupsAfterDelete c nd up bs)"
  "preserves (sent_only P base) (audit_guest user hid a t)"
  unfolding notice_op_def set_var_def clear_vars_def rememberNotifiedUpid_def scheduleVmCdBootNudge_def
    purgeBackupsAfterDelete_def audit_guest_def change_wire_def
  by (intro preserves_when preserves_quiet_write; simp add: silent)+

lemma quiet_host_failed [preserve_intros]: "preserves (sent_only P base) (host_failed env h e)"
  unfolding host_failed_def by (intro preserve_intros)

lemma sent_withHostClient:
  "(\<And>c h. preserves (sent_only P base) (f c h)) \<Longrightarrow> preserves (sent_only P base) (withHostClient pf env hid user f)"
  unfolding withHostClient_def by (intro preserve_intros)

section \<open>Waiting\<close>

lemma sent_verbs [preserve_intros]:
  "P \<lparr>pxClient = c, pxVerb = ''GET'', pxPath = p, pxQuery = q, pxBody = None, pxTimeout = t\<rparr> \<Longrightarrow> preserves (sent_only P base) (px_get x c p q t)"
  "P \<lparr>pxClient = c, pxVerb = ''POST'', pxPath = p, pxQuery = None, pxBody = b, pxTimeout = t\<rparr> \<Longrightarrow> preserves (sent_only P base) (px_post x c p b t)"
  "P \<lparr>pxClient = c, pxVerb = ''PUT'', pxPath = p, pxQuery = None, pxBody = b, pxTimeout = None\<rparr> \<Longrightarrow> preserves (sent_only P base) (px_put x c p b)"
  "P \<lparr>pxClient = c, pxVerb = ''DELETE'', pxPath = p, pxQuery = q, pxBody = None, pxTimeout = None\<rparr> \<Longrightarrow> preserves (sent_only P base) (px_del x c p q)"
  unfolding px_get_def px_post_def px_put_def px_del_def by (intro preserve_intros; assumption)+

text \<open>A condition that lets every reading request pass.\<close>

definition reads_pass :: "(px_call \<Rightarrow> bool) \<Rightarrow> bool" where
  "reads_pass P \<longleftrightarrow> (\<forall>call. pxVerb call = ''GET'' \<longrightarrow> P call)"

lemma sent_get [preserve_intros]: "reads_pass P \<Longrightarrow> preserves (sent_only P base) (px_get x c p q t)"
  by (rule sent_verbs(1)) (simp add: reads_pass_def)

lemma sent_task_wait_from:
  assumes "reads_pass P" "sent_only P base st"
  shows "sent_only P base (snd (tasks_wait_from x c node upid timeoutMs started st))"
  using assms(2)
proof (induction x c node upid timeoutMs started st rule: tasks_wait_from.induct)
  case (1 x c node upid timeoutMs started st)
  have "preserves (sent_only P base) (tasks_status x c node upid)"
    unfolding tasks_status_def by (rule sent_get [OF assms(1)])
  from preservesD [OF this 1(2)] 1 show ?case
    by (subst tasks_wait_from.simps)
      (auto simp: sent_only_cong [OF silent_updates(10)] split: prod.split sum.split option.split)
qed

lemma sent_waits [preserve_intros]:
  assumes "reads_pass P"
  shows "preserves (sent_only P base) (tasks_wait x c node upid t)" "preserves (sent_only P base) (waitUpid x c node u t)"
    "preserves (sent_only P base) (waitGuestAction x c node u a)"
proof -
  show w: "preserves (sent_only P base) (tasks_wait x c node upid t)" for upid t
    using sent_task_wait_from [OF assms] by (simp add: preserves_def tasks_wait_def)
  show u: "preserves (sent_only P base) (waitUpid x c node u t)" for u t
    unfolding waitUpid_def by (cases u) (auto intro!: preserve_intros w)
  show "preserves (sent_only P base) (waitGuestAction x c node u a)"
    unfolding waitGuestAction_def by (intro preserve_intros u)
qed

lemma sent_status [preserve_intros]:
  assumes "reads_pass P"
  shows "preserves (sent_only P base) (status_call kind x c node vmid)" "preserves (sent_only P base) (guestStatus x c kind node vmid)"
  unfolding guestStatus_def status_call_def lxc_status_def vms_status_def
  by (auto intro!: preserve_intros assms)

lemma sent_stopped_from:
  assumes "reads_pass P" "sent_only P base st"
  shows "sent_only P base (snd (stopped_from x c kind node vmid timeoutMs intervalMs started st))"
  using assms(2)
proof (induction x c kind node vmid timeoutMs intervalMs started st rule: stopped_from.induct)
  case (1 x c kind node vmid timeoutMs intervalMs started st)
  from preservesD [OF sent_status(2) [OF assms(1)] 1(2), of x c kind node vmid] 1 show ?case
    by (subst stopped_from.simps)
      (auto simp: sent_only_cong [OF silent_updates(10)] split: prod.split sum.split)
qed

lemma sent_until_stopped [preserve_intros]:
  "reads_pass P \<Longrightarrow> preserves (sent_only P base) (waitUntilGuestStopped x c kind node vmid t i)"
  using sent_stopped_from by (simp add: preserves_def waitUntilGuestStopped_def)

section \<open>Inventories and identities\<close>

lemma sent_inventory [preserve_intros]:
  assumes "reads_pass P"
  shows "preserves (sent_only P base) (loadHostInventory x c hid)" (is ?load)
    "preserves (sent_only P base) (assertGuestIdentityFree x pf env host vmid ip)"
proof -
  have fetch: "preserves (sent_only P base) (bind_op (listInventory x c) (\<lambda>i. bind_op (write_op (remember_inventory k i)) (\<lambda>_. return_op i)))" for c k
    unfolding listInventory_def listResources_def cluster_resources_def by (intro preserve_intros assms)
  show load: "preserves (sent_only P base) (loadHostInventory x c hid)" for c hid
    using preservesD [OF fetch]
    by (auto simp: preserves_def loadHostInventory_def Let_def split: option.split prod.split)
  have listed: "preserves (sent_only P base) (listedGuests x c hid)" for c hid
    unfolding listedGuests_def by (intro preserve_intros load preserves_case_prod)
  have vmids: "preserves (sent_only P base) (collectUsedVmids x c hid)" for c hid
    unfolding collectUsedVmids_def by (intro preserve_intros listed)
  have peek: "preserves (sent_only P base) (\<lambda>st. case peekGuestIpCache c kind n v st of (r, st1) \<Rightarrow> (Inr (r, kind, g), st1))" for c kind n v g
    by (rule preserves_silent_op) (simp add: peekGuestIpCache_def Let_def sent_calls_def split: option.split prod.split)
  have addresses: "preserves (sent_only P base) (fetch_addresses x c kg)" for c kg
    unfolding fetch_addresses_def or_null_def config_call_def vms_config_def lxc_config_def Let_def
    by (auto intro!: preserve_intros assms split: prod.split)
  have ips: "preserves (sent_only P base) (collectUsedGuestIps x c hid)" for c hid
    unfolding collectUsedGuestIps_def Let_def
    by (intro preserve_intros listed peek addresses preserves_case_prod)
  show "preserves (sent_only P base) (assertGuestIdentityFree x pf env host vmid ip)"
    unfolding assertGuestIdentityFree_def collectUsedGuestIpsForHost_def collectUsedVmidsForHost_def forEachHostInScope_def
    by (auto intro!: preserve_intros vmids ips split: prod.split option.split identity_conflict.split)
qed

end
