(* ===== verification/GuestActionProperties.thy ===== *)
theory GuestActionProperties imports Footprint HostProperties begin

text \<open>
  What acting on a guest may send to Proxmox, and when a guest is deleted.
\<close>

section \<open>Results that matter\<close>

lemma preserves_bind_val:
  assumes "preserves I m" "\<And>v st st'. m st = (Inr v, st') \<Longrightarrow> preserves I (f v)"
  shows "preserves I (bind_op m f)"
  using assms unfolding preserves_def bind_op_def by (fastforce split: prod.split sum.split)

lemma preserves_each_mem: "(\<And>v. v \<in> set xs \<Longrightarrow> preserves I (f v)) \<Longrightarrow> preserves I (each_op f xs)"
  by (induction xs) (simp_all add: preserves_return preserves_bind)

lemma parsedBackups_Inr:
  "parsedBackups i st = (Inr bs, st') \<Longrightarrow>
     assertGuestBackupVolids (case diBackupVolids i of None \<Rightarrow> [] | Some v \<Rightarrow> v) (diVmid i) (diKind i) = Inr bs
     \<and> (bs = [] \<or> diCanDeleteBackups i) \<and> st' = st"
  by (auto simp: parsedBackups_def op_Inr split: sum.splits)

lemma uniq_acc_set: "set (uniq_acc seen xs) \<subseteq> set xs"
  by (induction seen xs rule: uniq_acc.induct) auto

lemma asserted_volid: "assertGuestBackupVolids vs vmid kind = Inr bs \<Longrightarrow> v \<in> set bs \<Longrightarrow> \<exists>w \<in> set vs. v = trim w"
  using uniq_acc_set [of "[]" "filter (\<lambda>v. v \<noteq> []) (map trim vs)"]
  by (auto simp: assertGuestBackupVolids_def Let_def uniq_def split: option.splits)

section \<open>The requests of an action\<close>

definition guest_address :: "guest_kind \<Rightarrow> string \<Rightarrow> int \<Rightarrow> string \<Rightarrow> string" where
  "guest_address kind = (if kind = LXC then ct_path else qemu_path)"

text \<open>The changing requests each action may send for its guest.\<close>

definition guest_writes :: "guest_kind \<Rightarrow> string \<Rightarrow> int \<Rightarrow> guest_action \<Rightarrow> (string \<times> string) list" where
  "guest_writes kind node vmid b =
     (let p = guest_address kind node vmid; a = acAction b; name = encodeURIComponent (opt_str (acSnapname b)) in
      if a \<in> {''start'', ''stop'', ''shutdown'', ''reboot'', ''reset'', ''resume''} then [(''POST'', p (''/status/'' @ a))]
      else if a = ''pause'' then [(''POST'', p ''/status/suspend'')]
      else if a = ''delete'' then [(''POST'', p ''/status/shutdown''), (''POST'', p ''/status/stop''), (''DELETE'', p [])]
      else if a \<in> {''clone'', ''migrate'', ''snapshot''} then [(''POST'', p (''/'' @ a))]
      else if a = ''snapshot-delete'' then [(''DELETE'', p (''/snapshot/'' @ name))]
      else if a = ''snapshot-rollback'' then [(''POST'', p (''/snapshot/'' @ name @ ''/rollback''))]
      else if a \<in> {''config'', ''resize'', ''sendkey''} then [(''PUT'', p (''/'' @ a))]
      else [])"

definition backup_purge :: "session_user \<Rightarrow> string \<Rightarrow> string \<Rightarrow> guest_action \<Rightarrow> px_call \<Rightarrow> bool" where
  "backup_purge user hostId node b call \<longleftrightarrow>
     acAction b = ''delete'' \<and> userHasPermission (Some (holder_of user)) ''backup.delete'' (Some hostId) None \<and> pxVerb call = ''DELETE''
     \<and> list_ex (\<lambda>v. let parsed = parseBackupVolid (trim v) in
          pxPath call = storage_path node (pbStorage parsed) (''/content/'' @ encodeURIComponent (pbVolume parsed)))
        (case acBackupVolids b of None \<Rightarrow> [] | Some vs \<Rightarrow> vs)"

definition request_ok :: "guest_kind \<Rightarrow> session_user \<Rightarrow> string \<Rightarrow> proxmox_config \<Rightarrow> string \<Rightarrow> int \<Rightarrow> guest_action \<Rightarrow> px_call \<Rightarrow> bool" where
  "request_ok kind user hostId c node vmid b call \<longleftrightarrow>
     pxVerb call = ''GET''
     \<or> (pxClient call = c
        \<and> ((pxVerb call, pxPath call) \<in> set (guest_writes kind node vmid b) \<or> backup_purge user hostId node b call))"

lemma request_ok_reads [simp]: "reads_pass (request_ok kind user hostId c node vmid b)"
  by (simp add: reads_pass_def request_ok_def)

lemma guest_sends:
  "(verb, path) \<in> set (guest_writes kind node vmid b) \<Longrightarrow>
     request_ok kind user hostId c node vmid b
       \<lparr>pxClient = c, pxVerb = verb, pxPath = path, pxQuery = q, pxBody = bd, pxTimeout = t\<rparr>"
  by (simp add: request_ok_def)

abbreviation keeps_to :: "guest_kind \<Rightarrow> session_user \<Rightarrow> string \<Rightarrow> proxmox_config \<Rightarrow> string \<Rightarrow> int \<Rightarrow> guest_action \<Rightarrow> px_call list \<Rightarrow> 'a mesh_op \<Rightarrow> bool" where
  "keeps_to kind user hostId c node vmid b base m \<equiv> preserves (sent_only (request_ok kind user hostId c node vmid b) base) m"

lemma keeps_to_or_null: "keeps_to kind user hostId c node vmid b base m \<Longrightarrow> keeps_to kind user hostId c node vmid b base (or_null m)"
  unfolding or_null_def by (intro preserve_intros)

lemma keeps_to_delete_backup:
  assumes "acAction b = ''delete''" "userHasPermission (Some (holder_of user)) ''backup.delete'' (Some hostId) None"
    and "v = trim w" "w \<in> set (case acBackupVolids b of None \<Rightarrow> [] | Some vs \<Rightarrow> vs)"
  shows "keeps_to kind user hostId c node vmid b base (delete_backup x c node v)"
  unfolding delete_backup_def storage_deleteContent_def Let_def assms(3)
  using assms(1,2,4) by (intro preserve_intros) (auto simp: request_ok_def backup_purge_def list_ex_iff Let_def)

lemma keeps_to_delete_guest:
  assumes a: "acAction b = ''delete''"
  shows "keeps_to kind user hostId c node vmid b base (delete_guest x c kind user hostId node vmid b)"
proof -
  let ?i = "delete_of kind user hostId node vmid b"
  let ?W = "\<lambda>m. keeps_to kind user hostId c node vmid b base m"
  have calls: "?W (shutdown_call kind x c node vmid)" "?W (stop_call kind x c node vmid)" "?W (delete_call kind x c node vmid True)"
    unfolding shutdown_call_def stop_call_def delete_call_def lxc_shutdown_def vms_shutdown_def lxc_stop_def vms_stop_def
      lxc_delete_def vms_delete_def
    by (auto intro!: preserve_intros guest_sends simp: guest_writes_def a guest_address_def Let_def)
  have i: "diKind ?i = kind" "diNode ?i = node" "diVmid ?i = vmid" by (simp_all add: delete_of_def)
  have try_: "?W (try_task x c node m)" if "?W m" for m :: "js mesh_op"
    unfolding try_task_def by (intro preserve_intros that) simp_all
  have parsed: "?W (parsedBackups ?i)"
    unfolding parsedBackups_def by (auto intro!: preserve_intros split: sum.split)
  have now: "?W (delete_now x c ?i bs)" for bs
    unfolding delete_now_def i by (intro preserve_intros calls)
  have start: "?W (startGuestDelete x c ?i)"
    unfolding startGuestDelete_def Let_def i
    by (intro preserve_intros parsed calls now) simp_all
  have shut: "?W (shutdown_guest x c kind node vmid)"
    unfolding shutdown_guest_def by (intro preserve_intros try_ calls) simp_all
  have purge: "?W (each_op (delete_backup x c node) bs)" if "parsedBackups ?i st = (Inr bs, st')" for bs st st'
  proof (rule preserves_each_mem)
    fix v assume v: "v \<in> set bs"
    from parsedBackups_Inr [OF that] have as: "assertGuestBackupVolids (case diBackupVolids ?i of None \<Rightarrow> [] | Some v \<Rightarrow> v) vmid kind = Inr bs"
      and can: "bs = [] \<or> diCanDeleteBackups ?i" by (simp_all add: i)
    from asserted_volid [OF as v] obtain w where "w \<in> set (case acBackupVolids b of None \<Rightarrow> [] | Some vs \<Rightarrow> vs)" "v = trim w"
      by (auto simp: delete_of_def)
    then show "?W (delete_backup x c node v)"
      using can v by (intro keeps_to_delete_backup [OF a]) (auto simp: delete_of_def)
  qed
  have whole: "?W (shutdownThenDeleteGuest x c ?i)"
    unfolding shutdownThenDeleteGuest_def Let_def i
    by (rule preserves_bind_val [OF parsed], intro preserve_intros shut calls purge) simp_all
  show ?thesis
    unfolding delete_guest_def Let_def by (intro preserve_intros start whole preserves_case_prod)
qed

lemma keeps_to_preparations:
  "keeps_to kind user hostId c node vmid b base (check_newid x pf env host b)"
  "keeps_to kind user hostId c node vmid b base (migrate_target x c hostId node b)"
  "keeps_to kind user hostId c node vmid b base (snap_name b)"
  "keeps_to kind user hostId c node vmid b base (resize_args b)"
  unfolding check_newid_def migrate_target_def snap_name_def resize_args_def Let_def
  by (intro preserve_intros; simp)+

lemma keeps_to_vm_switch: "keeps_to VM user hostId c node vmid b base (vm_switch x pf env user c host hostId node vmid b)"
  unfolding vm_switch_def Let_def px_api_defs
  by (intro preserve_intros keeps_to_preparations keeps_to_or_null preserves_case_prod guest_sends)
    (simp_all add: guest_writes_def guest_address_def Let_def keeps_to_delete_guest)

lemma keeps_to_lxc_switch: "keeps_to LXC user hostId c node vmid b base (lxc_switch x pf env user c host hostId node vmid b)"
  unfolding lxc_switch_def Let_def px_api_defs
  by (intro preserve_intros keeps_to_preparations keeps_to_or_null preserves_case_prod guest_sends)
    (simp_all add: guest_writes_def guest_address_def Let_def keeps_to_delete_guest)

lemma keeps_to_run:
  "keeps_to VM user hostId c node vmid b base (vm_run x pf env user hostId node vmid b c host)"
  "keeps_to LXC user hostId c node vmid b base (lxc_run x pf env user hostId node vmid b c host)"
proof -
  have name: "keeps_to kind user hostId c node vmid b base (name_before_delete x c kind' node vmid b)" for kind kind'
    unfolding name_before_delete_def or_null_def by (intro preserve_intros) simp_all
  have finish: "keeps_to kind user hostId c node vmid b base (finish_task x c node b u)" for kind u
    unfolding finish_task_def by (intro preserve_intros) simp_all
  show "keeps_to VM user hostId c node vmid b base (vm_run x pf env user hostId node vmid b c host)"
    unfolding vm_run_def vms_sendkey_def Let_def
    by (intro preserve_intros name finish keeps_to_vm_switch guest_sends) (simp_all add: guest_writes_def guest_address_def)
  show "keeps_to LXC user hostId c node vmid b base (lxc_run x pf env user hostId node vmid b c host)"
    unfolding lxc_run_def by (intro preserve_intros name finish keeps_to_lxc_switch)
qed

section \<open>The whole handler\<close>

definition cleared :: "mesh \<Rightarrow> mesh" where
  "cleared st = st\<lparr>msWire := (msWire st)\<lparr>wrVars := []\<rparr>\<rparr>"

lemma bind_run: "m st = (Inr v, st1) \<Longrightarrow> bind_op m f st = f v st1"
  by (simp add: bind_op_def)

lemma bind_at: "I (snd (m st)) \<Longrightarrow> (\<And>v st1. m st = (Inr v, st1) \<Longrightarrow> preserves I (f v)) \<Longrightarrow> I (snd (bind_op m f st))"
  unfolding bind_op_def preserves_def by (cases "m st"; cases "fst (m st)") auto

lemma catch_at: "I (snd (m st)) \<Longrightarrow> (\<And>e. preserves I (h e)) \<Longrightarrow> I (snd (catch_op m h st))"
  unfolding catch_op_def preserves_def by (cases "m st"; cases "fst (m st)") auto

lemma sent_withHostClient_own:
  assumes run: "\<And>h c st1. host_by_id hid st = Some h \<Longrightarrow> clientForHost pf h st = (Inr c, st1) \<Longrightarrow> preserves (sent_only P base) (f c h)"
    and st: "sent_only P base st"
  shows "sent_only P base (snd (withHostClient pf env hid user f st))"
proof (cases "\<exists>h. get_host_or_throw hid (Some user) st = (Inr h, st)")
  case True
  then obtain h where got: "get_host_or_throw hid (Some user) st = (Inr h, st)" by blast
  then have h: "host_by_id hid st = Some h" by (simp add: get_host_Inr)
  have "sent_only P base (snd (bind_op (clientForHost pf h) (\<lambda>client. bind_op (f client h) (\<lambda>result.
      bind_op (when_op (hsState h \<noteq> ONLINE \<and> hsState h \<noteq> MAINTENANCE)
        (bind_op (update_host_row (hsId h) (set_online (heNow env))) (\<lambda>_. write_op (notifyHostState (Some h) ONLINE)))) (\<lambda>_.
      return_op result))) st))"
    by (rule bind_at, rule preservesD [OF quiet_client st]) (intro preserve_intros run [OF h])
  then have "sent_only P base (snd (catch_op (bind_op (clientForHost pf h) (\<lambda>client. bind_op (f client h) (\<lambda>result.
      bind_op (when_op (hsState h \<noteq> ONLINE \<and> hsState h \<noteq> MAINTENANCE)
        (bind_op (update_host_row (hsId h) (set_online (heNow env))) (\<lambda>_. write_op (notifyHostState (Some h) ONLINE)))) (\<lambda>_.
      return_op result)))) (host_failed env h) st))"
    by (rule catch_at) (rule quiet_host_failed)
  then show ?thesis using got by (simp add: withHostClient_def bind_run)
next
  case False
  then have "\<exists>e. withHostClient pf env hid user f st = (Inl e, snd (get_host_or_throw hid (Some user) st))"
    by (cases "get_host_or_throw hid (Some user) st"; cases "fst (get_host_or_throw hid (Some user) st)")
      (auto simp: withHostClient_def bind_op_def get_host_Inr)
  then show ?thesis using preservesD [OF quiet_get_host st, of hid "Some user"] by auto
qed

text \<open>What has to hold before an action sends anything.\<close>

definition action_allowed :: "guest_kind \<Rightarrow> string list \<Rightarrow> session_user \<Rightarrow> string \<Rightarrow> int \<Rightarrow> guest_action \<Rightarrow> bool" where
  "action_allowed kind confirmed user hostId vmid b \<longleftrightarrow>
     userHasPermission (Some (holder_of user)) (permissionForGuestAction kind (acAction b)) (Some hostId) (Some (guest_ref_of hostId kind vmid))
     \<and> canAccessGuest user hostId kind vmid
     \<and> (acAction b \<in> set confirmed \<longrightarrow> acConfirm b = Some True) \<and> (acAction b = ''delete'' \<longrightarrow> acConfirmId b = Some vmid)"

definition sends_within :: "guest_kind \<Rightarrow> string list \<Rightarrow> platform \<Rightarrow> session_user \<Rightarrow> string \<Rightarrow> string \<Rightarrow> int \<Rightarrow> guest_action \<Rightarrow> mesh \<Rightarrow> mesh \<Rightarrow> bool" where
  "sends_within kind confirmed pf user hostId node vmid b st st' \<longleftrightarrow>
     sent_calls st' = sent_calls st
     \<or> action_allowed kind confirmed user hostId vmid b
       \<and> (\<exists>h c st1 cs. host_by_id hostId st = Some h \<and> clientForHost pf h (cleared st) = (Inr c, st1)
            \<and> sent_calls st' = sent_calls st @ cs \<and> list_all (request_ok kind user hostId c node vmid b) cs)"

lemma quiet_after [preserve_intros]:
  "preserves (sent_only P base) (action_failed kind vmid b e)"
  "preserves (sent_only P base) (after_action kind user hostId vmid b audit quiet)"
proof -
  have "preserves (sent_only P base) (notifyGuestTaskFailed kind (acAction b) vmid name upid)" for name upid
    unfolding notifyGuestTaskFailed_def by (cases upid) (auto intro!: preserve_intros)
  then show "preserves (sent_only P base) (action_failed kind vmid b e)"
    unfolding action_failed_def by (intro preserve_intros preserves_case_prod)
  show "preserves (sent_only P base) (after_action kind user hostId vmid b audit quiet)"
    unfolding after_action_def by (intro preserve_intros)
qed

lemma clear_run: "clear_vars st = (Inr (), cleared st)"
  by (simp add: clear_vars_def change_wire_def write_op_def cleared_def)

lemma gate_run:
  "action_gate kind actions confirmed user hostId vmid b st =
     (case action_gate kind actions confirmed user hostId vmid b st of (r, _) \<Rightarrow> (r, st))"
  by (simp add: action_gate_def op_defs)

lemma gate_Inr: "action_gate kind actions confirmed user hostId vmid b st = (Inr u, st') \<Longrightarrow> action_allowed kind confirmed user hostId vmid b"
  by (auto simp: action_gate_def op_Inr action_allowed_def assertGuestAccess_def split: if_splits)

lemma handler_sends_within:
  assumes run: "\<And>c h base. keeps_to kind user hostId c node vmid b base (f c h)"
  shows "sends_within kind confirmed pf user hostId node vmid b st
     (snd (bind_op (action_gate kind actions confirmed user hostId vmid b) (\<lambda>_. bind_op clear_vars (\<lambda>_.
        bind_op (catch_op (withHostClient pf env hostId user f) (action_failed kind vmid b)) (\<lambda>upid.
        bind_op (after_action kind user hostId vmid b audit quiet) (\<lambda>_. read_op (g upid))))) st))"
    (is "sends_within _ _ _ _ _ _ _ _ _ (snd (?m st))")
proof (cases "\<exists>u. action_gate kind actions confirmed user hostId vmid b st = (Inr u, st)")
  case False
  then have "snd (?m st) = st"
    using gate_run [of kind actions confirmed user hostId vmid b st]
    by (cases "fst (action_gate kind actions confirmed user hostId vmid b st)") (auto simp: bind_op_def split: prod.splits sum.splits)
  then show ?thesis by (simp add: sends_within_def)
next
  case True
  then have ok: "action_allowed kind confirmed user hostId vmid b" by (auto dest: gate_Inr)
  have step: "snd (?m st) = snd (bind_op (catch_op (withHostClient pf env hostId user f) (action_failed kind vmid b)) (\<lambda>upid.
        bind_op (after_action kind user hostId vmid b audit quiet) (\<lambda>_. read_op (g upid))) (cleared st))"
    using True by (auto simp: bind_run clear_run)
  have eq: "sent_calls (cleared st) = sent_calls st" "host_by_id hostId (cleared st) = host_by_id hostId st"
    by (simp_all add: cleared_def sent_calls_def host_by_id_def)
  have main: "sent_only Q (sent_calls st) (snd (?m st))"
    if own: "\<And>h c st1. host_by_id hostId st = Some h \<Longrightarrow> clientForHost pf h (cleared st) = (Inr c, st1)
      \<Longrightarrow> preserves (sent_only Q (sent_calls st)) (f c h)" for Q
  proof -
    have "sent_only Q (sent_calls st) (cleared st)" using sent_only_self [of Q "cleared st"] by (simp only: eq)
    then have served: "sent_only Q (sent_calls st) (snd (withHostClient pf env hostId user f (cleared st)))"
      by (intro sent_withHostClient_own own) (simp_all only: eq)
    show ?thesis unfolding step
      by (rule bind_at [where I = "sent_only Q (sent_calls st)"], rule catch_at [where I = "sent_only Q (sent_calls st)"],
          rule served, rule quiet_after) (intro preserve_intros)
  qed
  show ?thesis
  proof (cases "\<exists>h c st1. host_by_id hostId st = Some h \<and> clientForHost pf h (cleared st) = (Inr c, st1)")
    case True
    then obtain h c st1 where hc: "host_by_id hostId st = Some h" "clientForHost pf h (cleared st) = (Inr c, st1)" by blast
    have "sent_only (request_ok kind user hostId c node vmid b) (sent_calls st) (snd (?m st))"
      by (rule main) (use hc run in auto)
    then show ?thesis using ok hc by (auto simp: sends_within_def sent_only_def)
  next
    case False
    have "sent_only (\<lambda>_. False) (sent_calls st) (snd (?m st))" by (rule main) (use False in blast)
    then have "sent_calls (snd (?m st)) = sent_calls st" by (auto simp: sent_only_def list_all_iff)
    then show ?thesis by (simp add: sends_within_def)
  qed
qed


end
