(* ===== verification/GuestTaskProperties.thy ===== *)
theory GuestTaskProperties imports GuestActionProperties begin

text \<open>
  Where requests lead and how long they wait: a snapshot name that leaves its directory, guests that
  do not stop, tasks that do not end, and volumes that are no backups.
\<close>

section \<open>A name that is a dot segment\<close>

definition node_char :: "char \<Rightarrow> bool" where
  "node_char c \<longleftrightarrow> in_range 65 90 c \<or> in_range 97 122 c \<or> is_digit c \<or> c = CHR ''-''"

lemma node_char_plain: "node_char c \<Longrightarrow> c \<noteq> CHR ''/'' \<and> lower_char c \<noteq> CHR ''.'' \<and> lower_char c \<noteq> CHR 0x25"
  by (auto simp: node_char_def in_range_def is_digit_def lower_char_def is_upper_def of_char_of_nat_small
      dest!: arg_cong [where f = "of_char :: char \<Rightarrow> nat"])

lemma encode_node: "list_all node_char s \<Longrightarrow> encodeURIComponent s = s"
  by (induction s) (auto simp: encodeURIComponent_def encode_char_def uri_unreserved_def node_char_def)

lemma plain_segment:
  assumes "list_all (\<lambda>c. c \<noteq> CHR ''/'' \<and> lower_char c \<noteq> CHR ''.'' \<and> lower_char c \<noteq> CHR 0x25) s"
  shows "CHR ''/'' \<notin> set s" "\<not> double_dot s" "\<not> single_dot s"
proof -
  show "CHR ''/'' \<notin> set s" using assms unfolding list_all_iff by blast
  have "y \<notin> set (to_lower s)" if "\<And>c. c \<in> set s \<Longrightarrow> lower_char c \<noteq> y" for y
    using that unfolding to_lower_def set_map image_iff by metis
  then have "CHR ''.'' \<notin> set (to_lower s)" "CHR 0x25 \<notin> set (to_lower s)"
    using assms unfolding list_all_iff by blast+
  then show "\<not> double_dot s" "\<not> single_dot s"
    unfolding double_dot_def single_dot_def by (intro notI; elim insertE emptyE; simp)+
qed

lemma int_str_plain: "list_all (\<lambda>c. c \<noteq> CHR ''/'' \<and> lower_char c \<noteq> CHR ''.'' \<and> lower_char c \<noteq> CHR 0x25) (int_str i)"
proof -
  have "list_all number_char (int_str i)" by (rule int_str_number_chars)
  have "c = CHR ''-'' \<or> is_digit c" if "c \<in> set (int_str i)" for c
    using that nat_str_digits by (auto simp: int_str_def list_all_iff split: if_splits)
  then have "list_all node_char (int_str i)" by (auto simp: list_all_iff node_char_def)
  then show ?thesis using node_char_plain by (auto simp: list_all_iff)
qed

lemma snapshot_parent_path:
  assumes "list_all node_char node"
  shows "resolved_path (guest_address kind node vmid (''/snapshot/'' @ encodeURIComponent ''..'')) = guest_address kind node vmid ''/''"
proof -
  have n: "list_all (\<lambda>c. c \<noteq> CHR ''/'' \<and> lower_char c \<noteq> CHR ''.'' \<and> lower_char c \<noteq> CHR 0x25) node"
    using assms node_char_plain by (auto simp: list_all_iff)
  have dots: "encodeURIComponent ''..'' = ''..''" by code_simp
  have fixed: "\<not> double_dot ''nodes''" "\<not> single_dot ''nodes''" "\<not> double_dot ''qemu''" "\<not> single_dot ''qemu''"
    "\<not> double_dot ''lxc''" "\<not> single_dot ''lxc''" "\<not> double_dot ''snapshot''" "\<not> single_dot ''snapshot''" "double_dot ''..''"
    by code_simp+
  have split: "split_on CHR ''/'' (''nodes/'' @ node @ ''/'' @ t @ ''/'' @ int_str vmid @ ''/snapshot/..'')
      = [''nodes'', node, t, int_str vmid, ''snapshot'', ''..'']" if "CHR ''/'' \<notin> set t" for t
    using plain_segment(1) [OF n] plain_segment(1) [OF int_str_plain, of vmid] that by (simp add: split_on_append_sep)
  show ?thesis
    using plain_segment(2,3) [OF n] plain_segment(2,3) [OF int_str_plain, of vmid] split [of "''qemu''"] split [of "''lxc''"] fixed
    by (simp add: resolved_path_def guest_address_def qemu_path_def ct_path_def node_path_def encode_node [OF assms] dots)
qed

definition reached :: "px_call list \<Rightarrow> px_call \<Rightarrow> mesh \<Rightarrow> bool" where
  "reached base call st \<longleftrightarrow> (\<exists>cs. sent_calls st = base @ cs \<and> call \<in> set cs)"

lemma preserves_reached: "(\<And>base. preserves (sent_only (\<lambda>_. True) base) m) \<Longrightarrow> preserves (reached base call) m"
  unfolding preserves_def
proof (intro allI impI)
  fix st assume m: "\<And>base. \<forall>st. sent_only (\<lambda>_. True) base st \<longrightarrow> sent_only (\<lambda>_. True) base (snd (m st))" and "reached base call st"
  then obtain cs where cs: "sent_calls st = base @ cs" "call \<in> set cs" by (auto simp: reached_def)
  from m [rule_format, OF sent_only_self] obtain ds where "sent_calls (snd (m st)) = sent_calls st @ ds" by (auto simp: sent_only_def)
  with cs show "reached base call (snd (m st))" by (auto simp: reached_def)
qed

lemma reads_pass_all [simp]: "reads_pass (\<lambda>_. True)"
  by (simp add: reads_pass_def)

lemma px_request_reaches:
  assumes "pcFederation (pxClient call) = None" "pcAuthType (pxClient call) = API_TOKEN" "truthy (pcTokenId (pxClient call))"
  shows "reached (sent_calls st) call (snd (px_request x call st))"
proof -
  obtain auth where "authHeaders x (pxClient call) st = (Inr auth, st)"
    using assms by (simp add: authHeaders_def op_defs)
  moreover obtain r ms where "rawFetch x call (direct_request auth call) st = (r, sent_after call ms st)"
    using rawFetch_run by blast
  moreover have "sent_calls (sent_after call ms st) = sent_calls st @ [call]" by (simp add: sent_calls_def sent_after_def)
  ultimately show ?thesis
    using assms(1) by (cases r) (auto simp: px_request_def bind_op_def lift_op_def reached_def)
qed

lemma host_by_id_own: "host_by_id hid st = Some h \<Longrightarrow> hsId h = hid"
  by (auto simp: host_by_id_def find_row_def host_keys_def find_Some_iff)

text \<open>A request that the function given to \<open>withHostClient\<close> sends stays sent.\<close>

lemma withHostClient_reaches:
  assumes h: "host_by_id hostId st = Some h" and access: "canAccessHost user hostId" and c: "clientForHost pf h st = (Inr c, st1)"
    and ran: "reached base call (snd (f c h st1))"
  shows "reached base call (snd (withHostClient pf env hostId user f st))"
proof -
  let ?R = "reached base call"
  let ?rest = "\<lambda>result. bind_op (when_op (hsState h \<noteq> ONLINE \<and> hsState h \<noteq> MAINTENANCE)
      (bind_op (update_host_row (hsId h) (set_online (heNow env))) (\<lambda>_. write_op (notifyHostState (Some h) ONLINE)))) (\<lambda>_. return_op result)"
  have got: "get_host_or_throw hostId (Some user) st = (Inr h, st)"
    using h access host_by_id_own [OF h] by (simp add: get_host_Inr)
  have quiet: "preserves ?R (host_failed env h e)" for e :: js_error by (rule preserves_reached) (rule quiet_host_failed)
  have rest: "preserves ?R (?rest v)" for v by (rule preserves_reached) (intro preserve_intros)
  have "?R (snd (bind_op (f c h) ?rest st1))"
    by (rule bind_at [where I = ?R and m = "f c h" and st = st1, OF ran rest])
  then have attempt: "?R (snd (bind_op (clientForHost pf h) (\<lambda>client. bind_op (f client h) ?rest) st))"
    by (simp add: bind_run [where m = "clientForHost pf h", OF c])
  show ?thesis
    unfolding withHostClient_def bind_run [where m = "get_host_or_throw hostId (Some user)", OF got]
    by (rule catch_at [where I = ?R], rule attempt, rule quiet)
qed

lemma gate_ok:
  assumes "actionSchema actions b" "action_allowed kind confirmed user hostId vmid b"
  shows "action_gate kind actions confirmed user hostId vmid b st = (Inr (), st)"
  using assms by (auto simp: action_gate_def action_allowed_def op_defs assertGuestAccess_def)

text \<open>
  Deleting a snapshot that is called \<open>..\<close> sends a \<open>DELETE\<close> whose address, after the removal of
  dot segments that every URL undergoes, is the address of the guest itself.  The permission to
  delete snapshots is all it takes: neither the permission to delete guests nor a confirmation is asked for.
\<close>

theorem snapshot_name_reaches_guest:
  assumes "userHasPermission (Some (holder_of user)) ''vm.snapshot.delete'' (Some hostId) (Some (guest_ref_of hostId VM vmid))"
    and "canAccessGuest user hostId VM vmid" "actionSchema VM_ACTIONS b"
    and b: "acAction b = ''snapshot-delete''" "acSnapname b = Some ''..''"
    and h: "host_by_id hostId st = Some h" and c: "clientForHost pf h (cleared st) = (Inr c, st1)"
    and token: "pcFederation c = None" "pcAuthType c = API_TOKEN" "truthy (pcTokenId c)" and node: "list_all node_char node"
  shows "\<exists>call cs. sent_calls (snd (vm_POST x pf env user hostId node vmid b st)) = sent_calls st @ cs \<and> call \<in> set cs
    \<and> pxClient call = c \<and> pxVerb call = ''DELETE'' \<and> resolved_path (pxPath call) = qemu_path node vmid ''/''"
proof -
  let ?path = "qemu_path node vmid (''/snapshot/'' @ encodeURIComponent ''..'')"
  let ?call = "\<lparr>pxClient = c, pxVerb = ''DELETE'', pxPath = ?path, pxQuery = None, pxBody = None, pxTimeout = None\<rparr>"
  let ?R = "reached (sent_calls st) ?call"
  have gate: "action_gate VM VM_ACTIONS [''delete'', ''reset''] user hostId vmid b st = (Inr (), st)"
    using assms(1-4) by (intro gate_ok) (simp_all add: action_allowed_def permissionForGuestAction_def)
  have access: "canAccessHost user hostId" using assms(2) by (simp add: canAccessGuest_def split: if_splits)
  have same: "sent_calls st1 = sent_calls st"
    using preservesD [OF quiet_client sent_only_self, of "\<lambda>_. False" "cleared st" pf h] c
    by (auto simp: sent_only_def list_all_iff) (simp add: cleared_def sent_calls_def)
  have "?R (snd (px_request x ?call st1))"
    using px_request_reaches [of ?call st1 x] token by (simp add: same)
  then have del: "?R (snd (vms_deleteSnapshot x c node vmid ''..'' st1))" by (simp add: vms_deleteSnapshot_def px_del_def)
  have ran: "?R (snd (vm_run x pf env user hostId node vmid b c h st1))"
  proof -
    have fin: "preserves ?R (finish_task x c node b v)" for v
      by (rule preserves_reached) (simp add: finish_task_def, intro preserve_intros, simp_all)
    have "?R (snd (bind_op (vms_deleteSnapshot x c node vmid ''..'') (finish_task x c node b) st1))"
      by (rule bind_at [where I = ?R and m = "vms_deleteSnapshot x c node vmid ''..''" and st = st1, OF del fin])
    then show ?thesis
      by (simp add: vm_run_def name_before_delete_def vm_switch_def b opt_str_def bind_run [of "return_op ()" st1 "()" st1] return_op_def when_op_def)
  qed
  have "host_by_id hostId (cleared st) = Some h" using h by (simp add: cleared_def host_by_id_def)
  from withHostClient_reaches [where f = "vm_run x pf env user hostId node vmid b", OF this access c ran]
  have "?R (snd (withHostClient pf env hostId user (vm_run x pf env user hostId node vmid b) (cleared st)))" .
  then have "?R (snd (vm_POST x pf env user hostId node vmid b st))"
    unfolding vm_POST_def bind_run [where m = "action_gate VM VM_ACTIONS [''delete'', ''reset''] user hostId vmid b", OF gate]
      bind_run [where m = clear_vars, OF clear_run]
    by - (rule bind_at [where I = ?R], rule catch_at [where I = ?R], assumption, (rule preserves_reached, intro preserve_intros)+)
  then obtain cs where "sent_calls (snd (vm_POST x pf env user hostId node vmid b st)) = sent_calls st @ cs" "?call \<in> set cs"
    unfolding reached_def by blast
  then show ?thesis
    using snapshot_parent_path [OF node, of VM vmid] by (intro exI [of _ ?call] exI [of _ cs]) (simp add: guest_address_def)
qed

definition demo_px :: px_env where
  "demo_px = \<lparr>pxFetch = (\<lambda>_ _. (Inr (200, CHR 0x7B # CHR 0x22 # ''data'' @ CHR 0x22 # '':null'' @ [CHR 0x7D]), 5)),
     pxLogin = (\<lambda>_ _. Inl (OtherError ''no''))\<rparr>"

definition demo_host_env :: host_env where
  "demo_host_env = \<lparr>heTest = undefined, heByName = id, heNow = 5, heId = []\<rparr>"

definition demo_operator :: session_user where
  "demo_operator = demo_admin\<lparr>suRolePermissions := [''vm.view'', ''vm.snapshot.delete'']\<rparr>"

definition demo_action :: "string \<Rightarrow> guest_action" where
  "demo_action a = \<lparr>acAction = a, acConfirm = None, acConfirmId = None, acNewid = None, acName = None, acTarget = None,
     acSnapname = Some ''..'', acDescription = None, acConfig = None, acDisk = None, acSize = None, acBackupVolids = None,
     acWait = None, acPhase = None, acKey = None\<rparr>"

theorem snapshot_name_reaches_guest_witness:
  "\<not> userHasPermission (Some (holder_of demo_operator)) ''vm.delete'' (Some ''h1'') (Some (guest_ref_of ''h1'' VM 100))
   \<and> (\<exists>call cs. sent_calls (snd (vm_POST demo_px demo_platform demo_host_env demo_operator ''h1'' ''pve'' 100 (demo_action ''snapshot-delete'') demo_mesh)) = cs
        \<and> call \<in> set cs \<and> pxVerb call = ''DELETE'' \<and> resolved_path (pxPath call) = qemu_path ''pve'' 100 ''/'')"
proof -
  have h: "host_by_id ''h1'' demo_mesh = Some (demo_host ''h1'')" "hsId (demo_host ''h1'') = ''h1''"
    by (simp_all add: host_by_id_def find_row_def host_keys_def demo_mesh_def mesh_of_def demo_host_def)
  obtain c st1 where c: "clientForHost demo_platform (demo_host ''h1'') (cleared demo_mesh) = (Inr c, st1)"
    and t: "pcFederation c = None" "pcAuthType c = API_TOKEN" "truthy (pcTokenId c)"
    by (simp add: clientForHost_def client_cache_get_def local_client_def demo_platform_def demo_host_def starts_with_def
        demo_mesh_def mesh_of_def Let_def cleared_def clientConfigFromHost_def truthy_def)
  have p: "userHasPermission (Some (holder_of demo_operator)) ''vm.snapshot.delete'' (Some ''h1'') (Some (guest_ref_of ''h1'' VM 100))"
    "\<not> userHasPermission (Some (holder_of demo_operator)) ''vm.delete'' (Some ''h1'') (Some (guest_ref_of ''h1'' VM 100))"
    "canAccessGuest demo_operator ''h1'' VM 100"
    "list_all node_char ''pve''" "actionSchema VM_ACTIONS (demo_action ''snapshot-delete'')"
    by code_simp+
  have "sent_calls demo_mesh = []" by (simp add: demo_mesh_def mesh_of_def sent_calls_def empty_wire_def)
  with snapshot_name_reaches_guest [OF p(1,3,5) _ _ h(1) c t p(4), where x = demo_px and env = demo_host_env] p(2)
  show ?thesis by (simp add: demo_action_def) metis
qed

section \<open>Guests that do not stop\<close>

definition never_stops :: "px_env \<Rightarrow> proxmox_config \<Rightarrow> guest_kind \<Rightarrow> string \<Rightarrow> int \<Rightarrow> bool" where
  "never_stops x c kind node vmid \<longleftrightarrow>
     (\<forall>st. \<exists>s. fst (guestStatus x c kind node vmid st) = Inr s \<and> guestNeedsStopForRestore s)"

definition no_delete :: "px_call \<Rightarrow> bool" where
  "no_delete call \<longleftrightarrow> pxVerb call \<noteq> ''DELETE''"

lemma no_delete_reads [simp]: "reads_pass no_delete"
  by (simp add: reads_pass_def no_delete_def)

lemma never_stopped_from:
  assumes "never_stops x c kind node vmid"
  shows "fst (stopped_from x c kind node vmid timeoutMs intervalMs started st) = Inr False"
  using assms
proof (induction x c kind node vmid timeoutMs intervalMs started st rule: stopped_from.induct)
  case (1 x c kind node vmid timeoutMs intervalMs started st)
  obtain s st1 where s: "guestStatus x c kind node vmid st = (Inr s, st1)" "guestNeedsStopForRestore s"
    using 1(2) unfolding never_stops_def by (metis fst_conv surj_pair)
  then show ?case using 1 by (subst stopped_from.simps) simp
qed

lemma never_stopped: "never_stops x c kind node vmid \<Longrightarrow> fst (waitUntilGuestStopped x c kind node vmid t i st) = Inr False"
  by (simp add: waitUntilGuestStopped_def never_stopped_from)

lemma silent_calls:
  "preserves (sent_only no_delete base) (shutdown_call kind x c node vmid)" "preserves (sent_only no_delete base) (stop_call kind x c node vmid)"
  unfolding shutdown_call_def stop_call_def lxc_shutdown_def vms_shutdown_def lxc_stop_def vms_stop_def
  by (auto intro!: preserve_intros simp: no_delete_def)

lemma silent_parsed: "preserves (sent_only no_delete base) (parsedBackups i)"
  unfolding parsedBackups_def by (auto intro!: preserve_intros split: sum.split)

lemma try_task_runs: "\<exists>st1. try_task x c node m st = (Inr (), st1)"
  by (simp add: try_task_def catch_op_def return_op_def split: prod.split sum.split)

lemma shutdown_fails:
  assumes "never_stops x c kind node vmid"
  shows "fst (shutdown_guest x c kind node vmid st) = Inl not_stopped"
proof -
  obtain st1 where 1: "try_task x c node (shutdown_call kind x c node vmid) st = (Inr (), st1)" using try_task_runs by blast
  obtain st2 where 2: "waitUntilGuestStopped x c kind node vmid 60000 1500 st1 = (Inr False, st2)"
    using never_stopped [OF assms] by (metis fst_conv surj_pair)
  obtain st3 where 3: "try_task x c node (stop_call kind x c node vmid) st2 = (Inr (), st3)" using try_task_runs by blast
  obtain st4 where 4: "waitUntilGuestStopped x c kind node vmid 45000 1500 st3 = (Inr False, st4)"
    using never_stopped [OF assms] by (metis fst_conv surj_pair)
  show ?thesis by (simp add: shutdown_guest_def bind_op_def 1 2 3 4 guard_op_def throw_op_def)
qed


definition running_px :: px_env where
  "running_px = \<lparr>pxFetch = (\<lambda>_ _. (Inr (200, JSON_stringify (JObj [(''data'', JObj [(''status'', JStr ''running'')])])), 5)),
     pxLogin = (\<lambda>_ _. Inl (OtherError ''no''))\<rparr>"

definition demo_client :: proxmox_config where
  "demo_client = clientConfigFromHost (demo_host ''h1'') ''s''"

definition demo_delete_input :: delete_input where
  "demo_delete_input = \<lparr>diKind = VM, diNode = ''pve'', diVmid = 100, diBackupVolids = None, diCanDeleteBackups = False,
     diPhase = Some PhaseStop\<rparr>"

lemma demo_never_stops: "never_stops running_px demo_client VM ''pve'' 100"
proof -
  have answer: "direct_answer 200 (JSON_stringify (JObj [(''data'', JObj [(''status'', JStr ''running'')])]))
      = Inr (JObj [(''status'', JStr ''running'')])" "guestNeedsStopForRestore (Some ''running'')"
    by code_simp+
  have auth: "\<exists>a. authHeaders running_px demo_client st = (Inr a, st)" for st
    by (simp add: authHeaders_def demo_client_def clientConfigFromHost_def demo_host_def op_defs truthy_def)
  have fed: "pcFederation demo_client = None" by (simp add: demo_client_def clientConfigFromHost_def)
  have fetch: "\<exists>st2. rawFetch running_px call out s = (Inr (200, JSON_stringify (JObj [(''data'', JObj [(''status'', JStr ''running'')])])), st2)"
    for call out s
    by (simp add: rawFetch_def running_px_def Let_def)
  have "fst (guestStatus running_px demo_client VM ''pve'' 100 st) = Inr (Some ''running'')" for st
  proof -
    let ?call = "\<lparr>pxClient = demo_client, pxVerb = ''GET'', pxPath = qemu_path ''pve'' 100 ''/status/current'', pxQuery = None,
      pxBody = None, pxTimeout = None\<rparr>"
    obtain a where a: "authHeaders running_px demo_client st = (Inr a, st)" using auth by blast
    obtain st2 where f: "rawFetch running_px ?call (direct_request a ?call) st
        = (Inr (200, JSON_stringify (JObj [(''data'', JObj [(''status'', JStr ''running'')])])), st2)" using fetch by blast
    have "px_request running_px ?call st = (Inr (JObj [(''status'', JStr ''running'')]), st2)"
      using fed by (simp add: px_request_def bind_op_def a f lift_op_def answer)
    then show ?thesis
      by (simp add: guestStatus_def status_call_def vms_status_def px_get_def catch_op_def bind_op_def return_op_def nullish_def
          js_field_def get_prop_def js_or_def)
  qed
  then show ?thesis using answer(2) unfolding never_stops_def by blast
qed


section \<open>Tasks\<close>

lemma px_request_once: "length (sent_calls (snd (px_request x call st))) \<le> Suc (length (sent_calls st))"
proof -
  have one: "length (sent_calls (snd (rawFetch x call out s))) \<le> Suc (length (sent_calls s))" for out s
    using rawFetch_run [of x call out s] by (auto simp: sent_calls_def sent_after_def)
  have auth: "snd (authHeaders x c s) = s" for c s
    by (simp add: authHeaders_def op_defs split: option.split)
  show ?thesis
  proof (cases "pcFederation (pxClient call)")
    case (Some fed)
    then show ?thesis using one [of "peer_request fed call" st]
      by (auto simp: px_request_def federationRequest_def bind_op_def lift_op_def split: prod.split sum.split)
  next
    case None
    show ?thesis
    proof (cases "authHeaders x (pxClient call) st")
      case (Pair r s)
      with auth [of "pxClient call" st] have "s = st" by simp
      then show ?thesis using None Pair one [of "direct_request (projr r) call" st]
        by (cases r) (auto simp: px_request_def bind_op_def lift_op_def split: prod.split sum.split)
    qed
  qed
qed

lemma wait_rounds:
  "length (sent_calls (snd (tasks_wait_from x c node upid timeoutMs started st)))
     \<le> length (sent_calls st) + nat ((timeoutMs - (wire_now st - started) + 1499) div 1500)"
proof (induction x c node upid timeoutMs started st rule: tasks_wait_from.induct)
  case (1 x c node upid timeoutMs started st)
  let ?left = "timeoutMs - (wire_now st - started)"
  show ?case
  proof (cases "wire_now st - started < timeoutMs")
    case True
    obtain r st1 where run: "tasks_status x c node upid st = (r, st1)" by (cases "tasks_status x c node upid st")
    have once: "length (sent_calls st1) \<le> Suc (length (sent_calls st))"
      using px_request_once [of x _ st] run by (metis tasks_status_def px_get_def snd_conv)
    have clock: "wire_now st \<le> wire_now st1" by (rule tasks_status_clock [OF run])
    have room: "1 + nat ((?left - 1500 + 1499) div 1500) \<le> nat ((?left + 1499) div 1500)"
      using True by linarith
    have sooner: "nat ((timeoutMs - (wire_now (pause 1500 st1) - started) + 1499) div 1500) \<le> nat ((?left - 1500 + 1499) div 1500)"
      using clock by (intro nat_mono zdiv_mono1) simp_all
    show ?thesis
    proof (cases r)
      case (Inl e)
      with True run once room show ?thesis by (subst tasks_wait_from.simps) simp
    next
      case (Inr v)
      show ?thesis
      proof (cases "task_verdict v")
        case None
        with 1 [OF True run [symmetric] Inr] sooner room once
        have "length (sent_calls (snd (tasks_wait_from x c node upid timeoutMs started (pause 1500 st1))))
            \<le> length (sent_calls st) + nat ((?left + 1499) div 1500)"
          by (simp add: silent)
        with True run Inr None show ?thesis by (subst tasks_wait_from.simps) simp
      qed (use True run Inr once room in \<open>subst tasks_wait_from.simps, simp\<close>)
    qed
  qed (subst tasks_wait_from.simps, simp)
qed

lemma wait_result: "fst (tasks_wait_from x c node upid timeoutMs started st) = Inr v \<Longrightarrow> task_verdict v = Some (Inr v)"
proof (induction x c node upid timeoutMs started st rule: tasks_wait_from.induct)
  case (1 x c node upid timeoutMs started st)
  have own: "task_verdict w = Some (Inr u) \<Longrightarrow> u = w" for w u
    by (auto simp: task_verdict_def Let_def split: if_splits js.splits)
  from 1 show ?case
    by (subst (asm) (2) tasks_wait_from.simps)
      (auto split: if_splits prod.splits sum.splits option.splits dest: own)
qed


section \<open>Chosen backups\<close>

lemma first_error_None: "first_error f xs = None \<longleftrightarrow> (\<forall>v \<in> set xs. f v = None)"
  by (induction xs) (auto split: option.split)

lemma parsed_kind_vmid: "pbKind (parseBackupVolid v) = None \<longleftrightarrow> pbVmid (parseBackupVolid v) = None"
  by (auto simp: parseBackupVolid_def Let_def split: option.split prod.split)

lemma volid_fine:
  assumes "volid_error vmid kind v = None"
  shows "pbStorage (parseBackupVolid v) \<noteq> []" "pbVolume (parseBackupVolid v) \<noteq> []"
    "(pbVmid (parseBackupVolid v) = Some vmid \<and> pbKind (parseBackupVolid v) = Some kind)
     \<or> (pbVmid (parseBackupVolid v) = None \<and> pbKind (parseBackupVolid v) = None)"
  using assms parsed_kind_vmid [of v] unfolding volid_error_def Let_def
  by (simp_all split: if_splits) (cases "pbVmid (parseBackupVolid v)"; simp)

text \<open>
  The backups that may be deleted with a guest name a storage and a volume, and those whose
  names say which guest they belong to are of this guest and its kind.  A name that says nothing
  of a guest passes as well, so the disk of another guest can be given as a backup, and the purge
  sends a \<open>DELETE\<close> for it.
\<close>

theorem chosen_backups:
  "(case assertGuestBackupVolids vs vmid kind of Inl e \<Rightarrow> True
    | Inr bs \<Rightarrow> list_all (\<lambda>v. let parsed = parseBackupVolid v in pbStorage parsed \<noteq> [] \<and> pbVolume parsed \<noteq> []
        \<and> ((pbVmid parsed = Some vmid \<and> pbKind parsed = Some kind) \<or> (pbVmid parsed = None \<and> pbKind parsed = None))) bs)
   \<and> assertGuestBackupVolids [''local-lvm:vm-200-disk-0''] vmid kind = Inr [''local-lvm:vm-200-disk-0'']
   \<and> delete_backup x c node ''local-lvm:vm-200-disk-0''
       = bind_op (px_del x c (node_path node ''/storage/local-lvm/content/vm-200-disk-0'') None) (\<lambda>_. return_op ())"
proof (intro conjI)
  show "case assertGuestBackupVolids vs vmid kind of Inl e \<Rightarrow> True
    | Inr bs \<Rightarrow> list_all (\<lambda>v. let parsed = parseBackupVolid v in pbStorage parsed \<noteq> [] \<and> pbVolume parsed \<noteq> []
        \<and> ((pbVmid parsed = Some vmid \<and> pbKind parsed = Some kind) \<or> (pbVmid parsed = None \<and> pbKind parsed = None))) bs"
  proof -
    have "list_all (\<lambda>v. let parsed = parseBackupVolid v in pbStorage parsed \<noteq> [] \<and> pbVolume parsed \<noteq> []
        \<and> ((pbVmid parsed = Some vmid \<and> pbKind parsed = Some kind) \<or> (pbVmid parsed = None \<and> pbKind parsed = None))) bs"
      if "\<forall>v \<in> set bs. volid_error vmid kind v = None" for bs
      using that volid_fine unfolding list_all_iff Let_def by blast
    then show ?thesis
      unfolding assertGuestBackupVolids_def Let_def first_error_None [symmetric] by (simp split: option.split)
  qed
  have parsed: "parseBackupVolid ''local-lvm:vm-200-disk-0''
      = \<lparr>pbStorage = ''local-lvm'', pbVolume = ''vm-200-disk-0'', pbFilename = ''vm-200-disk-0'', pbKind = None, pbVmid = None\<rparr>"
    "trim ''local-lvm:vm-200-disk-0'' = ''local-lvm:vm-200-disk-0''" "encodeURIComponent ''local-lvm'' = ''local-lvm''"
    "encodeURIComponent ''vm-200-disk-0'' = ''vm-200-disk-0''"
    by code_simp+
  show "assertGuestBackupVolids [''local-lvm:vm-200-disk-0''] vmid kind = Inr [''local-lvm:vm-200-disk-0'']"
    by (simp add: assertGuestBackupVolids_def parsed uniq_def volid_error_def)
  show "delete_backup x c node ''local-lvm:vm-200-disk-0''
       = bind_op (px_del x c (node_path node ''/storage/local-lvm/content/vm-200-disk-0'') None) (\<lambda>_. return_op ())"
    by (simp add: delete_backup_def parsed storage_deleteContent_def storage_path_def)
qed

end
