(* ===== verification/Gates.thy ===== *)
theory Gates imports GuestActionProperties begin

text \<open>
  The checks in front of a handler as an interface: a gate changes nothing, and whoever passes it is
  allowed.  What a handler behind a gate sends is then sent for an allowed request only.
\<close>

locale request_gate =
  fixes gate :: "'b \<Rightarrow> unit mesh_op" and allowed :: "'b \<Rightarrow> bool"
  assumes gate_keeps: "gate b st = (r, st') \<Longrightarrow> st' = st"
    and gate_checks: "gate b st = (Inr u, st') \<Longrightarrow> allowed b"
begin

lemma gate_cases:
  obtains (refused) e where "gate b st = (Inl e, st)" | (passed) "gate b st = (Inr (), st)" "allowed b"
proof (cases "gate b st")
  case (Pair r st')
  then show thesis using gate_keeps [OF Pair] gate_checks [of b st] that by (cases r) auto
qed

lemma gated_refuses: "\<not> allowed b \<Longrightarrow> \<exists>e. bind_op (gate b) m st = (Inl e, st)"
  by (cases rule: gate_cases [of b st]) (auto simp: bind_op_def)

lemma gated_sends:
  assumes "allowed b \<Longrightarrow> sent_only Q (sent_calls st) (snd (m () st))"
  shows "sent_only (\<lambda>call. allowed b \<and> Q call) (sent_calls st) (snd (bind_op (gate b) m st))"
proof (cases rule: gate_cases [of b st])
  case (refused e)
  then show ?thesis by (simp add: bind_op_def sent_only_self)
next
  case passed
  with assms show ?thesis by (simp add: bind_op_def)
qed

lemma gated_runs: "gate b st = (Inr (), st) \<Longrightarrow> bind_op (gate b) m st = m () st"
  by (simp add: bind_op_def)

end

section \<open>The gates of the routes\<close>

lemma guard_pair_keeps: "bind_op (guard_op a e) (\<lambda>_. guard_op b e') st = (r, st') \<Longrightarrow> st' = st"
  by (auto simp: op_defs split: if_splits)

lemma action_gate_keeps: "action_gate kind actions confirmed user hostId vmid b st = (r, st') \<Longrightarrow> st' = st"
  by (auto simp: action_gate_def op_defs split: if_splits)

lemma action_gate_checks:
  "action_gate kind actions confirmed user hostId vmid b st = (Inr u, st') \<Longrightarrow> action_allowed kind confirmed user hostId vmid b"
  by (auto simp: action_gate_def action_allowed_def op_defs assertGuestAccess_def split: if_splits)

interpretation vm_gate: request_gate "action_gate VM VM_ACTIONS [''delete'', ''reset''] user hostId vmid"
  "action_allowed VM [''delete'', ''reset''] user hostId vmid"
  for user hostId vmid
  by unfold_locales (auto dest: action_gate_keeps action_gate_checks)

interpretation lxc_gate: request_gate "action_gate LXC LXC_ACTIONS [''delete''] user hostId vmid"
  "action_allowed LXC [''delete''] user hostId vmid"
  for user hostId vmid
  by unfold_locales (auto dest: action_gate_keeps action_gate_checks)

end
