(* ===== verification/StorageContent.thy ===== *)
theory StorageContent imports GuestActions begin

text \<open>
  What lies on the storages of a host: \<^verbatim>\<open>server/services/storage-content.ts\<close>,
  \<^verbatim>\<open>lib/storage-content.ts\<close>, \<^verbatim>\<open>lib/volume-usage.ts\<close>, the readers of volume names in
  \<^verbatim>\<open>lib/lxc-templates.ts\<close> and \<^verbatim>\<open>lib/iso-images.ts\<close>, and the route
  \<^verbatim>\<open>app/api/hosts/[id]/storage/content/route.ts\<close>.  Rows of a list are objects; a list that is no
  array throws, as its \<open>filter\<close> does.  Requests of a pool are sent one after the other.
\<close>

section \<open>Names of volumes\<close>

definition volidFilename :: "string \<Rightarrow> string" where
  "volidFilename volid = last (split_on CHR ''/'' (trim volid))"

definition vztmplVolid :: "string \<Rightarrow> string \<Rightarrow> string" where
  "vztmplVolid storage filename = storage @ '':vztmpl/'' @ filename"

definition isoVolid :: "string \<Rightarrow> string \<Rightarrow> string" where
  "isoVolid storage filename = storage @ '':iso/'' @ filename"

definition isVztmplContentVolid :: "string \<Rightarrow> bool" where
  "isVztmplContentVolid volid =
     (let raw = trim volid; lower = to_lower raw in
      raw \<noteq> [] \<and> \<not> str_includes raw ''..'' \<and> (str_includes lower '':vztmpl/'' \<or> str_includes lower ''/vztmpl/''))"

definition is_iso_file :: "string \<Rightarrow> bool" where
  "is_iso_file file \<longleftrightarrow> ends_with (to_lower file) ''.iso''"

definition isIsoContentVolid :: "string \<Rightarrow> bool" where
  "isIsoContentVolid volid =
     (let raw = trim volid; lower = to_lower raw in
      raw \<noteq> [] \<and> \<not> str_includes raw ''..'' \<and> (str_includes lower '':iso/'' \<or> str_includes lower ''/iso/'')
      \<and> is_iso_file (volidFilename raw))"

text \<open>\<open>ARCHIVE_RE\<close>.\<close>

definition is_archive :: "string \<Rightarrow> bool" where
  "is_archive file \<longleftrightarrow> list_ex (ends_with (to_lower file)) [''.tar.gz'', ''.tar.xz'', ''.tar.zst'', ''.tar.bz2'', ''.tgz'']"

definition storageContentVolid :: "js_record \<Rightarrow> string" where
  "storageContentVolid row =
     (let text = (\<lambda>k. trim (str_or (get_prop row k) [])) in
      if text ''volid'' \<noteq> [] then text ''volid''
      else if text ''storage'' \<noteq> [] \<and> text ''volume'' \<noteq> []
      then (if CHR '':'' \<in> set (text ''volume'') then text ''volume'' else text ''storage'' @ '':'' @ text ''volume'')
      else [])"

definition isVztmplRow :: "js_record \<Rightarrow> bool" where
  "isVztmplRow row =
     (let content = to_lower (str_or (get_prop row ''content'') []); volid = storageContentVolid row in
      str_includes content ''vztmpl'' \<or> str_includes (to_lower volid) ''vztmpl'' \<or> is_archive (volidFilename volid))"

definition isIsoRow :: "js_record \<Rightarrow> bool" where
  "isIsoRow row =
     (let content = to_lower (str_or (get_prop row ''content'') []); volid = storageContentVolid row; lower = to_lower volid in
      str_includes content ''iso'' \<or> str_includes lower '':iso/'' \<or> str_includes lower ''/iso/'' \<or> is_iso_file (volidFilename volid))"

section \<open>Who uses a volume\<close>

text \<open>\<open>(vm|base|subvol)-(\d+)-(disk|cloudinit|state|efidisk|tpmstate)\<close> at the start of a lower case text.\<close>

definition disk_vmid_at :: "string \<Rightarrow> string option" where
  "disk_vmid_at s =
     (let after = (\<lambda>p. let r = drop (length p) s; ds = takeWhile is_digit r; t = dropWhile is_digit r in
        if starts_with s p \<and> ds \<noteq> [] \<and> list_ex (starts_with t) [''-disk'', ''-cloudinit'', ''-state'', ''-efidisk'', ''-tpmstate'']
        then [ds] else [])
      in case concat (map after [''vm-'', ''base-'', ''subvol-'']) of [] \<Rightarrow> None | ds # _ \<Rightarrow> Some ds)"

fun disk_vmid_later :: "string \<Rightarrow> string option" where
  "disk_vmid_later [] = None"
| "disk_vmid_later (c # s) =
     (if c = CHR ''/'' \<or> c = CHR '':''
      then (case disk_vmid_at s of Some ds \<Rightarrow> Some ds | None \<Rightarrow> disk_vmid_later s)
      else disk_vmid_later s)"

definition vmidFromVolid :: "string \<Rightarrow> int option" where
  "vmidFromVolid volid =
     (case pbVmid (parseBackupVolid volid) of Some v \<Rightarrow> Some v
      | None \<Rightarrow>
          (let lower = to_lower volid in
           case (case disk_vmid_at lower of Some ds \<Rightarrow> Some ds | None \<Rightarrow> disk_vmid_later lower) of
             None \<Rightarrow> None | Some ds \<Rightarrow> if 0 < int_of_digits ds then Some (int_of_digits ds) else None))"

datatype volume_use = Attached | Unused | NoUse

definition volumeHitsValue :: "string \<Rightarrow> js \<Rightarrow> bool" where
  "volumeHitsValue volid v =
     (let file = to_lower (volidFilename volid); full = to_lower volid; text = to_lower (str_or v []) in
      text \<noteq> [] \<and> ((full \<noteq> [] \<and> str_includes text full) \<or> (8 \<le> length file \<and> str_includes text file)))"

definition is_unused_key :: "string \<Rightarrow> bool" where
  "is_unused_key key \<longleftrightarrow> starts_with (to_lower key) ''unused'' \<and> all_digits (drop 6 key)"

definition configVolumeRole :: "js_record \<Rightarrow> string \<Rightarrow> volume_use" where
  "configVolumeRole config volid =
     (let hits = filter (\<lambda>(k, v). volumeHitsValue volid v) config in
      if list_ex (\<lambda>(k, v). \<not> is_unused_key k) hits then Attached
      else if list_ex (\<lambda>(k, v). is_unused_key k) hits then Unused else NoUse)"

definition configReferencesVolume :: "js_record \<Rightarrow> string \<Rightarrow> bool" where
  "configReferencesVolume config volid \<longleftrightarrow> configVolumeRole config volid \<noteq> NoUse"

record volume_user =
  vuKind :: guest_kind
  vuVmid :: int
  vuName :: string
  vuNode :: string

definition volume_user_key :: "volume_user \<Rightarrow> string" where
  "volume_user_key u = kind_str (vuKind u) @ '':'' @ vuNode u @ '':'' @ int_str (vuVmid u)"

definition formatVolumeUsers :: "volume_user list \<Rightarrow> string" where
  "formatVolumeUsers us =
     join '', '' (map (\<lambda>u. (if vuKind u = VM then ''VM'' else ''CT'') @ '' '' @ int_str (vuVmid u)
       @ (if vuName u = [] then [] else '' ('' @ vuName u @ '')'')) us)"

definition add_once :: "('a \<Rightarrow> 'k) \<Rightarrow> 'a list \<Rightarrow> 'a list \<Rightarrow> 'a list" where
  "add_once key seen xs = fold (\<lambda>x acc. if key x \<in> key ` set acc then acc else acc @ [x]) xs seen"

definition usersForVolids :: "(string \<Rightarrow> volume_user list) \<Rightarrow> string list \<Rightarrow> volume_user list" where
  "usersForVolids usedBy volids = add_once volume_user_key [] (concat (map usedBy volids))"

section \<open>The content of a storage\<close>

datatype content_kind = IsoContent | VztmplContent | ImagesContent | RootdirContent | BackupContent | SnippetsContent | OtherContent

definition KNOWN_CONTENT :: "(string \<times> content_kind) list" where
  "KNOWN_CONTENT = [(''iso'', IsoContent), (''vztmpl'', VztmplContent), (''images'', ImagesContent), (''rootdir'', RootdirContent),
     (''backup'', BackupContent), (''snippets'', SnippetsContent)]"

definition storageContentKind :: "js_record \<Rightarrow> content_kind" where
  "storageContentKind row =
     (let raw = trim (hd (split_on CHR '','' (to_lower (str_or (get_prop row ''content'') []))));
          volid = to_lower (storageContentVolid row)
      in case map_of KNOWN_CONTENT raw of Some k \<Rightarrow> k
         | None \<Rightarrow>
             (if str_includes volid ''/iso/'' \<or> str_includes volid '':iso/'' then IsoContent
              else if str_includes volid ''vztmpl'' then VztmplContent
              else if str_includes volid ''backup'' \<or> str_includes volid ''vzdump-'' then BackupContent
              else if str_includes volid ''snippets'' then SnippetsContent
              else if str_includes volid ''rootdir'' \<or> str_includes volid ''subvol-'' then RootdirContent
              else if str_includes volid ''vm-'' \<or> str_includes volid ''base-'' then ImagesContent
              else OtherContent))"

record content_item =
  ciVolid :: string
  ciFilename :: string
  ciContent :: content_kind
  ciSize :: jsnum
  ciCtime :: rat
  ciVmid :: "int option"
  ciFormat :: "string option"
  ciUsage :: volume_use
  ciGuestName :: "string option"
  ciGuestKind :: "guest_kind option"

text \<open>\<open>Number(v) || 0\<close>.\<close>

definition or_zero :: "jsnum \<Rightarrow> jsnum" where
  "or_zero n = (if n = NaN then Fin 0 else n)"

definition text_option :: "string \<Rightarrow> string option" where
  "text_option s = (if s = [] then None else Some s)"

definition normalizeStorageContentRow :: "js_record \<Rightarrow> content_item option" where
  "normalizeStorageContentRow row =
     (let volid = storageContentVolid row; parsed = parseBackupVolid volid; vmidRaw = js_number (get_prop row ''vmid'') in
      if volid = [] then None
      else Some \<lparr>ciVolid = volid,
        ciFilename = (if pbFilename parsed = [] then volidFilename volid else pbFilename parsed),
        ciContent = storageContentKind row,
        ciSize = or_zero (js_number (get_prop row ''size'')),
        ciCtime = backupCtimeMs (get_prop row ''ctime''),
        ciVmid = (if isFiniteNum vmidRaw \<and> num_greater vmidRaw 0 then Some (num_int vmidRaw) else pbVmid parsed),
        ciFormat = text_option (trim (str_or (get_prop row ''format'') [])),
        ciUsage = NoUse, ciGuestName = None, ciGuestKind = None\<rparr>)"

definition applyVolumeUsage :: "content_item \<Rightarrow> js \<Rightarrow> (guest_kind \<times> string) option \<Rightarrow> content_item" where
  "applyVolumeUsage item config guest =
     item\<lparr>ciUsage := (if js_truthy config then configVolumeRole (case config of JObj r \<Rightarrow> r | _ \<Rightarrow> []) (ciVolid item) else ciUsage item),
          ciGuestName := (case guest of Some (_, n) \<Rightarrow> if n = [] then ciGuestName item else Some n | None \<Rightarrow> ciGuestName item),
          ciGuestKind := (case guest of Some (k, _) \<Rightarrow> Some k | None \<Rightarrow> ciGuestKind item)\<rparr>"

datatype content_choice = AllContent | UnusedContent | OnlyContent content_kind

definition content_str :: "content_kind \<Rightarrow> string" where
  "content_str k = (case k of IsoContent \<Rightarrow> ''iso'' | VztmplContent \<Rightarrow> ''vztmpl'' | ImagesContent \<Rightarrow> ''images'' | RootdirContent \<Rightarrow> ''rootdir''
     | BackupContent \<Rightarrow> ''backup'' | SnippetsContent \<Rightarrow> ''snippets'' | OtherContent \<Rightarrow> ''other'')"

definition content_matches :: "content_choice \<Rightarrow> content_item \<Rightarrow> bool" where
  "content_matches choice item =
     (case choice of UnusedContent \<Rightarrow> ciUsage item = Unused | AllContent \<Rightarrow> True | OnlyContent k \<Rightarrow> ciContent item = k)"

definition filterStorageContent :: "content_item list \<Rightarrow> string \<Rightarrow> content_choice \<Rightarrow> content_item list" where
  "filterStorageContent items query choice =
     (let q = to_lower (trim query) in
      filter (\<lambda>item. content_matches choice item
        \<and> (q = [] \<or> str_includes (to_lower (join '' '' (filter (\<lambda>s. s \<noteq> [])
              [ciFilename item, ciVolid item, content_str (ciContent item), (case ciGuestName item of None \<Rightarrow> [] | Some n \<Rightarrow> n),
               (case ciVmid item of None \<Rightarrow> [] | Some v \<Rightarrow> if v = 0 then [] else int_str v)]))) q)) items)"

definition storageContentDeletePermission :: "content_kind \<Rightarrow> string" where
  "storageContentDeletePermission content = (if content = BackupContent then ''backup.delete'' else ''storage.delete'')"

section \<open>Listing\<close>

definition rows_of :: "js \<Rightarrow> js_error + js_record list" where
  "rows_of v =
     (case v of
        JArr xs \<Rightarrow> (if list_ex nullish xs then Inl no_property else Inr (map (\<lambda>x. case x of JObj r \<Rightarrow> r | _ \<Rightarrow> []) xs))
      | _ \<Rightarrow> Inl no_property)"

text \<open>\<open>request.catch(() => [])\<close> and its rows.\<close>

definition rows_op :: "js mesh_op \<Rightarrow> js_record list mesh_op" where
  "rows_op m = bind_op (catch_op m (\<lambda>_. return_op (JArr []))) (\<lambda>v. lift_op (rows_of v))"

definition field_str :: "js_record \<Rightarrow> string \<Rightarrow> string" where
  "field_str r k = (case str_field r k of None \<Rightarrow> [] | Some s \<Rightarrow> s)"

definition isSharedStore :: "js_record \<Rightarrow> bool" where
  "isSharedStore store \<longleftrightarrow> get_prop store ''shared'' = JNum (Fin 1) \<or> get_prop store ''shared'' = JBool True"

definition storeNodes :: "js_record \<Rightarrow> string list \<Rightarrow> string list" where
  "storeNodes store fallback =
     (let listed = filter (\<lambda>s. s \<noteq> []) (map trim (split_on CHR '','' (field_str store ''nodes''))) in
      if listed \<noteq> [] then filter (\<lambda>n. n \<in> set listed) fallback else fallback)"

type_synonym store_target = "string \<times> string"

definition target_key :: "store_target \<Rightarrow> string" where
  "target_key t = fst t @ '':'' @ snd t"

definition push_target :: "store_target \<Rightarrow> store_target list \<Rightarrow> store_target list" where
  "push_target t ts =
     (if fst t = [] \<or> snd t = [] \<or> target_key t \<in> target_key ` set ts then ts else ts @ [t])"

text \<open>The first node of a shared storage, else of the host; no node at all pushes nothing.\<close>

definition targets_of_store :: "string list \<Rightarrow> js_record \<Rightarrow> store_target list" where
  "targets_of_store nodes store =
     (let storage = field_str store ''storage''; own = storeNodes store nodes in
      if isSharedStore store
      then (case own @ nodes of [] \<Rightarrow> [] | n # _ \<Rightarrow> [(n, storage)])
      else map (\<lambda>n. (n, storage)) own)"

definition holds_content :: "string \<Rightarrow> js_record \<Rightarrow> bool" where
  "holds_content content store \<longleftrightarrow> str_includes (field_str store ''content'') content"

definition resolveStoreTargets :: "px_env \<Rightarrow> proxmox_config \<Rightarrow> string list \<Rightarrow> string \<Rightarrow> store_target list mesh_op" where
  "resolveStoreTargets x c nodes content =
     bind_op (rows_op (storage_list x c None)) (\<lambda>cluster.
     let eligible = filter (holds_content content) cluster in
     if eligible \<noteq> []
     then return_op (fold push_target (concat (map (targets_of_store nodes) eligible)) [])
     else bind_op (map_op (\<lambda>node. bind_op (rows_op (storage_list x c (Some node))) (\<lambda>rows.
              return_op (map (\<lambda>r. (node, field_str r ''storage'')) (filter (holds_content content) rows)))) nodes) (\<lambda>found.
          return_op (fold push_target (concat found) [])))"

definition listStorageContentRows :: "px_env \<Rightarrow> proxmox_config \<Rightarrow> string list \<Rightarrow> string \<Rightarrow> (string \<times> string \<times> js_record) list mesh_op" where
  "listStorageContentRows x c nodes content =
     bind_op (resolveStoreTargets x c nodes content) (\<lambda>targets.
     bind_op (map_op (\<lambda>(node, storage). bind_op (rows_op (storage_content x c node storage (Some content))) (\<lambda>rows.
        return_op (map (\<lambda>r. (node, storage, r)) rows))) targets) (\<lambda>batches.
     return_op (concat batches)))"

definition VOLUME_LIST_TTL_MS :: int where
  "VOLUME_LIST_TTL_MS = 20000"

definition volume_list_key :: "proxmox_config \<Rightarrow> string \<Rightarrow> string" where
  "volume_list_key c content = normalizeBaseUrl (pcUrl c) @ '':'' @ content"

definition clearVolumeListCache :: "proxmox_config \<Rightarrow> mesh \<Rightarrow> mesh" where
  "clearVolumeListCache c st =
     st\<lparr>msWire := (msWire st)\<lparr>wrVolumes :=
       filter (\<lambda>(k, _). \<not> starts_with k (normalizeBaseUrl (pcUrl c) @ '':'')) (wrVolumes (msWire st))\<rparr>\<rparr>"

definition remember_volumes :: "string \<Rightarrow> string list \<Rightarrow> string list \<Rightarrow> mesh \<Rightarrow> mesh" where
  "remember_volumes key storages volids st =
     st\<lparr>msWire := (msWire st)\<lparr>wrVolumes := AList.update key (wire_now st, storages, volids) (wrVolumes (msWire st))\<rparr>\<rparr>"

text \<open>The rows of one storage; without any the whole storage is searched.\<close>

definition volumes_of_target :: "px_env \<Rightarrow> proxmox_config \<Rightarrow> string \<Rightarrow> store_target \<Rightarrow> string list mesh_op" where
  "volumes_of_target x c content = (\<lambda>(node, storage).
     bind_op (rows_op (storage_content x c node storage (Some content))) (\<lambda>rows.
     bind_op (if rows \<noteq> [] then return_op rows
              else bind_op (rows_op (storage_content x c node storage None)) (\<lambda>every.
                   return_op (filter (if content = ''iso'' then isIsoRow else isVztmplRow) every))) (\<lambda>found.
     return_op (filter (\<lambda>v. v \<noteq> []) (map storageContentVolid found)))))"

definition collectStorageVolumes :: "px_env \<Rightarrow> proxmox_config \<Rightarrow> string list \<Rightarrow> string \<Rightarrow> (string list \<times> string list) mesh_op" where
  "collectStorageVolumes x c nodes content st =
     (let key = volume_list_key c content;
          fetch = bind_op (resolveStoreTargets x c nodes content) (\<lambda>targets.
                  bind_op (map_op (volumes_of_target x c content) targets) (\<lambda>batches.
                  let storages = uniq (map snd targets); volids = uniq (concat batches) in
                  bind_op (write_op (remember_volumes key storages volids)) (\<lambda>_. return_op (storages, volids))))
      in case map_of (wrVolumes (msWire st)) key of
           Some (time, found) \<Rightarrow> (if wire_now st - time < VOLUME_LIST_TTL_MS then (Inr found, st) else fetch st)
         | None \<Rightarrow> fetch st)"

definition guests_by_vmid :: "guest_item list \<Rightarrow> guest_item list \<Rightarrow> (int \<times> guest_kind \<times> guest_item) list" where
  "guests_by_vmid vms containers =
     fold (\<lambda>(k, g) m. if giVmid g = 0 then m else AList.update (giVmid g) (k, g) m) (map (Pair VM) vms @ map (Pair LXC) containers) []"

definition config_of_vmid :: "px_env \<Rightarrow> proxmox_config \<Rightarrow> (int \<times> guest_kind \<times> guest_item) list \<Rightarrow> int \<Rightarrow> (int \<times> js) list mesh_op" where
  "config_of_vmid x c guests vmid =
     (case map_of guests vmid of None \<Rightarrow> return_op []
      | Some (kind, g) \<Rightarrow> bind_op (or_null (config_call kind x c (giNode g) vmid)) (\<lambda>config.
          return_op (if js_truthy config then [(vmid, config)] else [])))"

definition item_vmid :: "content_item \<Rightarrow> int option" where
  "item_vmid item = (case ciVmid item of None \<Rightarrow> None | Some v \<Rightarrow> if v = 0 then None else Some v)"

definition listStorageContent :: "px_env \<Rightarrow> proxmox_config \<Rightarrow> string \<Rightarrow> string \<Rightarrow> string \<Rightarrow> content_item list mesh_op" where
  "listStorageContent x c hostId node storage =
     bind_op (storage_content x c node storage None) (\<lambda>v.
     bind_op (lift_op (rows_of v)) (\<lambda>rows.
     let items = List.map_filter normalizeStorageContentRow rows in
     bind_op (catch_op (bind_op (loadHostInventory x c hostId) (\<lambda>found. return_op (guests_by_vmid (inVms found) (inContainers found))))
       (\<lambda>_. return_op [])) (\<lambda>guests.
     bind_op (map_op (config_of_vmid x c guests) (uniq (List.map_filter item_vmid items))) (\<lambda>configs.
     return_op (map (\<lambda>item. applyVolumeUsage item
         (case item_vmid item of None \<Rightarrow> JUndef | Some v \<Rightarrow> (case map_of (concat configs) v of None \<Rightarrow> JUndef | Some r \<Rightarrow> r))
         (case item_vmid item of None \<Rightarrow> None | Some v \<Rightarrow> map_option (\<lambda>(k, g). (k, guest_item.giName g)) (map_of guests v))) items)))))"

section \<open>The route\<close>

definition storage_content_GET :: "px_env \<Rightarrow> platform \<Rightarrow> host_env \<Rightarrow> session_user \<Rightarrow> string \<Rightarrow> string \<Rightarrow> string \<Rightarrow> content_item list mesh_op" where
  "storage_content_GET x pf env user hostId node storage =
     bind_op (guard_op (trim node \<noteq> [] \<and> trim storage \<noteq> []) (ValidationError ''Node und Storage fehlen'')) (\<lambda>_.
     withHostClient pf env hostId user (\<lambda>c h. listStorageContent x c hostId (trim node) (trim storage)))"

definition volume_kind :: "string \<Rightarrow> content_kind" where
  "volume_kind volid =
     storageContentKind [(''volid'', JStr volid),
       (''content'', JStr (if str_includes (pbVolume (parseBackupVolid volid)) ''backup'' then ''backup'' else []))]"

text \<open>The checks of a deletion.\<close>

definition content_gate :: "session_user \<Rightarrow> string \<Rightarrow> string \<Rightarrow> string \<Rightarrow> unit mesh_op" where
  "content_gate user hostId node volid =
     (let parsed = parseBackupVolid volid in
      bind_op (guard_op (node \<noteq> [] \<and> volid \<noteq> []) (ZodError [])) (\<lambda>_.
      bind_op (guard_op (pbStorage parsed \<noteq> [] \<and> pbVolume parsed \<noteq> []) (ValidationError (''Ung'' @ CHR 0xFC # ''ltiges Volume''))) (\<lambda>_.
      guard_op (userHasPermission (Some (holder_of user)) (storageContentDeletePermission (volume_kind volid)) (Some hostId) None)
        not_permitted)))"

definition storage_content_POST :: "px_env \<Rightarrow> platform \<Rightarrow> host_env \<Rightarrow> session_user \<Rightarrow> string \<Rightarrow> string \<Rightarrow> string \<Rightarrow> string mesh_op" where
  "storage_content_POST x pf env user hostId node volid =
     (let parsed = parseBackupVolid volid in
      bind_op (content_gate user hostId node volid) (\<lambda>_.
      bind_op (withHostClient pf env hostId user (\<lambda>c h.
        bind_op (storage_deleteContent x c node (pbStorage parsed) (pbVolume parsed)) (\<lambda>_.
        audit_guest user hostId ''STORAGE_CONTENT_DELETED'' (if pbFilename parsed = [] then volid else pbFilename parsed)))) (\<lambda>_.
      return_op volid)))"

end
