(* ===== verification/BackupService.thy ===== *)
theory BackupService imports StorageContent begin

text \<open>
  Backups of a host: \<^verbatim>\<open>server/services/backup-service.ts\<close> and the routes
  \<^verbatim>\<open>app/api/hosts/[id]/backups/route.ts\<close> and \<^verbatim>\<open>backups/files/route.ts\<close>.  The random part of
  the name of a restore job is a parameter; notices carry topic, level and name.  Variables that the
  error path reads are in \<open>wrVars\<close>.
\<close>

section \<open>What there is\<close>

record backup_guest =
  bgVmid :: int
  bgName :: string
  bgKind :: guest_kind
  bgNode :: string
  bgStatus :: string

record backup_overview =
  boNodes :: "string list"
  boPrimaryNode :: string
  boBackupStorages :: "string list"
  boDiskStorages :: "string list"
  boJobs :: "backup_job list"
  boGuests :: "backup_guest list"

definition backup_guest_of :: "guest_kind \<Rightarrow> guest_item \<Rightarrow> backup_guest" where
  "backup_guest_of kind g =
     \<lparr>bgVmid = giVmid g, bgName = guest_item.giName g, bgKind = kind, bgNode = giNode g, bgStatus = giStatus g\<rparr>"

definition backup_guests :: "session_user \<Rightarrow> string \<Rightarrow> inventory \<Rightarrow> backup_guest list" where
  "backup_guests user hostId found =
     sort_key bgVmid
       (map (backup_guest_of VM) (filterGuestsForUser user hostId VM giVmid (inVms found))
        @ map (backup_guest_of LXC) (filterGuestsForUser user hostId LXC giVmid (inContainers found)))"

text \<open>Storages with their content: from the inventory, else from a request of their own.\<close>

definition inventory_stores :: "inventory \<Rightarrow> (string \<times> string) list" where
  "inventory_stores found =
     map (\<lambda>s. (siStorage s, the (siContent s))) (filter (\<lambda>s. truthy (siContent s)) (inStorage found))"

definition known_stores :: "px_env \<Rightarrow> proxmox_config \<Rightarrow> inventory \<Rightarrow> (string \<times> string) list mesh_op" where
  "known_stores x c found =
     (if inventory_stores found \<noteq> [] then return_op (inventory_stores found)
      else bind_op (rows_op (storage_list x c None)) (\<lambda>rows.
           return_op (map (\<lambda>r. (field_str r ''storage'', field_str r ''content'')) rows)))"

definition stores_with :: "string list \<Rightarrow> (string \<times> string) list \<Rightarrow> string list" where
  "stores_with wanted stores = uniq (map fst (filter (\<lambda>(_, content). list_ex (str_includes content) wanted) stores))"

definition array_of :: "js \<Rightarrow> js list" where
  "array_of v = (case v of JArr xs \<Rightarrow> xs | _ \<Rightarrow> [])"

definition as_record :: "js \<Rightarrow> js_record" where
  "as_record v = (case v of JObj r \<Rightarrow> r | _ \<Rightarrow> [])"

definition overview_of :: "px_env \<Rightarrow> session_user \<Rightarrow> string \<Rightarrow> proxmox_config \<Rightarrow> backup_overview mesh_op" where
  "overview_of x user hostId c =
     bind_op (loadHostInventory x c hostId) (\<lambda>found.
     bind_op (catch_op (backup_jobs x c) (\<lambda>_. return_op (JArr []))) (\<lambda>jobsRaw.
     bind_op (known_stores x c found) (\<lambda>stores.
     let names = inventoryNodeNames found in
     return_op
       \<lparr>boNodes = names, boPrimaryNode = (case names of [] \<Rightarrow> [] | n # _ \<Rightarrow> n),
        boBackupStorages = stores_with [''backup''] stores,
        boDiskStorages = stores_with [''images'', ''rootdir''] stores,
        boJobs = filter (\<lambda>j. bjId j \<noteq> []) (map (\<lambda>j. normalizeBackupJob (as_record j)) (array_of jobsRaw)),
        boGuests = backup_guests user hostId found\<rparr>)))"

definition listHostBackups :: "px_env \<Rightarrow> platform \<Rightarrow> host_env \<Rightarrow> string \<Rightarrow> session_user \<Rightarrow> backup_overview mesh_op" where
  "listHostBackups x pf env hostId user = withHostClient pf env hostId user (\<lambda>c h. overview_of x user hostId c)"

definition text_or_none :: "js \<Rightarrow> string option" where
  "text_or_none v = (if js_truthy v then Some (js_string v) else None)"

definition file_of_row :: "string \<times> string \<times> js_record \<Rightarrow> backup_file" where
  "file_of_row = (\<lambda>(node, storage, row).
     let volid = str_or (get_prop row ''volid'') []; parsed = parseBackupVolid volid; own = num_int (js_number (get_prop row ''vmid'')) in
     \<lparr>bfVolid = volid, bfNode = node,
      bfStorage = (if pbStorage parsed \<noteq> [] then pbStorage parsed else str_or (get_prop row ''storage'') storage),
      bfVmid = (case pbVmid parsed of Some v \<Rightarrow> Some v | None \<Rightarrow> if own = 0 then None else Some own),
      bfKind = pbKind parsed,
      bfSize = or_zero (js_number (js_or (get_prop row ''size'') (JNum (Fin 0)))),
      bfCtime = backupCtimeMs (get_prop row ''ctime''),
      bfNotes = text_or_none (get_prop row ''notes''),
      bfFormat = text_or_none (get_prop row ''format'')\<rparr>)"

definition backup_files_of :: "(string \<times> string \<times> js_record) list \<Rightarrow> backup_file list" where
  "backup_files_of rows = newest_first (add_once bfVolid [] (filter (\<lambda>f. bfVolid f \<noteq> []) (map file_of_row rows)))"

definition files_for_user :: "session_user \<Rightarrow> string \<Rightarrow> backup_file list \<Rightarrow> backup_file list" where
  "files_for_user user hostId files =
     (case allowedGuests user of None \<Rightarrow> files
      | Some gs \<Rightarrow>
          (let vmids = map refVmid (filter (\<lambda>g. refHostId g = hostId) gs) in
           filter (\<lambda>f. case bfVmid f of None \<Rightarrow> False | Some v \<Rightarrow> v \<in> set vmids) files))"

definition listHostBackupFiles :: "px_env \<Rightarrow> platform \<Rightarrow> host_env \<Rightarrow> string \<Rightarrow> session_user \<Rightarrow> backup_file list mesh_op" where
  "listHostBackupFiles x pf env hostId user =
     withHostClient pf env hostId user (\<lambda>c h.
       bind_op (loadHostInventory x c hostId) (\<lambda>found.
       bind_op (listStorageContentRows x c (inventoryNodeNames found) ''backup'') (\<lambda>rows.
       return_op (files_for_user user hostId (backup_files_of rows)))))"

section \<open>Backups without a guest\<close>

record cleanup_report =
  crFound :: nat
  crVolids :: "string list"
  crErrors :: "(string \<times> string) list"

definition ORPHAN_DELETE_LIMIT :: nat where
  "ORPHAN_DELETE_LIMIT = 200"

definition ident_of :: "backup_guest \<Rightarrow> guest_ident" where
  "ident_of g = \<lparr>idVmid = bgVmid g, idKind = bgKind g\<rparr>"

definition delete_orphan :: "px_env \<Rightarrow> proxmox_config \<Rightarrow> backup_file \<Rightarrow> (string \<times> string option) mesh_op" where
  "delete_orphan x c f =
     (let parsed = parseBackupVolid (bfVolid f) in
      if pbStorage parsed = [] \<or> pbVolume parsed = [] then return_op (bfVolid f, Some ''invalid'')
      else catch_op
        (bind_op (storage_deleteContent x c (bfNode f) (pbStorage parsed) (pbVolume parsed)) (\<lambda>_. return_op (bfVolid f, None)))
        (\<lambda>e. return_op (bfVolid f, Some (error_message e))))"

definition cleanup_report_of :: "nat \<Rightarrow> (string \<times> string option) list \<Rightarrow> cleanup_report" where
  "cleanup_report_of n results =
     \<lparr>crFound = n, crVolids = map fst (filter (\<lambda>(_, e). e = None) results),
      crErrors = map (\<lambda>(v, e). (v, the e)) (filter (\<lambda>(_, e). e \<noteq> None) results)\<rparr>"

definition cleanupOrphanBackupFiles :: "px_env \<Rightarrow> platform \<Rightarrow> host_env \<Rightarrow> string \<Rightarrow> session_user \<Rightarrow> cleanup_report mesh_op" where
  "cleanupOrphanBackupFiles x pf env hostId user =
     bind_op (listHostBackups x pf env hostId user) (\<lambda>overview.
     bind_op (listHostBackupFiles x pf env hostId user) (\<lambda>files.
     let orphans = take ORPHAN_DELETE_LIMIT (orphanBackupFiles files (map ident_of (boGuests overview))) in
     if orphans = [] then return_op (cleanup_report_of 0 [])
     else withHostClient pf env hostId user (\<lambda>c h.
          bind_op (map_op (delete_orphan x c) orphans) (\<lambda>results.
          return_op (cleanup_report_of (length orphans) results)))))"

section \<open>Jobs\<close>

record job_input =
  jiEnabled :: "bool option"
  jiSchedule :: string
  jiStorage :: string
  jiMode :: "string option"
  jiCompress :: "string option"
  jiAll :: "bool option"
  jiVmid :: "string option"
  jiNode :: "string option"
  jiKeepLast :: "int option"

definition jobBody :: "string option \<Rightarrow> job_input \<Rightarrow> js_error + js_record" where
  "jobBody jobId i =
     (let vmid = without_ws (opt_str (jiVmid i)); all = (jiAll i = Some True) in
      if \<not> all \<and> vmid = [] then Inl (ValidationError (''Mindestens eine VM oder einen Container ausw'' @ CHR 0xE4 # ''hlen.''))
      else Inr (compactProxmoxBody
        ([(''id'', opt_js_str jobId), (''enabled'', js_bit (jiEnabled i \<noteq> Some False)), (''storage'', JStr (jiStorage i)),
          (''mode'', JStr (case jiMode i of None \<Rightarrow> ''snapshot'' | Some m \<Rightarrow> m)),
          (''compress'', JStr (case jiCompress i of None \<Rightarrow> ''zstd'' | Some m \<Rightarrow> m)),
          (''all'', if all then js_bit True else JUndef), (''vmid'', if all then JUndef else JStr vmid),
          (''node'', if truthy (jiNode i) then JStr (the (jiNode i)) else JUndef),
          (''prune-backups'', pruneKeepLast (jiKeepLast i)),
          (''notes-template'', JStr (CHR 0x7B # CHR 0x7B # ''guestname'' @ [CHR 0x7D, CHR 0x7D]))]
         @ jobSchedulePayload (jiSchedule i))))"

definition replace_job :: "px_env \<Rightarrow> proxmox_config \<Rightarrow> string \<Rightarrow> js_record \<Rightarrow> unit mesh_op" where
  "replace_job x c jobId payload =
     bind_op (backup_deleteJob x c jobId) (\<lambda>_.
     bind_op (backup_createJob x c (AList.update ''id'' (JStr jobId) payload)) (\<lambda>_. return_op ()))"

definition find_job :: "string \<Rightarrow> js \<Rightarrow> js option" where
  "find_job jobId jobs = find (\<lambda>row. js_string (js_field row ''id'') = jobId) (array_of jobs)"

definition update_payload :: "js \<Rightarrow> js_record \<Rightarrow> js_record" where
  "update_payload existing payload =
     (let maxfiles = js_field existing ''maxfiles'' in
      if \<not> nullish maxfiles \<and> trim (js_string maxfiles) \<noteq> [] then AList.update ''delete'' (JStr ''maxfiles'') payload else payload)"

definition upsertBackupJob :: "px_env \<Rightarrow> proxmox_config \<Rightarrow> string \<Rightarrow> bool \<Rightarrow> job_input \<Rightarrow> unit mesh_op" where
  "upsertBackupJob x c jobId renew i =
     bind_op (lift_op (jobBody (if renew then None else Some jobId) i)) (\<lambda>payload.
     if \<not> renew
     then bind_op (backup_createJob x c (AList.update ''id'' (JStr jobId) payload)) (\<lambda>_. return_op ())
     else bind_op (catch_op (backup_jobs x c) (\<lambda>_. return_op (JArr []))) (\<lambda>jobs.
       let existing = (case find_job jobId jobs of None \<Rightarrow> JUndef | Some row \<Rightarrow> row) in
       if trim (str_or (js_field existing ''starttime'') []) \<noteq> [] then replace_job x c jobId payload
       else catch_op
         (bind_op (backup_updateJob x c jobId (update_payload existing payload)) (\<lambda>_. return_op ()))
         (\<lambda>e. if isBackupJobScheduleConflict (error_message e) then replace_job x c jobId payload else throw_op e)))"

record started_job =
  sjUpid :: js
  sjJob :: backup_job
  sjNode :: string

definition runBackupJob :: "px_env \<Rightarrow> proxmox_config \<Rightarrow> string \<Rightarrow> string \<Rightarrow> string option \<Rightarrow> started_job mesh_op" where
  "runBackupJob x c hostId jobId nodeHint =
     bind_op (backup_jobs x c) (\<lambda>jobs.
     bind_op (need_op (OtherError ''Backup-Job nicht gefunden'') (find_job jobId jobs)) (\<lambda>raw.
     let job = normalizeBackupJob (as_record raw) in
     bind_op (loadHostInventory x c hostId) (\<lambda>found.
     let node = (if truthy nodeHint then the nodeHint else if bjNode job \<noteq> [] then bjNode job
                 else case inventoryNodeNames found of [] \<Rightarrow> [] | n # _ \<Rightarrow> n) in
     bind_op (guard_op (node \<noteq> []) (OtherError (''Kein Node f'' @ CHR 0xFC # ''r das Backup''))) (\<lambda>_.
     bind_op (backup_start x c node (compactProxmoxBody ((''job-id'', JStr jobId) # vzdumpGuestParams (bjAll job) (bjVmid job)))) (\<lambda>upid.
     return_op \<lparr>sjUpid = upid, sjJob = job, sjNode = node\<rparr>)))))"

section \<open>Restoring\<close>

record restore_input =
  riHostId :: string
  riNode :: string
  riVolid :: string
  riVmid :: int
  riStorage :: string
  riForce :: bool
  riStartAfter :: bool
  riForceStop :: bool

text \<open>The guest with that VMID: of the kind of the backup, else of the other one.\<close>

definition listed_guest :: "guest_kind \<Rightarrow> int \<Rightarrow> guest_item list \<times> guest_item list \<Rightarrow> (guest_kind \<times> guest_item) option" where
  "listed_guest kind vmid = (\<lambda>(vms, containers).
     let ct = map_option (Pair LXC) (find (\<lambda>g. giVmid g = vmid) containers);
         vm = map_option (Pair VM) (find (\<lambda>g. giVmid g = vmid) vms)
     in if kind = LXC then (case ct of Some r \<Rightarrow> Some r | None \<Rightarrow> vm) else (case vm of Some r \<Rightarrow> Some r | None \<Rightarrow> ct))"

definition prepareGuestForRestore :: "px_env \<Rightarrow> proxmox_config \<Rightarrow> guest_kind \<Rightarrow> restore_input \<Rightarrow> bool mesh_op" where
  "prepareGuestForRestore x c wanted i =
     bind_op (catch_op (bind_op (loadHostInventory x c (riHostId i)) (\<lambda>found. return_op (inVms found, inContainers found)))
       (\<lambda>_. return_op ([], []))) (\<lambda>listed.
     let found = listed_guest wanted (riVmid i) listed;
         kind = (case found of None \<Rightarrow> wanted | Some (k, _) \<Rightarrow> k);
         node = (case found of None \<Rightarrow> riNode i | Some (_, g) \<Rightarrow> if giNode g = [] then riNode i else giNode g) in
     bind_op (case found of Some (_, g) \<Rightarrow> return_op (Some (giStatus g)) | None \<Rightarrow> guestStatus x c kind node (riVmid i)) (\<lambda>status.
     if \<not> guestNeedsStopForRestore status then return_op True
     else bind_op (catch_op (bind_op ((if riForceStop i then stop_call kind else shutdown_call kind) x c node (riVmid i)) (\<lambda>_. return_op ()))
            (\<lambda>_. return_op ())) (\<lambda>_.
          waitUntilGuestStopped x c kind node (riVmid i) 2500 500)))"

definition restore_kind :: "string \<Rightarrow> guest_kind" where
  "restore_kind volid = (case pbKind (parseBackupVolid volid) of None \<Rightarrow> VM | Some k \<Rightarrow> k)"

datatype restore_reply = RestoreStopping | RestoreStarted js

definition restoreBackup :: "px_env \<Rightarrow> proxmox_config \<Rightarrow> restore_input \<Rightarrow> restore_reply mesh_op" where
  "restoreBackup x c i =
     (let kind = restore_kind (riVolid i);
          payload = compactProxmoxBody
            [(''vmid'', JNum (of_int_num (riVmid i))), (''storage'', JStr (riStorage i)),
             (''force'', if riForce i then js_bit True else JUndef), (''start'', if riStartAfter i then js_bit True else JUndef)]
      in bind_op (if riForce i then prepareGuestForRestore x c kind i else return_op True) (\<lambda>ready.
         if \<not> ready then return_op RestoreStopping
         else bind_op
           (if kind = LXC
            then backup_restoreLxc x c (riNode i) (payload @ [(''ostemplate'', JStr (riVolid i)), (''restore'', js_bit True)])
            else backup_restoreVm x c (riNode i) (payload @ [(''archive'', JStr (riVolid i))])) (\<lambda>upid.
         return_op (RestoreStarted upid))))"

section \<open>The route\<close>

datatype backup_action =
    CreateJob "string option" job_input
  | UpdateJob string job_input
  | DeleteJob string
  | RunJob string "string option"
  | RunBackup string string string "string option" "string option"
  | Restore string string int string "bool option" "bool option" "int option"
  | DeleteFile string string
  | CleanupOrphans

definition backup_action_str :: "backup_action \<Rightarrow> string" where
  "backup_action_str b =
     (case b of CreateJob _ _ \<Rightarrow> ''create-job'' | UpdateJob _ _ \<Rightarrow> ''update-job'' | DeleteJob _ \<Rightarrow> ''delete-job'' | RunJob _ _ \<Rightarrow> ''run-job''
      | RunBackup _ _ _ _ _ \<Rightarrow> ''run'' | Restore _ _ _ _ _ _ _ \<Rightarrow> ''restore'' | DeleteFile _ _ \<Rightarrow> ''delete-file''
      | CleanupOrphans \<Rightarrow> ''cleanup-orphans'')"

definition mode_ok :: "string option \<Rightarrow> bool" where
  "mode_ok m = (case m of None \<Rightarrow> True | Some s \<Rightarrow> s \<in> {''snapshot'', ''suspend'', ''stop''})"

definition job_fields_ok :: "job_input \<Rightarrow> bool" where
  "job_fields_ok i \<longleftrightarrow>
     jiSchedule i \<noteq> [] \<and> jiStorage i \<noteq> [] \<and> mode_ok (jiMode i) \<and> (case jiKeepLast i of None \<Rightarrow> True | Some k \<Rightarrow> 0 \<le> k)"

definition backupSchema :: "backup_action \<Rightarrow> bool" where
  "backupSchema b =
     (case b of
        CreateJob _ i \<Rightarrow> job_fields_ok i
      | UpdateJob jobId i \<Rightarrow> jobId \<noteq> [] \<and> job_fields_ok i
      | DeleteJob jobId \<Rightarrow> jobId \<noteq> []
      | RunJob jobId node \<Rightarrow> jobId \<noteq> []
      | RunBackup node vmid storage mode compress \<Rightarrow> node \<noteq> [] \<and> vmid \<noteq> [] \<and> storage \<noteq> [] \<and> mode_ok mode
      | Restore node volid vmid storage force startAfter attempt \<Rightarrow>
          node \<noteq> [] \<and> volid \<noteq> [] \<and> 0 < vmid \<and> storage \<noteq> [] \<and> (case attempt of None \<Rightarrow> True | Some n \<Rightarrow> 1 \<le> n)
      | DeleteFile node volid \<Rightarrow> node \<noteq> [] \<and> volid \<noteq> []
      | CleanupOrphans \<Rightarrow> True)"

fun base36 :: "nat \<Rightarrow> string" where
  "base36 n = (let d = n mod 36; c = (if d < 10 then digit_char d else char_of (87 + d)) in
     if n < 36 then [c] else base36 (n div 36) @ [c])"

declare base36.simps [simp del]

definition newBackupJobId :: "int \<Rightarrow> string" where
  "newBackupJobId now = ''backup-'' @ base36 (nat now)"

datatype backup_reply =
    JobReply string
  | TaskReply js string
  | AcceptedReply string
  | FileReply string
  | CleanupReply cleanup_report

definition set_notify :: "string option \<Rightarrow> string \<Rightarrow> unit mesh_op" where
  "set_notify name node =
     bind_op (set_var ''notifyName'' (opt_js_str name)) (\<lambda>_. set_var ''notifyNode'' (JStr node))"

definition run_backup :: "px_env \<Rightarrow> proxmox_config \<Rightarrow> string \<Rightarrow> string \<Rightarrow> string \<Rightarrow> string option \<Rightarrow> string option \<Rightarrow> backup_reply mesh_op" where
  "run_backup x c node vmid storage mode compress =
     bind_op (lookupGuestName x c node (case day_parts [] vmid of [] \<Rightarrow> NaN | v # _ \<Rightarrow> toNumber v)) (\<lambda>name.
     bind_op (set_notify name node) (\<lambda>_.
     bind_op (backup_start x c node (compactProxmoxBody
        [(''vmid'', JStr (without_ws vmid)), (''storage'', JStr storage),
         (''mode'', JStr (case mode of None \<Rightarrow> ''snapshot'' | Some m \<Rightarrow> m)),
         (''compress'', JStr (case compress of None \<Rightarrow> ''zstd'' | Some m \<Rightarrow> m))])) (\<lambda>upid.
     return_op (TaskReply upid node))))"

text \<open>\<open>enqueueRestoreJob\<close> hands the job over; what becomes of it is in \<^theory_text>\<open>RestoreJobs\<close>.\<close>

definition accept_restore :: "string \<Rightarrow> restore_order \<Rightarrow> backup_reply mesh_op" where
  "accept_restore random order =
     bind_op (read_op (\<lambda>st. ''restore-'' @ base36 (nat (wire_now st)) @ ''-'' @ random)) (\<lambda>jobId.
     bind_op (change_wire (\<lambda>w. w\<lparr>wrDeferred := wrDeferred w @ [RestoreAccepted jobId order]\<rparr>)) (\<lambda>_.
     return_op (AcceptedReply jobId)))"

definition run_restore ::
  "px_env \<Rightarrow> string \<Rightarrow> session_user \<Rightarrow> string \<Rightarrow> proxmox_config \<Rightarrow> host_row \<Rightarrow> string \<Rightarrow> string \<Rightarrow> int \<Rightarrow> string \<Rightarrow> bool option \<Rightarrow> bool option \<Rightarrow> backup_reply mesh_op" where
  "run_restore x random user hostId c host node volid vmid storage force startAfter =
     bind_op (lookupGuestName x c node (of_int_num vmid)) (\<lambda>found.
     let name = (case found of Some n \<Rightarrow> n | None \<Rightarrow> pbFilename (parseBackupVolid volid)) in
     bind_op (set_notify (Some name) node) (\<lambda>_.
     accept_restore random
       \<lparr>roUser = user, roHostId = hostId, roHostName = hsName host, roNode = node, roVolid = volid, roVmid = vmid,
        roStorage = storage, roForce = force, roStartAfter = startAfter, roName = name\<rparr>))"

definition delete_file :: "px_env \<Rightarrow> proxmox_config \<Rightarrow> string \<Rightarrow> string \<Rightarrow> backup_reply mesh_op" where
  "delete_file x c node volid =
     (let parsed = parseBackupVolid volid in
      bind_op (guard_op (pbStorage parsed \<noteq> [] \<and> pbVolume parsed \<noteq> []) (ValidationError (''Ung'' @ CHR 0xFC # ''ltiges Backup-Volume''))) (\<lambda>_.
      bind_op (storage_deleteContent x c node (pbStorage parsed) (pbVolume parsed)) (\<lambda>_. return_op (FileReply volid))))"

definition run_job :: "px_env \<Rightarrow> proxmox_config \<Rightarrow> string \<Rightarrow> string \<Rightarrow> string option \<Rightarrow> backup_reply mesh_op" where
  "run_job x c hostId jobId node =
     bind_op (runBackupJob x c hostId jobId node) (\<lambda>started.
     let job = sjJob started in
     bind_op (set_notify (Some (if bjAll job then ''Alle G'' @ CHR 0xE4 # ''ste'' else if bjVmid job \<noteq> [] then bjVmid job else bjId job))
       (sjNode started)) (\<lambda>_.
     return_op (TaskReply (sjUpid started) (sjNode started))))"

definition backup_switch :: "px_env \<Rightarrow> string \<Rightarrow> session_user \<Rightarrow> string \<Rightarrow> backup_action \<Rightarrow> proxmox_config \<Rightarrow> host_row \<Rightarrow> backup_reply mesh_op" where
  "backup_switch x random user hostId b c host =
     (case b of
        CreateJob jobId i \<Rightarrow>
          bind_op (read_op (\<lambda>st. if trim (opt_str jobId) = [] then newBackupJobId (wire_now st) else trim (opt_str jobId))) (\<lambda>newId.
          bind_op (upsertBackupJob x c newId False i) (\<lambda>_. return_op (JobReply newId)))
      | UpdateJob jobId i \<Rightarrow> bind_op (upsertBackupJob x c jobId True i) (\<lambda>_. return_op (JobReply jobId))
      | DeleteJob jobId \<Rightarrow> bind_op (backup_deleteJob x c jobId) (\<lambda>_. return_op (JobReply jobId))
      | RunJob jobId node \<Rightarrow> run_job x c hostId jobId node
      | RunBackup node vmid storage mode compress \<Rightarrow> run_backup x c node vmid storage mode compress
      | Restore node volid vmid storage force startAfter _ \<Rightarrow> run_restore x random user hostId c host node volid vmid storage force startAfter
      | DeleteFile node volid \<Rightarrow> delete_file x c node volid
      | CleanupOrphans \<Rightarrow> throw_op (ValidationError ''Unbekannte Aktion''))"

definition backup_failed :: "backup_action \<Rightarrow> js_error \<Rightarrow> 'a mesh_op" where
  "backup_failed b e =
     bind_op (read_op (\<lambda>st. opt_str (js_str_of (get_var ''notifyName'' st)))) (\<lambda>name.
     bind_op (case b of RunBackup _ _ _ _ _ \<Rightarrow> notice_op ''backup.failed'' ''error'' name
        | RunJob _ _ \<Rightarrow> notice_op ''backup.failed'' ''error'' name
        | Restore _ _ _ _ _ _ _ \<Rightarrow> notice_op ''backup.restored'' ''error'' name
        | _ \<Rightarrow> return_op ()) (\<lambda>_.
     throw_op e))"

definition backup_audit :: "string \<Rightarrow> backup_action \<Rightarrow> string \<times> string" where
  "backup_audit hostId b =
     (case b of
        CreateJob (Some jobId) _ \<Rightarrow> (''BACKUP_JOB_CREATED'', jobId)
      | CreateJob None i \<Rightarrow> (''BACKUP_JOB_CREATED'', case jiVmid i of Some v \<Rightarrow> v | None \<Rightarrow> hostId)
      | UpdateJob jobId _ \<Rightarrow> (''BACKUP_JOB_UPDATED'', jobId)
      | DeleteJob jobId \<Rightarrow> (''BACKUP_JOB_DELETED'', jobId)
      | RunJob jobId _ \<Rightarrow> (''BACKUP_STARTED'', jobId)
      | RunBackup _ vmid _ _ _ \<Rightarrow> (''BACKUP_STARTED'', vmid)
      | Restore _ volid _ _ _ _ _ \<Rightarrow> (''BACKUP_RESTORED'', volid)
      | DeleteFile _ volid \<Rightarrow> (''BACKUP_FILE_DELETED'', volid)
      | CleanupOrphans \<Rightarrow> (''BACKUP_FILE_DELETED'', hostId))"

text \<open>A backup that was started is followed after the response.\<close>

definition follow_run :: "session_user \<Rightarrow> string \<Rightarrow> backup_action \<Rightarrow> backup_reply \<Rightarrow> unit mesh_op" where
  "follow_run user hostId b reply =
     (case reply of
        TaskReply upid node \<Rightarrow>
          bind_op (read_op (\<lambda>st. opt_str (js_str_of (get_var ''notifyName'' st)))) (\<lambda>name.
          change_wire (\<lambda>w. w\<lparr>wrDeferred := wrDeferred w @ [FollowBackup hostId user node upid name]\<rparr>))
      | _ \<Rightarrow> return_op ())"

definition follow_backup :: "px_env \<Rightarrow> platform \<Rightarrow> host_env \<Rightarrow> string \<Rightarrow> session_user \<Rightarrow> string \<Rightarrow> js \<Rightarrow> string \<Rightarrow> unit mesh_op" where
  "follow_backup x pf env hostId user node upid name =
     catch_op
       (bind_op (when_op (isUpid upid \<and> node \<noteq> [])
          (withHostClient pf env hostId user (\<lambda>c h. waitUpid x c node upid 14400000))) (\<lambda>_.
        notice_op ''backup.started'' ''success'' name))
       (\<lambda>_. notice_op ''backup.failed'' ''error'' name)"

definition backup_gate :: "session_user \<Rightarrow> string \<Rightarrow> backup_action \<Rightarrow> unit mesh_op" where
  "backup_gate user hostId b =
     bind_op (guard_op (backupSchema b) (ZodError [])) (\<lambda>_.
     guard_op (userHasPermission (Some (holder_of user)) (backupPermissionForAction (backup_action_str b)) (Some hostId) None) not_permitted)"

definition backups_POST :: "px_env \<Rightarrow> platform \<Rightarrow> host_env \<Rightarrow> string \<Rightarrow> session_user \<Rightarrow> string \<Rightarrow> backup_action \<Rightarrow> backup_reply mesh_op" where
  "backups_POST x pf env random user hostId b =
     bind_op (backup_gate user hostId b) (\<lambda>_.
     bind_op clear_vars (\<lambda>_.
     bind_op (catch_op
       (if b = CleanupOrphans
        then bind_op (cleanupOrphanBackupFiles x pf env hostId user) (\<lambda>r. return_op (CleanupReply r))
        else withHostClient pf env hostId user (backup_switch x random user hostId b))
       (backup_failed b)) (\<lambda>reply.
     bind_op (case backup_audit hostId b of (action, target) \<Rightarrow> audit_guest user hostId action target) (\<lambda>_.
     bind_op (follow_run user hostId b reply) (\<lambda>_.
     return_op reply)))))"

end
