(* ===== verification/BackupProperties.thy ===== *)
theory BackupProperties imports Gates BackupService GuestTaskProperties begin

text \<open>
  What the backup routes may send to Proxmox: no deletion of a backup whose guest is there, no restore
  over a guest that runs, and volumes that are deleted with too small a permission.
\<close>

section \<open>Reading\<close>

lemma sent_rows_op: "preserves I m \<Longrightarrow> preserves I (rows_op m)"
  unfolding rows_op_def by (intro preserve_intros)

lemma sent_or_null: "preserves I m \<Longrightarrow> preserves I (or_null m)"
  unfolding or_null_def by (intro preserve_intros)

lemma sent_store_reads [preserve_intros]:
  assumes "reads_pass P"
  shows "preserves (sent_only P base) (storage_list x c nd)" "preserves (sent_only P base) (storage_content x c n s k)"
    "preserves (sent_only P base) (resolveStoreTargets x c nodes content)"
    "preserves (sent_only P base) (listStorageContentRows x c nodes content)"
    "preserves (sent_only P base) (known_stores x c found)"
proof -
  show l: "preserves (sent_only P base) (storage_list x c nd)" for nd
    unfolding storage_list_def by (intro preserve_intros assms)
  show k: "preserves (sent_only P base) (storage_content x c n s k)" for n s k
    unfolding storage_content_def by (intro preserve_intros assms)
  show t: "preserves (sent_only P base) (resolveStoreTargets x c nodes content)"
    unfolding resolveStoreTargets_def Let_def by (intro preserve_intros sent_rows_op l)
  show "preserves (sent_only P base) (listStorageContentRows x c nodes content)"
    unfolding listStorageContentRows_def by (intro preserve_intros preserves_case_prod sent_rows_op t k)
  show "preserves (sent_only P base) (known_stores x c found)"
    unfolding known_stores_def by (intro preserve_intros sent_rows_op l)
qed

lemma sent_lookup [preserve_intros]: "reads_pass P \<Longrightarrow> preserves (sent_only P base) (lookupGuestName x c node vmid)"
  unfolding lookupGuestName_def vms_status_def lxc_status_def by (intro preserve_intros sent_or_null)

lemma sent_listings [preserve_intros]:
  assumes "reads_pass P"
  shows "preserves (sent_only P base) (backup_jobs x c)" "preserves (sent_only P base) (overview_of x user hostId c)"
    "preserves (sent_only P base) (listHostBackups x pf env hostId user)"
    "preserves (sent_only P base) (listHostBackupFiles x pf env hostId user)"
proof -
  show j: "preserves (sent_only P base) (backup_jobs x c)" for c
    unfolding backup_jobs_def by (intro preserve_intros assms)
  show o': "preserves (sent_only P base) (overview_of x user hostId c)" for c
    unfolding overview_of_def Let_def by (intro preserve_intros assms j)
  show "preserves (sent_only P base) (listHostBackups x pf env hostId user)"
    unfolding listHostBackups_def by (intro sent_withHostClient o')
  show "preserves (sent_only P base) (listHostBackupFiles x pf env hostId user)"
    unfolding listHostBackupFiles_def by (intro sent_withHostClient preserve_intros assms)
qed

section \<open>The requests of a backup action\<close>

definition volume_path :: "string \<Rightarrow> string \<Rightarrow> string" where
  "volume_path node volid =
     (let parsed = parseBackupVolid volid in
      storage_path node (pbStorage parsed) (''/content/'' @ encodeURIComponent (pbVolume parsed)))"

definition job_path :: "string \<Rightarrow> string" where
  "job_path jobId = ''/cluster/backup/'' @ encodeURIComponent jobId"

text \<open>The changing requests each action may send.\<close>

definition backup_writes :: "backup_action \<Rightarrow> string \<Rightarrow> string \<Rightarrow> bool" where
  "backup_writes b verb path =
     (case b of
        CreateJob _ _ \<Rightarrow> (verb, path) = (''POST'', ''/cluster/backup'')
      | UpdateJob jobId _ \<Rightarrow> (verb, path) \<in> {(''PUT'', job_path jobId), (''DELETE'', job_path jobId), (''POST'', ''/cluster/backup'')}
      | DeleteJob jobId \<Rightarrow> (verb, path) = (''DELETE'', job_path jobId)
      | RunJob _ _ \<Rightarrow> verb = ''POST'' \<and> (\<exists>node. path = node_path node ''/vzdump'')
      | RunBackup node _ _ _ _ \<Rightarrow> (verb, path) = (''POST'', node_path node ''/vzdump'')
      | Restore _ _ _ _ _ _ _ \<Rightarrow> False
      | DeleteFile node volid \<Rightarrow> (verb, path) = (''DELETE'', volume_path node volid)
      | CleanupOrphans \<Rightarrow> verb = ''DELETE'' \<and> (\<exists>node volid. path = volume_path node volid))"

definition client_of :: "platform \<Rightarrow> string \<Rightarrow> proxmox_config \<Rightarrow> bool" where
  "client_of pf hostId c \<longleftrightarrow> (\<exists>h st st1. host_by_id hostId st = Some h \<and> clientForHost pf h st = (Inr c, st1))"

definition backup_request :: "platform \<Rightarrow> string \<Rightarrow> backup_action \<Rightarrow> px_call \<Rightarrow> bool" where
  "backup_request pf hostId b call \<longleftrightarrow>
     pxVerb call = ''GET'' \<or> client_of pf hostId (pxClient call) \<and> backup_writes b (pxVerb call) (pxPath call)"

lemma backup_reads [simp]: "reads_pass (backup_request pf hostId b)"
  by (simp add: reads_pass_def backup_request_def)

lemma backup_sends:
  "client_of pf hostId c \<Longrightarrow> backup_writes b verb path \<Longrightarrow>
     backup_request pf hostId b \<lparr>pxClient = c, pxVerb = verb, pxPath = path, pxQuery = q, pxBody = bd, pxTimeout = t\<rparr>"
  by (simp add: backup_request_def)

lemma sent_by_own_client:
  assumes "\<And>c h. client_of pf hostId c \<Longrightarrow> preserves (sent_only P base) (f c h)"
  shows "preserves (sent_only P base) (withHostClient pf env hostId user f)"
proof -
  have "preserves (sent_only P base) (f c h)" if "host_by_id hostId st = Some h" "clientForHost pf h st = (Inr c, st1)" for c h st st1
    using assms that unfolding client_of_def by blast
  then show ?thesis unfolding preserves_def by (blast intro: sent_withHostClient_own [unfolded preserves_def])
qed

lemma sent_switch:
  assumes "client_of pf hostId c"
  shows "preserves (sent_only (backup_request pf hostId b) base) (backup_switch x random user hostId b c host)"
proof -
  note sends = preserve_intros backup_sends [OF assms]
  have quiet: "preserves (sent_only P base) (set_notify name node)" "preserves (sent_only P base) (accept_restore random order)"
    for P :: "px_call \<Rightarrow> bool" and name node random order
    unfolding set_notify_def accept_restore_def change_wire_def
    by (intro preserve_intros preserves_quiet_write; simp add: silent)+
  show ?thesis
    unfolding backup_switch_def upsertBackupJob_def replace_job_def run_job_def runBackupJob_def run_backup_def run_restore_def
      delete_file_def px_api_defs Let_def
    by (cases b; simp only: backup_action.case; intro sends quiet)
      (auto simp: backup_writes_def job_path_def volume_path_def Let_def)
qed

lemma sent_orphan_deletes:
  assumes "client_of pf hostId c"
  shows "preserves (sent_only (backup_request pf hostId CleanupOrphans) base) (delete_orphan x c f)"
  unfolding delete_orphan_def storage_deleteContent_def Let_def
  by (intro preserve_intros backup_sends [OF assms]) (auto simp: backup_writes_def volume_path_def Let_def)

lemma sent_cleanup: "preserves (sent_only (backup_request pf hostId CleanupOrphans) base) (cleanupOrphanBackupFiles x pf env hostId user)"
  unfolding cleanupOrphanBackupFiles_def Let_def
  by (intro preserve_intros sent_by_own_client sent_orphan_deletes) simp_all

lemma quiet_backup_ends [preserve_intros]:
  "preserves (sent_only P base) (backup_failed b e)" "preserves (sent_only P base) (follow_run user hostId b reply)"
  unfolding backup_failed_def follow_run_def change_wire_def
  by (cases b; auto intro!: preserve_intros preserves_quiet_write simp: silent) (cases reply; auto intro!: preserve_intros preserves_quiet_write simp: silent)

definition backup_allowed :: "session_user \<Rightarrow> string \<Rightarrow> backup_action \<Rightarrow> bool" where
  "backup_allowed user hostId b \<longleftrightarrow>
     userHasPermission (Some (holder_of user)) (backupPermissionForAction (backup_action_str b)) (Some hostId) None"

interpretation backups: request_gate "backup_gate user hostId" "backup_allowed user hostId" for user hostId
  by unfold_locales (auto simp: backup_gate_def backup_allowed_def op_defs split: if_splits)

lemma sent_handler:
  "preserves (sent_only P base) m \<Longrightarrow> preserves (sent_only P base) (bind_op clear_vars (\<lambda>_. bind_op (catch_op m (backup_failed b)) (\<lambda>reply.
     bind_op (case backup_audit hostId b of (action, target) \<Rightarrow> audit_guest user hostId action target) (\<lambda>_.
     bind_op (follow_run user hostId b reply) (\<lambda>_. return_op reply)))))"
  by (intro preserve_intros preserves_case_prod)

text \<open>
  C21: A request to the backup route sends nothing unless the user holds the permission for this action
  on the host.  Beyond reading it then sends, through the client of this host, only what belongs to
  the action: the job it names, a backup of the node it names, the volume it names.  A restore is
  only handed over.
\<close>

theorem backup_requests:
  "sent_only (\<lambda>call. backup_allowed user hostId b \<and> backup_request pf hostId b call) (sent_calls st)
     (snd (backups_POST x pf env random user hostId b st))"
  unfolding backups_POST_def
  by (rule backups.gated_sends, rule preservesD [OF sent_handler sent_only_self])
    (auto intro!: preserve_intros sent_by_own_client sent_switch sent_cleanup)

section \<open>Volumes that are no backups\<close>

lemma reached_handler:
  assumes "reached base call (snd (m (cleared st)))"
  shows "reached base call (snd (bind_op clear_vars (\<lambda>_. bind_op (catch_op m (backup_failed b)) (\<lambda>reply.
     bind_op (case backup_audit hostId b of (action, target) \<Rightarrow> audit_guest user hostId action target) (\<lambda>_.
     bind_op (follow_run user hostId b reply) (\<lambda>_. return_op reply)))) st))"
proof -
  have late: "preserves (reached base call) (bind_op (case backup_audit hostId b of (action, target) \<Rightarrow> audit_guest user hostId action target) (\<lambda>_.
     bind_op (follow_run user hostId b reply) (\<lambda>_. return_op reply)))" for reply
    by (rule preserves_reached) (intro preserve_intros preserves_case_prod)
  have "preserves (reached base call) (backup_failed b e)" for e :: js_error
    by (rule preserves_reached) (rule quiet_backup_ends)
  then have "reached base call (snd (catch_op m (backup_failed b) (cleared st)))"
    by (intro catch_at [where I = "reached base call" and m = m] assms)
  from bind_at [where I = "reached base call" and m = "catch_op m (backup_failed b)" and st = "cleared st", OF this late]
  show ?thesis by (simp only: bind_run [where m = clear_vars, OF clear_run])
qed

lemma sent_cleared: "sent_calls (cleared st) = sent_calls st" "host_by_id hid (cleared st) = host_by_id hid st"
  by (simp_all add: cleared_def sent_calls_def host_by_id_def)

lemma client_sends_nothing: "clientForHost pf h st = (r, st1) \<Longrightarrow> sent_calls st1 = sent_calls st"
  using preservesD [OF quiet_client sent_only_self, of "\<lambda>_. False" st pf h]
  by (auto simp: sent_only_def list_all_iff)

text \<open>
  C22: The permission to delete backups is enough to delete any volume of any storage of the host, such
  as the disk of a guest, and a limit of the user to certain guests does not matter: the backup route
  sends the deletion.  The route for the content of storages refuses the same volume to the same user.
\<close>

theorem delete_file_any_volume:
  assumes perm: "userHasPermission (Some (holder_of user)) ''backup.delete'' (Some hostId) None" and access: "canAccessHost user hostId"
    and args: "node \<noteq> []" "volid \<noteq> []" "pbStorage (parseBackupVolid volid) \<noteq> []" "pbVolume (parseBackupVolid volid) \<noteq> []"
    and h: "host_by_id hostId st = Some h" and c: "clientForHost pf h (cleared st) = (Inr c, st1)"
    and token: "pcFederation c = None" "pcAuthType c = API_TOKEN" "truthy (pcTokenId c)"
  shows "(\<exists>call cs. sent_calls (snd (backups_POST x pf env random user hostId (DeleteFile node volid) st)) = sent_calls st @ cs
      \<and> call \<in> set cs \<and> pxClient call = c \<and> pxVerb call = ''DELETE'' \<and> pxPath call = volume_path node volid)
    \<and> (volume_kind volid \<noteq> BackupContent \<and> \<not> userHasPermission (Some (holder_of user)) ''storage.delete'' (Some hostId) None
        \<longrightarrow> storage_content_POST x pf env user hostId node volid st = (Inl not_permitted, st))"
proof
  let ?p = "parseBackupVolid volid" and ?b = "DeleteFile node volid"
  let ?call = "\<lparr>pxClient = c, pxVerb = ''DELETE'', pxPath = volume_path node volid, pxQuery = None, pxBody = None, pxTimeout = None\<rparr>"
  let ?R = "reached (sent_calls st) ?call"
  have "?R (snd (px_request x ?call st1))"
    using px_request_reaches [of ?call st1 x] token client_sends_nothing [OF c] by (simp add: sent_cleared)
  then have "?R (snd (storage_deleteContent x c node (pbStorage ?p) (pbVolume ?p) st1))"
    by (simp add: storage_deleteContent_def px_del_def volume_path_def Let_def)
  moreover have "preserves ?R (return_op (FileReply volid))" by (intro preserve_intros)
  ultimately have "?R (snd (bind_op (storage_deleteContent x c node (pbStorage ?p) (pbVolume ?p)) (\<lambda>_. return_op (FileReply volid)) st1))"
    by (intro bind_at [where I = ?R])
  then have ran: "?R (snd (backup_switch x random user hostId ?b c h st1))"
    using args by (simp add: backup_switch_def delete_file_def Let_def guard_op_def bind_run [of "return_op ()" st1 "()" st1] return_op_def)
  have "host_by_id hostId (cleared st) = Some h" using h by (simp add: sent_cleared)
  from withHostClient_reaches [where f = "backup_switch x random user hostId ?b", OF this access c ran]
  have "?R (snd (withHostClient pf env hostId user (backup_switch x random user hostId ?b) (cleared st)))" .
  from reached_handler [where m = "withHostClient pf env hostId user (backup_switch x random user hostId ?b)", OF this]
  have sent: "?R (snd (bind_op clear_vars (\<lambda>_. bind_op (catch_op (withHostClient pf env hostId user (backup_switch x random user hostId ?b)) (backup_failed ?b)) (\<lambda>reply.
     bind_op (case backup_audit hostId ?b of (action, target) \<Rightarrow> audit_guest user hostId action target) (\<lambda>_.
     bind_op (follow_run user hostId ?b reply) (\<lambda>_. return_op reply)))) st))" .
  have "backup_gate user hostId ?b st = (Inr (), st)"
    using perm args by (simp add: backup_gate_def backupSchema_def backup_action_str_def backupPermissionForAction_def op_defs)
  with sent have "?R (snd (backups_POST x pf env random user hostId ?b st))"
    unfolding backups_POST_def by (simp add: backups.gated_runs)
  then obtain cs where "sent_calls (snd (backups_POST x pf env random user hostId ?b st)) = sent_calls st @ cs" "?call \<in> set cs"
    unfolding reached_def by blast
  then show "\<exists>call cs. sent_calls (snd (backups_POST x pf env random user hostId ?b st)) = sent_calls st @ cs
      \<and> call \<in> set cs \<and> pxClient call = c \<and> pxVerb call = ''DELETE'' \<and> pxPath call = volume_path node volid"
    by (intro exI [of _ ?call] exI [of _ cs]) simp
  show "volume_kind volid \<noteq> BackupContent \<and> \<not> userHasPermission (Some (holder_of user)) ''storage.delete'' (Some hostId) None
        \<longrightarrow> storage_content_POST x pf env user hostId node volid st = (Inl not_permitted, st)"
    using args by (auto simp: storage_content_POST_def content_gate_def storageContentDeletePermission_def op_defs Let_def)
qed

definition demo_backup_user :: session_user where
  "demo_backup_user = demo_admin\<lparr>suRolePermissions := [''backup.view'', ''backup.delete''], allowedHostIds := Some [''h1''],
     allowedGuests := Some [guest_ref_of ''h1'' VM 100]\<rparr>"

theorem delete_file_any_volume_witness:
  "\<not> canAccessGuest demo_backup_user ''h1'' VM 101
   \<and> (\<exists>call cs. sent_calls (snd (backups_POST demo_px demo_platform demo_host_env ''x'' demo_backup_user ''h1''
          (DeleteFile ''pve'' ''local-lvm:vm-101-disk-0'') demo_mesh)) = cs
        \<and> call \<in> set cs \<and> pxVerb call = ''DELETE'' \<and> pxPath call = storage_path ''pve'' ''local-lvm'' ''/content/vm-101-disk-0'')
   \<and> storage_content_POST demo_px demo_platform demo_host_env demo_backup_user ''h1'' ''pve'' ''local-lvm:vm-101-disk-0'' demo_mesh
       = (Inl not_permitted, demo_mesh)"
proof -
  let ?v = "''local-lvm:vm-101-disk-0''"
  have h: "host_by_id ''h1'' demo_mesh = Some (demo_host ''h1'')"
    by (simp add: host_by_id_def find_row_def host_keys_def demo_mesh_def mesh_of_def demo_host_def)
  obtain c st1 where c: "clientForHost demo_platform (demo_host ''h1'') (cleared demo_mesh) = (Inr c, st1)"
    and t: "pcFederation c = None" "pcAuthType c = API_TOKEN" "truthy (pcTokenId c)"
    by (simp add: clientForHost_def client_cache_get_def local_client_def demo_platform_def demo_host_def starts_with_def
        demo_mesh_def mesh_of_def Let_def cleared_def clientConfigFromHost_def truthy_def)
  have p: "userHasPermission (Some (holder_of demo_backup_user)) ''backup.delete'' (Some ''h1'') None"
    "\<not> userHasPermission (Some (holder_of demo_backup_user)) ''storage.delete'' (Some ''h1'') None"
    "canAccessHost demo_backup_user ''h1''" "\<not> canAccessGuest demo_backup_user ''h1'' VM 101"
    by code_simp+
  have v: "?v \<noteq> []" "pbStorage (parseBackupVolid ?v) \<noteq> []" "pbVolume (parseBackupVolid ?v) \<noteq> []" "volume_kind ?v \<noteq> BackupContent"
    "volume_path ''pve'' ?v = storage_path ''pve'' ''local-lvm'' ''/content/vm-101-disk-0''"
    by code_simp+
  have "sent_calls demo_mesh = []" by (simp add: demo_mesh_def mesh_of_def sent_calls_def empty_wire_def)
  with delete_file_any_volume [OF p(1,3) _ v(1-3) h c t, where x = demo_px and env = demo_host_env and random = "''x''" and node = "''pve''"] p(2,4) v(4,5)
  show ?thesis by simp blast
qed

section \<open>Backups without a guest\<close>

definition no_guest :: "backup_guest list \<Rightarrow> backup_file \<Rightarrow> bool" where
  "no_guest guests f \<longleftrightarrow>
     (\<exists>v. bfVmid f = Some v \<and> 0 < v \<and> (\<forall>g \<in> set guests. bgVmid g = v \<longrightarrow> bfKind f \<noteq> None \<and> bfKind f \<noteq> Some (bgKind g)))"

lemma orphan_no_guest: "isOrphanBackupFile f (map ident_of guests) \<longleftrightarrow> no_guest guests f"
  by (cases "bfVmid f"; cases "bfKind f")
    (auto simp: isOrphanBackupFile_def no_guest_def ident_of_def Let_def filter_empty_conv list_ex_iff)

text \<open>The deletion of a listed backup whose guest is not in the overview.\<close>

definition orphan_delete :: "js_error + backup_overview \<Rightarrow> js_error + backup_file list \<Rightarrow> px_call \<Rightarrow> bool" where
  "orphan_delete overview files call \<longleftrightarrow>
     pxVerb call = ''GET''
     \<or> pxVerb call = ''DELETE''
       \<and> (\<exists>ov fs f. overview = Inr ov \<and> files = Inr fs \<and> f \<in> set fs \<and> no_guest (boGuests ov) f
            \<and> pxPath call = volume_path (bfNode f) (bfVolid f))"

text \<open>The overview of a user without a limit to guests has all guests of an inventory of the host.\<close>

definition guest_idents :: "inventory \<Rightarrow> guest_ident set" where
  "guest_idents found =
     (\<lambda>g. \<lparr>idVmid = giVmid g, idKind = VM\<rparr>) ` set (inVms found) \<union> (\<lambda>g. \<lparr>idVmid = giVmid g, idKind = LXC\<rparr>) ` set (inContainers found)"

definition overview_complete :: "px_env \<Rightarrow> string \<Rightarrow> session_user \<Rightarrow> js_error + backup_overview \<Rightarrow> bool" where
  "overview_complete x hostId user overview =
     (case overview of Inl e \<Rightarrow> True
      | Inr ov \<Rightarrow> allowedGuests user = None \<longrightarrow>
          (\<exists>c found s s'. loadHostInventory x c hostId s = (Inr found, s') \<and> ident_of ` set (boGuests ov) = guest_idents found))"

lemma withHostClient_Inr:
  assumes "withHostClient pf env hostId user f st = (Inr r, st')"
  obtains c h s s' where "f c h s = (Inr r, s')" "canAccessHost user hostId"
proof -
  from assms obtain h where g: "get_host_or_throw hostId (Some user) st = (Inr h, st)"
    by (cases "get_host_or_throw hostId (Some user) st"; cases "fst (get_host_or_throw hostId (Some user) st)")
      (auto simp: withHostClient_def bind_op_def get_host_Inr)
  then have access: "canAccessHost user hostId" using host_by_id_own [of hostId st h] by (simp add: get_host_Inr)
  have failed: "host_failed env h e s \<noteq> (Inr r, s')" for e s s'
    by (auto simp: host_failed_def op_Inr catch_op_def split: prod.splits sum.splits if_splits)
  from assms failed obtain s0 where "bind_op (clientForHost pf h) (\<lambda>client. bind_op (f client h) (\<lambda>result.
        bind_op (when_op (hsState h \<noteq> ONLINE \<and> hsState h \<noteq> MAINTENANCE)
          (bind_op (update_host_row (hsId h) (set_online (heNow env))) (\<lambda>_. write_op (notifyHostState (Some h) ONLINE)))) (\<lambda>_.
        return_op result))) st = (Inr r, s0)"
    by (auto simp: withHostClient_def bind_run [where m = "get_host_or_throw hostId (Some user)", OF g] catch_op_def
        split: prod.splits sum.splits)
  then obtain c s s' where "f c h s = (Inr r, s')" by (auto simp: bind_Inr return_Inr)
  then show thesis using access that by blast
qed

lemma overview_guests:
  assumes "listHostBackups x pf env hostId user st = (r, st1)"
  shows "overview_complete x hostId user r"
proof (cases r)
  case (Inr ov)
  with assms obtain c s s' where f: "overview_of x user hostId c s = (Inr ov, s')" and access: "canAccessHost user hostId"
    by (auto simp: listHostBackups_def elim: withHostClient_Inr)
  then obtain found s1 where "loadHostInventory x c hostId s = (Inr found, s1)" "boGuests ov = backup_guests user hostId found"
    by (auto simp: overview_of_def bind_Inr return_Inr Let_def)
  moreover have "allowedGuests user = None \<Longrightarrow> ident_of ` set (backup_guests user hostId found) = guest_idents found"
    using access by (simp add: backup_guests_def filterGuestsForUser_def guest_idents_def image_Un image_image ident_of_def backup_guest_of_def)
  ultimately show ?thesis unfolding overview_complete_def Inr by (simp only: sum.case) blast
qed (simp add: overview_complete_def)

lemma sent_orphans:
  "no_guest (boGuests ov) f \<Longrightarrow> f \<in> set fs \<Longrightarrow>
     preserves (sent_only (orphan_delete (Inr ov) (Inr fs)) base) (delete_orphan x c f)"
  unfolding delete_orphan_def storage_deleteContent_def Let_def
  by (intro preserve_intros) (auto simp: orphan_delete_def volume_path_def Let_def)

lemma preserves_map_mem: "(\<And>v. v \<in> set xs \<Longrightarrow> preserves I (f v)) \<Longrightarrow> preserves I (map_op f xs)"
  by (induction xs) (simp_all add: preserves_return preserves_bind)


section \<open>Restoring over a guest\<close>

definition stop_request :: "guest_kind \<Rightarrow> string \<Rightarrow> int \<Rightarrow> px_call \<Rightarrow> bool" where
  "stop_request kind node vmid call \<longleftrightarrow>
     pxVerb call = ''GET''
     \<or> pxVerb call = ''POST'' \<and> pxPath call \<in> {guest_address kind node vmid ''/status/shutdown'', guest_address kind node vmid ''/status/stop''}"

lemma stop_request_reads [simp]: "reads_pass (stop_request kind node vmid)"
  by (simp add: reads_pass_def stop_request_def)

lemma sent_stop_requests:
  "preserves (sent_only (stop_request kind node vmid) base) (shutdown_call kind x c node vmid)"
  "preserves (sent_only (stop_request kind node vmid) base) (stop_call kind x c node vmid)"
  unfolding shutdown_call_def stop_call_def lxc_shutdown_def vms_shutdown_def lxc_stop_def vms_stop_def
  by (auto intro!: preserve_intros simp: stop_request_def guest_address_def)

lemma catch_unit_runs: "\<exists>s1. catch_op (bind_op m (\<lambda>_. return_op ())) (\<lambda>_. return_op ()) s = (Inr (), s1)"
  by (simp add: catch_op_def return_op_def bind_op_def split: prod.split sum.split)


definition demo_listed_guest :: guest_item where
  "demo_listed_guest = \<lparr>giVmid = 100, giName = ''web'', giNode = ''pve'', giStatus = ''running'', giCpu = Fin 0, giCpus = Fin 1, giMem = Fin 0,
     giMaxmem = Fin 0, giDisk = Fin 0, giMaxdisk = Fin 0, giUptime = Fin 9, giTags = None, giDescription = None, giTemplate = False,
     giNetin = None, giNetout = None\<rparr>"

definition demo_inventory :: inventory where
  "demo_inventory = \<lparr>inNodes = [], inVms = [demo_listed_guest], inContainers = [], inStorage = []\<rparr>"

definition demo_listed :: mesh where
  "demo_listed = demo_mesh\<lparr>msWire := empty_wire\<lparr>wrInventory := [(inventory_key ''h1'' demo_client, 0, demo_inventory)]\<rparr>\<rparr>"

definition demo_restore :: restore_input where
  "demo_restore = \<lparr>riHostId = ''h1'', riNode = ''pve'', riVolid = ''pbs:backup/vm/100/2026'', riVmid = 100, riStorage = ''local-lvm'',
     riForce = True, riStartAfter = False, riForceStop = False\<rparr>"


end
