(* ===== verification/GuestCreate.thy ===== *)
theory GuestCreate imports StorageContent begin

text \<open>
  Creating guests: \<^verbatim>\<open>POST\<close> of \<^verbatim>\<open>app/api/hosts/[id]/vms/route.ts\<close> and \<^verbatim>\<open>lxc/route.ts\<close>,
  \<^verbatim>\<open>server/services/guest-start.ts\<close>, and how the hardware is written: \<^verbatim>\<open>lib/vm-storage.ts\<close>,
  \<^verbatim>\<open>lib/windows-guest.ts\<close>, \<^verbatim>\<open>lib/cloud-init.ts\<close> and the parts of \<^verbatim>\<open>lib/iso-images.ts\<close>
  about the system on an image.  The defaults of the schemas are in the parsed bodies.
\<close>

section \<open>Disks\<close>

record vm_disk_storage =
  vdStorage :: string
  vdType :: "string option"
  vdContent :: "string option"
  vdActive :: "int option"
  vdEnabled :: "int option"

definition storageIsIscsi :: "vm_disk_storage \<Rightarrow> bool" where
  "storageIsIscsi s \<longleftrightarrow> to_lower (opt_str (vdType s)) \<in> {''iscsi'', ''iscsidirect''}"

definition storageHoldsVmImages :: "vm_disk_storage \<Rightarrow> bool" where
  "storageHoldsVmImages s =
     (if vdEnabled s = Some 0 \<or> vdActive s = Some 0 then False
      else ''images'' \<in> set (day_parts [] (to_lower (opt_str (vdContent s)))) \<or> storageIsIscsi s)"

definition vmDiskStorages :: "vm_disk_storage list \<Rightarrow> vm_disk_storage list" where
  "vmDiskStorages = filter storageHoldsVmImages"

definition vmDiskSpec :: "string \<Rightarrow> string option \<Rightarrow> string option \<Rightarrow> string list \<Rightarrow> string" where
  "vmDiskSpec diskStorage diskSize diskVolume extras =
     (let extra = (if extras = [] then [] else '','' @ join '','' extras); volume = trim (opt_str diskVolume);
          size' = trim (opt_str diskSize)
      in if volume \<noteq> [] then volume @ extra
         else diskStorage @ '':'' @ (if size' = [] then ''32'' else size') @ extra)"

datatype disk_bus = ScsiBus | VirtioBus | SataBus | IdeBus

definition diskExtras :: "string option \<Rightarrow> bool option \<Rightarrow> bool option \<Rightarrow> bool option \<Rightarrow> disk_bus option \<Rightarrow> string option \<Rightarrow> string list" where
  "diskExtras cache discard ssd iothread diskBus scsihw =
     (let bus = (case diskBus of None \<Rightarrow> ScsiBus | Some b \<Rightarrow> b);
          hw = (case scsihw of None \<Rightarrow> ''virtio-scsi-single'' | Some s \<Rightarrow> s);
          thread = (case iothread of Some t \<Rightarrow> t | None \<Rightarrow> bus = ScsiBus \<and> hw = ''virtio-scsi-single'')
      in (if truthy cache then [''cache='' @ the cache] else [])
         @ (if discard = Some True then [''discard=on''] else [])
         @ (if ssd = Some True then [''ssd=1''] else [])
         @ (if thread \<and> (bus = ScsiBus \<or> bus = VirtioBus) then [''iothread=1''] else []))"

section \<open>Images\<close>

text \<open>The pattern of \<open>isWindowsIso\<close>.\<close>

definition windows_pattern :: rx where
  "windows_pattern =
     (let win = Cat (lit ''win'') (opt (lit ''dows'')); sep = opt (Cls (Among ''-_'')) in
      alts [lit ''windows'', Cat win (Or (lit ''10'') (lit ''11'')), seqs [win, sep, lit ''server''],
        seqs [lit ''server'', sep, lit ''20'', Or (Cat (lit ''1'') (Cls (Among ''69''))) (Cat (lit ''2'') (Cls (Among ''025'')))]])"

definition isWindowsIso :: "string \<Rightarrow> bool" where
  "isWindowsIso volid = rx_test windows_pattern (to_lower (volidFilename volid))"

definition ostypeFromIso :: "string \<Rightarrow> string option" where
  "ostypeFromIso volid =
     (let file = to_lower (volidFilename volid) in
      if \<not> isWindowsIso volid then None
      else if str_includes file ''win10'' \<or> str_includes file ''2016'' \<or> str_includes file ''2019'' then Some ''win10''
      else Some ''win11'')"

definition isWindowsOstype :: "string option \<Rightarrow> bool" where
  "isWindowsOstype ostype = (case ostype of None \<Rightarrow> False | Some s \<Rightarrow> starts_with (to_lower s) ''win'')"

definition WINDOWS_MACHINE_TYPE :: string where
  "WINDOWS_MACHINE_TYPE = ''pc-q35-9.2''"

record vm_firmware =
  fwBios :: string
  fwMachine :: string
  fwCpu :: string

definition windowsVmFirmware :: "string \<Rightarrow> vm_firmware option" where
  "windowsVmFirmware ostype =
     (if \<not> isWindowsOstype (Some ostype) then None
      else Some \<lparr>fwBios = ''ovmf'', fwMachine = WINDOWS_MACHINE_TYPE, fwCpu = ''host''\<rparr>)"

definition cdrom :: "string \<Rightarrow> js" where
  "cdrom volid = JStr (volid @ '',media=cdrom'')"

definition vmCdromDisks :: "string option \<Rightarrow> string option \<Rightarrow> js_record" where
  "vmCdromDisks firstIso secondIso =
     (let first = trim (opt_str firstIso); second = trim (opt_str secondIso) in
      (if first \<noteq> [] then [(''ide2'', cdrom first)] else [])
      @ (if second \<noteq> [] \<and> second \<noteq> first
         then (if first \<noteq> [] then [(''sata1'', cdrom second)] else [(''ide2'', cdrom second)]) else []))"

definition disk_key :: "disk_bus \<Rightarrow> string" where
  "disk_key bus = (case bus of VirtioBus \<Rightarrow> ''virtio0'' | SataBus \<Rightarrow> ''sata0'' | IdeBus \<Rightarrow> ''ide0'' | ScsiBus \<Rightarrow> ''scsi0'')"

definition vmCreateBootOrder :: "disk_bus \<Rightarrow> bool \<Rightarrow> string" where
  "vmCreateBootOrder bus hasInstallIso =
     (if hasInstallIso then ''order=ide2;'' @ disk_key bus else ''order='' @ disk_key bus)"

definition withNetFirewall :: "string \<Rightarrow> bool \<Rightarrow> string" where
  "withNetFirewall spec enabled =
     (let parts = filter (\<lambda>p. p \<noteq> [] \<and> \<not> starts_with (to_lower p) ''firewall='') (map trim (split_on CHR '','' spec)) in
      join '','' (if enabled then parts @ [''firewall=1''] else parts))"

text \<open>\<open>applyWindowsGuestHardware\<close> on the texts of a form; an absent text is empty.\<close>

definition form_text :: "(string \<times> string) list \<Rightarrow> string \<Rightarrow> string" where
  "form_text form k = (case map_of form k of None \<Rightarrow> [] | Some v \<Rightarrow> v)"

definition applyWindowsGuestHardware :: "(string \<times> string) list \<Rightarrow> (string \<times> string) list" where
  "applyWindowsGuestHardware config =
     (let put = (\<lambda>k v f. AList.update k v f);
          f1 = (if isWindowsOstype (map_of config ''ostype'') then config else put ''ostype'' ''win11'' config);
          f2 = put ''bios'' ''ovmf'' f1;
          f3 = (if str_includes (to_lower (form_text f2 ''machine'')) ''q35'' then f2 else put ''machine'' WINDOWS_MACHINE_TYPE f2);
          f4 = put ''onboot'' ''1'' (put ''tablet'' ''1'' (put ''agent'' ''1'' (put ''scsihw'' ''virtio-scsi-single'' (put ''cpu'' ''host'' f3))));
          vga = form_text f4 ''vga'';
          f5 = (if vga = [] \<or> to_lower (trim (hd (split_on CHR '','' vga))) = ''none'' then put ''vga'' ''std'' f4 else f4)
      in if form_text f5 ''net0'' \<noteq> [] then put ''net0'' (withNetFirewall (form_text f5 ''net0'') True) f5 else f5)"

section \<open>Cloud-init\<close>

definition CLOUDINIT_SLOTS :: "string list" where
  "CLOUDINIT_SLOTS = [''ide0'', ''scsi1'', ''sata1'', ''ide1'', ''virtio1'']"

definition buildQemuIpconfig :: "bool \<Rightarrow> string option \<Rightarrow> string option \<Rightarrow> string" where
  "buildQemuIpconfig dhcp cidr gateway =
     (if dhcp then ''ip=dhcp''
      else (let gw = trim (opt_str gateway) in
            join '','' ((''ip='' @ normalizeLxcCidr (opt_str cidr)) # (if gw = [] then [] else [''gw='' @ gw]))))"

definition cloudInitDriveKey :: "string list \<Rightarrow> string" where
  "cloudInitDriveKey taken_keys =
     (let taken = map to_lower taken_keys; free = (\<lambda>slot. slot \<notin> set taken) in
      case find free CLOUDINIT_SLOTS of Some slot \<Rightarrow> slot
      | None \<Rightarrow> (case find free (map (\<lambda>i. ''scsi'' @ nat_str i) [1..<14]) of Some slot \<Rightarrow> slot | None \<Rightarrow> ''scsi1''))"

definition applyQemuCloudInit :: "js_record \<Rightarrow> string \<Rightarrow> string \<Rightarrow> js_record" where
  "applyQemuCloudInit payload storage ipconfig =
     (let store = trim storage in
      if store = [] then payload
      else AList.update ''ipconfig0'' (JStr ipconfig)
             (AList.update (cloudInitDriveKey (map fst payload)) (JStr (store @ '':cloudinit'')) payload))"

text \<open>\<open>Some True\<close> is \<open>dhcp\<close>.\<close>

definition qemuCreateIpMode :: "string option \<Rightarrow> bool option" where
  "qemuCreateIpMode ipv4 =
     (let raw = trim (opt_str ipv4) in if raw = [] then None else Some (to_lower raw = ''dhcp''))"

definition qemuCreateStaticIp :: "string option \<Rightarrow> string option" where
  "qemuCreateStaticIp ipv4 = (if qemuCreateIpMode ipv4 \<noteq> Some False then None else ipv4Host (opt_str ipv4))"

section \<open>Following a creation\<close>

definition created_topic :: "guest_kind \<Rightarrow> string" where
  "created_topic kind = (if kind = LXC then ''lxc.created'' else ''vm.created'')"

definition followGuestCreateTask ::
  "proxmox_config \<Rightarrow> guest_kind \<Rightarrow> string \<Rightarrow> int \<Rightarrow> string \<Rightarrow> string \<Rightarrow> js \<Rightarrow> string \<Rightarrow> string \<Rightarrow> unit mesh_op" where
  "followGuestCreateTask c kind node vmid name hostId upid userId auditAction =
     change_wire (\<lambda>w. w\<lparr>wrDeferred := wrDeferred w @ [FollowCreate c kind node vmid name hostId upid userId auditAction]\<rparr>)"

text \<open>What it does later.\<close>

definition audit_by_id :: "string \<Rightarrow> string \<Rightarrow> string \<Rightarrow> string \<Rightarrow> unit mesh_op" where
  "audit_by_id userId hostId action target =
     write_op (\<lambda>st. if hostId \<notin> set (hostIds (msServer st)) then st
       else st\<lparr>msServer := writeAuditLog
         \<lparr>auUserId = Some userId, auAction = action, auTarget = Some target, auSuccess = True\<rparr> (msServer st)\<rparr>)"

definition follow_create ::
  "px_env \<Rightarrow> proxmox_config \<Rightarrow> guest_kind \<Rightarrow> string \<Rightarrow> int \<Rightarrow> string \<Rightarrow> string \<Rightarrow> js \<Rightarrow> string \<Rightarrow> string \<Rightarrow> unit mesh_op" where
  "follow_create x c kind node vmid name hostId upid userId auditAction =
     catch_op
       (bind_op (waitUpid x c node upid 300000) (\<lambda>_.
        bind_op (audit_by_id userId hostId auditAction (int_str vmid @ '' '' @ name)) (\<lambda>_.
        notice_op (created_topic kind) ''success'' name)))
       (\<lambda>_. notice_op (created_topic kind) ''error'' name)"

record create_outcome =
  coStarted :: bool
  coStartError :: "string option"

definition start_call :: "guest_kind \<Rightarrow> px_env \<Rightarrow> proxmox_config \<Rightarrow> string \<Rightarrow> int \<Rightarrow> js mesh_op" where
  "start_call kind = (if kind = VM then vms_start else lxc_start)"

definition completeGuestCreate :: "px_env \<Rightarrow> proxmox_config \<Rightarrow> guest_kind \<Rightarrow> string \<Rightarrow> int \<Rightarrow> js \<Rightarrow> bool \<Rightarrow> create_outcome mesh_op" where
  "completeGuestCreate x c kind node vmid createUpid startAfter =
     bind_op (waitUpid x c node createUpid 300000) (\<lambda>_.
     if \<not> startAfter then return_op \<lparr>coStarted = False, coStartError = None\<rparr>
     else catch_op
       (bind_op (start_call kind x c node vmid) (\<lambda>startUpid.
        bind_op (waitUpid x c node startUpid 120000) (\<lambda>_.
        return_op \<lparr>coStarted = True, coStartError = None\<rparr>)))
       (\<lambda>e. return_op \<lparr>coStarted = False, coStartError = Some (error_message e)\<rparr>))"

definition startGuestAfterCreate :: "px_env \<Rightarrow> proxmox_config \<Rightarrow> guest_kind \<Rightarrow> string \<Rightarrow> int \<Rightarrow> js \<Rightarrow> create_outcome mesh_op" where
  "startGuestAfterCreate x c kind node vmid upid = completeGuestCreate x c kind node vmid upid True"

section \<open>Virtual machines\<close>

record vm_create =
  vcNode :: string
  vcVmid :: int
  vcName :: string
  vcDescription :: "string option"
  vcOstype :: "string option"
  vcMemory :: int
  vcBalloon :: "int option"
  vcCores :: int
  vcSockets :: "int option"
  vcNuma :: "bool option"
  vcCpu :: "string option"
  vcScsihw :: "string option"
  vcIso :: "string option"
  vcIso2 :: "string option"
  vcDiskStorage :: string
  vcDiskSize :: "string option"
  vcDiskVolume :: "string option"
  vcDiskBus :: disk_bus
  vcCache :: "string option"
  vcDiscard :: "bool option"
  vcSsd :: "bool option"
  vcBridge :: string
  vcVlan :: "int option"
  vcNetModel :: string
  vcMac :: "string option"
  vcBios :: "string option"
  vcMachine :: "string option"
  vcEfi :: "bool option"
  vcTpm :: "bool option"

definition at_least :: "int \<Rightarrow> int option \<Rightarrow> bool" where
  "at_least least n = (case n of None \<Rightarrow> True | Some i \<Rightarrow> least \<le> i)"

definition createVmSchema :: "vm_create \<Rightarrow> bool" where
  "createVmSchema b \<longleftrightarrow>
     vcNode b \<noteq> [] \<and> 0 < vcVmid b \<and> vcName b \<noteq> [] \<and> 0 < vcMemory b \<and> at_least 0 (vcBalloon b) \<and> 0 < vcCores b
     \<and> positive_opt (vcSockets b) \<and> (case vcScsihw b of None \<Rightarrow> True | Some s \<Rightarrow> s \<in> {''virtio-scsi-single'', ''virtio-scsi''})
     \<and> vcDiskStorage b \<noteq> [] \<and> vcBridge b \<noteq> [] \<and> (case vcVlan b of None \<Rightarrow> True | Some v \<Rightarrow> 0 \<le> v \<and> v \<le> 4094)
     \<and> (trim (opt_str (vcDiskVolume b)) \<noteq> [] \<or> trim (opt_str (vcDiskSize b)) \<noteq> [])"

definition int_js :: "int option \<Rightarrow> js" where
  "int_js n = (case n of None \<Rightarrow> JUndef | Some i \<Rightarrow> JNum (of_int_num i))"

definition vm_ostype :: "vm_create \<Rightarrow> string" where
  "vm_ostype b =
     (case vcOstype b of Some s \<Rightarrow> s
      | None \<Rightarrow> (case ostypeFromIso (opt_str (vcIso b)) of Some s \<Rightarrow> s | None \<Rightarrow> ''l26''))"

definition vm_net :: "vm_create \<Rightarrow> vm_firmware option \<Rightarrow> string" where
  "vm_net b firmware =
     (let net = join '','' ([''model='' @ vcNetModel b, ''bridge='' @ vcBridge b]
          @ (case vcVlan b of Some v \<Rightarrow> if v = 0 then [] else [''tag='' @ int_str v] | None \<Rightarrow> [])
          @ (if truthy (vcMac b) then [''macaddr='' @ the (vcMac b)] else []))
      in if firmware = None then net else withNetFirewall net True)"

definition or_firmware :: "string option \<Rightarrow> (vm_firmware \<Rightarrow> string) \<Rightarrow> vm_firmware option \<Rightarrow> js" where
  "or_firmware own f firmware = opt_js_str (case own of Some s \<Rightarrow> Some s | None \<Rightarrow> map_option f firmware)"

definition vm_payload :: "vm_create \<Rightarrow> js_record" where
  "vm_payload b =
     (let disk = vmDiskSpec (vcDiskStorage b) (vcDiskSize b) (vcDiskVolume b)
            (diskExtras (vcCache b) (vcDiscard b) (vcSsd b) None (Some (vcDiskBus b)) (vcScsihw b));
          ostype = vm_ostype b; firmware = windowsVmFirmware ostype; windows = (firmware \<noteq> None);
          num = (\<lambda>i. JNum (of_int_num i)); cpu = trim (opt_str (vcCpu b));
          hasEfi = (case vcEfi b of Some e \<Rightarrow> e | None \<Rightarrow> windows); hasTpm = (case vcTpm b of Some t \<Rightarrow> t | None \<Rightarrow> windows)
      in [(''vmid'', num (vcVmid b)), (''name'', JStr (vcName b)), (''description'', opt_js_str (vcDescription b)),
          (''memory'', num (vcMemory b)), (''balloon'', int_js (vcBalloon b)), (''cores'', num (vcCores b)),
          (''sockets'', num (case vcSockets b of None \<Rightarrow> 1 | Some s \<Rightarrow> s)), (''numa'', js_bit (vcNuma b = Some True)),
          (''cpu'', if cpu \<noteq> [] then JStr cpu else opt_js_str (map_option fwCpu firmware)),
          (''scsihw'', JStr (case vcScsihw b of None \<Rightarrow> ''virtio-scsi-single'' | Some s \<Rightarrow> s)),
          (''bios'', or_firmware (vcBios b) fwBios firmware), (''machine'', or_firmware (vcMachine b) fwMachine firmware),
          (''net0'', JStr (vm_net b firmware)), (''ostype'', JStr ostype), (''agent'', JStr ''1''), (''serial0'', JStr ''socket''),
          (''tablet'', js_bit True)]
         @ (if windows then [(''onboot'', js_bit True), (''vga'', JStr ''std'')] else [])
         @ [(disk_key (vcDiskBus b), JStr disk)]
         @ vmCdromDisks (vcIso b) (vcIso2 b)
         @ [(''boot'', JStr (vmCreateBootOrder (vcDiskBus b) (trim (opt_str (vcIso b)) \<noteq> [])))]
         @ (if hasEfi then [(''efidisk0'', JStr (vcDiskStorage b @ '':1,efitype=4m,pre-enrolled-keys=1''))] else [])
         @ (if hasTpm then [(''tpmstate0'', JStr (vcDiskStorage b @ '':1,version=v2.0''))] else []))"

record created_reply =
  crUpid :: js
  crNode :: string
  crVmid :: int

text \<open>The shape both routes share: the identity is free, the guest is created and its task followed.\<close>

definition create_guest ::
  "px_env \<Rightarrow> platform \<Rightarrow> host_env \<Rightarrow> session_user \<Rightarrow> string \<Rightarrow> guest_kind \<Rightarrow> string \<Rightarrow> int \<Rightarrow> string option \<Rightarrow> string \<Rightarrow>
     (proxmox_config \<Rightarrow> js mesh_op) \<Rightarrow> string \<Rightarrow> created_reply mesh_op" where
  "create_guest x pf env user hostId kind node vmid ip name create auditAction =
     bind_op (catch_op
       (withHostClient pf env hostId user (\<lambda>c host.
          bind_op (assertGuestIdentityFree x pf env host vmid ip) (\<lambda>_.
          bind_op (create c) (\<lambda>createUpid.
          bind_op (followGuestCreateTask c kind node vmid name hostId createUpid (suId user) auditAction) (\<lambda>_.
          return_op createUpid)))))
       (\<lambda>e. bind_op (notice_op (created_topic kind) ''error'' name) (\<lambda>_. throw_op e))) (\<lambda>upid.
     bind_op (write_op (invalidateInventoryCache hostId)) (\<lambda>_.
     return_op \<lparr>crUpid = upid, crNode = node, crVmid = vmid\<rparr>))"

definition vms_create_POST :: "px_env \<Rightarrow> platform \<Rightarrow> host_env \<Rightarrow> session_user \<Rightarrow> string \<Rightarrow> vm_create \<Rightarrow> created_reply mesh_op" where
  "vms_create_POST x pf env user hostId b =
     bind_op (guard_op (createVmSchema b) (ZodError [])) (\<lambda>_.
     create_guest x pf env user hostId VM (vcNode b) (vcVmid b) None (vcName b) (\<lambda>c. vms_create x c (vcNode b) (vm_payload b)) ''VM_CREATED'')"

section \<open>Containers\<close>

record lxc_create_body =
  lcNode :: string
  lcVmid :: int
  lcHostname :: string
  lcPassword :: string
  lcOstemplate :: string
  lcStorage :: string
  lcDiskSize :: string
  lcCores :: int
  lcMemory :: int
  lcSwap :: "int option"
  lcBridge :: string
  lcVlan :: "int option"
  lcIpv4 :: "string option"
  lcGateway :: "string option"
  lcNameserver :: "string option"
  lcSearchdomain :: "string option"
  lcUnprivileged :: "bool option"
  lcNesting :: "bool option"
  lcDescription :: "string option"

definition createLxcSchema :: "lxc_create_body \<Rightarrow> bool" where
  "createLxcSchema b \<longleftrightarrow>
     lcNode b \<noteq> [] \<and> 0 < lcVmid b \<and> lcHostname b \<noteq> [] \<and> 5 \<le> length (lcPassword b) \<and> lcOstemplate b \<noteq> [] \<and> lcStorage b \<noteq> []
     \<and> lcDiskSize b \<noteq> [] \<and> 0 < lcCores b \<and> 0 < lcMemory b \<and> at_least 0 (lcSwap b) \<and> lcBridge b \<noteq> []"

definition lxc_static :: "lxc_create_body \<Rightarrow> bool" where
  "lxc_static b \<longleftrightarrow> truthy (lcIpv4 b) \<and> lcIpv4 b \<noteq> Some ''dhcp''"

definition lxc_net0 :: "lxc_create_body \<Rightarrow> string" where
  "lxc_net0 b =
     buildLxcNet0 \<lparr>lnBridge = lcBridge b, lnVlan = lcVlan b, lnDhcp = (\<not> lxc_static b),
       lnCidr = (if lxc_static b then Some (normalizeLxcCidr (opt_str (lcIpv4 b))) else None),
       lnGateway = (if lxc_static b then lcGateway b else None)\<rparr>"

definition lxc_payload :: "lxc_create_body \<Rightarrow> js_record" where
  "lxc_payload b =
     (let num = (\<lambda>i. JNum (of_int_num i)) in
      compactProxmoxBody
       [(''vmid'', num (lcVmid b)), (''hostname'', JStr (lcHostname b)), (''password'', JStr (lcPassword b)),
        (''ostemplate'', JStr (lcOstemplate b)), (''rootfs'', JStr (lcStorage b @ '':'' @ lcDiskSize b)), (''cores'', num (lcCores b)),
        (''memory'', num (lcMemory b)), (''swap'', num (case lcSwap b of None \<Rightarrow> 512 | Some s \<Rightarrow> s)), (''net0'', JStr (lxc_net0 b)),
        (''unprivileged'', js_bit (lcUnprivileged b \<noteq> Some False)),
        (''features'', if lcNesting b = Some False then JUndef else JStr ''nesting=1''),
        (''nameserver'', opt_js_str (lcNameserver b)), (''searchdomain'', opt_js_str (lcSearchdomain b)),
        (''description'', opt_js_str (lcDescription b))])"

definition lxc_ip :: "lxc_create_body \<Rightarrow> string option" where
  "lxc_ip b = (if lxc_static b then ipv4Host (opt_str (lcIpv4 b)) else None)"

definition lxc_create_POST :: "px_env \<Rightarrow> platform \<Rightarrow> host_env \<Rightarrow> session_user \<Rightarrow> string \<Rightarrow> lxc_create_body \<Rightarrow> created_reply mesh_op" where
  "lxc_create_POST x pf env user hostId b =
     bind_op (guard_op (createLxcSchema b) (ZodError [])) (\<lambda>_.
     create_guest x pf env user hostId LXC (lcNode b) (lcVmid b) (lxc_ip b) (lcHostname b)
       (\<lambda>c. lxc_create x c (lcNode b) (lxc_payload b)) ''LXC_CREATED'')"

section \<open>Lists\<close>

definition vms_GET :: "px_env \<Rightarrow> platform \<Rightarrow> host_env \<Rightarrow> session_user \<Rightarrow> string \<Rightarrow> guest_item list mesh_op" where
  "vms_GET x pf env user hostId =
     withHostClient pf env hostId user (\<lambda>c h. bind_op (loadHostInventory x c hostId) (\<lambda>found.
       return_op (filterGuestsForUser user hostId VM giVmid (inVms found))))"

definition lxc_GET :: "px_env \<Rightarrow> platform \<Rightarrow> host_env \<Rightarrow> session_user \<Rightarrow> string \<Rightarrow> guest_item list mesh_op" where
  "lxc_GET x pf env user hostId =
     withHostClient pf env hostId user (\<lambda>c h. bind_op (loadHostInventory x c hostId) (\<lambda>found.
       return_op (filterGuestsForUser user hostId LXC giVmid (inContainers found))))"

end
