(* ===== verification/GuestCreateProperties.thy ===== *)
theory GuestCreateProperties imports GuestTaskProperties GuestCreate begin

text \<open>
  What a creation sends, and the hardware that Windows guests get.
\<close>

section \<open>Free identities\<close>

definition taken_identities :: "px_env \<Rightarrow> platform \<Rightarrow> host_env \<Rightarrow> host_row \<Rightarrow> string option \<Rightarrow> (int list \<times> string list) mesh_op" where
  "taken_identities x pf env host ip =
     (if truthy ip then collectUsedGuestIpsForHost x pf env host
      else bind_op (collectUsedVmidsForHost x pf env host) (\<lambda>v. return_op (v, [])))"

definition seen_free :: "px_env \<Rightarrow> platform \<Rightarrow> host_env \<Rightarrow> host_row \<Rightarrow> int \<Rightarrow> string option \<Rightarrow> bool" where
  "seen_free x pf env host vmid ip \<longleftrightarrow>
     (\<exists>st st' vmids ips. taken_identities x pf env host ip st = (Inr (vmids, ips), st')
        \<and> vmid \<notin> set vmids \<and> (truthy ip \<longrightarrow> the ip \<notin> set ips))"

lemma identity_seen_free:
  assumes "assertGuestIdentityFree x pf env host vmid ip st = (Inr u, st')"
  shows "seen_free x pf env host vmid ip"
proof -
  obtain a b st1 where run: "taken_identities x pf env host ip st = (Inr (a, b), st1)"
    and rest: "(case identityConflict a b vmid ip of Some VmidTaken \<Rightarrow> throw_op (taken_error (''VMID '' @ int_str vmid))
       | Some IpTaken \<Rightarrow> throw_op (taken_error (''IPv4 '' @ the ip)) | None \<Rightarrow> return_op ()) st1 = (Inr u, st')"
    using assms unfolding assertGuestIdentityFree_def taken_identities_def [symmetric]
    by (auto simp: bind_Inr)
  have free: "identityConflict a b vmid ip = None"
  proof (cases "identityConflict a b vmid ip")
    case (Some k)
    with rest show ?thesis by (cases k) (simp_all add: throw_op_def)
  qed
  from free have "vmid \<notin> set a \<and> (truthy ip \<longrightarrow> the ip \<notin> set b)"
    by (auto simp: identityConflict_def truthy_def split: if_splits option.splits)
  with run show ?thesis unfolding seen_free_def by blast
qed

text \<open>What the creation of a guest may send.\<close>

definition creation_call ::
  "px_env \<Rightarrow> platform \<Rightarrow> host_env \<Rightarrow> host_row option \<Rightarrow> guest_kind \<Rightarrow> string \<Rightarrow> int \<Rightarrow> string option \<Rightarrow> js_record \<Rightarrow> px_call \<Rightarrow> bool" where
  "creation_call x pf env host kind node vmid ip body call \<longleftrightarrow>
     pxVerb call = ''GET''
     \<or> pxVerb call = ''POST'' \<and> pxPath call = node_path node (if kind = VM then ''/qemu'' else ''/lxc'') \<and> pxBody call = Some body
       \<and> (\<exists>h. host = Some h \<and> seen_free x pf env h vmid ip)"

lemma creation_reads [simp]: "reads_pass (creation_call x pf env host kind node vmid ip body)"
  by (simp add: reads_pass_def creation_call_def)

lemma quiet_follow [preserve_intros]: "preserves (sent_only P base) (followGuestCreateTask c kind node vmid name hostId upid userId a)"
  unfolding followGuestCreateTask_def change_wire_def by (intro preserves_quiet_write) (simp add: silent)

lemma create_guest_sends:
  assumes create: "\<And>c. create c = px_post x c (node_path node (if kind = VM then ''/qemu'' else ''/lxc'')) (Some body) None"
    and st: "sent_only (creation_call x pf env (host_by_id hostId st) kind node vmid ip body) base st"
  shows "sent_only (creation_call x pf env (host_by_id hostId st) kind node vmid ip body) base
    (snd (create_guest x pf env user hostId kind node vmid ip name create auditAction st))"
proof -
  let ?I = "sent_only (creation_call x pf env (host_by_id hostId st) kind node vmid ip body) base"
  have post: "preserves ?I (create c)" if "host_by_id hostId st = Some h" "seen_free x pf env h vmid ip" for c h
    unfolding create by (rule sent_verbs) (simp add: creation_call_def that)
  have run: "preserves ?I (bind_op (assertGuestIdentityFree x pf env h vmid ip) (\<lambda>_. bind_op (create c) (\<lambda>createUpid.
      bind_op (followGuestCreateTask c kind node vmid name hostId createUpid (suId user) auditAction) (\<lambda>_. return_op createUpid))))"
    if h: "host_by_id hostId st = Some h" for h c
  proof (rule preserves_bind_val)
    show "preserves ?I (assertGuestIdentityFree x pf env h vmid ip)" by (intro preserve_intros) simp
    fix u s s' assume "assertGuestIdentityFree x pf env h vmid ip s = (Inr u, s')"
    from post [OF h identity_seen_free [OF this]]
    show "preserves ?I (bind_op (create c) (\<lambda>createUpid.
      bind_op (followGuestCreateTask c kind node vmid name hostId createUpid (suId user) auditAction) (\<lambda>_. return_op createUpid)))"
      by (intro preserve_intros)
  qed
  have "?I (snd (withHostClient pf env hostId user (\<lambda>c host. bind_op (assertGuestIdentityFree x pf env host vmid ip) (\<lambda>_.
      bind_op (create c) (\<lambda>createUpid. bind_op (followGuestCreateTask c kind node vmid name hostId createUpid (suId user) auditAction) (\<lambda>_.
      return_op createUpid)))) st))"
    by (rule sent_withHostClient_own [OF _ st]) (rule run)
  then show ?thesis
    unfolding create_guest_def by - (rule bind_at [where I = ?I], rule catch_at [where I = ?I], assumption, (intro preserve_intros)+)
qed


end
