(* ===== verification/Urls.thy ===== *)
theory Urls imports HttpGuard JsNumber begin

text \<open>
  Addresses as the \<open>URL\<close> class shows them, and \<^verbatim>\<open>lib/webhook-url.ts\<close>.  The parser and the
  serialiser of the platform are the parameter \<open>url_api\<close>: \<open>upNew\<close> is \<open>new URL(text)\<close> with
  \<open>None\<close> for its \<open>TypeError\<close>, \<open>upResolve\<close> takes a base, \<open>upSetPath\<close> and
  \<open>upSetSearch\<close> are the setters, and \<open>upHref\<close> is \<open>toString\<close>.
\<close>

record web_url =
  wuProtocol :: string
  wuUsername :: string
  wuPassword :: string
  wuHostname :: string
  wuPort :: string
  wuPathname :: string
  wuSearch :: string
  wuHash :: string
  wuOrigin :: string

record url_api =
  upNew :: "string \<Rightarrow> web_url option"
  upResolve :: "string \<Rightarrow> web_url \<Rightarrow> web_url option"
  upSetPath :: "string \<Rightarrow> web_url \<Rightarrow> web_url"
  upSetSearch :: "string \<Rightarrow> web_url \<Rightarrow> web_url"
  upHref :: "web_url \<Rightarrow> string"

definition url_host :: "web_url \<Rightarrow> string" where
  "url_host u = wuHostname u @ (if wuPort u = [] then [] else CHR '':'' # wuPort u)"

definition web_scheme :: "web_url \<Rightarrow> bool" where
  "web_scheme u \<longleftrightarrow> wuProtocol u = ''https:'' \<or> wuProtocol u = ''http:''"

definition has_credentials :: "web_url \<Rightarrow> bool" where
  "has_credentials u \<longleftrightarrow> wuUsername u \<noteq> [] \<or> wuPassword u \<noteq> []"

section \<open>Addresses of webhooks\<close>

definition BLOCKED_HOSTS :: "string list" where
  "BLOCKED_HOSTS = [''localhost'', ''metadata.google.internal'']"

definition dotted_quad :: "string \<Rightarrow> nat list option" where
  "dotted_quad host =
     (let parts = split_on CHR ''.'' host in
      if length parts = 4 \<and> list_all (\<lambda>p. all_digits p \<and> length p \<le> 3) parts
      then (let octets = map digits_val parts in if list_ex (\<lambda>n. 255 < n) octets then None else Some octets)
      else None)"

definition private_octets :: "nat list \<Rightarrow> bool" where
  "private_octets ip =
     (let a = ip ! 0; b = ip ! 1 in
      a = 10 \<or> a = 127 \<or> a = 0 \<or> (a = 169 \<and> b = 254) \<or> (a = 172 \<and> 16 \<le> b \<and> b \<le> 31) \<or> (a = 192 \<and> b = 168))"

definition isPrivateOrLocalHostname :: "string \<Rightarrow> bool" where
  "isPrivateOrLocalHostname host =
     (let name = strip_trailing CHR ''.'' (to_lower (trim host)) in
      if name = [] then True
      else if name \<in> set BLOCKED_HOSTS \<or> ends_with name ''.localhost'' \<or> ends_with name ''.local'' then True
      else if name = ''::1'' \<or> name = ''0.0.0.0'' \<or> starts_with name ''fe80:'' \<or> starts_with name ''fc'' \<or> starts_with name ''fd''
      then True
      else (case dotted_quad name of None \<Rightarrow> False | Some ip \<Rightarrow> private_octets ip))"

definition assertSafeWebhookUrl :: "url_api \<Rightarrow> string \<Rightarrow> js_error + string" where
  "assertSafeWebhookUrl api url =
     (case upNew api (trim url) of None \<Rightarrow> Inl (ValidationError ''Invalid webhook URL'')
      | Some parsed \<Rightarrow>
         if \<not> web_scheme parsed then Inl (ValidationError ''Webhook URL must be http(s)'')
         else if has_credentials parsed then Inl (ValidationError ''Webhook URL must not include credentials'')
         else if isPrivateOrLocalHostname (wuHostname parsed)
         then Inl (ValidationError ''Webhook URL must not point at a private or local address'')
         else Inr (upHref api parsed))"

definition push_host_blocked :: "string \<Rightarrow> bool" where
  "push_host_blocked host \<longleftrightarrow>
     host = [] \<or> host = ''localhost'' \<or> ends_with host ''.localhost'' \<or> host = ''metadata.google.internal''
     \<or> host = ''::1'' \<or> host = ''0.0.0.0'' \<or> host = ''127.0.0.1'' \<or> starts_with host ''169.254.''"

definition assertSafePushUrl :: "url_api \<Rightarrow> string \<Rightarrow> js_error + string" where
  "assertSafePushUrl api url =
     (case upNew api (trim url) of None \<Rightarrow> Inl (ValidationError ''Invalid push URL'')
      | Some parsed \<Rightarrow>
         if \<not> web_scheme parsed then Inl (ValidationError ''Push URL must be http(s)'')
         else if has_credentials parsed then Inl (ValidationError ''Push URL must not include credentials'')
         else if push_host_blocked (strip_trailing CHR ''.'' (to_lower (trim (wuHostname parsed))))
         then Inl (ValidationError ''Invalid push URL'')
         else Inr (upHref api parsed))"

section \<open>Hosts that pass\<close>

text \<open>The parser writes IPv6 hosts in brackets and IPv4 hosts as four decimal octets.\<close>

definition dotted :: "nat \<Rightarrow> nat \<Rightarrow> nat \<Rightarrow> nat \<Rightarrow> string" where
  "dotted a b c d = join ''.'' [nat_str a, nat_str b, nat_str c, nat_str d]"

end
