(* ===== verification/SuiteEmbeds.thy ===== *)
theory SuiteEmbeds imports Urls JsValue begin

text \<open>
  The list of embedded applications: \<^verbatim>\<open>lib/suite-embeds.ts\<close> and
  \<^verbatim>\<open>server/services/suite-embeds.ts\<close>.  Folding a name to its plain letters
  (\<open>normalize("NFKD")\<close> without the marks) is the parameter \<open>plain\<close>.
\<close>

record suite_app =
  saId :: string
  saName :: string
  saUrl :: string
  saInsecureTls :: bool

definition MAX_APPS :: nat where
  "MAX_APPS = 24"

definition id_char :: "char \<Rightarrow> bool" where
  "id_char c \<longleftrightarrow> in_range 97 122 c \<or> is_digit c"

definition id_ok :: "string \<Rightarrow> bool" where
  "id_ok s \<longleftrightarrow> s \<noteq> [] \<and> length s \<le> 40 \<and> id_char (hd s) \<and> id_char (last s) \<and> list_all (\<lambda>c. id_char c \<or> c = CHR ''-'') s"

definition web_href :: "url_api \<Rightarrow> web_url \<Rightarrow> string" where
  "web_href api u = upHref api (u\<lparr>wuHash := []\<rparr>)"

definition safeUrl :: "url_api \<Rightarrow> js \<Rightarrow> string option" where
  "safeUrl api v =
     (case v of
        JStr s \<Rightarrow>
          (if trim s = [] then None
           else (case upNew api (trim s) of None \<Rightarrow> None
             | Some u \<Rightarrow> if \<not> web_scheme u \<or> has_credentials u then None else Some (web_href api u)))
      | _ \<Rightarrow> None)"

definition legacyApp :: "url_api \<Rightarrow> string \<Rightarrow> string \<Rightarrow> js \<Rightarrow> suite_app option" where
  "legacyApp api ident name v =
     map_option (\<lambda>safe. \<lparr>saId = ident, saName = name, saUrl = safe, saInsecureTls = False\<rparr>) (safeUrl api v)"

definition withInsecureTls :: "suite_app \<Rightarrow> js \<Rightarrow> suite_app" where
  "withInsecureTls app flag =
     (if flag = JBool True \<and> starts_with (saUrl app) ''https:'' then app\<lparr>saInsecureTls := True\<rparr> else app)"

definition fields_of :: "js \<Rightarrow> js_record" where
  "fields_of v = (case v of JObj r \<Rightarrow> r | _ \<Rightarrow> [])"

definition storedApp :: "url_api \<Rightarrow> js \<Rightarrow> suite_app option" where
  "storedApp api v =
     (if \<not> js_is_object v then None
      else (let raw = fields_of v in
        case safeUrl api (get_prop raw ''url'') of None \<Rightarrow> None
        | Some url \<Rightarrow>
            (case (str_field raw ''id'', str_field raw ''name'') of
               (Some ident, Some name) \<Rightarrow>
                 (if id_ok ident \<and> trim name \<noteq> []
                  then Some (withInsecureTls \<lparr>saId = ident, saName = trim name, saUrl = url, saInsecureTls = False\<rparr>
                         (get_prop raw ''insecureTls''))
                  else None)
             | _ \<Rightarrow> None)))"

fun stored_apps :: "url_api \<Rightarrow> string list \<Rightarrow> js list \<Rightarrow> suite_app list" where
  "stored_apps api seen [] = []"
| "stored_apps api seen (item # items) =
     (case storedApp api item of None \<Rightarrow> stored_apps api seen items
      | Some app \<Rightarrow>
          if saId app \<in> set seen then stored_apps api seen items
          else app # stored_apps api (saId app # seen) items)"

definition readSuiteEmbeds :: "url_api \<Rightarrow> js \<Rightarrow> suite_app list" where
  "readSuiteEmbeds api v =
     (if \<not> js_is_object v then []
      else (let raw = fields_of v in
        case get_prop raw ''apps'' of
          JArr items \<Rightarrow> stored_apps api [] items
        | _ \<Rightarrow> List.map_filter id
            [legacyApp api ''dockora'' ''Dockora'' (get_prop raw ''dockora''),
             legacyApp api ''sambora'' ''Sambora'' (get_prop raw ''sambora'')]))"

section \<open>New ids\<close>

fun squeeze :: "bool \<Rightarrow> string \<Rightarrow> string" where
  "squeeze gap [] = []"
| "squeeze gap (c # s) =
     (if id_char c then c # squeeze False s else if gap then squeeze True s else CHR ''-'' # squeeze True s)"

definition strip_leading :: "char \<Rightarrow> string \<Rightarrow> string" where
  "strip_leading d = dropWhile (\<lambda>c. c = d)"

definition id_root :: "(string \<Rightarrow> string) \<Rightarrow> string \<Rightarrow> string" where
  "id_root plain name =
     (let base = strip_trailing CHR ''-'' (take 40 (strip_trailing CHR ''-'' (strip_leading CHR ''-'' (squeeze False (to_lower (plain name))))))
      in if base = [] then ''app'' else base)"

definition with_suffix :: "string \<Rightarrow> nat \<Rightarrow> string" where
  "with_suffix root' n = (let suffix = CHR ''-'' # nat_str n in take (40 - length suffix) root' @ suffix)"

text \<open>The loop; it may look at a new number in every round.\<close>

partial_function (option) next_id :: "string \<Rightarrow> string list \<Rightarrow> string \<Rightarrow> nat \<Rightarrow> string option" where
  "next_id root' taken ident n =
     (if ident \<in> set taken \<or> \<not> id_ok ident then next_id root' taken (with_suffix root' n) (n + 1) else Some ident)"

definition suiteAppId :: "(string \<Rightarrow> string) \<Rightarrow> string \<Rightarrow> string list \<Rightarrow> string option" where
  "suiteAppId plain name taken = (let root' = id_root plain name in next_id root' taken root' 2)"

section \<open>Saving\<close>

definition bad_address :: js_error where
  "bad_address = ValidationError ''Address must be an http or https URL''"

definition parseEmbedUrl :: "url_api \<Rightarrow> string \<Rightarrow> js_error + string option" where
  "parseEmbedUrl api v =
     (if trim v = [] then Inr None
      else (case upNew api (trim v) of None \<Rightarrow> Inl bad_address
        | Some u \<Rightarrow>
            if \<not> web_scheme u then Inl bad_address
            else if has_credentials u then Inl (ValidationError ''Address must not contain a password'')
            else Inr (Some (web_href api u))))"

definition trimmed_field :: "js_record \<Rightarrow> string \<Rightarrow> string" where
  "trimmed_field raw k = (case str_field raw k of None \<Rightarrow> [] | Some s \<Rightarrow> trim s)"

datatype parsed_app = SkipApp | BadApp js_error | NewApp suite_app

text \<open>One item of the list; \<open>None\<close> is a search for an id that does not end.\<close>

definition parse_app :: "url_api \<Rightarrow> (string \<Rightarrow> string) \<Rightarrow> string list \<Rightarrow> js \<Rightarrow> parsed_app option" where
  "parse_app api plain taken item =
     (if \<not> js_is_object item then Some (BadApp (ValidationError ''Each app needs a name and an address''))
      else
        (let raw = fields_of item; name = trimmed_field raw ''name''; urlText = trimmed_field raw ''url'' in
         if name = [] \<and> urlText = [] then Some SkipApp
         else if name = [] \<or> 48 < length name then Some (BadApp (ValidationError ''Each app needs a name''))
         else (case parseEmbedUrl api urlText of Inl e \<Rightarrow> Some (BadApp e)
           | Inr None \<Rightarrow> Some (BadApp (ValidationError ''Each app needs an address''))
           | Inr (Some url) \<Rightarrow>
               (let given = to_lower (trimmed_field raw ''id'') in
                if given \<noteq> [] \<and> (\<not> id_ok given \<or> given \<in> set taken)
                then Some (BadApp (ValidationError ''Each app needs its own name''))
                else map_option (\<lambda>ident. NewApp (withInsecureTls
                         \<lparr>saId = ident, saName = name, saUrl = url, saInsecureTls = False\<rparr> (get_prop raw ''insecureTls'')))
                       (if given \<noteq> [] then Some given else suiteAppId plain name taken)))))"

fun parse_apps :: "url_api \<Rightarrow> (string \<Rightarrow> string) \<Rightarrow> string list \<Rightarrow> js list \<Rightarrow> (js_error + suite_app list) option" where
  "parse_apps api plain taken [] = Some (Inr [])"
| "parse_apps api plain taken (item # items) =
     (case parse_app api plain taken item of None \<Rightarrow> None
      | Some SkipApp \<Rightarrow> parse_apps api plain taken items
      | Some (BadApp e) \<Rightarrow> Some (Inl e)
      | Some (NewApp app) \<Rightarrow> map_option (map_sum id ((#) app)) (parse_apps api plain (saId app # taken) items))"

definition parseSuiteApps :: "url_api \<Rightarrow> (string \<Rightarrow> string) \<Rightarrow> js \<Rightarrow> (js_error + suite_app list) option" where
  "parseSuiteApps api plain v =
     (case v of
        JArr items \<Rightarrow>
          (if MAX_APPS < length items then Some (Inl (ValidationError ''Too many apps'')) else parse_apps api plain [] items)
      | _ \<Rightarrow> Some (Inl (ValidationError ''Apps must be a list'')))"

section \<open>The service\<close>

definition app_js :: "suite_app \<Rightarrow> js" where
  "app_js app = JObj ([(''id'', JStr (saId app)), (''name'', JStr (saName app)), (''url'', JStr (saUrl app))]
     @ (if saInsecureTls app then [(''insecureTls'', JBool True)] else []))"

definition SUITE_EMBEDS_KEY :: string where
  "SUITE_EMBEDS_KEY = ''suite.embeds''"

definition EMBED_CACHE_MS :: int where
  "EMBED_CACHE_MS = 60000"

record embed_state =
  esSettings :: "(string \<times> js) list"
  esCache :: "(int \<times> suite_app list) option"

definition loadSuiteEmbeds :: "url_api \<Rightarrow> embed_state \<Rightarrow> suite_app list" where
  "loadSuiteEmbeds api st = (case map_of (esSettings st) SUITE_EMBEDS_KEY of None \<Rightarrow> [] | Some v \<Rightarrow> readSuiteEmbeds api v)"

definition loadSuiteEmbedAppsCached :: "url_api \<Rightarrow> int \<Rightarrow> embed_state \<Rightarrow> suite_app list \<times> embed_state" where
  "loadSuiteEmbedAppsCached api now st =
     (let fresh = (let apps = loadSuiteEmbeds api st in (apps, st\<lparr>esCache := Some (now, apps)\<rparr>)) in
      case esCache st of
        Some (since, apps) \<Rightarrow> if now - since \<le> EMBED_CACHE_MS then (apps, st) else fresh
      | None \<Rightarrow> fresh)"

definition saveSuiteEmbeds ::
  "url_api \<Rightarrow> (string \<Rightarrow> string) \<Rightarrow> js \<Rightarrow> embed_state \<Rightarrow> ((js_error + suite_app list) \<times> embed_state) option" where
  "saveSuiteEmbeds api plain apps st =
     map_option (\<lambda>r. case r of Inl e \<Rightarrow> (Inl e, st)
       | Inr next' \<Rightarrow> (Inr next', st\<lparr>esSettings := AList.update SUITE_EMBEDS_KEY (JObj [(''apps'', JArr (map app_js next'))]) (esSettings st),
                                esCache := None\<rparr>))
       (parseSuiteApps api plain apps)"

end
