(* ===== verification/SuiteEmbedProperties.thy ===== *)
theory SuiteEmbedProperties imports SuiteEmbeds begin

text \<open>Saved lists of applications: every id is found, new and well formed, and a list is read back as it was saved.\<close>

section \<open>Searching an id\<close>

lemma length_nat_str: "n < 10 ^ Suc k \<Longrightarrow> length (nat_str n) \<le> Suc k"
proof (induction k arbitrary: n)
  case 0
  then show ?case by (subst nat_str.simps) simp
next
  case (Suc k)
  show ?case
  proof (cases "n < 10")
    case True
    then show ?thesis by (subst nat_str.simps) simp
  next
    case False
    from Suc.prems have "n div 10 < 10 ^ Suc k" by (simp add: div_less_iff_less_mult mult.commute)
    from Suc.IH [OF this] False show ?thesis by (subst nat_str.simps) simp
  qed
qed

lemma digit_id_char: "is_digit c \<Longrightarrow> id_char c"
  by (simp add: id_char_def)

lemma dash_no_digit: "CHR ''-'' \<notin> set (nat_str n)"
  by (rule nat_str_no_char) simp

lemma suffix_inj: "with_suffix r m = with_suffix r n \<Longrightarrow> m = n"
proof -
  have tail: "takeWhile (\<lambda>c. c \<noteq> CHR ''-'') (rev (with_suffix r k)) = rev (nat_str k)" for k
  proof -
    have "\<And>c. c \<in> set (rev (nat_str k)) \<Longrightarrow> c \<noteq> CHR ''-''" using dash_no_digit [of k] by auto
    from takeWhile_append2 [of "rev (nat_str k)", OF this] show ?thesis by (simp add: with_suffix_def Let_def)
  qed
  assume "with_suffix r m = with_suffix r n"
  then have "nat_str m = nat_str n" using tail by (metis rev_rev_ident)
  then show "m = n" by simp
qed

definition root_ok :: "string \<Rightarrow> bool" where
  "root_ok r \<longleftrightarrow> r \<noteq> [] \<and> id_char (hd r) \<and> list_all (\<lambda>c. id_char c \<or> c = CHR ''-'') r"

lemma suffix_ok:
  assumes "root_ok r" "n < 10 ^ 38"
  shows "id_ok (with_suffix r n)"
proof -
  have len: "length (nat_str n) \<le> 38" using length_nat_str [of n 37] assms(2) by simp
  have digits: "list_all is_digit (nat_str n)" by (rule nat_str_digits)
  let ?k = "40 - Suc (length (nat_str n))"
  have "take ?k r \<noteq> []" using assms(1) len by (simp add: root_ok_def)
  then have "hd (with_suffix r n) = hd r" by (simp add: with_suffix_def Let_def hd_append)
  moreover have "id_char (last (with_suffix r n))"
    using digits by (simp add: with_suffix_def Let_def digit_id_char list_all_iff)
  moreover have "list_all (\<lambda>c. id_char c \<or> c = CHR ''-'') (with_suffix r n)"
    using assms(1) digits by (auto simp: with_suffix_def Let_def root_ok_def list_all_iff digit_id_char dest: in_set_takeD)
  moreover have "length (with_suffix r n) \<le> 40" using len by (simp add: with_suffix_def Let_def)
  moreover have "with_suffix r n \<noteq> []" by (simp add: with_suffix_def Let_def)
  ultimately show ?thesis using assms(1) by (simp add: id_ok_def root_ok_def)
qed

lemma next_id_ends:
  assumes "root_ok r" "with_suffix r (n + k) \<notin> set taken" "n + k < 10 ^ 38"
  shows "\<exists>i. next_id r taken ident n = Some i \<and> i \<notin> set taken \<and> id_ok i"
  using assms(2,3)
proof (induction k arbitrary: ident n)
  case 0
  then have free: "next_id r taken (with_suffix r n) (n + 1) = Some (with_suffix r n)" "id_ok (with_suffix r n)"
    using suffix_ok [OF assms(1), of n] next_id.simps [of r taken "with_suffix r n" "n + 1"] by simp_all
  with 0 show ?case using next_id.simps [of r taken ident n] by (cases "ident \<in> set taken \<or> \<not> id_ok ident") simp_all
next
  case (Suc k)
  from Suc.IH [of "n + 1" "with_suffix r n"] Suc.prems
  have "\<exists>i. next_id r taken (with_suffix r n) (n + 1) = Some i \<and> i \<notin> set taken \<and> id_ok i" by simp
  then show ?case using next_id.simps [of r taken ident n] by (cases "ident \<in> set taken \<or> \<not> id_ok ident") simp_all
qed

lemma some_suffix_free: "\<exists>k \<le> length taken. with_suffix r (n + k) \<notin> set taken"
proof (rule ccontr)
  assume "\<not> ?thesis"
  then have "(\<lambda>k. with_suffix r (n + k)) ` {..length taken} \<subseteq> set taken" by auto
  then have "card ((\<lambda>k. with_suffix r (n + k)) ` {..length taken}) \<le> length taken"
    by (meson List.finite_set card_length card_mono le_trans)
  moreover have "inj_on (\<lambda>k. with_suffix r (n + k)) {..length taken}" by (rule inj_onI) (auto dest: suffix_inj)
  ultimately show False by (simp add: card_image)
qed

lemma squeeze_chars: "list_all (\<lambda>c. id_char c \<or> c = CHR ''-'') (squeeze g s)"
  by (induction g s rule: squeeze.induct) simp_all

lemma set_strip_trailing: "set (strip_trailing d s) \<subseteq> set s"
  by (auto simp: strip_trailing_def dest: set_dropWhileD)

lemma hd_strip_trailing: "hd s \<noteq> d \<Longrightarrow> s \<noteq> [] \<Longrightarrow> strip_trailing d s \<noteq> [] \<and> hd (strip_trailing d s) = hd s"
proof (induction s rule: rev_induct)
  case (snoc c s)
  then show ?case by (cases s) (auto simp: strip_trailing_def hd_append)
qed simp

lemma id_root_ok: "root_ok (id_root plain name)"
proof -
  let ?q = "squeeze False (to_lower (plain name))"
  let ?l = "strip_leading CHR ''-'' ?q"
  let ?m = "take 40 (strip_trailing CHR ''-'' ?l)"
  let ?b = "strip_trailing CHR ''-'' ?m"
  have chars: "\<And>c. c \<in> set ?b \<Longrightarrow> id_char c \<or> c = CHR ''-''"
  proof -
    fix c assume "c \<in> set ?b"
    then have "c \<in> set ?m" by (rule subsetD [OF set_strip_trailing])
    then have "c \<in> set ?l" by (rule in_set_takeD [THEN subsetD [OF set_strip_trailing]])
    then have "c \<in> set ?q" by (simp add: strip_leading_def) (blast dest: set_dropWhileD)
    then show "id_char c \<or> c = CHR ''-''" using squeeze_chars [of False "to_lower (plain name)"] by (simp add: list_all_iff)
  qed
  have app: "root_ok ''app''" by code_simp
  show ?thesis
  proof (cases "?b = []")
    case True
    then show ?thesis using app by (simp add: id_root_def Let_def)
  next
    case False
    then have l: "?l \<noteq> []" by (auto simp: strip_trailing_def)
    then have "hd ?l \<noteq> CHR ''-''" using hd_dropWhile [of "\<lambda>c. c = CHR ''-''" ?q] by (simp add: strip_leading_def)
    with l have m: "?m \<noteq> []" "hd ?m \<noteq> CHR ''-''" using hd_strip_trailing by fastforce+
    then have "hd ?b \<noteq> CHR ''-''" using hd_strip_trailing by fastforce
    with chars [of "hd ?b"] False have "id_char (hd ?b)" by simp
    with chars False show ?thesis by (auto simp: id_root_def Let_def root_ok_def list_all_iff)
  qed
qed

lemma suiteAppId_ends:
  assumes "length taken \<le> 1000"
  shows "\<exists>i. suiteAppId plain name taken = Some i \<and> i \<notin> set taken \<and> id_ok i"
proof -
  obtain k where "k \<le> length taken" "with_suffix (id_root plain name) (2 + k) \<notin> set taken" using some_suffix_free by blast
  moreover have "2 + k < 10 ^ 38" if "k \<le> length taken" using that assms by simp
  ultimately show ?thesis unfolding suiteAppId_def Let_def by (blast intro: next_id_ends [OF id_root_ok])
qed

section \<open>Saved lists\<close>

definition app_ok :: "url_api \<Rightarrow> suite_app \<Rightarrow> bool" where
  "app_ok api a \<longleftrightarrow>
     id_ok (saId a) \<and> saName a \<noteq> [] \<and> trim (saName a) = saName a \<and> length (saName a) \<le> 48
     \<and> (saInsecureTls a \<longrightarrow> starts_with (saUrl a) ''https:'')
     \<and> (\<exists>t u. upNew api t = Some u \<and> web_scheme u \<and> \<not> has_credentials u \<and> saUrl a = web_href api u)"

definition apps_ok :: "url_api \<Rightarrow> string list \<Rightarrow> suite_app list \<Rightarrow> bool" where
  "apps_ok api taken apps \<longleftrightarrow> distinct (map saId apps) \<and> (\<forall>a \<in> set apps. app_ok api a \<and> saId a \<notin> set taken)"

lemma insecure_ok: "saId (withInsecureTls a f) = saId a" "saName (withInsecureTls a f) = saName a" "saUrl (withInsecureTls a f) = saUrl a"
  "\<not> saInsecureTls a \<Longrightarrow> saInsecureTls (withInsecureTls a f) \<Longrightarrow> starts_with (saUrl a) ''https:''"
  by (auto simp: withInsecureTls_def split: if_splits)

lemma trimmed_trim: "trim (trimmed_field raw k) = trimmed_field raw k"
  by (auto simp: trimmed_field_def split: option.split) (simp add: trim_def trim_end_def trim_start_def)

lemma embed_url_web:
  "parseEmbedUrl api v = Inr (Some h) \<Longrightarrow> \<exists>u. upNew api (trim v) = Some u \<and> web_scheme u \<and> \<not> has_credentials u \<and> h = web_href api u"
  by (auto simp: parseEmbedUrl_def split: if_splits option.splits)

lemma parse_app_new:
  assumes "length taken \<le> 1000"
  shows "\<exists>r. parse_app api plain taken item = Some r \<and> (\<forall>a. r = NewApp a \<longrightarrow> app_ok api a \<and> saId a \<notin> set taken)"
proof -
  define raw where "raw = fields_of item"
  let ?name = "trimmed_field raw ''name''" and ?url = "trimmed_field raw ''url''" and ?given = "to_lower (trimmed_field raw ''id'')"
  let ?new = "\<lambda>url i. withInsecureTls \<lparr>saId = i, saName = ?name, saUrl = url, saInsecureTls = False\<rparr> (get_prop raw ''insecureTls'')"
  have ok: "app_ok api (?new url i)"
    if "id_ok i" "?name \<noteq> []" "length ?name \<le> 48" "parseEmbedUrl api ?url = Inr (Some url)" for url i
    using that embed_url_web [OF that(4)] insecure_ok [of "\<lparr>saId = i, saName = ?name, saUrl = url, saInsecureTls = False\<rparr>"]
    by (auto simp: app_ok_def trimmed_trim)
  obtain i where i: "suiteAppId plain ?name taken = Some i" "i \<notin> set taken" "id_ok i"
    using suiteAppId_ends [OF assms] by blast
  show ?thesis
    using ok i insecure_ok(1) unfolding parse_app_def raw_def [symmetric] Let_def
    by (auto split: sum.split option.split)
qed

lemma parse_apps_ok:
  assumes "length taken + length items \<le> 1000"
  shows "\<exists>r. parse_apps api plain taken items = Some r
    \<and> (\<forall>apps. r = Inr apps \<longrightarrow> apps_ok api taken apps \<and> length apps \<le> length items)"
  using assms
proof (induction items arbitrary: taken)
  case Nil
  then show ?case by (simp add: apps_ok_def)
next
  case (Cons item items)
  from Cons.prems obtain r where r: "parse_app api plain taken item = Some r"
    and new: "\<And>a. r = NewApp a \<Longrightarrow> app_ok api a \<and> saId a \<notin> set taken"
    using parse_app_new [of taken api plain item] by auto
  show ?case
  proof (cases r)
    case SkipApp
    with r Cons.IH [of taken] Cons.prems show ?thesis by fastforce
  next
    case (BadApp e)
    with r show ?thesis by simp
  next
    case (NewApp a)
    from Cons.IH [of "saId a # taken"] Cons.prems obtain q where
      q: "parse_apps api plain (saId a # taken) items = Some q"
        "\<And>apps. q = Inr apps \<Longrightarrow> apps_ok api (saId a # taken) apps \<and> length apps \<le> length items" by auto
    have "apps_ok api taken (a # apps) \<and> length (a # apps) \<le> length (item # items)" if "q = Inr apps" for apps
      using q(2) [OF that] new [OF NewApp] by (auto simp: apps_ok_def)
    with r NewApp q(1) show ?thesis by (cases q) auto
  qed
qed

lemma parseSuiteApps_result:
  "\<exists>r. parseSuiteApps api plain v = Some r
     \<and> (case r of Inl e \<Rightarrow> True | Inr apps \<Rightarrow> apps_ok api [] apps \<and> length apps \<le> 24)"
proof (cases "\<exists>items. v = JArr items \<and> length items \<le> 24")
  case True
  then obtain items where v: "v = JArr items" "length items \<le> 24" by blast
  with parse_apps_ok [of "[]" items api plain] show ?thesis
    by (auto simp: parseSuiteApps_def MAX_APPS_def split: sum.split)
next
  case False
  then show ?thesis by (auto simp: parseSuiteApps_def MAX_APPS_def split: js.split)
qed

lemma parseSuiteApps_shape: "parseSuiteApps api plain v = Some (Inr apps) \<Longrightarrow> apps_ok api [] apps"
  using parseSuiteApps_result [of api plain v] by simp

text \<open>
  C28: Saving a list of embedded applications always comes to an end, the search for a new id
  included, and a list that is accepted has at most 24 applications with different, well formed ids,
  a trimmed name of 1 to 48 characters and an address that is the parsed form of an http or https
  URL without user and password; the check of certificates is off only for https.
\<close>

theorem parseSuiteApps_ends:
  "\<exists>r. parseSuiteApps api plain v = Some r
     \<and> (case r of Inl e \<Rightarrow> True | Inr apps \<Rightarrow> apps_ok api [] apps \<and> length apps \<le> 24)"
  by (rule parseSuiteApps_result)

text \<open>Parsing the text of a parsed address gives an address with the same text, as the URL standard says.\<close>

definition stable_urls :: "url_api \<Rightarrow> bool" where
  "stable_urls api \<longleftrightarrow>
     (\<forall>t u. upNew api t = Some u \<longrightarrow>
        trim (web_href api u) = web_href api u \<and> web_href api u \<noteq> []
        \<and> (\<exists>u'. upNew api (web_href api u) = Some u' \<and> web_scheme u' = web_scheme u
             \<and> has_credentials u' = has_credentials u \<and> web_href api u' = web_href api u))"

lemma stored_app_js:
  assumes "stable_urls api" "app_ok api a"
  shows "storedApp api (app_js a) = Some a"
proof -
  from assms(2) obtain t u where u: "upNew api t = Some u" "web_scheme u" "\<not> has_credentials u" "saUrl a = web_href api u"
    by (auto simp: app_ok_def)
  with assms(1) obtain u' where "trim (saUrl a) = saUrl a" "saUrl a \<noteq> []" "upNew api (saUrl a) = Some u'"
    "web_scheme u'" "\<not> has_credentials u'" "web_href api u' = saUrl a"
    unfolding stable_urls_def by metis
  then have "safeUrl api (JStr (saUrl a)) = Some (saUrl a)" by (simp add: safeUrl_def)
  with assms(2) show ?thesis
    by (cases "saInsecureTls a")
      (auto simp: storedApp_def app_js_def fields_of_def get_prop_def str_field_def app_ok_def withInsecureTls_def)
qed

lemma stored_apps_js:
  "stable_urls api \<Longrightarrow> apps_ok api seen apps \<Longrightarrow> stored_apps api seen (map app_js apps) = apps"
proof (induction apps arbitrary: seen)
  case (Cons a apps)
  then have "apps_ok api (saId a # seen) apps" by (auto simp: apps_ok_def image_iff)
  from Cons.IH [OF Cons.prems(1) this] Cons.prems show ?case by (simp add: stored_app_js apps_ok_def)
qed simp

definition demo_urls :: url_api where
  "demo_urls = \<lparr>upNew = (\<lambda>t. if starts_with t ''http://'' \<and> trim t = t then Some \<lparr>wuProtocol = ''http:'', wuUsername = [], wuPassword = [],
       wuHostname = drop 7 t, wuPort = [], wuPathname = ''/'', wuSearch = [], wuHash = [], wuOrigin = t\<rparr> else None),
     upResolve = (\<lambda>t _. None), upSetPath = (\<lambda>p u. u\<lparr>wuPathname := p\<rparr>), upSetSearch = (\<lambda>q u. u\<lparr>wuSearch := q\<rparr>),
     upHref = wuOrigin\<rparr>"

text \<open>
  A list that was saved is the list that is loaded afterwards, whatever the cache held before,
  when parsing the text of an address gives that address again.
\<close>

theorem saved_embeds_loaded:
  assumes "stable_urls api" "saveSuiteEmbeds api plain v st = Some (Inr apps, st')"
  shows "loadSuiteEmbeds api st' = apps \<and> fst (loadSuiteEmbedAppsCached api now st') = apps"
proof -
  from assms(2) have parsed: "parseSuiteApps api plain v = Some (Inr apps)"
    and st': "st' = st\<lparr>esSettings := AList.update SUITE_EMBEDS_KEY (JObj [(''apps'', JArr (map app_js apps))]) (esSettings st), esCache := None\<rparr>"
    by (cases "parseSuiteApps api plain v"; cases "the (parseSuiteApps api plain v)"; auto simp: saveSuiteEmbeds_def)+
  from parseSuiteApps_shape [OF parsed] have "apps_ok api [] apps" by simp
  from stored_apps_js [OF assms(1) this] have "loadSuiteEmbeds api st' = apps"
    by (simp add: st' loadSuiteEmbeds_def update_conv' readSuiteEmbeds_def fields_of_def get_prop_def)
  then show ?thesis by (simp add: loadSuiteEmbedAppsCached_def st' Let_def)
qed

lemma demo_stable: "stable_urls demo_urls"
  by (auto simp: stable_urls_def demo_urls_def web_href_def starts_with_def web_scheme_def has_credentials_def split: if_splits)

theorem saved_embeds_loaded_witness:
  "\<exists>st'. saveSuiteEmbeds demo_urls id (JArr [JObj [(''name'', JStr ''Docs''), (''url'', JStr ''http://docs.lan'')]])
       \<lparr>esSettings = [], esCache = Some (0, [])\<rparr> = Some (Inr [\<lparr>saId = ''docs'', saName = ''Docs'', saUrl = ''http://docs.lan'', saInsecureTls = False\<rparr>], st')
     \<and> loadSuiteEmbeds demo_urls st' = [\<lparr>saId = ''docs'', saName = ''Docs'', saUrl = ''http://docs.lan'', saInsecureTls = False\<rparr>]"
proof -
  let ?apps = "[\<lparr>saId = ''docs'', saName = ''Docs'', saUrl = ''http://docs.lan'', saInsecureTls = False\<rparr>]"
  have root': "id_root id ''Docs'' = ''docs''" by code_simp
  have ok: "id_ok ''docs''" by code_simp
  have ident: "suiteAppId id ''Docs'' [] = Some ''docs''"
    by (simp add: suiteAppId_def root' ok next_id.simps [of _ "[]" "''docs''"])
  have url: "parseEmbedUrl demo_urls ''http://docs.lan'' = Inr (Some ''http://docs.lan'')"
    "trimmed_field [(''name'', JStr ''Docs''), (''url'', JStr ''http://docs.lan'')] ''name'' = ''Docs''"
    "trimmed_field [(''name'', JStr ''Docs''), (''url'', JStr ''http://docs.lan'')] ''url'' = ''http://docs.lan''"
    "trimmed_field [(''name'', JStr ''Docs''), (''url'', JStr ''http://docs.lan'')] ''id'' = []"
    by code_simp+
  have one: "parse_app demo_urls id [] (JObj [(''name'', JStr ''Docs''), (''url'', JStr ''http://docs.lan'')]) = Some (NewApp (hd ?apps))"
    by (simp add: parse_app_def fields_of_def url ident withInsecureTls_def get_prop_def Let_def to_lower_def)
  have "parseSuiteApps demo_urls id (JArr [JObj [(''name'', JStr ''Docs''), (''url'', JStr ''http://docs.lan'')]]) = Some (Inr ?apps)"
    by (simp add: parseSuiteApps_def MAX_APPS_def one)
  then obtain st' where saved: "saveSuiteEmbeds demo_urls id (JArr [JObj [(''name'', JStr ''Docs''), (''url'', JStr ''http://docs.lan'')]])
       \<lparr>esSettings = [], esCache = Some (0, [])\<rparr> = Some (Inr ?apps, st')"
    by (simp add: saveSuiteEmbeds_def)
  from saved_embeds_loaded [OF demo_stable saved] saved show ?thesis by blast
qed

end
