(* ===== verification/SuiteProxy.thy ===== *)
theory SuiteProxy imports SuiteEmbeds Rx begin

text \<open>
  What the proxy of embedded applications changes in addresses, headers and bodies:
  \<^verbatim>\<open>lib/suite-proxy.ts\<close>.  A header list has each name once; the script that
  \<open>imageProxyBootstrap\<close> writes and the name lookup of \<open>dnsLookup\<close> are parameters.  Attributes of a
  cookie are the parts between semicolons, which is what the patterns over \<open>;\<close> look at.
\<close>

section \<open>Paths\<close>

definition STATIC_ROOTS :: "string list" where
  "STATIC_ROOTS = [''/_next/'', ''/static/'', ''/assets/'', ''/favicon'', ''/icon-'']"

definition API_ROOTS :: "string list" where
  "API_ROOTS = [''/api/'']"

record suite_target =
  stId :: string
  stPathname :: string
  stSearch :: string
  stBare :: bool

datatype rewrite_kind = HtmlText | CssText | JsText

definition suiteProxyPrefix :: "string \<Rightarrow> string" where
  "suiteProxyPrefix ident = ''/ora/'' @ ident"

definition suiteAssetPath :: "string \<Rightarrow> string \<Rightarrow> string" where
  "suiteAssetPath mount path = (if list_ex (starts_with path) STATIC_ROOTS then mount @ ''/r'' @ path else mount @ path)"

definition stripAssetBump :: "string \<Rightarrow> string" where
  "stripAssetBump pathname =
     (if pathname = ''/r'' then ''/'' else if starts_with pathname ''/r/'' then drop 2 pathname else pathname)"

definition before_char :: "char \<Rightarrow> string \<Rightarrow> string" where
  "before_char d = takeWhile (\<lambda>c. c \<noteq> d)"

definition from_char :: "char \<Rightarrow> string \<Rightarrow> string" where
  "from_char d = dropWhile (\<lambda>c. c \<noteq> d)"

text \<open>The pattern \<open>PROXY_PATH\<close>: its first group ends before the next slash.\<close>

definition parseSuiteProxyUrl :: "string \<Rightarrow> suite_target option" where
  "parseSuiteProxyUrl raw =
     (let path = before_char CHR ''#'' (before_char CHR ''?'' raw); rest = drop 5 path;
          ident = before_char CHR ''/'' rest; extra = from_char CHR ''/'' rest
      in if starts_with path ''/ora/'' \<and> id_ok ident \<and> CHR 0x0A \<notin> set extra \<and> CHR 0x0D \<notin> set extra
         then Some \<lparr>stId = ident, stPathname = (if extra = [] then ''/'' else extra),
                    stSearch = from_char CHR ''?'' raw, stBare = (extra = [])\<rparr>
         else None)"

definition upstreamTarget :: "url_api \<Rightarrow> string \<Rightarrow> string \<Rightarrow> string \<Rightarrow> web_url option" where
  "upstreamTarget api base pathname search =
     map_option (\<lambda>root'.
       let joined = strip_trailing CHR ''/'' (wuPathname root') @ (if pathname = ''/'' then [] else pathname)
       in (upSetSearch api search (upSetPath api (if joined = [] then ''/'' else joined) root'))\<lparr>wuHash := []\<rparr>)
       (upNew api base)"

definition targetsSelf :: "web_url \<Rightarrow> string \<Rightarrow> string \<Rightarrow> bool" where
  "targetsSelf target requestHost ident =
     (let host = to_lower (before_char CHR '':'' (trim (before_char CHR '','' requestHost))); mount = suiteProxyPrefix ident in
      if host = [] \<or> to_lower (wuHostname target) \<noteq> host then False
      else wuPathname target = mount \<or> starts_with (wuPathname target) (mount @ ''/''))"

section \<open>Bodies\<close>

definition rewriteKind :: "string option \<Rightarrow> rewrite_kind option" where
  "rewriteKind contentType =
     (if \<not> truthy contentType then None
      else (let v = to_lower (the contentType) in
        if str_includes v ''text/event-stream'' \<or> str_includes v ''multipart/'' then None
        else if str_includes v ''text/html'' then Some HtmlText
        else if str_includes v ''text/css'' then Some CssText
        else if str_includes v ''javascript'' \<or> str_includes v ''ecmascript'' then Some JsText else None))"

definition double_mark :: string where
  "double_mark = [CHR 0x22]"

definition single_mark :: string where
  "single_mark = [CHR 0x27]"

definition escaped_mark :: string where
  "escaped_mark = [CHR 0x5C, CHR 0x22]"

definition openings :: "string list" where
  "openings = [double_mark, single_mark, escaped_mark]"

definition needsRootRewrite :: "string \<Rightarrow> bool" where
  "needsRootRewrite body \<longleftrightarrow> list_ex (\<lambda>r. list_ex (\<lambda>q. str_includes body (q @ r)) openings) (STATIC_ROOTS @ API_ROOTS)"

text \<open>\<open>body.split(token).join(replacement)\<close> for a token that is not empty.\<close>

function replace_all :: "string \<Rightarrow> string \<Rightarrow> string \<Rightarrow> string" where
  "replace_all token r [] = []"
| "replace_all token r (c # s) =
     (if token \<noteq> [] \<and> starts_with (c # s) token then r @ replace_all token r (drop (length token) (c # s))
      else c # replace_all token r s)"
  by pat_completeness auto
termination
  by (relation "measure (\<lambda>(t, r, s). length s)") (auto simp: starts_with_def)

definition spliceOnce :: "string \<Rightarrow> string \<Rightarrow> string \<Rightarrow> string" where
  "spliceOnce body token replacement =
     (if \<not> str_includes body token \<or> token = replacement then body else replace_all token replacement body)"

definition rewriteRoots :: "string \<Rightarrow> string \<Rightarrow> string" where
  "rewriteRoots body mount =
     fold (\<lambda>r out. fold (\<lambda>q o'. spliceOnce o' (q @ r) (q @ suiteAssetPath mount r)) openings out) (STATIC_ROOTS @ API_ROOTS) body"

definition href_token :: string where
  "href_token = ''href:'' @ double_mark @ ''/''"

function rewriteJsHrefs :: "string \<Rightarrow> string \<Rightarrow> string" where
  "rewriteJsHrefs [] mount = []"
| "rewriteJsHrefs (c # s) mount =
     (if starts_with (c # s) href_token
      then (let rest = drop (length href_token) (c # s) in
            (if starts_with rest ''/'' \<or> starts_with rest (drop 1 mount) then href_token else ''href:'' @ double_mark @ mount @ ''/'')
            @ rewriteJsHrefs rest mount)
      else c # rewriteJsHrefs s mount)"
  by pat_completeness auto
termination
  by (relation "measure (\<lambda>(s, m). length s)") (auto simp: href_token_def)

text \<open>The pattern \<open>url\(\s*(['"]?)(\/(?!\/)[^)'"]*)\<close> at the start of a text: quote, path and the rest.\<close>

definition is_quote :: "char \<Rightarrow> bool" where
  "is_quote c \<longleftrightarrow> c = CHR 0x22 \<or> c = CHR 0x27"

definition rooted :: "string \<Rightarrow> bool" where
  "rooted s \<longleftrightarrow> starts_with s ''/'' \<and> \<not> starts_with s ''//''"

definition css_url :: "string \<Rightarrow> (string \<times> string \<times> string) option" where
  "css_url s =
     (if \<not> starts_with s ''url('' then None
      else (let t = dropWhile is_ws (drop 4 s);
                q = (if t \<noteq> [] \<and> is_quote (hd t) then [hd t] else []); u = drop (length q) t;
                path = takeWhile (\<lambda>c. c \<noteq> CHR '')'' \<and> \<not> is_quote c) u
            in if rooted u then Some (q, path, drop (length path) u) else None))"

lemma css_url_shorter: "css_url s = Some (q, path, rest) \<Longrightarrow> length rest < length s"
proof -
  assume a: "css_url s = Some (q, path, rest)"
  then have "starts_with s ''url(''" by (auto simp: css_url_def split: if_splits)
  then have "4 \<le> length s" by (auto simp: starts_with_iff)
  moreover have "length (dropWhile is_ws (drop 4 s)) \<le> length s - 4" using length_dropWhile_le [of is_ws "drop 4 s"] by simp
  ultimately show ?thesis using a by (auto simp: css_url_def Let_def split: if_splits)
qed

function rewriteCssUrls :: "string \<Rightarrow> string \<Rightarrow> string" where
  "rewriteCssUrls [] mount = []"
| "rewriteCssUrls (c # s) mount =
     (case css_url (c # s) of
        Some (q, path, rest) \<Rightarrow>
          (if path = mount \<or> starts_with path (mount @ ''/'') then take (length (c # s) - length rest) (c # s)
           else ''url('' @ q @ suiteAssetPath mount path) @ rewriteCssUrls rest mount
      | None \<Rightarrow> c # rewriteCssUrls s mount)"
  by pat_completeness auto
termination
  by (relation "measure (\<lambda>(s, m). length s)") (auto dest: css_url_shorter)

text \<open>The attribute pattern of \<open>rewriteHtmlAttributes\<close>; \<open>prev\<close> is the character before, for \<open>\b\<close>.\<close>

definition js_word_char :: "char \<Rightarrow> bool" where
  "js_word_char c \<longleftrightarrow> in_range 97 122 c \<or> in_range 65 90 c \<or> is_digit c \<or> c = CHR ''_''"

definition HTML_ATTRIBUTES :: "string list" where
  "HTML_ATTRIBUTES = [''href'', ''src'', ''action'', ''poster'', ''formaction'', ''data-src'']"

definition html_attribute :: "string \<Rightarrow> (string \<times> char \<times> string \<times> string) option" where
  "html_attribute s =
     (case find (\<lambda>n. starts_with (to_lower s) n) HTML_ATTRIBUTES of None \<Rightarrow> None
      | Some n \<Rightarrow>
          (let t = dropWhile is_ws (drop (length n) s); v = dropWhile is_ws (drop 1 t) in
           if starts_with t ''='' \<and> v \<noteq> [] \<and> is_quote (hd v) \<and> rooted (drop 1 v)
           then (let path = takeWhile (\<lambda>c. \<not> is_quote c) (drop 1 v); after = drop (Suc (length path)) v in
                 if after \<noteq> [] \<and> hd after = hd v then Some (take (length n) s, hd v, path, drop 1 after) else None)
           else None))"

lemma html_attribute_shorter:
  assumes "html_attribute s = Some (n, q, path, rest)"
  shows "length rest < length s"
proof -
  have le: "length (dropWhile is_ws (drop k t)) \<le> length t" for k and t :: string
    using length_dropWhile_le [of is_ws "drop k t"] by simp
  from assms obtain m where m: "find (\<lambda>n. starts_with (to_lower s) n) HTML_ATTRIBUTES = Some m"
    by (cases "find (\<lambda>n. starts_with (to_lower s) n) HTML_ATTRIBUTES") (simp_all add: html_attribute_def)
  define v where "v = dropWhile is_ws (drop 1 (dropWhile is_ws (drop (length m) s)))"
  have "length v \<le> length s" unfolding v_def by (rule le_trans [OF le le])
  moreover have "v \<noteq> []" "rest = drop 1 (drop (Suc (length path)) v)"
    using assms m unfolding html_attribute_def by (auto simp: Let_def v_def split: if_splits)
  ultimately show ?thesis by (cases v) simp_all
qed

function rewrite_attributes :: "bool \<Rightarrow> string \<Rightarrow> string \<Rightarrow> string" where
  "rewrite_attributes inside [] mount = []"
| "rewrite_attributes inside (c # s) mount =
     (case (if inside then None else html_attribute (c # s)) of
        Some (n, q, path, rest) \<Rightarrow>
          (if path = mount \<or> starts_with path (mount @ ''/'') \<or> starts_with path (mount @ ''?'')
           then take (length (c # s) - length rest) (c # s) else n @ ''='' @ [q] @ suiteAssetPath mount path @ [q])
          @ rewrite_attributes False rest mount
      | None \<Rightarrow> c # rewrite_attributes (js_word_char c) s mount)"
  by pat_completeness auto
termination
  by (relation "measure (\<lambda>(i, s, m). length s)") (auto split: if_splits dest: html_attribute_shorter)

definition rewriteHtmlAttributes :: "string \<Rightarrow> string \<Rightarrow> string" where
  "rewriteHtmlAttributes body mount = rewrite_attributes False body mount"

text \<open>The script goes behind the first \<open><head ...>\<close>, or in front.\<close>

definition after_head :: "string \<Rightarrow> nat option" where
  "after_head html =
     (case index_of (to_lower html) ''<head'' of None \<Rightarrow> None
      | Some i \<Rightarrow> map_option (\<lambda>j. i + j + 1) (index_of (drop i html) ''>''))"

definition injectImageProxy :: "(string \<Rightarrow> string) \<Rightarrow> string \<Rightarrow> string \<Rightarrow> string" where
  "injectImageProxy script html mount =
     (case after_head html of None \<Rightarrow> script mount @ html
      | Some at' \<Rightarrow> take at' html @ script mount @ drop at' html)"

definition css_pass :: "string \<Rightarrow> string \<Rightarrow> string" where
  "css_pass out mount = (if str_includes out ''url('' then rewriteCssUrls out mount else out)"

definition roots_pass :: "string \<Rightarrow> string \<Rightarrow> string" where
  "roots_pass out mount = (if needsRootRewrite out then rewriteRoots out mount else out)"

definition hrefs_pass :: "string \<Rightarrow> string \<Rightarrow> string" where
  "hrefs_pass out mount = (if str_includes out href_token then rewriteJsHrefs out mount else out)"

definition rewriteEmbedBody :: "(string \<Rightarrow> string) \<Rightarrow> string \<Rightarrow> rewrite_kind \<Rightarrow> string \<Rightarrow> string" where
  "rewriteEmbedBody script body kind mount =
     (case kind of
        CssText \<Rightarrow> css_pass (roots_pass body mount) mount
      | JsText \<Rightarrow> css_pass (roots_pass (hrefs_pass body mount) mount) mount
      | HtmlText \<Rightarrow>
          injectImageProxy script (css_pass (roots_pass (hrefs_pass (rewriteHtmlAttributes body mount) mount) mount) mount) mount)"

section \<open>Images from elsewhere\<close>

definition isExternalImagePath :: "string \<Rightarrow> bool" where
  "isExternalImagePath pathname \<longleftrightarrow> pathname = ''/ext-img'' \<or> pathname = ''/ext-img/''"

definition strip_zone :: "string \<Rightarrow> string" where
  "strip_zone s = (if length (from_char CHR ''%'' s) \<le> 1 then s else before_char CHR ''%'' s)"

definition normalizeImageHost :: "string \<Rightarrow> string" where
  "normalizeImageHost hostname =
     (let h = to_lower hostname; h1 = (if starts_with h ''['' then drop 1 h else h);
          h2 = (if ends_with h1 '']'' then butlast h1 else h1)
      in strip_trailing CHR ''.'' (strip_zone h2))"

definition octet_num :: "jsnum \<Rightarrow> bool" where
  "octet_num n \<longleftrightarrow> isIntegerNum n \<and> \<not> num_less n 0 \<and> \<not> num_greater n 255"

definition ipv4Octets :: "string \<Rightarrow> int list option" where
  "ipv4Octets host =
     (let parts = map toNumber (split_on CHR ''.'' host) in
      if length parts \<noteq> 4 \<or> list_ex (\<lambda>n. \<not> octet_num n) parts then None else Some (map num_int parts))"

definition hex_group :: "string \<Rightarrow> bool" where
  "hex_group s \<longleftrightarrow> s \<noteq> [] \<and> length s \<le> 4 \<and> list_all (\<lambda>c. is_digit c \<or> in_range 97 102 c) s"

definition ipv4MappedOctets :: "string \<Rightarrow> int list option" where
  "ipv4MappedOctets host =
     (let h = to_lower host; rest = drop 7 h in
      if \<not> starts_with h ''::ffff:'' then None
      else if length (split_on CHR ''.'' rest) = 4 \<and> list_all (\<lambda>p. all_digits p \<and> length p \<le> 3) (split_on CHR ''.'' rest)
      then ipv4Octets rest
      else (case split_on CHR '':'' rest of
          [hi, lo] \<Rightarrow>
            (if hex_group hi \<and> hex_group lo
             then (case (radix_value 16 0 hi, radix_value 16 0 lo) of
                 (Some h', Some l') \<Rightarrow> Some (map int [h' div 256 mod 256, h' mod 256, l' div 256 mod 256, l' mod 256])
               | _ \<Rightarrow> None)
             else None)
        | _ \<Rightarrow> None))"

definition isBlockedIpv4 :: "int list \<Rightarrow> bool" where
  "isBlockedIpv4 parts = (let a = parts ! 0; b = parts ! 1 in a = 0 \<or> a = 127 \<or> 224 \<le> a \<or> (a = 169 \<and> b = 254))"

definition isImageIpLiteral :: "string \<Rightarrow> bool" where
  "isImageIpLiteral host \<longleftrightarrow> ipv4Octets host \<noteq> None \<or> CHR '':'' \<in> set host"

definition isBlockedImageHost :: "string \<Rightarrow> bool" where
  "isBlockedImageHost hostname =
     (let host = normalizeImageHost hostname in
      if host = [] then True
      else if host = ''localhost'' \<or> ends_with host ''.localhost'' \<or> host = ''0.0.0.0'' \<or> host = ''::1'' then True
      else if host = ''metadata.google.internal'' then True
      else if starts_with host ''fe80:'' then True
      else if (case ipv4MappedOctets host of Some m \<Rightarrow> isBlockedIpv4 m | None \<Rightarrow> False) then True
      else (case ipv4Octets host of Some p \<Rightarrow> isBlockedIpv4 p | None \<Rightarrow> False))"

definition externalImageTarget :: "url_api \<Rightarrow> string \<Rightarrow> bool \<Rightarrow> web_url option" where
  "externalImageTarget api raw allowHttps =
     (case upNew api raw of None \<Rightarrow> None
      | Some url \<Rightarrow>
          if wuProtocol url \<noteq> ''http:'' \<and> \<not> (allowHttps \<and> wuProtocol url = ''https:'') then None
          else if has_credentials url then None
          else if isBlockedImageHost (wuHostname url) then None
          else Some (url\<lparr>wuHash := []\<rparr>))"

definition isProxyImageType :: "string \<Rightarrow> bool" where
  "isProxyImageType contentType \<longleftrightarrow>
     to_lower (trim (before_char CHR '';'' contentType)) \<in>
       {''image/png'', ''image/jpeg'', ''image/gif'', ''image/webp'', ''image/avif'', ''image/bmp'', ''image/x-icon'',
        ''image/vnd.microsoft.icon'', ''image/svg+xml''}"

section \<open>Answers\<close>

definition under_mount :: "string \<Rightarrow> string \<Rightarrow> bool" where
  "under_mount mount path \<longleftrightarrow> path = mount \<or> starts_with path (mount @ ''/'')"

definition rewriteLocation :: "url_api \<Rightarrow> string \<Rightarrow> web_url \<Rightarrow> string \<Rightarrow> string" where
  "rewriteLocation api location upstream mount =
     (if rooted location
      then (if under_mount mount location \<or> starts_with location (mount @ ''?'') then location else suiteAssetPath mount location)
      else (case upResolve api location upstream of None \<Rightarrow> location
        | Some absolute \<Rightarrow>
            if wuOrigin absolute \<noteq> wuOrigin upstream then location
            else (let path = wuPathname absolute @ wuSearch absolute @ wuHash absolute in
                  if under_mount mount path then path else suiteAssetPath mount path)))"

text \<open>\<open><(/path)>\<close> in a \<open>Link\<close> header.\<close>

function rewriteLinkHeader :: "string \<Rightarrow> string \<Rightarrow> string" where
  "rewriteLinkHeader [] mount = []"
| "rewriteLinkHeader (c # s) mount =
     (let path = before_char CHR ''>'' s; rest = drop (length path) s in
      if c = CHR ''<'' \<and> rooted s \<and> rest \<noteq> []
      then CHR ''<'' # (if under_mount mount path then path else suiteAssetPath mount path) @ CHR ''>'' # rewriteLinkHeader (drop 1 rest) mount
      else c # rewriteLinkHeader s mount)"
  by pat_completeness auto
termination
  by (relation "measure (\<lambda>(s, m). length s)") auto

definition attribute_is :: "string \<Rightarrow> string \<Rightarrow> bool" where
  "attribute_is name part \<longleftrightarrow> starts_with (to_lower (trim_start part)) name"

definition mounted_path :: "string \<Rightarrow> string \<Rightarrow> string" where
  "mounted_path mount raw =
     (let path = (if trim raw = [] then ''/'' else trim raw) in
      if under_mount mount path then path
      else if path = ''/'' then mount @ ''/''
      else if starts_with path ''/'' then mount @ path
      else mount @ ''/'' @ path)"

fun replace_path :: "string \<Rightarrow> string list \<Rightarrow> string list" where
  "replace_path mount [] = []"
| "replace_path mount (part # parts) =
     (if attribute_is ''path='' part then ('' Path='' @ mounted_path mount (drop 5 (trim_start part))) # parts
      else part # replace_path mount parts)"

definition secure_part :: "string \<Rightarrow> bool" where
  "secure_part part \<longleftrightarrow>
     attribute_is ''secure'' part \<and> (let rest = drop 6 (trim_start part) in rest = [] \<or> \<not> js_word_char (hd rest))"

definition rewriteCookie :: "string \<Rightarrow> string \<Rightarrow> bool \<Rightarrow> string" where
  "rewriteCookie cookie mount secure =
     (let parts = split_on CHR '';'' cookie; kept = filter (\<lambda>p. \<not> attribute_is ''domain='' p) (tl parts);
          placed = (if list_ex (attribute_is ''path='') kept then replace_path mount kept else kept @ ['' Path='' @ mount @ ''/'']);
          final = (if secure \<and> \<not> list_ex secure_part placed then placed @ ['' Secure''] else placed)
      in join '';'' (hd parts # final))"

definition embedContentSecurityPolicy :: "string \<Rightarrow> string \<Rightarrow> string" where
  "embedContentSecurityPolicy origin mount =
     (let base = (if ends_with origin ''/'' then butlast origin else origin); root' = base @ mount @ ''/'';
          wsBase = (if starts_with base ''https://'' then ''wss://'' @ drop 8 base else ''ws://'' @ drop 7 base);
          ws = wsBase @ mount @ ''/''; none = single_mark @ ''none'' @ single_mark;
          unsafe = '' '' @ single_mark @ ''unsafe-inline'' @ single_mark
      in join ''; ''
        [''default-src '' @ none, ''base-uri '' @ none, ''form-action '' @ root', ''connect-src '' @ root' @ '' '' @ ws,
         ''script-src '' @ root' @ unsafe @ '' '' @ single_mark @ ''unsafe-eval'' @ single_mark, ''style-src '' @ root' @ unsafe,
         ''img-src '' @ root' @ '' data: blob: https: http:'', ''font-src '' @ root' @ '' data:'', ''media-src '' @ root' @ '' blob:'',
         ''worker-src blob:'', ''frame-src '' @ root', ''frame-ancestors '' @ single_mark @ ''self'' @ single_mark, ''object-src '' @ none])"

section \<open>Requests\<close>

definition session_part :: "string \<Rightarrow> bool" where
  "session_part part \<longleftrightarrow> starts_with (to_lower part) ''pm_session=''"

definition forwardCookie :: "string option \<Rightarrow> string option" where
  "forwardCookie header' =
     (if \<not> truthy header' then None
      else (let kept = filter (\<lambda>p. p \<noteq> [] \<and> \<not> session_part p) (map trim (split_on CHR '';'' (the header'))) in
            if kept = [] then None else Some (join ''; '' kept)))"

definition HOP :: "string list" where
  "HOP = [''host'', ''connection'', ''keep-alive'', ''transfer-encoding'', ''upgrade'', ''proxy-connection'', ''proxy-authenticate'',
     ''proxy-authorization'', ''te'', ''trailer'', ''content-length'']"

definition forwardedHost :: "string option \<Rightarrow> string" where
  "forwardedHost hostHeader = trim (before_char CHR '','' (case hostHeader of None \<Rightarrow> [] | Some h \<Rightarrow> h))"

definition forwardedScheme :: "string option \<Rightarrow> string" where
  "forwardedScheme protoHeader =
     (let parts = filter (\<lambda>p. p = ''http'' \<or> p = ''https'')
            (map (\<lambda>p. to_lower (trim p)) (split_on CHR '','' (case protoHeader of None \<Rightarrow> [] | Some h \<Rightarrow> h)))
      in if parts = [] then ''http'' else last parts)"

definition allowsInsecureTls :: "bool \<Rightarrow> string \<Rightarrow> bool" where
  "allowsInsecureTls insecureTls protocol \<longleftrightarrow> protocol = ''https:'' \<and> insecureTls"

definition headerOf :: "(string \<times> string) list \<Rightarrow> string \<Rightarrow> string option" where
  "headerOf headers name = map_option snd (find (\<lambda>(k, _). to_lower k = name) headers)"

definition rewriteReferer :: "url_api \<Rightarrow> string \<Rightarrow> string \<Rightarrow> string \<Rightarrow> string option" where
  "rewriteReferer api referer mount base =
     (if referer = [] then None
      else (case upNew api referer of None \<Rightarrow> None
        | Some url \<Rightarrow>
            if \<not> under_mount mount (wuPathname url) then None
            else (let rest = drop (length mount) (wuPathname url) in
                  map_option (upHref api) (upstreamTarget api base (if rest = [] then ''/'' else rest) (wuSearch url)))))"

definition forwards_header :: "bool \<Rightarrow> string \<times> string \<Rightarrow> bool" where
  "forwards_header keepUpgrade = (\<lambda>(key, v).
     let lower = to_lower key in
     v \<noteq> [] \<and> lower \<notin> {''cookie'', ''origin'', ''referer'', ''x-forwarded-host'', ''x-forwarded-proto''}
     \<and> \<not> (lower \<in> set HOP \<and> (\<not> keepUpgrade \<or> (lower \<noteq> ''connection'' \<and> lower \<noteq> ''upgrade''))))"

definition set_header :: "string \<Rightarrow> string option \<Rightarrow> (string \<times> string) list \<Rightarrow> (string \<times> string) list" where
  "set_header k v hs = (case v of None \<Rightarrow> hs | Some s \<Rightarrow> AList.update k s hs)"

definition buildUpstreamHeaders ::
  "url_api \<Rightarrow> (string \<times> string) list \<Rightarrow> web_url \<Rightarrow> string \<Rightarrow> string \<Rightarrow> string \<Rightarrow> string \<Rightarrow> bool \<Rightarrow> (string \<times> string) list" where
  "buildUpstreamHeaders api headers target mount appUrl proto fhost keepUpgrade =
     (let copied = fold (\<lambda>(k, v) hs. AList.update (to_lower k) v hs) (filter (forwards_header keepUpgrade) headers) [];
          referer = (case headerOf headers ''referer'' of None \<Rightarrow> [] | Some r \<Rightarrow> r)
      in set_header ''x-forwarded-host'' (Some fhost)
        (set_header ''x-forwarded-proto'' (Some (if proto = ''https'' then ''https'' else ''http''))
        (set_header ''referer'' (rewriteReferer api referer mount appUrl)
        (set_header ''cookie'' (forwardCookie (headerOf headers ''cookie''))
        (set_header ''origin'' (Some (wuOrigin target))
        (set_header ''accept-encoding'' (if keepUpgrade then None else Some ''identity'')
        (set_header ''host'' (Some (url_host target)) copied)))))))"

end
