(* ===== verification/UrlProperties.thy ===== *)
theory UrlProperties imports SuiteEmbedProperties SuiteProxy begin

text \<open>Which hosts the checks of webhooks and of images let through.\<close>

section \<open>Hosts that are four octets\<close>

definition host_char :: "char \<Rightarrow> bool" where
  "host_char c \<longleftrightarrow> is_digit c \<or> c = CHR ''.''"

lemma host_char_plain: "host_char c \<Longrightarrow> \<not> is_ws c \<and> lower_char c = c"
  by (auto simp: host_char_def is_digit_def in_range_def is_ws_def lower_char_def is_upper_def)

lemma dotted_chars: "list_all host_char (dotted a b c d)"
proof -
  have "list_all host_char (nat_str n)" for n using nat_str_digits [of n] by (simp add: list_all_iff host_char_def)
  moreover have "host_char CHR ''.''" by (simp add: host_char_def)
  ultimately show ?thesis by (simp add: dotted_def)
qed

lemma drop_none: "(\<And>c. c \<in> set s \<Longrightarrow> \<not> P c) \<Longrightarrow> dropWhile P s = s"
  by (cases s) auto

lemma plain_trim: "list_all host_char s \<Longrightarrow> trim s = s \<and> to_lower s = s"
proof -
  assume "list_all host_char s"
  then have c: "\<And>c. c \<in> set s \<Longrightarrow> \<not> is_ws c" "\<And>c. c \<in> set s \<Longrightarrow> lower_char c = c"
    using host_char_plain by (auto simp: list_all_iff)
  have "dropWhile is_ws s = s" "dropWhile is_ws (rev s) = rev s" by (rule drop_none, simp add: c)+
  with c show ?thesis by (simp add: trim_def trim_start_def trim_end_def to_lower_def map_idI)
qed

lemma strip_trailing_unended: "s \<noteq> [] \<Longrightarrow> last s \<noteq> d \<Longrightarrow> strip_trailing d s = s"
  by (cases s rule: rev_cases) (simp_all add: strip_trailing_def)

lemma dotted_last: "dotted a b c d \<noteq> [] \<and> last (dotted a b c d) \<noteq> CHR ''.''"
proof -
  have "last (nat_str d) \<in> set (nat_str d)" by simp
  then have "is_digit (last (nat_str d))" using nat_str_digits [of d] by (simp add: list_all_iff)
  then show ?thesis by (auto simp: dotted_def is_digit_def in_range_def)
qed

lemma dotted_stable: "strip_trailing CHR ''.'' (dotted a b c d) = dotted a b c d"
  using dotted_last by (simp add: strip_trailing_unended)

lemma dot_no_digit: "CHR ''.'' \<notin> set (nat_str n)"
  by (rule nat_str_no_char) simp

lemma dotted_split: "split_on CHR ''.'' (dotted a b c d) = [nat_str a, nat_str b, nat_str c, nat_str d]"
  unfolding dotted_def by (subst split_on_join) (simp_all add: dot_no_digit)

lemma hd_dotted: "is_digit (hd (dotted a b c d))"
proof -
  have "is_digit (hd (nat_str a))" using nat_str_digits [of a] by (cases "nat_str a") simp_all
  then show ?thesis by (simp add: dotted_def)
qed

text \<open>A name with a letter or a colon is no such host.\<close>

lemma dotted_no_name: "\<not> list_all host_char p \<Longrightarrow> dotted a b c d \<noteq> p \<and> \<not> starts_with (dotted a b c d) p \<and> \<not> ends_with (dotted a b c d) p"
  using dotted_chars [of a b c d] by (auto simp: starts_with_iff ends_with_iff)

lemma octet_length: "n < 256 \<Longrightarrow> length (nat_str n) \<le> 3"
  using length_nat_str [of n 2] by simp

lemma dotted_quad_dotted: "list_all (\<lambda>n. n < 256) [a, b, c, d] \<Longrightarrow> dotted_quad (dotted a b c d) = Some [a, b, c, d]"
  by (simp add: dotted_quad_def dotted_split octet_length)

lemma dotted_zero: "dotted a b c d = ''0.0.0.0'' \<Longrightarrow> a = 0"
proof -
  have z: "nat_str 0 = ''0''" by code_simp
  assume "dotted a b c d = ''0.0.0.0''"
  then have "hd (split_on CHR ''.'' (dotted a b c d)) = ''0''" by simp
  then have "nat_str a = nat_str 0" by (simp add: dotted_split z)
  then show "a = 0" by simp
qed

definition private_quad :: "nat \<Rightarrow> nat \<Rightarrow> bool" where
  "private_quad a b \<longleftrightarrow> a \<in> {0, 10, 127} \<or> a = 169 \<and> b = 254 \<or> a = 172 \<and> b \<in> {16..31} \<or> a = 192 \<and> b = 168"

text \<open>
  C26: A webhook address with an IPv4 host is refused exactly when the address is unspecified,
  loopback, link-local or private.  An IPv6 host always passes, as the parser keeps its brackets:
  loopback and link-local are not recognised.
\<close>

theorem webhook_hosts:
  assumes "list_all (\<lambda>n. n < 256) [a, b, c, d]"
  shows "isPrivateOrLocalHostname (dotted a b c d) = private_quad a b
    \<and> \<not> isPrivateOrLocalHostname (CHR ''['' # h @ '']'') \<and> \<not> isPrivateOrLocalHostname ''[::1]''"
proof -
  have v6: "\<not> isPrivateOrLocalHostname (CHR ''['' # h @ '']'')" for h
  proof -
    have ends: "trim (CHR ''['' # h @ '']'') = CHR ''['' # h @ '']''"
      by (simp add: trim_def trim_start_def trim_end_def is_ws_def in_range_def)
    have low: "to_lower (CHR ''['' # h @ '']'') = CHR ''['' # to_lower h @ '']''"
      by (simp add: to_lower_def lower_char_def is_upper_def in_range_def)
    have keep: "strip_trailing CHR ''.'' (CHR ''['' # t @ '']'') = CHR ''['' # t @ '']''" for t
      by (rule strip_trailing_unended) simp_all
    have quad: "dotted_quad (CHR ''['' # t) = None" for t
      by (cases "split_on CHR ''.'' t")
        (auto simp: dotted_quad_def Let_def all_digits_def is_digit_def in_range_def)
    have tail: "\<not> ends_with (CHR ''['' # t @ '']'') ''.localhost''" "\<not> ends_with (CHR ''['' # t @ '']'') ''.local''" for t
      by (auto simp: ends_with_iff dest: arg_cong [where f = last])
    show ?thesis
      by (simp add: isPrivateOrLocalHostname_def ends low keep quad tail BLOCKED_HOSTS_def starts_with_def)
  qed
  have names: "\<not> list_all host_char ''localhost''" "\<not> list_all host_char ''metadata.google.internal''"
    "\<not> list_all host_char ''.localhost''" "\<not> list_all host_char ''.local''" "\<not> list_all host_char ''::1''"
    "\<not> list_all host_char ''fe80:''" "\<not> list_all host_char ''fc''" "\<not> list_all host_char ''fd''"
    by code_simp+
  note none = names [THEN dotted_no_name, of a b c d]
  have same: "strip_trailing CHR ''.'' (to_lower (trim (dotted a b c d))) = dotted a b c d"
    by (simp add: plain_trim dotted_chars dotted_stable)
  have "isPrivateOrLocalHostname (dotted a b c d) = private_quad a b"
    unfolding isPrivateOrLocalHostname_def same Let_def
    using dotted_last [of a b c d] none dotted_zero [of a b c d]
    by (auto simp: dotted_quad_dotted [OF assms] private_octets_def private_quad_def BLOCKED_HOSTS_def)
  with v6 [of h] v6 [of "''::1''"] show ?thesis by simp
qed

theorem webhook_hosts_witness:
  "isPrivateOrLocalHostname (dotted 192 168 1 10) \<and> \<not> isPrivateOrLocalHostname (dotted 8 8 8 8)"
  using webhook_hosts [of 192 168 1 10] webhook_hosts [of 8 8 8 8] by (simp add: private_quad_def)

section \<open>Hosts of images\<close>

lemma dotted_normal: "normalizeImageHost (dotted a b c d) = dotted a b c d"
proof -
  have brackets: "\<not> list_all host_char ''[''" "\<not> list_all host_char '']''" by code_simp+
  have "CHR ''%'' \<notin> set (dotted a b c d)"
    using dotted_chars [of a b c d] by (auto simp: list_all_iff host_char_def is_digit_def in_range_def)
  then have "from_char CHR ''%'' (dotted a b c d) = []" by (auto simp: from_char_def dropWhile_eq_Nil_conv)
  then show ?thesis
    using brackets [THEN dotted_no_name, of a b c d]
    by (simp add: normalizeImageHost_def plain_trim dotted_chars dotted_stable strip_zone_def)
qed

lemma octets_dotted:
  assumes "list_all (\<lambda>n. n < 256) [a, b, c, d]"
  shows "ipv4Octets (dotted a b c d) = Some (map int [a, b, c, d])"
  using assms by (simp add: ipv4Octets_def dotted_split octet_num_def of_int_num_def)

definition local_quad :: "nat \<Rightarrow> nat \<Rightarrow> bool" where
  "local_quad a b \<longleftrightarrow> a = 0 \<or> a = 127 \<or> 224 \<le> a \<or> a = 169 \<and> b = 254"

lemma image_quad:
  assumes "list_all (\<lambda>n. n < 256) [a, b, c, d]"
  shows "isBlockedImageHost (dotted a b c d) = local_quad a b"
proof -
  have names: "\<not> list_all host_char ''localhost''" "\<not> list_all host_char ''.localhost''" "\<not> list_all host_char ''::1''"
    "\<not> list_all host_char ''metadata.google.internal''" "\<not> list_all host_char ''fe80:''" "\<not> list_all host_char ''::ffff:''"
    by code_simp+
  note none = names [THEN dotted_no_name, of a b c d]
  have "ipv4MappedOctets (dotted a b c d) = None"
    using none by (simp add: ipv4MappedOctets_def plain_trim dotted_chars)
  then show ?thesis
    unfolding isBlockedImageHost_def dotted_normal Let_def
    using none dotted_last [of a b c d] dotted_zero [of a b c d] octets_dotted [OF assms]
    by (auto simp: isBlockedIpv4_def local_quad_def)
qed

text \<open>How the parser writes a group of an IPv6 host.\<close>

definition hex_lower :: "nat \<Rightarrow> char" where
  "hex_lower d = (if d < 10 then char_of (48 + d) else char_of (87 + d))"

fun hex_str :: "nat \<Rightarrow> string" where
  "hex_str n = (if n < 16 then [hex_lower n] else hex_str (n div 16) @ [hex_lower (n mod 16)])"

declare hex_str.simps [simp del]

lemma hex_lower_ok: "d < 16 \<Longrightarrow> hex_val (hex_lower d) = Some d \<and> (is_digit (hex_lower d) \<or> in_range 97 102 (hex_lower d))"
  by (auto simp: hex_val_def hex_lower_def is_digit_def in_range_def digit_val_def)

lemma radix_append: "radix_value r a (s @ t) = (case radix_value r a s of None \<Rightarrow> None | Some b \<Rightarrow> radix_value r b t)"
  by (induction r a s rule: radix_value.induct) (auto split: option.split)

lemma hex_str_value: "radix_value 16 0 (hex_str n) = Some n"
proof (induction n rule: hex_str.induct)
  case (1 n)
  then show ?case by (subst hex_str.simps) (simp add: radix_append hex_lower_ok)
qed

lemma hex_str_chars: "hex_str n \<noteq> [] \<and> list_all (\<lambda>c. is_digit c \<or> in_range 97 102 c) (hex_str n)"
proof (induction n rule: hex_str.induct)
  case (1 n)
  then show ?case by (subst (1 2) hex_str.simps) (simp add: hex_lower_ok)
qed

lemma hex_str_length: "n < 16 ^ Suc k \<Longrightarrow> length (hex_str n) \<le> Suc k"
proof (induction k arbitrary: n)
  case 0
  then show ?case by (subst hex_str.simps) simp
next
  case (Suc k)
  then have "n div 16 < 16 ^ Suc k" by (simp add: div_less_iff_less_mult mult.commute)
  with Suc.IH [of "n div 16"] show ?case by (subst hex_str.simps) simp
qed

lemma hex_group_str: "n < 65536 \<Longrightarrow> hex_group (hex_str n)"
  using hex_str_length [of n 3] hex_str_chars [of n] by (simp add: hex_group_def)

definition mapped_host :: "nat \<Rightarrow> nat \<Rightarrow> string" where
  "mapped_host hi lo = ''::ffff:'' @ hex_str hi @ '':'' @ hex_str lo"

lemma hex_char_plain: "is_digit c \<or> in_range 97 102 c \<Longrightarrow> lower_char c = c \<and> c \<noteq> CHR ''.'' \<and> c \<noteq> CHR '':'' \<and> c \<noteq> CHR '']'' \<and> c \<noteq> CHR ''%''"
  by (auto simp: is_digit_def in_range_def lower_char_def is_upper_def)

lemma hex_str_plain: "c \<in> set (hex_str n) \<Longrightarrow> lower_char c = c \<and> c \<noteq> CHR ''.'' \<and> c \<noteq> CHR '':'' \<and> c \<noteq> CHR '']'' \<and> c \<noteq> CHR ''%''"
  using hex_str_chars [of n] hex_char_plain by (auto simp: list_all_iff)

lemma mapped_plain:
  "to_lower (mapped_host hi lo) = mapped_host hi lo" "CHR ''%'' \<notin> set (mapped_host hi lo)" "CHR ''.'' \<notin> set (mapped_host hi lo)"
  "last (mapped_host hi lo) \<noteq> CHR ''.'' \<and> last (mapped_host hi lo) \<noteq> CHR '']''"
proof -
  have f: "to_lower ''::ffff:'' = ''::ffff:''" by code_simp
  have h: "to_lower (hex_str n) = hex_str n" for n using hex_str_plain by (simp add: to_lower_def map_idI)
  show "to_lower (mapped_host hi lo) = mapped_host hi lo"
    by (simp add: mapped_host_def h f del: append.simps) (simp add: to_lower_def lower_char_def is_upper_def in_range_def)
  show "CHR ''%'' \<notin> set (mapped_host hi lo)" "CHR ''.'' \<notin> set (mapped_host hi lo)"
    using hex_str_plain by (auto simp: mapped_host_def)
  have "last (hex_str lo) \<in> set (hex_str lo)" using hex_str_chars [of lo] by simp
  from hex_str_plain [OF this] show "last (mapped_host hi lo) \<noteq> CHR ''.'' \<and> last (mapped_host hi lo) \<noteq> CHR '']''"
    using hex_str_chars [of lo] by (simp add: mapped_host_def)
qed

lemma mapped_normal: "normalizeImageHost (CHR ''['' # mapped_host hi lo @ '']'') = mapped_host hi lo"
proof -
  have low: "to_lower (CHR ''['' # mapped_host hi lo @ '']'') = CHR ''['' # mapped_host hi lo @ '']''"
    using mapped_plain(1) [of hi lo] by (simp add: to_lower_def lower_char_def is_upper_def in_range_def)
  have "mapped_host hi lo \<noteq> []" by (simp add: mapped_host_def)
  then have last: "strip_trailing CHR ''.'' (mapped_host hi lo) = mapped_host hi lo"
    using mapped_plain(4) by (intro strip_trailing_unended) simp_all
  have "from_char CHR ''%'' (mapped_host hi lo) = []"
    unfolding from_char_def dropWhile_eq_Nil_conv using mapped_plain(2) by blast
  then have zone: "strip_zone (mapped_host hi lo) = mapped_host hi lo" by (simp add: strip_zone_def)
  have "starts_with (CHR ''['' # t) ''[''" "ends_with (t @ '']'') '']''" for t by (simp_all add: starts_with_def ends_with_iff)
  then show ?thesis by (simp add: normalizeImageHost_def low zone last butlast_append)
qed

lemma image_mapped:
  assumes "hi < 65536" "lo < 65536"
  shows "isBlockedImageHost (CHR ''['' # mapped_host hi lo @ '']'') = local_quad (hi div 256) (hi mod 256)"
proof -
  have rest: "drop 7 (mapped_host hi lo) = hex_str hi @ CHR '':'' # hex_str lo" "starts_with (mapped_host hi lo) ''::ffff:''"
    by (simp_all add: mapped_host_def starts_with_def)
  have nodot: "CHR ''.'' \<notin> set (hex_str hi @ CHR '':'' # hex_str lo)" using hex_str_plain by auto
  have colon: "split_on CHR '':'' (hex_str hi @ CHR '':'' # hex_str lo) = [hex_str hi, hex_str lo]"
  proof -
    have none: "CHR '':'' \<notin> set (hex_str n)" for n using hex_str_plain by blast
    show ?thesis using split_on_append_sep [OF none] split_on_id [OF none] by simp
  qed
  have groups: "ipv4MappedOctets (mapped_host hi lo) = Some (map int [hi div 256 mod 256, hi mod 256, lo div 256 mod 256, lo mod 256])"
    using assms by (simp add: ipv4MappedOctets_def mapped_plain rest split_on_id [OF nodot] colon hex_group_str hex_str_value)
  have quad: "ipv4Octets (mapped_host hi lo) = None"
    using mapped_plain(3) [of hi lo] by (simp add: ipv4Octets_def split_on_id)
  have names: "\<not> ends_with (mapped_host hi lo) ''.localhost''"
    using mapped_plain(3) [of hi lo] by (auto simp: ends_with_iff)
  have "mapped_host hi lo \<noteq> ''::1''" "\<not> starts_with (mapped_host hi lo) ''fe80:''" "mapped_host hi lo \<noteq> []"
    "mapped_host hi lo \<noteq> ''localhost''" "mapped_host hi lo \<noteq> ''0.0.0.0''" "mapped_host hi lo \<noteq> ''metadata.google.internal''"
    by (simp_all add: mapped_host_def starts_with_def)
  with names quad groups assms show ?thesis
    unfolding isBlockedImageHost_def mapped_normal Let_def
    by (auto simp: isBlockedIpv4_def local_quad_def)
qed

text \<open>
  C27: The image proxy refuses exactly the IPv4 hosts that are unspecified, loopback, link-local,
  multicast or reserved, and judges an IPv4 address inside an IPv6 host the same way.  The
  unspecified IPv6 host, which leads to the machine itself, passes.
\<close>

theorem image_hosts:
  assumes "list_all (\<lambda>n. n < 256) [a, b, c, d]" "hi < 65536" "lo < 65536"
  shows "isBlockedImageHost (dotted a b c d) = local_quad a b
    \<and> isBlockedImageHost (CHR ''['' # mapped_host hi lo @ '']'') = local_quad (hi div 256) (hi mod 256)
    \<and> isBlockedImageHost ''[::1]'' \<and> \<not> isBlockedImageHost ''[::]''"
proof -
  have "isBlockedImageHost ''[::1]''" "\<not> isBlockedImageHost ''[::]''" by code_simp+
  with image_quad [OF assms(1)] image_mapped [OF assms(2,3)] show ?thesis by simp
qed

theorem image_hosts_witness:
  "isBlockedImageHost (dotted 127 0 0 1) \<and> isBlockedImageHost (CHR ''['' # mapped_host 0x7F00 1 @ '']'')"
  using image_hosts [of 127 0 0 1 "0x7F00" 1] by (simp add: local_quad_def)

end
