(* ===== verification/SuiteProxyHttp.thy ===== *)
theory SuiteProxyHttp imports SuiteProxy FileRoutes Ops begin

text \<open>
  The proxy of embedded applications behind \<^verbatim>\<open>/ora/\<close>: \<^verbatim>\<open>server/http/suite-proxy.ts\<close>.
  The environment answers: \<open>snFetch\<close> and \<open>snUpgrade\<close> are the embedded applications, \<open>snImage\<close> the
  n-th fetch of an image, \<open>snLookup\<close> the n-th name lookup.  The state keeps what was sent.  Bodies
  are texts; streaming and the sockets after an upgrade are left out.
\<close>

record upstream_request =
  urTarget :: web_url
  urMethod :: string
  urHeaders :: "(string \<times> string) list"
  urInsecure :: bool

record upstream_answer =
  uaStatus :: nat
  uaHeaders :: "(string \<times> string list) list"
  uaBody :: string

record suite_env =
  snPlatform :: platform
  snApi :: url_api
  snScript :: "string \<Rightarrow> string"
  snParam :: "string \<Rightarrow> string"
  snLookup :: "nat \<Rightarrow> string \<Rightarrow> string option"
  snImage :: "nat \<Rightarrow> web_url \<Rightarrow> js_error + upstream_answer"
  snFetch :: "upstream_request \<Rightarrow> js_error + upstream_answer"
  snUpgrade :: "upstream_request \<Rightarrow> upstream_answer option"

record suite_state =
  svServer :: server
  svEmbeds :: embed_state
  svSent :: "upstream_request list"
  svImages :: "web_url list"
  svLookups :: nat

type_synonym 'a suite_op = "(suite_state, 'a) op"

record suite_reply =
  syStatus :: nat
  syHeaders :: "(string \<times> string list) list"
  syBody :: string

definition canUseSuite :: "session_user \<Rightarrow> bool" where
  "canUseSuite user \<longleftrightarrow>
     userHasAnyPermission (Some (holder_of user)) INVENTORY_VIEW_PERMISSIONS None None
     \<or> userHasPermission (Some (holder_of user)) ''settings.view'' None None"

definition STRIP :: "string list" where
  "STRIP = [''content-security-policy'', ''content-security-policy-report-only'', ''x-frame-options'', ''content-length'',
     ''content-encoding'', ''transfer-encoding'', ''connection'', ''keep-alive'', ''strict-transport-security'']"

definition TEXT_LIMIT :: nat where
  "TEXT_LIMIT = 8000000"

definition IMAGE_BYTES :: nat where
  "IMAGE_BYTES = 2000000"

definition headerText :: "string list option \<Rightarrow> string" where
  "headerText v = (case v of None \<Rightarrow> [] | Some vs \<Rightarrow> join '', '' vs)"

definition requestHost :: "node_request \<Rightarrow> string" where
  "requestHost req = forwardedHost (map_of (nrHeaders req) ''host'')"

definition requestProto :: "node_request \<Rightarrow> string" where
  "requestProto req = forwardedScheme (map_of (nrHeaders req) ''x-forwarded-proto'')"

definition publicOrigin :: "node_request \<Rightarrow> string" where
  "publicOrigin req = requestProto req @ ''://'' @ requestHost req"

definition request_verb :: "node_request \<Rightarrow> string" where
  "request_verb req = to_upper (case nrMethod req of None \<Rightarrow> ''GET'' | Some m \<Rightarrow> m)"

definition send_text :: "nat \<Rightarrow> string \<Rightarrow> suite_reply" where
  "send_text status body =
     \<lparr>syStatus = status, syHeaders = [(''Content-Type'', [''text/plain; charset=utf-8'']), (''Cache-Control'', [''no-store''])], syBody = body\<rparr>"

definition redirect :: "nat \<Rightarrow> string \<Rightarrow> suite_reply" where
  "redirect status location =
     \<lparr>syStatus = status, syHeaders = [(''Location'', [location]), (''Cache-Control'', [''no-store''])], syBody = []\<rparr>"

definition findApp :: "suite_env \<Rightarrow> int \<Rightarrow> string \<Rightarrow> suite_app option suite_op" where
  "findApp sn now ident st =
     (case loadSuiteEmbedAppsCached (snApi sn) now (svEmbeds st) of
        (apps, es) \<Rightarrow> (Inr (find (\<lambda>a. saId a = ident) apps), st\<lparr>svEmbeds := es\<rparr>))"

section \<open>Images\<close>

definition lookup_host :: "suite_env \<Rightarrow> string \<Rightarrow> string option suite_op" where
  "lookup_host sn host st = (Inr (snLookup sn (svLookups st) host), st\<lparr>svLookups := Suc (svLookups st)\<rparr>)"

definition resolveExternalImageTarget :: "suite_env \<Rightarrow> string \<Rightarrow> bool \<Rightarrow> web_url option suite_op" where
  "resolveExternalImageTarget sn raw allowHttps =
     (case externalImageTarget (snApi sn) raw allowHttps of None \<Rightarrow> return_op None
      | Some url \<Rightarrow>
          (let host = normalizeImageHost (wuHostname url) in
           if isImageIpLiteral host then return_op (Some url)
           else bind_op (lookup_host sn host) (\<lambda>found.
             return_op (case found of None \<Rightarrow> None | Some address \<Rightarrow> if isBlockedImageHost address then None else Some url))))"

definition fetch_image :: "suite_env \<Rightarrow> web_url \<Rightarrow> upstream_answer suite_op" where
  "fetch_image sn url st = (snImage sn (length (svImages st)) url, st\<lparr>svImages := svImages st @ [url]\<rparr>)"

definition image_reply :: "upstream_answer \<Rightarrow> suite_reply" where
  "image_reply a =
     (let type = headerText (map_of (uaHeaders a) ''content-type''); plain = trim (before_char CHR '';'' type) in
      if uaStatus a \<noteq> 200 then send_text (if uaStatus a = 404 then 404 else 502) ''Bild nicht erreichbar''
      else if \<not> isProxyImageType type then send_text 415 ''Kein Bild''
      else if IMAGE_BYTES < length (uaBody a) then send_text 413 ''Bild zu gross''
      else \<lparr>syStatus = 200,
         syHeaders = [(''content-type'', [if plain = [] then ''application/octet-stream'' else plain]),
           (''content-length'', [nat_str (length (uaBody a))]), (''cache-control'', [''private, max-age=3600'']),
           (''x-content-type-options'', [''nosniff'']),
           (''content-security-policy'', [''default-src '' @ single_mark @ ''none'' @ single_mark @ ''; sandbox''])],
         syBody = uaBody a\<rparr>)"

text \<open>The first argument is the number of requests the loop may still make, 4 at its start.\<close>

fun image_hops :: "nat \<Rightarrow> suite_env \<Rightarrow> web_url \<Rightarrow> suite_reply suite_op" where
  "image_hops 0 sn current = return_op (send_text 502 ''Bildadresse ungueltig'')"
| "image_hops (Suc n) sn current =
     bind_op (fetch_image sn current) (\<lambda>a.
     if 300 \<le> uaStatus a \<and> uaStatus a < 400
     then (case upResolve (snApi sn) (headerText (map_of (uaHeaders a) ''location'')) current of
         None \<Rightarrow> throw_op (OtherError ''Invalid URL'')
       | Some moved \<Rightarrow>
           bind_op (resolveExternalImageTarget sn (upHref (snApi sn) moved) True) (\<lambda>next'.
           case next' of None \<Rightarrow> return_op (send_text 502 ''Bildadresse ungueltig'')
           | Some url \<Rightarrow> image_hops n sn url))
     else return_op (image_reply a))"

definition writeExternalImage :: "suite_env \<Rightarrow> string \<Rightarrow> suite_reply suite_op" where
  "writeExternalImage sn search =
     bind_op (resolveExternalImageTarget sn (snParam sn (if starts_with search ''?'' then drop 1 search else search)) False) (\<lambda>current.
     case current of None \<Rightarrow> return_op (send_text 400 ''Bildadresse ungueltig'')
     | Some url \<Rightarrow> image_hops 4 sn url)"

section \<open>Answers of an application\<close>

definition reply_header ::
  "url_api \<Rightarrow> web_url \<Rightarrow> string \<Rightarrow> string \<times> string list \<Rightarrow> (string \<times> string list) list \<Rightarrow> (string \<times> string list) list" where
  "reply_header api target mount = (\<lambda>(key, v) hs.
     let lower = to_lower key in
     if v = [] \<or> v = [[]] \<or> lower \<in> set STRIP \<or> lower \<in> {''set-cookie'', ''cache-control'', ''expires''} then hs
     else if lower = ''location'' then AList.update lower [rewriteLocation api (headerText (Some v)) target mount] hs
     else if lower = ''link'' then AList.update lower [rewriteLinkHeader (headerText (Some v)) mount] hs
     else AList.update lower v hs)"

definition reply_headers ::
  "url_api \<Rightarrow> web_url \<Rightarrow> string \<Rightarrow> string \<Rightarrow> bool \<Rightarrow> (string \<times> string list) list \<Rightarrow> (string \<times> string list) list" where
  "reply_headers api target mount origin secure upstream =
     (let copied = fold (reply_header api target mount) upstream
            [(''Cache-Control'', [''no-store'']), (''content-security-policy'', [embedContentSecurityPolicy origin mount])]
      in case map_of upstream ''set-cookie'' of None \<Rightarrow> copied
         | Some cookies \<Rightarrow> AList.update ''set-cookie'' (map (\<lambda>c. rewriteCookie c mount secure) cookies) copied)"

definition writeUpstream :: "suite_env \<Rightarrow> node_request \<Rightarrow> upstream_answer \<Rightarrow> web_url \<Rightarrow> string \<Rightarrow> suite_reply" where
  "writeUpstream sn req a target mount =
     (let kind = rewriteKind (Some (headerText (map_of (uaHeaders a) ''content-type'')));
          headers = reply_headers (snApi sn) target mount (publicOrigin req) (requestProto req = ''https'') (uaHeaders a);
          declared = toNumber (headerText (map_of (uaHeaders a) ''content-length''));
          isHead = (request_verb req = ''HEAD'') in
      if kind = None \<or> isHead
      then \<lparr>syStatus = uaStatus a, syHeaders = headers, syBody = (if isHead then [] else uaBody a)\<rparr>
      else if isFiniteNum declared \<and> num_greater declared (of_nat TEXT_LIMIT) then send_text 502 ''Antwort der App ist zu gross''
      else if TEXT_LIMIT < length (uaBody a) then send_text 502 ''Antwort der App ist zu gross''
      else \<lparr>syStatus = uaStatus a, syHeaders = AList.delete ''content-length'' headers,
             syBody = rewriteEmbedBody (snScript sn) (uaBody a) (the kind) mount\<rparr>)"

section \<open>Requests\<close>

definition upstreamHeaders :: "suite_env \<Rightarrow> node_request \<Rightarrow> web_url \<Rightarrow> string \<Rightarrow> string \<Rightarrow> bool \<Rightarrow> (string \<times> string) list" where
  "upstreamHeaders sn req target mount appUrl keepUpgrade =
     buildUpstreamHeaders (snApi sn) (nrHeaders req) target mount appUrl (requestProto req) (requestHost req) keepUpgrade"

definition session_op :: "suite_env \<Rightarrow> int \<Rightarrow> node_request \<Rightarrow> auth_session option suite_op" where
  "session_op sn now req st =
     (case cookieValue req SESSION_COOKIE of Inl e \<Rightarrow> (Inl e, st)
      | Inr token \<Rightarrow>
          (case getSessionFromToken (snPlatform sn) now token (svServer st) of (found, srv) \<Rightarrow> (Inr found, st\<lparr>svServer := srv\<rparr>)))"

definition fetch_app :: "suite_env \<Rightarrow> upstream_request \<Rightarrow> upstream_answer suite_op" where
  "fetch_app sn r st = (snFetch sn r, st\<lparr>svSent := svSent st @ [r]\<rparr>)"

definition forward_app :: "suite_env \<Rightarrow> node_request \<Rightarrow> suite_target \<Rightarrow> suite_app \<Rightarrow> suite_reply suite_op" where
  "forward_app sn req parsed app =
     (let mount = suiteProxyPrefix (stId parsed) in
      case upstreamTarget (snApi sn) (saUrl app) (stripAssetBump (stPathname parsed)) (stSearch parsed) of
        None \<Rightarrow> throw_op (OtherError ''Invalid URL'')
      | Some target \<Rightarrow>
          if targetsSelf target (requestHost req) (stId parsed) then return_op (send_text 508 ''Die Adresse zeigt auf Proxora selbst'')
          else bind_op (fetch_app sn \<lparr>urTarget = target, urMethod = request_verb req,
                   urHeaders = upstreamHeaders sn req target mount (saUrl app) False,
                   urInsecure = allowsInsecureTls (saInsecureTls app) (wuProtocol target)\<rparr>) (\<lambda>a.
               return_op (writeUpstream sn req a target mount)))"

definition suite_request :: "suite_env \<Rightarrow> int \<Rightarrow> node_request \<Rightarrow> suite_target \<Rightarrow> suite_reply suite_op" where
  "suite_request sn now req parsed =
     bind_op (session_op sn now req) (\<lambda>found.
     case found of None \<Rightarrow> return_op (redirect 302 ''/login'')
     | Some session \<Rightarrow>
         if \<not> canUseSuite (asUser session) then return_op (send_text 403 ''Keine Berechtigung'')
         else if stBare parsed then return_op (redirect 308 (suiteProxyPrefix (stId parsed) @ ''/'' @ stSearch parsed))
         else bind_op (findApp sn now (stId parsed)) (\<lambda>app.
           case app of None \<Rightarrow> return_op (send_text 404 ''App nicht gefunden'')
           | Some a \<Rightarrow>
               if isExternalImagePath (stPathname parsed) then writeExternalImage sn (stSearch parsed)
               else forward_app sn req parsed a))"

text \<open>\<open>None\<close>: the request is left to others.\<close>

definition handleSuiteProxy :: "suite_env \<Rightarrow> int \<Rightarrow> node_request \<Rightarrow> suite_reply option suite_op" where
  "handleSuiteProxy sn now req =
     (case parseSuiteProxyUrl (nrUrl req) of None \<Rightarrow> return_op None
      | Some parsed \<Rightarrow>
          bind_op (catch_op (suite_request sn now req parsed) (\<lambda>_. return_op (send_text 502 ''Die App ist nicht erreichbar''))) (\<lambda>r.
          return_op (Some r)))"

section \<open>Upgrades\<close>

datatype upgrade_result = NotSuite | Destroyed | Joined "string list"

definition upgrade_lines :: "upstream_answer \<Rightarrow> string list" where
  "upgrade_lines a =
     (''HTTP/1.1 '' @ nat_str (uaStatus a) @ '' Switching Protocols'')
     # concat (map (\<lambda>(key, vs). if vs = [] \<or> to_lower key \<in> set STRIP then [] else map (\<lambda>v. key @ '': '' @ v) vs) (uaHeaders a))"

definition join_app :: "suite_env \<Rightarrow> upstream_request \<Rightarrow> upgrade_result suite_op" where
  "join_app sn r st =
     (Inr (case snUpgrade sn r of None \<Rightarrow> Destroyed | Some a \<Rightarrow> Joined (upgrade_lines a)), st\<lparr>svSent := svSent st @ [r]\<rparr>)"

definition upgrade_app :: "suite_env \<Rightarrow> node_request \<Rightarrow> suite_target \<Rightarrow> suite_app \<Rightarrow> upgrade_result suite_op" where
  "upgrade_app sn req parsed app =
     (case upstreamTarget (snApi sn) (saUrl app) (stripAssetBump (stPathname parsed)) (stSearch parsed) of
        None \<Rightarrow> throw_op (OtherError ''Invalid URL'')
      | Some target \<Rightarrow>
          if targetsSelf target (requestHost req) (stId parsed) then return_op Destroyed
          else join_app sn \<lparr>urTarget = target, urMethod = ''GET'',
                 urHeaders = upstreamHeaders sn req target (suiteProxyPrefix (stId parsed)) (saUrl app) True,
                 urInsecure = allowsInsecureTls (saInsecureTls app) (wuProtocol target)\<rparr>)"

definition handleSuiteProxyUpgrade :: "suite_env \<Rightarrow> int \<Rightarrow> node_request \<Rightarrow> upgrade_result suite_op" where
  "handleSuiteProxyUpgrade sn now req =
     (case parseSuiteProxyUrl (nrUrl req) of None \<Rightarrow> return_op NotSuite
      | Some parsed \<Rightarrow>
          catch_op
            (bind_op (session_op sn now req) (\<lambda>found.
             bind_op (case found of
                 Some session \<Rightarrow> if canUseSuite (asUser session) then findApp sn now (stId parsed) else return_op None
               | None \<Rightarrow> return_op None) (\<lambda>app.
             case app of None \<Rightarrow> return_op Destroyed | Some a \<Rightarrow> upgrade_app sn req parsed a)))
            (\<lambda>_. return_op Destroyed))"

end
