(* ===== verification/SuiteProperties.thy ===== *)
theory SuiteProperties imports UrlProperties SuiteProxyHttp begin

text \<open>
  What reaches an embedded application and what its answers may set: requests need a session, the
  session cookie stays here, cookies are stored below the mount, and images come from checked hosts.
\<close>

section \<open>Cookies that are set\<close>

text \<open>The attributes of a cookie as user agents read them (RFC 6265, 5.2); the last path counts.\<close>

definition cookie_attribute :: "string \<Rightarrow> string \<times> string" where
  "cookie_attribute part = (to_lower (trim (before_char CHR ''='' part)), trim (drop 1 (from_char CHR ''='' part)))"

definition path_attributes :: "string list \<Rightarrow> string list" where
  "path_attributes parts = map snd (filter (\<lambda>(n, _). n = ''path'') (map cookie_attribute parts))"

definition cookie_paths :: "string \<Rightarrow> string list" where
  "cookie_paths cookie = path_attributes (tl (split_on CHR '';'' cookie))"

lemma path_attributes_append [simp]: "path_attributes (xs @ ys) = path_attributes xs @ path_attributes ys"
  by (simp add: path_attributes_def)

lemma path_attributes_Cons:
  "path_attributes (p # ps) = (if fst (cookie_attribute p) = ''path'' then [snd (cookie_attribute p)] else []) @ path_attributes ps"
  by (simp add: path_attributes_def case_prod_unfold)

lemma trim_skip: "trim (dropWhile is_ws s) = trim s"
  by (simp add: trim_def trim_start_def)

lemma takeWhile_dropWhile_ws:
  "\<not> is_ws d \<Longrightarrow> takeWhile (\<lambda>c. c \<noteq> d) (dropWhile is_ws s) = dropWhile is_ws (takeWhile (\<lambda>c. c \<noteq> d) s)"
  by (induction s) auto

lemma takeWhile_until: "d \<notin> set w \<Longrightarrow> takeWhile (\<lambda>c. c \<noteq> d) (w @ d # t) = w"
  by (induction w) auto

lemma before_equals:
  assumes "starts_with (to_lower s) (w @ ''='')" "CHR ''='' \<notin> set w"
  shows "to_lower (before_char CHR ''='' s) = w"
proof -
  have eq: "lower_char c = CHR ''='' \<longleftrightarrow> c = CHR ''=''" for c
    by (auto simp: lower_char_def is_upper_def in_range_def of_char_of_nat_small dest!: arg_cong [where f = "of_char :: char \<Rightarrow> nat"])
  have "to_lower (takeWhile (\<lambda>c. c \<noteq> CHR ''='') s) = takeWhile (\<lambda>c. c \<noteq> CHR ''='') (to_lower s)"
    by (simp add: to_lower_def takeWhile_map o_def eq)
  also from assms(1) obtain t where "to_lower s = w @ CHR ''='' # t" by (auto simp: starts_with_iff)
  then have "takeWhile (\<lambda>c. c \<noteq> CHR ''='') (to_lower s) = w" using assms(2) by (simp add: takeWhile_until)
  finally show ?thesis by (simp add: before_char_def)
qed

lemma path_named:
  assumes "attribute_is ''path='' part"
  shows "fst (cookie_attribute part) = ''path''"
proof -
  have before: "to_lower (before_char CHR ''='' (trim_start part)) = ''path''"
    using assms by (intro before_equals) (simp_all add: attribute_is_def)
  have "before_char CHR ''='' (trim_start part) = trim_start (before_char CHR ''='' part)"
    by (simp add: before_char_def trim_start_def takeWhile_dropWhile_ws is_ws_def in_range_def)
  moreover have "trim s = s" if "to_lower s = ''path''" for s
  proof -
    have ws: "is_ws c \<Longrightarrow> is_ws (lower_char c)" for c by (auto simp: lower_char_def is_upper_def is_ws_def in_range_def)
    have "\<not> is_ws c" if "c \<in> set s" for c
    proof
      assume "is_ws c"
      from ws [OF this] \<open>c \<in> set s\<close> have "\<exists>d \<in> set (to_lower s). is_ws d" by (auto simp: to_lower_def)
      with \<open>to_lower s = ''path''\<close> show False by (auto simp: is_ws_def in_range_def)
    qed
    then have "dropWhile is_ws s = s" "dropWhile is_ws (rev s) = rev s" by (rule drop_none, simp)+
    then show ?thesis by (simp add: trim_def trim_start_def trim_end_def)
  qed
  ultimately have "trim (trim_start (before_char CHR ''='' part)) = trim_start (before_char CHR ''='' part)"
    "to_lower (trim_start (before_char CHR ''='' part)) = ''path''" using before by simp_all
  then show ?thesis by (simp add: cookie_attribute_def trim_start_def trim_skip)
qed

lemma ends_plain_trim: "s \<noteq> [] \<Longrightarrow> \<not> is_ws (hd s) \<Longrightarrow> \<not> is_ws (last s) \<Longrightarrow> trim s = s"
proof -
  assume s: "s \<noteq> []" "\<not> is_ws (hd s)" "\<not> is_ws (last s)"
  then have "dropWhile is_ws s = s" "dropWhile is_ws (rev s) = rev s"
    by (cases s, simp_all, cases "rev s", simp_all add: last_rev [symmetric])
  then show ?thesis by (simp add: trim_def trim_start_def trim_end_def)
qed

lemma trim_last: "trim s \<noteq> [] \<Longrightarrow> \<not> is_ws (last (trim s))"
proof -
  assume "trim s \<noteq> []"
  then have "dropWhile is_ws (rev (trim_start s)) \<noteq> []" by (simp add: trim_def trim_end_def)
  from hd_dropWhile [OF this] show ?thesis by (simp add: trim_def trim_end_def last_rev)
qed

definition mount_ok :: "string \<Rightarrow> bool" where
  "mount_ok mount \<longleftrightarrow> starts_with mount ''/'' \<and> \<not> is_ws (last mount) \<and> CHR '';'' \<notin> set mount"

lemma mounted:
  assumes "mount_ok mount"
  shows "under_mount mount (mounted_path mount raw)" "trim (mounted_path mount raw) = mounted_path mount raw"
proof -
  from assms obtain m where m: "mount = CHR ''/'' # m" by (auto simp: mount_ok_def starts_with_iff)
  show u: "under_mount mount (mounted_path mount raw)"
    by (auto simp: mounted_path_def under_mount_def Let_def starts_with_iff)
  have slash: "\<not> is_ws CHR ''/''" by (simp add: is_ws_def in_range_def)
  have "hd (mounted_path mount raw) = CHR ''/'' \<and> mounted_path mount raw \<noteq> []"
    using u m by (auto simp: under_mount_def starts_with_iff)
  moreover have "\<not> is_ws (last (mounted_path mount raw))"
    using trim_last [of raw] slash assms by (auto simp: mounted_path_def Let_def mount_ok_def)
  ultimately show "trim (mounted_path mount raw) = mounted_path mount raw" using slash by (intro ends_plain_trim) simp_all
qed

lemma path_part:
  assumes "mount_ok mount" "under_mount mount p" "trim p = p"
  shows "cookie_attribute ('' Path='' @ p) = (''path'', p)"
proof -
  have "to_lower (trim '' Path'') = ''path''" by code_simp
  then show ?thesis using assms(3) by (simp add: cookie_attribute_def before_char_def from_char_def)
qed

lemma replaced_paths:
  assumes "mount_ok mount" "list_ex (attribute_is ''path='') parts" "length (path_attributes parts) \<le> 1"
  shows "\<exists>p. under_mount mount p \<and> path_attributes (replace_path mount parts) = [p]"
  using assms(2,3)
proof (induction parts)
  case (Cons part parts)
  show ?case
  proof (cases "attribute_is ''path='' part")
    case True
    let ?p = "mounted_path mount (drop 5 (trim_start part))"
    have "path_attributes parts = []" using Cons.prems(2) path_named [OF True] by (simp add: path_attributes_Cons)
    moreover have "cookie_attribute ('' Path='' @ ?p) = (''path'', ?p)"
      by (intro path_part [OF assms(1)] mounted [OF assms(1)])
    ultimately show ?thesis using True mounted(1) [OF assms(1)]
      by (intro exI [of _ ?p]) (simp add: path_attributes_Cons del: append.simps)
  next
    case False
    with Cons.prems have "list_ex (attribute_is ''path='') parts" by simp
    then have "path_attributes parts \<noteq> []"
      using path_named by (induction parts) (auto simp: path_attributes_Cons)
    with Cons.prems(2) have none: "fst (cookie_attribute part) \<noteq> ''path''"
      by (cases "path_attributes parts") (auto simp: path_attributes_Cons split: if_splits)
    with Cons.prems(2) have "length (path_attributes parts) \<le> 1" by (simp add: path_attributes_Cons)
    with Cons.IH \<open>list_ex (attribute_is ''path='') parts\<close> none False show ?thesis by (simp add: path_attributes_Cons)
  qed
qed simp

lemma path_attributes_filter: "length (path_attributes (filter P parts)) \<le> length (path_attributes parts)"
  by (induction parts) (simp_all add: path_attributes_Cons)

lemma no_semicolon_mounted: "mount_ok mount \<Longrightarrow> CHR '';'' \<notin> set raw \<Longrightarrow> CHR '';'' \<notin> set (mounted_path mount raw)"
  using set_trim [of raw] by (auto simp: mounted_path_def Let_def mount_ok_def)

lemma no_semicolon_replaced:
  assumes "mount_ok mount" "\<And>w. w \<in> set parts \<Longrightarrow> CHR '';'' \<notin> set w" "w \<in> set (replace_path mount parts)"
  shows "CHR '';'' \<notin> set w"
  using assms(2,3)
proof (induction parts)
  case (Cons part parts)
  have "CHR '';'' \<notin> set (drop 5 (trim_start part))"
    using Cons.prems(1) [of part] by (auto simp: trim_start_def dest: in_set_dropD set_dropWhileD)
  with Cons no_semicolon_mounted [OF assms(1)] show ?case by (auto split: if_splits)
qed simp

text \<open>
  C29: A cookie that an embedded application sets with at most one path attribute is stored for the
  mount of that application or a path below it, whatever the path says.  Only the first path
  attribute is rewritten though: with two of them the second counts, so an application can set a
  cookie for the whole of Proxora.
\<close>

theorem cookie_stays_below_mount:
  assumes mount: "mount_ok mount" and one: "length (cookie_paths cookie) \<le> 1"
  shows "(\<exists>p. under_mount mount p \<and> last (cookie_paths (rewriteCookie cookie mount secure)) = p \<and> cookie_paths (rewriteCookie cookie mount secure) \<noteq> [])
    \<and> cookie_paths (rewriteCookie ''s=1; Path=/; Path=/'' ''/ora/app'' secure) = [''/ora/app/'', ''/'']"
proof -
  let ?parts = "split_on CHR '';'' cookie"
  let ?kept = "filter (\<lambda>p. \<not> attribute_is ''domain='' p) (tl ?parts)"
  let ?placed = "if list_ex (attribute_is ''path='') ?kept then replace_path mount ?kept else ?kept @ ['' Path='' @ mount @ ''/'']"
  let ?final = "if secure \<and> \<not> list_ex secure_part ?placed then ?placed @ ['' Secure''] else ?placed"
  have clean: "CHR '';'' \<notin> set w" if "w \<in> set ?kept" for w
    using that split_on_no_sep [of w "CHR '';''" cookie] by (auto dest: list.set_sel(2) [rotated])
  have m: "CHR '';'' \<notin> set mount" using mount by (simp add: mount_ok_def)
  have placed_clean: "CHR '';'' \<notin> set w" if "w \<in> set ?placed" for w
    using that clean no_semicolon_replaced [OF mount clean, of ?kept w] m by (cases "list_ex (attribute_is ''path='') ?kept") auto
  have hd_clean: "CHR '';'' \<notin> set (hd ?parts)" using split_on_no_sep [OF hd_in_set [OF split_on_neq_Nil]] .
  have parts: "split_on CHR '';'' (rewriteCookie cookie mount secure) = hd ?parts # ?final"
    unfolding rewriteCookie_def Let_def by (rule split_on_join) (use hd_clean placed_clean in auto)
  have few: "length (path_attributes ?kept) \<le> 1"
    using path_attributes_filter one unfolding cookie_paths_def by (rule order_trans)
  have below: "under_mount mount (mount @ ''/'')" "trim (mount @ ''/'') = mount @ ''/''"
  proof -
    from mount obtain t where "mount = CHR ''/'' # t" by (auto simp: mount_ok_def starts_with_iff)
    then show "under_mount mount (mount @ ''/'')" "trim (mount @ ''/'') = mount @ ''/''"
      by (auto simp: under_mount_def starts_with_iff is_ws_def in_range_def intro: ends_plain_trim)
  qed
  have "\<exists>p. under_mount mount p \<and> path_attributes ?placed \<noteq> [] \<and> last (path_attributes ?placed) = p"
  proof (cases "list_ex (attribute_is ''path='') ?kept")
    case True
    with replaced_paths [OF mount True few] show ?thesis by auto
  next
    case False
    then show ?thesis using below path_part [OF mount below]
      by (intro exI [of _ "mount @ ''/''"]) (simp add: path_attributes_Cons del: append.simps, simp add: path_attributes_def)
  qed
  moreover have "path_attributes ['' Secure''] = []" by code_simp
  ultimately have 1: "\<exists>p. under_mount mount p \<and> last (cookie_paths (rewriteCookie cookie mount secure)) = p
      \<and> cookie_paths (rewriteCookie cookie mount secure) \<noteq> []"
    by (auto simp: cookie_paths_def parts)
  have "cookie_paths (rewriteCookie ''s=1; Path=/; Path=/'' ''/ora/app'' True) = [''/ora/app/'', ''/'']"
    "cookie_paths (rewriteCookie ''s=1; Path=/; Path=/'' ''/ora/app'' False) = [''/ora/app/'', ''/'']"
    by code_simp+
  with 1 show ?thesis by (cases secure) simp_all
qed

theorem cookie_stays_below_mount_witness:
  "last (cookie_paths (rewriteCookie ''sid=1; Path=/admin; HttpOnly'' ''/ora/docs'' True)) = ''/ora/docs/admin''"
proof -
  have m: "mount_ok ''/ora/docs''" "length (cookie_paths ''sid=1; Path=/admin; HttpOnly'') \<le> 1" by code_simp+
  have "cookie_paths (rewriteCookie ''sid=1; Path=/admin; HttpOnly'' ''/ora/docs'' True) = [''/ora/docs/admin'']" by code_simp
  with cookie_stays_below_mount [OF m, of True] show ?thesis by simp
qed

section \<open>Headers for an application\<close>

text \<open>A cookie header that names the session of Proxora; names are compared without case.\<close>

definition carries_session :: "string \<Rightarrow> bool" where
  "carries_session v \<longleftrightarrow> list_ex (\<lambda>p. starts_with (to_lower (trim p)) ''pm_session='') (split_on CHR '';'' v)"

definition hides_session :: "(string \<times> string) list \<Rightarrow> bool" where
  "hides_session hs \<longleftrightarrow> (\<forall>(k, v) \<in> set hs. to_lower k = ''cookie'' \<longrightarrow> \<not> carries_session v)"

lemma update_entries: "(k, v) \<in> set (AList.update k' v' hs) \<Longrightarrow> (k, v) = (k', v') \<or> (k, v) \<in> set hs"
  by (induction hs) (auto split: if_splits)

lemma hides_update: "hides_session hs \<Longrightarrow> to_lower k \<noteq> ''cookie'' \<Longrightarrow> hides_session (AList.update k v hs)"
  unfolding hides_session_def by (blast dest: update_entries)

lemma hides_set: "hides_session hs \<Longrightarrow> to_lower k \<noteq> ''cookie'' \<Longrightarrow> hides_session (set_header k v hs)"
  by (cases v) (simp_all add: set_header_def hides_update)

lemma hides_copied:
  "hides_session hs \<Longrightarrow> (\<And>h. h \<in> set headers \<Longrightarrow> to_lower (fst h) \<noteq> ''cookie'')
   \<Longrightarrow> hides_session (fold (\<lambda>(k, v) acc. AList.update (to_lower k) v acc) headers hs)"
proof (induction headers arbitrary: hs)
  case (Cons h headers)
  obtain k v where h: "h = (k, v)" by fastforce
  have "to_lower (to_lower k) \<noteq> ''cookie''" using Cons.prems(2) [of h] h by simp
  with Cons.prems(1) have "hides_session (AList.update (to_lower k) v hs)" by (rule hides_update)
  with Cons.IH Cons.prems(2) h show ?case by simp
qed simp

lemma split_joined:
  assumes "ws \<noteq> []" "\<And>w. w \<in> set ws \<Longrightarrow> CHR '';'' \<notin> set w"
  shows "split_on CHR '';'' (join ''; '' ws) = hd ws # map ((#) CHR '' '') (tl ws)"
  using assms
proof (induction ws rule: induct_list012)
  case (3 w v ws)
  have "split_on CHR '';'' (w @ CHR '';'' # CHR '' '' # join ''; '' (v # ws)) = w # split_on CHR '';'' (CHR '' '' # join ''; '' (v # ws))"
    using "3.prems" by (intro split_on_append_sep) simp
  moreover have "split_on CHR '';'' (join ''; '' (v # ws)) = v # map ((#) CHR '' '') ws" using "3.IH"(2) "3.prems" by simp
  ultimately show ?case by simp
qed (simp_all add: split_on_id)

lemma forwarded_cookie_hides: "forwardCookie header' = Some v \<Longrightarrow> \<not> carries_session v"
proof -
  assume v: "forwardCookie header' = Some v"
  let ?kept = "filter (\<lambda>p. p \<noteq> [] \<and> \<not> session_part p) (map trim (split_on CHR '';'' (the header')))"
  from v have kept: "?kept \<noteq> []" "v = join ''; '' ?kept" by (auto simp: forwardCookie_def Let_def split: if_splits)
  have each: "CHR '';'' \<notin> set w \<and> trim w = w \<and> \<not> session_part w" if "w \<in> set ?kept" for w
    using that split_on_no_sep set_trim by fastforce
  have parts: "split_on CHR '';'' v = hd ?kept # map ((#) CHR '' '') (tl ?kept)"
    unfolding kept(2) by (rule split_joined [OF kept(1)]) (use each in blast)
  have space: "trim (CHR '' '' # w) = trim w" for w by (simp add: trim_def trim_start_def is_ws_def)
  have "\<not> session_part (trim p)" if "p \<in> set (hd ?kept # map ((#) CHR '' '') (tl ?kept))" for p
  proof -
    from that consider "p = hd ?kept" | w where "p = CHR '' '' # w" "w \<in> set (tl ?kept)" by (simp only: list.set set_map) blast
    then show ?thesis
    proof cases
      case 1
      with each [OF hd_in_set [OF kept(1)]] show ?thesis by simp
    next
      case 2
      with each [OF list.set_sel(2) [OF kept(1)], of w] show ?thesis by (simp only: space) simp
    qed
  qed
  then show ?thesis unfolding carries_session_def parts list_ex_iff session_part_def by blast
qed

lemma headers_hide_session: "hides_session (buildUpstreamHeaders api headers target mount appUrl proto fhost keepUpgrade)"
proof -
  let ?copied = "fold (\<lambda>(k, v) hs. AList.update (to_lower k) v hs) (filter (forwards_header keepUpgrade) headers) []"
  have copied: "hides_session ?copied"
    by (rule hides_copied) (auto simp: hides_session_def forwards_header_def)
  have names: "to_lower ''x-forwarded-host'' \<noteq> ''cookie''" "to_lower ''x-forwarded-proto'' \<noteq> ''cookie''" "to_lower ''referer'' \<noteq> ''cookie''"
    "to_lower ''origin'' \<noteq> ''cookie''" "to_lower ''accept-encoding'' \<noteq> ''cookie''" "to_lower ''host'' \<noteq> ''cookie''"
    by code_simp+
  have cookie: "hides_session (set_header ''cookie'' (forwardCookie h) hs)" if "hides_session hs" for h hs
    using that forwarded_cookie_hides [of h] by (cases "forwardCookie h") (auto simp: set_header_def hides_session_def dest: update_entries)
  show ?thesis unfolding buildUpstreamHeaders_def Let_def by (intro hides_set cookie copied names)
qed

section \<open>What is sent\<close>

text \<open>What a request to an application needs.\<close>

definition suite_session :: "suite_env \<Rightarrow> int \<Rightarrow> node_request \<Rightarrow> suite_state \<Rightarrow> bool" where
  "suite_session sn now req st \<longleftrightarrow>
     (\<exists>token session. cookieValue req SESSION_COOKIE = Inr token
        \<and> fst (getSessionFromToken (snPlatform sn) now token (svServer st)) = Some session \<and> canUseSuite (asUser session))"

definition suite_granted :: "suite_env \<Rightarrow> int \<Rightarrow> node_request \<Rightarrow> suite_state \<Rightarrow> upstream_request \<Rightarrow> bool" where
  "suite_granted sn now req st r \<longleftrightarrow>
     suite_session sn now req st \<and> hides_session (urHeaders r)
     \<and> (\<exists>parsed app. parseSuiteProxyUrl (nrUrl req) = Some parsed
          \<and> app \<in> set (fst (loadSuiteEmbedAppsCached (snApi sn) now (svEmbeds st))) \<and> saId app = stId parsed
          \<and> upstreamTarget (snApi sn) (saUrl app) (stripAssetBump (stPathname parsed)) (stSearch parsed) = Some (urTarget r)
          \<and> \<not> targetsSelf (urTarget r) (requestHost req) (stId parsed)
          \<and> (urInsecure r \<longrightarrow> saInsecureTls app \<and> wuProtocol (urTarget r) = ''https:''))"

text \<open>An image address that passed the checks, with an address of its host that is not blocked.\<close>

definition checked_image :: "suite_env \<Rightarrow> web_url \<Rightarrow> bool" where
  "checked_image sn u \<longleftrightarrow>
     web_scheme u \<and> \<not> has_credentials u \<and> \<not> isBlockedImageHost (wuHostname u)
     \<and> (let host = normalizeImageHost (wuHostname u) in
        isImageIpLiteral host \<or> (\<exists>i a. snLookup sn i host = Some a \<and> \<not> isBlockedImageHost a))"

text \<open>What an operation adds to the sent requests and images.\<close>

definition adds :: "(upstream_request list \<Rightarrow> bool) \<Rightarrow> (web_url list \<Rightarrow> bool) \<Rightarrow> suite_state \<Rightarrow> suite_state \<Rightarrow> bool" where
  "adds P Q st st' \<longleftrightarrow> (\<exists>rs us. svSent st' = svSent st @ rs \<and> svImages st' = svImages st @ us \<and> P rs \<and> Q us)"

lemma adds_nothing: "svSent st' = svSent st \<Longrightarrow> svImages st' = svImages st \<Longrightarrow> P [] \<Longrightarrow> Q [] \<Longrightarrow> adds P Q st st'"
  unfolding adds_def by (intro exI [of _ "[]"]) simp

lemma adds_from: "svSent st1 = svSent st \<Longrightarrow> svImages st1 = svImages st \<Longrightarrow> adds P Q st1 st' = adds P Q st st'"
  by (simp add: adds_def)

lemma resolve_checked:
  "case resolveExternalImageTarget sn raw https st of (r, st') \<Rightarrow>
     svSent st' = svSent st \<and> svImages st' = svImages st \<and> (\<forall>u. r = Inr (Some u) \<longrightarrow> checked_image sn u)"
proof (cases "externalImageTarget (snApi sn) raw https")
  case None
  then show ?thesis by (simp add: resolveExternalImageTarget_def return_op_def)
next
  case (Some url)
  then have ok: "web_scheme url" "\<not> has_credentials url" "\<not> isBlockedImageHost (wuHostname url)"
    by (auto simp: externalImageTarget_def web_scheme_def has_credentials_def split: option.splits if_splits)
  show ?thesis
    using ok by (cases "snLookup sn (svLookups st) (normalizeImageHost (wuHostname url))")
      (auto simp: resolveExternalImageTarget_def Some Let_def op_defs lookup_host_def checked_image_def)
qed

definition few_images :: "suite_env \<Rightarrow> nat \<Rightarrow> web_url list \<Rightarrow> bool" where
  "few_images sn n us \<longleftrightarrow> length us \<le> n \<and> list_all (checked_image sn) us"

lemma hops_images:
  "checked_image sn u \<Longrightarrow> adds (\<lambda>rs. rs = []) (few_images sn n) st (snd (image_hops n sn u st))"
proof (induction n arbitrary: u st)
  case 0
  then show ?case by (intro adds_nothing) (simp_all add: return_op_def few_images_def)
next
  case (Suc n)
  let ?st1 = "st\<lparr>svImages := svImages st @ [u]\<rparr>"
  have one: "adds (\<lambda>rs. rs = []) (few_images sn (Suc n)) st st'" if "adds (\<lambda>rs. rs = []) (few_images sn n) ?st1 st'" for st'
    using that Suc.prems by (auto simp: adds_def few_images_def)
  have stop: "adds (\<lambda>rs. rs = []) (few_images sn n) ?st1 ?st1" by (rule adds_nothing) (simp_all add: few_images_def)
  show ?case
  proof (cases "snImage sn (length (svImages st)) u")
    case (Inl e)
    then show ?thesis using one [OF stop] by (simp add: bind_op_def fetch_image_def)
  next
    case (Inr a)
    show ?thesis
    proof (cases "300 \<le> uaStatus a \<and> uaStatus a < 400")
      case False
      with Inr show ?thesis using one [OF stop] by (auto simp: bind_op_def fetch_image_def return_op_def)
    next
      case True
      let ?location = "headerText (map_of (uaHeaders a) ''location'')"
      show ?thesis
      proof (cases "upResolve (snApi sn) ?location u")
        case None
        with Inr True show ?thesis using one [OF stop] by (simp add: bind_op_def fetch_image_def throw_op_def)
      next
        case (Some moved)
        obtain r st2 where r: "resolveExternalImageTarget sn (upHref (snApi sn) moved) True ?st1 = (r, st2)" by fastforce
        from resolve_checked [where sn = sn and raw = "upHref (snApi sn) moved" and https = True and st = ?st1] r
        have same: "svSent st2 = svSent ?st1" "svImages st2 = svImages ?st1" and ok: "\<And>v. r = Inr (Some v) \<Longrightarrow> checked_image sn v"
          by simp_all
        have here: "adds (\<lambda>rs. rs = []) (few_images sn n) ?st1 st2" using same by (intro adds_nothing) (simp_all add: few_images_def)
        show ?thesis
        proof (cases "\<exists>v. r = Inr (Some v)")
          case True
          then obtain v where v: "r = Inr (Some v)" by blast
          from Suc.IH [OF ok [OF v], where st = st2] have "adds (\<lambda>rs. rs = []) (few_images sn n) ?st1 (snd (image_hops n sn v st2))"
            using adds_from [OF same] by blast
          with Inr Some r v \<open>300 \<le> uaStatus a \<and> uaStatus a < 400\<close> show ?thesis
            using one by (simp add: bind_op_def fetch_image_def)
        next
          case False
          with Inr Some r \<open>300 \<le> uaStatus a \<and> uaStatus a < 400\<close> show ?thesis
            using one [OF here] by (cases r) (auto simp: bind_op_def fetch_image_def return_op_def split: option.split)
        qed
      qed
    qed
  qed
qed

lemma external_images: "adds (\<lambda>rs. rs = []) (few_images sn 4) st (snd (writeExternalImage sn search st))"
proof -
  let ?raw = "snParam sn (if starts_with search ''?'' then drop 1 search else search)"
  obtain r st1 where r: "resolveExternalImageTarget sn ?raw False st = (r, st1)" by fastforce
  from resolve_checked [where sn = sn and raw = ?raw and https = False and st = st] r
  have same: "svSent st1 = svSent st" "svImages st1 = svImages st" and ok: "\<And>v. r = Inr (Some v) \<Longrightarrow> checked_image sn v"
    by simp_all
  have here: "adds (\<lambda>rs. rs = []) (few_images sn 4) st st1" using same by (intro adds_nothing) (simp_all add: few_images_def)
  show ?thesis
  proof (cases "\<exists>v. r = Inr (Some v)")
    case True
    then obtain v where v: "r = Inr (Some v)" by blast
    with r hops_images [OF ok [OF v], where n = 4 and st = st1] adds_from [OF same] show ?thesis by (simp add: writeExternalImage_def bind_op_def)
  next
    case False
    with r here show ?thesis
      by (cases r) (auto simp: writeExternalImage_def bind_op_def return_op_def split: option.split)
  qed
qed

section \<open>Both handlers\<close>

definition one_granted :: "suite_env \<Rightarrow> int \<Rightarrow> node_request \<Rightarrow> suite_state \<Rightarrow> upstream_request list \<Rightarrow> bool" where
  "one_granted sn now req st rs \<longleftrightarrow> length rs \<le> 1 \<and> list_all (suite_granted sn now req st) rs"

definition images_granted :: "suite_env \<Rightarrow> int \<Rightarrow> node_request \<Rightarrow> suite_state \<Rightarrow> web_url list \<Rightarrow> bool" where
  "images_granted sn now req st us \<longleftrightarrow> us = [] \<or> few_images sn 4 us \<and> suite_session sn now req st"

lemma granted_nil: "one_granted sn now req st []" "images_granted sn now req st []"
  by (simp_all add: one_granted_def images_granted_def)

lemma session_quiet:
  "case session_op sn now req st of (r, st1) \<Rightarrow> svSent st1 = svSent st \<and> svImages st1 = svImages st \<and> svEmbeds st1 = svEmbeds st
     \<and> (\<forall>session. r = Inr (Some session) \<and> canUseSuite (asUser session) \<longrightarrow> suite_session sn now req st)"
  by (auto simp: session_op_def suite_session_def split: sum.split prod.split)

lemma found_app:
  assumes "findApp sn now ident st = (Inr (Some app), st1)"
  shows "app \<in> set (fst (loadSuiteEmbedAppsCached (snApi sn) now (svEmbeds st))) \<and> saId app = ident
    \<and> svSent st1 = svSent st \<and> svImages st1 = svImages st"
  using assms by (auto simp: findApp_def find_Some_iff split: prod.splits)

lemma granted_request:
  assumes "suite_session sn now req st" "parseSuiteProxyUrl (nrUrl req) = Some parsed"
    "app \<in> set (fst (loadSuiteEmbedAppsCached (snApi sn) now (svEmbeds st)))" "saId app = stId parsed"
    "upstreamTarget (snApi sn) (saUrl app) (stripAssetBump (stPathname parsed)) (stSearch parsed) = Some target"
    "\<not> targetsSelf target (requestHost req) (stId parsed)"
  shows "suite_granted sn now req st \<lparr>urTarget = target, urMethod = verb, urHeaders = upstreamHeaders sn req target mount (saUrl app) up,
    urInsecure = allowsInsecureTls (saInsecureTls app) (wuProtocol target)\<rparr>"
  using assms by (auto simp: suite_granted_def upstreamHeaders_def headers_hide_session allowsInsecureTls_def)

lemma one_more: "suite_granted sn now req st r \<Longrightarrow> svSent st' = svSent st @ [r] \<Longrightarrow> svImages st' = svImages st
  \<Longrightarrow> adds (one_granted sn now req st) (images_granted sn now req st) st st'"
  unfolding adds_def by (intro exI [of _ "[r]"] exI [of _ "[]"]) (simp add: one_granted_def images_granted_def)

lemma app_request:
  assumes session: "suite_session sn now req st" and parsed: "parseSuiteProxyUrl (nrUrl req) = Some parsed"
    and app: "app \<in> set (fst (loadSuiteEmbedAppsCached (snApi sn) now (svEmbeds st)))" "saId app = stId parsed"
    and same: "svSent st1 = svSent st" "svImages st1 = svImages st"
  shows "adds (one_granted sn now req st) (images_granted sn now req st) st (snd (forward_app sn req parsed app st1))"
    and "adds (one_granted sn now req st) (\<lambda>us. us = []) st (snd (upgrade_app sn req parsed app st1))"
proof -
  let ?target = "upstreamTarget (snApi sn) (saUrl app) (stripAssetBump (stPathname parsed)) (stSearch parsed)"
  have quiet: "adds (one_granted sn now req st) (images_granted sn now req st) st st1"
    "adds (one_granted sn now req st) (\<lambda>us. us = []) st st1"
    using same by (auto intro!: adds_nothing granted_nil)
  have more: "adds (one_granted sn now req st) (images_granted sn now req st) st (st1\<lparr>svSent := svSent st1 @ [r]\<rparr>)"
    "adds (one_granted sn now req st) (\<lambda>us. us = []) st (st1\<lparr>svSent := svSent st1 @ [r]\<rparr>)" if "suite_granted sn now req st r" for r
    using that same unfolding adds_def by (auto intro!: exI [of _ "[r]"] simp: one_granted_def images_granted_def)
  note granted = granted_request [OF session parsed app]
  show "adds (one_granted sn now req st) (images_granted sn now req st) st (snd (forward_app sn req parsed app st1))"
    using quiet(1) more(1) [OF granted]
    by (auto simp: forward_app_def Let_def op_defs fetch_app_def split: option.split sum.split)
  show "adds (one_granted sn now req st) (\<lambda>us. us = []) st (snd (upgrade_app sn req parsed app st1))"
    using quiet(2) more(2) [OF granted]
    by (auto simp: upgrade_app_def op_defs join_app_def split: option.split)
qed

lemma findApp_quiet: "svSent (snd (findApp sn now ident st)) = svSent st \<and> svImages (snd (findApp sn now ident st)) = svImages st"
  by (simp add: findApp_def split: prod.split)

lemma request_adds:
  assumes parsed: "parseSuiteProxyUrl (nrUrl req) = Some parsed"
  shows "adds (one_granted sn now req st) (images_granted sn now req st) st (snd (suite_request sn now req parsed st))"
proof -
  let ?A = "adds (one_granted sn now req st) (images_granted sn now req st) st"
  obtain r st1 where run: "session_op sn now req st = (r, st1)" by fastforce
  with session_quiet [where sn = sn and now = now and req = req and st = st] have same: "svSent st1 = svSent st" "svImages st1 = svImages st" "svEmbeds st1 = svEmbeds st"
    and session: "\<And>s. r = Inr (Some s) \<Longrightarrow> canUseSuite (asUser s) \<Longrightarrow> suite_session sn now req st" by auto
  have quiet: "?A st1" using same by (auto intro!: adds_nothing granted_nil)
  show ?thesis
  proof (cases "\<exists>s. r = Inr (Some s) \<and> canUseSuite (asUser s) \<and> \<not> stBare parsed")
    case False
    with run quiet show ?thesis
      by (cases r) (auto simp: suite_request_def bind_op_def return_op_def split: option.split)
  next
    case True
    then obtain s where s: "r = Inr (Some s)" "canUseSuite (asUser s)" "\<not> stBare parsed" by blast
    note live = session [OF s(1,2)]
    obtain f st2 where f: "findApp sn now (stId parsed) st1 = (Inr f, st2)"
      by (cases "findApp sn now (stId parsed) st1") (auto simp: findApp_def split: prod.splits)
    with findApp_quiet [of sn now "stId parsed" st1] same have same2: "svSent st2 = svSent st" "svImages st2 = svImages st" by simp_all
    have step: "suite_request sn now req parsed st = (case f of None \<Rightarrow> return_op (send_text 404 ''App nicht gefunden'')
        | Some a \<Rightarrow> if isExternalImagePath (stPathname parsed) then writeExternalImage sn (stSearch parsed)
            else forward_app sn req parsed a) st2"
      using run s f by (simp add: suite_request_def bind_op_def)
    show ?thesis
    proof (cases f)
      case None
      then show ?thesis using same2 by (auto simp: step return_op_def intro!: adds_nothing granted_nil)
    next
      case (Some app)
      with found_app [of sn now "stId parsed" st1 app st2] f same
      have app: "app \<in> set (fst (loadSuiteEmbedAppsCached (snApi sn) now (svEmbeds st)))" "saId app = stId parsed" by simp_all
      have images: "?A (snd (writeExternalImage sn search st2))" for search
      proof -
        from external_images [of sn st2 search] obtain us where
          "svSent (snd (writeExternalImage sn search st2)) = svSent st" "svImages (snd (writeExternalImage sn search st2)) = svImages st @ us"
          "few_images sn 4 us" using same2 by (auto simp: adds_def)
        then show ?thesis using live granted_nil(1)
          unfolding adds_def by (intro exI [of _ "[]"] exI [of _ us]) (simp add: images_granted_def)
      qed
      show ?thesis using images app_request(1) [OF live parsed app same2] Some by (simp add: step)
    qed
  qed
qed

lemma upgrade_adds: "adds (one_granted sn now req st) (\<lambda>us. us = []) st (snd (handleSuiteProxyUpgrade sn now req st))"
proof (cases "parseSuiteProxyUrl (nrUrl req)")
  case None
  then show ?thesis by (auto simp: handleSuiteProxyUpgrade_def return_op_def intro!: adds_nothing granted_nil)
next
  case (Some parsed)
  let ?A = "adds (one_granted sn now req st) (\<lambda>us. us = []) st"
  obtain r st1 where run: "session_op sn now req st = (r, st1)" by fastforce
  with session_quiet [where sn = sn and now = now and req = req and st = st] have same: "svSent st1 = svSent st" "svImages st1 = svImages st" "svEmbeds st1 = svEmbeds st"
    and session: "\<And>s. r = Inr (Some s) \<Longrightarrow> canUseSuite (asUser s) \<Longrightarrow> suite_session sn now req st" by auto
  have quiet: "?A st1" using same by (auto intro!: adds_nothing granted_nil)
  show ?thesis
  proof (cases "\<exists>s. r = Inr (Some s) \<and> canUseSuite (asUser s)")
    case False
    with run quiet Some show ?thesis
      by (cases r) (auto simp: handleSuiteProxyUpgrade_def op_defs split: option.split)
  next
    case True
    then obtain s where s: "r = Inr (Some s)" "canUseSuite (asUser s)" by blast
    obtain f st2 where f: "findApp sn now (stId parsed) st1 = (Inr f, st2)"
      by (cases "findApp sn now (stId parsed) st1") (auto simp: findApp_def split: prod.splits)
    with findApp_quiet [of sn now "stId parsed" st1] same have same2: "svSent st2 = svSent st" "svImages st2 = svImages st" by simp_all
    show ?thesis
    proof (cases f)
      case None
      then show ?thesis using run s f Some same2
        by (auto simp: handleSuiteProxyUpgrade_def op_defs intro!: adds_nothing granted_nil)
    next
      case (Some app)
      with found_app [of sn now "stId parsed" st1 app st2] f same
      have app: "app \<in> set (fst (loadSuiteEmbedAppsCached (snApi sn) now (svEmbeds st)))" "saId app = stId parsed" by simp_all
      have "snd (handleSuiteProxyUpgrade sn now req st) = snd (upgrade_app sn req parsed app st2)"
        using run s f \<open>parseSuiteProxyUrl (nrUrl req) = Some parsed\<close> Some
        by (simp add: handleSuiteProxyUpgrade_def catch_op_def bind_op_def return_op_def split: prod.split sum.split)
      with app_request(2) [OF session [OF s] \<open>parseSuiteProxyUrl (nrUrl req) = Some parsed\<close> app same2] show ?thesis by simp
    qed
  qed
qed

text \<open>
  C30: The proxy sends an application at most one request per request, for both plain requests and
  upgrades, and only when the cookie carries a live session of a user who may use the suite.  The
  request goes to an application of the list, to its address with the path after the mount, never
  back to Proxora; no cookie header in it names the session, and certificates go unchecked only
  where the list says so.  For images it makes at most four requests, each to an http or https
  address without credentials whose host is not blocked and has a name whose looked up address is
  not blocked either.
\<close>

theorem suite_requests_guarded:
  "adds (one_granted sn now req st) (images_granted sn now req st) st (snd (handleSuiteProxy sn now req st))
   \<and> adds (one_granted sn now req st) (\<lambda>us. us = []) st (snd (handleSuiteProxyUpgrade sn now req st))"
proof (cases "parseSuiteProxyUrl (nrUrl req)")
  case None
  then have "adds (one_granted sn now req st) (images_granted sn now req st) st (snd (handleSuiteProxy sn now req st))"
    by (auto simp: handleSuiteProxy_def return_op_def intro!: adds_nothing granted_nil)
  with upgrade_adds show ?thesis by simp
next
  case (Some parsed)
  then have "snd (handleSuiteProxy sn now req st) = snd (suite_request sn now req parsed st)"
    by (simp add: handleSuiteProxy_def catch_op_def bind_op_def return_op_def split: prod.split sum.split)
  with request_adds [OF Some] upgrade_adds show ?thesis by simp
qed

end
