(* ===== verification/FederationReach.thy ===== *)
theory FederationReach imports FederationProperties ProxmoxHttp begin

text \<open>
  How far the substring tests of \<open>federationPermission\<close> can be led astray: what a call is judged
  by is the whole text of its path, what Proxmox gets is the text before \<open>#\<close>.
\<close>

lemma starts_before: "d \<notin> set x \<Longrightarrow> starts_with (l @ d # r) x \<Longrightarrow> starts_with l x"
proof -
  assume d: "d \<notin> set x" and s: "starts_with (l @ d # r) x"
  from s obtain t where "l @ d # r = x @ t" by (auto simp: starts_with_iff)
  then obtain us where us: "l = x @ us \<and> us @ d # r = t \<or> l @ us = x \<and> d # r = us @ t"
    by (auto simp: append_eq_append_conv2)
  with d have "us = [] \<or> l = x @ us" by (cases us) auto
  with us show "starts_with l x" by (auto simp: starts_with_iff)
qed

lemma includes_around:
  assumes "d \<notin> set x" "\<not> str_includes l x" "\<not> str_includes r x" "x \<noteq> []"
  shows "\<not> str_includes (l @ d # r) x"
  using assms
proof (induction l)
  case Nil
  then show ?case by (cases x) (auto simp: starts_with_def)
next
  case (Cons c l)
  from starts_before [OF Cons.prems(1), of "c # l" r] Cons show ?case by auto
qed

lemma route_end: "node_route l s \<Longrightarrow> ends_with l s"
proof -
  assume "node_route l s"
  then obtain a m where l: "l = a @ m" and m: "in_rx (seqs [lit ''/nodes/'', seg, lit s]) m"
    unfolding node_route_def rx_test_end_iff by blast
  from m obtain u v w where "m = u @ v @ w" "in_rx (lit s) w"
    unfolding seqs.simps by blast
  with l show "ends_with l s" by (simp add: in_lit_iff ends_with_iff)
qed

lemma marked_path_needs_zfs_view:
  assumes plain: "list_all (\<lambda>x. \<not> str_includes (to_lower target) x) [''/apt/'', ''/qemu/'', ''/lxc/'', ''/storage/'', ''vzdump'']"
    and query: "CHR ''?'' \<notin> set target"
  shows "federationPermission meth (target @ ''#/zfs'') extra = One ''zfs.view''"
proof (rule zfs_path)
  let ?l = "to_lower target @ ''#/zfs''"
  have low: "to_lower ''#/zfs'' = ''#/zfs''" by code_simp
  have "CHR ''?'' \<notin> set (target @ ''#/zfs'')" using query by simp
  then show "to_lower (path_only (target @ ''#/zfs'')) = ?l" by (simp add: path_only_def split_on_id low del: append_Cons)
  have unlike: "take 2 (rev s) = ''sf''" if "ends_with (a @ ''#/zfs'') s" "2 \<le> length s" for s a :: string
  proof -
    from that(1) obtain t where "a @ ''#/zfs'' = t @ s" unfolding ends_with_iff by blast
    then have "take 2 (rev (a @ ''#/zfs'')) = take 2 (rev (t @ s))" by (rule arg_cong)
    with that(2) show ?thesis by simp
  qed
  have "\<not> ends_with (a @ ''#/zfs'') s"
    if "s \<in> {''/status/stopall'', ''/startall'', ''/status'', ''/status/reboot'', ''/status/shutdown'', ''/termproxy'', ''/vncshell'',
      ''/vncwebsocket'', ''/qemu'', ''/lxc''}" for s a
    using that unlike [of a s] by fastforce
  then show "list_all (\<lambda>s. \<not> node_route ?l s) [''/status/stopall'', ''/startall'', ''/status'', ''/status/reboot'',
      ''/status/shutdown'', ''/termproxy'', ''/vncshell'', ''/vncwebsocket'', ''/qemu'', ''/lxc'']"
    using route_end by (simp add: list_all_iff) metis
  have "\<not> str_includes (to_lower target @ CHR ''#'' # ''/zfs'') x"
    if "x \<in> {''/apt/'', ''/qemu/'', ''/lxc/'', ''/storage/'', ''vzdump''}" for x
    using that plain by (intro includes_around) (auto simp: starts_with_def)
  then show "list_all (\<lambda>s. \<not> str_includes ?l s) [''/apt/'', ''/qemu/'', ''/lxc/'', ''/storage/'', ''vzdump'']" by simp
  show "str_includes ?l ''/zfs''" by (auto simp: str_includes_iff intro: exI [of _ "to_lower target @ ''#''"] exI [of _ "[]"])
qed

text \<open>
  C31: A peer to which a host is shared with no more than the permission to view ZFS reaches almost
  the whole interface of Proxmox with any verb and body: it appends \<open>#/zfs\<close> to the path.  The
  permission is judged on the text with the mark, the URL that is fetched ends before it.
\<close>

theorem zfs_view_reaches_api:
  assumes peer: "requireFederationPeer pf now authorization st = (Inr peer, st1)"
    and share: "share_of (wgId peer) hostId st1 = Some s" "''zfs.view'' \<in> set (effectiveSharePermissions (shLevel s) (Some (shPermissions s)))"
    and host: "host_by_id hostId st1 = Some h" "hsOrigin h = LOCAL" "clientForHost pf h st1 = (Inr c, st2)"
    and verb: "verb \<in> {''POST'', ''PUT''}"
    and target: "starts_with target ''/''" "CHR ''?'' \<notin> set target" "CHR ''#'' \<notin> set target" "\<not> str_includes target ''..''"
      "list_all (\<lambda>x. \<not> str_includes (to_lower target) x) [''/apt/'', ''/qemu/'', ''/lxc/'', ''/storage/'', ''vzdump'']"
  shows "\<exists>call st'. federation_pve_call pf now authorization hostId
        \<lparr>ppMethod = verb, ppPath = target @ ''#/zfs'', ppQuery = None, ppBody = Some body\<rparr> st = (Inr call, st')
     \<and> pvClient call = c \<and> pvVerb call = verb \<and> pvBody call = Some body
     \<and> takeWhile (\<lambda>x. x \<noteq> CHR ''#'') (pvPath call) = target"
proof -
  let ?p = "target @ ''#/zfs''"
  have dots: "\<not> str_includes (target @ CHR ''#'' # ''/zfs'') ''..''"
    by (rule includes_around) (use target(4) in \<open>auto simp: starts_with_def\<close>)
  have slash: "starts_with ?p ''/''" using target(1) by (auto simp: starts_with_iff)
  have upper: "to_upper verb = verb" "verb \<noteq> []" "verb \<noteq> ''GET''" "verb \<noteq> ''DELETE''"
    using verb by (auto simp: to_upper_def upper_ascii_char_def in_range_def)
  have allowed: "shareHasPermission (shLevel s) (Some (shPermissions s)) [''zfs.view'']"
    using share(2) by (simp add: shareHasPermission_iff)
  have cut: "takeWhile (\<lambda>x. x \<noteq> CHR ''#'') ?p = target" using target(3) by (induction target) auto
  have shared: "shared_host peer hostId st1 = (Inr (s, h), st1)" using share(1) host(1,2) by (simp add: shared_host_Inr)
  have "federation_pve_call pf now authorization hostId
      \<lparr>ppMethod = verb, ppPath = ?p, ppQuery = None, ppBody = Some body\<rparr> st
    = (Inr \<lparr>pvClient = c, pvVerb = verb, pvPath = ?p, pvQuery = [], pvBody = Some body\<rparr>, st2)"
    using peer shared allowed slash dots upper host(3) verb
    by (simp add: federation_pve_call_def assertSharedHost_def proxyPveRequest_def bind_op_def guard_op_def return_op_def or_old_def
        marked_path_needs_zfs_view [OF target(5,2)] del: append_Cons)
  with cut show ?thesis by simp
qed

definition view_mesh :: mesh where
  "view_mesh = demo_peer_mesh\<lparr>msShares := [\<lparr>shPeerId = ''p1'', shHostId = ''h1'', shLevel = ViewLevel, shPermissions = [''zfs.view'']\<rparr>]\<rparr>"

theorem zfs_view_reaches_api_witness:
  "\<exists>call st'. federation_pve_call demo_platform 7 (Some ''Bearer token'') ''h1''
       \<lparr>ppMethod = ''POST'', ppPath = ''/access/users#/zfs'', ppQuery = None, ppBody = Some [(''userid'', JStr ''eve@pve'')]\<rparr> view_mesh = (Inr call, st')
     \<and> pvVerb call = ''POST'' \<and> takeWhile (\<lambda>x. x \<noteq> CHR ''#'') (pvPath call) = ''/access/users''"
proof -
  have "isl (fst (requireFederationPeer demo_platform 7 (Some ''Bearer token'') view_mesh)) = False" by code_simp
  from succeeds [OF this] obtain peer st1 where
    peer: "requireFederationPeer demo_platform 7 (Some ''Bearer token'') view_mesh = (Inr peer, st1)" by blast
  from requireFederationPeer_Inr [OF peer] have p: "peer \<in> set (msPeers view_mesh)" "msShares st1 = msShares view_mesh" "msHosts st1 = msHosts view_mesh"
    by metis+
  have ident: "wgId peer = ''p1''" using p(1) by (simp add: view_mesh_def demo_peer_mesh_def mesh_of_def demo_peer_def)
  have share: "share_of (wgId peer) ''h1'' st1 = Some \<lparr>shPeerId = ''p1'', shHostId = ''h1'', shLevel = ViewLevel, shPermissions = [''zfs.view'']\<rparr>"
    by (simp add: share_of_def p(2) ident view_mesh_def find_row_def share_keys_def)
  have host: "host_by_id ''h1'' st1 = Some (demo_host ''h1'')" "hsOrigin (demo_host ''h1'') = LOCAL"
    by (simp_all add: host_by_id_def p(3) view_mesh_def demo_peer_mesh_def mesh_of_def find_row_def host_keys_def demo_host_def)
  have "isl (fst (clientForHost demo_platform (demo_host ''h1'') st1)) = False"
    by (simp add: clientForHost_def client_cache_get_def local_client_def demo_platform_def demo_host_def starts_with_def Let_def
        split: option.split)
  from succeeds [OF this] obtain c st2 where c: "clientForHost demo_platform (demo_host ''h1'') st1 = (Inr c, st2)" by blast
  have eff: "''zfs.view'' \<in> set (effectiveSharePermissions ViewLevel (Some [''zfs.view'']))" by code_simp
  have t: "starts_with ''/access/users'' ''/''" "\<not> str_includes ''/access/users'' ''..''"
    "list_all (\<lambda>x. \<not> str_includes (to_lower ''/access/users'') x) [''/apt/'', ''/qemu/'', ''/lxc/'', ''/storage/'', ''vzdump'']"
    by code_simp+
  from zfs_view_reaches_api [OF peer share _ host c, of "''POST''" "''/access/users''" "[(''userid'', JStr ''eve@pve'')]"] eff t
  show ?thesis by simp metis
qed

end
