(* ===== verification/Consoles.thy ===== *)
theory Consoles imports ProxmoxApi FederationService SuiteProxy FileRoutes GuestActions begin

text \<open>
  How a console is opened: \<^verbatim>\<open>handleConnection\<close> of \<^verbatim>\<open>server/ws/console-proxy.ts\<close>, the console
  of a peer in \<^verbatim>\<open>server/ws/federation-ws.ts\<close>, \<^verbatim>\<open>lib/guest-console.ts\<close>,
  \<^verbatim>\<open>lib/host-console.ts\<close> and \<^verbatim>\<open>lib/vnc-password.ts\<close>.  The URL class is a parameter:
  \<open>weUrl\<close> parses the address of the request, \<open>weParams\<close> is \<open>searchParams\<close>.  The page is
  connected while its console is being opened; what flows afterwards is in the theories of the pipes.
\<close>

section \<open>Displays and messages\<close>

definition first_part :: "string \<Rightarrow> string" where
  "first_part s = hd (split_on CHR '','' s)"

definition text_or :: "string \<Rightarrow> js \<Rightarrow> string" where
  "text_or d v = (if nullish v then d else js_string v)"

definition vmHasGraphics :: "js \<Rightarrow> bool" where
  "vmHasGraphics vga \<longleftrightarrow> to_lower (trim (first_part (text_or [] vga))) \<noteq> ''none''"

definition vmHasSerialSocket :: "js \<Rightarrow> bool" where
  "vmHasSerialSocket serial0 =
     (let raw = to_lower (trim (text_or [] serial0)) in raw = ''socket'' \<or> starts_with raw ''socket,'')"

definition isTermproxySerialError :: "string \<Rightarrow> bool" where
  "isTermproxySerialError t \<longleftrightarrow> str_includes (to_lower t) ''unable to find a serial interface''"

definition vmHasTablet :: "js \<Rightarrow> bool" where
  "vmHasTablet tablet \<longleftrightarrow> to_lower (trim (text_or ''1'' tablet)) \<notin> {''0'', ''false'', ''no'', ''off''}"

definition pickHostConsoleNode :: "(string \<times> string option) list \<Rightarrow> string option \<Rightarrow> string option" where
  "pickHostConsoleNode nodes requested =
     (let names = filter (\<lambda>n. n \<noteq> []) (map fst nodes) in
      if names = [] then None
      else if truthy requested \<and> the requested \<in> set names then requested
      else (case find (\<lambda>(n, online). online = Some ''online'' \<and> n \<noteq> []) nodes of
          Some (n, _) \<Rightarrow> Some n | None \<Rightarrow> Some (hd names)))"

text \<open>\<open>\bword\b\<close>: the flag says whether a word character stands before.\<close>

fun whole_word :: "string \<Rightarrow> bool \<Rightarrow> string \<Rightarrow> bool" where
  "whole_word w after [] \<longleftrightarrow> False"
| "whole_word w after (c # s) \<longleftrightarrow>
     (\<not> after \<and> starts_with (c # s) w
        \<and> (case drop (length w) (c # s) of [] \<Rightarrow> True | d # _ \<Rightarrow> \<not> js_word_char d))
     \<or> whole_word w (js_word_char c) s"

definition isHostConsolePermissionError :: "string \<Rightarrow> bool" where
  "isHostConsolePermissionError message =
     (let low = to_lower message in
      str_includes low ''permission'' \<or> str_includes low ''forbidden'' \<or> str_includes low ''sys.console'' \<or> whole_word ''403'' False low)"

datatype console_kind = NodeConsole | GuestConsole guest_kind

datatype console_error = ErrorKey string | ErrorMessage string

definition consoleProxyErrorDetail :: "console_kind \<Rightarrow> string option \<Rightarrow> string option \<Rightarrow> console_error" where
  "consoleProxyErrorDetail kind code message =
     (let m = trim (case message of None \<Rightarrow> [] | Some t \<Rightarrow> t) in
      if code = Some ''no-serial'' then ErrorKey ''guest.consoleSerialMissing''
      else if kind = NodeConsole \<and> isHostConsolePermissionError m then ErrorKey ''hosts.terminalPermission''
      else ErrorMessage m)"

section \<open>Tickets\<close>

definition not_text :: js_error where
  "not_text = OtherError ''is not a function''"

definition prop_of :: "js \<Rightarrow> string \<Rightarrow> js_error + js" where
  "prop_of v k = (if nullish v then Inl no_property else Inr (js_field v k))"

definition ticket_start :: "js \<Rightarrow> js_error + string" where
  "ticket_start ticket =
     (case ticket of JStr s \<Rightarrow> Inr (take 8 s) | _ \<Rightarrow> Inl (if nullish ticket then no_property else not_text))"

definition rfbPasswordFromVncProxy :: "js \<Rightarrow> js_error + string" where
  "rfbPasswordFromVncProxy term =
     (case prop_of term ''password'' of Inl e \<Rightarrow> Inl e
      | Inr (JStr p) \<Rightarrow> (if trim p \<noteq> [] then Inr (take 8 (trim p)) else ticket_start (js_field term ''ticket''))
      | Inr v \<Rightarrow> if nullish v then ticket_start (js_field term ''ticket'') else Inl not_text)"

section \<open>The address of the socket\<close>

record ws_env =
  weUrl :: "string \<Rightarrow> web_url option"
  weParams :: "string \<Rightarrow> url_params"
  weApi :: url_api

definition userinfo :: "web_url \<Rightarrow> string" where
  "userinfo u =
     (if \<not> has_credentials u then []
      else wuUsername u @ (if wuPassword u = [] then [] else CHR '':'' # wuPassword u) @ ''@'')"

definition ws_href :: "web_url \<Rightarrow> string" where
  "ws_href u =
     (if wuProtocol u = ''https:'' then ''wss://'' else ''ws://'') @ userinfo u @ url_host u @ wuPathname u @ wuSearch u @ wuHash u"

definition bad_url :: js_error where
  "bad_url = OtherError ''Invalid URL''"

definition resolved_url :: "url_api \<Rightarrow> string \<Rightarrow> string \<Rightarrow> js_error + web_url" where
  "resolved_url api address base =
     (case upNew api base of None \<Rightarrow> Inl bad_url
      | Some b \<Rightarrow> (case upResolve api address b of None \<Rightarrow> Inl bad_url | Some u \<Rightarrow> Inr u))"

definition websocketUrl :: "ws_env \<Rightarrow> proxmox_config \<Rightarrow> string \<Rightarrow> js_record \<Rightarrow> js_error + string" where
  "websocketUrl we c path query =
     (case pcFederation c of
        Some fed \<Rightarrow>
          map_sum id (\<lambda>u. ws_href (u\<lparr>wuSearch := CHR ''?'' # params_text
              (search_params query [(''remoteHostId'', ftRemoteHostId fed), (''path'', path)])\<rparr>))
            (resolved_url (weApi we) ''/api/federation/ws'' (ftBaseUrl fed))
      | None \<Rightarrow>
          map_sum id ws_href (resolved_url (weApi we) (''/api2/json'' @ path @ toSearch (Some query)) (normalizeBaseUrl (pcUrl c))))"

section \<open>What a page asks for\<close>

record console_query =
  cqHostId :: string
  cqNode :: string
  cqKind :: console_kind
  cqVmid :: "string option"
  cqCols :: jsnum
  cqRows :: jsnum
  cqUpgrade :: bool
  cqVga :: bool

definition param_or :: "string \<Rightarrow> url_params \<Rightarrow> string \<Rightarrow> string" where
  "param_or d ps k = (case map_of ps k of None \<Rightarrow> d | Some v \<Rightarrow> v)"

definition guest_number :: "string option \<Rightarrow> bool" where
  "guest_number vmid =
     (case vmid of None \<Rightarrow> False
      | Some v \<Rightarrow> v \<noteq> [] \<and> (case toNumber v of Fin r \<Rightarrow> of_int (floor r) = r \<and> 1 \<le> r | _ \<Rightarrow> False))"

type_synonym ws_close = "nat \<times> string"

definition console_kind_of :: "string \<Rightarrow> console_kind option" where
  "console_kind_of raw =
     (if raw = ''node'' then Some NodeConsole else if raw = ''vm'' then Some (GuestConsole VM)
      else if raw = ''lxc'' then Some (GuestConsole LXC) else None)"

definition console_query_of :: "web_url \<Rightarrow> url_params \<Rightarrow> ws_close + console_query" where
  "console_query_of url ps =
     (case console_kind_of (param_or ''node'' ps ''kind'') of None \<Rightarrow> Inl (4400, ''Invalid console kind'')
      | Some kind \<Rightarrow>
          (let vmid = map_of ps ''vmid''; cmd = param_or [] ps ''cmd'';
               vga = (ends_with (wuPathname url) ''/vnc'' \<or> map_of ps ''display'' = Some ''vga'') in
           if cmd \<noteq> [] \<and> (kind \<noteq> NodeConsole \<or> cmd \<noteq> ''upgrade'') then Inl (4400, ''Invalid console command'')
           else if vga \<and> kind \<noteq> GuestConsole VM then Inl (4400, ''VGA console is only available for VMs'')
           else if kind \<noteq> NodeConsole \<and> \<not> guest_number vmid then Inl (4400, ''Invalid vmid'')
           else Inr \<lparr>cqHostId = param_or [] ps ''hostId'', cqNode = param_or [] ps ''node'', cqKind = kind, cqVmid = vmid,
                  cqCols = toNumber (param_or ''80'' ps ''cols''), cqRows = toNumber (param_or ''24'' ps ''rows''),
                  cqUpgrade = (cmd = ''upgrade''), cqVga = vga\<rparr>))"

definition console_permission :: "console_query \<Rightarrow> string" where
  "console_permission q =
     (if cqUpgrade q then ''updates.upgrade''
      else case cqKind q of NodeConsole \<Rightarrow> ''hosts.console'' | GuestConsole VM \<Rightarrow> ''vm.console'' | GuestConsole LXC \<Rightarrow> ''lxc.console'')"

definition guest_vmid :: "console_query \<Rightarrow> int" where
  "guest_vmid q = num_int (toNumber (case cqVmid q of None \<Rightarrow> [] | Some v \<Rightarrow> v))"

definition console_guest :: "console_query \<Rightarrow> guest_ref option" where
  "console_guest q =
     (case cqKind q of NodeConsole \<Rightarrow> None | GuestConsole k \<Rightarrow> Some (guest_ref_of (cqHostId q) k (guest_vmid q)))"

section \<open>Opening\<close>

text \<open>A console that is open: the socket to Proxmox and the pipe that was started.\<close>

datatype console_pipe =
    VncPipe "string option" string
  | TermPipe js jsnum jsnum
  | PeerPipe

record open_console =
  ocUrl :: string
  ocHeaders :: http_headers
  ocInsecure :: bool
  ocPipe :: console_pipe

text \<open>Either the messages for the page with the code and reason of the close, or the open console.\<close>

datatype console_result = Refused "js list" nat string | Opened open_console

definition refuse_op :: "js list \<Rightarrow> nat \<Rightarrow> string \<Rightarrow> console_result mesh_op" where
  "refuse_op ms code reason = return_op (Refused ms code reason)"

definition status_error :: "string \<Rightarrow> js_record \<Rightarrow> js" where
  "status_error message rest =
     JObj ([(''type'', JStr ''status''), (''status'', JStr ''error''), (''message'', JStr message)] @ rest)"

definition sendBrowserError :: "string \<Rightarrow> string \<Rightarrow> js" where
  "sendBrowserError message code = status_error message [(''code'', JStr code)]"

definition console_session :: "platform \<Rightarrow> int \<Rightarrow> node_request \<Rightarrow> auth_session option mesh_op" where
  "console_session pf now req st =
     (case cookieValue req SESSION_COOKIE of Inl e \<Rightarrow> (Inl e, st)
      | Inr token \<Rightarrow>
          (case getSessionFromToken pf now token (msServer st) of (found, srv) \<Rightarrow> (Inr found, st\<lparr>msServer := srv\<rparr>)))"

definition openVmVncProxy :: "px_env \<Rightarrow> proxmox_config \<Rightarrow> string \<Rightarrow> int \<Rightarrow> js mesh_op" where
  "openVmVncProxy x c node vmid =
     catch_op (vms_vncproxy x c node vmid [(''generate-password'', JNum (Fin 1))]) (\<lambda>_. vms_vncproxy x c node vmid [])"

definition console_term :: "px_env \<Rightarrow> proxmox_config \<Rightarrow> console_query \<Rightarrow> js mesh_op" where
  "console_term x c q =
     (if cqVga q then openVmVncProxy x c (cqNode q) (guest_vmid q)
      else case cqKind q of
        NodeConsole \<Rightarrow> nodes_termproxy x c (cqNode q) (if cqUpgrade q then Some [(''cmd'', JStr ''upgrade'')] else None)
      | GuestConsole VM \<Rightarrow> vms_termproxy x c (cqNode q) (guest_vmid q)
      | GuestConsole LXC \<Rightarrow> lxc_termproxy x c (cqNode q) (guest_vmid q))"

definition socket_path :: "console_query \<Rightarrow> string" where
  "socket_path q =
     node_path (cqNode q)
       (case cqKind q of NodeConsole \<Rightarrow> ''/vncwebsocket''
        | GuestConsole k \<Rightarrow> (if k = VM then ''/qemu/'' else ''/lxc/'') @ (case cqVmid q of None \<Rightarrow> [] | Some v \<Rightarrow> v) @ ''/vncwebsocket'')"

definition console_pipe_of :: "console_query \<Rightarrow> js \<Rightarrow> js_error + console_pipe" where
  "console_pipe_of q term =
     (if cqVga q
      then map_sum id (\<lambda>password.
             VncPipe (if password \<noteq> [] then None
               else Some (js_string (js_field term ''user'') @ '':'' @ js_string (js_field term ''ticket'') @ [CHR 10])) password)
           (rfbPasswordFromVncProxy term)
      else Inr (TermPipe term (cqCols q) (cqRows q)))"

definition connect_console :: "ws_env \<Rightarrow> px_env \<Rightarrow> proxmox_config \<Rightarrow> host_row \<Rightarrow> console_query \<Rightarrow> open_console mesh_op" where
  "connect_console we x c h q =
     bind_op (console_term x c q) (\<lambda>term.
     bind_op (lift_op (prop_of term ''port'')) (\<lambda>port.
     bind_op (lift_op (websocketUrl we c (socket_path q) [(''port'', port), (''vncticket'', js_field term ''ticket'')])) (\<lambda>url.
     bind_op (authHeaders x c) (\<lambda>headers.
     bind_op (lift_op (console_pipe_of q term)) (\<lambda>pipe.
     return_op \<lparr>ocUrl = url, ocHeaders = headers, ocInsecure = hsAllowInsecureTls h, ocPipe = pipe\<rparr>)))))"

text \<open>The check of the configuration; \<open>None\<close> lets the console pass.\<close>

definition vm_refusal :: "px_env \<Rightarrow> proxmox_config \<Rightarrow> console_query \<Rightarrow> console_result option mesh_op" where
  "vm_refusal x c q =
     (if cqKind q \<noteq> GuestConsole VM then return_op None
      else bind_op (catch_op (bind_op (vms_config x c (cqNode q) (guest_vmid q)) (\<lambda>cfg. return_op (Some cfg))) (\<lambda>_. return_op None)) (\<lambda>found.
        case found of
          None \<Rightarrow> return_op (Some (Refused [sendBrowserError ''Could not read VM config for the console.'' ''config''] 1011 ''VM config unavailable''))
        | Some cfg \<Rightarrow>
            bind_op (lift_op (prop_of cfg (if cqVga q then ''vga'' else ''serial0''))) (\<lambda>setting.
            return_op
              (if cqVga q \<and> \<not> vmHasGraphics setting
               then Some (Refused [sendBrowserError ''This VM has no display (vga=none). Use serial or set VGA in the config.'' ''no-vga'']
                       4400 ''VM has no VGA'')
               else if \<not> cqVga q \<and> \<not> vmHasSerialSocket setting
               then Some (Refused [sendBrowserError
                       ''This VM has no serial socket (serial0=socket). Add it in the VM config, then open serial again.'' ''no-serial'']
                       4400 ''No serial interface'')
               else None))))"

definition kind_name :: "console_kind \<Rightarrow> string" where
  "kind_name k = (case k of NodeConsole \<Rightarrow> ''node'' | GuestConsole VM \<Rightarrow> ''vm'' | GuestConsole LXC \<Rightarrow> ''lxc'')"

definition console_target :: "console_query \<Rightarrow> string" where
  "console_target q =
     kind_name (cqKind q) @ '':'' @ (if cqVga q then ''vga'' else ''serial'') @ '':'' @ cqNode q @ '':''
       @ (case cqVmid q of None \<Rightarrow> [] | Some v \<Rightarrow> v)"

definition share_refuses :: "host_row \<Rightarrow> string \<Rightarrow> bool" where
  "share_refuses h permission \<longleftrightarrow>
     hsOrigin h = PEER
     \<and> \<not> shareHasPermission (case hsShareLevel h of None \<Rightarrow> ViewLevel | Some l \<Rightarrow> l) (Some (hsSharePermissions h)) [permission]"

definition guest_refuses :: "session_user \<Rightarrow> console_query \<Rightarrow> bool" where
  "guest_refuses user q \<longleftrightarrow>
     (case cqKind q of NodeConsole \<Rightarrow> False
      | GuestConsole k \<Rightarrow> (case assertGuestAccess user (cqHostId q) k (guest_vmid q) of Inl _ \<Rightarrow> True | Inr _ \<Rightarrow> False))"

definition console_for :: "ws_env \<Rightarrow> px_env \<Rightarrow> platform \<Rightarrow> session_user \<Rightarrow> console_query \<Rightarrow> console_result mesh_op" where
  "console_for we x pf user q =
     bind_op (read_op (host_by_id (cqHostId q))) (\<lambda>found.
     case found of None \<Rightarrow> refuse_op [] 4404 ''Host not found''
     | Some h \<Rightarrow>
         if \<not> canAccessHost user (cqHostId q) then refuse_op [] 4404 ''Host not found''
         else if share_refuses h (console_permission q) then refuse_op [] 4403 ''Forbidden''
         else if guest_refuses user q then refuse_op [] 4404 ''Guest not found''
         else
           bind_op (clientForHost pf h) (\<lambda>c.
           bind_op (vm_refusal x c q) (\<lambda>refused.
           case refused of Some r \<Rightarrow> return_op r
           | None \<Rightarrow>
               bind_op (connect_console we x c h q) (\<lambda>opened.
               bind_op (audit_guest user (hsId h) ''CONSOLE_OPENED'' (console_target q)) (\<lambda>_.
               return_op (Opened opened))))))"

definition openConsole :: "ws_env \<Rightarrow> px_env \<Rightarrow> platform \<Rightarrow> int \<Rightarrow> node_request \<Rightarrow> console_query \<Rightarrow> console_result mesh_op" where
  "openConsole we x pf now req q =
     bind_op (console_session pf now req) (\<lambda>found.
     case found of None \<Rightarrow> refuse_op [] 4401 ''Unauthorized''
     | Some session \<Rightarrow>
         if \<not> userHasPermission (Some (holder_of (asUser session))) (console_permission q) (Some (cqHostId q)) (console_guest q)
         then refuse_op [] 4403 ''Forbidden''
         else catch_op (console_for we x pf (asUser session) q)
           (\<lambda>e. refuse_op [status_error (error_message e) []] 1011 ''Failed to open console''))"

section \<open>The console of a peer\<close>

definition ws_bearer :: "node_request \<Rightarrow> string" where
  "ws_bearer req = (case bearerToken (map_of (nrHeaders req) ''authorization'') of Inl _ \<Rightarrow> [] | Inr t \<Rightarrow> t)"

text \<open>The class of an error is its code.\<close>

definition ws_code :: "js_error \<Rightarrow> nat" where
  "ws_code e =
     (case e of
        AppError _ _ code \<Rightarrow>
          (if code = ''UNAUTHORIZED'' then 4401 else if code = ''FORBIDDEN'' then 4403 else if code = ''NOT_FOUND'' then 4404 else 1011)
      | _ \<Rightarrow> 1011)"

definition ws_query :: "url_params \<Rightarrow> (string \<times> string) list" where
  "ws_query ps = fold (\<lambda>(k, v) q. if k = ''remoteHostId'' \<or> k = ''path'' then q else AList.update k v q) ps []"

definition pipeFederationWebsocket :: "ws_env \<Rightarrow> px_env \<Rightarrow> platform \<Rightarrow> node_request \<Rightarrow> url_params \<Rightarrow> open_console mesh_op" where
  "pipeFederationWebsocket we x pf req ps =
     bind_op (read_op (findPeerByInboundToken pf (ws_bearer req))) (\<lambda>found.
     bind_op (need_op (UnauthorizedError ''Unknown federation peer'')
       (case found of None \<Rightarrow> None | Some p \<Rightarrow> if wgKind p = PROXORA then Some p else None)) (\<lambda>peer.
     let hostId = param_or [] ps ''remoteHostId''; path = param_or [] ps ''path''; query = ws_query ps in
     bind_op (guard_op (hostId \<noteq> [] \<and> starts_with path ''/'') (ForbiddenError ''Invalid federation websocket'')) (\<lambda>_.
     bind_op (assertSharedHost peer hostId ''GET'' path (Some \<lparr>exQuery = Some query, exBody = None\<rparr>)) (\<lambda>h.
     bind_op (clientForHost pf h) (\<lambda>c.
     bind_op (lift_op (websocketUrl we c path (map (\<lambda>(k, v). (k, JStr v)) query))) (\<lambda>url.
     bind_op (authHeaders x c) (\<lambda>headers.
     return_op \<lparr>ocUrl = url, ocHeaders = headers, ocInsecure = hsAllowInsecureTls h, ocPipe = PeerPipe\<rparr>)))))))"

definition handleFederationWebsocket :: "ws_env \<Rightarrow> px_env \<Rightarrow> platform \<Rightarrow> node_request \<Rightarrow> url_params \<Rightarrow> console_result mesh_op" where
  "handleFederationWebsocket we x pf req ps =
     catch_op (bind_op (pipeFederationWebsocket we x pf req ps) (\<lambda>c. return_op (Opened c)))
       (\<lambda>e. refuse_op [] (ws_code e) (take 80 (error_message e)))"

section \<open>A connection\<close>

text \<open>Errors before \<open>openConsole\<close> catches them are rejections nobody handles.\<close>

definition handleConnection :: "ws_env \<Rightarrow> px_env \<Rightarrow> platform \<Rightarrow> int \<Rightarrow> node_request \<Rightarrow> console_result mesh_op" where
  "handleConnection we x pf now req =
     bind_op (need_op bad_url (weUrl we (nrUrl req))) (\<lambda>url.
     let ps = weParams we (wuSearch url) in
     if wuPathname url = ''/api/federation/ws'' then handleFederationWebsocket we x pf req ps
     else case console_query_of url ps of
         Inl (code, reason) \<Rightarrow> refuse_op [] code reason
       | Inr q \<Rightarrow> openConsole we x pf now req q)"

end
