(* ===== verification/ConsoleProperties.thy ===== *)
theory ConsoleProperties imports Consoles BackupProperties begin

text \<open>
  Who gets a console, and what opening one asks of Proxmox.
\<close>

section \<open>Requests of a console\<close>

definition console_calls :: "console_query \<Rightarrow> (string \<times> string) list" where
  "console_calls q =
     (let node = cqNode q; v = guest_vmid q in
      case cqKind q of
        NodeConsole \<Rightarrow> [(''POST'', node_path node ''/termproxy'')]
      | GuestConsole VM \<Rightarrow> [(''GET'', qemu_path node v ''/config''), (''POST'', qemu_path node v (if cqVga q then ''/vncproxy'' else ''/termproxy''))]
      | GuestConsole LXC \<Rightarrow> [(''POST'', ct_path node v ''/termproxy'')])"

definition console_request :: "platform \<Rightarrow> console_query \<Rightarrow> px_call \<Rightarrow> bool" where
  "console_request pf q call \<longleftrightarrow> client_of pf (cqHostId q) (pxClient call) \<and> (pxVerb call, pxPath call) \<in> set (console_calls q)"

lemma console_sends:
  "client_of pf (cqHostId q) c \<Longrightarrow> (verb, path) \<in> set (console_calls q) \<Longrightarrow>
     console_request pf q \<lparr>pxClient = c, pxVerb = verb, pxPath = path, pxQuery = qu, pxBody = bd, pxTimeout = t\<rparr>"
  by (simp add: console_request_def)

lemma query_vga: "console_query_of url ps = Inr q \<Longrightarrow> cqVga q \<Longrightarrow> cqKind q = GuestConsole VM"
  by (auto simp: console_query_of_def Let_def split: option.splits if_splits)

lemma sent_refusal:
  assumes "client_of pf (cqHostId q) c"
  shows "preserves (sent_only (console_request pf q) base) (vm_refusal x c q)"
proof (cases "cqKind q = GuestConsole VM")
  case True
  have "preserves (sent_only (console_request pf q) base) (vms_config x c (cqNode q) (guest_vmid q))"
    unfolding vms_config_def by (intro sent_verbs console_sends [OF assms]) (simp add: console_calls_def Let_def True)
  then show ?thesis unfolding vm_refusal_def by (intro preserve_intros)
qed (simp add: vm_refusal_def preserves_return)

lemma sent_term:
  assumes "client_of pf (cqHostId q) c" "cqVga q \<Longrightarrow> cqKind q = GuestConsole VM"
  shows "preserves (sent_only (console_request pf q) base) (console_term x c q)"
proof (cases "cqVga q")
  case True
  have "preserves (sent_only (console_request pf q) base) (vms_vncproxy x c (cqNode q) (guest_vmid q) extra)" for extra
    unfolding vms_vncproxy_def by (intro sent_verbs console_sends [OF assms(1)]) (use assms(2) True in \<open>simp add: console_calls_def Let_def\<close>)
  then show ?thesis unfolding console_term_def openVmVncProxy_def by (simp add: True preserves_catch)
next
  case False
  then show ?thesis
    unfolding console_term_def nodes_termproxy_def vms_termproxy_def lxc_termproxy_def
    by (auto split: console_kind.split guest_kind.split intro!: sent_verbs console_sends [OF assms(1)] simp: console_calls_def Let_def)
qed

lemma quiet_authHeaders [preserve_intros]: "preserves (sent_only P base) (authHeaders x c)"
proof -
  have "preserves (sent_only P base) (\<lambda>st. (pxLogin x (wrSent (msWire st)) c, st))" by (simp add: preserves_def)
  then show ?thesis unfolding authHeaders_def by (intro preserve_intros)
qed

lemma sent_connect:
  assumes "client_of pf (cqHostId q) c" "cqVga q \<Longrightarrow> cqKind q = GuestConsole VM"
  shows "preserves (sent_only (console_request pf q) base) (connect_console we x c h q)"
  unfolding connect_console_def by (intro preserve_intros sent_term [OF assms])

section \<open>Who may\<close>

definition console_allowed :: "session_user \<Rightarrow> console_query \<Rightarrow> host_row \<Rightarrow> bool" where
  "console_allowed user q h \<longleftrightarrow>
     userHasPermission (Some (holder_of user)) (console_permission q) (Some (cqHostId q)) (console_guest q)
     \<and> canAccessHost user (cqHostId q) \<and> \<not> share_refuses h (console_permission q)
     \<and> (case cqKind q of NodeConsole \<Rightarrow> True | GuestConsole k \<Rightarrow> canAccessGuest user (cqHostId q) k (guest_vmid q))"

lemma guest_refuses_iff:
  "\<not> guest_refuses user q \<longleftrightarrow>
     (case cqKind q of NodeConsole \<Rightarrow> True | GuestConsole k \<Rightarrow> canAccessGuest user (cqHostId q) k (guest_vmid q))"
  by (auto simp: guest_refuses_def assertGuestAccess_def split: console_kind.split)

text \<open>The console of an allowed user on a host that exists, and the refusal of everyone else.\<close>

definition console_passes :: "session_user \<Rightarrow> console_query \<Rightarrow> mesh \<Rightarrow> bool" where
  "console_passes user q st \<longleftrightarrow> (case host_by_id (cqHostId q) st of None \<Rightarrow> False | Some h \<Rightarrow> console_allowed user q h)"

definition session_passes :: "platform \<Rightarrow> int \<Rightarrow> node_request \<Rightarrow> console_query \<Rightarrow> mesh \<Rightarrow> bool" where
  "session_passes pf now req q st \<longleftrightarrow>
     (case console_session pf now req st of
        (Inr (Some session), st1) \<Rightarrow> console_passes (asUser session) q st
      | _ \<Rightarrow> False)"

lemma console_for_refused:
  assumes "userHasPermission (Some (holder_of user)) (console_permission q) (Some (cqHostId q)) (console_guest q)"
    and "\<not> console_passes user q st"
  shows "\<exists>code reason. console_for we x pf user q st = (Inr (Refused [] code reason), st)"
  using assms guest_refuses_iff [of user q]
  by (auto simp: console_for_def console_passes_def console_allowed_def op_defs refuse_op_def split: option.splits)

lemma console_for_sends:
  assumes "cqVga q \<Longrightarrow> cqKind q = GuestConsole VM" "console_for we x pf user q st = (r, st')"
  shows "sent_only (console_request pf q) (sent_calls st) st'"
proof -
  have own: "sent_only (console_request pf q) (sent_calls st)
      (snd (bind_op (clientForHost pf h) (\<lambda>c. bind_op (vm_refusal x c q) (\<lambda>refused.
         case refused of Some r \<Rightarrow> return_op r
         | None \<Rightarrow> bind_op (connect_console we x c h q) (\<lambda>opened.
             bind_op (audit_guest user (hsId h) ''CONSOLE_OPENED'' (console_target q)) (\<lambda>_. return_op (Opened opened))))) st))"
    if "host_by_id (cqHostId q) st = Some h" for h
  proof (cases "clientForHost pf h st")
    case (Pair c st1)
    have sent: "sent_only (console_request pf q) (sent_calls st) st1"
      using preservesD [OF quiet_client sent_only_self, of "console_request pf q" st pf h] Pair by simp
    show ?thesis
    proof (cases c)
      case (Inr cl)
      with that Pair have own: "client_of pf (cqHostId q) cl" unfolding client_of_def by blast
      have "preserves (sent_only (console_request pf q) (sent_calls st)) (bind_op (vm_refusal x cl q) (\<lambda>refused.
         case refused of Some r \<Rightarrow> return_op r
         | None \<Rightarrow> bind_op (connect_console we x cl h q) (\<lambda>opened.
             bind_op (audit_guest user (hsId h) ''CONSOLE_OPENED'' (console_target q)) (\<lambda>_. return_op (Opened opened)))))"
        by (intro preserve_intros sent_refusal [OF own] sent_connect [OF own assms(1)])
      from preservesD [OF this sent] Inr Pair show ?thesis by (simp add: bind_op_def)
    qed (use Pair sent in \<open>simp add: bind_op_def\<close>)
  qed
  show ?thesis
  proof (cases "host_by_id (cqHostId q) st")
    case None
    with assms(2) show ?thesis by (auto simp: console_for_def op_defs refuse_op_def sent_only_self)
  next
    case (Some h)
    from own [OF Some] assms(2) Some show ?thesis
      by (auto simp: console_for_def bind_op_def [of "read_op f" for f] op_defs(4) read_op_def refuse_op_def return_op_def sent_only_self
          split: if_splits)
  qed
qed

section \<open>Opening\<close>

lemma console_session_quiet:
  "console_session pf now req st = (r, st1) \<Longrightarrow> sent_calls st1 = sent_calls st \<and> host_by_id hid st1 = host_by_id hid st"
  by (auto simp: console_session_def host_by_id_def sent_calls_def split: sum.splits prod.splits)

lemma openConsole_cases:
  assumes "cqVga q \<Longrightarrow> cqKind q = GuestConsole VM" "openConsole we x pf now req q st = (r, st')"
  shows "sent_only (\<lambda>call. session_passes pf now req q st \<and> console_request pf q call) (sent_calls st) st'
    \<and> (r = Inr (Opened c) \<longrightarrow> session_passes pf now req q st)"
proof (cases "console_session pf now req st")
  case (Pair found st1)
  note quiet = console_session_quiet [OF Pair]
  have still: "sent_only P (sent_calls st) st1" for P using quiet by (simp add: sent_only_def)
  consider (failed) e where "found = Inl e" | (nobody) "found = Inr None" | (user) session where "found = Inr (Some session)"
    by (cases found) auto
  then show ?thesis
  proof cases
    case failed
    with assms(2) Pair still show ?thesis by (auto simp: openConsole_def bind_op_def)
  next
    case nobody
    with assms(2) Pair still show ?thesis by (auto simp: openConsole_def bind_op_def refuse_op_def return_op_def)
  next
    case (user session)
    let ?u = "asUser session"
    let ?p = "userHasPermission (Some (holder_of ?u)) (console_permission q) (Some (cqHostId q)) (console_guest q)"
    have passes: "session_passes pf now req q st = console_passes ?u q st" by (simp add: session_passes_def Pair user)
    have same: "console_passes ?u q st1 = console_passes ?u q st" using quiet by (simp add: console_passes_def)
    show ?thesis
    proof (cases "console_passes ?u q st")
      case True
      then have ?p by (auto simp: console_passes_def console_allowed_def split: option.splits)
      obtain r1 st2 where run: "console_for we x pf ?u q st1 = (r1, st2)" by fastforce
      from console_for_sends [OF assms(1) run] quiet have "sent_only (console_request pf q) (sent_calls st) st2" by simp
      with assms(2) Pair user \<open>?p\<close> run True show ?thesis
        by (cases r1) (auto simp: openConsole_def bind_op_def catch_op_def refuse_op_def return_op_def passes)
    next
      case False
      have "\<exists>code reason. openConsole we x pf now req q st = (Inr (Refused [] code reason), st1)"
      proof (cases ?p)
        case True
        from console_for_refused [OF True, of st1 we x pf] False same
        show ?thesis by (auto simp: openConsole_def bind_op_def catch_op_def Pair user True)
      qed (simp add: openConsole_def bind_op_def refuse_op_def return_op_def Pair user)
      with assms(2) still show ?thesis by auto
    qed
  qed
qed


section \<open>A console of a container\<close>

definition console_url :: web_url where
  "console_url = \<lparr>wuProtocol = ''https:'', wuUsername = [], wuPassword = [], wuHostname = ''pve'', wuPort = ''8006'',
     wuPathname = ''/ws/console'', wuSearch = ''?q'', wuHash = [], wuOrigin = ''https://pve:8006''\<rparr>"

definition console_env :: ws_env where
  "console_env = \<lparr>weUrl = (\<lambda>_. Some console_url),
     weParams = (\<lambda>_. [(''hostId'', ''h1''), (''node'', ''n1''), (''kind'', ''lxc''), (''vmid'', ''100'')]),
     weApi = \<lparr>upNew = (\<lambda>_. Some console_url), upResolve = (\<lambda>_ u. Some u), upSetPath = (\<lambda>_ u. u), upSetSearch = (\<lambda>_ u. u),
       upHref = (\<lambda>_. ''https://pve:8006/'')\<rparr>\<rparr>"

definition console_px :: px_env where
  "console_px = \<lparr>pxFetch = (\<lambda>_ _. (Inr (200, ''{'' @ [CHR 0x22] @ ''data'' @ [CHR 0x22] @ '':{}}''), 3)), pxLogin = (\<lambda>_ _. Inr [])\<rparr>"

definition console_mesh :: mesh where
  "console_mesh = mesh_of (demo_server\<lparr>roles := [\<lparr>roId = ''r1'', roName = ''Ops'', roSlug = ''ops'', roDescription = [],
     roIsSystem = False, roPermissions = [''lxc.console'']\<rparr>]\<rparr>) [demo_host ''h1''] [] []"

definition console_visit :: node_request where
  "console_visit = \<lparr>nrMethod = Some ''GET'', nrUrl = ''/ws/console?q'', nrHeaders = [(''cookie'', ''pm_session=cba'')]\<rparr>"

definition console_wanted :: console_query where
  "console_wanted = \<lparr>cqHostId = ''h1'', cqNode = ''n1'', cqKind = GuestConsole LXC, cqVmid = Some ''100'', cqCols = Fin 80,
     cqRows = Fin 24, cqUpgrade = False, cqVga = False\<rparr>"

definition opens :: "js_error + console_result \<Rightarrow> bool" where
  "opens r \<longleftrightarrow> (case r of Inr (Opened _) \<Rightarrow> True | _ \<Rightarrow> False)"


end
