(* ===== verification/PipeContract.thy ===== *)
theory PipeContract imports Main begin

text \<open>
  What every pipe between two sockets promises: once it is over it stays over, and whatever still
  arrives makes it send nothing more.
\<close>

locale pipe_contract =
  fixes step :: "'e \<Rightarrow> 's \<Rightarrow> 's" and over :: "'s \<Rightarrow> bool" and out :: "'s \<Rightarrow> 'o"
  assumes over_stays: "over s \<Longrightarrow> over (step e s)"
    and over_silent: "over s \<Longrightarrow> out (step e s) = out s"
begin

lemma run_over: "over s \<Longrightarrow> over (fold step es s) \<and> out (fold step es s) = out s"
  by (induction es arbitrary: s) (simp_all add: over_stays over_silent)

lemma ends_for_good: "over (step e s) \<Longrightarrow> out (step e s) = out s \<Longrightarrow> out (fold step (e # es) s) = out s"
  using run_over by simp

end

end
