(* ===== verification/VncPipe.thy ===== *)
theory VncPipe imports Consoles PipeContract "HOL-Library.Sublist" begin

text \<open>
  What flows through a graphical console: \<^verbatim>\<open>pipeVnc\<close> of
  \<^verbatim>\<open>server/ws/console-proxy.ts\<close> as a state machine whose events are the callbacks, with the
  variables of the closure, the states of both sockets and what was sent on them, and
  \<^verbatim>\<open>lib/vnc-handshake.ts\<close>.  Bytes are characters.  \<open>vnc_reaches\<close> are the runs in which Proxmox
  sends only on an open socket and the page reports that it is ready after it got the password.
\<close>

section \<open>The acknowledgement\<close>

datatype vnc_handshake = Waiting string | Acknowledged string | Unexpected string

definition CR :: char where "CR = CHR 0x0D"
definition LF :: char where "LF = CHR 0x0A"

definition skip_one :: "char \<Rightarrow> string \<Rightarrow> string" where
  "skip_one c s = (case s of [] \<Rightarrow> [] | d # r \<Rightarrow> if d = c then r else s)"

definition consumeProxmoxVncHandshake :: "string \<Rightarrow> string \<Rightarrow> vnc_handshake" where
  "consumeProxmoxVncHandshake previous chunk =
     (let buf = previous @ chunk in
      if 4 \<le> length buf \<and> take 4 buf = ''RFB '' then Acknowledged buf
      else if length buf < 2 then Waiting buf
      else if take 2 buf = ''OK'' then Acknowledged (skip_one LF (skip_one CR (drop 2 buf)))
      else if 16 \<le> length buf then Unexpected buf
      else Waiting buf)"

section \<open>The pipe\<close>

datatype ready_state = Connecting | Open | Closed

datatype ws_message = TextMessage string | BinaryMessage string

record vnc_pipe =
  vpHandshake :: string
  vpUpstream :: bool
  vpClient :: bool
  vpToRemote :: "string list"
  vpLeftover :: string
  vpHandshakeTimer :: bool
  vpTicketTimer :: bool
  vpBrowser :: ready_state
  vpRemote :: ready_state
  vpShown :: "ws_message list"
  vpSent :: "ws_message list"

text \<open>\<open>Ended\<close> is the close or the error of either socket.\<close>

datatype vnc_event = RemoteOpened | RemoteData string | BrowserData string | TicketDue | HandshakeDue | Ended

definition vnc_start :: vnc_pipe where
  "vnc_start = \<lparr>vpHandshake = [], vpUpstream = False, vpClient = False, vpToRemote = [], vpLeftover = [], vpHandshakeTimer = True,
     vpTicketTimer = False, vpBrowser = Open, vpRemote = Connecting, vpShown = [], vpSent = []\<rparr>"

definition close_both :: "vnc_pipe \<Rightarrow> vnc_pipe" where
  "close_both s = s\<lparr>vpBrowser := Closed, vpRemote := Closed\<rparr>"

definition to_browser :: "ws_message \<Rightarrow> vnc_pipe \<Rightarrow> vnc_pipe" where
  "to_browser m s = (if vpBrowser s = Open then s\<lparr>vpShown := vpShown s @ [m]\<rparr> else s)"

definition to_remote :: "ws_message \<Rightarrow> vnc_pipe \<Rightarrow> vnc_pipe" where
  "to_remote m s = (if vpRemote s = Open then s\<lparr>vpSent := vpSent s @ [m]\<rparr> else s)"

definition send_leftover :: "vnc_pipe \<Rightarrow> vnc_pipe" where
  "send_leftover s =
     (if vpLeftover s = [] then s else (to_browser (BinaryMessage (vpLeftover s)) s)\<lparr>vpLeftover := []\<rparr>)"

definition send_queue :: "vnc_pipe \<Rightarrow> vnc_pipe" where
  "send_queue s =
     (if vpRemote s \<noteq> Open then s
      else (fold (\<lambda>c. to_remote (BinaryMessage c)) (vpToRemote s) s)\<lparr>vpToRemote := []\<rparr>)"

definition flush :: "vnc_pipe \<Rightarrow> vnc_pipe" where
  "flush s =
     (if \<not> vpUpstream s \<or> \<not> vpClient s then s else send_queue (send_leftover (s\<lparr>vpHandshakeTimer := False\<rparr>)))"

definition vnc_auth :: "string \<Rightarrow> ws_message" where
  "vnc_auth password = TextMessage (JSON_stringify (JObj [(''type'', JStr ''vnc-auth''), (''password'', JStr password)]))"

definition ready_message :: "string \<Rightarrow> bool" where
  "ready_message d \<longleftrightarrow> (case JSON_parse d of Some (JObj r) \<Rightarrow> get_prop r ''type'' = JStr ''vnc-ready'' | _ \<Rightarrow> False)"

definition remote_data :: "string \<Rightarrow> string \<Rightarrow> vnc_pipe \<Rightarrow> vnc_pipe" where
  "remote_data password chunk s =
     (if \<not> vpUpstream s
      then (case consumeProxmoxVncHandshake (vpHandshake s) chunk of
          Waiting rest \<Rightarrow> s\<lparr>vpHandshake := rest\<rparr>
        | Unexpected rest \<Rightarrow> close_both (s\<lparr>vpHandshake := rest, vpTicketTimer := False\<rparr>)
        | Acknowledged rest \<Rightarrow>
            flush (to_browser (vnc_auth password)
              (s\<lparr>vpHandshake := rest, vpTicketTimer := False, vpUpstream := True, vpLeftover := rest\<rparr>)))
      else if \<not> vpClient s then s\<lparr>vpLeftover := vpLeftover s @ chunk\<rparr>
      else to_browser (BinaryMessage chunk) s)"

definition browser_data :: "string \<Rightarrow> vnc_pipe \<Rightarrow> vnc_pipe" where
  "browser_data d s =
     (if vpClient s then to_remote (BinaryMessage d) s
      else if ready_message d then flush (s\<lparr>vpClient := True\<rparr>)
      else flush (s\<lparr>vpToRemote := vpToRemote s @ [d]\<rparr>))"

definition ticket_due :: "string option \<Rightarrow> vnc_pipe \<Rightarrow> vnc_pipe" where
  "ticket_due line s =
     (if \<not> vpTicketTimer s then s
      else (let s1 = s\<lparr>vpTicketTimer := False\<rparr> in
        case line of None \<Rightarrow> s1
        | Some l \<Rightarrow> if vpUpstream s \<or> vpHandshake s \<noteq> [] \<or> vpRemote s \<noteq> Open then s1 else to_remote (TextMessage l) s1))"

definition handshake_due :: "vnc_pipe \<Rightarrow> vnc_pipe" where
  "handshake_due s =
     (if \<not> vpHandshakeTimer s then s
      else (let s1 = s\<lparr>vpHandshakeTimer := False\<rparr> in if vpUpstream s \<and> vpClient s then s1 else close_both s1))"

definition remote_opened :: "string option \<Rightarrow> vnc_pipe \<Rightarrow> vnc_pipe" where
  "remote_opened line s =
     (if vpRemote s = Connecting then s\<lparr>vpRemote := Open, vpTicketTimer := (line \<noteq> None)\<rparr> else s)"

fun vnc_step :: "string option \<Rightarrow> string \<Rightarrow> vnc_event \<Rightarrow> vnc_pipe \<Rightarrow> vnc_pipe" where
  "vnc_step line password RemoteOpened s = remote_opened line s"
| "vnc_step line password (RemoteData chunk) s = remote_data password chunk s"
| "vnc_step line password (BrowserData d) s = browser_data d s"
| "vnc_step line password TicketDue s = ticket_due line s"
| "vnc_step line password HandshakeDue s = handshake_due s"
| "vnc_step line password Ended s = close_both s"

text \<open>The bytes Proxmox sent so far and the messages of the page that are not its report.\<close>

inductive vnc_reaches :: "string option \<Rightarrow> string \<Rightarrow> string \<Rightarrow> string list \<Rightarrow> vnc_pipe \<Rightarrow> bool" for line password where
  start: "vnc_reaches line password [] [] vnc_start"
| remote: "vnc_reaches line password i p s \<Longrightarrow> vpRemote s \<noteq> Connecting \<Longrightarrow>
     vnc_reaches line password (i @ chunk) p (vnc_step line password (RemoteData chunk) s)"
| page: "vnc_reaches line password i p s \<Longrightarrow> vpClient s \<or> \<not> ready_message d \<Longrightarrow>
     vnc_reaches line password i (p @ [d]) (vnc_step line password (BrowserData d) s)"
| ready: "vnc_reaches line password i p s \<Longrightarrow> \<not> vpClient s \<Longrightarrow> ready_message d \<Longrightarrow> vpUpstream s \<Longrightarrow>
     vnc_reaches line password i p (vnc_step line password (BrowserData d) s)"
| passing: "vnc_reaches line password i p s \<Longrightarrow> e \<in> {RemoteOpened, TicketDue, HandshakeDue, Ended} \<Longrightarrow>
     vnc_reaches line password i p (vnc_step line password e s)"

section \<open>What is kept\<close>

fun binaries :: "ws_message list \<Rightarrow> string list" where
  "binaries [] = []"
| "binaries (BinaryMessage b # ms) = b # binaries ms"
| "binaries (TextMessage _ # ms) = binaries ms"

lemma binaries_append [simp]: "binaries (xs @ ys) = binaries xs @ binaries ys"
  by (induction xs rule: binaries.induct) auto

text \<open>The acknowledgement takes \<open>k\<close> bytes off the start of \<open>i\<close>.\<close>

definition ack_length :: "nat \<Rightarrow> string \<Rightarrow> bool" where
  "ack_length k i \<longleftrightarrow>
     k = 0 \<and> starts_with i ''RFB ''
     \<or> k \<in> {2, 3, 4} \<and> k \<le> length i \<and> take k i \<in> {''OK'', ''OK'' @ [CR], ''OK'' @ [LF], ''OK'' @ [CR, LF]}"

lemma ack_grows: "ack_length k i \<Longrightarrow> ack_length k (i @ j) \<and> drop k (i @ j) = drop k i @ j"
  by (auto simp: ack_length_def starts_with_iff)

lemma consume_ack: "consumeProxmoxVncHandshake previous chunk = Acknowledged rest \<Longrightarrow> \<exists>k. ack_length k (previous @ chunk) \<and> rest = drop k (previous @ chunk)"
proof -
  assume a: "consumeProxmoxVncHandshake previous chunk = Acknowledged rest"
  let ?b = "previous @ chunk"
  consider (rfb) "take 4 ?b = ''RFB ''" "rest = ?b" | (ok) "take 2 ?b = ''OK''" "rest = skip_one LF (skip_one CR (drop 2 ?b))"
    using a by (auto simp: consumeProxmoxVncHandshake_def Let_def split: if_splits)
  then show ?thesis
  proof cases
    case rfb
    then have "ack_length 0 ?b" unfolding ack_length_def by (metis append_take_drop_id starts_with_iff)
    with rfb show ?thesis by auto
  next
    case ok
    then obtain t where t: "?b = ''OK'' @ t" by (metis append_take_drop_id)
    have "\<exists>k. ack_length k (''OK'' @ t) \<and> rest = drop k (''OK'' @ t)"
    proof (cases t)
      case Nil
      with ok t show ?thesis by (intro exI [of _ 2]) (simp add: ack_length_def skip_one_def)
    next
      case (Cons c r)
      show ?thesis
      proof (cases r)
        case Nil
        with Cons ok t show ?thesis
          by (intro exI [of _ "if c = CR \<or> c = LF then 3 else 2"]) (auto simp: ack_length_def skip_one_def CR_def LF_def)
      next
        case (Cons d r')
        with \<open>t = c # r\<close> ok t show ?thesis
          by (intro exI [of _ "if c = CR then if d = LF then 4 else 3 else if c = LF then 3 else 2"])
            (auto simp: ack_length_def skip_one_def CR_def LF_def)
      qed
    qed
    with t show ?thesis by simp
  qed
qed

definition to_page_kept :: "string \<Rightarrow> vnc_pipe \<Rightarrow> bool" where
  "to_page_kept i s \<longleftrightarrow>
     (\<exists>k. ack_length k i \<and> prefix (concat (binaries (vpShown s))) (drop k i)
        \<and> (vpBrowser s = Open \<longrightarrow> concat (binaries (vpShown s)) @ vpLeftover s = drop k i)
        \<and> (vpClient s \<longrightarrow> vpLeftover s = []))"

definition to_proxmox_kept :: "string list \<Rightarrow> vnc_pipe \<Rightarrow> bool" where
  "to_proxmox_kept p s \<longleftrightarrow>
     prefix (binaries (vpSent s)) p
     \<and> (if vpClient s then vpRemote s = Open \<longrightarrow> binaries (vpSent s) = p else binaries (vpSent s) = [] \<and> vpToRemote s = p)"

definition vnc_kept :: "string \<Rightarrow> string list \<Rightarrow> vnc_pipe \<Rightarrow> bool" where
  "vnc_kept i p s \<longleftrightarrow>
     (vpClient s \<longrightarrow> vpUpstream s) \<and> (vpUpstream s \<longrightarrow> vpRemote s \<noteq> Connecting)
     \<and> (if vpUpstream s then to_page_kept i s else vpHandshake s = i \<and> binaries (vpShown s) = [] \<and> vpLeftover s = [])
     \<and> to_proxmox_kept p s
     \<and> (vpHandshakeTimer s \<or> vpUpstream s \<and> vpClient s \<or> vpBrowser s = Closed \<and> vpRemote s = Closed)"

lemma close_both_simps [simp]:
  "vpHandshake (close_both s) = vpHandshake s" "vpUpstream (close_both s) = vpUpstream s" "vpClient (close_both s) = vpClient s"
  "vpToRemote (close_both s) = vpToRemote s" "vpLeftover (close_both s) = vpLeftover s"
  "vpHandshakeTimer (close_both s) = vpHandshakeTimer s" "vpShown (close_both s) = vpShown s" "vpSent (close_both s) = vpSent s"
  "vpBrowser (close_both s) = Closed" "vpRemote (close_both s) = Closed"
  by (simp_all add: close_both_def)

lemma kept_close: "vnc_kept i p s \<Longrightarrow> vnc_kept i p (close_both s)"
  by (auto simp: vnc_kept_def to_page_kept_def to_proxmox_kept_def split: if_splits)

lemma send_each: "vpRemote s = Open \<Longrightarrow>
    fold (\<lambda>c. to_remote (BinaryMessage c)) cs s = s\<lparr>vpSent := vpSent s @ map BinaryMessage cs\<rparr>"
  by (induction cs arbitrary: s) (simp_all add: to_remote_def)

lemma binaries_map [simp]: "binaries (map BinaryMessage cs) = cs"
  by (induction cs) simp_all

lemma flush_ready:
  assumes "vpUpstream s" "vpClient s"
  shows "flush s = s\<lparr>vpHandshakeTimer := False, vpLeftover := [],
      vpShown := vpShown s @ (if vpLeftover s \<noteq> [] \<and> vpBrowser s = Open then [BinaryMessage (vpLeftover s)] else []),
      vpSent := vpSent s @ (if vpRemote s = Open then map BinaryMessage (vpToRemote s) else []),
      vpToRemote := (if vpRemote s = Open then [] else vpToRemote s)\<rparr>"
  using assms by (auto simp: flush_def send_queue_def send_leftover_def to_browser_def send_each)

text \<open>The page reports: what was held for it is sent, and its queue.\<close>

lemma kept_ready:
  assumes "vnc_kept i p s" "vpUpstream s" "\<not> vpClient s"
  shows "vnc_kept i p (flush (s\<lparr>vpClient := True\<rparr>))"
proof -
  from assms obtain k where k: "ack_length k i" "prefix (concat (binaries (vpShown s))) (drop k i)"
      "vpBrowser s = Open \<longrightarrow> concat (binaries (vpShown s)) @ vpLeftover s = drop k i"
    by (auto simp: vnc_kept_def to_page_kept_def)
  from assms have p: "binaries (vpSent s) = []" "vpToRemote s = p" "vpRemote s \<noteq> Connecting"
    by (auto simp: vnc_kept_def to_proxmox_kept_def)
  have "to_page_kept i (flush (s\<lparr>vpClient := True\<rparr>))"
    unfolding to_page_kept_def using k assms(2) by (intro exI [of _ k]) (auto simp: flush_ready)
  moreover have "to_proxmox_kept p (flush (s\<lparr>vpClient := True\<rparr>))"
    using p assms(2) by (simp add: to_proxmox_kept_def flush_ready)
  ultimately show ?thesis using p(3) assms(2) by (simp add: vnc_kept_def flush_ready)
qed

lemma kept_page:
  assumes "vnc_kept i p s" "vpClient s \<or> \<not> ready_message d"
  shows "vnc_kept i (p @ [d]) (browser_data d s)"
proof (cases "vpClient s")
  case True
  with assms(1) show ?thesis
    by (auto simp: browser_data_def to_remote_def vnc_kept_def to_page_kept_def to_proxmox_kept_def prefix_def)
next
  case False
  with assms show ?thesis
    by (auto simp: browser_data_def flush_def vnc_kept_def to_page_kept_def to_proxmox_kept_def)
qed

lemma kept_remote:
  assumes "vnc_kept i p s" "vpRemote s \<noteq> Connecting"
  shows "vnc_kept (i @ chunk) p (remote_data password chunk s)"
proof (cases "vpUpstream s")
  case True
  with assms(1) obtain k where k: "ack_length k i" "prefix (concat (binaries (vpShown s))) (drop k i)"
      "vpBrowser s = Open \<longrightarrow> concat (binaries (vpShown s)) @ vpLeftover s = drop k i" "vpClient s \<longrightarrow> vpLeftover s = []"
    by (auto simp: vnc_kept_def to_page_kept_def)
  from ack_grows [OF k(1), of chunk] have g: "ack_length k (i @ chunk)" "k \<le> length i"
    using k(1) by (auto simp: ack_length_def)
  have "to_page_kept (i @ chunk) (remote_data password chunk s)"
    unfolding to_page_kept_def using k g True
    by (intro exI [of _ k]) (auto simp: remote_data_def to_browser_def prefix_def)
  with assms(1) True show ?thesis
    by (auto simp: vnc_kept_def to_proxmox_kept_def remote_data_def to_browser_def)
next
  case False
  with assms(1) have none: "vpHandshake s = i" "binaries (vpShown s) = []" "vpLeftover s = []" "\<not> vpClient s" by (auto simp: vnc_kept_def)
  show ?thesis
  proof (cases "consumeProxmoxVncHandshake (vpHandshake s) chunk")
    case (Waiting rest)
    then have "rest = i @ chunk" using none(1) by (auto simp: consumeProxmoxVncHandshake_def Let_def split: if_splits)
    with assms(1) False Waiting none show ?thesis by (auto simp: remote_data_def vnc_kept_def to_proxmox_kept_def)
  next
    case (Unexpected rest)
    then have "rest = i @ chunk" using none(1) by (auto simp: consumeProxmoxVncHandshake_def Let_def split: if_splits)
    with assms(1) False Unexpected none show ?thesis by (auto simp: remote_data_def vnc_kept_def to_proxmox_kept_def)
  next
    case (Acknowledged rest)
    from consume_ack [OF this] none(1) obtain k where k: "ack_length k (i @ chunk)" "rest = drop k (i @ chunk)" by auto
    have r: "remote_data password chunk s = to_browser (vnc_auth password)
        (s\<lparr>vpHandshake := rest, vpTicketTimer := False, vpUpstream := True, vpLeftover := rest\<rparr>)"
      using False Acknowledged none(4) by (simp add: remote_data_def flush_def to_browser_def)
    have "to_page_kept (i @ chunk) (remote_data password chunk s)"
      unfolding to_page_kept_def using k none
      by (intro exI [of _ k]) (auto simp: r to_browser_def vnc_auth_def)
    with assms False none show ?thesis by (auto simp: r vnc_kept_def to_proxmox_kept_def to_browser_def vnc_auth_def)
  qed
qed

lemma kept_passing:
  assumes "vnc_kept i p s" "e \<in> {RemoteOpened, TicketDue, HandshakeDue, Ended}"
  shows "vnc_kept i p (vnc_step line password e s)"
proof -
  have "vnc_kept i p (remote_opened line s)"
    using assms(1) by (auto simp: remote_opened_def vnc_kept_def to_page_kept_def to_proxmox_kept_def)
  moreover have "vnc_kept i p (ticket_due line s)"
    using assms(1) by (auto simp: ticket_due_def to_remote_def Let_def vnc_kept_def to_page_kept_def to_proxmox_kept_def split: option.split)
  moreover have "vnc_kept i p (handshake_due s)"
    using assms(1) by (auto simp: handshake_due_def Let_def vnc_kept_def to_page_kept_def to_proxmox_kept_def)
  ultimately show ?thesis using assms kept_close by auto
qed

lemma vnc_reaches_kept: "vnc_reaches line password i p s \<Longrightarrow> vnc_kept i p s"
proof (induction rule: vnc_reaches.induct)
  case start
  show ?case by (simp add: vnc_kept_def vnc_start_def to_proxmox_kept_def)
next
  case (remote i p s chunk)
  then show ?case by (simp add: kept_remote)
next
  case (page i p s d)
  then show ?case by (simp add: kept_page)
next
  case (ready i p s d)
  then show ?case by (simp add: kept_ready browser_data_def)
next
  case (passing i p s e)
  then show ?case using kept_passing by blast
qed

text \<open>
  C33: A graphical console loses and reorders nothing in either direction.  The page has seen a
  prefix of what Proxmox sent after its acknowledgement, of at most four bytes, and while it is
  connected what it has seen and what is held for it are all of that.  Proxmox got a prefix of
  what the page sent, in that order, nothing before the page reported that it is ready, and while
  the socket is open all of it from then on.  When the time for the handshake has passed either
  both sides are ready or both sockets are closed.
\<close>

theorem vnc_streams_kept:
  assumes "vnc_reaches line password i p s"
  shows "(vpUpstream s \<longrightarrow> to_page_kept i s) \<and> (\<not> vpUpstream s \<longrightarrow> binaries (vpShown s) = [])
     \<and> to_proxmox_kept p s
     \<and> (vpHandshakeTimer s \<or> vpUpstream s \<and> vpClient s \<or> vpBrowser s = Closed \<and> vpRemote s = Closed)"
  using vnc_reaches_kept [OF assms] by (auto simp: vnc_kept_def)

definition quoted :: "string \<Rightarrow> string" where
  "quoted t = [CHR 0x22] @ t @ [CHR 0x22]"

definition ready_text :: string where
  "ready_text = ''{'' @ quoted ''type'' @ '':'' @ quoted ''vnc-ready'' @ ''}''"

definition vnc_demo :: vnc_pipe where
  "vnc_demo = fold (vnc_step None ''pw'')
     [RemoteOpened, BrowserData ''a'', RemoteData ''OK'', RemoteData ''RFB 003'', BrowserData ready_text, BrowserData ''b'', RemoteData ''.8''] vnc_start"

lemma vnc_demo_reached: "vnc_reaches None ''pw'' ''OKRFB 003.8'' [''a'', ''b''] vnc_demo"
proof -
  let ?step = "vnc_step None ''pw''"
  let ?s1 = "?step RemoteOpened vnc_start"
  let ?s2 = "?step (BrowserData ''a'') ?s1"
  let ?s3 = "?step (RemoteData ''OK'') ?s2"
  let ?s4 = "?step (RemoteData ''RFB 003'') ?s3"
  let ?s5 = "?step (BrowserData ready_text) ?s4"
  let ?s6 = "?step (BrowserData ''b'') ?s5"
  have r1: "vnc_reaches None ''pw'' [] [] ?s1" by (rule vnc_reaches.passing [OF vnc_reaches.start]) simp
  have n: "\<not> ready_message ''a''" by code_simp
  from vnc_reaches.page [OF r1, of "''a''"] n have r2: "vnc_reaches None ''pw'' [] [''a''] ?s2" by simp
  have o2: "vpRemote ?s2 \<noteq> Connecting" by code_simp
  from vnc_reaches.remote [OF r2 o2, of "''OK''"] have r3: "vnc_reaches None ''pw'' ''OK'' [''a''] ?s3" by simp
  have o3: "vpRemote ?s3 \<noteq> Connecting" by code_simp
  from vnc_reaches.remote [OF r3 o3, of "''RFB 003''"] have r4: "vnc_reaches None ''pw'' ''OKRFB 003'' [''a''] ?s4" by simp
  have c4: "\<not> vpClient ?s4" "ready_message ready_text" "vpUpstream ?s4" by code_simp+
  from vnc_reaches.ready [OF r4 c4] have r5: "vnc_reaches None ''pw'' ''OKRFB 003'' [''a''] ?s5" .
  have c5: "vpClient ?s5" by code_simp
  from vnc_reaches.page [OF r5, of "''b''"] c5 have r6: "vnc_reaches None ''pw'' ''OKRFB 003'' [''a'', ''b''] ?s6" by simp
  have o6: "vpRemote ?s6 \<noteq> Connecting" by code_simp
  from vnc_reaches.remote [OF r6 o6, of "''.8''"] show ?thesis by (simp add: vnc_demo_def del: vnc_step.simps)
qed

theorem vnc_streams_kept_witness:
  "to_page_kept ''OKRFB 003.8'' vnc_demo \<and> binaries (vpShown vnc_demo) = [''RFB 003'', ''.8''] \<and> binaries (vpSent vnc_demo) = [''a'', ''b'']"
proof -
  have up: "vpUpstream vnc_demo" "vpClient vnc_demo" "vpRemote vnc_demo = Open" by code_simp+
  from vnc_streams_kept [OF vnc_demo_reached] up
  have k: "to_page_kept ''OKRFB 003.8'' vnc_demo" "binaries (vpSent vnc_demo) = [''a'', ''b'']" by (auto simp: to_proxmox_kept_def)
  moreover have "binaries (vpShown vnc_demo) = [''RFB 003'', ''.8'']" by code_simp
  ultimately show ?thesis by blast
qed

text \<open>A page that reports before it got the password overtakes itself, and an acknowledgement that
  comes in two pieces leaves its line end in the stream.\<close>

lemma early_report_reorders:
  "binaries (vpSent (fold (vnc_step None ''pw'')
     [RemoteOpened, BrowserData ''a'', BrowserData ready_text, BrowserData ''b'', RemoteData ''OK''] vnc_start)) = [''b'', ''a'']"
  by code_simp

lemma split_acknowledgement_leaks:
  "binaries (vpShown (fold (vnc_step None ''pw'')
     [RemoteOpened, RemoteData ''OK'', RemoteData ([CR, LF] @ ''RFB''), BrowserData ready_text] vnc_start)) = [[CR, LF] @ ''RFB'']"
  by code_simp

text \<open>The ticket is never sent: without a password its first characters are the password.\<close>

lemma ticket_line_never: "rfbPasswordFromVncProxy term = Inr pw \<Longrightarrow> js_field term ''ticket'' = JStr t \<Longrightarrow> t \<noteq> [] \<Longrightarrow> pw \<noteq> []"
  by (auto simp: rfbPasswordFromVncProxy_def prop_of_def ticket_start_def split: if_splits js.splits)

section \<open>The pipe of a peer\<close>

text \<open>\<^verbatim>\<open>server/ws/federation-ws.ts\<close>: until the socket to Proxmox opens the messages of the peer wait.\<close>

record peer_pipe =
  pePending :: "string list"
  peUpstreamOpen :: bool
  peBrowser :: ready_state
  peRemote :: ready_state
  peUp :: "string list"
  peDown :: "string list"

definition peer_start :: peer_pipe where
  "peer_start = \<lparr>pePending = [], peUpstreamOpen = False, peBrowser = Open, peRemote = Connecting, peUp = [], peDown = []\<rparr>"

definition send_up :: "string \<Rightarrow> peer_pipe \<Rightarrow> peer_pipe" where
  "send_up d s =
     (if peUpstreamOpen s \<and> peRemote s = Open then s\<lparr>peUp := peUp s @ [d]\<rparr> else s\<lparr>pePending := pePending s @ [d]\<rparr>)"

definition peer_opened :: "peer_pipe \<Rightarrow> peer_pipe" where
  "peer_opened s =
     (if peRemote s \<noteq> Connecting then s
      else s\<lparr>peRemote := Open, peUpstreamOpen := True, peUp := peUp s @ pePending s, pePending := []\<rparr>)"

fun peer_step :: "vnc_event \<Rightarrow> peer_pipe \<Rightarrow> peer_pipe" where
  "peer_step RemoteOpened s = peer_opened s"
| "peer_step (RemoteData chunk) s = (if peBrowser s = Open then s\<lparr>peDown := peDown s @ [chunk]\<rparr> else s)"
| "peer_step (BrowserData d) s = send_up d s"
| "peer_step Ended s = s\<lparr>peBrowser := Closed, peRemote := Closed\<rparr>"
| "peer_step _ s = s"

fun browser_chunks :: "vnc_event list \<Rightarrow> string list" where
  "browser_chunks [] = []"
| "browser_chunks (BrowserData d # es) = d # browser_chunks es"
| "browser_chunks (_ # es) = browser_chunks es"

definition peer_kept :: "string list \<Rightarrow> peer_pipe \<Rightarrow> bool" where
  "peer_kept base s \<longleftrightarrow> peUp s @ pePending s = base \<and> (peRemote s = Open \<longrightarrow> peUpstreamOpen s \<and> pePending s = [])"

text \<open>What the peer sent has been passed on in order or waits, and nothing waits for an open socket.\<close>

lemma peer_order: "peer_kept base s \<Longrightarrow> peer_kept (base @ browser_chunks es) (fold peer_step es s)"
proof (induction es arbitrary: s base)
  case (Cons e es)
  have "peer_kept (base @ browser_chunks [e]) (peer_step e s)"
    using Cons.prems by (cases e) (auto simp: peer_kept_def send_up_def peer_opened_def)
  from Cons.IH [OF this] show ?case by (cases e) simp_all
qed simp

section \<open>After the end\<close>

interpretation vnc_ends: pipe_contract "vnc_step line password" "\<lambda>s. vpBrowser s = Closed \<and> vpRemote s = Closed" "\<lambda>s. (vpShown s, vpSent s)"
  for line password
proof
  fix e and s :: vnc_pipe
  assume "vpBrowser s = Closed \<and> vpRemote s = Closed"
  then show "vpBrowser (vnc_step line password e s) = Closed \<and> vpRemote (vnc_step line password e s) = Closed"
    "(vpShown (vnc_step line password e s), vpSent (vnc_step line password e s)) = (vpShown s, vpSent s)"
    by (cases e; auto simp: remote_opened_def remote_data_def browser_data_def ticket_due_def handshake_due_def flush_def
        send_queue_def send_leftover_def to_browser_def to_remote_def Let_def split: vnc_handshake.split option.split)+
qed

interpretation peer_ends: pipe_contract peer_step "\<lambda>s. peBrowser s = Closed \<and> peRemote s = Closed" "\<lambda>s. (peDown s, peUp s)"
proof
  fix e and s :: peer_pipe
  assume "peBrowser s = Closed \<and> peRemote s = Closed"
  then show "peBrowser (peer_step e s) = Closed \<and> peRemote (peer_step e s) = Closed" "(peDown (peer_step e s), peUp (peer_step e s)) = (peDown s, peUp s)"
    by (cases e; auto simp: peer_opened_def send_up_def)+
qed

lemma ended_pipes_silent:
  "(\<lambda>s. (vpShown s, vpSent s)) (fold (vnc_step line password) (Ended # es) v) = (vpShown v, vpSent v)"
  "(\<lambda>s. (peDown s, peUp s)) (fold peer_step (Ended # es) w) = (peDown w, peUp w)"
  by (rule vnc_ends.ends_for_good, simp_all) (use peer_ends.ends_for_good [of Ended w es] in simp)

end
