(* ===== verification/TermPipe.thy ===== *)
theory TermPipe imports VncPipe begin

text \<open>
  What flows through a text console: \<^verbatim>\<open>pipeTerm\<close> of \<^verbatim>\<open>server/ws/console-proxy.ts\<close> as a
  state machine whose events are the callbacks, as for the graphical one.  Texts are sent as UTF-8;
  the texts of the model have the characters up to 255, so one of them takes one byte or two.
\<close>

section \<open>Frames\<close>

definition utf8_char :: "char \<Rightarrow> string" where
  "utf8_char c =
     (let n = of_char c :: nat in if n < 128 then [c] else [char_of (192 + n div 64), char_of (128 + n mod 64)])"

definition utf8 :: "string \<Rightarrow> string" where
  "utf8 t = concat (map utf8_char t)"

definition byte_length :: "string \<Rightarrow> nat" where
  "byte_length t = length (utf8 t)"

definition input_frame :: "string \<Rightarrow> string" where
  "input_frame t = ''0:'' @ nat_str (byte_length t) @ '':'' @ t"

definition size_frame :: "string \<Rightarrow> string \<Rightarrow> string" where
  "size_frame cols rows = ''1:'' @ cols @ '':'' @ rows @ '':''"

text \<open>What a message of the page becomes.  \<open>Buffer.byteLength\<close> throws for a value that is no text.\<close>

definition page_frame :: "string \<Rightarrow> string option" where
  "page_frame t =
     (case JSON_parse t of None \<Rightarrow> Some (input_frame t)
      | Some parsed \<Rightarrow>
          if nullish parsed then Some (input_frame t)
          else (let kind = js_field parsed ''type''; cols = js_field parsed ''cols''; rows = js_field parsed ''rows'';
                    data = js_field parsed ''data'' in
            if kind = JStr ''resize'' \<and> js_truthy cols \<and> js_truthy rows then Some (size_frame (js_string cols) (js_string rows))
            else if kind = JStr ''input'' \<and> data \<noteq> JUndef
            then (case data of JStr d \<Rightarrow> Some (input_frame d) | _ \<Rightarrow> Some (input_frame t))
            else if kind = JStr ''ping'' then Some ''2''
            else None))"

section \<open>The pipe\<close>

record term_pipe =
  tpHandshake :: bool
  tpBuffer :: string
  tpTimer :: bool
  tpBrowser :: ready_state
  tpRemote :: ready_state
  tpShown :: "ws_message list"
  tpSent :: "string list"

datatype term_event = TermOpened | TermData string | PageText string | TermTimeout | TermEnded

definition term_start :: term_pipe where
  "term_start = \<lparr>tpHandshake = True, tpBuffer = [], tpTimer = True, tpBrowser = Open, tpRemote = Connecting, tpShown = [], tpSent = []\<rparr>"

definition show_page :: "ws_message \<Rightarrow> term_pipe \<Rightarrow> term_pipe" where
  "show_page m s = (if tpBrowser s = Open then s\<lparr>tpShown := tpShown s @ [m]\<rparr> else s)"

definition send_term :: "string \<Rightarrow> term_pipe \<Rightarrow> term_pipe" where
  "send_term t s = (if tpRemote s = Open then s\<lparr>tpSent := tpSent s @ [t]\<rparr> else s)"

definition finish_term :: "term_pipe \<Rightarrow> term_pipe" where
  "finish_term s = s\<lparr>tpTimer := False, tpBrowser := Closed, tpRemote := Closed\<rparr>"

definition page_error :: "string \<Rightarrow> string \<Rightarrow> ws_message" where
  "page_error message code = TextMessage (JSON_stringify (sendBrowserError message code))"

definition no_serial :: ws_message where
  "no_serial = page_error ''unable to find a serial interface'' ''no-serial''"

definition connected :: ws_message where
  "connected = TextMessage (JSON_stringify (JObj [(''type'', JStr ''status''), (''status'', JStr ''connected'')]))"

definition after_ok :: "string \<Rightarrow> string" where
  "after_ok t = (if starts_with t ''OK'' then skip_one LF (skip_one CR (drop 2 t)) else t)"

definition term_opened :: "string \<Rightarrow> string \<Rightarrow> term_pipe \<Rightarrow> term_pipe" where
  "term_opened user ticket s =
     (if tpRemote s = Connecting then send_term (user @ '':'' @ ticket @ [LF]) (s\<lparr>tpRemote := Open\<rparr>) else s)"

definition term_data :: "string \<Rightarrow> string \<Rightarrow> string \<Rightarrow> term_pipe \<Rightarrow> term_pipe" where
  "term_data cols rows chunk s =
     (if tpHandshake s
      then (let t = tpBuffer s @ chunk; s1 = s\<lparr>tpBuffer := t\<rparr> in
        if \<not> starts_with t ''OK'' \<and> length t < 2 then s1
        else (let s2 = show_page connected (s1\<lparr>tpHandshake := False, tpTimer := False\<rparr>); rest = after_ok t in
          if isTermproxySerialError t then finish_term (show_page no_serial s2)
          else send_term (size_frame cols rows) (if rest = [] then s2 else show_page (BinaryMessage rest) s2)))
      else if isTermproxySerialError chunk then finish_term (show_page no_serial s)
      else show_page (BinaryMessage chunk) s)"

definition page_text :: "string \<Rightarrow> term_pipe \<Rightarrow> term_pipe" where
  "page_text t s =
     (if tpRemote s \<noteq> Open then s else (case page_frame t of None \<Rightarrow> s | Some f \<Rightarrow> send_term f s))"

definition term_timeout :: "term_pipe \<Rightarrow> term_pipe" where
  "term_timeout s =
     (if \<not> tpTimer s then s
      else if \<not> tpHandshake s then s\<lparr>tpTimer := False\<rparr>
      else finish_term (show_page (page_error ''Console handshake timed out.'' ''timeout'') s))"

fun term_step :: "string \<times> string \<Rightarrow> string \<times> string \<Rightarrow> term_event \<Rightarrow> term_pipe \<Rightarrow> term_pipe" where
  "term_step (user, ticket) (cols, rows) TermOpened s = term_opened user ticket s"
| "term_step (user, ticket) (cols, rows) (TermData chunk) s = term_data cols rows chunk s"
| "term_step (user, ticket) (cols, rows) (PageText t) s = page_text t s"
| "term_step (user, ticket) (cols, rows) TermTimeout s = term_timeout s"
| "term_step (user, ticket) (cols, rows) TermEnded s = finish_term s"

text \<open>The texts the templates of the code make of the ticket's answer and of the numbers in the address.\<close>

definition term_texts :: "js \<Rightarrow> jsnum \<Rightarrow> jsnum \<Rightarrow> (string \<times> string) \<times> (string \<times> string)" where
  "term_texts term cols rows =
     ((js_string (js_field term ''user''), js_string (js_field term ''ticket'')), (num_str cols, num_str rows))"

section \<open>Frames can be told apart\<close>

datatype term_input = Keys string | Size string string | Alive

text \<open>The reader of the other end: a digit, and for texts their number of bytes.\<close>

definition upto_colon :: "string \<Rightarrow> (string \<times> string) option" where
  "upto_colon s = (case dropWhile (\<lambda>c. c \<noteq> CHR '':'') s of [] \<Rightarrow> None | _ # r \<Rightarrow> Some (takeWhile (\<lambda>c. c \<noteq> CHR '':'') s, r))"

definition read_frame :: "string \<Rightarrow> (term_input \<times> string) option" where
  "read_frame s =
     (case s of [] \<Rightarrow> None
      | c # r \<Rightarrow>
          if c = CHR ''2'' then Some (Alive, r)
          else if c \<noteq> CHR ''0'' \<and> c \<noteq> CHR ''1'' then None
          else (case upto_colon r of None \<Rightarrow> None
            | Some (none, r1) \<Rightarrow> (case upto_colon r1 of None \<Rightarrow> None
              | Some (a, r2) \<Rightarrow>
                  if c = CHR ''0''
                  then if digits_val a \<le> length r2 then Some (Keys (take (digits_val a) r2), drop (digits_val a) r2) else None
                  else (case upto_colon r2 of None \<Rightarrow> None | Some (b, r3) \<Rightarrow> Some (Size a b, r3)))))"

fun read_frames :: "nat \<Rightarrow> string \<Rightarrow> term_input list option" where
  "read_frames n [] = Some []"
| "read_frames 0 (c # s) = None"
| "read_frames (Suc n) (c # s) =
     (case read_frame (c # s) of None \<Rightarrow> None | Some (f, r) \<Rightarrow> map_option (Cons f) (read_frames n r))"

lemma upto_colon_found: "CHR '':'' \<notin> set a \<Longrightarrow> upto_colon (a @ CHR '':'' # r) = Some (a, r)"
proof -
  assume "CHR '':'' \<notin> set a"
  then have "\<forall>c \<in> set a. c \<noteq> CHR '':''" by auto
  then show ?thesis by (simp add: upto_colon_def dropWhile_append2 takeWhile_append2)
qed

lemma utf8_plain: "list_all (\<lambda>c. (of_char c :: nat) < 128) t \<Longrightarrow> utf8 t = t"
  by (induction t) (auto simp: utf8_def utf8_char_def Let_def)

lemma utf8_append [simp]: "utf8 (s @ t) = utf8 s @ utf8 t"
  by (simp add: utf8_def)

lemma utf8_simps [simp]: "utf8 [] = []" "utf8 (c # t) = utf8_char c @ utf8 t"
  by (simp_all add: utf8_def)

lemma frame_chars [simp]:
  "utf8_char CHR ''0'' = ''0''" "utf8_char CHR ''1'' = ''1''" "utf8_char CHR ''2'' = ''2''" "utf8_char CHR '':'' = '':''"
  by (simp_all add: utf8_char_def)

lemma digits_plain: "list_all is_digit t \<Longrightarrow> utf8 t = t \<and> CHR '':'' \<notin> set t"
proof -
  assume d: "list_all is_digit t"
  then have "list_all (\<lambda>c. (of_char c :: nat) < 128) t" by (induction t) (auto simp: is_digit_def in_range_def)
  moreover have "CHR '':'' \<notin> set t" using d by (auto simp: list_all_iff is_digit_def in_range_def)
  ultimately show ?thesis using utf8_plain by blast
qed

lemma read_input: "read_frame (utf8 (input_frame t) @ r) = Some (Keys (utf8 t), r)"
proof -
  have d: "utf8 (nat_str n) = nat_str n" "CHR '':'' \<notin> set (nat_str n)" for n using digits_plain nat_str_digits by blast+
  have "utf8 (input_frame t) @ r = CHR ''0'' # [] @ CHR '':'' # nat_str (byte_length t) @ CHR '':'' # utf8 t @ r"
    by (simp add: input_frame_def d)
  then show ?thesis
    using upto_colon_found [OF d(2), of "byte_length t" "utf8 t @ r"] upto_colon_found [of "[]"]
    by (simp add: read_frame_def byte_length_def)
qed

lemma read_size:
  assumes "list_all is_digit a" "list_all is_digit b"
  shows "read_frame (utf8 (size_frame a b) @ r) = Some (Size a b, r)"
proof -
  note d = digits_plain [OF assms(1)] digits_plain [OF assms(2)]
  have "utf8 (size_frame a b) @ r = CHR ''1'' # [] @ CHR '':'' # a @ CHR '':'' # b @ CHR '':'' # r"
    using d by (simp add: size_frame_def)
  then show ?thesis
    using upto_colon_found [of a "b @ CHR '':'' # r"] upto_colon_found [of b r] upto_colon_found [of "[]"] d
    by (simp add: read_frame_def)
qed

lemma read_alive: "read_frame (utf8 ''2'' @ r) = Some (Alive, r)"
  by (simp add: read_frame_def)

section \<open>What the page writes\<close>

datatype page_message = Typed string | Resized nat nat | Pinged

definition page_json :: "page_message \<Rightarrow> js_record" where
  "page_json m =
     (case m of
        Typed d \<Rightarrow> [(''type'', JStr ''input''), (''data'', JStr d)]
      | Resized cols rows \<Rightarrow> [(''type'', JStr ''resize''), (''cols'', JNum (of_int_num (int cols))), (''rows'', JNum (of_int_num (int rows)))]
      | Pinged \<Rightarrow> [(''type'', JStr ''ping'')])"

definition page_sends :: "page_message \<Rightarrow> string" where
  "page_sends m = JSON_stringify (JObj (page_json m))"

definition page_means :: "page_message \<Rightarrow> term_input" where
  "page_means m = (case m of Typed d \<Rightarrow> Keys (utf8 d) | Resized cols rows \<Rightarrow> Size (nat_str cols) (nat_str rows) | Pinged \<Rightarrow> Alive)"

definition sized :: "page_message \<Rightarrow> bool" where
  "sized m \<longleftrightarrow> (case m of Resized cols rows \<Rightarrow> 0 < cols \<and> 0 < rows | _ \<Rightarrow> True)"

definition frame_of :: "page_message \<Rightarrow> string" where
  "frame_of m =
     (case m of Typed d \<Rightarrow> input_frame d | Resized cols rows \<Rightarrow> size_frame (nat_str cols) (nat_str rows) | Pinged \<Rightarrow> ''2'')"

lemma parse_page: "JSON_parse (page_sends m) = Some (JObj (page_json m))"
  unfolding page_sends_def
  by (rule JSON_flat) (auto simp: page_json_def flat_value_def split: page_message.split)

lemma int_text: "js_string (JNum (of_int_num (int n))) = nat_str n"
  by (simp add: int_str_def)

lemma int_truthy: "0 < n \<Longrightarrow> js_truthy (JNum (of_int_num (int n)))"
  by (simp add: of_int_num_def)

lemma page_frame_sends: "sized m \<Longrightarrow> page_frame (page_sends m) = Some (frame_of m)"
  by (cases m) (simp_all add: page_frame_def parse_page page_json_def frame_of_def sized_def nullish_def js_field_def
      get_prop_def int_text int_truthy del: js_string.simps js_truthy.simps)

lemma read_means: "read_frame (utf8 (frame_of m) @ r) = Some (page_means m, r)"
  by (cases m) (simp_all only: frame_of_def page_means_def page_message.case read_input read_size [OF nat_str_digits nat_str_digits] read_alive)

lemma frame_nonempty: "utf8 (frame_of m) \<noteq> []"
  by (cases m) (simp_all add: frame_of_def input_frame_def size_frame_def)

lemma read_all: "read_frames (length ms) (concat (map (\<lambda>m. utf8 (frame_of m)) ms)) = Some (map page_means ms)"
proof (induction ms)
  case (Cons m ms)
  let ?r = "concat (map (\<lambda>m. utf8 (frame_of m)) ms)"
  obtain c t where "utf8 (frame_of m) @ ?r = c # t" using frame_nonempty by (cases "utf8 (frame_of m)") auto
  with read_means [of m ?r] Cons show ?case by simp
qed simp

section \<open>Runs\<close>

definition term_run :: "string \<times> string \<Rightarrow> string \<times> string \<Rightarrow> term_event list \<Rightarrow> term_pipe \<Rightarrow> term_pipe" where
  "term_run who size' es s = fold (term_step who size') es s"

fun page_texts :: "term_event list \<Rightarrow> string list" where
  "page_texts [] = []"
| "page_texts (PageText t # es) = t # page_texts es"
| "page_texts (_ # es) = page_texts es"

definition frames_for :: "string list \<Rightarrow> string list" where
  "frames_for ts = concat (map (\<lambda>t. case page_frame t of None \<Rightarrow> [] | Some f \<Rightarrow> [f]) ts)"

lemmas term_defs = term_opened_def term_data_def page_text_def term_timeout_def finish_term_def show_page_def send_term_def Let_def

text \<open>A pipe past its handshake stays past it, and a closed socket stays closed.\<close>

lemma term_step_facts:
  assumes "\<not> tpHandshake s" "tpRemote s \<noteq> Connecting"
  shows "\<not> tpHandshake (term_step who size' e s) \<and> tpRemote (term_step who size' e s) \<noteq> Connecting
    \<and> (tpRemote (term_step who size' e s) = Open \<longrightarrow> tpRemote s = Open \<and> tpSent (term_step who size' e s) = tpSent s @ frames_for (page_texts [e]))"
proof -
  obtain user ticket cols rows where "who = (user, ticket)" "size' = (cols, rows)" by (metis surj_pair)
  with assms show ?thesis by (cases e) (auto simp: term_defs frames_for_def split: option.split)
qed

lemma term_run_frames:
  assumes "\<not> tpHandshake s" "tpRemote s \<noteq> Connecting" "tpRemote (term_run who size' es s) = Open"
  shows "tpRemote s = Open \<and> tpSent (term_run who size' es s) = tpSent s @ frames_for (page_texts es)"
  using assms
proof (induction es arbitrary: s)
  case (Cons e es)
  let ?s = "term_step who size' e s"
  from term_step_facts [OF Cons.prems(1,2), of who size' e]
  have f: "\<not> tpHandshake ?s" "tpRemote ?s \<noteq> Connecting"
      "tpRemote ?s = Open \<Longrightarrow> tpRemote s = Open \<and> tpSent ?s = tpSent s @ frames_for (page_texts [e])" by blast+
  have "tpRemote (term_run who size' es ?s) = Open" using Cons.prems(3) by (simp add: term_run_def)
  from Cons.IH [OF f(1,2) this] f(3)
  have g: "tpRemote s = Open" "tpSent (term_run who size' es ?s) = (tpSent s @ frames_for (page_texts [e])) @ frames_for (page_texts es)" by simp_all
  have "frames_for (page_texts (e # es)) = frames_for (page_texts [e]) @ frames_for (page_texts es)"
    by (cases e) (simp_all add: frames_for_def)
  with g show ?case by (simp add: term_run_def)
qed (simp add: term_run_def frames_for_def)

lemma frames_for_page: "list_all sized ms \<Longrightarrow> frames_for (map page_sends ms) = map frame_of ms"
  by (induction ms) (simp_all add: frames_for_def page_frame_sends)

text \<open>
  C34: What is typed into a text console arrives.  However the page's messages interleave with the
  output of the guest, as long as the socket is open the bytes that were sent after the handshake
  read back as exactly the keys, sizes and pings of the page, in their order: the byte counts of
  the frames are right for every text, also for one that looks like a frame.
\<close>

theorem typed_text_arrives:
  assumes "\<not> tpHandshake s" "tpRemote s \<noteq> Connecting" "tpRemote (term_run who size' es s) = Open"
    and "page_texts es = map page_sends ms" "list_all sized ms"
  shows "\<exists>frames. tpSent (term_run who size' es s) = tpSent s @ frames
     \<and> read_frames (length ms) (concat (map utf8 frames)) = Some (map page_means ms)"
  using term_run_frames [OF assms(1-3)] read_all [of ms] assms(4) frames_for_page [OF assms(5)]
  by (intro exI [of _ "map frame_of ms"]) (simp add: comp_def)

definition term_demo_events :: "term_event list" where
  "term_demo_events = [PageText (page_sends (Typed ''0:9:x'')), TermData ''out'', PageText (page_sends (Resized 120 30)),
     PageText (page_sends (Typed [CHR 0xE9])), PageText (page_sends Pinged)]"

definition term_demo :: term_pipe where
  "term_demo = term_run (''root@pam'', ''PVE'') (''80'', ''24'') [TermOpened, TermData ''OK'', TermData ''login: ''] term_start"

theorem typed_text_arrives_witness:
  "\<exists>frames. tpSent (term_run (''root@pam'', ''PVE'') (''80'', ''24'') term_demo_events term_demo) = tpSent term_demo @ frames
     \<and> read_frames 4 (concat (map utf8 frames)) = Some [Keys ''0:9:x'', Size ''120'' ''30'', Keys [CHR 0xC3, CHR 0xA9], Alive]"
proof -
  let ?ms = "[Typed ''0:9:x'', Resized 120 30, Typed [CHR 0xE9], Pinged]"
  have h: "\<not> tpHandshake term_demo" "tpRemote term_demo \<noteq> Connecting"
    "tpRemote (term_run (''root@pam'', ''PVE'') (''80'', ''24'') term_demo_events term_demo) = Open" by code_simp+
  have t: "page_texts term_demo_events = map page_sends ?ms" by (simp add: term_demo_events_def)
  have z: "list_all sized ?ms" by (simp add: sized_def)
  have m: "map page_means ?ms = [Keys ''0:9:x'', Size ''120'' ''30'', Keys [CHR 0xC3, CHR 0xA9], Alive]" by code_simp
  have n: "length ?ms = 4" by simp
  from typed_text_arrives [OF h t z] show ?thesis unfolding m n .
qed

text \<open>A page that sends its keys as they are: a digit is a JSON value without a \<open>type\<close> and is lost.\<close>

lemma plain_digit_lost: "page_frame ''5'' = None" "page_frame ''x'' = Some ''0:1:x''"
  by code_simp+

text \<open>Any two bytes end the handshake: a refusal is reported to the page as connected.\<close>

lemma refusal_counts_as_connected:
  "tpShown (term_run (''root@pam'', ''PVE'') (''80'', ''24'') [TermOpened, TermData ''no''] term_start) = [connected, BinaryMessage ''no'']"
  by code_simp

section \<open>After the end\<close>

interpretation term_ends: pipe_contract "term_step who size'" "\<lambda>s. tpBrowser s = Closed \<and> tpRemote s = Closed" "\<lambda>s. (tpShown s, tpSent s)"
  for who size'
proof
  fix e and s :: term_pipe
  assume over: "tpBrowser s = Closed \<and> tpRemote s = Closed"
  obtain user ticket cols rows where "who = (user, ticket)" "size' = (cols, rows)" by (metis surj_pair)
  with over show "tpBrowser (term_step who size' e s) = Closed \<and> tpRemote (term_step who size' e s) = Closed"
    "(tpShown (term_step who size' e s), tpSent (term_step who size' e s)) = (tpShown s, tpSent s)"
    by (cases e; auto simp: term_defs split: option.split)+
qed

lemma ended_term_silent:
  "tpShown (term_run who size' (TermEnded # es) s) = tpShown s \<and> tpSent (term_run who size' (TermEnded # es) s) = tpSent s"
proof -
  have "(tpShown (fold (term_step who size') (TermEnded # es) s), tpSent (fold (term_step who size') (TermEnded # es) s)) = (tpShown s, tpSent s)"
    by (rule term_ends.ends_for_good; cases who; cases size') (simp_all add: finish_term_def)
  then show ?thesis by (simp add: term_run_def)
qed

end
