(* ===== verification/SftpStreams.thy ===== *)
theory SftpStreams imports JsNumber "HOL-Library.Multiset" begin

text \<open>
  Moving the bytes of a file over SFTP with many requests in flight: \<open>sftpPipelineWrite\<close> and
  \<open>pumpSftpReads\<close> of \<^verbatim>\<open>server/services/guest-files.ts\<close>.  Writing is a plan of requests,
  a position and a chunk each, that are answered in any order.  Reading is a state machine whose
  events are the callbacks; \<open>full n\<close> says that the reader wants no more after its n-th chunk.
\<close>

definition SFTP_CHUNK_FALLBACK :: nat where "SFTP_CHUNK_FALLBACK = 32 * 1024"
definition SFTP_CHUNK_MAX :: nat where "SFTP_CHUNK_MAX = 224 * 1024"
definition SFTP_IN_FLIGHT :: nat where "SFTP_IN_FLIGHT = 64"

definition sftpChunkSize :: "jsnum \<Rightarrow> nat" where
  "sftpChunkSize raw =
     (case raw of
        Fin r \<Rightarrow> if r < 16 * 1024 then SFTP_CHUNK_FALLBACK else min SFTP_CHUNK_MAX (nat \<lfloor>r\<rfloor>)
      | _ \<Rightarrow> SFTP_CHUNK_FALLBACK)"

lemma chunk_size_pos: "16 * 1024 \<le> sftpChunkSize raw"
proof (cases raw)
  case (Fin r)
  then show ?thesis
    by (auto simp: sftpChunkSize_def SFTP_CHUNK_FALLBACK_def SFTP_CHUNK_MAX_def le_nat_iff le_floor_iff not_less)
qed (simp_all add: sftpChunkSize_def SFTP_CHUNK_FALLBACK_def)

section \<open>Writing\<close>

text \<open>\<open>flushRest(all)\<close>: the requests it launches and the bytes that stay; a chunk size is never 0.\<close>

function flush_rest :: "bool \<Rightarrow> nat \<Rightarrow> nat \<Rightarrow> string \<Rightarrow> (nat \<times> string) list \<times> nat \<times> string" where
  "flush_rest everything cs pos rest =
     (if 0 < cs \<and> (cs \<le> length rest \<or> everything \<and> rest \<noteq> [])
      then (let n = (if everything \<and> length rest < cs then length rest else min cs (length rest));
                (ws, p, r) = flush_rest everything cs (pos + n) (drop n rest)
            in ((pos, take n rest) # ws, p, r))
      else ([], pos, rest))"
  by pat_completeness auto
termination by (relation "measure (\<lambda>(_, _, _, rest). length rest)") auto

declare flush_rest.simps [simp del]

fun take_pieces :: "nat \<Rightarrow> nat \<Rightarrow> string \<Rightarrow> string list \<Rightarrow> (nat \<times> string) list \<times> nat \<times> string" where
  "take_pieces cs pos rest [] = ([], pos, rest)"
| "take_pieces cs pos rest (piece # pieces) =
     (if piece = [] then take_pieces cs pos rest pieces
      else (case flush_rest False cs pos (rest @ piece) of (ws, p, r) \<Rightarrow>
            case take_pieces cs p r pieces of (vs, p', r') \<Rightarrow> (ws @ vs, p', r')))"

text \<open>All requests for a body that arrives in pieces, in the order they are launched.\<close>

definition pipeline_writes :: "nat \<Rightarrow> nat \<Rightarrow> string list \<Rightarrow> (nat \<times> string) list" where
  "pipeline_writes cs startPos pieces =
     (case take_pieces cs startPos [] pieces of (ws, p, r) \<Rightarrow> ws @ fst (flush_rest True cs p r))"

text \<open>A write at a position; a gap before it is filled with zero bytes.\<close>

definition write_at :: "nat \<times> string \<Rightarrow> string \<Rightarrow> string" where
  "write_at w f = (case w of (p, c) \<Rightarrow> take p f @ replicate (p - length f) CHR 0x00 @ c @ drop (p + length c) f)"

text \<open>Requests that tile the bytes \<open>s\<close> from position \<open>p\<close> on.\<close>

fun tiles :: "nat \<Rightarrow> string \<Rightarrow> (nat \<times> string) list \<Rightarrow> bool" where
  "tiles p s [] \<longleftrightarrow> s = []"
| "tiles p s ((q, c) # ws) \<longleftrightarrow> q = p \<and> c \<noteq> [] \<and> take (length c) s = c \<and> length c \<le> length s \<and> tiles (p + length c) (drop (length c) s) ws"

lemma tiles_append: "tiles p s ws \<Longrightarrow> tiles (p + length s) t vs \<Longrightarrow> tiles p (s @ t) (ws @ vs)"
proof (induction p s ws rule: tiles.induct)
  case (2 p s q c ws)
  then show ?case by (auto simp: add.assoc)
qed auto

lemma flush_rest_tiles:
  assumes "flush_rest everything cs pos rest = (ws, p, r)"
  shows "\<exists>s. rest = s @ r \<and> tiles pos s ws \<and> p = pos + length s \<and> (everything \<and> 0 < cs \<longrightarrow> r = [])"
  using assms
proof (induction everything cs pos rest arbitrary: ws p r rule: flush_rest.induct)
  case (1 everything cs pos rest)
  show ?case
  proof (cases "0 < cs \<and> (cs \<le> length rest \<or> everything \<and> rest \<noteq> [])")
    case True
    let ?n = "if everything \<and> length rest < cs then length rest else min cs (length rest)"
    obtain vs p' r' where step: "flush_rest everything cs (pos + ?n) (drop ?n rest) = (vs, p', r')" by (metis prod_cases3)
    have n: "0 < ?n" "?n \<le> length rest" using True by auto
    from 1(1) [OF True refl step] obtain s where s: "drop ?n rest = s @ r'" "tiles (pos + ?n) s vs" "p' = pos + ?n + length s"
        "everything \<and> 0 < cs \<longrightarrow> r' = []" by blast
    from 1(2) step have ws: "ws = (pos, take ?n rest) # vs" "p = p'" "r = r'"
      by (subst (asm) flush_rest.simps, simp add: True Let_def)+
    have "tiles pos (take ?n rest @ s) ws" using n s(2) by (auto simp: ws(1))
    moreover have "rest = (take ?n rest @ s) @ r" using s(1) by (simp add: ws(3) flip: s(1))
    moreover have "p = pos + length (take ?n rest @ s)" using s(3) n(2) by (simp add: ws(2))
    ultimately show ?thesis using s(4) ws(3) by blast
  next
    case False
    with 1(2) have "ws = [] \<and> p = pos \<and> r = rest" by (subst (asm) flush_rest.simps) auto
    with False show ?thesis by auto
  qed
qed

lemma take_pieces_tiles:
  assumes "take_pieces cs pos rest pieces = (ws, p, r)"
  shows "\<exists>s. rest @ concat pieces = s @ r \<and> tiles pos s ws \<and> p = pos + length s"
  using assms
proof (induction pieces arbitrary: pos rest ws p r)
  case (Cons piece pieces)
  show ?case
  proof (cases "piece = []")
    case False
    obtain vs q t where f: "flush_rest False cs pos (rest @ piece) = (vs, q, t)" by (metis prod_cases3)
    obtain us q' t' where g: "take_pieces cs q t pieces = (us, q', t')" by (metis prod_cases3)
    from flush_rest_tiles [OF f] obtain a where a: "rest @ piece = a @ t" "tiles pos a vs" "q = pos + length a" by blast
    from Cons.IH [OF g] obtain b where b: "t @ concat pieces = b @ t'" "tiles q b us" "q' = q + length b" by blast
    have "rest @ concat (piece # pieces) = (a @ b) @ t'" using a(1) b(1) by (metis append.assoc concat.simps(2))
    moreover have "tiles pos (a @ b) (vs @ us)" using tiles_append a b(2) by blast
    ultimately show ?thesis using Cons.prems False f g a(3) b(3) by auto
  qed (use Cons in auto)
qed simp

lemma pipeline_tiles: "0 < cs \<Longrightarrow> tiles startPos (concat pieces) (pipeline_writes cs startPos pieces)"
proof -
  assume cs: "0 < cs"
  obtain ws p r where t: "take_pieces cs startPos [] pieces = (ws, p, r)" by (metis prod_cases3)
  obtain vs q u where f: "flush_rest True cs p r = (vs, q, u)" by (metis prod_cases3)
  from take_pieces_tiles [OF t] obtain s where s: "concat pieces = s @ r" "tiles startPos s ws" "p = startPos + length s" by auto
  from flush_rest_tiles [OF f] cs have "tiles p r vs" by auto
  with s(2,3) tiles_append have "tiles startPos (s @ r) (ws @ vs)" by simp
  with s(1) show ?thesis by (simp add: pipeline_writes_def t f)
qed

lemma tiles_each:
  assumes "tiles p s ws" "(q, c) \<in> set ws"
  shows "c \<noteq> [] \<and> p \<le> q \<and> q + length c \<le> p + length s \<and> (\<forall>i < length c. c ! i = s ! (q + i - p))"
  using assms
proof (induction p s ws rule: tiles.induct)
  case (2 p s q' c' ws)
  show ?case
  proof (cases "(q, c) = (q', c')")
    case True
    then have t: "q = p" "c \<noteq> []" "take (length c) s = c" "length c \<le> length s" using 2(2) by auto
    have "c ! i = s ! i" if "i < length c" for i using nth_take [OF that, of s] t(3) by simp
    with t show ?thesis by auto
  next
    case False
    with 2(2,3) have "tiles (p + length c') (drop (length c') s) ws" "(q, c) \<in> set ws" "length c' \<le> length s" by auto
    from 2(1) [OF this(1,2)] this(3) show ?thesis by (auto simp: algebra_simps)
  qed
qed simp

lemma tiles_cover: "tiles p s ws \<Longrightarrow> p \<le> k \<Longrightarrow> k < p + length s \<Longrightarrow> \<exists>(q, c) \<in> set ws. q \<le> k \<and> k < q + length c"
proof (induction p s ws rule: tiles.induct)
  case (2 p s q c ws)
  then show ?case by (cases "k < p + length c") auto
qed simp

definition zero_byte :: char where "zero_byte = CHR 0x00"

lemma write_at_length: "c \<noteq> [] \<Longrightarrow> length (write_at (q, c) f) = max (length f) (q + length c)"
  by (auto simp: write_at_def)

lemma write_at_nth:
  assumes "k < length (write_at (q, c) f)" "c \<noteq> []"
  shows "write_at (q, c) f ! k = (if q \<le> k \<and> k < q + length c then c ! (k - q) else if k < length f then f ! k else zero_byte)"
  using assms by (auto simp: write_at_def nth_append zero_byte_def min_def not_less)

lemma writes_length:
  assumes "\<forall>(q, c) \<in> set vs. c \<noteq> [] \<and> q + length c \<le> b"
  shows "length f \<le> length (fold write_at vs f) \<and> length (fold write_at vs f) \<le> max (length f) b
    \<and> (\<forall>(q, c) \<in> set vs. q + length c \<le> length (fold write_at vs f))"
  using assms
proof (induction vs arbitrary: f)
  case (Cons w vs)
  obtain q c where w: "w = (q, c)" by fastforce
  from Cons.prems w have c: "c \<noteq> []" "q + length c \<le> b" by auto
  from Cons.prems have "\<forall>(q, c) \<in> set vs. c \<noteq> [] \<and> q + length c \<le> b" by simp
  from Cons.IH [OF this, of "write_at w f"] c show ?case by (auto simp: w write_at_length)
qed simp

lemma writes_nth:
  assumes "\<forall>(q, c) \<in> set vs. c \<noteq> [] \<and> (\<forall>i < length c. c ! i = g (q + i))" "k < length (fold write_at vs f)"
  shows "fold write_at vs f ! k
    = (if \<exists>(q, c) \<in> set vs. q \<le> k \<and> k < q + length c then g k else if k < length f then f ! k else zero_byte)"
  using assms
proof (induction vs arbitrary: f)
  case (Cons w vs)
  obtain q c where w: "w = (q, c)" by fastforce
  from Cons.prems(1) w have c: "c \<noteq> []" "\<And>i. i < length c \<Longrightarrow> c ! i = g (q + i)" by auto
  have v: "\<forall>(q, c) \<in> set vs. c \<noteq> [] \<and> (\<forall>i < length c. c ! i = g (q + i))" using Cons.prems(1) by simp
  have k: "k < length (fold write_at vs (write_at w f))" using Cons.prems(2) by simp
  have hit: "write_at (q, c) f ! k = g k" if "q \<le> k" "k < q + length c"
    using write_at_nth [of k q c f] c(1) c(2) [of "k - q"] that write_at_length [OF c(1), of q f] by auto
  have miss: "k < length (write_at (q, c) f) \<Longrightarrow> \<not> (q \<le> k \<and> k < q + length c) \<Longrightarrow>
      write_at (q, c) f ! k = (if k < length f then f ! k else zero_byte)"
    using write_at_nth [of k q c f] c(1) by auto
  from Cons.IH [OF v k] hit miss write_at_length [OF c(1), of q f] show ?case
    by (auto simp: w)
qed simp

text \<open>
  C38: A file that is written over SFTP with many requests in flight is what was sent, in whatever
  order the requests are answered and however the body was cut into pieces: the bytes before the
  start stay, the body follows, and what lies behind it stays.
\<close>

theorem pipelined_write_any_order:
  assumes "mset vs = mset (pipeline_writes cs startPos pieces)" "0 < cs" "startPos \<le> length f"
  shows "fold write_at vs f = take startPos f @ concat pieces @ drop (startPos + length (concat pieces)) f"
proof -
  let ?s = "concat pieces" and ?r = "fold write_at vs f" and ?b = "startPos + length (concat pieces)"
  let ?g = "\<lambda>k. concat pieces ! (k - startPos)"
  have t: "tiles startPos ?s (pipeline_writes cs startPos pieces)" by (rule pipeline_tiles [OF assms(2)])
  have set: "set vs = set (pipeline_writes cs startPos pieces)" using assms(1) by (rule mset_eq_setD)
  have each: "\<forall>(q, c) \<in> set vs. c \<noteq> [] \<and> startPos \<le> q \<and> q + length c \<le> ?b \<and> (\<forall>i < length c. c ! i = ?g (q + i))"
    using tiles_each [OF t] set by auto
  have cover: "(\<exists>(q, c) \<in> set vs. q \<le> k \<and> k < q + length c) \<longleftrightarrow> startPos \<le> k \<and> k < ?b" for k
    using tiles_cover [OF t, of k] each set by fastforce
  have len: "length f \<le> length ?r" "length ?r \<le> max (length f) ?b" "\<forall>(q, c) \<in> set vs. q + length c \<le> length ?r"
    using writes_length [of vs ?b f] each by auto
  have "?b \<le> length ?r"
  proof (cases "?s = []")
    case True
    from assms(3) len(1) show ?thesis unfolding True by simp
  next
    case False
    then have "0 < length ?s" unfolding length_greater_0_conv .
    then have "startPos \<le> ?b - 1" "?b - 1 < ?b" by presburger+
    with cover [of "?b - 1"] len(3) show ?thesis by fastforce
  qed
  with len have length: "length ?r = max (length f) ?b" by simp
  have content: "\<forall>(q, c) \<in> set vs. c \<noteq> [] \<and> (\<forall>i < length c. c ! i = ?g (q + i))"
    using each by (simp add: case_prod_unfold)
  have nth: "?r ! k = (if startPos \<le> k \<and> k < ?b then ?g k else if k < length f then f ! k else zero_byte)" if "k < length ?r" for k
    unfolding writes_nth [OF content that] cover ..
  show ?thesis
  proof (rule nth_equalityI)
    show "length ?r = length (take startPos f @ ?s @ drop ?b f)" using length assms(3) by (simp add: max_def)
    fix k assume k: "k < length ?r"
    with nth [OF k] length assms(3) show "?r ! k = (take startPos f @ ?s @ drop ?b f) ! k"
      by (auto simp: nth_append)
  qed
qed

theorem pipelined_write_any_order_witness:
  "fold write_at [(3, ''cd''), (5, ''e''), (1, ''ab'')] ''xyz'' = ''xabcde''"
proof -
  have "pipeline_writes 2 1 [''a'', ''bcd'', [], ''e''] = [(1, ''ab''), (3, ''cd''), (5, ''e'')]" by code_simp
  then have "mset [(3, ''cd''), (5, ''e''), (1, ''ab'')] = mset (pipeline_writes 2 1 [''a'', ''bcd'', [], ''e''])" by simp
  from pipelined_write_any_order [OF this, of "''xyz''"] show ?thesis by simp
qed

text \<open>When a request fails while a later one succeeds the file has its full length and a gap: a
  resumption that goes by the length keeps the gap.\<close>

lemma failed_write_leaves_gap:
  "pipeline_writes 2 0 [''abcdef''] = [(0, ''ab''), (2, ''cd''), (4, ''ef'')]"
  "fold write_at [(0, ''ab''), (4, ''ef'')] [] = ''ab'' @ [zero_byte, zero_byte] @ ''ef''"
  by code_simp+

end
