(* ===== verification/SftpReads.thy ===== *)
theory SftpReads imports SftpStreams begin

text \<open>
  Reading a file with many requests in flight: \<open>pumpSftpReads\<close> of
  \<^verbatim>\<open>server/services/guest-files.ts\<close>.  \<open>pump_reaches\<close> are the runs in which the server
  answers a request with an error or with bytes of the file from its position on, perhaps too few.
\<close>

record pump =
  puIssue :: nat
  puEmit :: nat
  puReady :: "(nat \<times> string) list"
  puFlight :: "(nat \<times> nat) list"
  puPaused :: bool
  puStopped :: bool
  puClosed :: bool
  puError :: "string option"
  puOut :: "string list"

definition pump_stop :: "string option \<Rightarrow> pump \<Rightarrow> pump" where
  "pump_stop e s = (if puStopped s then s else s\<lparr>puStopped := True, puError := e\<rparr>)"

definition stop_at_end :: "nat \<Rightarrow> pump \<Rightarrow> pump" where
  "stop_at_end amount s = (if amount \<le> puEmit s \<and> puFlight s = [] then pump_stop None s else s)"

definition chunk_len :: "nat \<Rightarrow> nat \<Rightarrow> nat \<Rightarrow> nat" where
  "chunk_len cs amount p = min cs (amount - p)"

function issue_reads :: "nat \<Rightarrow> nat \<Rightarrow> pump \<Rightarrow> pump" where
  "issue_reads cs amount s =
     (if 0 < cs \<and> \<not> puPaused s \<and> length (puFlight s) < SFTP_IN_FLIGHT \<and> puIssue s < amount
      then issue_reads cs amount (s\<lparr>puIssue := puIssue s + chunk_len cs amount (puIssue s),
             puFlight := puFlight s @ [(puIssue s, chunk_len cs amount (puIssue s))]\<rparr>)
      else s)"
  by pat_completeness auto
termination by (relation "measure (\<lambda>(_, amount, s). amount - puIssue s)") (auto simp: chunk_len_def)

declare issue_reads.simps [simp del]

definition pump_issue :: "nat \<Rightarrow> nat \<Rightarrow> pump \<Rightarrow> pump" where
  "pump_issue cs amount s = (if puStopped s then s else stop_at_end amount (issue_reads cs amount s))"

definition emit_one :: "(nat \<Rightarrow> bool) \<Rightarrow> string \<Rightarrow> pump \<Rightarrow> pump" where
  "emit_one full c s =
     s\<lparr>puReady := filter (\<lambda>e. fst e \<noteq> puEmit s) (puReady s), puEmit := puEmit s + length c,
       puOut := (if c = [] then puOut s else puOut s @ [c]),
       puPaused := (puPaused s \<or> c \<noteq> [] \<and> full (Suc (length (puOut s))))\<rparr>"

function flush_ready :: "(nat \<Rightarrow> bool) \<Rightarrow> pump \<Rightarrow> pump" where
  "flush_ready full s =
     (case map_of (puReady s) (puEmit s) of None \<Rightarrow> s
      | Some c \<Rightarrow> let s1 = emit_one full c s in if c \<noteq> [] \<and> puPaused s1 then s1 else flush_ready full s1)"
  by pat_completeness auto
termination
proof (relation "measure (\<lambda>(_, s). length (puReady s))", goal_cases)
  case (2 full s c s1)
  from 2(1) have "(puEmit s, c) \<in> set (puReady s)" by (rule map_of_SomeD)
  then have "length (filter (\<lambda>e. fst e \<noteq> puEmit s) (puReady s)) < length (puReady s)"
    by (intro length_filter_less) auto
  with 2(2) show ?case by (simp add: emit_one_def)
qed simp

declare flush_ready.simps [simp del]

definition pump_flush :: "(nat \<Rightarrow> bool) \<Rightarrow> nat \<Rightarrow> pump \<Rightarrow> pump" where
  "pump_flush full amount s = (if puStopped s then s else stop_at_end amount (flush_ready full s))"

datatype pump_event = ReadDone nat "string + string" | Drained | DestClosed | DestFailed string

definition read_done :: "(nat \<Rightarrow> bool) \<Rightarrow> nat \<Rightarrow> nat \<Rightarrow> nat \<Rightarrow> string + string \<Rightarrow> pump \<Rightarrow> pump" where
  "read_done full cs amount p r s =
     (case map_of (puFlight s) p of None \<Rightarrow> s
      | Some len \<Rightarrow>
          (let s1 = s\<lparr>puFlight := filter (\<lambda>e. fst e \<noteq> p) (puFlight s)\<rparr> in
           if puStopped s1 then s1
           else case r of Inl e \<Rightarrow> pump_stop (Some e) s1
             | Inr bytes \<Rightarrow>
                 if length bytes \<noteq> len \<and> p + length bytes < amount then pump_stop (Some ''SFTP-Lesen unvollstaendig'') s1
                 else pump_issue cs amount (pump_flush full amount (s1\<lparr>puReady := (p, bytes) # puReady s1\<rparr>))))"

fun pump_step :: "(nat \<Rightarrow> bool) \<Rightarrow> nat \<Rightarrow> nat \<Rightarrow> pump_event \<Rightarrow> pump \<Rightarrow> pump" where
  "pump_step full cs amount (ReadDone p r) s = read_done full cs amount p r s"
| "pump_step full cs amount Drained s =
     (if puStopped s then s else pump_issue cs amount (pump_flush full amount (s\<lparr>puPaused := False\<rparr>)))"
| "pump_step full cs amount DestClosed s = (pump_stop None s)\<lparr>puClosed := True\<rparr>"
| "pump_step full cs amount (DestFailed e) s = pump_stop (Some e) s"

definition pump_start :: "nat \<Rightarrow> nat \<Rightarrow> pump" where
  "pump_start cs amount = pump_issue cs amount
     \<lparr>puIssue = 0, puEmit = 0, puReady = [], puFlight = [], puPaused = False, puStopped = False, puClosed = False, puError = None, puOut = []\<rparr>"

text \<open>What the server may answer for a position and a length.\<close>

definition served :: "string \<Rightarrow> nat \<Rightarrow> nat \<Rightarrow> string + string \<Rightarrow> bool" where
  "served f p len r \<longleftrightarrow> (case r of Inl _ \<Rightarrow> True | Inr c \<Rightarrow> length c \<le> len \<and> c = take (length c) (drop p f))"

inductive pump_reaches :: "(nat \<Rightarrow> bool) \<Rightarrow> nat \<Rightarrow> nat \<Rightarrow> string \<Rightarrow> pump \<Rightarrow> bool" for full cs amount f where
  start: "pump_reaches full cs amount f (pump_start cs amount)"
| answer: "pump_reaches full cs amount f s \<Longrightarrow> map_of (puFlight s) p = Some len \<Longrightarrow> served f p len r \<Longrightarrow>
     pump_reaches full cs amount f (pump_step full cs amount (ReadDone p r) s)"
| other: "pump_reaches full cs amount f s \<Longrightarrow> e \<in> {Drained, DestClosed, DestFailed msg} \<Longrightarrow>
     pump_reaches full cs amount f (pump_step full cs amount e s)"

section \<open>What holds\<close>

text \<open>The requests that were launched and not yet passed on are the positions of the grid in between.\<close>

definition pump_grid :: "string \<Rightarrow> nat \<Rightarrow> nat \<Rightarrow> pump \<Rightarrow> bool" where
  "pump_grid f cs amount s \<longleftrightarrow>
     (\<forall>(p, len) \<in> set (puFlight s). len = chunk_len cs amount p)
     \<and> (\<forall>(p, c) \<in> set (puReady s). c = take (chunk_len cs amount p) (drop p f) \<and> length c = chunk_len cs amount p)
     \<and> distinct (map fst (puReady s) @ map fst (puFlight s))
     \<and> set (map fst (puReady s) @ map fst (puFlight s)) = {p. cs dvd p \<and> puEmit s \<le> p \<and> p < puIssue s}
     \<and> puEmit s \<le> puIssue s \<and> puIssue s \<le> amount
     \<and> (puEmit s = amount \<or> cs dvd puEmit s) \<and> (puIssue s = amount \<or> cs dvd puIssue s)"

definition pump_out_ok :: "string \<Rightarrow> nat \<Rightarrow> pump \<Rightarrow> bool" where
  "pump_out_ok f amount s \<longleftrightarrow> concat (puOut s) = take (puEmit s) f \<and> puEmit s \<le> length f \<and> puEmit s \<le> amount"

definition pump_live :: "pump \<Rightarrow> bool" where
  "pump_live s \<longleftrightarrow> puStopped s \<or> puFlight s \<noteq> [] \<or> puPaused s"

definition pump_ok :: "string \<Rightarrow> nat \<Rightarrow> nat \<Rightarrow> pump \<Rightarrow> bool" where
  "pump_ok f cs amount s \<longleftrightarrow>
     pump_out_ok f amount s
     \<and> (if puStopped s then puError s = None \<and> \<not> puClosed s \<longrightarrow> puEmit s = amount else pump_grid f cs amount s \<and> puError s = None \<and> \<not> puClosed s)"

lemma issue_reads_keeps:
  "puEmit (issue_reads cs amount s) = puEmit s \<and> puReady (issue_reads cs amount s) = puReady s \<and> puOut (issue_reads cs amount s) = puOut s
   \<and> puStopped (issue_reads cs amount s) = puStopped s \<and> puClosed (issue_reads cs amount s) = puClosed s
   \<and> puError (issue_reads cs amount s) = puError s \<and> puPaused (issue_reads cs amount s) = puPaused s"
proof (induction cs amount s rule: issue_reads.induct)
  case (1 cs amount s)
  show ?case
  proof (cases "0 < cs \<and> \<not> puPaused s \<and> length (puFlight s) < SFTP_IN_FLIGHT \<and> puIssue s < amount")
    case True
    from issue_reads.simps [of cs amount s] True
    have go: "issue_reads cs amount s = issue_reads cs amount (s\<lparr>puIssue := puIssue s + chunk_len cs amount (puIssue s),
        puFlight := puFlight s @ [(puIssue s, chunk_len cs amount (puIssue s))]\<rparr>)" by simp
    from 1 [OF True] show ?thesis unfolding go by simp
  next
    case False
    with issue_reads.simps [of cs amount s] have "issue_reads cs amount s = s" by auto
    then show ?thesis by simp
  qed
qed

lemma grid_next:
  assumes "cs dvd p" "0 < chunk_len cs amount p" "l \<le> p"
  shows "{a. cs dvd a \<and> l \<le> a \<and> a < p + chunk_len cs amount p} = insert p {a. cs dvd a \<and> l \<le> a \<and> a < p}"
proof -
  have "a = p" if "cs dvd a" "p \<le> a" "a < p + chunk_len cs amount p" for a
  proof -
    from that have "a - p < cs" by (auto simp: chunk_len_def)
    moreover have "cs dvd a - p" using that(1) assms(1) by (rule dvd_diff_nat)
    ultimately have "a - p = 0" using nat_dvd_not_less by blast
    with that(2) show ?thesis by simp
  qed
  then have "cs dvd a \<and> l \<le> a \<and> a < p + chunk_len cs amount p \<longleftrightarrow> a = p \<or> cs dvd a \<and> l \<le> a \<and> a < p" for a
    using assms by (cases "p \<le> a") auto
  then show ?thesis by auto
qed

lemma issue_reads_grid:
  assumes "pump_grid f cs amount s" "0 < cs"
  shows "pump_grid f cs amount (issue_reads cs amount s)
    \<and> (puFlight (issue_reads cs amount s) = [] \<and> \<not> puPaused s \<longrightarrow> puIssue (issue_reads cs amount s) = amount)"
  using assms
proof (induction cs amount s rule: issue_reads.induct)
  case (1 cs amount s)
  let ?go = "0 < cs \<and> \<not> puPaused s \<and> length (puFlight s) < SFTP_IN_FLIGHT \<and> puIssue s < amount"
  let ?p = "puIssue s" and ?l = "chunk_len cs amount (puIssue s)"
  let ?s = "s\<lparr>puIssue := ?p + ?l, puFlight := puFlight s @ [(?p, ?l)]\<rparr>"
  show ?case
  proof (cases ?go)
    case True
    have l: "0 < ?l" "?p + ?l \<le> amount" "?p + ?l = amount \<or> ?l = cs" using True by (auto simp: chunk_len_def)
    have dvd: "cs dvd ?p" using 1(2) True unfolding pump_grid_def by force
    have emit: "puEmit s \<le> ?p" using 1(2) by (simp add: pump_grid_def)
    have "set (map fst (puReady s) @ map fst (puFlight s)) = {p. cs dvd p \<and> puEmit s \<le> p \<and> p < ?p}"
      using 1(2) unfolding pump_grid_def by blast
    then have pos: "set (map fst (puReady ?s) @ map fst (puFlight ?s)) = {p. cs dvd p \<and> puEmit ?s \<le> p \<and> p < puIssue ?s}"
      using grid_next [OF dvd l(1) emit] by simp
    have new: "?p \<notin> set (map fst (puReady s) @ map fst (puFlight s))" using 1(2) unfolding pump_grid_def by force
    have "?p + ?l = amount \<or> cs dvd ?p + ?l" using l(3) dvd by auto
    moreover have "distinct (map fst (puReady ?s) @ map fst (puFlight ?s))" using 1(2) new unfolding pump_grid_def by auto
    ultimately have "pump_grid f cs amount ?s" using 1(2) pos l emit unfolding pump_grid_def by simp
    note ih = 1(1) [OF True this 1(3)]
    from issue_reads.simps [of cs amount s] True have go: "issue_reads cs amount s = issue_reads cs amount ?s" by simp
    from ih show ?thesis unfolding go by simp
  next
    case False
    with issue_reads.simps [of cs amount s] have same: "issue_reads cs amount s = s" by auto
    have "puIssue s = amount" if "puFlight s = []" "\<not> puPaused s"
      using that False 1(2,3) by (auto simp: pump_grid_def SFTP_IN_FLIGHT_def)
    with 1(2) show ?thesis by (simp add: same)
  qed
qed

text \<open>Passing on the chunk at the front keeps the grid and the order.\<close>

lemma emit_one_ok:
  assumes grid: "pump_grid f cs amount s" and out: "pump_out_ok f amount s" and front: "map_of (puReady s) (puEmit s) = Some c" and cs: "0 < cs"
  shows "pump_grid f cs amount (emit_one full c s) \<and> pump_out_ok f amount (emit_one full c s)"
proof -
  let ?e = "puEmit s" and ?s = "emit_one full c s"
  from map_of_SomeD [OF front] have mem: "(?e, c) \<in> set (puReady s)" .
  with grid have c: "c = take (chunk_len cs amount ?e) (drop ?e f)" "length c = chunk_len cs amount ?e" unfolding pump_grid_def by auto
  have at: "?e \<in> set (map fst (puReady s) @ map fst (puFlight s))" using mem by force
  with grid have e: "cs dvd ?e" "?e < puIssue s" "puIssue s \<le> amount" unfolding pump_grid_def by auto
  then have len: "0 < length c" "?e + length c \<le> amount" "?e + length c = amount \<or> length c = cs" using c(2) cs by (auto simp: chunk_len_def)
  have keys: "set (map fst (puReady ?s) @ map fst (puFlight ?s)) = set (map fst (puReady s) @ map fst (puFlight s)) - {?e}"
  proof -
    have apart: "distinct (map fst (puReady s) @ map fst (puFlight s))" using grid unfolding pump_grid_def by blast
    have "?e \<in> fst ` set (puReady s)" using mem by force
    with apart have "?e \<notin> fst ` set (puFlight s)" by auto
    moreover have "fst ` set (puReady ?s) = fst ` set (puReady s) - {?e}" by (auto simp: emit_one_def image_iff)
    ultimately show ?thesis by (auto simp: emit_one_def)
  qed
  have "{p. cs dvd p \<and> ?e \<le> p \<and> p < puIssue s} - {?e} = {p. cs dvd p \<and> ?e + length c \<le> p \<and> p < puIssue s}"
  proof -
    have "?e + length c \<le> p" if "cs dvd p" "?e < p" "p < puIssue s" for p
    proof -
      have "cs dvd p - ?e" using that(1) e(1) by (rule dvd_diff_nat)
      then have "cs \<le> p - ?e" using that(2) by (intro dvd_imp_le) auto
      with that(2) len(3) c(2) show ?thesis by (auto simp: chunk_len_def)
    qed
    with len(1) show ?thesis by force
  qed
  with keys grid have all: "set (map fst (puReady ?s) @ map fst (puFlight ?s)) = {p. cs dvd p \<and> puEmit ?s \<le> p \<and> p < puIssue ?s}"
    unfolding pump_grid_def by (simp add: emit_one_def)
  have within: "?e + length c \<le> puIssue s"
  proof (cases "puIssue s = amount")
    case False
    with grid have "cs dvd puIssue s" unfolding pump_grid_def by simp
    then have "cs dvd puIssue s - ?e" using e(1) by (rule dvd_diff_nat)
    then have "cs \<le> puIssue s - ?e" using e(2) by (intro dvd_imp_le) auto
    with e(2) c(2) show ?thesis by (auto simp: chunk_len_def)
  qed (use len(2) in simp)
  have "distinct (map fst (puReady s) @ map fst (puFlight s))" using grid unfolding pump_grid_def by blast
  then have "distinct (map fst (puReady ?s) @ map fst (puFlight ?s))"
    unfolding distinct_append by (simp add: emit_one_def distinct_map_filter) blast
  moreover have "puEmit ?s = amount \<or> cs dvd puEmit ?s" using len(3) e(1) by (auto simp: emit_one_def)
  ultimately have "pump_grid f cs amount ?s" using grid all within unfolding pump_grid_def by (simp add: emit_one_def)
  moreover have "length c \<le> length f - ?e" using c by (metis length_drop length_take min.cobounded1 nle_le)
  then have "pump_out_ok f amount ?s"
    using out c len by (auto simp: pump_out_ok_def emit_one_def take_add)
  ultimately show ?thesis ..
qed

lemma emit_one_fields [simp]:
  "puIssue (emit_one full c s) = puIssue s" "puFlight (emit_one full c s) = puFlight s" "puStopped (emit_one full c s) = puStopped s"
  "puClosed (emit_one full c s) = puClosed s" "puError (emit_one full c s) = puError s"
  by (simp_all add: emit_one_def)

lemma flush_ready_ok:
  assumes "pump_grid f cs amount s" "pump_out_ok f amount s" "0 < cs"
  shows "pump_grid f cs amount (flush_ready full s) \<and> pump_out_ok f amount (flush_ready full s)
    \<and> puStopped (flush_ready full s) = puStopped s \<and> puClosed (flush_ready full s) = puClosed s \<and> puError (flush_ready full s) = puError s
    \<and> (\<not> puPaused (flush_ready full s) \<longrightarrow> map_of (puReady (flush_ready full s)) (puEmit (flush_ready full s)) = None)"
  using assms
proof (induction full s rule: flush_ready.induct)
  case (1 full s)
  show ?case
  proof (cases "map_of (puReady s) (puEmit s)")
    case None
    with flush_ready.simps [of full s] have "flush_ready full s = s" by simp
    with 1 None show ?thesis by simp
  next
    case (Some c)
    note one = emit_one_ok [OF 1(2,3) Some 1(4), of full]
    show ?thesis
    proof (cases "c \<noteq> [] \<and> puPaused (emit_one full c s)")
      case True
      with flush_ready.simps [of full s] Some have "flush_ready full s = emit_one full c s" by (simp add: Let_def)
      with one True show ?thesis by simp
    next
      case False
      with flush_ready.simps [of full s] Some have go: "flush_ready full s = flush_ready full (emit_one full c s)"
        by (simp add: Let_def)
      from 1(1) [OF Some refl False] one 1(4) show ?thesis unfolding go by simp
    qed
  qed
qed

text \<open>A round of passing on and launching: what it keeps, and that something is under way afterwards.\<close>

lemma round_ok:
  assumes "pump_grid f cs amount s" "pump_out_ok f amount s" "0 < cs" "\<not> puStopped s" "puError s = None" "\<not> puClosed s"
  shows "pump_ok f cs amount (pump_issue cs amount (pump_flush full amount s))
    \<and> pump_live (pump_issue cs amount (pump_flush full amount s))"
proof -
  let ?a = "flush_ready full s"
  note a = flush_ready_ok [OF assms(1-3), of full]
  show ?thesis
  proof (cases "amount \<le> puEmit ?a \<and> puFlight ?a = []")
    case True
    then have "pump_flush full amount s = pump_stop None ?a" using assms(4) by (simp add: pump_flush_def stop_at_end_def)
    with a assms True show ?thesis
      by (auto simp: pump_issue_def pump_stop_def pump_ok_def pump_out_ok_def pump_live_def)
  next
    case False
    then have f: "pump_flush full amount s = ?a" using assms(4) by (auto simp: pump_flush_def stop_at_end_def)
    let ?b = "issue_reads cs amount ?a"
    note k = issue_reads_keeps [of cs amount ?a]
    from a assms(3) have b: "pump_grid f cs amount ?b" "puFlight ?b = [] \<and> \<not> puPaused ?a \<longrightarrow> puIssue ?b = amount"
      using issue_reads_grid by blast+
    have out: "pump_out_ok f amount ?b" using a k by (simp add: pump_out_ok_def)
    have issue: "pump_issue cs amount ?a = stop_at_end amount ?b" using a assms(4) by (simp add: pump_issue_def)
    show ?thesis
    proof (cases "amount \<le> puEmit ?b \<and> puFlight ?b = []")
      case True
      with a k assms out show ?thesis
        by (auto simp: f issue stop_at_end_def pump_stop_def pump_ok_def pump_out_ok_def pump_live_def)
    next
      case False
      have live: "puFlight ?b \<noteq> [] \<or> puPaused ?b"
      proof (rule ccontr)
        assume none: "\<not> (puFlight ?b \<noteq> [] \<or> puPaused ?b)"
        with k b(2) have all: "puIssue ?b = amount" by simp
        from none False have "puEmit ?b < amount" by simp
        with b(1) all have "puEmit ?b \<in> set (map fst (puReady ?b) @ map fst (puFlight ?b))" unfolding pump_grid_def by force
        with none k have "puEmit ?a \<in> fst ` set (puReady ?a)" by simp
        with a none k show False by (auto simp: map_of_eq_None_iff)
      qed
      with False a k assms b out show ?thesis
        by (auto simp: f issue stop_at_end_def pump_ok_def pump_live_def)
    qed
  qed
qed

lemma start_ok: "0 < cs \<Longrightarrow> pump_ok f cs amount (pump_start cs amount) \<and> pump_live (pump_start cs amount)"
proof -
  assume cs: "0 < cs"
  let ?i = "\<lparr>puIssue = 0, puEmit = 0, puReady = [], puFlight = [], puPaused = False, puStopped = False, puClosed = False, puError = None, puOut = []\<rparr>"
  have "pump_grid f cs amount ?i" "pump_out_ok f amount ?i" by (simp_all add: pump_grid_def pump_out_ok_def)
  then have "pump_ok f cs amount (pump_issue cs amount (pump_flush (\<lambda>_. False) amount ?i))
      \<and> pump_live (pump_issue cs amount (pump_flush (\<lambda>_. False) amount ?i))"
    by (rule round_ok) (simp_all add: cs)
  moreover have "pump_issue cs amount (pump_flush (\<lambda>_. False) amount ?i) = pump_start cs amount"
  proof (cases "amount = 0")
    case True
    with issue_reads.simps [of cs amount ?i] flush_ready.simps [of "\<lambda>_. False" ?i] show ?thesis
      by (simp add: pump_start_def pump_issue_def pump_flush_def stop_at_end_def pump_stop_def)
  next
    case False
    with flush_ready.simps [of "\<lambda>_. False" ?i] have "pump_flush (\<lambda>_. False) amount ?i = ?i"
      by (simp add: pump_flush_def stop_at_end_def)
    then show ?thesis by (simp add: pump_start_def)
  qed
  ultimately show ?thesis by simp
qed

text \<open>An answered request moves from the launched ones to the ready ones.\<close>

lemma answered_grid:
  assumes grid: "pump_grid f cs amount s" and flight: "map_of (puFlight s) p = Some len"
    and bytes: "bytes = take len (drop p f)" "length bytes = len"
  shows "pump_grid f cs amount (s\<lparr>puFlight := filter (\<lambda>e. fst e \<noteq> p) (puFlight s), puReady := (p, bytes) # puReady s\<rparr>)"
proof -
  let ?fl = "filter (\<lambda>e. fst e \<noteq> p) (puFlight s)"
  from map_of_SomeD [OF flight] have mem: "(p, len) \<in> set (puFlight s)" .
  with grid have len: "len = chunk_len cs amount p" unfolding pump_grid_def by auto
  have apart: "distinct (map fst (puReady s) @ map fst (puFlight s))" using grid unfolding pump_grid_def by blast
  have p: "p \<in> fst ` set (puFlight s)" using mem by force
  have keys: "fst ` set ?fl = fst ` set (puFlight s) - {p}" by (auto simp: image_iff)
  have "p \<notin> fst ` set (puReady s)" using apart p by auto
  then have "distinct (map fst ((p, bytes) # puReady s) @ map fst ?fl)"
    using apart keys by (auto simp: distinct_map_filter)
  moreover have "set (map fst ((p, bytes) # puReady s) @ map fst ?fl) = set (map fst (puReady s) @ map fst (puFlight s))"
    using keys p by auto
  moreover have "\<forall>(q, l) \<in> set ?fl. l = chunk_len cs amount q" using grid unfolding pump_grid_def by auto
  ultimately show ?thesis using grid bytes len unfolding pump_grid_def by simp
qed

lemma read_done_ok:
  assumes ok: "pump_ok f cs amount s" and live: "pump_live s" and cs: "0 < cs"
    and flight: "map_of (puFlight s) p = Some len" and answer: "served f p len r"
  shows "pump_ok f cs amount (read_done full cs amount p r s) \<and> pump_live (read_done full cs amount p r s)"
proof (cases "puStopped s")
  case True
  with ok flight show ?thesis by (simp add: read_done_def pump_ok_def pump_out_ok_def pump_live_def Let_def)
next
  case False
  with ok have s: "pump_grid f cs amount s" "pump_out_ok f amount s" "puError s = None" "\<not> puClosed s" by (simp_all add: pump_ok_def)
  let ?s = "s\<lparr>puFlight := filter (\<lambda>e. fst e \<noteq> p) (puFlight s)\<rparr>"
  have stopped: "pump_ok f cs amount (pump_stop (Some e) ?s) \<and> pump_live (pump_stop (Some e) ?s)" for e
    using s False by (simp add: pump_stop_def pump_ok_def pump_out_ok_def pump_live_def)
  show ?thesis
  proof (cases r)
    case (Inl e)
    with stopped False flight show ?thesis by (simp add: read_done_def Let_def)
  next
    case (Inr bytes)
    from map_of_SomeD [OF flight] have mem: "(p, len) \<in> set (puFlight s)" .
    with s(1) have len: "len = chunk_len cs amount p" and "p < puIssue s" "puIssue s \<le> amount"
      unfolding pump_grid_def by (auto simp: image_iff dest!: equalityD1)
    then have within: "p + len \<le> amount" by (auto simp: chunk_len_def)
    show ?thesis
    proof (cases "length bytes = len")
      case True
      with answer Inr have b: "bytes = take len (drop p f)" by (simp add: served_def)
      let ?t = "?s\<lparr>puReady := (p, bytes) # puReady s\<rparr>"
      have "pump_grid f cs amount ?t" using answered_grid [OF s(1) flight b True] by simp
      moreover have "pump_out_ok f amount ?t" using s(2) by (simp add: pump_out_ok_def)
      ultimately have "pump_ok f cs amount (pump_issue cs amount (pump_flush full amount ?t))
          \<and> pump_live (pump_issue cs amount (pump_flush full amount ?t))"
        by (rule round_ok) (use cs False s in simp_all)
      with Inr True False flight show ?thesis by (simp add: read_done_def Let_def)
    next
      case other: False
      with answer Inr within have "p + length bytes < amount" by (simp add: served_def)
      with Inr other stopped False flight show ?thesis by (simp add: read_done_def Let_def)
    qed
  qed
qed

lemma pump_reaches_ok:
  assumes "pump_reaches full cs amount f s" "0 < cs"
  shows "pump_ok f cs amount s \<and> pump_live s"
  using assms(1)
proof (induction rule: pump_reaches.induct)
  case start
  show ?case by (rule start_ok [OF assms(2)])
next
  case (answer s p len r)
  from read_done_ok [OF conjunct1 conjunct2, OF answer.IH answer.IH assms(2) answer.hyps(2,3)] show ?case by simp
next
  case (other s e msg)
  have drained: "pump_ok f cs amount (pump_step full cs amount Drained s) \<and> pump_live (pump_step full cs amount Drained s)"
  proof (cases "puStopped s")
    case False
    with other have s: "pump_grid f cs amount s" "pump_out_ok f amount s" "puError s = None" "\<not> puClosed s" by (simp_all add: pump_ok_def)
    then have "pump_grid f cs amount (s\<lparr>puPaused := False\<rparr>)" "pump_out_ok f amount (s\<lparr>puPaused := False\<rparr>)"
      by (simp_all add: pump_grid_def pump_out_ok_def)
    then show ?thesis using round_ok assms(2) False s by simp
  qed (use other in simp)
  moreover have "pump_ok f cs amount (pump_step full cs amount DestClosed s) \<and> pump_live (pump_step full cs amount DestClosed s)"
    "pump_ok f cs amount (pump_step full cs amount (DestFailed msg) s) \<and> pump_live (pump_step full cs amount (DestFailed msg) s)"
    using other.IH by (simp_all add: pump_stop_def pump_ok_def pump_out_ok_def pump_live_def)
  ultimately show ?case using other.hyps(2) by blast
qed

text \<open>
  C37: However the server answers the requests of a download, in whatever order and however slowly
  the reader takes the bytes, what was passed on is the beginning of the file.  When the download
  ends without an error while the reader is still there it is all of it, to the length that was
  announced, and until it ends a request is under way or the reader has asked to wait.
\<close>

theorem download_in_order:
  assumes "pump_reaches full cs amount f s" "0 < cs"
  shows "concat (puOut s) = take (puEmit s) f
     \<and> (puStopped s \<and> puError s = None \<and> \<not> puClosed s \<longrightarrow> concat (puOut s) = take amount f \<and> amount \<le> length f)
     \<and> (puStopped s \<or> puFlight s \<noteq> [] \<or> puPaused s)"
  using pump_reaches_ok [OF assms] by (auto simp: pump_ok_def pump_out_ok_def pump_live_def)

definition demo_reads :: pump where
  "demo_reads = fold (pump_step (\<lambda>n. n = 1) 2 5) [ReadDone 4 (Inr ''e''), ReadDone 0 (Inr ''ab''), ReadDone 2 (Inr ''cd''), Drained] (pump_start 2 5)"

lemma demo_reads_reached: "pump_reaches (\<lambda>n. n = 1) 2 5 ''abcde'' demo_reads"
proof -
  let ?step = "pump_step (\<lambda>n. n = 1) 2 5"
  let ?s0 = "pump_start 2 5"
  let ?s1 = "?step (ReadDone 4 (Inr ''e'')) ?s0"
  let ?s2 = "?step (ReadDone 0 (Inr ''ab'')) ?s1"
  let ?s3 = "?step (ReadDone 2 (Inr ''cd'')) ?s2"
  have f: "map_of (puFlight ?s0) 4 = Some 1" "map_of (puFlight ?s1) 0 = Some 2" "map_of (puFlight ?s2) 2 = Some 2" by code_simp+
  have a: "served ''abcde'' 4 1 (Inr ''e'')" "served ''abcde'' 0 2 (Inr ''ab'')" "served ''abcde'' 2 2 (Inr ''cd'')"
    by (simp_all add: served_def)
  from pump_reaches.answer [OF pump_reaches.start f(1) a(1)] have r1: "pump_reaches (\<lambda>n. n = 1) 2 5 ''abcde'' ?s1" .
  from pump_reaches.answer [OF r1 f(2) a(2)] have r2: "pump_reaches (\<lambda>n. n = 1) 2 5 ''abcde'' ?s2" .
  from pump_reaches.answer [OF r2 f(3) a(3)] have r3: "pump_reaches (\<lambda>n. n = 1) 2 5 ''abcde'' ?s3" .
  from pump_reaches.other [OF r3, of Drained] show ?thesis by (simp add: demo_reads_def del: pump_step.simps)
qed

theorem download_in_order_witness:
  "puStopped demo_reads \<and> concat (puOut demo_reads) = ''abcde'' \<and> length (puOut demo_reads) = 3"
proof -
  have e: "puStopped demo_reads" "puError demo_reads = None" "\<not> puClosed demo_reads" "length (puOut demo_reads) = 3" by code_simp+
  have "concat (puOut demo_reads) = take 5 ''abcde''" using download_in_order [OF demo_reads_reached zero_less_numeral] e by blast
  with e show ?thesis by simp
qed

end
