(* ===== verification/SftpFiles.thy ===== *)
theory SftpFiles imports GuestFiles HostService begin

text \<open>
  Files of a guest over SSH: \<^verbatim>\<open>server/services/guest-files.ts\<close>.  The server in the guest
  is the parameter \<open>sftp_env\<close>, whose operations change a state of their own; time limits and the
  moment a connection is closed are left out.  An error of the connection has the code the library
  gives it.  Texts with letters outside ASCII are spelled out.
\<close>

section \<open>The server in the guest\<close>

record file_attrs =
  faSize :: int
  faMtime :: "int option"
  faMode :: nat

record ssh_auth =
  ssTarget :: string
  ssPort :: int
  ssUsername :: string
  ssPassword :: string
  ssPrivateKey :: string
  ssPassphrase :: string

text \<open>A body that is sent: its bytes, and the error that ends it early.\<close>

record upload_body =
  ubBytes :: string
  ubFault :: "js_error option"

record 'w sftp_env =
  rmConnect :: "string \<Rightarrow> ssh_auth \<Rightarrow> ('w, string) op"
  rmStat :: "string \<Rightarrow> ('w, file_attrs) op"
  rmReaddir :: "string \<Rightarrow> ('w, (string \<times> file_attrs) list) op"
  rmRead :: "string \<Rightarrow> ('w, string) op"
  rmOpen :: "string \<Rightarrow> ('w, unit) op"
  rmWrite :: "string \<Rightarrow> string \<Rightarrow> ('w, unit) op"
  rmMkdir :: "string \<Rightarrow> ('w, unit) op"
  rmRmdir :: "string \<Rightarrow> ('w, unit) op"
  rmUnlink :: "string \<Rightarrow> ('w, unit) op"
  rmRename :: "string \<Rightarrow> string \<Rightarrow> ('w, unit) op"
  rmShell :: "('w, bool) op"
  rmExec :: "string \<Rightarrow> upload_body \<Rightarrow> ('w, unit) op"
  rmPipe :: "string \<Rightarrow> bool \<Rightarrow> int \<Rightarrow> upload_body \<Rightarrow> ('w, unit) op"

definition ssh_error :: "string \<Rightarrow> string \<Rightarrow> js_error" where
  "ssh_error message code = AppError 0 message code"

definition error_code :: "js_error \<Rightarrow> string" where
  "error_code e = (case e of AppError _ _ c \<Rightarrow> c | _ \<Rightarrow> [])"

definition is_validation :: "js_error \<Rightarrow> bool" where
  "is_validation e \<longleftrightarrow> error_code e = ''VALIDATION_ERROR''"

definition is_forbidden :: "js_error \<Rightarrow> bool" where
  "is_forbidden e \<longleftrightarrow> error_code e = ''FORBIDDEN''"

definition plain :: "string + 'a \<Rightarrow> ('w, 'a) op" where
  "plain r = lift_op (case r of Inl m \<Rightarrow> Inl (OtherError m) | Inr v \<Rightarrow> Inr v)"

definition validated :: "string + 'a \<Rightarrow> ('w, 'a) op" where
  "validated r = lift_op (case r of Inl m \<Rightarrow> Inl (ValidationError m) | Inr v \<Rightarrow> Inr v)"

definition fileError :: "js_error \<Rightarrow> string \<Rightarrow> js_error" where
  "fileError e fallback =
     (let message = error_message e; low = to_lower message; has = str_includes low in
      if has ''authentication'' \<or> has ''auth'' \<or> has ''permission denied'' then ValidationError ''SSH-Login fehlgeschlagen''
      else if has ''timed out'' \<or> has ''timeout'' \<or> has ''etimedout''
      then ValidationError ''SSH-Zeitueberschreitung - Gast erreichbar? SSH aktiv?''
      else if has ''econnrefused'' \<or> has ''connect'' then ValidationError ''SSH nicht erreichbar (Port, Firewall, Dienst)''
      else if is_validation e then e
      else (let t = take 240 (trim message) in ValidationError (if t = [] then fallback else t)))"

definition modeType :: "nat \<Rightarrow> guest_file_kind" where
  "modeType mode =
     (let type = mode div 4096 mod 16 in if type = 4 then DirEntry else if type = 8 then FileEntry else OtherEntry)"

section \<open>Credentials\<close>

record ssh_creds =
  crTarget :: "string option"
  crPort :: js
  crUsername :: "string option"
  crPassword :: "string option"
  crPrivateKey :: "string option"
  crPassphrase :: "string option"

definition opt_text :: "string option \<Rightarrow> string" where
  "opt_text s = (case s of None \<Rightarrow> [] | Some t \<Rightarrow> t)"

definition parseSshAuth :: "ssh_creds \<Rightarrow> js_error + ssh_auth" where
  "parseSshAuth i =
     (let target = trim (opt_text (crTarget i)); username = trim (opt_text (crUsername i));
          password = opt_text (crPassword i); key = trim (opt_text (crPrivateKey i)) in
      case clampSftpPort (crPort i) of Inl m \<Rightarrow> Inl (ValidationError m)
      | Inr port \<Rightarrow>
         (case isAllowedSftpTarget target of Inl m \<Rightarrow> Inl (ValidationError m)
          | Inr _ \<Rightarrow>
             if username = [] \<or> 64 < length username then Inl (ValidationError ''SSH-Benutzer fehlt'')
             else if \<not> hasGuestSshAuth (Some password) (Some key) then Inl (ValidationError ''SSH-Passwort oder Schluessel fehlt'')
             else if key \<noteq> [] \<and> \<not> looksLikeSshPrivateKey key then Inl (ValidationError ''Ungueltiger SSH-Schluessel'')
             else Inr \<lparr>ssTarget = target, ssPort = port, ssUsername = username, ssPassword = password, ssPrivateKey = key,
                    ssPassphrase = opt_text (crPassphrase i)\<rparr>))"

text \<open>Every host key is accepted; the first 32 digits of its text are reported.\<close>

definition openSftp :: "'w sftp_env \<Rightarrow> ssh_auth \<Rightarrow> ('w, string) op" where
  "openSftp r auth =
     bind_op (plain (isAllowedSftpTarget (ssTarget auth))) (\<lambda>host.
     bind_op (catch_op (rmConnect r host auth) (\<lambda>e. throw_op (fileError e ''SSH fehlgeschlagen''))) (\<lambda>key.
     return_op (take 32 key)))"

definition rethrow_file :: "string \<Rightarrow> js_error \<Rightarrow> ('w, 'a) op" where
  "rethrow_file fallback e = throw_op (if is_validation e \<or> is_forbidden e then e else fileError e fallback)"

definition withSftp :: "'w sftp_env \<Rightarrow> ssh_auth \<Rightarrow> (string \<Rightarrow> ('w, 'a) op) \<Rightarrow> ('w, 'a) op" where
  "withSftp r auth f =
     bind_op (openSftp r auth) (\<lambda>fingerprint. catch_op (f fingerprint) (rethrow_file ''SSH fehlgeschlagen''))"

section \<open>Operations\<close>

definition file_mtime :: "file_attrs \<Rightarrow> int option" where
  "file_mtime a = (case faMtime a of None \<Rightarrow> None | Some t \<Rightarrow> if t = 0 then None else Some (t * 1000))"

fun list_entries :: "string \<Rightarrow> (string \<times> file_attrs) list \<Rightarrow> string + guest_file_entry list" where
  "list_entries path [] = Inr []"
| "list_entries path ((name, a) # rest) =
     (if skipped_name name \<or> isGuestUploadPartName name \<or> isGuestUploadMetaName name then list_entries path rest
      else (case resolveGuestPath path (Some name) of Inl m \<Rightarrow> Inl m
        | Inr child \<Rightarrow> map_sum id ((#) \<lparr>geName = name, gePath = child, geType = modeType (faMode a), geSize = of_int (faSize a),
            geMtime = file_mtime a\<rparr>) (list_entries path rest)))"

definition dirs_then_files :: "(string \<Rightarrow> 'k::linorder) \<Rightarrow> guest_file_entry list \<Rightarrow> guest_file_entry list" where
  "dirs_then_files collate es =
     sort_key (\<lambda>e. collate (geName e)) (filter (\<lambda>e. geType e = DirEntry) es)
       @ sort_key (\<lambda>e. collate (geName e)) (filter (\<lambda>e. geType e \<noteq> DirEntry) es)"

definition listDir :: "(string \<Rightarrow> 'k::linorder) \<Rightarrow> 'w sftp_env \<Rightarrow> string \<Rightarrow> ('w, guest_file_entry list) op" where
  "listDir collate r path =
     bind_op (rmReaddir r path) (\<lambda>listing.
     bind_op (plain (list_entries path listing)) (\<lambda>es. return_op (dirs_then_files collate es)))"

definition too_large :: js_error where
  "too_large = ValidationError ''Datei groesser als 8 MB''"

definition readFile :: "'w sftp_env \<Rightarrow> string \<Rightarrow> ('w, string) op" where
  "readFile r path =
     bind_op (rmStat r path) (\<lambda>a.
     bind_op (guard_op (modeType (faMode a) \<noteq> DirEntry) (ValidationError ''Ist ein Ordner'')) (\<lambda>_.
     bind_op (guard_op (faSize a \<le> int GUEST_FILE_MAX_BYTES) too_large) (\<lambda>_.
     bind_op (rmRead r path) (\<lambda>bytes.
     bind_op (guard_op (length bytes \<le> GUEST_FILE_MAX_BYTES) too_large) (\<lambda>_. return_op bytes)))))"

definition writeFile :: "'w sftp_env \<Rightarrow> string \<Rightarrow> string \<Rightarrow> ('w, unit) op" where
  "writeFile r path body =
     bind_op (guard_op (length body \<le> GUEST_FILE_MAX_BYTES) too_large) (\<lambda>_. rmWrite r path body)"

definition mkdir_path :: "'w sftp_env \<Rightarrow> string \<Rightarrow> ('w, unit) op" where
  "mkdir_path r path =
     bind_op (guard_op (path \<noteq> ''/'') (ValidationError ''Ungueltiger Ordner'')) (\<lambda>_. rmMkdir r path)"

definition remove_path :: "'w sftp_env \<Rightarrow> string \<Rightarrow> ('w, unit) op" where
  "remove_path r path =
     bind_op (guard_op (path \<noteq> ''/'') (ValidationError ''Root laesst sich nicht loeschen'')) (\<lambda>_.
     bind_op (rmStat r path) (\<lambda>a.
     if modeType (faMode a) = DirEntry then rmRmdir r path else rmUnlink r path))"

definition isMissingPath :: "js_error \<Rightarrow> bool" where
  "isMissingPath e \<longleftrightarrow>
     error_code e = ''2'' \<or> error_code e = ''ENOENT'' \<or> str_includes (to_lower (error_message e)) ''no such file''"

definition path_exists :: "'w sftp_env \<Rightarrow> string \<Rightarrow> ('w, bool) op" where
  "path_exists r path =
     catch_op (bind_op (rmStat r path) (\<lambda>_. return_op True)) (\<lambda>e. if isMissingPath e then return_op False else throw_op e)"

definition renamePath :: "'w sftp_env \<Rightarrow> string \<Rightarrow> string \<Rightarrow> ('w, unit) op" where
  "renamePath r src dest =
     bind_op (guard_op (src \<noteq> ''/'' \<and> dest \<noteq> ''/'') (ValidationError ''Root laesst sich nicht umbenennen'')) (\<lambda>_.
     bind_op (path_exists r dest) (\<lambda>found.
     bind_op (guard_op (\<not> found) (ValidationError ''Ziel existiert schon'')) (\<lambda>_. rmRename r src dest)))"

section \<open>Uploads\<close>

definition statSize :: "'w sftp_env \<Rightarrow> string \<Rightarrow> ('w, int option) op" where
  "statSize r path =
     catch_op (bind_op (rmStat r path) (\<lambda>a. return_op (Some (faSize a))))
       (\<lambda>e. if isMissingPath e then return_op None else throw_op e)"

definition unlinkQuiet :: "'w sftp_env \<Rightarrow> string \<Rightarrow> ('w, unit) op" where
  "unlinkQuiet r path = catch_op (rmUnlink r path) (\<lambda>_. return_op ())"

definition readUploadMeta :: "'w sftp_env \<Rightarrow> string \<Rightarrow> ('w, guest_upload_identity option) op" where
  "readUploadMeta r dest =
     catch_op
       (bind_op (plain (guestUploadMetaPath dest)) (\<lambda>path.
        bind_op (readFile r path) (\<lambda>bytes. return_op (parseGuestUploadMeta bytes))))
       (\<lambda>_. return_op None)"

definition writeUploadMeta :: "'w sftp_env \<Rightarrow> string \<Rightarrow> guest_upload_identity \<Rightarrow> ('w, unit) op" where
  "writeUploadMeta r dest i =
     bind_op (plain (guestUploadMetaPath dest)) (\<lambda>path. writeFile r path (serializeGuestUploadMeta i))"

definition clearUploadSidecars :: "'w sftp_env \<Rightarrow> string \<Rightarrow> ('w, unit) op" where
  "clearUploadSidecars r dest =
     bind_op (plain (guestUploadPartPath dest)) (\<lambda>part.
     bind_op (unlinkQuiet r part) (\<lambda>_.
     bind_op (plain (guestUploadMetaPath dest)) (\<lambda>meta. unlinkQuiet r meta)))"

definition GUEST_UPLOAD_PART_MAX_AGE_MS :: int where
  "GUEST_UPLOAD_PART_MAX_AGE_MS = 14 * 24 * 60 * 60 * 1000"

record upload_partial =
  paName :: string
  paPath :: string
  paPartSize :: int
  paMtime :: "int option"
  paSize :: "int option"
  paPrefix :: "string option"

definition stale_part :: "int \<Rightarrow> file_attrs \<Rightarrow> bool" where
  "stale_part now a \<longleftrightarrow> (case file_mtime a of None \<Rightarrow> False | Some t \<Rightarrow> GUEST_UPLOAD_PART_MAX_AGE_MS < now - t)"

text \<open>One file of the folder; \<open>None\<close> when it is no part, or one that is too old and removed.\<close>

definition partial_of :: "'w sftp_env \<Rightarrow> int \<Rightarrow> string \<Rightarrow> string \<times> file_attrs \<Rightarrow> ('w, upload_partial option) op" where
  "partial_of r now dir item =
     (case item of (name, a) \<Rightarrow>
        let destName = take (length name - length GUEST_UPLOAD_PART_SUFFIX) name in
        if name = [] \<or> \<not> isGuestUploadPartName name \<or> destName = [] then return_op None
        else bind_op (plain (resolveGuestPath dir (Some destName))) (\<lambda>dest.
          if stale_part now a then bind_op (clearUploadSidecars r dest) (\<lambda>_. return_op None)
          else bind_op (readUploadMeta r dest) (\<lambda>meta.
            return_op (Some \<lparr>paName = destName, paPath = dest, paPartSize = faSize a, paMtime = file_mtime a,
              paSize = map_option upSize meta, paPrefix = map_option upPrefix meta\<rparr>))))"

definition collectUploadPartials :: "'w sftp_env \<Rightarrow> int \<Rightarrow> string \<Rightarrow> ('w, upload_partial list) op" where
  "collectUploadPartials r now dir =
     bind_op (rmReaddir r dir) (\<lambda>listing.
     bind_op (map_op (partial_of r now dir) listing) (\<lambda>found. return_op (List.map_filter id found)))"

text \<open>The part becomes the file when it has the announced size.\<close>

definition incomplete :: "int \<Rightarrow> int \<Rightarrow> js_error" where
  "incomplete have' expected =
     ValidationError (''Upload unvollstaendig ('' @ int_str have' @ '' von '' @ int_str expected @ '' Bytes). Du kannst fortsetzen.'')"

definition part_size_of :: "int option \<Rightarrow> int" where
  "part_size_of n = (case n of None \<Rightarrow> 0 | Some k \<Rightarrow> k)"

definition finalizeGuestUploadPart :: "'w sftp_env \<Rightarrow> string \<Rightarrow> string \<Rightarrow> int \<Rightarrow> ('w, int) op" where
  "finalizeGuestUploadPart r part dest expected =
     bind_op (statSize r part) (\<lambda>found.
     let n = part_size_of found in
     bind_op (guard_op (n = expected) (incomplete n expected)) (\<lambda>_.
     bind_op (if part \<noteq> dest then bind_op (unlinkQuiet r dest) (\<lambda>_. rmRename r part dest) else return_op ()) (\<lambda>_.
     bind_op (plain (guestUploadMetaPath dest)) (\<lambda>meta.
     bind_op (unlinkQuiet r meta) (\<lambda>_. return_op n)))))"

definition cat_command :: "bool \<Rightarrow> string \<Rightarrow> string" where
  "cat_command appending path = ''umask 022 && cat '' @ (if appending then ''>>'' else ''>'') @ '' '' @ shSingleQuote path"

record upload_request =
  uqPath :: string
  uqBody :: "upload_body option"
  uqExpected :: "int option"
  uqOffset :: int
  uqPrefix :: string

text \<open>What an upload refuses before it writes; at offset 0 it starts over instead.\<close>

definition check_resume :: "'w sftp_env \<Rightarrow> upload_request \<Rightarrow> string \<Rightarrow> int \<Rightarrow> guest_upload_identity option \<Rightarrow> ('w, unit) op" where
  "check_resume r u prefix have' stored =
     (if uqOffset u = 0 then
        bind_op (clearUploadSidecars r (uqPath u)) (\<lambda>_.
        case uqExpected u of
          Some n \<Rightarrow> when_op (prefix \<noteq> []) (writeUploadMeta r (uqPath u) \<lparr>upSize = n, upPrefix = prefix\<rparr>)
        | None \<Rightarrow> return_op ())
      else if have' \<noteq> uqOffset u then throw_op (ValidationError ''Teil-Upload passt nicht - Datei neu starten'')
      else case stored of None \<Rightarrow> return_op ()
      | Some i \<Rightarrow>
          guard_op (\<not> (prefix \<noteq> [] \<and> upPrefix i \<noteq> []
              \<and> (upPrefix i \<noteq> prefix \<or> (case uqExpected u of None \<Rightarrow> False | Some n \<Rightarrow> upSize i \<noteq> n))))
            (ValidationError ''Andere Datei als der abgebrochene Upload - neu starten''))"

definition empty_body :: upload_body where
  "empty_body = \<lparr>ubBytes = [], ubFault = None\<rparr>"

definition write_part :: "'w sftp_env \<Rightarrow> string \<Rightarrow> upload_request \<Rightarrow> ('w, unit) op" where
  "write_part r part u =
     (let body = (case uqBody u of None \<Rightarrow> empty_body | Some b \<Rightarrow> b); appending = 0 < uqOffset u in
      case uqExpected u of
        Some n \<Rightarrow>
          if 0 < n \<and> uqOffset u = n then (case ubFault body of None \<Rightarrow> return_op () | Some e \<Rightarrow> throw_op e)
          else bind_op (rmShell r) (\<lambda>posix. if posix then rmExec r (cat_command appending part) body else rmPipe r part appending (uqOffset u) body)
      | None \<Rightarrow> bind_op (rmShell r) (\<lambda>posix. if posix then rmExec r (cat_command appending part) body else rmPipe r part appending (uqOffset u) body))"

definition upload_steps :: "'w sftp_env \<Rightarrow> string \<Rightarrow> upload_request \<Rightarrow> ('w, string \<times> string \<times> int) op" where
  "upload_steps r part u =
     bind_op (statSize r part) (\<lambda>found.
     bind_op (readUploadMeta r (uqPath u)) (\<lambda>stored.
     let prefix = to_lower (trim (uqPrefix u)) in
     bind_op (guard_op (case uqExpected u of None \<Rightarrow> True | Some n \<Rightarrow> uqOffset u \<le> n) (ValidationError ''Ungueltiger Upload-Offset'')) (\<lambda>_.
     bind_op (check_resume r u prefix (part_size_of found) stored) (\<lambda>_.
     bind_op (write_part r part u) (\<lambda>_.
     bind_op (statSize r part) (\<lambda>after.
     bind_op (finalizeGuestUploadPart r part (uqPath u) (case uqExpected u of None \<Rightarrow> part_size_of after | Some n \<Rightarrow> n)) (\<lambda>n.
     bind_op (plain (guestFileName (uqPath u))) (\<lambda>name.
     return_op (uqPath u, name, n)))))))))"

definition parsed_path :: "string \<Rightarrow> ('w, string) op" where
  "parsed_path raw = validated (resolveGuestPath (if raw = [] then ''/'' else raw) None)"

definition sftpUploadFromStream :: "'w sftp_env \<Rightarrow> ssh_creds \<Rightarrow> upload_request \<Rightarrow> ('w, string \<times> string \<times> int) op" where
  "sftpUploadFromStream r creds u =
     bind_op (lift_op (parseSshAuth creds)) (\<lambda>auth.
     bind_op (parsed_path (uqPath u)) (\<lambda>path.
     let u' = u\<lparr>uqPath := path, uqOffset := max 0 (uqOffset u)\<rparr> in
     bind_op (plain (guestUploadPartPath path)) (\<lambda>part.
     bind_op (openSftp r auth) (\<lambda>_.
     catch_op (upload_steps r part u')
       (\<lambda>e. throw_op (if is_validation e then e else fileError e ''Upload fehlgeschlagen''))))))"

section \<open>A download\<close>

record download_head =
  dhDisposition :: string
  dhLength :: "int option"
  dhAmount :: int

text \<open>
  The headers, and how many bytes the body is to have: once the file is open the answer is given, and
  the body is fetched as it is sent, by the reads of the theory \<open>SftpReads\<close>.
\<close>

definition sftpDownloadResponse :: "'w sftp_env \<Rightarrow> ssh_creds \<Rightarrow> string \<Rightarrow> ('w, download_head) op" where
  "sftpDownloadResponse r creds raw =
     bind_op (lift_op (parseSshAuth creds)) (\<lambda>auth.
     bind_op (parsed_path raw) (\<lambda>path.
     bind_op (openSftp r auth) (\<lambda>_.
     catch_op
       (bind_op (rmStat r path) (\<lambda>a.
        bind_op (guard_op (modeType (faMode a) \<noteq> DirEntry) (ValidationError ''Ist ein Ordner'')) (\<lambda>_.
        bind_op (rmOpen r path) (\<lambda>_.
        bind_op (plain (guestFileName path)) (\<lambda>name.
        return_op \<lparr>dhDisposition = attachmentDisposition name, dhLength = (if 0 < faSize a then Some (faSize a) else None),
          dhAmount = max 0 (faSize a)\<rparr>)))))
       (\<lambda>e. throw_op (if is_validation e then e else fileError e ''SSH fehlgeschlagen'')))))"

section \<open>One operation\<close>

record file_request =
  frOp :: string
  frVia :: "string option"
  frKind :: guest_kind
  frNode :: "string option"
  frVmid :: int
  frCreds :: ssh_creds
  frPath :: string
  frTo :: "string option"
  frContent :: "string option"

datatype file_answer =
    Listed string "guest_file_entry list" "upload_partial list"
  | ReadBack string string nat string
  | Written string string nat
  | Done string
  | Renamed string string
  | PartState string int "string option" "int option"

definition bytes_text :: "8 word list \<Rightarrow> string" where
  "bytes_text ws = map (\<lambda>b. char_of (unat b)) ws"

text \<open>
  The codecs of the platform: base64 to bytes, bytes to base64, and base64 of UTF-8 to a text.
\<close>

record file_codec =
  fcDecode :: "string \<Rightarrow> 8 word list"
  fcEncode :: "string \<Rightarrow> string"
  fcText :: "string \<Rightarrow> string"

text \<open>A resolved path has a parent and a name, so their errors cannot happen here.\<close>

definition rename_guest :: "'w sftp_env \<Rightarrow> string \<Rightarrow> string \<Rightarrow> ('w, file_answer) op" where
  "rename_guest r path to' =
     bind_op (validated (resolveGuestPath to' None)) (\<lambda>dest.
     bind_op (plain (guestPathParent path)) (\<lambda>a.
     bind_op (plain (guestPathParent dest)) (\<lambda>b.
     bind_op (guard_op (a = b) (ValidationError ''Umbenennen nur im selben Ordner'')) (\<lambda>_.
     bind_op (renamePath r path dest) (\<lambda>_.
     bind_op (plain (guestFileName dest)) (\<lambda>name. return_op (Renamed dest name)))))))"

definition delete_guest_path :: "'w sftp_env \<Rightarrow> string \<Rightarrow> ('w, file_answer) op" where
  "delete_guest_path r path =
     bind_op (catch_op (remove_path r path) (\<lambda>e. if isMissingPath e then return_op () else throw_op e)) (\<lambda>_.
     bind_op (clearUploadSidecars r path) (\<lambda>_. return_op (Done path)))"

definition sftp_op :: "(string \<Rightarrow> 'k::linorder) \<Rightarrow> file_codec \<Rightarrow> 'w sftp_env \<Rightarrow> int \<Rightarrow> string \<Rightarrow> file_request \<Rightarrow> ('w, file_answer) op" where
  "sftp_op collate codec r now path i =
     (if frOp i = ''list'' then
        bind_op (listDir collate r path) (\<lambda>es. bind_op (collectUploadPartials r now path) (\<lambda>ps. return_op (Listed path es ps)))
      else if frOp i = ''read'' then
        bind_op (readFile r path) (\<lambda>bytes.
        bind_op (plain (guestFileName path)) (\<lambda>name. return_op (ReadBack path name (length bytes) (fcEncode codec bytes))))
      else if frOp i = ''write'' then
        bind_op (plain (decodeGuestFileContent (fcDecode codec) (opt_text (frContent i)) GUEST_FILE_MAX_BYTES)) (\<lambda>ws.
        bind_op (writeFile r path (bytes_text ws)) (\<lambda>_.
        bind_op (plain (guestFileName path)) (\<lambda>name. return_op (Written path name (length ws)))))
      else if frOp i = ''mkdir'' then bind_op (mkdir_path r path) (\<lambda>_. return_op (Done path))
      else if frOp i = ''delete'' then delete_guest_path r path
      else if frOp i = ''rename'' then rename_guest r path (opt_text (frTo i))
      else
        bind_op (plain (guestUploadPartPath path)) (\<lambda>part.
        bind_op (statSize r part) (\<lambda>n.
        bind_op (readUploadMeta r path) (\<lambda>meta.
        return_op (PartState path (part_size_of n) (map_option upPrefix meta) (map_option upSize meta))))))"

text \<open>The answer with the digits of the host key.\<close>

definition guestSftp ::
  "(string \<Rightarrow> 'k::linorder) \<Rightarrow> file_codec \<Rightarrow> 'w sftp_env \<Rightarrow> int \<Rightarrow> file_request \<Rightarrow> ('w, string \<times> file_answer) op" where
  "guestSftp collate codec r now i =
     bind_op (parsed_path (frPath i)) (\<lambda>path.
     bind_op (lift_op (parseSshAuth (frCreds i))) (\<lambda>auth.
     withSftp r auth (\<lambda>key. bind_op (sftp_op collate codec r now path i) (\<lambda>a. return_op (key, a)))))"

section \<open>Lemmas\<close>

lemma bind_return: "bind_op (return_op y) f = f y"
  by (simp add: bind_op_def return_op_def fun_eq_iff)

lemma plain_Inr: "plain (Inr v) = return_op v" "validated (Inr v) = return_op v"
  by (simp_all add: plain_def validated_def lift_op_def return_op_def fun_eq_iff)

lemma preserves_plain [preserve_intros]: "preserves I (plain r)" "preserves I (validated r)"
  unfolding plain_def validated_def by (intro preserve_intros)+

end
