(* ===== verification/UploadProperties.thy ===== *)
theory UploadProperties imports SftpFiles "HOL-Library.Sublist" begin

text \<open>
  An upload that breaks off and goes on: the part beside the destination stays a beginning of the file,
  and the destination is never half a file.
\<close>

section \<open>Triples\<close>

text \<open>
  From \<open>P\<close> the operation reaches \<open>Q\<close> with its value, or \<open>I\<close> with an error.
\<close>

definition triple :: "('s \<Rightarrow> bool) \<Rightarrow> ('s, 'a) op \<Rightarrow> ('a \<Rightarrow> 's \<Rightarrow> bool) \<Rightarrow> ('s \<Rightarrow> bool) \<Rightarrow> bool" where
  "triple P m Q I \<longleftrightarrow> (\<forall>w. P w \<longrightarrow> (case fst (m w) of Inr v \<Rightarrow> Q v (snd (m w)) | Inl e \<Rightarrow> I (snd (m w))))"

named_theorems triples \<open>operations with their triples\<close>

lemma triple_bind:
  assumes "triple P m R I" "\<And>v. triple (R v) (f v) Q I"
  shows "triple P (bind_op m f) Q I"
  unfolding triple_def
proof (intro allI impI)
  fix w assume "P w"
  with assms(1) have one: "case fst (m w) of Inr v \<Rightarrow> R v (snd (m w)) | Inl e \<Rightarrow> I (snd (m w))" by (simp add: triple_def)
  obtain res w1 where mw: "m w = (res, w1)" by (cases "m w")
  show "case fst (bind_op m f w) of Inl e \<Rightarrow> I (snd (bind_op m f w)) | Inr v \<Rightarrow> Q v (snd (bind_op m f w))"
  proof (cases res)
    case (Inr v)
    with one mw have "R v w1" by simp
    have run: "bind_op m f w = f v w1" by (simp add: bind_op_def mw Inr)
    from assms(2) [of v] \<open>R v w1\<close> show ?thesis unfolding run by (simp add: triple_def)
  next
    case (Inl e)
    then have run: "bind_op m f w = (Inl e, w1)" by (simp add: bind_op_def mw)
    from one show ?thesis unfolding run by (simp add: mw Inl)
  qed
qed

lemma triple_return: "(\<And>w. P w \<Longrightarrow> Q v w) \<Longrightarrow> triple P (return_op v) Q I"
  by (simp add: triple_def return_op_def)

lemma triple_throw: "(\<And>w. P w \<Longrightarrow> I w) \<Longrightarrow> triple P (throw_op e) Q I"
  by (simp add: triple_def throw_op_def)

lemma triple_guard: "(\<And>w. P w \<Longrightarrow> I w) \<Longrightarrow> triple P (guard_op c e) (\<lambda>_ w. P w \<and> c) I"
  by (simp add: guard_op_def triple_def return_op_def throw_op_def)

lemma triple_lift: "(\<And>w. P w \<Longrightarrow> I w) \<Longrightarrow> triple P (lift_op r) (\<lambda>v w. P w \<and> r = Inr v) I"
  by (auto simp: triple_def lift_op_def split: sum.split)

lemma triple_plain: "(\<And>w. P w \<Longrightarrow> I w) \<Longrightarrow> triple P (plain r) (\<lambda>v w. P w \<and> r = Inr v) I"
  by (cases r) (auto simp: plain_def triple_def lift_op_def)

lemma triple_validated: "(\<And>w. P w \<Longrightarrow> I w) \<Longrightarrow> triple P (validated r) (\<lambda>v w. P w \<and> r = Inr v) I"
  by (cases r) (auto simp: validated_def triple_def lift_op_def)

text \<open>A handler that throws, and one that goes on with a value.\<close>

lemma triple_rethrow: "triple P m Q I \<Longrightarrow> triple P (catch_op m (\<lambda>e. throw_op (g e))) Q I"
  unfolding triple_def catch_op_def throw_op_def by (auto split: sum.splits prod.splits)

lemma triple_weaken: "triple P m Q I \<Longrightarrow> (\<And>w. P' w \<Longrightarrow> P w) \<Longrightarrow> (\<And>v w. Q v w \<Longrightarrow> Q' v w) \<Longrightarrow> triple P' m Q' I"
  unfolding triple_def by (auto split: sum.splits)

section \<open>The server in the guest\<close>

text \<open>
  What the operations do to the files, as the protocol and POSIX say.  Any of them may fail;
  \<open>cat\<close> may stop after any number of bytes, and succeeds only after all of them.
\<close>

type_synonym 'w file_view = "'w \<Rightarrow> string \<Rightarrow> string option"

definition keeps_files :: "'w file_view \<Rightarrow> ('w, 'a) op \<Rightarrow> bool" where
  "keeps_files files m \<longleftrightarrow> (\<forall>w. files (snd (m w)) = files w)"

definition stat_law :: "'w sftp_env \<Rightarrow> 'w file_view \<Rightarrow> bool" where
  "stat_law r files \<longleftrightarrow> (\<forall>p w. case fst (rmStat r p w) of
      Inr a \<Rightarrow> map_option (int \<circ> length) (files w p) = Some (faSize a)
    | Inl e \<Rightarrow> isMissingPath e \<longrightarrow> files w p = None)"

definition unlink_law :: "'w sftp_env \<Rightarrow> 'w file_view \<Rightarrow> bool" where
  "unlink_law r files \<longleftrightarrow> (\<forall>p w. files (snd (rmUnlink r p w)) \<in> {files w, (files w)(p := None)})"

definition write_law :: "'w sftp_env \<Rightarrow> 'w file_view \<Rightarrow> bool" where
  "write_law r files \<longleftrightarrow> (\<forall>p b w q. q \<noteq> p \<longrightarrow> files (snd (rmWrite r p b w)) q = files w q)"

definition rename_law :: "'w sftp_env \<Rightarrow> 'w file_view \<Rightarrow> bool" where
  "rename_law r files \<longleftrightarrow> (\<forall>a b w. case fst (rmRename r a b w) of
      Inr _ \<Rightarrow> files w a \<noteq> None \<and> files (snd (rmRename r a b w)) = (files w)(b := files w a, a := None)
    | Inl e \<Rightarrow> files (snd (rmRename r a b w)) = files w)"

definition old_content :: "bool \<Rightarrow> string option \<Rightarrow> string" where
  "old_content appending content = (if appending then opt_text content else [])"

definition cat_law :: "'w sftp_env \<Rightarrow> 'w file_view \<Rightarrow> bool" where
  "cat_law r files \<longleftrightarrow> (\<forall>appending p b w.
      let w' = snd (rmExec r (cat_command appending p) b w);
          after = (\<lambda>n. (files w)(p := Some (old_content appending (files w p) @ take n (ubBytes b))))
      in case fst (rmExec r (cat_command appending p) b w) of
           Inr _ \<Rightarrow> ubFault b = None \<and> files w' = after (length (ubBytes b))
         | Inl e \<Rightarrow> files w' = files w \<or> (\<exists>n. files w' = after n))"

definition sftp_laws :: "'w sftp_env \<Rightarrow> 'w file_view \<Rightarrow> bool" where
  "sftp_laws r files \<longleftrightarrow>
     (\<forall>h a. keeps_files files (rmConnect r h a)) \<and> (\<forall>p. keeps_files files (rmStat r p)) \<and> (\<forall>p. keeps_files files (rmRead r p))
     \<and> keeps_files files (rmShell r) \<and> (\<forall>w. fst (rmShell r w) = Inr True)
     \<and> stat_law r files \<and> unlink_law r files \<and> write_law r files \<and> rename_law r files \<and> cat_law r files"

section \<open>The invariant of an upload\<close>

text \<open>
  \<open>base\<close> holds the files before the first attempt.  Only the destination, its part and its note
  change; the destination keeps its old content, is missing, or is the whole file; the part is a beginning of it.
\<close>

definition upload_ok :: "(string \<Rightarrow> string option) \<Rightarrow> string \<Rightarrow> string \<Rightarrow> string \<Rightarrow> (string \<Rightarrow> string option) \<Rightarrow> bool" where
  "upload_ok base path part F fs \<longleftrightarrow>
     (\<forall>q. q \<notin> {path, part, part @ ''.meta''} \<longrightarrow> fs q = base q)
     \<and> fs path \<in> {base path, None, Some F}
     \<and> (case fs part of None \<Rightarrow> True | Some x \<Rightarrow> prefix x F)"

lemma upload_ok_drop: "upload_ok base path part F fs \<Longrightarrow> q \<in> {path, part, part @ ''.meta''} \<Longrightarrow> upload_ok base path part F (fs(q := None))"
  by (auto simp: upload_ok_def split: option.splits)

lemma upload_ok_meta:
  "upload_ok base path part F fs \<Longrightarrow> (\<And>q. q \<noteq> part @ ''.meta'' \<Longrightarrow> fs' q = fs q) \<Longrightarrow> path \<noteq> part @ ''.meta'' \<Longrightarrow> upload_ok base path part F fs'"
  by (auto simp: upload_ok_def split: option.splits)

lemma upload_ok_part: "upload_ok base path part F fs \<Longrightarrow> path \<noteq> part \<Longrightarrow> prefix x F \<Longrightarrow> upload_ok base path part F (fs(part := Some x))"
  by (auto simp: upload_ok_def)

lemma upload_ok_rename: "upload_ok base path part F fs \<Longrightarrow> path \<noteq> part \<Longrightarrow> upload_ok base path part F (fs(path := Some F, part := None))"
  by (auto simp: upload_ok_def)

lemma triple_quiet: "keeps_files files m \<Longrightarrow> triple (\<lambda>w. P (files w)) m (\<lambda>_ w. P (files w)) (\<lambda>w. P (files w))"
  by (auto simp: triple_def keeps_files_def split: sum.split)

section \<open>Steps\<close>

lemma quiet_iff: "keeps_files files m \<longleftrightarrow> (\<forall>fs. preserves (\<lambda>w. files w = fs) m)"
  by (auto simp: keeps_files_def preserves_def)

lemma quiet_preserves: "keeps_files files m \<Longrightarrow> preserves (\<lambda>w. files w = fs) m"
  by (simp add: quiet_iff)

lemma laws_quiet:
  assumes "sftp_laws r files"
  shows "preserves (\<lambda>w. files w = fs) (rmStat r p)" "preserves (\<lambda>w. files w = fs) (rmRead r p)"
    "preserves (\<lambda>w. files w = fs) (rmConnect r h a)"
  using assms by (auto simp: sftp_laws_def intro!: quiet_preserves)

lemma quiet_meta: "sftp_laws r files \<Longrightarrow> keeps_files files (readUploadMeta r p)"
  unfolding quiet_iff readUploadMeta_def readFile_def by (intro allI preserve_intros laws_quiet)

lemma quiet_open: "sftp_laws r files \<Longrightarrow> keeps_files files (openSftp r auth)"
  unfolding quiet_iff openSftp_def by (intro allI preserve_intros laws_quiet)

lemma triple_statSize:
  assumes "sftp_laws r files"
  shows "triple (\<lambda>w. P (files w)) (statSize r p) (\<lambda>n w. P (files w) \<and> n = map_option (int \<circ> length) (files w p)) (\<lambda>w. P (files w))"
  unfolding triple_def
proof (intro allI impI)
  fix w assume P: "P (files w)"
  have q: "files (snd (rmStat r p w)) = files w" using assms by (simp add: sftp_laws_def keeps_files_def)
  have s: "case fst (rmStat r p w) of
      Inr a \<Rightarrow> map_option (int \<circ> length) (files w p) = Some (faSize a) | Inl e \<Rightarrow> isMissingPath e \<longrightarrow> files w p = None"
    using assms by (simp add: sftp_laws_def stat_law_def)
  obtain res w1 where m: "rmStat r p w = (res, w1)" by (cases "rmStat r p w")
  show "case fst (statSize r p w) of Inl e \<Rightarrow> P (files (snd (statSize r p w)))
      | Inr n \<Rightarrow> P (files (snd (statSize r p w))) \<and> n = map_option (int \<circ> length) (files (snd (statSize r p w)) p)"
  proof (cases res)
    case (Inr a)
    have run: "statSize r p w = (Inr (Some (faSize a)), w1)" by (simp add: statSize_def catch_op_def bind_op_def return_op_def m Inr)
    show ?thesis unfolding run using P q s by (auto simp: m Inr)
  next
    case (Inl e)
    have run: "statSize r p w = (if isMissingPath e then (Inr None, w1) else (Inl e, w1))"
      by (simp add: statSize_def catch_op_def bind_op_def return_op_def throw_op_def m Inl)
    show ?thesis unfolding run using P q s by (simp add: m Inl)
  qed
qed

lemma triple_unlink:
  assumes "sftp_laws r files" "\<And>fs. P fs \<Longrightarrow> P (fs(p := None))"
  shows "triple (\<lambda>w. P (files w)) (unlinkQuiet r p) (\<lambda>_ w. P (files w)) I"
  unfolding triple_def
proof (intro allI impI)
  fix w assume P: "P (files w)"
  have "files (snd (rmUnlink r p w)) \<in> {files w, (files w)(p := None)}" using assms(1) by (simp add: sftp_laws_def unlink_law_def)
  with P assms(2) have "P (files (snd (rmUnlink r p w)))" by auto
  moreover have "fst (unlinkQuiet r p w) = Inr ()" "snd (unlinkQuiet r p w) = snd (rmUnlink r p w)"
    by (auto simp: unlinkQuiet_def catch_op_def return_op_def split: prod.split sum.split)
  ultimately show "case fst (unlinkQuiet r p w) of Inl e \<Rightarrow> I (snd (unlinkQuiet r p w)) | Inr v \<Rightarrow> P (files (snd (unlinkQuiet r p w)))"
    by simp
qed

text \<open>The paths of an upload whose destination is no part itself.\<close>

definition upload_paths :: "string \<Rightarrow> string \<Rightarrow> bool" where
  "upload_paths path part \<longleftrightarrow> guestUploadPartPath path = Inr part \<and> part = path @ GUEST_UPLOAD_PART_SUFFIX"

lemma upload_paths_distinct:
  assumes "upload_paths path part"
  shows "path \<noteq> part" "part \<noteq> path" "path \<noteq> part @ ''.meta''" "guestUploadPartPath path = Inr part"
    "guestUploadMetaPath path = Inr (part @ ''.meta'')"
  using assms by (auto simp: upload_paths_def GUEST_UPLOAD_PART_SUFFIX_def guestUploadMetaPath_def)

lemma triple_clear:
  assumes "sftp_laws r files" "upload_paths path part"
  shows "triple (\<lambda>w. upload_ok base path part F (files w)) (clearUploadSidecars r path)
    (\<lambda>_ w. upload_ok base path part F (files w)) (\<lambda>w. upload_ok base path part F (files w))"
proof -
  note d = upload_paths_distinct [OF assms(2)]
  have u: "triple (\<lambda>w. upload_ok base path part F (files w)) (unlinkQuiet r q)
      (\<lambda>_ w. upload_ok base path part F (files w)) (\<lambda>w. upload_ok base path part F (files w))"
    if "q \<in> {path, part, part @ ''.meta''}" for q
    by (rule triple_unlink [OF assms(1)]) (rule upload_ok_drop [OF _ that])
  show ?thesis
    unfolding clearUploadSidecars_def d(4,5) plain_Inr bind_return by (rule triple_bind; rule u) simp_all
qed

lemma triple_write_meta:
  assumes "sftp_laws r files" "upload_paths path part"
  shows "triple (\<lambda>w. upload_ok base path part F (files w)) (writeUploadMeta r path i)
    (\<lambda>_ w. upload_ok base path part F (files w)) (\<lambda>w. upload_ok base path part F (files w))"
proof -
  note d = upload_paths_distinct [OF assms(2)]
  have "upload_ok base path part F (files (snd (rmWrite r (part @ ''.meta'') b w)))" if "upload_ok base path part F (files w)" for b w
    by (rule upload_ok_meta [OF that _ d(3)]) (use assms(1) in \<open>simp add: sftp_laws_def write_law_def\<close>)
  then show ?thesis
    by (auto simp: writeUploadMeta_def writeFile_def d plain_Inr bind_return triple_def bind_op_def lift_op_def guard_op_def throw_op_def return_op_def
        split: sum.split)
qed

text \<open>What holds before the bytes are written.\<close>

definition resumable :: "upload_request \<Rightarrow> string \<Rightarrow> (string \<Rightarrow> string option) \<Rightarrow> bool" where
  "resumable u part fs \<longleftrightarrow> 0 < uqOffset u \<longrightarrow> map_option (int \<circ> length) (fs part) = Some (uqOffset u)"

lemma triple_check:
  assumes "sftp_laws r files" "upload_paths (uqPath u) part" "0 \<le> uqOffset u"
  shows "triple (\<lambda>w. upload_ok base (uqPath u) part F (files w) \<and> have' = part_size_of (map_option (int \<circ> length) (files w part)))
    (check_resume r u pre have' stored) (\<lambda>_ w. upload_ok base (uqPath u) part F (files w) \<and> resumable u part (files w))
    (\<lambda>w. upload_ok base (uqPath u) part F (files w))" (is "triple ?P _ ?Q ?I")
proof (cases "uqOffset u = 0")
  case True
  have q: "triple ?I m (\<lambda>_. ?I) ?I \<Longrightarrow> triple ?I m ?Q ?I" for m :: "('a, unit) op"
    by (erule triple_weaken) (auto simp: resumable_def True)
  have meta: "triple ?I (case uqExpected u of Some n \<Rightarrow> when_op (pre \<noteq> []) (writeUploadMeta r (uqPath u) \<lparr>upSize = n, upPrefix = pre\<rparr>)
      | None \<Rightarrow> return_op ()) (\<lambda>_. ?I) ?I"
    using triple_write_meta [OF assms(1,2), of base F] by (auto simp: when_op_def intro!: triple_return split: option.split)
  have "triple ?I (check_resume r u pre have' stored) ?Q ?I"
    unfolding check_resume_def if_P [OF True] by (rule triple_bind [OF triple_clear [OF assms(1,2)] q [OF meta]])
  then show ?thesis by (rule triple_weaken) auto
next
  case False
  with assms(3) have pos: "0 < uqOffset u" by simp
  have "?Q () w" if "?P w" "have' = uqOffset u" for w
    using that pos by (auto simp: resumable_def part_size_of_def split: option.splits)
  then show ?thesis
    using False by (auto simp: check_resume_def triple_def throw_op_def return_op_def guard_op_def split: option.split)
qed

text \<open>The bytes of an attempt: a beginning of what is left of the file.\<close>

definition sends_rest :: "string \<Rightarrow> upload_request \<Rightarrow> bool" where
  "sends_rest F u \<longleftrightarrow>
     uqExpected u = Some (int (length F))
     \<and> (case uqBody u of None \<Rightarrow> True | Some b \<Rightarrow> prefix (ubBytes b) (drop (nat (uqOffset u)) F))"

lemma rest_extends:
  assumes "prefix x F" "prefix b (drop (length x) F)"
  shows "prefix (x @ take n b) F"
proof -
  have "prefix (take n b) (drop (length x) F)" using assms(2) take_is_prefix prefix_order.trans by blast
  then have "prefix (x @ take n b) (x @ drop (length x) F)" by simp
  moreover have "x @ drop (length x) F = F" using assms(1) by (auto elim: prefixE)
  ultimately show ?thesis by simp
qed

lemma triple_write_part:
  assumes "sftp_laws r files" "upload_paths (uqPath u) part" "0 \<le> uqOffset u" "sends_rest F u"
  shows "triple (\<lambda>w. upload_ok base (uqPath u) part F (files w) \<and> resumable u part (files w)) (write_part r part u)
    (\<lambda>_ w. upload_ok base (uqPath u) part F (files w)) (\<lambda>w. upload_ok base (uqPath u) part F (files w))" (is "triple ?P _ ?Q ?I")
proof -
  define b where "b = (case uqBody u of None \<Rightarrow> empty_body | Some b \<Rightarrow> b)"
  define appending where "appending = (0 < uqOffset u)"
  have rest: "prefix (ubBytes b) (drop (nat (uqOffset u)) F)"
    using assms(4) by (auto simp: sends_rest_def b_def empty_body_def split: option.splits)
  have after: "upload_ok base (uqPath u) part F ((files w)(part := Some (old_content appending (files w part) @ take n (ubBytes b))))"
    if "?P w" for w n
  proof (rule upload_ok_part)
    show "prefix (old_content appending (files w part) @ take n (ubBytes b)) F"
    proof (rule rest_extends)
      show "prefix (old_content appending (files w part)) F"
        using that by (auto simp: old_content_def opt_text_def upload_ok_def split: option.splits)
      have "length (old_content appending (files w part)) = nat (uqOffset u)"
        using that assms(3) by (cases "files w part") (auto simp: old_content_def opt_text_def resumable_def appending_def)
      with rest show "prefix (ubBytes b) (drop (length (old_content appending (files w part))) F)" by simp
    qed
  qed (use that upload_paths_distinct [OF assms(2)] in auto)
  have cat: "triple ?P (rmExec r (cat_command appending part) b) (\<lambda>_. ?I) ?I"
    unfolding triple_def
  proof (intro allI impI)
    fix w assume P: "?P w"
    let ?run = "rmExec r (cat_command appending part) b w"
    have "case fst ?run of
        Inr _ \<Rightarrow> ubFault b = None \<and> files (snd ?run) = (files w)(part := Some (old_content appending (files w part) @ take (length (ubBytes b)) (ubBytes b)))
      | Inl e \<Rightarrow> files (snd ?run) = files w \<or> (\<exists>n. files (snd ?run) = (files w)(part := Some (old_content appending (files w part) @ take n (ubBytes b))))"
      using assms(1) by (simp only: sftp_laws_def cat_law_def Let_def)
    with P after [OF P] have "?I (snd ?run)" by (cases "fst ?run") (auto simp del: take_all)
    then show "case fst ?run of Inl e \<Rightarrow> ?I (snd ?run) | Inr v \<Rightarrow> ?I (snd ?run)" by (simp split: sum.split)
  qed
  have shell: "triple ?P (rmShell r) (\<lambda>posix w. ?P w \<and> posix) ?I"
  proof -
    have "files (snd (rmShell r w)) = files w" "fst (rmShell r w) = Inr True" for w
      using assms(1) by (simp_all add: sftp_laws_def keeps_files_def)
    then show ?thesis by (simp add: triple_def)
  qed
  have go: "triple ?P (bind_op (rmShell r) (\<lambda>posix. if posix then rmExec r (cat_command appending part) b else m)) (\<lambda>_. ?I) ?I" for m
  proof (rule triple_bind [OF shell])
    show "triple (\<lambda>w. ?P w \<and> posix) (if posix then rmExec r (cat_command appending part) b else m) (\<lambda>_. ?I) ?I" for posix
      by (cases posix) (use cat in \<open>auto simp: triple_def\<close>)
  qed
  have skip: "triple ?P (case ubFault b of None \<Rightarrow> return_op () | Some e \<Rightarrow> throw_op e) (\<lambda>_. ?I) ?I"
    by (auto intro!: triple_return triple_throw split: option.split)
  have n: "uqExpected u = Some (int (length F))" using assms(4) by (simp add: sends_rest_def)
  show ?thesis
    unfolding write_part_def Let_def n option.case b_def [symmetric] appending_def [symmetric] using go skip by simp
qed

text \<open>Only a part that is the whole file takes the place of the destination.\<close>

lemma triple_rename:
  assumes "sftp_laws r files" "upload_paths path part"
  shows "triple (\<lambda>w. upload_ok base path part F (files w) \<and> (files w part \<noteq> None \<longrightarrow> files w part = Some F)) (rmRename r part path)
    (\<lambda>_ w. upload_ok base path part F (files w) \<and> files w path = Some F) (\<lambda>w. upload_ok base path part F (files w))"
  unfolding triple_def
proof (intro allI impI, elim conjE)
  fix w assume ok: "upload_ok base path part F (files w)" and whole: "files w part \<noteq> None \<longrightarrow> files w part = Some F"
  let ?run = "rmRename r part path w"
  note d = upload_paths_distinct [OF assms(2)]
  have law: "case fst ?run of
      Inr _ \<Rightarrow> files w part \<noteq> None \<and> files (snd ?run) = (files w)(path := files w part, part := None)
    | Inl e \<Rightarrow> files (snd ?run) = files w"
    using assms(1) by (simp add: sftp_laws_def rename_law_def)
  show "case fst ?run of Inl e \<Rightarrow> upload_ok base path part F (files (snd ?run))
      | Inr v \<Rightarrow> upload_ok base path part F (files (snd ?run)) \<and> files (snd ?run) path = Some F"
    using law ok whole upload_ok_rename [OF ok d(1)] d(1) by (cases "fst ?run") auto
qed

lemma part_whole:
  assumes "upload_ok base path part F fs" "part_size_of (map_option (int \<circ> length) (fs part)) = int (length F)"
  shows "fs part \<noteq> None \<longrightarrow> fs part = Some F"
  using assms by (auto simp: upload_ok_def part_size_of_def elim!: prefixE split: option.splits)

lemma triple_finalize:
  assumes "sftp_laws r files" "upload_paths path part"
  shows "triple (\<lambda>w. upload_ok base path part F (files w)) (finalizeGuestUploadPart r part path (int (length F)))
    (\<lambda>n w. upload_ok base path part F (files w) \<and> files w path = Some F \<and> n = int (length F)) (\<lambda>w. upload_ok base path part F (files w))"
proof -
  note d = upload_paths_distinct [OF assms(2)]
  let ?I = "\<lambda>w. upload_ok base path part F (files w)"
  let ?W = "\<lambda>w. ?I w \<and> (files w part \<noteq> None \<longrightarrow> files w part = Some F)"
  let ?D = "\<lambda>w. ?I w \<and> files w path = Some F"
  have moved: "triple ?W (bind_op (unlinkQuiet r path) (\<lambda>_. rmRename r part path)) (\<lambda>_. ?D) ?I"
    by (rule triple_bind [OF triple_unlink [OF assms(1)] triple_rename [OF assms]])
      (use d upload_ok_drop [of base path part F _ path] in \<open>auto simp: fun_upd_def\<close>)
  have cleared: "triple ?D (unlinkQuiet r (part @ ''.meta'')) (\<lambda>_. ?D) ?I"
    by (rule triple_unlink [OF assms(1)])
      (use d upload_ok_drop [of base path part F _ "part @ ''.meta''"] in \<open>auto simp: fun_upd_def\<close>)
  have rest: "triple (\<lambda>w. ?I w \<and> found = map_option (int \<circ> length) (files w part))
      (bind_op (guard_op (part_size_of found = int (length F)) (incomplete (part_size_of found) (int (length F)))) (\<lambda>_.
       bind_op (if part \<noteq> path then bind_op (unlinkQuiet r path) (\<lambda>_. rmRename r part path) else return_op ()) (\<lambda>_.
       bind_op (plain (guestUploadMetaPath path)) (\<lambda>meta.
       bind_op (unlinkQuiet r meta) (\<lambda>_. return_op (part_size_of found))))))
      (\<lambda>n w. ?D w \<and> n = int (length F)) ?I" for found
    unfolding d(5) plain_Inr bind_return if_P [OF d(2)]
  proof (rule triple_bind [OF triple_guard])
    show "triple (\<lambda>w. (?I w \<and> found = map_option (int \<circ> length) (files w part)) \<and> part_size_of found = int (length F))
        (bind_op (bind_op (unlinkQuiet r path) (\<lambda>_. rmRename r part path)) (\<lambda>_.
         bind_op (unlinkQuiet r (part @ ''.meta'')) (\<lambda>_. return_op (part_size_of found))))
        (\<lambda>n w. ?D w \<and> n = int (length F)) ?I" for v
    proof (cases "part_size_of found = int (length F)")
      case True
      then have size: "part_size_of found = int (length F)" .
      show ?thesis
        unfolding size
        by (rule triple_bind [OF triple_weaken [OF moved] triple_bind [OF cleared triple_return]]) (use part_whole size in auto)
    qed (simp add: triple_def)
  qed simp
  show ?thesis
    unfolding finalizeGuestUploadPart_def Let_def
    by (rule triple_weaken [OF triple_bind [OF triple_statSize [OF assms(1), of "\<lambda>fs. upload_ok base path part F fs"] rest]]) auto
qed

lemma triple_steps:
  assumes "sftp_laws r files" "upload_paths (uqPath u) part" "0 \<le> uqOffset u" "sends_rest F u"
  shows "triple (\<lambda>w. upload_ok base (uqPath u) part F (files w)) (upload_steps r part u)
    (\<lambda>(p, nm, n) w. upload_ok base (uqPath u) part F (files w) \<and> files w (uqPath u) = Some F \<and> n = int (length F))
    (\<lambda>w. upload_ok base (uqPath u) part F (files w))"
proof -
  let ?ok = "upload_ok base (uqPath u) part F"
  let ?I = "\<lambda>w. ?ok (files w)"
  have n: "uqExpected u = Some (int (length F))" using assms(4) by (simp add: sends_rest_def)
  have finish: "triple ?I (bind_op (finalizeGuestUploadPart r part (uqPath u) (int (length F))) (\<lambda>n.
       bind_op (plain (guestFileName (uqPath u))) (\<lambda>name. return_op (uqPath u, name, n))))
      (\<lambda>(p, nm, n) w. ?I w \<and> files w (uqPath u) = Some F \<and> n = int (length F)) ?I"
    by (rule triple_bind [OF triple_finalize [OF assms(1,2)] triple_bind [OF triple_plain triple_return]]) auto
  have size: "triple ?I (statSize r part) (\<lambda>_. ?I) ?I"
    by (rule triple_weaken [OF triple_statSize [OF assms(1), of ?ok]]) auto
  have meta: "triple (\<lambda>w. ?I w \<and> found = map_option (int \<circ> length) (files w part)) (readUploadMeta r (uqPath u))
      (\<lambda>_ w. ?I w \<and> found = map_option (int \<circ> length) (files w part)) ?I" for found
    using triple_quiet [OF quiet_meta [OF assms(1)], of "\<lambda>fs. ?ok fs \<and> found = map_option (int \<circ> length) (fs part)" "uqPath u"]
    by (auto simp: triple_def split: sum.splits)
  have check: "triple (\<lambda>w. ?I w \<and> found = map_option (int \<circ> length) (files w part))
      (check_resume r u pre (part_size_of found) stored) (\<lambda>_ w. ?I w \<and> resumable u part (files w)) ?I" for found pre stored
    by (rule triple_weaken [OF triple_check [OF assms(1-3)]]) auto
  have guarded: "triple P (guard_op c e) (\<lambda>_. P) ?I" if "\<And>w. P w \<Longrightarrow> ?I w" for P c e
    using that by (auto simp: triple_def guard_op_def return_op_def throw_op_def)
  show ?thesis
    unfolding upload_steps_def Let_def n option.case
    by (rule triple_bind [OF triple_statSize [OF assms(1), of ?ok]], rule triple_bind [OF meta], rule triple_bind [OF guarded], simp,
        rule triple_bind [OF check], rule triple_bind [OF triple_write_part [OF assms]], rule triple_bind [OF size finish])
qed

definition attempt_for :: "string \<Rightarrow> string \<Rightarrow> upload_request \<Rightarrow> bool" where
  "attempt_for path F u \<longleftrightarrow> resolveGuestPath (if uqPath u = [] then ''/'' else uqPath u) None = Inr path \<and> sends_rest F u"

lemma triple_upload:
  assumes "sftp_laws r files" "upload_paths path part" "attempt_for path F u"
  shows "triple (\<lambda>w. upload_ok base path part F (files w)) (sftpUploadFromStream r creds u)
    (\<lambda>(p, nm, n) w. upload_ok base path part F (files w) \<and> files w path = Some F \<and> n = int (length F))
    (\<lambda>w. upload_ok base path part F (files w))"
proof -
  let ?I = "\<lambda>w. upload_ok base path part F (files w)" and ?u = "u\<lparr>uqPath := path, uqOffset := max 0 (uqOffset u)\<rparr>"
  have g: "parsed_path (uqPath u) = return_op path"
    using assms(3) by (simp only: parsed_path_def attempt_for_def plain_Inr)
  have steps: "triple ?I (upload_steps r part ?u) (\<lambda>(p, nm, n) w. ?I w \<and> files w path = Some F \<and> n = int (length F)) ?I"
  proof -
    have off: "nat (max 0 (uqOffset u)) = nat (uqOffset u)" by simp
    have "sends_rest F ?u" using assms(3) by (auto simp: attempt_for_def sends_rest_def off split: option.splits)
    then show ?thesis using triple_steps [OF assms(1), of ?u part F base] assms(2) by simp
  qed
  have opened: "triple ?I (openSftp r auth) (\<lambda>_. ?I) ?I" for auth
    by (rule triple_quiet [OF quiet_open [OF assms(1)]])
  have parsed: "triple ?I (lift_op (parseSshAuth creds)) (\<lambda>_. ?I) ?I"
    by (auto simp: triple_def lift_op_def split: sum.split)
  show ?thesis
    unfolding sftpUploadFromStream_def g bind_return Let_def upload_paths_distinct(4) [OF assms(2)] plain_Inr
    by (rule triple_bind [OF parsed], rule triple_bind [OF opened], rule triple_rethrow, rule steps)
qed

text \<open>The files after a number of attempts.\<close>

definition after_attempts :: "'w sftp_env \<Rightarrow> ssh_creds \<Rightarrow> upload_request list \<Rightarrow> 'w \<Rightarrow> 'w" where
  "after_attempts r creds us w = foldl (\<lambda>w u. snd (sftpUploadFromStream r creds u w)) w us"

lemma attempts_keep:
  assumes "sftp_laws r files" "upload_paths path part"
  shows "list_all (attempt_for path F) us \<Longrightarrow> upload_ok base path part F (files w) \<Longrightarrow>
    upload_ok base path part F (files (after_attempts r creds us w))"
proof (induction us arbitrary: w)
  case (Cons u us)
  then have "upload_ok base path part F (files (snd (sftpUploadFromStream r creds u w)))"
    using triple_upload [OF assms, of F u base creds]
    by (cases "fst (sftpUploadFromStream r creds u w)") (fastforce simp: triple_def)+
  with Cons show ?case by (simp add: after_attempts_def)
qed (simp add: after_attempts_def)

lemma upload_pathsI:
  assumes "resolveGuestPath raw None = Inr path" "guestUploadPartPath path = Inr part" "part \<noteq> path"
  shows "upload_paths path part"
proof -
  obtain parts where "list_all plain_seg parts" "path = path_of parts" "length path \<le> GUEST_FILE_MAX_PATH"
    using resolve_canonical [OF assms(1)] by blast
  then have "resolveGuestPath path None = Inr path" using resolve_path_of by simp
  with assms(2,3) show ?thesis by (auto simp: upload_paths_def guestUploadPartPath_def split: sum.splits if_splits)
qed


section \<open>An example\<close>

text \<open>A guest whose files are the state, and whose shell knows only this one command.\<close>

definition demo_cat :: "string \<Rightarrow> (bool \<times> string) option" where
  "demo_cat cmd =
     (let appending = starts_with cmd ''umask 022 && cat >>''; p = butlast (drop (if appending then 21 else 20) cmd) in
      if quote \<in> set p then None else Some (appending, p))"

lemma demo_cat_command: "demo_cat (cat_command appending p) = (if quote \<in> set p then None else Some (appending, p))"
proof -
  have "replace_char quote [quote, backslash, quote, quote] p = p" if "quote \<notin> set p" using that by (rule replace_char_id)
  moreover have "quote \<in> set (replace_char quote [quote, backslash, quote, quote] p)" if "quote \<in> set p"
    using that by (auto simp: replace_char_def)
  ultimately show ?thesis
    by (cases appending) (auto simp: demo_cat_def cat_command_def shSingleQuote_def Let_def starts_with_def)
qed

definition demo_missing :: js_error where "demo_missing = ssh_error ''No such file'' ''2''"

definition demo_exec :: "string \<Rightarrow> upload_body \<Rightarrow> (string \<Rightarrow> string option, unit) op" where
  "demo_exec cmd b w =
     (case demo_cat cmd of None \<Rightarrow> (Inl (ssh_error ''Unable to exec'' []), w)
      | Some (appending, p) \<Rightarrow>
          (case ubFault b of None \<Rightarrow> Inr () | Some e \<Rightarrow> Inl e,
           w(p := Some (old_content appending (w p) @ ubBytes b))))"

definition demo_remote :: "(string \<Rightarrow> string option) sftp_env" where
  "demo_remote =
     \<lparr>rmConnect = (\<lambda>h a. return_op ''00ff''),
      rmStat = (\<lambda>p w. (case w p of None \<Rightarrow> Inl demo_missing
        | Some b \<Rightarrow> Inr \<lparr>faSize = int (length b), faMtime = None, faMode = 33188\<rparr>, w)),
      rmReaddir = (\<lambda>p. return_op []),
      rmRead = (\<lambda>p w. (case w p of None \<Rightarrow> Inl demo_missing | Some b \<Rightarrow> Inr b, w)),
      rmOpen = (\<lambda>p. return_op ()),
      rmWrite = (\<lambda>p b w. (Inr (), w(p := Some b))),
      rmMkdir = (\<lambda>p. return_op ()), rmRmdir = (\<lambda>p. return_op ()),
      rmUnlink = (\<lambda>p w. (if w p = None then Inl demo_missing else Inr (), w(p := None))),
      rmRename = (\<lambda>a b w. if w a = None then (Inl demo_missing, w) else (Inr (), w(b := w a, a := None))),
      rmShell = return_op True, rmExec = demo_exec,
      rmPipe = (\<lambda>p appending off b. throw_op demo_missing)\<rparr>"

lemma demo_laws: "sftp_laws demo_remote (\<lambda>w. w)"
proof -
  have "\<exists>n. ubBytes b = take n (ubBytes b)" for b by (rule exI [of _ "length (ubBytes b)"]) simp
  then have cut: "\<exists>n. w(p \<mapsto> s @ ubBytes b) = w(p \<mapsto> s @ take n (ubBytes b))" for w :: "string \<Rightarrow> string option" and p s b by metis
  have "cat_law demo_remote (\<lambda>w. w)"
    unfolding cat_law_def demo_remote_def Let_def
    by (auto simp: demo_exec_def demo_cat_command cut split: option.splits)
  then show ?thesis
    by (auto simp: sftp_laws_def keeps_files_def stat_law_def unlink_law_def write_law_def rename_law_def demo_remote_def return_op_def
        split: option.split)
qed

definition demo_creds :: ssh_creds where
  "demo_creds = \<lparr>crTarget = Some ''10.0.0.5'', crPort = JUndef, crUsername = Some ''root'', crPassword = Some ''pw'',
     crPrivateKey = None, crPassphrase = None\<rparr>"

definition demo_upload :: "int \<Rightarrow> string \<Rightarrow> js_error option \<Rightarrow> upload_request" where
  "demo_upload off bytes fault =
     \<lparr>uqPath = ''/root/a'', uqBody = Some \<lparr>ubBytes = bytes, ubFault = fault\<rparr>, uqExpected = Some 6, uqOffset = off, uqPrefix = []\<rparr>"

lemma demo_part: "guestUploadPartPath ''/root/a'' = Inr ''/root/a.proxora-part''"
  by code_simp

lemma demo_attempts:
  "attempt_for ''/root/a'' ''abcdef'' (demo_upload 0 ''abc'' (Some (OtherError ''gone'')))"
  "attempt_for ''/root/a'' ''abcdef'' (demo_upload 3 ''def'' None)"
  by code_simp+

definition demo_world :: "string \<Rightarrow> string option" where
  "demo_world = (\<lambda>p. if p = ''/root/a'' then Some ''old'' else None)"

text \<open>The first attempt breaks off after three bytes, the second goes on there and ends.\<close>

definition demo_resumed :: "(js_error + string \<times> string \<times> int) \<times> (string \<Rightarrow> string option)" where
  "demo_resumed = sftpUploadFromStream demo_remote demo_creds (demo_upload 3 ''def'' None)
     (after_attempts demo_remote demo_creds [demo_upload 0 ''abc'' (Some (OtherError ''gone''))] demo_world)"

lemma demo_facts:
  "parseSshAuth demo_creds = Inr \<lparr>ssTarget = ''10.0.0.5'', ssPort = 22, ssUsername = ''root'', ssPassword = ''pw'', ssPrivateKey = [],
     ssPassphrase = []\<rparr>"
  "isAllowedSftpTarget ''10.0.0.5'' = Inr ''10.0.0.5''"
  "resolveGuestPath ''/root/a'' None = Inr ''/root/a''"
  "guestFileName ''/root/a'' = Inr ''a''"
  "guestUploadMetaPath ''/root/a'' = Inr ''/root/a.proxora-part.meta''"
  "isMissingPath demo_missing" "to_lower (trim []) = []" "is_validation (OtherError ''gone'') = False"
  by code_simp+

lemma demo_meta: "w ''/root/a.proxora-part.meta'' = None \<Longrightarrow> readUploadMeta demo_remote ''/root/a'' w = (Inr None, w)"
  by (simp add: readUploadMeta_def readFile_def demo_facts plain_Inr bind_return demo_remote_def catch_op_def bind_op_def return_op_def)

lemma demo_open: "openSftp demo_remote \<lparr>ssTarget = ''10.0.0.5'', ssPort = 22, ssUsername = ''root'', ssPassword = ''pw'', ssPrivateKey = [],
     ssPassphrase = []\<rparr> w = (Inr ''00ff'', w)"
  by (simp add: openSftp_def demo_facts plain_Inr bind_return demo_remote_def catch_op_def bind_op_def return_op_def)

lemma demo_exec_run: "demo_exec (cat_command appending ''/root/a.proxora-part'') b w =
    (case ubFault b of None \<Rightarrow> Inr () | Some e \<Rightarrow> Inl e, w(''/root/a.proxora-part'' := Some (old_content appending (w ''/root/a.proxora-part'') @ ubBytes b)))"
  by (simp add: demo_exec_def demo_cat_command)

lemma demo_stat: "statSize demo_remote p w = (Inr (map_option (int \<circ> length) (w p)), w)"
  by (cases "w p") (simp_all add: statSize_def demo_remote_def demo_facts catch_op_def bind_op_def return_op_def)

lemma demo_unlink: "unlinkQuiet demo_remote p w = (Inr (), w(p := None))"
  by (simp add: unlinkQuiet_def demo_remote_def catch_op_def return_op_def)

lemmas demo_run = sftpUploadFromStream_def upload_steps_def check_resume_def clearUploadSidecars_def write_part_def finalizeGuestUploadPart_def
  parsed_path_def plain_Inr bind_return demo_facts demo_part demo_open demo_meta demo_stat demo_unlink demo_exec_run Let_def
  lift_op_def guard_op_def throw_op_def return_op_def catch_op_def bind_op_def when_op_def

lemma demo_first:
  "snd (sftpUploadFromStream demo_remote demo_creds (demo_upload 0 ''abc'' (Some (OtherError ''gone''))) demo_world)
    = demo_world(''/root/a.proxora-part'' := Some ''abc'')"
proof -
  have "rmShell demo_remote = return_op True" "rmExec demo_remote = demo_exec" by (simp_all add: demo_remote_def)
  then show ?thesis
    by (simp add: demo_run demo_upload_def demo_world_def old_content_def fun_eq_iff)
qed

lemma demo_second: "fst demo_resumed = Inr (''/root/a'', ''a'', 6)"
proof -
  have "rmShell demo_remote = return_op True" "rmExec demo_remote = demo_exec"
    "rmRename demo_remote = (\<lambda>a b w. if w a = None then (Inl demo_missing, w) else (Inr (), w(b := w a, a := None)))"
    by (simp_all add: demo_remote_def)
  then show ?thesis
    by (simp add: demo_resumed_def after_attempts_def demo_first demo_run demo_upload_def demo_world_def part_size_of_def old_content_def opt_text_def)
qed


end
