(* ===== verification/AgentFiles.thy ===== *)
theory AgentFiles imports SftpFiles GuestTasks begin

text \<open>
  Files of a machine through its QEMU agent: \<^verbatim>\<open>server/services/guest-agent-files.ts\<close>.  A command
  is started by one request and its end awaited with at most forty more, 150 ms apart.
\<close>

definition unwrapAgent :: "js \<Rightarrow> js_record" where
  "unwrapAgent v =
     (case v of
        JObj r \<Rightarrow> (case map_of r ''result'' of Some (JObj inner) \<Rightarrow> inner | Some (JArr xs) \<Rightarrow> [] | _ \<Rightarrow> r)
      | _ \<Rightarrow> [])"

definition b64Text :: "file_codec \<Rightarrow> js \<Rightarrow> string" where
  "b64Text codec v = (let raw = js_string (js_or v (JStr [])) in if raw = [] then [] else fcText codec raw)"

record agent_result =
  arExit :: jsnum
  arOut :: string
  arErr :: string

definition agent_result_of :: "file_codec \<Rightarrow> js_record \<Rightarrow> agent_result" where
  "agent_result_of codec status =
     \<lparr>arExit = js_number (js_or (get_prop status ''exitcode'') (JNum (of_int_num 1))),
      arOut = b64Text codec (get_prop status ''out-data''), arErr = b64Text codec (get_prop status ''err-data'')\<rparr>"

fun await_exit :: "file_codec \<Rightarrow> px_env \<Rightarrow> proxmox_config \<Rightarrow> string \<Rightarrow> int \<Rightarrow> int \<Rightarrow> nat \<Rightarrow> agent_result mesh_op" where
  "await_exit codec x c node vmid pid 0 = throw_op (ValidationError ''QEMU Agent Timeout'')"
| "await_exit codec x c node vmid pid (Suc n) =
     bind_op (vms_agentExecStatus x c node vmid pid) (\<lambda>reply.
     let status = unwrapAgent reply in
     if js_truthy (get_prop status ''exited'') then return_op (agent_result_of codec status)
     else bind_op (write_op (pause 150)) (\<lambda>_. await_exit codec x c node vmid pid n))"

definition agentExec :: "file_codec \<Rightarrow> px_env \<Rightarrow> proxmox_config \<Rightarrow> string \<Rightarrow> int \<Rightarrow> string list \<Rightarrow> agent_result mesh_op" where
  "agentExec codec x c node vmid command =
     bind_op (vms_agentExec x c node vmid command) (\<lambda>reply.
     let pid = js_number (get_prop (unwrapAgent reply) ''pid'') in
     bind_op (guard_op (isIntegerNum pid \<and> 1 \<le> num_int pid)
       (ValidationError ''QEMU Agent hat keinen Prozess gestartet (guest-exec aktiv?)'')) (\<lambda>_.
     await_exit codec x c node vmid (num_int pid) 40))"

definition agentExecOk :: "file_codec \<Rightarrow> px_env \<Rightarrow> proxmox_config \<Rightarrow> string \<Rightarrow> int \<Rightarrow> string list \<Rightarrow> agent_result mesh_op" where
  "agentExecOk codec x c node vmid command =
     bind_op (agentExec codec x c node vmid command) (\<lambda>result.
     let detail = take 200 (trim (if arErr result = [] then arOut result else arErr result)) in
     bind_op (guard_op (arExit result = Fin 0)
       (ValidationError (if detail = [] then ''Befehl fehlgeschlagen ('' @ num_str (arExit result) @ '')'' else detail))) (\<lambda>_.
     return_op result))"

definition find_command :: "string \<Rightarrow> string list" where
  "find_command path =
     [''find'', path, ''-maxdepth'', ''1'', ''-mindepth'', ''1'', ''-printf'',
      ''%y'' @ [CHR 0x09] @ ''%s'' @ [CHR 0x09] @ ''%T@'' @ [CHR 0x09] @ ''%f'' @ [CHR 0x0A]]"

definition ls_command :: "string \<Rightarrow> string list" where
  "ls_command path = [''ls'', ''-1Ap'', ''--'', path]"

text \<open>An error of \<open>find\<close>, or of reading its output, leads to \<open>ls\<close>.\<close>

definition find_listing :: "(string \<Rightarrow> 'k::linorder) \<Rightarrow> file_codec \<Rightarrow> px_env \<Rightarrow> proxmox_config \<Rightarrow> string \<Rightarrow> int \<Rightarrow> string \<Rightarrow> guest_file_entry list option mesh_op" where
  "find_listing collate codec x c node vmid path =
     catch_op
       (bind_op (agentExec codec x c node vmid (find_command path)) (\<lambda>listed.
        if arExit listed = Fin 0 then bind_op (plain (parseGuestListOutput collate (arOut listed) path)) (\<lambda>es. return_op (Some es))
        else return_op None))
       (\<lambda>_. return_op None)"

definition agent_listDir :: "(string \<Rightarrow> 'k::linorder) \<Rightarrow> file_codec \<Rightarrow> px_env \<Rightarrow> proxmox_config \<Rightarrow> string \<Rightarrow> int \<Rightarrow> string \<Rightarrow> guest_file_entry list mesh_op" where
  "agent_listDir collate codec x c node vmid path =
     bind_op (find_listing collate codec x c node vmid path) (\<lambda>found.
     case found of Some es \<Rightarrow> return_op es
     | None \<Rightarrow>
         bind_op (agentExecOk codec x c node vmid (ls_command path)) (\<lambda>listed.
         plain (parseGuestListOutput collate (arOut listed) path)))"

definition AGENT_FILE_MAX_BYTES :: nat where
  "AGENT_FILE_MAX_BYTES = 48 * 1024"

definition too_large_for_agent :: js_error where
  "too_large_for_agent = ValidationError ''Datei groesser als 48 KB fuer den QEMU Agent''"

definition agent_readFile :: "file_codec \<Rightarrow> px_env \<Rightarrow> proxmox_config \<Rightarrow> string \<Rightarrow> int \<Rightarrow> string \<Rightarrow> 8 word list mesh_op" where
  "agent_readFile codec x c node vmid path =
     bind_op (vms_agentFileRead x c node vmid path) (\<lambda>reply.
     let raw = unwrapAgent reply in
     bind_op (guard_op (\<not> js_truthy (get_prop raw ''truncated'')) too_large_for_agent) (\<lambda>_.
     plain (decodeGuestFileContent (fcDecode codec) (js_string (js_or (get_prop raw ''content'') (JStr []))) AGENT_FILE_MAX_BYTES)))"

definition agent_writeFile :: "file_codec \<Rightarrow> px_env \<Rightarrow> proxmox_config \<Rightarrow> string \<Rightarrow> int \<Rightarrow> string \<Rightarrow> 8 word list \<Rightarrow> unit mesh_op" where
  "agent_writeFile codec x c node vmid path body =
     bind_op (guard_op (length body \<le> AGENT_FILE_MAX_BYTES) too_large_for_agent) (\<lambda>_.
     bind_op (vms_agentFileWrite x c node vmid path (fcEncode codec (bytes_text body))) (\<lambda>_. return_op ()))"

definition agentError :: "js_error \<Rightarrow> js_error" where
  "agentError e =
     (if is_validation e then e
      else let message = error_message e; low = to_lower message; has = str_includes low in
        if has ''not running'' \<or> has ''guest agent'' \<or> has ''no qemu-guest-agent''
        then ValidationError ''QEMU Guest Agent antwortet nicht (in der VM installiert und gestartet?)''
        else if has ''guest-exec'' \<or> has ''disabled'' then ValidationError ''guest-exec ist im Guest Agent deaktiviert''
        else if error_code e = ''PROXMOX_API_ERROR'' then ValidationError (take 240 message)
        else (let t = take 240 (trim message) in ValidationError (if t = [] then ''QEMU Agent fehlgeschlagen'' else t)))"

section \<open>One operation\<close>

definition agent_rename :: "file_codec \<Rightarrow> px_env \<Rightarrow> proxmox_config \<Rightarrow> string \<Rightarrow> int \<Rightarrow> string \<Rightarrow> string \<Rightarrow> file_answer mesh_op" where
  "agent_rename codec x c node vmid path to' =
     bind_op (validated (resolveGuestPath to' None)) (\<lambda>dest.
     bind_op (plain (guestPathParent path)) (\<lambda>a.
     bind_op (plain (guestPathParent dest)) (\<lambda>b.
     bind_op (guard_op (path \<noteq> ''/'' \<and> dest \<noteq> ''/'' \<and> a = b) (ValidationError ''Umbenennen nur im selben Ordner'')) (\<lambda>_.
     bind_op (agentExec codec x c node vmid [''test'', ''-e'', dest]) (\<lambda>found.
     bind_op (guard_op (arExit found \<noteq> Fin 0) (ValidationError ''Ziel existiert schon'')) (\<lambda>_.
     bind_op (agentExecOk codec x c node vmid [''mv'', ''--'', path, dest]) (\<lambda>_.
     bind_op (plain (guestFileName dest)) (\<lambda>name. return_op (Renamed dest name)))))))))"

definition agent_delete :: "file_codec \<Rightarrow> px_env \<Rightarrow> proxmox_config \<Rightarrow> string \<Rightarrow> int \<Rightarrow> string \<Rightarrow> file_answer mesh_op" where
  "agent_delete codec x c node vmid path =
     bind_op (catch_op (agentExecOk codec x c node vmid [''rmdir'', ''--'', path])
       (\<lambda>_. agentExecOk codec x c node vmid [''rm'', ''-f'', ''--'', path])) (\<lambda>_.
     return_op (Done path))"

definition agent_op :: "(string \<Rightarrow> 'k::linorder) \<Rightarrow> file_codec \<Rightarrow> px_env \<Rightarrow> proxmox_config \<Rightarrow> string \<Rightarrow> string \<Rightarrow> file_request \<Rightarrow> file_answer mesh_op" where
  "agent_op collate codec x c node path i =
     (let vmid = frVmid i in
      if frOp i = ''list'' then
        bind_op (agent_listDir collate codec x c node vmid path) (\<lambda>es. return_op (Listed path es []))
      else if frOp i = ''read'' then
        bind_op (agent_readFile codec x c node vmid path) (\<lambda>ws.
        bind_op (plain (guestFileName path)) (\<lambda>name.
        return_op (ReadBack path name (length ws) (fcEncode codec (bytes_text ws)))))
      else if frOp i = ''write'' then
        bind_op (plain (decodeGuestFileContent (fcDecode codec) (opt_text (frContent i)) AGENT_FILE_MAX_BYTES)) (\<lambda>ws.
        bind_op (agent_writeFile codec x c node vmid path ws) (\<lambda>_.
        bind_op (plain (guestFileName path)) (\<lambda>name. return_op (Written path name (length ws)))))
      else if frOp i = ''mkdir'' then
        bind_op (agentExecOk codec x c node vmid [''mkdir'', ''--'', path]) (\<lambda>_. return_op (Done path))
      else if frOp i = ''delete'' then agent_delete codec x c node vmid path
      else if frOp i = ''rename'' then agent_rename codec x c node vmid path (opt_text (frTo i))
      else throw_op (ValidationError ''Unknown file operation''))"

definition guestAgentFiles :: "(string \<Rightarrow> 'k::linorder) \<Rightarrow> file_codec \<Rightarrow> px_env \<Rightarrow> proxmox_config \<Rightarrow> file_request \<Rightarrow> file_answer mesh_op" where
  "guestAgentFiles collate codec x c i =
     bind_op (parsed_path (frPath i)) (\<lambda>path.
     let node = trim (opt_text (frNode i)) in
     bind_op (guard_op (node \<noteq> []) (ValidationError ''Node fehlt'')) (\<lambda>_.
     catch_op (agent_op collate codec x c node path i) (\<lambda>e. throw_op (agentError e))))"

end
