(* ===== verification/GuestFileOps.thy ===== *)
theory GuestFileOps imports AgentFiles GuestCreate TransferTickets begin

text \<open>
  The way of a file operation, from \<^verbatim>\<open>server/services/guest-files.ts\<close>: through the agent of the
  machine, through the Proxora that shares its host, or over SSH.  The state pairs the server's with the one
  outside, which answers the requests to peers too.
\<close>

type_synonym ('w, 'a) file_op = "(mesh \<times> 'w, 'a) op"

definition in_mesh :: "'a mesh_op \<Rightarrow> ('w, 'a) file_op" where
  "in_mesh m st = (case m (fst st) of (r, ms) \<Rightarrow> (r, (ms, snd st)))"

definition in_world :: "('w, 'a) op \<Rightarrow> ('w, 'a) file_op" where
  "in_world m st = (case m (snd st) of (r, w) \<Rightarrow> (r, (fst st, w)))"

record peer_reply =
  prStatus :: int
  prJson :: "js option"
  prType :: "string option"
  prDisposition :: "string option"
  prLength :: "string option"
  prHasBody :: bool

record peer_post =
  ppUrl :: string
  ppHeaders :: "(string \<times> string) list"
  ppJson :: "js option"
  ppBody :: "upload_body option"

record 'w files_env =
  flSftp :: "'w sftp_env"
  flPost :: "peer_post \<Rightarrow> ('w, peer_reply) op"
  flCodec :: file_codec
  flMeta :: "string \<Rightarrow> string"

definition reply_ok :: "peer_reply \<Rightarrow> bool" where
  "reply_ok a \<longleftrightarrow> 200 \<le> prStatus a \<and> prStatus a \<le> 299"

definition reply_json :: "peer_reply \<Rightarrow> js" where
  "reply_json a = (case prJson a of None \<Rightarrow> JObj [] | Some v \<Rightarrow> v)"

definition peer_error :: "peer_reply \<Rightarrow> js_error" where
  "peer_error a =
     (if nullish (reply_json a) then no_property
      else let e = js_field (reply_json a) ''error'' in
        ValidationError (if js_truthy e then js_string e else ''Peer Proxora error ('' @ int_str (prStatus a) @ '')''))"

section \<open>Peers\<close>

text \<open>The peer of a host with the address of its API and the token that is sent along.\<close>

definition file_peer :: "platform \<Rightarrow> host_row \<Rightarrow> (string \<times> string) mesh_op" where
  "file_peer pf h =
     bind_op (guard_op (truthy (hsPeerId h) \<and> truthy (hsRemoteHostId h)) (ValidationError ''Peer host is incomplete'')) (\<lambda>_.
     bind_op (read_op (peer_by_id (the (hsPeerId h)))) (\<lambda>found.
     bind_op (need_op (HostUnreachableError (hsName h) (''Set the colleague'' @ [CHR 0x27] @ ''s Proxora IP first''))
       (case found of None \<Rightarrow> None | Some p \<Rightarrow> if wgAddress p = [] then None else Some p)) (\<lambda>peer.
     bind_op (lift_op (peerHttpBase peer)) (\<lambda>base.
     bind_op (lift_op (outboundToken pf peer)) (\<lambda>token. return_op (base, token))))))"

definition opt_prop :: "string \<Rightarrow> string option \<Rightarrow> js_record" where
  "opt_prop k v = (case v of None \<Rightarrow> [] | Some s \<Rightarrow> [(k, JStr s)])"

definition request_json :: "string \<Rightarrow> file_request \<Rightarrow> js" where
  "request_json rid i =
     JObj ([(''remoteHostId'', JStr rid), (''kind'', JStr (kind_str (frKind i)))] @ opt_prop ''node'' (frNode i)
       @ [(''vmid'', JNum (of_int_num (frVmid i))), (''op'', JStr (frOp i))] @ opt_prop ''via'' (frVia i)
       @ opt_prop ''target'' (crTarget (frCreds i)) @ (if crPort (frCreds i) = JUndef then [] else [(''port'', crPort (frCreds i))])
       @ opt_prop ''username'' (crUsername (frCreds i)) @ opt_prop ''password'' (crPassword (frCreds i))
       @ opt_prop ''privateKey'' (crPrivateKey (frCreds i)) @ opt_prop ''passphrase'' (crPassphrase (frCreds i))
       @ [(''path'', JStr (frPath i))] @ opt_prop ''to'' (frTo i) @ opt_prop ''contentBase64'' (frContent i))"

definition json_post :: "string \<Rightarrow> string \<Rightarrow> string \<Rightarrow> js \<Rightarrow> peer_post" where
  "json_post url accept token body =
     \<lparr>ppUrl = url, ppHeaders = [(''Accept'', accept), (''Content-Type'', ''application/json''), (''Authorization'', ''Bearer '' @ token)],
      ppJson = Some body, ppBody = None\<rparr>"

definition proxyGuestFilesToPeer :: "platform \<Rightarrow> 'w files_env \<Rightarrow> host_row \<Rightarrow> file_request \<Rightarrow> ('w, js) file_op" where
  "proxyGuestFilesToPeer pf e h i =
     bind_op (in_mesh (file_peer pf h)) (\<lambda>(base, token).
     bind_op (in_world (flPost e (json_post (base @ ''/api/federation/guest-files'') ''application/json'' token
       (request_json (the (hsRemoteHostId h)) i)))) (\<lambda>a.
     bind_op (guard_op (reply_ok a) (peer_error a)) (\<lambda>_. return_op (reply_json a))))"

text \<open>A stream: the guest it is for, the credentials and the path.\<close>

record file_stream =
  fsKind :: guest_kind
  fsVmid :: int
  fsCreds :: ssh_creds
  fsPath :: string

definition sshWire :: "ssh_creds \<Rightarrow> js_record" where
  "sshWire c =
     [(''target'', JStr (opt_text (crTarget c))), (''port'', crPort c), (''username'', JStr (opt_text (crUsername c))),
      (''password'', JStr (opt_text (crPassword c))), (''privateKey'', JStr (opt_text (crPrivateKey c))),
      (''passphrase'', JStr (opt_text (crPassphrase c)))]"

definition stream_json :: "string \<Rightarrow> file_stream \<Rightarrow> js" where
  "stream_json rid i =
     JObj ([(''remoteHostId'', JStr rid), (''kind'', JStr (kind_str (fsKind i))), (''vmid'', JNum (of_int_num (fsVmid i)))]
       @ sshWire (fsCreds i) @ [(''path'', JStr (fsPath i))])"

datatype download_answer = Served download_head | Passed "(string \<times> string) list"

definition passed_headers :: "peer_reply \<Rightarrow> (string \<times> string) list" where
  "passed_headers a =
     [(''Content-Type'', if truthy (prType a) then the (prType a) else ''application/octet-stream'')]
       @ (if truthy (prDisposition a) then [(''Content-Disposition'', the (prDisposition a))] else [])
       @ (if truthy (prLength a) then [(''Content-Length'', the (prLength a))] else [])
       @ [(''Cache-Control'', ''no-store'')]"

definition proxyGuestFileDownloadToPeer :: "platform \<Rightarrow> 'w files_env \<Rightarrow> host_row \<Rightarrow> file_stream \<Rightarrow> ('w, download_answer) file_op" where
  "proxyGuestFileDownloadToPeer pf e h i =
     bind_op (in_mesh (file_peer pf h)) (\<lambda>(base, token).
     bind_op (in_world (flPost e (json_post (base @ ''/api/federation/guest-files/download'') ''application/octet-stream'' token
       (stream_json (the (hsRemoteHostId h)) i)))) (\<lambda>a.
     bind_op (guard_op (reply_ok a \<and> prHasBody a) (peer_error a)) (\<lambda>_. return_op (Passed (passed_headers a)))))"

definition rethrow_named :: "string \<Rightarrow> js_error \<Rightarrow> ('s, 'a) op" where
  "rethrow_named fallback e = throw_op (if is_validation e \<or> is_forbidden e then e else fileError e fallback)"

definition streamGuestFileDownload :: "platform \<Rightarrow> 'w files_env \<Rightarrow> host_row \<Rightarrow> file_stream \<Rightarrow> ('w, download_answer) file_op" where
  "streamGuestFileDownload pf e h i =
     (if hsOrigin h = PEER then proxyGuestFileDownloadToPeer pf e h i
      else catch_op (bind_op (in_world (sftpDownloadResponse (flSftp e) (fsCreds i) (fsPath i))) (\<lambda>head. return_op (Served head)))
             (rethrow_named ''SSH fehlgeschlagen''))"

record stream_upload =
  suStream :: file_stream
  suBody :: "upload_body option"
  suLength :: "string option"
  suExpected :: "int option"
  suOffset :: int
  suPrefix :: "string option"

definition upload_headers :: "(string \<Rightarrow> string) \<Rightarrow> string \<Rightarrow> string \<Rightarrow> stream_upload \<Rightarrow> (string \<times> string) list" where
  "upload_headers encode token rid u =
     [(''Accept'', ''application/json''), (''Content-Type'', ''application/octet-stream''), (''Authorization'', ''Bearer '' @ token),
      (''x-proxora-guest-files'', encodeGuestTransferMeta encode (stream_json rid (suStream u)))]
     @ (if truthy (suLength u) then [(''Content-Length'', the (suLength u))] else [])
     @ (case suExpected u of None \<Rightarrow> [] | Some n \<Rightarrow> [(''x-proxora-upload-size'', int_str n)])
     @ (if suOffset u \<noteq> 0 then [(''x-proxora-upload-offset'', int_str (suOffset u))] else [])
     @ (if truthy (suPrefix u) then [(''x-proxora-upload-prefix'', the (suPrefix u))] else [])"

definition upload_reply :: "stream_upload \<Rightarrow> js \<Rightarrow> js_error + string \<times> string \<times> jsnum" where
  "upload_reply u v =
     (if nullish v then Inl no_property
      else
        let p = js_field v ''path''; n = js_field v ''name''; k = js_number (js_or (js_field v ''size'') (JNum (Fin 0)));
            path = (if js_truthy p then js_string p else fsPath (suStream u))
        in if js_truthy n then Inr (path, js_string n, k)
           else (case guestFileName (fsPath (suStream u)) of Inl m \<Rightarrow> Inl (OtherError m) | Inr name \<Rightarrow> Inr (path, name, k)))"

definition proxyGuestFileUploadToPeer :: "platform \<Rightarrow> 'w files_env \<Rightarrow> host_row \<Rightarrow> stream_upload \<Rightarrow> ('w, string \<times> string \<times> jsnum) file_op" where
  "proxyGuestFileUploadToPeer pf e h u =
     bind_op (in_mesh (file_peer pf h)) (\<lambda>(base, token).
     bind_op (in_world (flPost e \<lparr>ppUrl = base @ ''/api/federation/guest-files/upload'',
       ppHeaders = upload_headers (flMeta e) token (the (hsRemoteHostId h)) u, ppJson = None, ppBody = suBody u\<rparr>)) (\<lambda>a.
     bind_op (guard_op (reply_ok a) (peer_error a)) (\<lambda>_. lift_op (upload_reply u (reply_json a)))))"

definition upload_request_of :: "stream_upload \<Rightarrow> upload_request" where
  "upload_request_of u =
     \<lparr>uqPath = fsPath (suStream u), uqBody = suBody u, uqExpected = suExpected u, uqOffset = suOffset u,
      uqPrefix = opt_text (suPrefix u)\<rparr>"

definition streamGuestFileUpload :: "platform \<Rightarrow> 'w files_env \<Rightarrow> host_row \<Rightarrow> stream_upload \<Rightarrow> ('w, string \<times> string \<times> jsnum) file_op" where
  "streamGuestFileUpload pf e h u =
     (if hsOrigin h = PEER then proxyGuestFileUploadToPeer pf e h u
      else catch_op
        (bind_op (in_world (sftpUploadFromStream (flSftp e) (fsCreds (suStream u)) (upload_request_of u))) (\<lambda>(path, name, n).
         return_op (path, name, of_int_num n)))
        (rethrow_named ''Upload fehlgeschlagen''))"

section \<open>One operation\<close>

definition assertLinuxGuestFiles :: "platform \<Rightarrow> px_env \<Rightarrow> host_row \<Rightarrow> guest_kind \<Rightarrow> string option \<Rightarrow> int \<Rightarrow> unit mesh_op" where
  "assertLinuxGuestFiles pf x h kind node vmid =
     (if kind \<noteq> VM then return_op ()
      else
        bind_op (guard_op (truthy node) (ValidationError ''Node fehlt'')) (\<lambda>_.
        bind_op (clientForHost pf h) (\<lambda>c.
        bind_op (vms_config x c (the node) vmid) (\<lambda>config.
        bind_op (guard_op (\<not> nullish config) no_property) (\<lambda>_.
        guard_op (\<not> isWindowsOstype (Some (js_string (js_or (js_field config ''ostype'') (JStr [])))))
          (ValidationError (''Dateizugriff gibt es nur fuer Linux-Gaeste, nicht fuer Windows.'')))))))"

datatype file_reply = ByAgent file_answer | BySftp string file_answer | ByPeer js

definition viaAgent :: "file_request \<Rightarrow> bool" where
  "viaAgent i \<longleftrightarrow> frKind i = VM \<and> frVia i \<noteq> Some ''sftp''
     \<and> \<not> hasGuestSshAuth (crPassword (frCreds i)) (crPrivateKey (frCreds i))"

definition runGuestFileOp ::
  "(string \<Rightarrow> 'k::linorder) \<Rightarrow> platform \<Rightarrow> px_env \<Rightarrow> 'w files_env \<Rightarrow> int \<Rightarrow> host_row \<Rightarrow> file_request \<Rightarrow> ('w, file_reply) file_op" where
  "runGuestFileOp collate pf x e now h i =
     bind_op (in_mesh (assertLinuxGuestFiles pf x h (frKind i) (frNode i) (frVmid i))) (\<lambda>_.
     if viaAgent i then
       in_mesh (bind_op (clientForHost pf h) (\<lambda>c.
         bind_op (guestAgentFiles collate (flCodec e) x c i) (\<lambda>a. return_op (ByAgent a))))
     else if hsOrigin h = PEER then bind_op (proxyGuestFilesToPeer pf e h i) (\<lambda>v. return_op (ByPeer v))
     else catch_op
       (bind_op (in_world (guestSftp collate (flCodec e) (flSftp e) now i)) (\<lambda>(key, a). return_op (BySftp key a)))
       (rethrow_named ''SSH fehlgeschlagen''))"

end
