(* ===== verification/GuestFileProperties.thy ===== *)
theory GuestFileProperties imports GuestFileOps BackupProperties begin

text \<open>
  What an operation on the files of a machine asks of Proxmox.
\<close>

section \<open>Requests of the agent\<close>

text \<open>The commands of an operation; \<open>dest\<close> is the new name of a rename.\<close>

definition agent_commands :: "string \<Rightarrow> string \<Rightarrow> string + string \<Rightarrow> string list list" where
  "agent_commands kind path dest =
     (if kind = ''list'' then [find_command path, ls_command path]
      else if kind = ''mkdir'' then [[''mkdir'', ''--'', path]]
      else if kind = ''delete'' then [[''rmdir'', ''--'', path], [''rm'', ''-f'', ''--'', path]]
      else if kind = ''rename'' then (case dest of Inl m \<Rightarrow> [] | Inr d \<Rightarrow> [[''test'', ''-e'', d], [''mv'', ''--'', path, d]])
      else [])"

definition starts_command :: "string list list \<Rightarrow> px_call \<Rightarrow> bool" where
  "starts_command cmds call \<longleftrightarrow> pxBody call \<in> set (map (\<lambda>cmd. Some [(''command'', JArr (map JStr cmd))]) cmds)"

definition agent_request :: "proxmox_config \<Rightarrow> file_request \<Rightarrow> string \<Rightarrow> px_call \<Rightarrow> bool" where
  "agent_request c i path call \<longleftrightarrow>
     pxClient call = c
     \<and> (let at' = (\<lambda>suffix. pxPath call = qemu_path (trim (opt_text (frNode i))) (frVmid i) suffix) in
        if pxVerb call = ''GET''
        then at' ''/agent/exec-status'' \<or> frOp i = ''read'' \<and> at' ''/agent/file-read'' \<and> pxQuery call = Some [(''file'', JStr path)]
        else pxVerb call = ''POST''
          \<and> (at' ''/agent/exec'' \<and> starts_command (agent_commands (frOp i) path (resolveGuestPath (opt_text (frTo i)) None)) call
             \<or> frOp i = ''write'' \<and> at' ''/agent/file-write'' \<and> map_option (\<lambda>b. map_of b ''file'') (pxBody call) = Some (Some (JStr path))))"

lemma preserves_bind_validated:
  "(\<And>d. r = Inr d \<Longrightarrow> preserves I (f d)) \<Longrightarrow> preserves I (bind_op (validated r) f)"
  by (cases r) (simp_all add: preserves_def bind_op_def validated_def lift_op_def)

lemma sent_await:
  "P \<lparr>pxClient = c, pxVerb = ''GET'', pxPath = qemu_path node vmid ''/agent/exec-status'',
       pxQuery = Some [(''pid'', JNum (of_int_num pid))], pxBody = None, pxTimeout = Some 12000\<rparr> \<Longrightarrow>
     preserves (sent_only P base) (await_exit codec x c node vmid pid n)"
proof (induction n)
  case (Suc n)
  have "preserves (sent_only P base) (vms_agentExecStatus x c node vmid pid)"
    unfolding vms_agentExecStatus_def by (intro sent_verbs Suc.prems)
  with Suc show ?case by (auto simp: Let_def intro!: preserve_intros)
qed (simp add: preserves_throw)

lemma sent_exec:
  assumes "P \<lparr>pxClient = c, pxVerb = ''POST'', pxPath = qemu_path node vmid ''/agent/exec'', pxQuery = None,
      pxBody = Some [(''command'', JArr (map JStr cmd))], pxTimeout = Some 20000\<rparr>"
    and "\<And>pid. P \<lparr>pxClient = c, pxVerb = ''GET'', pxPath = qemu_path node vmid ''/agent/exec-status'',
      pxQuery = Some [(''pid'', JNum (of_int_num pid))], pxBody = None, pxTimeout = Some 12000\<rparr>"
  shows "preserves (sent_only P base) (agentExec codec x c node vmid cmd)"
    and "preserves (sent_only P base) (agentExecOk codec x c node vmid cmd)"
proof -
  have start: "preserves (sent_only P base) (vms_agentExec x c node vmid cmd)"
    unfolding vms_agentExec_def by (intro sent_verbs assms(1))
  have wait: "preserves (sent_only P base) (await_exit codec x c node vmid pid n)" for pid n
    by (rule sent_await) (rule assms(2))
  show exec: "preserves (sent_only P base) (agentExec codec x c node vmid cmd)"
    unfolding agentExec_def Let_def by (intro preserve_intros start wait)
  show "preserves (sent_only P base) (agentExecOk codec x c node vmid cmd)"
    unfolding agentExecOk_def Let_def by (intro preserve_intros exec)
qed

lemma sent_agent_exec:
  assumes "cmd \<in> set (agent_commands (frOp i) path (resolveGuestPath (opt_text (frTo i)) None))"
  shows "preserves (sent_only (agent_request c i path) base) (agentExec codec x c (trim (opt_text (frNode i))) (frVmid i) cmd)"
    and "preserves (sent_only (agent_request c i path) base) (agentExecOk codec x c (trim (opt_text (frNode i))) (frVmid i) cmd)"
  by (rule sent_exec; use assms in \<open>simp add: agent_request_def starts_command_def Let_def\<close>)+

lemma sent_agent_op: "preserves (sent_only (agent_request c i path) base) (agent_op collate codec x c (trim (opt_text (frNode i))) path i)"
proof -
  let ?P = "sent_only (agent_request c i path) base" and ?n = "trim (opt_text (frNode i))" and ?v = "frVmid i"
  note runs = sent_agent_exec [where c = c and base = base and codec = codec and x = x]
  have r: "preserves ?P (agent_readFile codec x c ?n ?v path)" if "frOp i = ''read''"
  proof -
    have "preserves ?P (vms_agentFileRead x c ?n ?v path)"
      unfolding vms_agentFileRead_def by (intro sent_verbs) (simp add: agent_request_def Let_def that)
    then show ?thesis unfolding agent_readFile_def Let_def by (intro preserve_intros)
  qed
  have w: "preserves ?P (agent_writeFile codec x c ?n ?v path ws)" if "frOp i = ''write''" for ws
  proof -
    have "preserves ?P (vms_agentFileWrite x c ?n ?v path b)" for b
      unfolding vms_agentFileWrite_def by (intro sent_verbs) (simp add: agent_request_def Let_def that)
    then show ?thesis unfolding agent_writeFile_def by (intro preserve_intros)
  qed
  have l: "preserves ?P (agent_listDir collate codec x c ?n ?v path)" if "frOp i = ''list''"
    unfolding agent_listDir_def find_listing_def
    by (intro preserve_intros runs; simp add: agent_commands_def that)
  have m: "preserves ?P (agentExecOk codec x c ?n ?v [''mkdir'', ''--'', path])" if "frOp i = ''mkdir''"
    by (rule runs) (simp add: agent_commands_def that)
  have d: "preserves ?P (agent_delete codec x c ?n ?v path)" if "frOp i = ''delete''"
    unfolding agent_delete_def by (intro preserve_intros runs; simp add: agent_commands_def that)
  have n: "preserves ?P (agent_rename codec x c ?n ?v path to')" if "frOp i = ''rename''" "to' = opt_text (frTo i)" for to'
    unfolding agent_rename_def
    by (intro preserves_bind_validated preserve_intros runs; use that in \<open>simp add: agent_commands_def\<close>)
  show ?thesis
    unfolding agent_op_def Let_def by (intro preserve_intros l r w m d n) simp_all
qed

text \<open>
  C36: An operation through the agent of a machine sends nothing when its path is not valid; otherwise every
  request it sends goes to that machine and is about that path: the end of a process, the contents of the file
  when it is read, the contents of the file when it is written, or one of the fixed commands of the
  operation, with the path, which is absolute and has no dots left, behind the end of the options.
\<close>

theorem agent_stays_on_path:
  "case resolveGuestPath (if frPath i = [] then ''/'' else frPath i) None of
     Inl m \<Rightarrow> sent_calls (snd (guestAgentFiles collate codec x c i st)) = sent_calls st
   | Inr path \<Rightarrow> canonical path
       \<and> sent_only (agent_request c i path) (sent_calls st) (snd (guestAgentFiles collate codec x c i st))"
proof (cases "resolveGuestPath (if frPath i = [] then ''/'' else frPath i) None")
  case (Inl m)
  then show ?thesis
    by (simp add: guestAgentFiles_def parsed_path_def validated_def bind_op_def lift_op_def)
next
  case (Inr path)
  have g: "parsed_path (frPath i) = (return_op path :: string mesh_op)"
    by (simp only: parsed_path_def Inr plain_Inr)
  have "preserves (sent_only (agent_request c i path) (sent_calls st)) (guestAgentFiles collate codec x c i)"
    unfolding guestAgentFiles_def g bind_return Let_def by (intro preserve_intros sent_agent_op)
  from preservesD [OF this sent_only_self] resolve_canonical [OF Inr] show ?thesis
    by (simp only: Inr sum.case) (auto simp: canonical_def)
qed

end
