(* ===== verification/UploadSocket.thy ===== *)
theory UploadSocket imports FileRoutes SftpFiles ProxmoxHttp begin

text \<open>
  Uploads over a WebSocket: \<^verbatim>\<open>server/ws/guest-file-upload.ts\<close>.  The checks, the messages, which become
  the body of an upload, and the answers.  The parts of the address are parameters; a text message is
  its text, a binary one its bytes.
\<close>

section \<open>Messages\<close>

record upload_start =
  uaSize :: int
  uaOffset :: int
  uaPrefix :: "string option"

text \<open>
  \<open>usUncaught\<close> says that an exception left a listener, or that the body failed while nothing listened
  for its errors; \<open>usReading\<close> is set once the upload reads the body.
\<close>

record upload_socket =
  usClosed :: bool
  usAccepted :: bool
  usPlan :: "upload_start option"
  usBody :: string
  usEnded :: bool
  usFault :: "js_error option"
  usReading :: bool
  usUncaught :: bool

definition fresh_socket :: upload_socket where
  "fresh_socket = \<lparr>usClosed = False, usAccepted = False, usPlan = None, usBody = [], usEnded = False, usFault = None,
     usReading = False, usUncaught = False\<rparr>"

datatype socket_event = TextFrame string | BinaryFrame string | SocketFault js_error | SocketGone | BodyRead

definition failBody :: "js_error \<Rightarrow> upload_socket \<Rightarrow> upload_socket" where
  "failBody e s =
     (if usClosed s then s
      else s\<lparr>usClosed := True, usFault := Some e, usUncaught := usUncaught s \<or> \<not> usReading s\<rparr>)"

definition bad_message :: js_error where
  "bad_message = ValidationError ''Ungueltige Upload-Nachricht''"

definition num_floor :: "jsnum \<Rightarrow> jsnum" where
  "num_floor n = (case n of Fin q \<Rightarrow> of_int_num \<lfloor>q\<rfloor> | _ \<Rightarrow> n)"

text \<open>\<open>None\<close> is a plan that is refused; \<open>Some None\<close> has a prefix that is no text, whose \<open>trim\<close> throws.\<close>

definition start_plan :: "js \<Rightarrow> upload_start option option" where
  "start_plan v =
     (let off = js_number (js_field v ''offset'') in
      case (num_floor (js_number (js_field v ''size'')), num_floor (if off = NaN then Fin 0 else off)) of
        (Fin size', Fin offset) \<Rightarrow>
          if size' < 0 \<or> of_int MAX_SAFE_INTEGER < size' \<or> offset < 0 \<or> size' < offset then None
          else (case js_or (js_field v ''prefix'') (JStr []) of
                  JStr p \<Rightarrow> Some (Some \<lparr>uaSize = \<lfloor>size'\<rfloor>, uaOffset = \<lfloor>offset\<rfloor>, uaPrefix = parseGuestUploadPrefix (Some p)\<rparr>)
                | _ \<Rightarrow> Some None)
      | _ \<Rightarrow> None)"

definition bad_plan :: js_error where
  "bad_plan = ValidationError ''Ungueltiger Upload-Plan''"

definition first_text :: "string \<Rightarrow> upload_socket \<Rightarrow> upload_socket" where
  "first_text msg s =
     (case JSON_parse msg of
        None \<Rightarrow> failBody bad_message s
      | Some JNull \<Rightarrow> s\<lparr>usUncaught := True\<rparr>
      | Some v \<Rightarrow>
          if js_field v ''type'' \<noteq> JStr ''start'' then s
          else (case start_plan v of
                  None \<Rightarrow> failBody bad_plan s
                | Some None \<Rightarrow> s\<lparr>usAccepted := True, usUncaught := True\<rparr>
                | Some (Some plan) \<Rightarrow> s\<lparr>usAccepted := True, usPlan := Some plan\<rparr>))"

definition later_text :: "string \<Rightarrow> upload_socket \<Rightarrow> upload_socket" where
  "later_text msg s =
     (case JSON_parse msg of
        None \<Rightarrow> failBody bad_message s
      | Some JNull \<Rightarrow> s\<lparr>usUncaught := True\<rparr>
      | Some v \<Rightarrow> if js_field v ''type'' = JStr ''end'' then s\<lparr>usClosed := True, usEnded := True\<rparr> else s)"

fun socket_step :: "socket_event \<Rightarrow> upload_socket \<Rightarrow> upload_socket" where
  "socket_step (TextFrame msg) s =
     (if usClosed s then s else if usAccepted s then later_text msg s else first_text msg s)"
| "socket_step (BinaryFrame chunk) s =
     (if usClosed s \<or> \<not> usAccepted s then s else s\<lparr>usBody := usBody s @ chunk\<rparr>)"
| "socket_step (SocketFault e) s = failBody e s"
| "socket_step SocketGone s = (if usClosed s then s else failBody (ValidationError ''Upload abgebrochen'') s)"
| "socket_step BodyRead s = s\<lparr>usReading := True\<rparr>"

definition socket_run :: "socket_event list \<Rightarrow> upload_socket" where
  "socket_run evs = foldl (\<lambda>s e. socket_step e s) fresh_socket evs"

text \<open>The body as the upload sees it: an end that does not come is an error, as every connection ends.\<close>

definition socket_body :: "upload_socket \<Rightarrow> upload_body" where
  "socket_body s = \<lparr>ubBytes = usBody s, ubFault = usFault s\<rparr>"

section \<open>The checks\<close>

definition header_request :: "node_request \<Rightarrow> http_request" where
  "header_request req = (nodeToHeaderRequest req)\<lparr>rqMethod := ''GET''\<rparr>"

datatype upload_answer = SendReady | SendGo int int | SendDone string string jsnum | SendError string | CloseSocket nat string

definition closeSoon :: "nat \<Rightarrow> string \<Rightarrow> upload_answer" where
  "closeSoon code reason = CloseSocket code (take 120 reason)"

definition gone_text :: string where
  "gone_text = ''Transfer abgelaufen oder ungueltig''"

definition socket_gate ::
  "platform \<Rightarrow> (string \<Rightarrow> url option) \<Rightarrow> app_env \<Rightarrow> (string \<Rightarrow> string \<times> string option) \<Rightarrow> int \<Rightarrow> node_request \<Rightarrow> file_server \<Rightarrow>
   (upload_answer + session_user \<times> guest_transfer_ticket) \<times> file_server" where
  "socket_gate pf new_url env address now req st0 =
     (let (pathname, ticket_param) = address (nrUrl req); origin = or_empty (map_of (nrHeaders req) ''origin'') in
      if \<not> isGuestFileUploadWsPath pathname then (Inl (closeSoon 4404 ''Not found''), st0)
      else if origin = [] \<or> \<not> isAllowedOrigin new_url env (header_request req) origin
      then (Inl (closeSoon 4403 ''Invalid origin''), st0)
      else (case cookieValue req SESSION_COOKIE of Inl e \<Rightarrow> (Inl (closeSoon 4401 ''Unauthorized''), st0)
        | Inr token \<Rightarrow>
        (case getSessionFromToken pf now token (fsServer st0) of
          (None, srv) \<Rightarrow> (Inl (closeSoon 4401 ''Unauthorized''), st0\<lparr>fsServer := srv\<rparr>)
        | (Some session, srv) \<Rightarrow>
          (let st = st0\<lparr>fsServer := srv\<rparr>; user = asUser session; ticketId = trim (or_empty ticket_param) in
           if ticketId = [] \<or> 80 < length ticketId then (Inl (closeSoon 4404 gone_text), st)
           else (case takeGuestTransferTicket now ticketId (suId user) ''upload'' (fsTickets st) of
               (Inl e, ts) \<Rightarrow> (Inl (closeSoon 4404 gone_text), st\<lparr>fsTickets := ts\<rparr>)
             | (Inr ticket, ts) \<Rightarrow>
               (let st1 = st\<lparr>fsTickets := ts\<rparr>; host = tkHostId ticket; kind = tkKind ticket; vmid = tkVmid ticket in
                if \<not> userHasAnyPermission (Some (holder_of user)) [guestFilePermission kind FileWrite] (Some host)
                       (Some \<lparr>refHostId = host, refKind = kind, refVmid = vmid\<rparr>)
                then (Inl (closeSoon 4403 ''Forbidden''), st1)
                else (case assertGuestAccess user host kind vmid of
                    Inl e \<Rightarrow> (Inl (closeSoon 4403 ''Forbidden''), st1)
                  | Inr _ \<Rightarrow> (Inr (user, ticket), st1))))))))"

section \<open>The upload\<close>

definition shown_error :: "js_error \<Rightarrow> string" where
  "shown_error e =
     (if error_code e \<in> {''FORBIDDEN'', ''NOT_FOUND'', ''UNAUTHORIZED'', ''VALIDATION_ERROR''} then error_message e else ''Upload fehlgeschlagen'')"

definition upload_refused :: "js_error \<Rightarrow> upload_answer list" where
  "upload_refused e = [SendError (shown_error e), closeSoon 1011 (shown_error e)]"

text \<open>\<open>plan\<close> is the start message, or what came instead of it: a failed body or twenty seconds without one.\<close>

definition serve_upload ::
  "(stream_call \<Rightarrow> js_error + string \<times> string \<times> jsnum) \<Rightarrow> session_user \<Rightarrow> guest_transfer_ticket \<Rightarrow> js_error + upload_start \<Rightarrow> file_server \<Rightarrow>
   upload_answer list \<times> file_server" where
  "serve_upload stream user ticket plan st =
     (case getHostOrThrow (tkHostId ticket) (Some user) (fsServer st) of
        Inl e \<Rightarrow> (upload_refused e, st)
      | Inr host \<Rightarrow>
        (case plan of
           Inl e \<Rightarrow> (SendReady # upload_refused e, st)
         | Inr p \<Rightarrow>
           (let call = UploadCall host ticket None \<lparr>planOffset = uaOffset p, planSize = Some (uaSize p)\<rparr> (uaPrefix p);
                st1 = st\<lparr>fsStreams := fsStreams st @ [call]\<rparr>; go = [SendReady, SendGo (uaOffset p) (uaSize p)] in
            case stream call of
              Inr (path, name, n) \<Rightarrow> (go @ [SendDone path name n], transfer_audit user ''upload'' ticket True st1)
            | Inl e \<Rightarrow> (go @ upload_refused e, transfer_audit user ''upload'' ticket False st1))))"

definition handleUploadSocket ::
  "platform \<Rightarrow> (string \<Rightarrow> url option) \<Rightarrow> app_env \<Rightarrow> (string \<Rightarrow> string \<times> string option) \<Rightarrow>
   (stream_call \<Rightarrow> js_error + string \<times> string \<times> jsnum) \<Rightarrow> int \<Rightarrow> node_request \<Rightarrow> js_error + upload_start \<Rightarrow> file_server \<Rightarrow>
   upload_answer list \<times> file_server" where
  "handleUploadSocket pf new_url env address stream now req plan st =
     (case socket_gate pf new_url env address now req st of
        (Inl a, st1) \<Rightarrow> ([a], st1)
      | (Inr (user, ticket), st1) \<Rightarrow> serve_upload stream user ticket plan st1)"

end
