(* ===== verification/UploadSocketProperties.thy ===== *)
theory UploadSocketProperties imports UploadSocket UploadProperties begin

text \<open>
  Who may upload over a WebSocket, and what becomes of the messages.
\<close>

section \<open>Messages\<close>

definition start_of :: "string \<Rightarrow> upload_start option option" where
  "start_of msg =
     (case JSON_parse msg of None \<Rightarrow> None
      | Some v \<Rightarrow> if js_field v ''type'' = JStr ''start'' then start_plan v else None)"

definition says_end :: "string \<Rightarrow> bool" where
  "says_end msg \<longleftrightarrow> (case JSON_parse msg of None \<Rightarrow> False | Some v \<Rightarrow> js_field v ''type'' = JStr ''end'')"

fun frame_bytes :: "socket_event \<Rightarrow> string" where
  "frame_bytes (BinaryFrame chunk) = chunk"
| "frame_bytes _ = []"

text \<open>The messages after the one that starts the upload.\<close>

definition body_from :: "upload_start \<Rightarrow> socket_event list \<Rightarrow> upload_socket \<Rightarrow> bool" where
  "body_from p post s \<longleftrightarrow>
     prefix (usBody s) (concat (map frame_bytes post))
     \<and> (\<not> usClosed s \<longrightarrow> usBody s = concat (map frame_bytes post))
     \<and> (usEnded s \<longrightarrow> usClosed s \<and> usFault s = None
         \<and> (\<exists>mid en rest. post = mid @ TextFrame en # rest \<and> says_end en \<and> usBody s = concat (map frame_bytes mid)))"

definition socket_ok :: "socket_event list \<Rightarrow> upload_socket \<Rightarrow> bool" where
  "socket_ok evs s \<longleftrightarrow>
     (\<not> usAccepted s \<longrightarrow> usPlan s = None \<and> usBody s = [] \<and> \<not> usEnded s)
     \<and> (\<not> usClosed s \<longrightarrow> usFault s = None \<and> \<not> usEnded s)
     \<and> (\<forall>p. usPlan s = Some p \<longrightarrow> (\<exists>pre msg post. evs = pre @ TextFrame msg # post \<and> start_of msg = Some (Some p) \<and> body_from p post s))"

lemma body_from_more:
  assumes "body_from p post s" "usClosed s \<or> frame_bytes e = []"
  shows "body_from p (post @ [e]) s"
proof -
  have "\<exists>mid en rest. post @ [e] = mid @ TextFrame en # rest \<and> says_end en \<and> usBody s = concat (map frame_bytes mid)" if ended: "usEnded s"
  proof -
    from assms(1) ended obtain mid en rest where
      m: "post = mid @ TextFrame en # rest" "says_end en" "usBody s = concat (map frame_bytes mid)"
      unfolding body_from_def by blast
    show ?thesis
      by (rule exI [of _ mid], rule exI [of _ en], rule exI [of _ "rest @ [e]"]) (simp add: m)
  qed
  moreover have "prefix (usBody s) (concat (map frame_bytes (post @ [e])))"
    using assms(1) by (simp add: body_from_def prefix_prefix)
  moreover have "\<not> usClosed s \<Longrightarrow> usBody s = concat (map frame_bytes (post @ [e]))"
    using assms by (auto simp: body_from_def)
  ultimately show ?thesis using assms(1) by (simp add: body_from_def)
qed

lemma body_from_closed:
  assumes "body_from p post s" "usClosed s'" "\<not> usEnded s'" "usBody s' = usBody s"
  shows "body_from p (post @ [e]) s'"
proof -
  have "prefix (usBody s) (concat (map frame_bytes (post @ [e])))"
    using assms(1) by (simp add: body_from_def prefix_prefix)
  with assms show ?thesis by (simp add: body_from_def)
qed

lemma body_from_end:
  assumes "body_from p post s" "\<not> usClosed s" "usFault s = None" "says_end en"
  shows "body_from p (post @ [TextFrame en]) (s\<lparr>usClosed := True, usEnded := True\<rparr>)"
proof -
  have "usBody s = concat (map frame_bytes post)" using assms(1,2) by (simp add: body_from_def)
  with assms(3,4) show ?thesis by (auto simp: body_from_def intro!: exI [of _ post])
qed

lemma body_from_chunk: "body_from p post s \<Longrightarrow> \<not> usClosed s \<Longrightarrow> \<not> usEnded s \<Longrightarrow> body_from p (post @ [BinaryFrame chunk]) (s\<lparr>usBody := usBody s @ chunk\<rparr>)"
  by (simp add: body_from_def)

lemma failBody_cases:
  "failBody e s = s \<and> usClosed s \<or> \<not> usClosed s \<and> usClosed (failBody e s) \<and> usBody (failBody e s) = usBody s \<and> usPlan (failBody e s) = usPlan s
     \<and> usEnded (failBody e s) = usEnded s \<and> usAccepted (failBody e s) = usAccepted s"
  by (simp add: failBody_def)

lemma body_from_fail:
  assumes "body_from p post s" "\<not> usClosed s \<longrightarrow> \<not> usEnded s"
  shows "body_from p (post @ [e]) (failBody err s)"
proof (cases "usClosed s")
  case True
  then show ?thesis using body_from_more [OF assms(1)] by (simp add: failBody_def)
next
  case False
  with assms(2) show ?thesis by (intro body_from_closed [OF assms(1)]) (simp_all add: failBody_def)
qed

lemma body_from_flags:
  "body_from p post (s\<lparr>usUncaught := b\<rparr>) = body_from p post s" "body_from p post (s\<lparr>usReading := b\<rparr>) = body_from p post s"
  "body_from p post (s\<lparr>usAccepted := b\<rparr>) = body_from p post s" "body_from p post (s\<lparr>usPlan := q\<rparr>) = body_from p post s"
  by (simp_all add: body_from_def)

lemma body_from_step:
  assumes "body_from p post s" "usAccepted s" "\<not> usClosed s \<longrightarrow> usFault s = None \<and> \<not> usEnded s"
  shows "body_from p (post @ [e]) (socket_step e s)"
proof (cases e)
  case (TextFrame msg)
  show ?thesis
  proof (cases "usClosed s")
    case True
    with body_from_more [OF assms(1)] TextFrame show ?thesis by simp
  next
    case False
    then have s: "\<not> usClosed s" "usFault s = None" "\<not> usEnded s" using assms(3) by auto
    have keep: "body_from p (post @ [TextFrame msg]) s" by (rule body_from_more [OF assms(1)]) simp
    have fail: "body_from p (post @ [TextFrame msg]) (failBody bad_message s)" by (rule body_from_fail [OF assms(1)]) (use s in simp)
    have fin: "says_end msg \<Longrightarrow> body_from p (post @ [TextFrame msg]) (s\<lparr>usClosed := True, usEnded := True\<rparr>)"
      by (rule body_from_end [OF assms(1) s(1,2)])
    have "body_from p (post @ [TextFrame msg]) (later_text msg s)"
      unfolding later_text_def using keep fail fin by (auto simp: says_end_def body_from_flags split: option.splits js.splits)
    with TextFrame s assms(2) show ?thesis by simp
  qed
next
  case (BinaryFrame chunk)
  then show ?thesis using assms body_from_chunk [OF assms(1), of chunk] body_from_more [OF assms(1), of "BinaryFrame chunk"] by auto
next
  case (SocketFault err)
  then show ?thesis using body_from_fail [OF assms(1), of "SocketFault err" err] assms(3) by auto
next
  case SocketGone
  then show ?thesis
    using body_from_fail [OF assms(1), of SocketGone] body_from_more [OF assms(1), of SocketGone] assms(3) by auto
next
  case BodyRead
  then show ?thesis using body_from_more [OF assms(1), of BodyRead] by (simp add: body_from_flags)
qed

lemma later_fields: "usPlan (later_text msg s) = usPlan s" "usAccepted (later_text msg s) = usAccepted s"
  by (auto simp: later_text_def failBody_def split: option.split js.split)

lemma step_fields: "usAccepted s \<Longrightarrow> usPlan (socket_step e s) = usPlan s \<and> usAccepted (socket_step e s)"
  by (cases e) (auto simp: later_fields failBody_def)

lemma step_closed: "\<not> usClosed s \<longrightarrow> usFault s = None \<and> \<not> usEnded s \<Longrightarrow>
    \<not> usClosed (socket_step e s) \<longrightarrow> usFault (socket_step e s) = None \<and> \<not> usEnded (socket_step e s)"
  by (cases e) (auto simp: later_text_def first_text_def failBody_def split: option.splits js.splits)

lemma step_first:
  assumes "\<not> usAccepted s" "usPlan s = None" "usBody s = []" "\<not> usEnded s"
  shows "usBody (socket_step e s) = []" "\<not> usEnded (socket_step e s)"
    "\<not> usAccepted (socket_step e s) \<longrightarrow> usPlan (socket_step e s) = None"
    "usPlan (socket_step e s) = Some p \<Longrightarrow> \<exists>msg. e = TextFrame msg \<and> start_of msg = Some (Some p)"
proof -
  show "usBody (socket_step e s) = []" "\<not> usEnded (socket_step e s)" "\<not> usAccepted (socket_step e s) \<longrightarrow> usPlan (socket_step e s) = None"
    using assms by (cases e; auto simp: first_text_def failBody_def split: option.splits js.splits)+
  assume "usPlan (socket_step e s) = Some p"
  then show "\<exists>msg. e = TextFrame msg \<and> start_of msg = Some (Some p)"
    using assms by (cases e) (auto simp: first_text_def start_of_def failBody_def split: option.splits js.splits if_splits)
qed

lemma socket_run_snoc: "socket_run (evs @ [e]) = socket_step e (socket_run evs)"
  by (simp add: socket_run_def)

lemma socket_run_ok: "socket_ok evs (socket_run evs)"
proof (induction evs rule: rev_induct)
  case Nil
  show ?case by (simp add: socket_ok_def socket_run_def fresh_socket_def)
next
  case (snoc e evs)
  let ?s = "socket_run evs" and ?t = "socket_step e (socket_run evs)"
  have closed: "\<not> usClosed ?s \<longrightarrow> usFault ?s = None \<and> \<not> usEnded ?s" using snoc by (simp add: socket_ok_def)
  show ?case
  proof (cases "usAccepted ?s")
    case True
    have plans: "\<exists>pre msg post. evs @ [e] = pre @ TextFrame msg # post \<and> start_of msg = Some (Some p) \<and> body_from p post ?t"
      if plan: "usPlan ?t = Some p" for p
    proof -
      from plan step_fields [OF True] have "usPlan ?s = Some p" by simp
      with snoc obtain pre msg post where m: "evs = pre @ TextFrame msg # post" "start_of msg = Some (Some p)" "body_from p post ?s"
        unfolding socket_ok_def by blast
      show ?thesis
        by (rule exI [of _ pre], rule exI [of _ msg], rule exI [of _ "post @ [e]"])
          (use m body_from_step [OF m(3) True closed] in simp)
    qed
    show ?thesis
      unfolding socket_run_snoc socket_ok_def using plans step_closed [OF closed] step_fields [OF True] by blast
  next
    case False
    then have first: "usPlan ?s = None" "usBody ?s = []" "\<not> usEnded ?s" using snoc by (auto simp: socket_ok_def)
    note st = step_first [OF False first]
    have plans: "\<exists>pre msg post. evs @ [e] = pre @ TextFrame msg # post \<and> start_of msg = Some (Some p) \<and> body_from p post ?t"
      if plan: "usPlan ?t = Some p" for p
    proof -
      obtain msg where "e = TextFrame msg" "start_of msg = Some (Some p)" using st(4) [OF plan] by blast
      then show ?thesis using st(1,2) [of e] by (intro exI [of _ evs] exI [of _ msg] exI [of _ "[]"]) (simp add: body_from_def)
    qed
    show ?thesis
      unfolding socket_run_snoc socket_ok_def using plans step_closed [OF closed] st(1-3) by blast
  qed
qed

text \<open>
  C40: Whatever arrives on the socket, once an upload has its plan there was a message that announced exactly
  this plan, and the body is what the binary messages after it brought, in their order, without
  those after its end.  The body ends without an error only at a message that says so: a
  connection that breaks is never taken for the end of the file.
\<close>

theorem socket_body_exact:
  assumes "usPlan (socket_run evs) = Some p"
  shows "\<exists>pre msg post. evs = pre @ TextFrame msg # post \<and> start_of msg = Some (Some p)
    \<and> prefix (usBody (socket_run evs)) (concat (map frame_bytes post))
    \<and> (usEnded (socket_run evs) \<longrightarrow> usFault (socket_run evs) = None
         \<and> (\<exists>mid en rest. post = mid @ TextFrame en # rest \<and> says_end en \<and> usBody (socket_run evs) = concat (map frame_bytes mid)))"
proof -
  obtain pre msg post where "evs = pre @ TextFrame msg # post" "start_of msg = Some (Some p)" "body_from p post (socket_run evs)"
    using socket_run_ok [of evs] assms unfolding socket_ok_def by blast
  then show ?thesis unfolding body_from_def by blast
qed

definition with_quotes :: "string \<Rightarrow> string" where
  "with_quotes s = replace_char CHR ''~'' [dquote] s"

definition demo_frames :: "socket_event list" where
  "demo_frames =
     [TextFrame (with_quotes ''{~type~:~start~,~size~:6,~offset~:0}''), BodyRead, BinaryFrame ''abc'', BinaryFrame ''def'',
      TextFrame (with_quotes ''{~type~:~end~}''), BinaryFrame ''x'', SocketGone]"

lemma demo_frames_run:
  "usPlan (socket_run demo_frames) = Some \<lparr>uaSize = 6, uaOffset = 0, uaPrefix = None\<rparr>" "usBody (socket_run demo_frames) = ''abcdef''"
  "usEnded (socket_run demo_frames)"
  by code_simp+

theorem socket_body_exact_witness:
  "\<exists>pre msg post. demo_frames = pre @ TextFrame msg # post \<and> prefix ''abcdef'' (concat (map frame_bytes post))
    \<and> (\<exists>mid en rest. post = mid @ TextFrame en # rest \<and> says_end en \<and> ''abcdef'' = concat (map frame_bytes mid))"
  using socket_body_exact [OF demo_frames_run(1), unfolded demo_frames_run(2)] demo_frames_run(3) by blast

section \<open>An honest client\<close>

lemma first_text_object:
  assumes "JSON_parse msg = Some v" "v \<noteq> JNull"
  shows "first_text msg s =
    (if js_field v ''type'' \<noteq> JStr ''start'' then s
     else (case start_plan v of
             None \<Rightarrow> failBody bad_plan s
           | Some None \<Rightarrow> s\<lparr>usAccepted := True, usUncaught := True\<rparr>
           | Some (Some plan) \<Rightarrow> s\<lparr>usAccepted := True, usPlan := Some plan\<rparr>))"
  unfolding first_text_def assms(1) option.case by (rule js.split [THEN iffD2]) (use assms(2) in simp)

lemma start_runs:
  assumes "start_of msg = Some (Some p)"
  shows "usAccepted (socket_run (TextFrame msg # post)) \<and> usPlan (socket_run (TextFrame msg # post)) = Some p
    \<and> body_from p post (socket_run (TextFrame msg # post))"
proof (induction post rule: rev_induct)
  case Nil
  obtain v where v: "JSON_parse msg = Some v" "js_field v ''type'' = JStr ''start''" "start_plan v = Some (Some p)"
    using assms by (auto simp: start_of_def split: option.splits if_splits)
  then have "v \<noteq> JNull" by (auto simp: js_field_def)
  then have "first_text msg fresh_socket = fresh_socket\<lparr>usAccepted := True, usPlan := Some p\<rparr>"
    using first_text_object [OF v(1), of fresh_socket] by (simp add: v(2,3))
  then show ?case by (simp add: socket_run_def fresh_socket_def body_from_def)
next
  case (snoc e post)
  let ?s = "socket_run (TextFrame msg # post)"
  have run: "socket_run (TextFrame msg # post @ [e]) = socket_step e ?s"
    using socket_run_snoc [of "TextFrame msg # post" e] by simp
  have c: "\<not> usClosed ?s \<longrightarrow> usFault ?s = None \<and> \<not> usEnded ?s" using socket_run_ok [of "TextFrame msg # post"] by (simp add: socket_ok_def)
  from snoc have s: "usAccepted ?s" "usPlan ?s = Some p" "body_from p post ?s" by simp_all
  show ?case
    unfolding run using step_fields [OF s(1)] s(2) body_from_step [OF s(3,1) c] by simp
qed

text \<open>
  A client that announces the file and sends what is left of it, however its connection ends, makes an attempt in
  the sense of \<open>upload_never_half\<close>.
\<close>

lemma honest_socket_attempt:
  assumes "start_of msg = Some (Some p)" "uaSize p = int (length F)"
    and "prefix (concat (map frame_bytes post)) (drop (nat (uaOffset p)) F)"
    and "resolveGuestPath (if raw = [] then ''/'' else raw) None = Inr path"
  shows "attempt_for path F \<lparr>uqPath = raw, uqBody = Some (socket_body (socket_run (TextFrame msg # post))), uqExpected = Some (uaSize p),
    uqOffset = uaOffset p, uqPrefix = opt_text (uaPrefix p)\<rparr>"
proof -
  have "prefix (usBody (socket_run (TextFrame msg # post))) (concat (map frame_bytes post))"
    using start_runs [OF assms(1)] by (simp add: body_from_def)
  with assms(3) have "prefix (usBody (socket_run (TextFrame msg # post))) (drop (nat (uaOffset p)) F)"
    using prefix_order.trans by blast
  with assms(2,4) show ?thesis by (auto simp: attempt_for_def sends_rest_def socket_body_def split: if_splits)
qed

text \<open>
  A socket that is gone before the upload reads its body fails the body while nothing listens for its errors, and a
  message that is \<open>null\<close> throws out of the listener.
\<close>

lemma early_close_uncaught: "usUncaught (socket_run [SocketGone])"
  by code_simp

lemma null_message_uncaught: "usUncaught (socket_run [TextFrame ''null''])"
  by code_simp

section \<open>Who may\<close>

definition socket_granted :: "session_user \<Rightarrow> int \<Rightarrow> file_server \<Rightarrow> guest_transfer_ticket \<Rightarrow> bool" where
  "socket_granted user now st ticket \<longleftrightarrow>
     userHasPermission (Some (holder_of user)) (guestFilePermission (tkKind ticket) FileWrite) (Some (tkHostId ticket))
       (Some \<lparr>refHostId = tkHostId ticket, refKind = tkKind ticket, refVmid = tkVmid ticket\<rparr>)
     \<and> canAccessGuest user (tkHostId ticket) (tkKind ticket) (tkVmid ticket)
     \<and> ticket \<in> snd ` set (fsTickets st) \<and> tkUserId ticket = suId user \<and> tkMode ticket = ''upload'' \<and> now < tkExpiresAt ticket"

lemma gate_keeps_streams: "fsStreams (snd (socket_gate pf new_url env address now req st)) = fsStreams st"
  by (auto simp: socket_gate_def Let_def split: prod.split sum.split option.split)

lemma gate_grants:
  assumes "socket_gate pf new_url env address now req st = (Inr (user, ticket), st1)"
  shows "isGuestFileUploadWsPath (fst (address (nrUrl req)))
    \<and> isAllowedOrigin new_url env (header_request req) (or_empty (map_of (nrHeaders req) ''origin''))
    \<and> (\<exists>token session. cookieValue req SESSION_COOKIE = Inr token \<and> fst (getSessionFromToken pf now token (fsServer st)) = Some session
         \<and> user = asUser session)
    \<and> socket_granted user now st ticket"
  using assms
  by (auto simp: socket_gate_def socket_granted_def Let_def userHasAnyPermission_def assertGuestAccess_def
      split: prod.splits sum.splits option.splits if_splits dest!: take_ticket intro!: rev_image_eqI)

text \<open>
  C39: A WebSocket starts at most one upload, and only when its address and origin are right, its cookie carries a
  live session, and the ticket was issued to that user for an upload and has not expired; the user may write the files
  of the guest of the ticket and see that guest.  The upload goes to the host of the ticket, with the plan that the
  client announced.
\<close>

theorem socket_upload_needs_grant:
  "case handleUploadSocket pf new_url env address stream now req plan st of (answers, st') \<Rightarrow>
     fsStreams st' = fsStreams st
     \<or> (\<exists>token session ticket p. isGuestFileUploadWsPath (fst (address (nrUrl req)))
         \<and> isAllowedOrigin new_url env (header_request req) (or_empty (map_of (nrHeaders req) ''origin''))
         \<and> cookieValue req SESSION_COOKIE = Inr token
         \<and> fst (getSessionFromToken pf now token (fsServer st)) = Some session
         \<and> socket_granted (asUser session) now st ticket \<and> plan = Inr p
         \<and> fsStreams st' = fsStreams st
              @ [UploadCall (tkHostId ticket) ticket None \<lparr>planOffset = uaOffset p, planSize = Some (uaSize p)\<rparr> (uaPrefix p)])"
proof -
  obtain r st1 where gate: "socket_gate pf new_url env address now req st = (r, st1)"
    by (cases "socket_gate pf new_url env address now req st")
  have same: "fsStreams st1 = fsStreams st"
    using gate_keeps_streams [of pf new_url env address now req st] gate by simp
  show ?thesis
  proof (cases r)
    case (Inl a)
    with gate same show ?thesis by (simp add: handleUploadSocket_def)
  next
    case (Inr ut)
    obtain user ticket where ut: "ut = (user, ticket)" by (cases ut)
    from gate_grants [OF gate [unfolded Inr ut]] obtain token session where
      granted: "isGuestFileUploadWsPath (fst (address (nrUrl req)))"
        "isAllowedOrigin new_url env (header_request req) (or_empty (map_of (nrHeaders req) ''origin''))"
        "cookieValue req SESSION_COOKIE = Inr token" "fst (getSessionFromToken pf now token (fsServer st)) = Some session"
        "user = asUser session" "socket_granted user now st ticket" by blast
    have run: "handleUploadSocket pf new_url env address stream now req plan st = serve_upload stream user ticket plan st1"
      by (simp add: handleUploadSocket_def gate Inr ut)
    have "fsStreams (snd (serve_upload stream user ticket plan st1)) = fsStreams st1
        \<or> (\<exists>p. plan = Inr p \<and> fsStreams (snd (serve_upload stream user ticket plan st1)) = fsStreams st1
             @ [UploadCall (tkHostId ticket) ticket None \<lparr>planOffset = uaOffset p, planSize = Some (uaSize p)\<rparr> (uaPrefix p)])"
      by (auto simp: serve_upload_def Let_def transfer_audit_def split: sum.split prod.split dest!: host_or_throw)
    with granted same show ?thesis unfolding run by (auto simp: case_prod_unfold)
  qed
qed

end
